(* ===== verification/Bridge_Prelude.thy ===== *)
theory Bridge_Prelude
  imports Main "HOL-Library.Char_ord" "HOL-Library.List_Lexorder" "HOL-Library.Sublist"
begin

text \<open>
  Shared vocabulary of the development: the Python values the bridge passes around
  (\<open>dict[str, object]\<close> trees), exceptions as values of a sum type, insertion-ordered
  dictionaries as association lists, decimal and hexadecimal printing, and the generic
  lemmas on sorted keyed lists that the components use.

  A Python \<open>str\<close> is modelled by its UTF-8 bytes (\<^typ>\<open>string\<close>): UTF-8 preserves the
  code point order, so sorting and comparing agree with Python; lone surrogates, which
  have no UTF-8 form, are outside the model.
\<close>

section \<open>Collections of facts\<close>

named_theorems result_simps \<open>unfolding rules of the error monad\<close>
named_theorems dict_simps \<open>lookup laws of the dictionary operations\<close>

section \<open>Exceptions as values\<close>

datatype pyerror =
    KeyErr string
  | ValueErr string
  | TypeErr
  | InvalidCanonicalValue string
  | ZulipOperationErr string bool
  | DatabaseErr string
  | AttributeErr

type_synonym 'a result = "pyerror + 'a"

definition bindE :: "'a result \<Rightarrow> ('a \<Rightarrow> 'b result) \<Rightarrow> 'b result" where
  "bindE m f = (case m of Inl e \<Rightarrow> Inl e | Inr x \<Rightarrow> f x)"

lemma bindE_simps [simp, result_simps]:
  "bindE (Inl e) f = Inl e"
  "bindE (Inr x) f = f x"
  by (simp_all add: bindE_def)

lemma bindE_eq_Inr [result_simps]:
  "bindE m f = Inr y \<longleftrightarrow> (\<exists>x. m = Inr x \<and> f x = Inr y)"
  by (cases m) simp_all

lemma bindE_eq_Inl [result_simps]:
  "bindE m f = Inl e \<longleftrightarrow> m = Inl e \<or> (\<exists>x. m = Inr x \<and> f x = Inl e)"
  by (cases m) simp_all

lemma bindE_assoc: "bindE (bindE m f) g = bindE m (\<lambda>x. bindE (f x) g)"
  by (cases m) simp_all

text \<open>A guard raises when its condition fails; \<open>mapE\<close> is a loop whose body may raise.\<close>

definition guardE :: "bool \<Rightarrow> pyerror \<Rightarrow> unit result" where
  "guardE b e = (if b then Inr () else Inl e)"

lemma guardE_eq_Inr [simp, result_simps]: "guardE b e = Inr u \<longleftrightarrow> b"
  by (simp add: guardE_def)

lemma guardE_eq_Inl [simp, result_simps]: "guardE b e = Inl e' \<longleftrightarrow> \<not> b \<and> e' = e"
  by (auto simp: guardE_def)

fun mapE :: "('a \<Rightarrow> 'b result) \<Rightarrow> 'a list \<Rightarrow> 'b list result" where
  "mapE f [] = Inr []"
| "mapE f (x # xs) = bindE (f x) (\<lambda>y. bindE (mapE f xs) (\<lambda>ys. Inr (y # ys)))"

lemma mapE_Inr_iff: "mapE f xs = Inr ys \<longleftrightarrow> list_all2 (\<lambda>x y. f x = Inr y) xs ys"
  by (induction xs arbitrary: ys) (auto simp: bindE_eq_Inr list_all2_Cons1)

lemma mapE_Inr_length: "mapE f xs = Inr ys \<Longrightarrow> length ys = length xs"
  by (auto simp: mapE_Inr_iff dest: list_all2_lengthD)

lemma mapE_cong [fundef_cong]: "xs = ys \<Longrightarrow> (\<And>x. x \<in> set ys \<Longrightarrow> f x = g x) \<Longrightarrow> mapE f xs = mapE g ys"
  by (induction ys arbitrary: xs) auto

lemma mapE_total: "(\<And>x. x \<in> set xs \<Longrightarrow> f x = Inr (g x)) \<Longrightarrow> mapE f xs = Inr (map g xs)"
  by (induction xs) auto

fun foldE :: "('b \<Rightarrow> 'a \<Rightarrow> 'b result) \<Rightarrow> 'b \<Rightarrow> 'a list \<Rightarrow> 'b result" where
  "foldE f acc [] = Inr acc"
| "foldE f acc (x # xs) = bindE (f acc x) (\<lambda>acc'. foldE f acc' xs)"

lemma foldE_invariant:
  assumes "foldE f acc xs = Inr r" and "P acc"
    and "\<And>a x b. x \<in> set xs \<Longrightarrow> P a \<Longrightarrow> f a x = Inr b \<Longrightarrow> P b"
  shows "P r"
  using assms
proof (induction xs arbitrary: acc)
  case Nil
  then show ?case by simp
next
  case (Cons x xs)
  from Cons.prems(1) obtain b where b: "f acc x = Inr b" and r: "foldE f b xs = Inr r"
    by (auto simp: bindE_eq_Inr)
  have "P b" using Cons.prems(3) [of x acc b] Cons.prems(2) b by simp
  with r show ?case using Cons.prems(3) by (intro Cons.IH [of b]) auto
qed

section \<open>Python values\<close>

text \<open>
  \<open>VFloat\<close> carries the text Python prints for the float, \<open>VBadKeys\<close> is a dict with a
  key that is not a string, \<open>VOther\<close> any further object (bytes, tuples, datetimes).
\<close>

datatype pyval =
    VNone
  | VBool bool
  | VInt int
  | VFloat string
  | VStr string
  | VList "pyval list"
  | VDict "(string \<times> pyval) list"
  | VBadKeys
  | VOther

type_synonym dict = "(string \<times> pyval) list"
type_synonym uuid = string
type_synonym timestamp = int

fun is_str :: "pyval \<Rightarrow> bool" where
  "is_str (VStr _) = True"
| "is_str _ = False"

text \<open>\<open>isinstance(v, int)\<close> holds for booleans too; \<open>type(v) is int\<close> does not.\<close>

fun is_int :: "pyval \<Rightarrow> bool" where
  "is_int (VInt _) = True"
| "is_int (VBool _) = True"
| "is_int _ = False"

fun is_list :: "pyval \<Rightarrow> bool" where
  "is_list (VList _) = True"
| "is_list _ = False"

fun is_dict :: "pyval \<Rightarrow> bool" where
  "is_dict (VDict _) = True"
| "is_dict VBadKeys = True"
| "is_dict _ = False"

text \<open>Python's truth value.\<close>

fun truthy :: "pyval \<Rightarrow> bool" where
  "truthy VNone = False"
| "truthy (VBool b) = b"
| "truthy (VInt i) = (i \<noteq> 0)"
| "truthy (VFloat s) = (s \<notin> {''0.0'', ''-0.0''})"
| "truthy (VStr s) = (s \<noteq> [])"
| "truthy (VList xs) = (xs \<noteq> [])"
| "truthy (VDict kvs) = (kvs \<noteq> [])"
| "truthy VBadKeys = True"
| "truthy VOther = True"

section \<open>Dictionaries: insertion-ordered association lists\<close>

text \<open>Assigning an existing key keeps its position; a new key goes last.\<close>

fun dict_set :: "'k \<Rightarrow> 'v \<Rightarrow> ('k \<times> 'v) list \<Rightarrow> ('k \<times> 'v) list" where
  "dict_set k v [] = [(k, v)]"
| "dict_set k v ((k', v') # d) = (if k = k' then (k, v) # d else (k', v') # dict_set k v d)"

definition dict_update :: "('k \<times> 'v) list \<Rightarrow> ('k \<times> 'v) list \<Rightarrow> ('k \<times> 'v) list" where
  "dict_update d e = fold (\<lambda>(k, v). dict_set k v) e d"

definition dict_del :: "'k \<Rightarrow> ('k \<times> 'v) list \<Rightarrow> ('k \<times> 'v) list" where
  "dict_del k d = filter (\<lambda>(k', _). k' \<noteq> k) d"

text \<open>\<open>d.get(k)\<close> answers \<open>None\<close> for a missing key, \<open>d[k]\<close> raises \<open>KeyError\<close>.\<close>

definition get_val :: "dict \<Rightarrow> string \<Rightarrow> pyval" where
  "get_val d k = (case map_of d k of None \<Rightarrow> VNone | Some v \<Rightarrow> v)"

definition item :: "dict \<Rightarrow> string \<Rightarrow> pyval result" where
  "item d k = (case map_of d k of None \<Rightarrow> Inl (KeyErr k) | Some v \<Rightarrow> Inr v)"

lemma map_of_dict_set [simp, dict_simps]: "map_of (dict_set k v d) = (map_of d)(k \<mapsto> v)"
  by (induction d) (auto simp: fun_eq_iff)

lemma keys_dict_set: "fst ` set (dict_set k v d) = insert k (fst ` set d)"
  using dom_map_of_conv_image_fst [of "dict_set k v d"] dom_map_of_conv_image_fst [of d] by simp

lemma distinct_dict_set [intro]: "distinct (map fst d) \<Longrightarrow> distinct (map fst (dict_set k v d))"
proof (induction d)
  case Nil
  then show ?case by simp
next
  case (Cons p d)
  obtain k' v' where p: "p = (k', v')" by (cases p)
  have "set (map fst (dict_set k v d)) = insert k (fst ` set d)"
    using keys_dict_set [of k v d] by simp
  with Cons p show ?case by auto
qed

lemma map_of_dict_update [simp, dict_simps]: "map_of (dict_update d e) = map_of d ++ map_of (rev e)"
proof (induction e arbitrary: d)
  case Nil
  then show ?case by (simp add: dict_update_def)
next
  case (Cons p e)
  then show ?case
    by (cases p) (auto simp: dict_update_def fun_eq_iff map_add_def split: option.splits)
qed

lemma map_of_dict_update_distinct:
  "distinct (map fst e) \<Longrightarrow> map_of (dict_update d e) = map_of d ++ map_of e"
proof -
  assume "distinct (map fst e)"
  then have "map_of (rev e) = map_of e" 
    by (subst map_of_inject_set) (simp_all add: rev_map [symmetric])
  then show ?thesis by simp
qed

lemma distinct_dict_update [intro]:
  "distinct (map fst d) \<Longrightarrow> distinct (map fst (dict_update d e))"
  unfolding dict_update_def by (induction e arbitrary: d) auto

lemma map_of_dict_del [simp, dict_simps]: "map_of (dict_del k d) = (map_of d)(k := None)"
  unfolding dict_del_def by (induction d) (auto simp: fun_eq_iff)

lemma get_val_simps [simp, dict_simps]:
  "map_of d k = Some v \<Longrightarrow> get_val d k = v"
  "map_of d k = None \<Longrightarrow> get_val d k = VNone"
  by (simp_all add: get_val_def)

lemma item_eq_Inr [simp, dict_simps]: "item d k = Inr v \<longleftrightarrow> map_of d k = Some v"
  by (auto simp: item_def split: option.splits)

section \<open>Keyed values in key order\<close>

text \<open>The idiom \<open>[d[k] for k in sorted(d)]\<close>.\<close>

definition values_by_key :: "('k::linorder \<times> 'v) list \<Rightarrow> 'v list" where
  "values_by_key d = map (\<lambda>k. the (map_of d k)) (sort (map fst d))"

lemma sort_keys_determined:
  assumes "distinct (map fst d)" and "distinct (map fst e)" and "map_of d = map_of e"
  shows "sort (map fst d) = sort (map fst e)"
proof -
  have "set (map fst d) = set (map fst e)"
    using assms(3) by (metis dom_map_of_conv_image_fst set_map)
  with assms(1,2) show ?thesis
    by (intro sorted_distinct_set_unique) simp_all
qed

lemma values_by_key_determined:
  assumes "distinct (map fst d)" and "distinct (map fst e)" and "map_of d = map_of e"
  shows "values_by_key d = values_by_key e"
  using sort_keys_determined [OF assms] assms(3) by (simp add: values_by_key_def)

end
