(* ===== verification/Python_Strings.thy ===== *)
theory Python_Strings
  imports Bridge_Prelude
begin

text \<open>
  The string and number functions of the Python standard library that the bridge uses:
  \<open>str\<close> of a value, \<open>int(s, base)\<close>, \<open>split\<close>, \<open>join\<close>, \<open>startswith\<close>, \<open>replace\<close>,
  \<open>strip\<close>, and the \<open>uuid.UUID\<close> constructor with its canonical text. The lemmas are
  the round trips between printing and reading.
\<close>

section \<open>Printing and reading numbers\<close>

definition digit_char :: "nat \<Rightarrow> char" where
  "digit_char n = (if n < 10 then char_of (48 + n) else char_of (87 + n))"

fun show_base :: "nat \<Rightarrow> nat \<Rightarrow> string" where
  "show_base b n =
     (if b < 2 \<or> n < b then [digit_char n] else show_base b (n div b) @ [digit_char (n mod b)])"

declare show_base.simps [simp del]

abbreviation show_nat :: "nat \<Rightarrow> string" where
  "show_nat \<equiv> show_base 10"

definition show_int :: "int \<Rightarrow> string" where
  "show_int i = (if i < 0 then CHR ''-'' # show_nat (nat (- i)) else show_nat (nat i))"

text \<open>The value of a digit: letters in either case count from ten.\<close>

definition digit_val :: "char \<Rightarrow> nat option" where
  "digit_val c =
     (let n = of_char c :: nat
      in if 48 \<le> n \<and> n \<le> 57 then Some (n - 48)
         else if 97 \<le> n \<and> n \<le> 122 then Some (n - 87)
         else if 65 \<le> n \<and> n \<le> 90 then Some (n - 55)
         else None)"

text \<open>Digits with single underscores between them, as \<open>int\<close> reads them.\<close>

fun read_digits :: "nat \<Rightarrow> bool \<Rightarrow> nat \<Rightarrow> string \<Rightarrow> nat option" where
  "read_digits b prev acc [] = (if prev then Some acc else None)"
| "read_digits b prev acc (c # cs) =
     (if c = CHR ''_'' then (if prev then read_digits b False acc cs else None)
      else case digit_val c of
        None \<Rightarrow> None
      | Some d \<Rightarrow> if d < b then read_digits b True (acc * b + d) cs else None)"

definition is_space :: "char \<Rightarrow> bool" where
  "is_space c = (let n = of_char c :: nat in (9 \<le> n \<and> n \<le> 13) \<or> (28 \<le> n \<and> n \<le> 32))"

definition strip_by :: "(char \<Rightarrow> bool) \<Rightarrow> string \<Rightarrow> string" where
  "strip_by p s = rev (dropWhile p (rev (dropWhile p s)))"

abbreviation strip :: "string \<Rightarrow> string" where
  "strip \<equiv> strip_by is_space"

definition unsigned_int :: "nat \<Rightarrow> string \<Rightarrow> nat option" where
  "unsigned_int b s =
     (if b = 16 \<and> (take 2 s = ''0x'' \<or> take 2 s = ''0X'')
      then read_digits b False 0 (if take 1 (drop 2 s) = ''_'' then drop 3 s else drop 2 s)
      else read_digits b False 0 s)"

definition py_int :: "nat \<Rightarrow> string \<Rightarrow> int option" where
  "py_int b s =
     (case strip s of
        [] \<Rightarrow> None
      | c # cs \<Rightarrow>
          if c = CHR ''-'' then map_option (\<lambda>n. - int n) (unsigned_int b cs)
          else if c = CHR ''+'' then map_option int (unsigned_int b cs)
          else map_option int (unsigned_int b (c # cs)))"

lemma digit_val_digit_char [simp]: "n < 36 \<Longrightarrow> digit_val (digit_char n) = Some n"
  by (auto simp: digit_val_def digit_char_def Let_def)

lemma digit_char_eval [simp]:
  "digit_char 0 = CHR ''0''"
  "digit_char (Suc 0) = CHR ''1''"
  "digit_char 2 = CHR ''2''"
  "digit_char 3 = CHR ''3''"
  "digit_char 4 = CHR ''4''"
  "digit_char 5 = CHR ''5''"
  "digit_char 6 = CHR ''6''"
  "digit_char 7 = CHR ''7''"
  "digit_char 8 = CHR ''8''"
  "digit_char 9 = CHR ''9''"
  "digit_char 10 = CHR ''a''"
  "digit_char 11 = CHR ''b''"
  "digit_char 12 = CHR ''c''"
  "digit_char 13 = CHR ''d''"
  "digit_char 14 = CHR ''e''"
  "digit_char 15 = CHR ''f''"
  by (simp_all add: digit_char_def char_of_def bit_0)

lemma digit_char_bounds:
  "n < 36 \<Longrightarrow> (48 \<le> (of_char (digit_char n) :: nat) \<and> (of_char (digit_char n) :: nat) \<le> 57)
     \<or> (97 \<le> (of_char (digit_char n) :: nat) \<and> (of_char (digit_char n) :: nat) \<le> 122)"
  by (auto simp: digit_char_def)

lemma digit_char_inj: "m < 36 \<Longrightarrow> n < 36 \<Longrightarrow> digit_char m = digit_char n \<Longrightarrow> m = n"
  by (metis digit_val_digit_char option.inject)

lemma digit_char_special [simp]:
  assumes "n < 36"
  shows "digit_char n \<noteq> CHR ''_''" and "digit_char n \<noteq> CHR ''-''" and "digit_char n \<noteq> CHR ''+''"
    and "\<not> is_space (digit_char n)"
  using digit_char_bounds [OF assms] by (auto simp: is_space_def Let_def)

lemma show_base_digits:
  "2 \<le> b \<Longrightarrow> c \<in> set (show_base b n) \<Longrightarrow> \<exists>d < b. c = digit_char d"
proof (induction b n rule: show_base.induct)
  case (1 b n)
  show ?case
  proof (cases "n < b")
    case True
    with "1.prems" show ?thesis by (auto simp: show_base.simps [of b n])
  next
    case False
    with "1.prems" consider "c \<in> set (show_base b (n div b))" | "c = digit_char (n mod b)"
      by (auto simp: show_base.simps [of b n])
    then show ?thesis
    proof cases
      case 1
      with "1.IH" "1.prems"(1) False show ?thesis by simp
    next
      case 2
      moreover have "n mod b < b" using "1.prems"(1) by simp
      ultimately show ?thesis by blast
    qed
  qed
qed

lemma show_base_nonempty [simp]: "show_base b n \<noteq> []"
  by (subst show_base.simps) simp

lemma read_digits_show_base:
  "2 \<le> b \<Longrightarrow> b \<le> 36 \<Longrightarrow>
   read_digits b p acc (show_base b n @ s)
     = read_digits b True (acc * b ^ length (show_base b n) + n) s"
proof (induction b n arbitrary: p s rule: show_base.induct)
  case (1 b n)
  show ?case
  proof (cases "n < b")
    case True
    with "1.prems" show ?thesis by (simp add: show_base.simps [of b n])
  next
    case False
    have d: "n mod b < b" "n mod b < 36" using "1.prems" by (auto intro: less_le_trans [OF mod_less_divisor])
    have "read_digits b p acc (show_base b n @ s)
        = read_digits b p acc (show_base b (n div b) @ digit_char (n mod b) # s)"
      using False "1.prems" by (simp add: show_base.simps [of b n])
    also have "\<dots> = read_digits b True (acc * b ^ length (show_base b (n div b)) + n div b)
        (digit_char (n mod b) # s)"
      using "1.IH" False "1.prems" by simp
    also have "\<dots> = read_digits b True
        ((acc * b ^ length (show_base b (n div b)) + n div b) * b + n mod b) s"
      using d "1.prems" by simp
    also have "(acc * b ^ length (show_base b (n div b)) + n div b) * b + n mod b
        = acc * b ^ length (show_base b n) + n"
      using False "1.prems" by (simp add: show_base.simps [of b n] algebra_simps)
    finally show ?thesis .
  qed
qed

lemma read_show_base: "2 \<le> b \<Longrightarrow> b \<le> 36 \<Longrightarrow> read_digits b False 0 (show_base b n) = Some n"
  using read_digits_show_base [of b False 0 n "[]"] by simp

lemma show_base_inj: "2 \<le> b \<Longrightarrow> b \<le> 36 \<Longrightarrow> show_base b m = show_base b n \<Longrightarrow> m = n"
  by (metis option.inject read_show_base)

lemma show_base_char_notin:
  assumes "2 \<le> b" and "b \<le> 36" and "\<And>d. d < 36 \<Longrightarrow> digit_char d \<noteq> c"
  shows "c \<notin> set (show_base b n)"
  using show_base_digits [OF assms(1), of c n] assms(2) assms(3) [THEN not_sym]
  by (meson less_le_trans)

lemma strip_by_id: "\<forall>c \<in> set s. \<not> p c \<Longrightarrow> strip_by p s = s"
proof -
  assume *: "\<forall>c \<in> set s. \<not> p c"
  then have "dropWhile p s = s" and "dropWhile p (rev s) = rev s"
    by (auto simp: dropWhile_eq_self_iff hd_rev)
  then show ?thesis by (simp add: strip_by_def)
qed

lemma show_base_not_space: "2 \<le> b \<Longrightarrow> b \<le> 36 \<Longrightarrow> \<forall>c \<in> set (show_base b n). \<not> is_space c"
proof
  fix c
  assume "2 \<le> b" and "b \<le> 36" and "c \<in> set (show_base b n)"
  then obtain d where "d < 36" and "c = digit_char d"
    using show_base_digits [of b c n] by (meson less_le_trans)
  then show "\<not> is_space c" by simp
qed

lemma unsigned_show_nat [simp]: "unsigned_int 10 (show_nat n) = Some n"
  by (simp add: unsigned_int_def read_show_base)

lemma show_nat_hd:
  obtains c cs where "show_nat n = c # cs" and "c \<noteq> CHR ''-''" and "c \<noteq> CHR ''+''"
proof -
  obtain c cs where c: "show_nat n = c # cs"
    using show_base_nonempty [of 10 n] by (cases "show_nat n") auto
  then obtain d where "d < 10" and "c = digit_char d"
    using show_base_digits [of 10 c n] by auto
  with c show ?thesis using that by simp
qed

theorem py_int_show_int [simp]: "py_int 10 (show_int i) = Some i"
proof (cases "i < 0")
  case True
  have "strip (show_int i) = show_int i"
    using True show_base_not_space [of 10 "nat (- i)"]
    by (intro strip_by_id) (auto simp: show_int_def is_space_def)
  with True show ?thesis by (simp add: py_int_def show_int_def)
next
  case False
  obtain c cs where c: "show_nat (nat i) = c # cs" "c \<noteq> CHR ''-''" "c \<noteq> CHR ''+''"
    by (rule show_nat_hd)
  have "strip (show_int i) = c # cs"
    using False c(1) show_base_not_space [of 10 "nat i"]
    by (subst strip_by_id) (auto simp: show_int_def)
  moreover have "unsigned_int 10 (c # cs) = Some (nat i)"
    using c(1) unsigned_show_nat [of "nat i"] by simp
  ultimately show ?thesis using False c(2,3) by (simp add: py_int_def)
qed

lemma show_int_inj: "show_int i = show_int j \<Longrightarrow> i = j"
  by (metis option.inject py_int_show_int)

section \<open>Splitting, joining, replacing\<close>

definition starts_with :: "string \<Rightarrow> string \<Rightarrow> bool" where
  "starts_with p s = (take (length p) s = p)"

definition ends_with :: "string \<Rightarrow> string \<Rightarrow> bool" where
  "ends_with p s = (length p \<le> length s \<and> drop (length s - length p) s = p)"

fun split_on :: "char \<Rightarrow> string \<Rightarrow> string list" where
  "split_on c [] = [[]]"
| "split_on c (x # xs) =
     (if x = c then [] # split_on c xs
      else case split_on c xs of [] \<Rightarrow> [[x]] | w # ws \<Rightarrow> (x # w) # ws)"

fun join :: "string \<Rightarrow> string list \<Rightarrow> string" where
  "join sep [] = []"
| "join sep [x] = x"
| "join sep (x # y # ys) = x @ sep @ join sep (y # ys)"

text \<open>\<open>s.partition(c)\<close> for a one-character separator: head, whether it occurs, tail.\<close>

fun partition_on :: "char \<Rightarrow> string \<Rightarrow> string \<times> bool \<times> string" where
  "partition_on c [] = ([], False, [])"
| "partition_on c (x # xs) =
     (if x = c then ([], True, xs)
      else case partition_on c xs of (h, b, t) \<Rightarrow> (x # h, b, t))"

text \<open>
  \<open>int(v)\<close>: a float is truncated towards zero. Floats that Python prints with an exponent
  (from \<open>1e16\<close> on) are outside the model.
\<close>

definition int_of :: "pyval \<Rightarrow> int result" where
  "int_of v =
     (let invalid = ValueErr ''invalid literal for int() with base 10'';
          text = (\<lambda>s. case py_int 10 s of None \<Rightarrow> Inl invalid | Some i \<Rightarrow> Inr i)
      in case v of
        VInt i \<Rightarrow> Inr i
      | VBool b \<Rightarrow> Inr (of_bool b)
      | VStr s \<Rightarrow> text s
      | VFloat s \<Rightarrow> text (fst (partition_on (CHR ''.'') s))
      | _ \<Rightarrow> Inl TypeErr)"

text \<open>\<open>s.replace(old, new)\<close> for a non-empty \<open>old\<close>.\<close>

function replace_sub :: "string \<Rightarrow> string \<Rightarrow> string \<Rightarrow> string" where
  "replace_sub old new [] = []"
| "replace_sub old new (c # cs) =
     (if old \<noteq> [] \<and> starts_with old (c # cs)
      then new @ replace_sub old new (drop (length old) (c # cs))
      else c # replace_sub old new cs)"
  by pat_completeness auto
termination
proof (relation "measure (\<lambda>(old, new, s). length s)")
  fix old new :: string and c :: char and cs :: string
  assume "old \<noteq> [] \<and> starts_with old (c # cs)"
  then have "length (drop (length old) (c # cs)) < length (c # cs)"
    by (cases old) auto
  then show "((old, new, drop (length old) (c # cs)), old, new, c # cs)
      \<in> measure (\<lambda>(old, new, s). length s)" by simp
qed auto

lemma split_on_nonempty [simp]: "split_on c s \<noteq> []"
  by (induction s) (auto split: list.splits)

lemma split_on_notin: "c \<notin> set w \<Longrightarrow> split_on c w = [w]"
  by (induction w) auto

lemma split_on_append:
  "c \<notin> set w \<Longrightarrow> split_on c (w @ c # s) = w # split_on c s"
  by (induction w) auto

lemma split_on_join:
  "ws \<noteq> [] \<Longrightarrow> \<forall>w \<in> set ws. c \<notin> set w \<Longrightarrow> split_on c (join [c] ws) = ws"
proof (induction ws rule: induct_list012)
  case 1
  then show ?case by simp
next
  case (2 x)
  then show ?case by (simp add: split_on_notin)
next
  case (3 x y zs)
  then show ?case by (simp add: split_on_append)
qed

lemma replace_sub_absent: "old \<noteq> [] \<Longrightarrow> hd old \<notin> set s \<Longrightarrow> replace_sub old new s = s"
proof (induction s)
  case Nil
  then show ?case by simp
next
  case (Cons c cs)
  then have "\<not> starts_with old (c # cs)"
    by (cases old) (auto simp: starts_with_def)
  with Cons show ?case by simp
qed

section \<open>The text of a value\<close>

text \<open>
  \<open>repr\<close> of a string: single quotes unless only double quotes avoid escaping, control
  characters escaped; \<open>str\<close> of a string is the string itself.
\<close>

definition repr_char :: "char \<Rightarrow> char \<Rightarrow> string" where
  "repr_char q c =
     (let n = of_char c :: nat
      in if c = q \<or> c = CHR 0x5C then [CHR 0x5C, c]
         else if n = 10 then [CHR 0x5C, CHR ''n'']
         else if n = 13 then [CHR 0x5C, CHR ''r'']
         else if n = 9 then [CHR 0x5C, CHR ''t'']
         else if n < 32 \<or> n = 127
              then [CHR 0x5C, CHR ''x'', digit_char (n div 16), digit_char (n mod 16)]
         else [c])"

definition repr_str :: "string \<Rightarrow> string" where
  "repr_str s =
     (let q = (if CHR 0x27 \<in> set s \<and> CHR 0x22 \<notin> set s then CHR 0x22 else CHR 0x27)
      in q # concat (map (repr_char q) s) @ [q])"

fun py_repr :: "pyval \<Rightarrow> string"
  and repr_items :: "pyval list \<Rightarrow> string"
  and repr_members :: "(string \<times> pyval) list \<Rightarrow> string" where
  "py_repr VNone = ''None''"
| "py_repr (VBool b) = (if b then ''True'' else ''False'')"
| "py_repr (VInt i) = show_int i"
| "py_repr (VFloat s) = s"
| "py_repr (VStr s) = repr_str s"
| "py_repr (VList xs) = ''['' @ repr_items xs @ '']''"
| "py_repr (VDict kvs) = ''{'' @ repr_members kvs @ ''}''"
| "py_repr VBadKeys = ''{...}''"
| "py_repr VOther = ''<object>''"
| "repr_items [] = []"
| "repr_items [x] = py_repr x"
| "repr_items (x # y # ys) = py_repr x @ '', '' @ repr_items (y # ys)"
| "repr_members [] = []"
| "repr_members [(k, v)] = repr_str k @ '': '' @ py_repr v"
| "repr_members ((k, v) # p # ps) = repr_str k @ '': '' @ py_repr v @ '', '' @ repr_members (p # ps)"

definition py_str :: "pyval \<Rightarrow> string" where
  "py_str v = (case v of VStr s \<Rightarrow> s | _ \<Rightarrow> py_repr v)"

lemma py_str_simps [simp]:
  "py_str (VStr s) = s" "py_str (VInt i) = show_int i" "py_str VNone = ''None''"
  by (simp_all add: py_str_def)

section \<open>UUIDs\<close>

text \<open>
  The constructor \<open>uuid.UUID(text)\<close> drops \<open>urn:\<close>, \<open>uuid:\<close>, outer braces and hyphens and
  wants 32 hexadecimal digits; \<open>str\<close> of the result is the canonical lower-case text.
\<close>

definition hex32 :: "nat \<Rightarrow> string" where
  "hex32 n = (let h = show_base 16 n in replicate (32 - length h) (CHR ''0'') @ h)"

definition uuid_text :: "nat \<Rightarrow> uuid" where
  "uuid_text n =
     (let h = hex32 n
      in take 8 h @ ''-'' @ take 4 (drop 8 h) @ ''-'' @ take 4 (drop 12 h) @ ''-''
         @ take 4 (drop 16 h) @ ''-'' @ drop 20 h)"

definition uuid_int :: "string \<Rightarrow> nat result" where
  "uuid_int s =
     (let h = filter (\<lambda>c. c \<noteq> CHR ''-'')
                (strip_by (\<lambda>c. c \<in> {CHR ''{'', CHR ''}''})
                   (replace_sub ''uuid:'' [] (replace_sub ''urn:'' [] s)))
      in if length h \<noteq> 32 then Inl (ValueErr ''badly formed hexadecimal UUID string'')
         else case py_int 16 h of
             None \<Rightarrow> Inl (ValueErr ''invalid literal for int() with base 16'')
           | Some i \<Rightarrow> if 0 \<le> i \<and> i < 2 ^ 128 then Inr (nat i)
                       else Inl (ValueErr ''int is out of range (need a 128-bit value)''))"

definition parse_uuid :: "string \<Rightarrow> uuid result" where
  "parse_uuid s = bindE (uuid_int s) (\<lambda>n. Inr (uuid_text n))"

definition hex_digit :: "char \<Rightarrow> bool" where
  "hex_digit c =
     (let n = of_char c :: nat in (48 \<le> n \<and> n \<le> 57) \<or> (97 \<le> n \<and> n \<le> 102))"

lemma digit_char_hex: "d < 16 \<Longrightarrow> hex_digit (digit_char d)"
  by (auto simp: hex_digit_def digit_char_def Let_def)

lemma show_hex_digits: "c \<in> set (show_base 16 n) \<Longrightarrow> hex_digit c"
  using show_base_digits [of 16 c n] digit_char_hex by auto

lemma length_show_base: "2 \<le> b \<Longrightarrow> n < b ^ Suc k \<Longrightarrow> length (show_base b n) \<le> Suc k"
proof (induction k arbitrary: n)
  case 0
  then show ?case by (simp add: show_base.simps [of b n])
next
  case (Suc k)
  show ?case
  proof (cases "n < b")
    case True
    then show ?thesis by (simp add: show_base.simps [of b n])
  next
    case False
    have "n div b < b ^ Suc k"
      using Suc.prems by (simp add: less_mult_imp_div_less mult.commute)
    with Suc.IH [of "n div b"] Suc.prems False show ?thesis
      by (simp add: show_base.simps [of b n])
  qed
qed

lemma length_hex32: "n < 2 ^ 128 \<Longrightarrow> length (hex32 n) = 32"
  using length_show_base [of 16 n 31] by (simp add: hex32_def Let_def)

lemma hex32_digits: "c \<in> set (hex32 n) \<Longrightarrow> hex_digit c"
  by (auto simp: hex32_def Let_def dest: show_hex_digits) (simp add: hex_digit_def)

lemma read_digits_zeros:
  "read_digits b False 0 s \<noteq> None \<Longrightarrow> 0 < b \<Longrightarrow>
   read_digits b p 0 (replicate k (CHR ''0'') @ s) = read_digits b (p \<or> 0 < k) 0 s"
  by (induction k arbitrary: p) (auto simp: digit_val_def)

lemma read_digits_flag: "s \<noteq> [] \<Longrightarrow> read_digits b False acc s = Some n \<Longrightarrow> read_digits b True acc s = Some n"
  by (cases s) (auto split: if_splits)

lemma read_hex32: "read_digits 16 False 0 (hex32 n) = Some n"
proof -
  have "read_digits 16 False 0 (show_base 16 n) = Some n"
    by (simp add: read_show_base)
  moreover from this have "read_digits 16 True 0 (show_base 16 n) = Some n"
    by (intro read_digits_flag) simp_all
  ultimately show ?thesis
    using read_digits_zeros [of 16 "show_base 16 n" False "32 - length (show_base 16 n)"]
    by (cases "0 < 32 - length (show_base 16 n)") (auto simp: hex32_def Let_def)
qed

lemma hex_digit_facts:
  assumes "hex_digit c"
  shows "c \<noteq> CHR ''-''" "c \<noteq> CHR ''+''" "c \<noteq> CHR ''u''" "c \<noteq> CHR ''x''" "c \<noteq> CHR ''X''"
    "c \<noteq> CHR ''{''" "c \<noteq> CHR ''}''" "\<not> is_space c"
  using assms by (auto simp: hex_digit_def is_space_def Let_def)

lemma py_int_hex32: "py_int 16 (hex32 n) = Some (int n)"
proof -
  have d: "\<forall>c \<in> set (hex32 n). hex_digit c" using hex32_digits by blast
  have "strip (hex32 n) = hex32 n" using d hex_digit_facts(8) by (intro strip_by_id) blast
  moreover obtain c cs where c: "hex32 n = c # cs"
    by (cases "hex32 n") (auto simp: hex32_def Let_def)
  moreover have "\<not> (take 2 (hex32 n) = ''0x'' \<or> take 2 (hex32 n) = ''0X'')"
    using d hex_digit_facts(4,5) by (metis in_set_takeD list.set_intros(1,2))
  ultimately show ?thesis
    using d hex_digit_facts(1,2) [of c] read_hex32 [of n]
    by (auto simp: py_int_def unsigned_int_def)
qed

lemma uuid_fields:
  "take 8 h @ take 4 (drop 8 h) @ take 4 (drop 12 h) @ take 4 (drop 16 h) @ drop 20 h = h"
proof -
  have "take 20 h = take 8 h @ take 4 (drop 8 h) @ take 4 (drop 12 h) @ take 4 (drop 16 h)"
    using take_add [of 8 4 h] take_add [of 12 4 h] take_add [of 16 4 h] by simp
  then show ?thesis using append_take_drop_id [of 20 h] by simp
qed

theorem parse_uuid_text:
  assumes "n < 2 ^ 128"
  shows "parse_uuid (uuid_text n) = Inr (uuid_text n)"
proof -
  have d: "\<forall>c \<in> set (hex32 n). hex_digit c" using hex32_digits by blast
  have chars: "\<forall>c \<in> set (uuid_text n). hex_digit c \<or> c = CHR ''-''"
    using d by (auto simp: uuid_text_def Let_def dest!: in_set_takeD in_set_dropD)
  have r: "replace_sub ''urn:'' [] (uuid_text n) = uuid_text n"
    "replace_sub ''uuid:'' [] (uuid_text n) = uuid_text n"
    using chars hex_digit_facts(3) by (intro replace_sub_absent; force)+
  have s: "strip_by (\<lambda>c. c \<in> {CHR ''{'', CHR ''}''}) (uuid_text n) = uuid_text n"
    using chars hex_digit_facts(6,7) by (intro strip_by_id) fastforce
  have keep: "filter (\<lambda>c. c \<noteq> CHR ''-'') xs = xs" if "set xs \<subseteq> set (hex32 n)" for xs
    using that d hex_digit_facts(1) by (intro filter_True) blast
  have part: "set (take k (drop j (hex32 n))) \<subseteq> set (hex32 n)" for k j
    by (auto dest!: in_set_takeD in_set_dropD)
  have f: "filter (\<lambda>c. c \<noteq> CHR ''-'') (uuid_text n) = hex32 n"
    using keep [OF part [of 8 0]] keep [OF part [of 4 8]] keep [OF part [of 4 12]]
      keep [OF part [of 4 16]] keep [OF set_drop_subset [of 20]] uuid_fields [of "hex32 n"]
    by (simp add: uuid_text_def Let_def)
  have b: "int n < 2 ^ 128" using assms by simp
  have "uuid_int (uuid_text n) = Inr n"
    unfolding uuid_int_def r s f Let_def py_int_hex32 using length_hex32 [OF assms] b by simp
  then show ?thesis by (simp add: parse_uuid_def)
qed

end
