(* ===== verification/Canonical.thy ===== *)
theory Canonical
  imports Python_Strings
begin

text \<open>
  Canonical JSON and operation digests (\<open>canonical.py\<close>): the normaliser, the compact
  key-sorted serialiser of the standard library's \<open>json.dumps\<close> as the bridge calls it,
  and the digest that binds an operation record. Unicode normalisation (\<open>nfc\<close>) and
  SHA-256 (\<open>sha256\<close>) are parameters. The main result is that the serialisation is
  injective, so that equal digests mean equal canonical values unless SHA-256 collides.
\<close>

section \<open>Compact JSON text\<close>

text \<open>String escapes of \<open>json.dumps(..., ensure_ascii=False)\<close>.\<close>

definition json_char :: "char \<Rightarrow> string" where
  "json_char c =
     (let n = of_char c :: nat
      in if n = 34 then [CHR 0x5C, CHR 0x22]
         else if n = 92 then [CHR 0x5C, CHR 0x5C]
         else if n = 10 then [CHR 0x5C, CHR ''n'']
         else if n = 13 then [CHR 0x5C, CHR ''r'']
         else if n = 9 then [CHR 0x5C, CHR ''t'']
         else if n = 12 then [CHR 0x5C, CHR ''f'']
         else if n = 8 then [CHR 0x5C, CHR ''b'']
         else if n < 32 then CHR 0x5C # ''u00'' @ [digit_char (n div 16), digit_char (n mod 16)]
         else [c])"

definition json_string :: "string \<Rightarrow> string" where
  "json_string s = CHR 0x22 # concat (map json_char s) @ [CHR 0x22]"

text \<open>
  The encoder with separators \<open>","\<close> and \<open>":"\<close>. Floats are printed as Python prints them;
  \<open>VBadKeys\<close> and \<open>VOther\<close> never reach it (\<open>plain\<close> below).
\<close>

fun encode :: "pyval \<Rightarrow> string"
  and encode_items :: "pyval list \<Rightarrow> string"
  and encode_members :: "(string \<times> pyval) list \<Rightarrow> string" where
  "encode VNone = ''null''"
| "encode (VBool b) = (if b then ''true'' else ''false'')"
| "encode (VInt i) = show_int i"
| "encode (VFloat s) = s"
| "encode (VStr s) = json_string s"
| "encode (VList xs) = ''['' @ encode_items xs @ '']''"
| "encode (VDict kvs) = ''{'' @ encode_members kvs @ ''}''"
| "encode VBadKeys = []"
| "encode VOther = []"
| "encode_items [] = []"
| "encode_items [x] = encode x"
| "encode_items (x # y # ys) = encode x @ '','' @ encode_items (y # ys)"
| "encode_members [] = []"
| "encode_members [(k, v)] = json_string k @ '':'' @ encode v"
| "encode_members ((k, v) # p # ps) =
     json_string k @ '':'' @ encode v @ '','' @ encode_members (p # ps)"

text \<open>\<open>sort_keys=True\<close> orders the members of every object by key.\<close>

fun sort_keys :: "pyval \<Rightarrow> pyval"
  and sort_members :: "(string \<times> pyval) list \<Rightarrow> (string \<times> pyval) list" where
  "sort_keys (VList xs) = VList (map sort_keys xs)"
| "sort_keys (VDict kvs) = VDict (sort_key fst (sort_members kvs))"
| "sort_keys v = v"
| "sort_members [] = []"
| "sort_members ((k, v) # kvs) = (k, sort_keys v) # sort_members kvs"

definition json_dumps :: "pyval \<Rightarrow> string" where
  "json_dumps v = encode (sort_keys v)"

section \<open>Normalisation and digests\<close>

fun normalize :: "(string \<Rightarrow> string) \<Rightarrow> pyval \<Rightarrow> pyval result"
  and normalize_items :: "(string \<Rightarrow> string) \<Rightarrow> pyval list \<Rightarrow> pyval list result"
  and normalize_members ::
    "(string \<Rightarrow> string) \<Rightarrow> dict \<Rightarrow> (string \<times> pyval) list \<Rightarrow> dict result" where
  "normalize nfc (VStr s) = Inr (VStr (nfc s))"
| "normalize nfc (VBool b) = Inr (VBool b)"
| "normalize nfc VNone = Inr VNone"
| "normalize nfc (VInt i) = Inr (VInt i)"
| "normalize nfc (VFloat s) =
     Inl (InvalidCanonicalValue ''Floating-point JSON values are forbidden'')"
| "normalize nfc (VList xs) = bindE (normalize_items nfc xs) (\<lambda>ys. Inr (VList ys))"
| "normalize nfc (VDict kvs) = bindE (normalize_members nfc [] kvs) (\<lambda>d. Inr (VDict d))"
| "normalize nfc VBadKeys = Inl (InvalidCanonicalValue ''JSON object keys must be strings'')"
| "normalize nfc VOther = Inl (InvalidCanonicalValue ''Unsupported JSON value'')"
| "normalize_items nfc [] = Inr []"
| "normalize_items nfc (x # xs) =
     bindE (normalize nfc x) (\<lambda>y. bindE (normalize_items nfc xs) (\<lambda>ys. Inr (y # ys)))"
| "normalize_members nfc d [] = Inr d"
| "normalize_members nfc d ((k, v) # kvs) =
     bindE (normalize nfc v) (\<lambda>w. normalize_members nfc (dict_set (nfc k) w d) kvs)"

definition canonical_json :: "(string \<Rightarrow> string) \<Rightarrow> pyval \<Rightarrow> string result" where
  "canonical_json nfc v = bindE (normalize nfc v) (\<lambda>n. Inr (json_dumps n))"

definition digest_fields :: "string list" where
  "digest_fields =
     [''account_uuid'', ''causal_lane'', ''operation'', ''operation_uuid'', ''origin'',
      ''predecessor_operation_uuid'', ''project_uuid'', ''sequence'']"

definition digest_value :: "dict \<Rightarrow> pyval result" where
  "digest_value r =
     bindE (mapE (\<lambda>k. bindE (item r k) (\<lambda>v. Inr (k, v))) digest_fields) (\<lambda>kvs. Inr (VDict kvs))"

definition operation_digest ::
  "(string \<Rightarrow> string) \<Rightarrow> (string \<Rightarrow> string) \<Rightarrow> dict \<Rightarrow> string result" where
  "operation_digest nfc sha256 r =
     bindE (digest_value r) (\<lambda>v. bindE (canonical_json nfc v) (\<lambda>b. Inr (sha256 b)))"

section \<open>Unique readability of the encoding\<close>

fun plain :: "pyval \<Rightarrow> bool"
  and plain_items :: "pyval list \<Rightarrow> bool"
  and plain_members :: "(string \<times> pyval) list \<Rightarrow> bool" where
  "plain (VFloat s) = False"
| "plain VBadKeys = False"
| "plain VOther = False"
| "plain (VList xs) = plain_items xs"
| "plain (VDict kvs) = plain_members kvs"
| "plain VNone = True"
| "plain (VBool b) = True"
| "plain (VInt i) = True"
| "plain (VStr t) = True"
| "plain_items [] = True"
| "plain_items (x # xs) = (plain x \<and> plain_items xs)"
| "plain_members [] = True"
| "plain_members ((k, v) # kvs) = (plain v \<and> plain_members kvs)"

text \<open>What may follow a value: nothing, or a separator or closing bracket.\<close>

definition delim :: "string \<Rightarrow> bool" where
  "delim r = (case r of [] \<Rightarrow> True | c # _ \<Rightarrow> c \<in> {CHR '','', CHR '']'', CHR ''}''})"

lemma delim_simps [simp]:
  "delim []" "delim (CHR '','' # r)" "delim (CHR '']'' # r)" "delim (CHR ''}'' # r)"
  by (simp_all add: delim_def)

text \<open>A character is escaped when its code is a control code, a quote or a backslash.\<close>

definition escaped :: "char \<Rightarrow> bool" where
  "escaped c = (let n = of_char c :: nat in n < 32 \<or> n = 34 \<or> n = 92)"

lemma json_char_plain: "\<not> escaped c \<Longrightarrow> json_char c = [c]"
  by (auto simp: escaped_def json_char_def Let_def)

lemma json_char_escaped: "escaped c \<Longrightarrow> \<exists>t. json_char c = CHR 0x5C # t \<and> t \<noteq> []"
  by (auto simp: escaped_def json_char_def Let_def)

lemma not_escaped_special [simp]:
  "escaped (CHR 0x5C)" "escaped (CHR 0x22)"
  by (simp_all add: escaped_def)

text \<open>Reading an escape back gives the character code and what follows it.\<close>

definition read_escape :: "string \<Rightarrow> nat \<times> string" where
  "read_escape s =
     (let x = hd (drop 1 s); r = drop 2 s
      in if x = CHR 0x22 then (34, r) else if x = CHR 0x5C then (92, r)
         else if x = CHR ''n'' then (10, r) else if x = CHR ''r'' then (13, r)
         else if x = CHR ''t'' then (9, r) else if x = CHR ''f'' then (12, r)
         else if x = CHR ''b'' then (8, r)
         else (the (digit_val (hd (drop 4 s))) * 16 + the (digit_val (hd (drop 5 s))), drop 6 s))"

lemma read_escape_json_char:
  assumes "escaped c"
  shows "read_escape (json_char c @ x) = (of_char c, x)"
proof -
  define n where "n = (of_char c :: nat)"
  have j: "json_char c =
     (if n = 34 then [CHR 0x5C, CHR 0x22] else if n = 92 then [CHR 0x5C, CHR 0x5C]
      else if n = 10 then [CHR 0x5C, CHR ''n''] else if n = 13 then [CHR 0x5C, CHR ''r'']
      else if n = 9 then [CHR 0x5C, CHR ''t''] else if n = 12 then [CHR 0x5C, CHR ''f'']
      else if n = 8 then [CHR 0x5C, CHR ''b'']
      else if n < 32 then CHR 0x5C # ''u00'' @ [digit_char (n div 16), digit_char (n mod 16)]
      else [c])"
    unfolding json_char_def Let_def n_def ..
  consider "n = 34" | "n = 92" | "n = 10" | "n = 13" | "n = 9" | "n = 12" | "n = 8"
    | "n < 32" "n \<notin> {10, 13, 9, 12, 8}"
    using assms unfolding escaped_def Let_def n_def by blast
  then have "read_escape (json_char c @ x) = (n, x)"
    unfolding j by cases (simp_all add: read_escape_def)
  then show ?thesis by (simp only: n_def)
qed

lemma json_char_prefix_escaped:
  assumes "escaped c" "escaped d" "json_char c @ x = json_char d @ y"
  shows "c = d \<and> x = y"
proof -
  have "(of_char c :: nat, x) = (of_char d, y)"
    using read_escape_json_char [OF assms(1), of x] read_escape_json_char [OF assms(2), of y]
      assms(3) by metis
  then show ?thesis using of_char_eq_iff by (metis prod.inject)
qed

lemma json_char_prefix:
  assumes "json_char c @ x = json_char d @ y"
  shows "c = d \<and> x = y"
proof (cases "escaped c"; cases "escaped d")
  assume "escaped c" "escaped d"
  then show ?thesis using assms by (rule json_char_prefix_escaped)
next
  assume "escaped c" and d: "\<not> escaped d"
  then obtain t where "json_char c = CHR 0x5C # t" using json_char_escaped by blast
  with assms d have "d = CHR 0x5C" by (simp add: json_char_plain)
  with d show ?thesis by simp
next
  assume c: "\<not> escaped c" and "escaped d"
  then obtain t where "json_char d = CHR 0x5C # t" using json_char_escaped by blast
  with assms c have "c = CHR 0x5C" by (simp add: json_char_plain)
  with c show ?thesis by simp
next
  assume "\<not> escaped c" "\<not> escaped d"
  with assms show ?thesis by (simp add: json_char_plain)
qed

lemma json_char_not_quote: "json_char c @ x \<noteq> CHR 0x22 # y"
proof (cases "escaped c")
  case True
  then show ?thesis using json_char_escaped [of c] by auto
next
  case False
  then show ?thesis by (auto simp: json_char_plain)
qed

lemma escaped_text_prefix:
  "concat (map json_char s) @ CHR 0x22 # x = concat (map json_char t) @ CHR 0x22 # y
   \<Longrightarrow> s = t \<and> x = y"
proof (induction s arbitrary: t)
  case Nil
  then show ?case using json_char_not_quote [of "hd t"] by (cases t) (auto dest: sym)
next
  case (Cons c s)
  show ?case
  proof (cases t)
    case Nil
    with Cons.prems show ?thesis using json_char_not_quote [of c] by auto
  next
    case (Cons d t')
    with Cons.prems have "json_char c @ (concat (map json_char s) @ CHR 0x22 # x)
        = json_char d @ (concat (map json_char t') @ CHR 0x22 # y)" by simp
    from json_char_prefix [OF this] Cons.IH [of t'] Cons show ?thesis by simp
  qed
qed

lemma json_string_prefix: "json_string s @ x = json_string t @ y \<Longrightarrow> s = t \<and> x = y"
  unfolding json_string_def using escaped_text_prefix [of s x t y] by simp

text \<open>Decimal text ends where the digits end.\<close>

definition number_char :: "char \<Rightarrow> bool" where
  "number_char c = (let n = of_char c :: nat in c = CHR ''-'' \<or> (48 \<le> n \<and> n \<le> 57))"

lemma show_int_chars: "\<forall>c \<in> set (show_int i). number_char c"
proof -
  have "number_char c" if "c \<in> set (show_nat n)" for c n
    using show_base_digits [OF _ that] by (auto simp: number_char_def digit_char_def Let_def)
  then show ?thesis by (auto simp: show_int_def) (simp add: number_char_def)
qed

lemma takeWhile_number: "delim r \<Longrightarrow> takeWhile number_char (show_int i @ r) = show_int i"
  using show_int_chars [of i]
  by (cases r) (auto simp: takeWhile_append delim_def number_char_def)

lemma show_int_prefix:
  "show_int i @ r = show_int j @ s \<Longrightarrow> delim r \<Longrightarrow> delim s \<Longrightarrow> i = j \<and> r = s"
  by (metis append_same_eq same_append_eq show_int_inj takeWhile_number)

text \<open>The first character of a value tells its constructor apart.\<close>

fun first_class :: "pyval \<Rightarrow> nat" where
  "first_class VNone = 0"
| "first_class (VBool b) = (if b then 1 else 2)"
| "first_class (VInt i) = 3"
| "first_class (VStr s) = 4"
| "first_class (VList xs) = 5"
| "first_class (VDict kvs) = 6"
| "first_class v = 7"

definition char_class :: "char \<Rightarrow> nat" where
  "char_class c =
     (if c = CHR ''n'' then 0 else if c = CHR ''t'' then 1 else if c = CHR ''f'' then 2
      else if number_char c then 3 else if c = CHR 0x22 then 4
      else if c = CHR ''['' then 5 else if c = CHR ''{'' then 6 else 8)"

lemma show_int_nonempty [simp]: "show_int i \<noteq> []"
  by (simp add: show_int_def)

lemma encode_first_class:
  assumes "plain v"
  shows "encode v \<noteq> [] \<and> char_class (hd (encode v)) = first_class v"
proof (cases v)
  case (VInt i)
  then obtain c t where c: "encode v = c # t" by (cases "show_int i") auto
  with VInt show_int_chars [of i] have "number_char c" by auto
  then have "char_class c = 3" by (auto simp: char_class_def number_char_def Let_def)
  with c VInt show ?thesis by simp
qed (use assms in \<open>simp_all add: char_class_def json_string_def number_char_def\<close>)

lemma encode_same_class:
  assumes "plain v" "plain w" "encode v @ r = encode w @ s"
  shows "first_class v = first_class w"
  using assms encode_first_class [OF assms(1)] encode_first_class [OF assms(2)]
  by (metis hd_append2)

lemma encode_not_close:
  assumes "plain v" and "c = CHR '']'' \<or> c = CHR ''}'' \<or> c = CHR '',''"
  shows "encode v @ r \<noteq> c # s"
proof
  assume "encode v @ r = c # s"
  with encode_first_class [OF assms(1)] have "char_class c = first_class v"
    by (metis hd_append2 list.sel(1))
  then show False using assms by (cases v) (auto simp: char_class_def number_char_def split: if_splits)
qed

lemma first_class_inv:
  "first_class w = 0 \<longleftrightarrow> w = VNone"
  "first_class w = Suc 0 \<longleftrightarrow> w = VBool True"
  "first_class w = 2 \<longleftrightarrow> w = VBool False"
  "first_class w = 3 \<longleftrightarrow> (\<exists>j. w = VInt j)"
  "first_class w = 4 \<longleftrightarrow> (\<exists>t. w = VStr t)"
  "first_class w = 5 \<longleftrightarrow> (\<exists>ys. w = VList ys)"
  "first_class w = 6 \<longleftrightarrow> (\<exists>lws. w = VDict lws)"
  by (cases w; simp)+

lemma members_not_close: "encode_members (p # ps) @ r \<noteq> CHR ''}'' # s"
  by (cases p; cases ps) (auto simp: json_string_def)

lemma items_cons:
  "encode_items (x # xs) = encode x @ (if xs = [] then [] else CHR '','' # encode_items xs)"
  by (cases xs) auto

lemma items_not_close: "plain_items (x # xs) \<Longrightarrow> encode_items (x # xs) @ r \<noteq> CHR '']'' # s"
  using encode_not_close [of x "CHR '']''"] by (simp add: items_cons)

lemma members_cons:
  "encode_members ((k, v) # ps) = json_string k @ CHR '':'' # encode v @
     (if ps = [] then [] else CHR '','' # encode_members ps)"
  by (cases ps) auto

theorem encode_prefix_free:
  "plain v \<Longrightarrow> plain w \<Longrightarrow> delim r \<Longrightarrow> delim s \<Longrightarrow> encode v @ r = encode w @ s \<Longrightarrow> v = w \<and> r = s"
  "plain_items xs \<Longrightarrow> plain_items ys \<Longrightarrow>
     encode_items xs @ CHR '']'' # r' = encode_items ys @ CHR '']'' # s' \<Longrightarrow> xs = ys \<and> r' = s'"
  "plain_members kvs \<Longrightarrow> plain_members lws \<Longrightarrow>
     encode_members kvs @ CHR ''}'' # r'' = encode_members lws @ CHR ''}'' # s'' \<Longrightarrow>
     kvs = lws \<and> r'' = s''"
proof (induction v and xs and kvs arbitrary: w r s and ys r' s' and lws r'' s''
    rule: plain_plain_items_plain_members.induct)
  case (4 xs)
  then have "first_class w = 5" using encode_same_class [OF "4.prems"(1,2,5)] by simp
  then obtain ys where "w = VList ys" by (auto simp: first_class_inv)
  with "4.IH" [of ys r s] "4.prems" show ?case by simp
next
  case (5 kvs)
  then have "first_class w = 6" using encode_same_class [OF "5.prems"(1,2,5)] by simp
  then obtain lws where "w = VDict lws" by (auto simp: first_class_inv)
  with "5.IH" [of lws r s] "5.prems" show ?case by simp
next
  case 6
  then have "first_class w = 0" using encode_same_class [OF "6.prems"(1,2,5)] by simp
  with "6.prems" show ?case by (simp add: first_class_inv)
next
  case (7 b)
  then have "first_class w = (if b then 1 else 2)"
    using encode_same_class [OF "7.prems"(1,2,5)] by simp
  with "7.prems" show ?case by (cases b) (auto simp: first_class_inv)
next
  case (8 i)
  then have "first_class w = 3" using encode_same_class [OF "8.prems"(1,2,5)] by simp
  then obtain j where "w = VInt j" by (auto simp: first_class_inv)
  with "8.prems" show_int_prefix [of i r j s] show ?case by simp
next
  case (9 t)
  then have "first_class w = 4" using encode_same_class [OF "9.prems"(1,2,5)] by simp
  then obtain u where "w = VStr u" by (auto simp: first_class_inv)
  with "9.prems" json_string_prefix [of t r u s] show ?case by simp
next
  case 10
  then show ?case using items_not_close [of "hd ys" "tl ys" "CHR '']'' # s'" r']
    by (cases ys) (auto dest: sym)
next
  case (11 x xs)
  then show ?case
  proof (cases ys)
    case Nil
    with 11 items_not_close [of x xs "CHR '']'' # r'" s'] show ?thesis by auto
  next
    case (Cons y zs)
    let ?r = "(if xs = [] then [] else CHR '','' # encode_items xs) @ CHR '']'' # r'"
    let ?s = "(if zs = [] then [] else CHR '','' # encode_items zs) @ CHR '']'' # s'"
    have "encode x @ ?r = encode y @ ?s" using "11.prems"(3) Cons by (simp add: items_cons)
    then have "x = y \<and> ?r = ?s" using "11.IH"(1) [of y ?r ?s] "11.prems" Cons by simp
    with "11.IH"(2) [of zs r' s'] "11.prems" Cons show ?thesis by (auto split: if_splits)
  qed
next
  case 12
  then show ?case using members_not_close [of "hd lws" "tl lws" "CHR ''}'' # s''" r'']
    by (cases lws) (auto dest: sym)
next
  case (13 k v kvs)
  then show ?case
  proof (cases lws)
    case Nil
    with 13 members_not_close [of "(k, v)" kvs "CHR ''}'' # r''" s''] show ?thesis by auto
  next
    case (Cons p zs)
    obtain l w where p: "p = (l, w)" by (cases p)
    let ?r = "(if kvs = [] then [] else CHR '','' # encode_members kvs) @ CHR ''}'' # r''"
    let ?s = "(if zs = [] then [] else CHR '','' # encode_members zs) @ CHR ''}'' # s''"
    have "json_string k @ (CHR '':'' # encode v @ ?r) = json_string l @ (CHR '':'' # encode w @ ?s)"
      using "13.prems"(3) Cons p by (simp add: members_cons)
    then have "k = l" and "encode v @ ?r = encode w @ ?s" using json_string_prefix by blast+
    moreover from this(2) have "v = w \<and> ?r = ?s"
      using "13.IH"(1) [of w ?r ?s] "13.prems" Cons p by simp
    ultimately show ?thesis using "13.IH"(2) [of zs r'' s''] "13.prems" Cons p
      by (auto split: if_splits)
  qed
qed simp_all

corollary encode_inj: "plain v \<Longrightarrow> plain w \<Longrightarrow> encode v = encode w \<Longrightarrow> v = w"
  using encode_prefix_free(1) [of v w "[]" "[]"] by simp

section \<open>Normalised values are plain\<close>

lemma plain_items_iff: "plain_items xs \<longleftrightarrow> (\<forall>x \<in> set xs. plain x)"
  by (induction xs) auto

lemma plain_members_iff: "plain_members kvs \<longleftrightarrow> (\<forall>p \<in> set kvs. plain (snd p))"
  by (induction kvs) auto

lemma plain_dict_set: "plain_members d \<Longrightarrow> plain v \<Longrightarrow> plain_members (dict_set k v d)"
  by (induction d) auto

lemma normalize_plain:
  "normalize nfc v = Inr w \<Longrightarrow> plain w"
  "normalize_items nfc xs = Inr ys \<Longrightarrow> plain_items ys"
  "normalize_members nfc d kvs = Inr e \<Longrightarrow> plain_members d \<Longrightarrow> plain_members e"
  by (induction nfc v and nfc xs and nfc d kvs arbitrary: w and ys and e
      rule: normalize_normalize_items_normalize_members.induct)
    (auto simp: bindE_eq_Inr plain_dict_set)

lemma normalize_distinct:
  "normalize_members nfc d kvs = Inr e \<Longrightarrow> distinct (map fst d) \<Longrightarrow> distinct (map fst e)"
  by (induction kvs arbitrary: d) (auto simp: bindE_eq_Inr, metis distinct_dict_set)

lemma sort_members_eq: "sort_members kvs = map (\<lambda>(k, v). (k, sort_keys v)) kvs"
  by (induction kvs) auto

lemma plain_sort_keys: "plain v \<Longrightarrow> plain (sort_keys v)"
proof (induction v)
  case (VList xs)
  then show ?case by (auto simp: plain_items_iff)
next
  case (VDict kvs)
  then show ?case by (fastforce simp: plain_members_iff sort_members_eq)
qed auto

section \<open>What a digest binds\<close>

definition same_canonical :: "(string \<Rightarrow> string) \<Rightarrow> pyval \<Rightarrow> pyval \<Rightarrow> bool" where
  "same_canonical nfc v w =
     (case (normalize nfc v, normalize nfc w) of
        (Inr a, Inr b) \<Rightarrow> sort_keys a = sort_keys b
      | _ \<Rightarrow> False)"

lemma same_canonicalI:
  "normalize nfc v = Inr a \<Longrightarrow> normalize nfc w = Inr b \<Longrightarrow> sort_keys a = sort_keys b
   \<Longrightarrow> same_canonical nfc v w"
  by (simp add: same_canonical_def)

lemma dict_set_fresh: "k \<notin> fst ` set d \<Longrightarrow> dict_set k v d = d @ [(k, v)]"
  by (induction d) auto

lemma normalize_members_fresh:
  assumes "normalize_members nfc d kvs = Inr e"
    and "\<forall>k \<in> fst ` set kvs. nfc k = k" and "distinct (map fst (d @ kvs))"
  shows "\<exists>e'. e = d @ e' \<and> list_all2 (\<lambda>(k, v) (k', w). k = k' \<and> normalize nfc v = Inr w) kvs e'"
  using assms
proof (induction kvs arbitrary: d)
  case Nil
  then show ?case by simp
next
  case (Cons p kvs)
  obtain k v where p: "p = (k, v)" by (cases p)
  with Cons.prems obtain w where w: "normalize nfc v = Inr w"
    and rest: "normalize_members nfc (dict_set k w d) kvs = Inr e"
    by (auto simp: bindE_eq_Inr)
  have set: "dict_set k w d = d @ [(k, w)]"
    using Cons.prems(3) p by (intro dict_set_fresh) auto
  then obtain e' where "e = (d @ [(k, w)]) @ e'"
    and "list_all2 (\<lambda>(k, v) (k', w). k = k' \<and> normalize nfc v = Inr w) kvs e'"
    using Cons.IH [of "d @ [(k, w)]"] rest Cons.prems(2,3) p by auto
  then show ?case using p w by (intro exI [of _ "(k, w) # e'"]) auto
qed

lemma list_all2_members:
  assumes "list_all2 (\<lambda>(k, v) (k', w). k = k' \<and> normalize nfc v = Inr w) kvs e"
  shows "map fst e = map fst kvs"
    and "map_of kvs k = Some v \<Longrightarrow> \<exists>w. normalize nfc v = Inr w \<and> map_of e k = Some w"
  using assms by (induction rule: list_all2_induct) (auto split: if_splits)

lemma map_of_sort_key:
  "distinct (map fst d) \<Longrightarrow> map_of (sort_key fst d) = map_of d"
  by (subst map_of_inject_set) (simp_all add: distinct_map inj_on_def)

lemma sorted_dicts_agree:
  assumes "sort_keys (VDict d) = sort_keys (VDict e)"
    and "distinct (map fst d)" "distinct (map fst e)" "map_of d k = Some a" "map_of e k = Some b"
  shows "sort_keys a = sort_keys b"
proof -
  have "distinct (map fst (sort_members d))" "distinct (map fst (sort_members e))"
    using assms(2,3) by (simp_all add: sort_members_eq case_prod_beta comp_def)
  moreover have "sort_key fst (sort_members d) = sort_key fst (sort_members e)"
    using assms(1) by simp
  ultimately have "map_of (sort_members d) = map_of (sort_members e)"
    by (metis map_of_sort_key)
  then show ?thesis
    using assms(4,5) by (simp add: sort_members_eq map_of_map fun_eq_iff) (metis option.simps(9) option.inject)
qed

lemma canonical_json_eqD:
  assumes "canonical_json nfc v = Inr b" and "canonical_json nfc w = Inr b"
  shows "same_canonical nfc v w"
proof -
  from assms obtain v' w' where n: "normalize nfc v = Inr v'" "normalize nfc w = Inr w'"
    and "encode (sort_keys v') = encode (sort_keys w')"
    by (auto simp: canonical_json_def bindE_eq_Inr json_dumps_def)
  moreover have "plain (sort_keys v')" "plain (sort_keys w')"
    using n normalize_plain(1) plain_sort_keys by blast+
  ultimately show ?thesis using encode_inj same_canonicalI by blast
qed

text \<open>
  C24. Canonical JSON is injective: two values with the same canonical bytes have the same
  normalised content, up to the order of dictionary keys.
\<close>

theorem canonical_json_injective:
  "canonical_json nfc v = Inr b \<Longrightarrow> canonical_json nfc w = Inr b \<Longrightarrow> same_canonical nfc v w"
  by (rule canonical_json_eqD)

theorem canonical_json_injective_witness:
  "same_canonical id (VDict [(''b'', VInt 1), (''a'', VStr ''x'')])
     (VDict [(''a'', VStr ''x''), (''b'', VInt 1)])"
proof -
  let ?b = "''{'' @ json_string ''a'' @ '':'' @ json_string ''x'' @ '','' @ json_string ''b'' @ '':1}''"
  have "canonical_json id (VDict [(''b'', VInt 1), (''a'', VStr ''x'')]) = Inr ?b"
    "canonical_json id (VDict [(''a'', VStr ''x''), (''b'', VInt 1)]) = Inr ?b"
    by code_simp+
  then show ?thesis by (rule canonical_json_injective)
qed

lemma digest_value_members:
  assumes "digest_value r = Inr v"
  obtains kvs where "v = VDict kvs" and "map fst kvs = digest_fields"
    and "\<forall>k \<in> set digest_fields. map_of kvs k = map_of r k \<and> map_of r k \<noteq> None"
proof -
  obtain kvs where v: "v = VDict kvs"
    and all: "list_all2 (\<lambda>k p. bindE (item r k) (\<lambda>v. Inr (k, v)) = Inr p) digest_fields kvs"
    using assms by (auto simp: digest_value_def bindE_eq_Inr mapE_Inr_iff)
  have keys: "map fst kvs = digest_fields"
    using all by (induction rule: list_all2_induct) (auto simp: bindE_eq_Inr)
  have "\<forall>p \<in> set kvs. map_of r (fst p) = Some (snd p)"
    using all by (induction rule: list_all2_induct) (auto simp: bindE_eq_Inr)
  moreover have "distinct (map fst kvs)" unfolding keys digest_fields_def by simp
  ultimately have "\<forall>k \<in> set digest_fields. map_of kvs k = map_of r k \<and> map_of r k \<noteq> None"
    unfolding keys [symmetric] by (fastforce simp: map_of_eq_Some_iff)
  with v keys show ?thesis by (rule that)
qed

text \<open>The bytes an operation digest hashes.\<close>

definition digest_bytes :: "(string \<Rightarrow> string) \<Rightarrow> dict \<Rightarrow> string result" where
  "digest_bytes nfc r = bindE (digest_value r) (canonical_json nfc)"

lemma operation_digest_bytes:
  "operation_digest nfc sha256 r = bindE (digest_bytes nfc r) (\<lambda>b. Inr (sha256 b))"
  by (simp add: operation_digest_def digest_bytes_def bindE_assoc)

lemma normalized_members_agree:
  assumes same: "same_canonical nfc (VDict kvs) (VDict lws)"
    and keys: "distinct (map fst kvs)" "map fst lws = map fst kvs"
      "\<forall>k \<in> fst ` set kvs. nfc k = k"
    and k: "map_of kvs k = Some x" "map_of lws k = Some y"
  shows "same_canonical nfc x y"
proof -
  from same obtain e e' where e: "normalize_members nfc [] kvs = Inr e"
    "normalize_members nfc [] lws = Inr e'" "sort_keys (VDict e) = sort_keys (VDict e')"
    by (auto simp: same_canonical_def bindE_def split: sum.splits)
  have "\<forall>k \<in> fst ` set lws. nfc k = k" using keys(2,3) by (metis set_map)
  then have l: "list_all2 (\<lambda>(k, v) (k', w). k = k' \<and> normalize nfc v = Inr w) kvs e"
    "list_all2 (\<lambda>(k, v) (k', w). k = k' \<and> normalize nfc v = Inr w) lws e'"
    using normalize_members_fresh [OF e(1) keys(3)] normalize_members_fresh [OF e(2)] keys by auto
  then obtain a c where "normalize nfc x = Inr a" "map_of e k = Some a"
    "normalize nfc y = Inr c" "map_of e' k = Some c"
    using list_all2_members(2) [OF l(1) k(1)] list_all2_members(2) [OF l(2) k(2)] by blast
  moreover have "distinct (map fst e)" "distinct (map fst e')"
    using list_all2_members(1) [OF l(1)] list_all2_members(1) [OF l(2)] keys(1,2) by simp_all
  ultimately show ?thesis
    using sorted_dicts_agree [OF e(3)] by (auto intro: same_canonicalI)
qed

lemma digest_bytes_binds:
  assumes nfc: "\<forall>k \<in> set digest_fields. nfc k = k"
    and b: "digest_bytes nfc r = Inr b" "digest_bytes nfc r' = Inr b"
    and k: "k \<in> set digest_fields"
  shows "same_canonical nfc (get_val r k) (get_val r' k)"
proof -
  from b obtain v v' where v: "digest_value r = Inr v" "digest_value r' = Inr v'"
    and c: "canonical_json nfc v = Inr b" "canonical_json nfc v' = Inr b"
    by (auto simp: digest_bytes_def bindE_eq_Inr)
  obtain kvs where kvs: "v = VDict kvs" "map fst kvs = digest_fields"
    "\<forall>k \<in> set digest_fields. map_of kvs k = map_of r k \<and> map_of r k \<noteq> None"
    using digest_value_members [OF v(1)] .
  obtain lws where lws: "v' = VDict lws" "map fst lws = digest_fields"
    "\<forall>k \<in> set digest_fields. map_of lws k = map_of r' k \<and> map_of r' k \<noteq> None"
    using digest_value_members [OF v(2)] .
  obtain x y where xy: "map_of r k = Some x" "map_of r' k = Some y"
    using kvs(3) lws(3) k by blast
  have "same_canonical nfc x y"
  proof (rule normalized_members_agree [of nfc kvs lws k])
    show "same_canonical nfc (VDict kvs) (VDict lws)"
      using canonical_json_eqD [OF c] kvs(1) lws(1) by simp
    show "distinct (map fst kvs)" unfolding kvs(2) by (simp add: digest_fields_def)
    show "map fst lws = map fst kvs" using kvs(2) lws(2) by simp
    show "\<forall>k \<in> fst ` set kvs. nfc k = k" using nfc kvs(2) by (metis set_map)
  qed (use kvs(3) lws(3) k xy in simp_all)
  with xy show ?thesis by simp
qed

text \<open>
  C25. An operation digest binds the operation: two records with the same digest agree on
  the canonical form of every digested field, unless SHA-256 collides on the very bytes
  hashed for them. (Field names are ASCII, which NFC leaves alone.)
\<close>

theorem operation_digest_binds:
  assumes "\<forall>k \<in> set digest_fields. nfc k = k"
    and "operation_digest nfc sha256 r = Inr h" and "operation_digest nfc sha256 r' = Inr h"
  shows "(\<exists>b b'. digest_bytes nfc r = Inr b \<and> digest_bytes nfc r' = Inr b' \<and> b \<noteq> b'
            \<and> sha256 b = sha256 b')
    \<or> (\<forall>k \<in> {''account_uuid'', ''causal_lane'', ''operation'', ''operation_uuid'', ''origin'',
          ''predecessor_operation_uuid'', ''project_uuid'', ''sequence''}. same_canonical nfc (get_val r k) (get_val r' k))"
proof -
  from assms(2,3) obtain b b' where b: "digest_bytes nfc r = Inr b" "digest_bytes nfc r' = Inr b'"
    "sha256 b = sha256 b'"
    by (auto simp: operation_digest_bytes bindE_eq_Inr)
  have "set digest_fields = {''account_uuid'', ''causal_lane'', ''operation'', ''operation_uuid'', ''origin'',
      ''predecessor_operation_uuid'', ''project_uuid'', ''sequence''}"
    by (simp add: digest_fields_def)
  with b show ?thesis using digest_bytes_binds [OF assms(1)] by (cases "b = b'") auto
qed

definition sample_record :: dict where
  "sample_record =
     [(''sequence'', VInt 1), (''account_uuid'', VStr ''a''), (''causal_lane'', VStr ''chat:a:1''),
      (''operation'', VDict [(''kind'', VStr ''message.create'')]), (''operation_uuid'', VStr ''o''),
      (''origin'', VStr ''workspace''), (''predecessor_operation_uuid'', VNone),
      (''project_uuid'', VStr ''p''), (''created_at'', VStr ''t'')]"

theorem operation_digest_binds_witness:
  "same_canonical id (get_val sample_record ''sequence'')
     (get_val (dict_set ''created_at'' (VStr ''later'') sample_record) ''sequence'')"
proof -
  let ?h = "case operation_digest id id sample_record of Inr h \<Rightarrow> h | Inl _ \<Rightarrow> []"
  have f: "\<forall>k \<in> set digest_fields. id k = k" by simp
  have h: "operation_digest id id sample_record = Inr ?h"
    "operation_digest id id (dict_set ''created_at'' (VStr ''later'') sample_record) = Inr ?h"
    by code_simp+
  show ?thesis
    using operation_digest_binds [OF f h] by auto
qed

end
