(* ===== verification/Emoji.thy ===== *)
theory Emoji
  imports Python_Strings
begin

text \<open>
  Emoji codes (\<open>emoji.py\<close>): the translation between a Unicode emoji and the hyphenated
  hexadecimal code Zulip uses, and the collision-safe reaction code. An emoji is a list of
  code points; NFC normalisation is a parameter, on code points (\<open>nfc\<close>) and on text
  (\<open>nfc_text\<close>).
\<close>

type_synonym codepoint = nat

definition presentation_selector :: "codepoint \<Rightarrow> bool" where
  "presentation_selector c = (c = 65038 \<or> c = 65039)"

definition invalid_scalar :: "codepoint \<Rightarrow> bool" where
  "invalid_scalar c = (c > 1114111 \<or> (55296 \<le> c \<and> c \<le> 57343))"

text \<open>The pattern \<open>[0-9a-fA-F]{1,6}\<close>.\<close>

definition codepoint_re :: "string \<Rightarrow> bool" where
  "codepoint_re s =
     (1 \<le> length s \<and> length s \<le> 6 \<and>
      list_all (\<lambda>c. case digit_val c of Some d \<Rightarrow> d < 16 | None \<Rightarrow> False) s)"

definition unicode_scalar :: "string \<Rightarrow> codepoint result" where
  "unicode_scalar raw =
     (if \<not> codepoint_re raw
      then Inl (ValueErr ''Zulip emoji code contains an invalid code point'')
      else case read_digits 16 False 0 raw of
          None \<Rightarrow> Inl (ValueErr ''invalid literal for int() with base 16'')
        | Some c \<Rightarrow>
            if invalid_scalar c
            then Inl (ValueErr ''Zulip emoji code contains an invalid Unicode scalar'')
            else Inr c)"

definition unicode_emoji_code ::
  "(codepoint list \<Rightarrow> codepoint list) \<Rightarrow> codepoint list \<Rightarrow> string result" where
  "unicode_emoji_code nfc v =
     (let cs = filter (\<lambda>c. \<not> presentation_selector c) (nfc v)
      in if cs = [] then Inl (ValueErr ''Unicode emoji is empty after normalization'')
         else if list_ex invalid_scalar cs
              then Inl (ValueErr ''Unicode emoji contains an invalid Unicode scalar'')
         else Inr (join ''-'' (map (show_base 16) cs)))"

definition unicode_emoji_from_code ::
  "(codepoint list \<Rightarrow> codepoint list) \<Rightarrow> string \<Rightarrow> codepoint list result" where
  "unicode_emoji_from_code nfc value =
     (if value = [] then Inl (ValueErr ''Zulip emoji code is empty'')
      else bindE (mapE unicode_scalar (split_on (CHR ''-'') value)) (\<lambda>cs.
        let glyph = nfc (filter (\<lambda>c. \<not> presentation_selector c) cs)
        in if glyph = [] then Inl (ValueErr ''Zulip emoji code is empty after normalization'')
           else Inr glyph))"

definition canonical_unicode_emoji_code ::
  "(codepoint list \<Rightarrow> codepoint list) \<Rightarrow> string \<Rightarrow> string result" where
  "canonical_unicode_emoji_code nfc value =
     bindE (unicode_emoji_from_code nfc value) (unicode_emoji_code nfc)"

definition normalized_reaction_code ::
  "(codepoint list \<Rightarrow> codepoint list) \<Rightarrow> (string \<Rightarrow> string) \<Rightarrow> string \<Rightarrow> string \<Rightarrow> string result" where
  "normalized_reaction_code nfc nfc_text reaction_type emoji_code =
     (let t = nfc_text reaction_type; c = nfc_text emoji_code
      in bindE (if t = ''unicode_emoji'' then canonical_unicode_emoji_code nfc c else Inr c)
           (\<lambda>code. Inr (t @ '':'' @ code)))"

section \<open>Reading a printed code back\<close>

lemma show_hex_codepoint:
  assumes "\<not> invalid_scalar c"
  shows "unicode_scalar (show_base 16 c) = Inr c"
proof -
  have "c < 16 ^ Suc 5" using assms by (simp add: invalid_scalar_def)
  then have "length (show_base 16 c) \<le> 6" using length_show_base [of 16 c 5] by simp
  moreover have "1 \<le> length (show_base 16 c)"
    using show_base_nonempty [of 16 c] by (cases "show_base 16 c") auto
  moreover have "list_all (\<lambda>c. case digit_val c of Some d \<Rightarrow> d < 16 | None \<Rightarrow> False) (show_base 16 c)"
    using show_base_digits [of 16 _ c] by (fastforce simp: list_all_iff)
  ultimately show ?thesis
    using assms by (simp add: unicode_scalar_def codepoint_re_def read_show_base)
qed

lemma show_hex_no_hyphen: "CHR ''-'' \<notin> set (show_base 16 c)"
  by (rule show_base_char_notin) (auto simp: digit_char_special)

lemma split_emoji_code:
  "cs \<noteq> [] \<Longrightarrow> split_on (CHR ''-'') (join ''-'' (map (show_base 16) cs)) = map (show_base 16) cs"
  using show_hex_no_hyphen by (intro split_on_join) auto

lemma join_nonempty: "ws \<noteq> [] \<Longrightarrow> \<forall>w \<in> set ws. w \<noteq> [] \<Longrightarrow> join sep ws \<noteq> []"
  by (cases "(sep, ws)" rule: join.cases) auto

lemma emoji_code_ok:
  assumes "unicode_emoji_code nfc v = Inr code"
  defines "cs \<equiv> filter (\<lambda>c. \<not> presentation_selector c) (nfc v)"
  shows "cs \<noteq> []" and "\<forall>c \<in> set cs. \<not> invalid_scalar c" and "code = join ''-'' (map (show_base 16) cs)"
  using assms by (auto simp: unicode_emoji_code_def Let_def list_ex_iff split: if_splits)

lemma mapE_scalars:
  "\<forall>c \<in> set cs. \<not> invalid_scalar c \<Longrightarrow> mapE unicode_scalar (map (show_base 16) cs) = Inr cs"
  by (induction cs) (auto simp: show_hex_codepoint)

lemma emoji_decode_code:
  assumes "unicode_emoji_code nfc v = Inr code"
    and "nfc (filter (\<lambda>c. \<not> presentation_selector c) (nfc v)) \<noteq> []"
  shows "unicode_emoji_from_code nfc code
    = Inr (nfc (filter (\<lambda>c. \<not> presentation_selector c) (nfc v)))"
proof -
  let ?cs = "filter (\<lambda>c. \<not> presentation_selector c) (nfc v)"
  note ok = emoji_code_ok [OF assms(1)]
  have "code \<noteq> []" using ok(1) join_nonempty [of "map (show_base 16) ?cs" "''-''"]
    unfolding ok(3) by simp
  moreover have "filter (\<lambda>c. \<not> presentation_selector c) ?cs = ?cs" by simp
  ultimately show ?thesis
    using ok assms(2) split_emoji_code [OF ok(1)] mapE_scalars [OF ok(2)]
    by (simp add: unicode_emoji_from_code_def)
qed

lemmas emoji_eval =
  unicode_emoji_code_def unicode_emoji_from_code_def canonical_unicode_emoji_code_def
  presentation_selector_def invalid_scalar_def unicode_scalar_def codepoint_re_def
  digit_val_def show_base.simps Let_def

text \<open>
  An emoji survives the trip through its Zulip code: decoding the code printed for an
  emoji gives its normal form without the presentation selectors.
\<close>

lemma emoji_code_round_trip:
  assumes "unicode_emoji_code nfc v = Inr code"
    and "nfc (filter (\<lambda>c. \<not> presentation_selector c) (nfc v)) \<noteq> []"
  shows "unicode_emoji_from_code nfc code
    = Inr (nfc (filter (\<lambda>c. \<not> presentation_selector c) (nfc v)))"
  using assms by (rule emoji_decode_code)

text \<open>
  Canonical emoji codes are a fixed point: canonicalising a canonical code gives it
  back, for a normalisation that is idempotent, erases nothing and adds no presentation
  selector.
\<close>

lemma canonical_emoji_code_idempotent:
  assumes nfc: "\<And>x. nfc (nfc x) = nfc x" "\<And>x. x \<noteq> [] \<Longrightarrow> nfc x \<noteq> []"
      "\<And>x c. c \<in> set (nfc x) \<Longrightarrow> presentation_selector c \<Longrightarrow> c \<in> set x"
    and "canonical_unicode_emoji_code nfc value = Inr code"
  shows "canonical_unicode_emoji_code nfc code = Inr code"
proof -
  let ?drop = "filter (\<lambda>c. \<not> presentation_selector c)"
  from assms(4) obtain cs where glyph: "unicode_emoji_code nfc (nfc (?drop cs)) = Inr code"
    by (auto simp: canonical_unicode_emoji_code_def unicode_emoji_from_code_def bindE_eq_Inr
        Let_def split: if_splits)
  have clean: "?drop (nfc (?drop cs)) = nfc (?drop cs)"
    using nfc(3) [of _ "?drop cs"] by (intro filter_True) auto
  have "nfc (?drop cs) \<noteq> []"
    using emoji_code_ok(1) [OF glyph] by (auto simp: nfc(1))
  then have "unicode_emoji_from_code nfc code = Inr (nfc (?drop cs))"
    using emoji_decode_code [OF glyph] by (simp add: nfc(1) clean)
  then show ?thesis using glyph by (simp add: canonical_unicode_emoji_code_def)
qed

end
