(* ===== verification/Keyed_Merge.thy ===== *)
theory Keyed_Merge
  imports Bridge_Prelude
begin

text \<open>
  Lists keyed by an identifier, as the history builder merges them: a dict comprehension
  over the elements, updates, and the values in key order. A list is seen through its
  \<open>view\<close> (key to last element with that key). The locale \<open>keyed_merge\<close> is the interface of
  a merge of two such lists; its laws make merging associative and determined by the views.
\<close>

text \<open>The comprehension \<open>{key(x): x for x in xs}\<close>.\<close>

definition keyed :: "('a \<Rightarrow> 'k) \<Rightarrow> 'a list \<Rightarrow> ('k \<times> 'a) list" where
  "keyed key xs = fold (\<lambda>x d. dict_set (key x) x d) xs []"

definition view :: "('a \<Rightarrow> 'k) \<Rightarrow> 'a list \<Rightarrow> 'k \<rightharpoonup> 'a" where
  "view key xs = map_of (keyed key xs)"

definition strictly_keyed :: "('a \<Rightarrow> 'k::linorder) \<Rightarrow> 'a list \<Rightarrow> bool" where
  "strictly_keyed key xs = sorted_wrt (<) (map key xs)"

text \<open>A dictionary whose values carry their own key.\<close>

definition self_keyed :: "('a \<Rightarrow> 'k) \<Rightarrow> ('k \<times> 'a) list \<Rightarrow> bool" where
  "self_keyed key d = (distinct (map fst d) \<and> (\<forall>(k, x) \<in> set d. key x = k))"

lemma self_keyed_Nil [simp]: "self_keyed key []"
  by (simp add: self_keyed_def)

lemma set_dict_set: "set (dict_set k v d) \<subseteq> insert (k, v) (set d)"
  by (induction d) (auto split: if_splits)

lemma self_keyed_dict_set [intro]: "self_keyed key d \<Longrightarrow> key x = k \<Longrightarrow> self_keyed key (dict_set k x d)"
  using set_dict_set [of k x d] by (fastforce simp: self_keyed_def)

lemma self_keyed_fold:
  "self_keyed key d \<Longrightarrow> (\<And>p x. key (f p x) = key x) \<Longrightarrow>
   self_keyed key (fold (\<lambda>x d. dict_set (key x) (f (map_of d (key x)) x) d) xs d)"
  by (induction xs arbitrary: d) auto

lemma self_keyed_keyed [simp]: "self_keyed key (keyed key xs)"
  unfolding keyed_def using self_keyed_fold [of key "[]" "\<lambda>p x. x" xs] by simp

lemma self_keyed_update:
  "self_keyed key d \<Longrightarrow> self_keyed key e \<Longrightarrow> self_keyed key (dict_update d e)"
  unfolding dict_update_def
proof (induction e arbitrary: d)
  case Nil
  then show ?case by simp
next
  case (Cons p e)
  from Cons.prems(2) have "self_keyed key e" "key (snd p) = fst p"
    by (auto simp: self_keyed_def)
  then have "self_keyed key (dict_set (fst p) (snd p) d)"
    using Cons.prems(1) by (intro self_keyed_dict_set)
  from Cons.IH [OF this \<open>self_keyed key e\<close>] show ?case by (cases p) simp
qed

lemma keyed_snoc: "keyed key (xs @ [x]) = dict_set (key x) x (keyed key xs)"
  by (simp add: keyed_def)

lemma view_Nil [simp]: "view key [] = Map.empty"
  by (simp add: view_def keyed_def)

lemma view_snoc [simp]: "view key (xs @ [x]) = (view key xs)(key x \<mapsto> x)"
  by (simp add: view_def keyed_snoc)

lemma view_key: "view key xs k = Some x \<Longrightarrow> key x = k \<and> x \<in> set xs"
  by (induction xs rule: rev_induct) (auto split: if_splits)

lemma view_None_iff: "view key xs k = None \<longleftrightarrow> k \<notin> key ` set xs"
  by (induction xs rule: rev_induct) auto

lemma dom_view: "dom (view key xs) = key ` set xs"
  unfolding dom_def view_None_iff by auto

lemma view_distinct:
  "distinct (map key xs) \<Longrightarrow> view key xs = map_of (map (\<lambda>x. (key x, x)) xs)"
proof (induction xs rule: rev_induct)
  case Nil
  then show ?case by simp
next
  case (snoc x xs)
  then have "map_of (map (\<lambda>x. (key x, x)) xs) (key x) = None"
    by (auto simp: map_of_eq_None_iff)
  with snoc show ?case
    by (auto simp: fun_eq_iff map_add_def split: option.splits)
qed

lemma strictly_keyed_distinct: "strictly_keyed key xs \<Longrightarrow> distinct (map key xs)"
  by (auto simp: strictly_keyed_def intro: strict_sorted_imp_sorted sorted_wrt_mono_rel
      dest: strict_sorted_iff [THEN iffD1])

lemma view_Some_iff:
  assumes "strictly_keyed key xs"
  shows "view key xs k = Some x \<longleftrightarrow> x \<in> set xs \<and> key x = k"
  using strictly_keyed_distinct [OF assms]
  by (auto simp: view_distinct map_of_eq_Some_iff comp_def)

lemma strictly_keyed_determined:
  assumes "strictly_keyed key xs" "strictly_keyed key ys" "view key xs = view key ys"
  shows "xs = ys"
proof -
  have "set xs = set ys"
    using assms view_Some_iff [OF assms(1)] view_Some_iff [OF assms(2)] by (metis subsetI subset_antisym)
  then have "map key xs = map key ys"
    using assms(1,2) by (intro strict_sorted_equal) (auto simp: strictly_keyed_def)
  moreover have "inj_on key (set xs \<union> set ys)"
    using \<open>set xs = set ys\<close> strictly_keyed_distinct [OF assms(1)] by (simp add: distinct_map)
  ultimately show ?thesis by (metis map_inj_on)
qed

lemma map_of_values:
  assumes "self_keyed key d"
  shows "strictly_keyed key (values_by_key d)" and "view key (values_by_key d) = map_of d"
proof -
  have dist: "distinct (map fst d)" using assms by (simp add: self_keyed_def)
  have key: "key (the (map_of d k)) = k" if "k \<in> set (map fst d)" for k
    using that assms dist by (auto simp: self_keyed_def)
  have keys: "map key (values_by_key d) = sort (map fst d)"
    unfolding values_by_key_def map_map using key by (intro map_idI) simp
  then show strict: "strictly_keyed key (values_by_key d)"
    using dist by (simp add: strictly_keyed_def strict_sorted_iff)
  show "view key (values_by_key d) = map_of d"
  proof
    fix k
    show "view key (values_by_key d) k = map_of d k"
    proof (cases "k \<in> set (map fst d)")
      case True
      then have "the (map_of d k) \<in> set (values_by_key d)" by (auto simp: values_by_key_def)
      with key [OF True] have "view key (values_by_key d) k = Some (the (map_of d k))"
        by (simp add: view_Some_iff [OF strict])
      moreover have "map_of d k \<noteq> None" using True by (simp add: map_of_eq_None_iff)
      ultimately show ?thesis by simp
    next
      case False
      then have "k \<notin> key ` set (values_by_key d)" using keys by (metis set_map set_sort)
      moreover have "map_of d k = None" using False by (simp add: map_of_eq_None_iff)
      ultimately show ?thesis by (simp add: view_None_iff)
    qed
  qed
qed

section \<open>The interface of a merge\<close>

text \<open>
  \<open>merge old new\<close> combines the elements of \<open>new\<close> with the ones \<open>old\<close> has under the same
  key (\<open>comb prior incoming\<close>), keeps the rest of \<open>old\<close> and returns key order.
\<close>

locale keyed_merge =
  fixes key :: "'a \<Rightarrow> 'k::linorder"
    and comb :: "'a option \<Rightarrow> 'a \<Rightarrow> 'a"
    and merge :: "'a list \<Rightarrow> 'a list \<Rightarrow> 'a list"
  assumes merge_sorted: "strictly_keyed key (merge old new)"
    and merge_view: "strictly_keyed key new \<Longrightarrow> view key (merge old new) k =
      (case view key new k of None \<Rightarrow> view key old k | Some y \<Rightarrow> Some (comb (view key old k) y))"
    and comb_assoc: "key x = key y \<Longrightarrow> comb (Some (comb p x)) y = comb p (comb (Some x) y)"
    and comb_none: "comb p (comb None y) = comb p y"
begin

lemma merge_assoc:
  assumes "strictly_keyed key ys" and "strictly_keyed key zs"
  shows "merge (merge xs ys) zs = merge xs (merge ys zs)"
proof (rule strictly_keyed_determined [of key])
  show "view key (merge (merge xs ys) zs) = view key (merge xs (merge ys zs))"
  proof
    fix k
    have same: "key x = key y" if "view key ys k = Some x" "view key zs k = Some y" for x y
      using view_key [OF that(1)] view_key [OF that(2)] by simp
    show "view key (merge (merge xs ys) zs) k = view key (merge xs (merge ys zs)) k"
      using assms merge_sorted same by (auto simp: merge_view comb_assoc comb_none split: option.splits)
  qed
qed (rule merge_sorted)+

lemma merge_keys: "strictly_keyed key new \<Longrightarrow> key ` set (merge old new) = key ` set old \<union> key ` set new"
proof -
  assume new: "strictly_keyed key new"
  have "dom (view key (merge old new)) = dom (view key old) \<union> dom (view key new)"
    by (auto simp: merge_view [OF new] domIff split: option.splits)
  then show ?thesis by (simp add: dom_view)
qed

lemma merge_keeps_old:
  "strictly_keyed key new \<Longrightarrow> k \<notin> key ` set new \<Longrightarrow> view key (merge old new) k = view key old k"
  by (simp add: merge_view view_None_iff [THEN iffD2])

lemma merge_idem:
  assumes "strictly_keyed key xs" and "\<And>x. x \<in> set xs \<Longrightarrow> comb (Some x) x = x"
  shows "merge xs xs = xs"
proof (rule strictly_keyed_determined [of key])
  show "view key (merge xs xs) = view key xs"
  proof
    fix k
    show "view key (merge xs xs) k = view key xs k"
      using assms(2) view_key [of key xs k]
      by (auto simp: merge_view [OF assms(1)] split: option.splits)
  qed
qed (use merge_sorted assms(1) in auto)

lemma merge_empty: "strictly_keyed key xs \<Longrightarrow> (\<And>x. x \<in> set xs \<Longrightarrow> comb None x = x) \<Longrightarrow> merge [] xs = xs"
  by (rule strictly_keyed_determined [of key])
    (auto simp: merge_sorted merge_view fun_eq_iff split: option.splits dest: view_key)

lemma merge_commute:
  assumes "strictly_keyed key xs" "strictly_keyed key ys"
    and "\<And>x y. x \<in> set xs \<Longrightarrow> y \<in> set ys \<Longrightarrow> key x = key y \<Longrightarrow> comb (Some x) y = comb (Some y) x"
    and "\<And>x. x \<in> set xs \<union> set ys \<Longrightarrow> comb None x = x"
  shows "merge xs ys = merge ys xs"
proof (rule strictly_keyed_determined [of key])
  show "view key (merge xs ys) = view key (merge ys xs)"
  proof
    fix k
    show "view key (merge xs ys) k = view key (merge ys xs) k"
      using assms(3,4) view_key [of key xs k] view_key [of key ys k]
      by (auto simp: merge_view [OF assms(1)] merge_view [OF assms(2)] split: option.splits)
  qed
qed (rule merge_sorted)+

end

section \<open>The two shapes of merging in the code\<close>

text \<open>\<open>d = {..old..}; d.update({..new..}); [d[k] for k in sorted(d)]\<close>\<close>

definition overlay :: "('a \<Rightarrow> 'k::linorder) \<Rightarrow> 'a list \<Rightarrow> 'a list \<Rightarrow> 'a list" where
  "overlay key old new = values_by_key (dict_update (keyed key old) (keyed key new))"

text \<open>\<open>for y in new: d[key(y)] = comb(d.get(key(y)), y)\<close>\<close>

definition overlay_with ::
  "('a \<Rightarrow> 'k::linorder) \<Rightarrow> ('a option \<Rightarrow> 'a \<Rightarrow> 'a) \<Rightarrow> 'a list \<Rightarrow> 'a list \<Rightarrow> 'a list" where
  "overlay_with key comb old new =
     values_by_key (fold (\<lambda>y d. dict_set (key y) (comb (map_of d (key y)) y) d) new (keyed key old))"

lemma overlay_sorted: "strictly_keyed key (overlay key old new)"
  by (simp add: overlay_def map_of_values(1) self_keyed_update)

lemma overlay_view: "view key (overlay key old new) = view key old ++ view key new"
proof -
  have "distinct (map fst (keyed key new))"
    using self_keyed_keyed [of key new] by (simp add: self_keyed_def)
  moreover have "self_keyed key (dict_update (keyed key old) (keyed key new))"
    by (rule self_keyed_update) simp_all
  ultimately show ?thesis
    unfolding overlay_def by (simp add: map_of_values(2) map_of_dict_update_distinct
        view_def [symmetric] del: map_of_dict_update)
qed

lemma overlay_assoc: "overlay key (overlay key xs ys) zs = overlay key xs (overlay key ys zs)"
  by (rule strictly_keyed_determined [of key]) (simp_all add: overlay_sorted overlay_view)

lemma overlay_empty_right: "overlay key xs (overlay key [] ys) = overlay key xs ys"
  by (rule strictly_keyed_determined [of key]) (simp_all add: overlay_sorted overlay_view)

interpretation overlay_merge: keyed_merge key "\<lambda>_ y. y" "overlay key" for key
proof unfold_locales
  show "view key (overlay key old new) k =
    (case view key new k of None \<Rightarrow> view key old k | Some y \<Rightarrow> Some y)" for old new k
    by (simp add: overlay_view map_add_def)
qed (simp_all add: overlay_sorted)

lemma overlay_with_sorted:
  "(\<And>p y. key (comb p y) = key y) \<Longrightarrow> strictly_keyed key (overlay_with key comb old new)"
  by (simp add: overlay_with_def map_of_values(1) self_keyed_fold)

lemma map_of_overlay_fold:
  assumes "distinct (map key new)"
  shows "map_of (fold (\<lambda>y d. dict_set (key y) (comb (map_of d (key y)) y) d) new d) k =
    (case view key new k of None \<Rightarrow> map_of d k | Some y \<Rightarrow> Some (comb (map_of d k) y))"
  using assms
proof (induction new arbitrary: k rule: rev_induct)
  case Nil
  then show ?case by simp
next
  case (snoc y new)
  then have "view key new (key y) = None" by (auto simp: view_None_iff)
  with snoc show ?case by simp
qed

lemma overlay_with_view:
  assumes "\<And>p y. key (comb p y) = key y" and "strictly_keyed key new"
  shows "view key (overlay_with key comb old new) k =
    (case view key new k of None \<Rightarrow> view key old k | Some y \<Rightarrow> Some (comb (view key old k) y))"
proof -
  have "view key (overlay_with key comb old new)
      = map_of (fold (\<lambda>y d. dict_set (key y) (comb (map_of d (key y)) y) d) new (keyed key old))"
    unfolding overlay_with_def by (rule map_of_values(2)) (simp add: self_keyed_fold assms(1))
  with map_of_overlay_fold [OF strictly_keyed_distinct [OF assms(2)], of comb "keyed key old" k]
  show ?thesis by (cases "view key new k") (simp_all add: view_def [of key old])
qed

end
