(* ===== verification/History.thy ===== *)
theory History
  imports Canonical Keyed_Merge "HOL-Library.Product_Lexorder"
begin

text \<open>
  Local history batches (\<open>history.py\<close>): the snapshot of one Zulip message as one observer
  sees it, the aligned batch of 5000 message identifiers built from a provider page, and
  the merge of batches captured by different accounts. Raw provider data is a Python
  dictionary; what the builder produces has a fixed schema and is a record. SHA-256 is the
  parameter \<open>sha256\<close>.
\<close>

section \<open>Constants and the write budget\<close>

definition BATCH_SIZE :: int where
  "BATCH_SIZE = 5000"

definition capture_write_budget_ms :: "int \<Rightarrow> int" where
  "capture_write_budget_ms encoded_bytes = min 5000 (500 + (encoded_bytes + 16383) div 16384)"

section \<open>Exception chains\<close>

text \<open>
  A Python exception object with the two attributes the code reads and its \<open>__cause__\<close> and
  \<open>__context__\<close> links; objects are identified by their position in a heap, so that chains
  may be cyclic.
\<close>

record exc_node =
  exc_sqlstate :: "string option"
  exc_code :: "string option"
  exc_cause :: "nat option"
  exc_context :: "nat option"

definition exc_next :: "exc_node \<Rightarrow> nat option" where
  "exc_next e = (case exc_cause e of Some c \<Rightarrow> Some c | None \<Rightarrow> exc_context e)"

definition exc_has_state :: "string list \<Rightarrow> exc_node \<Rightarrow> bool" where
  "exc_has_state states e =
     ((case exc_sqlstate e of Some s \<Rightarrow> s \<in> set states | None \<Rightarrow> False) \<or>
      (case exc_code e of Some s \<Rightarrow> s \<in> set states | None \<Rightarrow> False))"

function chain_matches :: "string list \<Rightarrow> exc_node list \<Rightarrow> nat list \<Rightarrow> nat option \<Rightarrow> bool" where
  "chain_matches states heap seen err =
     (case err of
        None \<Rightarrow> False
      | Some i \<Rightarrow>
          if i \<in> set seen \<or> length heap \<le> i then False
          else if exc_has_state states (heap ! i) then True
          else chain_matches states heap (i # seen) (exc_next (heap ! i)))"
  by pat_completeness auto
termination
proof (relation "measure (\<lambda>(states, heap, seen, err). card ({..<length heap} - set seen))")
  fix states :: "string list" and heap :: "exc_node list" and seen :: "nat list" and err i
  assume "\<not> (i \<in> set seen \<or> length heap \<le> i)"
  then have "i \<in> {..<length heap} - set seen" by simp
  moreover have "{..<length heap} - set (i # seen) = ({..<length heap} - set seen) - {i}" by force
  ultimately have sub: "{..<length heap} - set (i # seen) \<subset> {..<length heap} - set seen" by blast
  have "card ({..<length heap} - set (i # seen)) < card ({..<length heap} - set seen)"
    by (rule psubset_card_mono [OF _ sub]) (rule finite_Diff, rule finite_lessThan)
  then show "((states, heap, i # seen, exc_next (heap ! i)), states, heap, seen, err)
      \<in> measure (\<lambda>(states, heap, seen, err). card ({..<length heap} - set seen))"
    by (simp only: in_measure prod.case)
qed simp

declare chain_matches.simps [simp del]

definition is_statement_timeout :: "exc_node list \<Rightarrow> nat option \<Rightarrow> bool" where
  "is_statement_timeout heap err = chain_matches [''57014''] heap [] err"

section \<open>Validation of provider values\<close>

definition validated_id :: "pyval \<Rightarrow> int result" where
  "validated_id v =
     (case v of
        VInt n \<Rightarrow> if 0 < n \<and> n \<le> 2 ^ 53 - 1 then Inr n else Inl (ValueErr ''invalid_history_id'')
      | _ \<Rightarrow> Inl (ValueErr ''invalid_history_id''))"

definition history_text :: "pyval \<Rightarrow> string result" where
  "history_text v =
     (case v of
        VStr s \<Rightarrow> if CHR 0x00 \<in> set s then Inl (ValueErr ''invalid_history_text'') else Inr s
      | _ \<Rightarrow> Inl (ValueErr ''invalid_history_text''))"

section \<open>The stored schema\<close>

record hist_user =
  hu_id :: int
  hu_name :: string

record reaction_item =
  ri_user_id :: int
  ri_reaction_type :: string
  ri_emoji_code :: string
  ri_emoji_name :: string

record access_item =
  ac_user_id :: int
  ac_read :: bool
  ac_starred :: bool

text \<open>A channel message has its channel and topic, a private one its participants.\<close>

datatype location =
    Stream_Location int string string
  | Private_Location "int list"

record snapshot =
  sn_id :: int
  sn_sender_id :: int
  sn_location :: location
  sn_sent_at :: int
  sn_content :: string
  sn_reactions :: "reaction_item list"
  sn_access :: "access_item list"
  sn_hash :: string

record history_range =
  hr_from_id :: int
  hr_to_id :: int
  hr_messages :: "dict list"
  hr_next_anchor :: "int option"

record batch =
  ba_from_id :: int
  ba_to_id :: int
  ba_users :: "hist_user list"
  ba_messages :: "snapshot list"
  ba_hash :: string

section \<open>Digests of stored values\<close>

definition digest :: "(string \<Rightarrow> string) \<Rightarrow> pyval \<Rightarrow> string" where
  "digest sha256 v = sha256 (json_dumps v)"

definition user_value :: "hist_user \<Rightarrow> pyval" where
  "user_value u = VDict [(''id'', VInt (hu_id u)), (''name'', VStr (hu_name u))]"

definition reaction_value :: "reaction_item \<Rightarrow> pyval" where
  "reaction_value r =
     VDict [(''user_id'', VInt (ri_user_id r)), (''reaction_type'', VStr (ri_reaction_type r)),
            (''emoji_code'', VStr (ri_emoji_code r)), (''emoji_name'', VStr (ri_emoji_name r))]"

definition access_value :: "access_item \<Rightarrow> pyval" where
  "access_value a =
     VDict [(''user_id'', VInt (ac_user_id a)), (''read'', VBool (ac_read a)),
            (''starred'', VBool (ac_starred a))]"

fun location_members :: "location \<Rightarrow> dict" where
  "location_members (Stream_Location c n t) =
     [(''channel_id'', VInt c), (''channel_name'', VStr n), (''topic'', VStr t)]"
| "location_members (Private_Location ids) =
     [(''channel_id'', VNone), (''channel_name'', VNone), (''topic'', VNone),
      (''recipient_ids'', VList (map VInt ids))]"

definition snapshot_members :: "snapshot \<Rightarrow> dict" where
  "snapshot_members s =
     [(''id'', VInt (sn_id s)), (''sender_id'', VInt (sn_sender_id s))]
     @ location_members (sn_location s)
     @ [(''sent_at'', VInt (sn_sent_at s)), (''content'', VStr (sn_content s)),
        (''reactions'', VList (map reaction_value (sn_reactions s))),
        (''access'', VList (map access_value (sn_access s)))]"

definition snapshot_value :: "snapshot \<Rightarrow> pyval" where
  "snapshot_value s = VDict (snapshot_members s @ [(''hash'', VStr (sn_hash s))])"

text \<open>\<open>result["hash"] = digest(result)\<close> before the hash member exists.\<close>

definition hash_snapshot :: "(string \<Rightarrow> string) \<Rightarrow> snapshot \<Rightarrow> snapshot" where
  "hash_snapshot sha256 s = s\<lparr>sn_hash := digest sha256 (VDict (snapshot_members s))\<rparr>"

definition batch_value :: "batch \<Rightarrow> pyval" where
  "batch_value b =
     VDict [(''from_id'', VInt (ba_from_id b)), (''to_id'', VInt (ba_to_id b)),
            (''users'', VList (map user_value (ba_users b))),
            (''messages'', VList (map snapshot_value (ba_messages b)))]"

definition hash_batch :: "(string \<Rightarrow> string) \<Rightarrow> batch \<Rightarrow> batch" where
  "hash_batch sha256 b = b\<lparr>ba_hash := digest sha256 (batch_value b)\<rparr>"

section \<open>Building a batch\<close>

definition catalog_user :: "dict \<Rightarrow> hist_user result" where
  "catalog_user user =
     bindE (validated_id (get_val user ''user_id'')) (\<lambda>i.
     bindE (history_text (get_val user ''full_name'')) (\<lambda>n.
     Inr \<lparr>hu_id = i, hu_name = n\<rparr>))"

definition user_catalog :: "dict list \<Rightarrow> hist_user list result" where
  "user_catalog users =
     bindE (foldE (\<lambda>catalog user.
              bindE (catalog_user user) (\<lambda>u. Inr (dict_set (hu_id u) u catalog))) [] users)
       (\<lambda>catalog. Inr (values_by_key catalog))"

definition message_location :: "dict \<Rightarrow> location result" where
  "message_location message =
     (if get_val message ''type'' = VStr ''stream'' then
        bindE (validated_id (get_val message ''stream_id'')) (\<lambda>c.
        bindE (history_text (get_val message ''display_recipient'')) (\<lambda>n.
        bindE (history_text (get_val message ''subject'')) (\<lambda>t.
        Inr (Stream_Location c n t))))
      else if get_val message ''type'' = VStr ''private'' then
        (case get_val message ''display_recipient'' of
           VList recipients \<Rightarrow>
             if recipients = [] \<or> \<not> list_all is_dict recipients
             then Inl (ValueErr ''invalid_history_recipients'')
             else bindE (mapE (\<lambda>person. validated_id
                      (case person of VDict p \<Rightarrow> get_val p ''id'' | _ \<Rightarrow> VNone)) recipients)
                    (\<lambda>ids. Inr (Private_Location (sort (remdups ids))))
         | _ \<Rightarrow> Inl (ValueErr ''invalid_history_recipients''))
      else Inl (ValueErr ''invalid_history_message_type''))"

type_synonym reaction_key = "int \<times> string \<times> string"

definition reaction_key :: "reaction_item \<Rightarrow> reaction_key" where
  "reaction_key r = (ri_user_id r, ri_reaction_type r, ri_emoji_code r)"

definition snapshot_reaction :: "pyval \<Rightarrow> reaction_item result" where
  "snapshot_reaction v =
     (if \<not> is_dict v then Inl (ValueErr ''invalid_history_reaction'')
      else let r = (case v of VDict d \<Rightarrow> d | _ \<Rightarrow> []) in
        bindE (validated_id (get_val r ''user_id'')) (\<lambda>u.
        bindE (history_text (get_val r ''reaction_type'')) (\<lambda>t.
        bindE (history_text (get_val r ''emoji_code'')) (\<lambda>c.
        bindE (history_text (get_val r ''emoji_name'')) (\<lambda>n.
        Inr \<lparr>ri_user_id = u, ri_reaction_type = t, ri_emoji_code = c, ri_emoji_name = n\<rparr>)))))"

definition add_reaction ::
  "(reaction_key \<times> reaction_item) list \<Rightarrow> pyval \<Rightarrow> (reaction_key \<times> reaction_item) list result" where
  "add_reaction items v =
     bindE (snapshot_reaction v) (\<lambda>r.
       case map_of items (reaction_key r) of
         Some prior \<Rightarrow>
           if prior \<noteq> r then Inl (ValueErr ''conflicting_history_reaction'')
           else Inr (dict_set (reaction_key r) r items)
       | None \<Rightarrow> Inr (dict_set (reaction_key r) r items))"

definition message_snapshot :: "(string \<Rightarrow> string) \<Rightarrow> dict \<Rightarrow> int \<Rightarrow> snapshot result" where
  "message_snapshot sha256 message observer_user_id =
     (case get_val message ''flags'' of
        VList flags \<Rightarrow>
          if \<not> list_all is_str flags then Inl (ValueErr ''missing_history_user_flags'')
          else (case get_val message ''reactions'' of
            VList reactions \<Rightarrow>
              bindE (message_location message) (\<lambda>location.
              bindE (foldE add_reaction [] reactions) (\<lambda>reaction_items.
              bindE (validated_id (get_val message ''id'')) (\<lambda>mid.
              bindE (validated_id (get_val message ''sender_id'')) (\<lambda>sender.
              bindE (validated_id (get_val message ''timestamp'')) (\<lambda>sent.
              bindE (history_text (get_val message ''content'')) (\<lambda>content.
              bindE (validated_id (VInt observer_user_id)) (\<lambda>observer.
              Inr (hash_snapshot sha256
                \<lparr>sn_id = mid, sn_sender_id = sender, sn_location = location, sn_sent_at = sent,
                 sn_content = content, sn_reactions = values_by_key reaction_items,
                 sn_access = [\<lparr>ac_user_id = observer, ac_read = VStr ''read'' \<in> set flags,
                               ac_starred = VStr ''starred'' \<in> set flags\<rparr>],
                 sn_hash = []\<rparr>))))))))
          | _ \<Rightarrow> Inl (ValueErr ''missing_history_reactions''))
      | _ \<Rightarrow> Inl (ValueErr ''missing_history_user_flags''))"

definition add_message ::
  "(string \<Rightarrow> string) \<Rightarrow> history_range \<Rightarrow> int \<Rightarrow> (int \<times> snapshot) list \<Rightarrow> dict
     \<Rightarrow> (int \<times> snapshot) list result" where
  "add_message sha256 page observer_user_id messages raw =
     bindE (message_snapshot sha256 raw observer_user_id) (\<lambda>message.
       if \<not> (hr_from_id page \<le> sn_id message \<and> sn_id message \<le> hr_to_id page)
       then Inl (ValueErr ''history_message_outside_range'')
       else case map_of messages (sn_id message) of
           Some prior \<Rightarrow>
             if prior \<noteq> message then Inl (ValueErr ''conflicting_history_message'')
             else Inr (dict_set (sn_id message) message messages)
         | None \<Rightarrow> Inr (dict_set (sn_id message) message messages))"

definition make_batch ::
  "(string \<Rightarrow> string) \<Rightarrow> history_range \<Rightarrow> dict list \<Rightarrow> int \<Rightarrow> batch result" where
  "make_batch sha256 page users observer_user_id =
     (if hr_from_id page < 1 \<or> (hr_from_id page - 1) mod BATCH_SIZE \<noteq> 0
      then Inl (ValueErr ''invalid_history_range'')
      else if hr_to_id page \<noteq> hr_from_id page + BATCH_SIZE - 1
      then Inl (ValueErr ''invalid_history_range'')
      else
        bindE (foldE (add_message sha256 page observer_user_id) [] (hr_messages page)) (\<lambda>messages.
        bindE (user_catalog users) (\<lambda>catalog.
        Inr (hash_batch sha256
          \<lparr>ba_from_id = hr_from_id page, ba_to_id = hr_to_id page, ba_users = catalog,
           ba_messages = values_by_key messages, ba_hash = []\<rparr>))))"

section \<open>Merging batches\<close>

definition merge_access :: "access_item list \<Rightarrow> access_item list \<Rightarrow> access_item list" where
  "merge_access = overlay ac_user_id"

definition merge_users :: "hist_user list \<Rightarrow> hist_user list \<Rightarrow> hist_user list" where
  "merge_users = overlay hu_id"

text \<open>One incoming message over the prior observation, if there is one.\<close>

definition merge_message :: "(string \<Rightarrow> string) \<Rightarrow> snapshot option \<Rightarrow> snapshot \<Rightarrow> snapshot" where
  "merge_message sha256 prior message =
     hash_snapshot sha256
       (message\<lparr>sn_access :=
          merge_access (case prior of None \<Rightarrow> [] | Some p \<Rightarrow> sn_access p) (sn_access message)\<rparr>)"

definition merge_messages ::
  "(string \<Rightarrow> string) \<Rightarrow> snapshot list \<Rightarrow> snapshot list \<Rightarrow> snapshot list" where
  "merge_messages sha256 = overlay_with sn_id (merge_message sha256)"

definition merge_batch :: "(string \<Rightarrow> string) \<Rightarrow> batch option \<Rightarrow> batch \<Rightarrow> batch result" where
  "merge_batch sha256 existing incoming =
     (case existing of
        None \<Rightarrow> Inr incoming
      | Some old \<Rightarrow>
          if ba_from_id old \<noteq> ba_from_id incoming \<or> ba_to_id old \<noteq> ba_to_id incoming
          then Inl (ValueErr ''history_range_mismatch'')
          else Inr (hash_batch sha256
            \<lparr>ba_from_id = ba_from_id incoming, ba_to_id = ba_to_id incoming,
             ba_users = merge_users (ba_users old) (ba_users incoming),
             ba_messages = merge_messages sha256 (ba_messages old) (ba_messages incoming),
             ba_hash = []\<rparr>))"

section \<open>Well-formed batches\<close>

definition snapshot_ok :: "(string \<Rightarrow> string) \<Rightarrow> snapshot \<Rightarrow> bool" where
  "snapshot_ok sha256 s =
     (strictly_keyed ac_user_id (sn_access s) \<and> strictly_keyed reaction_key (sn_reactions s) \<and>
      hash_snapshot sha256 s = s)"

definition batch_ok :: "(string \<Rightarrow> string) \<Rightarrow> batch \<Rightarrow> bool" where
  "batch_ok sha256 b =
     (1 \<le> ba_from_id b \<and> (ba_from_id b - 1) mod BATCH_SIZE = 0 \<and>
      ba_to_id b = ba_from_id b + BATCH_SIZE - 1 \<and>
      strictly_keyed hu_id (ba_users b) \<and> strictly_keyed sn_id (ba_messages b) \<and>
      (\<forall>s \<in> set (ba_messages b).
         ba_from_id b \<le> sn_id s \<and> sn_id s \<le> ba_to_id b \<and> snapshot_ok sha256 s) \<and>
      hash_batch sha256 b = b)"

lemma hash_snapshot_simps [simp]:
  "sn_id (hash_snapshot sha256 s) = sn_id s"
  "sn_access (hash_snapshot sha256 s) = sn_access s"
  "sn_reactions (hash_snapshot sha256 s) = sn_reactions s"
  "hash_snapshot sha256 (hash_snapshot sha256 s) = hash_snapshot sha256 s"
  by (simp_all add: hash_snapshot_def snapshot_members_def)

lemma hash_batch_simps [simp]:
  "ba_from_id (hash_batch sha256 b) = ba_from_id b"
  "ba_to_id (hash_batch sha256 b) = ba_to_id b"
  "ba_users (hash_batch sha256 b) = ba_users b"
  "ba_messages (hash_batch sha256 b) = ba_messages b"
  "hash_batch sha256 (hash_batch sha256 b) = hash_batch sha256 b"
  by (simp_all add: hash_batch_def batch_value_def)

lemma hash_batch_determined:
  assumes "hash_batch sha256 b = b" "hash_batch sha256 c = c" "ba_from_id b = ba_from_id c"
    "ba_to_id b = ba_to_id c" "ba_users b = ba_users c" "ba_messages b = ba_messages c"
  shows "b = c"
proof -
  have "batch_value b = batch_value c" using assms(3-6) by (simp add: batch_value_def)
  then have "ba_hash b = ba_hash c"
    using assms(1,2) unfolding hash_batch_def by (metis batch.select_convs(5) batch.surjective batch.update_convs(5))
  with assms(3-6) show ?thesis by simp
qed

section \<open>The merges of the code satisfy the interface\<close>

interpretation user_merge: keyed_merge hu_id "\<lambda>_ y. y" merge_users
  unfolding merge_users_def by (rule overlay_merge.keyed_merge_axioms)

interpretation access_merge: keyed_merge ac_user_id "\<lambda>_ y. y" merge_access
  unfolding merge_access_def by (rule overlay_merge.keyed_merge_axioms)

lemma merge_message_id [simp]: "sn_id (merge_message sha256 p m) = sn_id m"
  by (simp add: merge_message_def)

lemma merge_message_access [simp]:
  "sn_access (merge_message sha256 p m) =
     merge_access (case p of None \<Rightarrow> [] | Some q \<Rightarrow> sn_access q) (sn_access m)"
  by (simp add: merge_message_def)

lemma hash_snapshot_eqI:
  "s\<lparr>sn_hash := []\<rparr> = t\<lparr>sn_hash := []\<rparr> \<Longrightarrow> hash_snapshot sha256 s = hash_snapshot sha256 t"
  unfolding hash_snapshot_def snapshot_members_def by (cases s; cases t) simp

lemma merge_message_over:
  "merge_message sha256 p (merge_message sha256 q m) =
     hash_snapshot sha256 (m\<lparr>sn_access :=
       merge_access (case p of None \<Rightarrow> [] | Some r \<Rightarrow> sn_access r)
         (merge_access (case q of None \<Rightarrow> [] | Some r \<Rightarrow> sn_access r) (sn_access m))\<rparr>)"
  unfolding merge_message_def by (rule hash_snapshot_eqI) (simp add: hash_snapshot_def)

interpretation message_merge: keyed_merge sn_id "merge_message sha256" "merge_messages sha256" for sha256
proof unfold_locales
  show "strictly_keyed sn_id (merge_messages sha256 old new)" for old new
    unfolding merge_messages_def by (rule overlay_with_sorted) simp
  show "view sn_id (merge_messages sha256 old new) k =
      (case view sn_id new k of None \<Rightarrow> view sn_id old k
       | Some y \<Rightarrow> Some (merge_message sha256 (view sn_id old k) y))"
    if "strictly_keyed sn_id new" for old new k
    unfolding merge_messages_def by (rule overlay_with_view) (simp_all add: that)
  show "merge_message sha256 (Some (merge_message sha256 p x)) y
      = merge_message sha256 p (merge_message sha256 (Some x) y)" for x y p
    unfolding merge_message_over
    by (simp add: merge_message_def merge_access_def overlay_assoc)
  show "merge_message sha256 p (merge_message sha256 None y) = merge_message sha256 p y" for p y
    unfolding merge_message_over
    by (simp add: merge_message_def merge_access_def overlay_empty_right)
qed

lemma merge_message_ok:
  assumes "snapshot_ok sha256 m"
  shows "snapshot_ok sha256 (merge_message sha256 p m)"
  using assms access_merge.merge_sorted
  by (simp add: snapshot_ok_def merge_message_def)

lemma merge_message_same: "snapshot_ok sha256 m \<Longrightarrow> merge_message sha256 (Some m) m = m"
  by (simp add: merge_message_def snapshot_ok_def access_merge.merge_idem)

lemma merge_message_none: "snapshot_ok sha256 m \<Longrightarrow> merge_message sha256 None m = m"
  by (simp add: merge_message_def snapshot_ok_def access_merge.merge_empty)

section \<open>Batches built from a page are well formed\<close>

lemma set_values_by_key: "self_keyed key d \<Longrightarrow> set (values_by_key d) \<subseteq> snd ` set d"
proof
  fix x
  assume d: "self_keyed key d" and "x \<in> set (values_by_key d)"
  then have "map_of d (key x) = Some x"
    using map_of_values [OF d] view_Some_iff by metis
  then show "x \<in> snd ` set d" by (force dest: map_of_SomeD)
qed

lemma add_reaction_self_keyed:
  "add_reaction items v = Inr items' \<Longrightarrow> self_keyed reaction_key items \<Longrightarrow> self_keyed reaction_key items'"
  by (auto simp: add_reaction_def bindE_eq_Inr split: option.splits if_splits)

lemma message_snapshot_ok:
  assumes "message_snapshot sha256 message observer = Inr s"
  shows "snapshot_ok sha256 s"
proof -
  obtain reactions items where items: "foldE add_reaction [] reactions = Inr items"
    and s: "sn_reactions s = values_by_key items" "length (sn_access s) = 1" "hash_snapshot sha256 s = s"
    using assms
    by (auto simp: message_snapshot_def bindE_eq_Inr split: pyval.splits if_splits)
  have "self_keyed reaction_key items"
    using items by (rule foldE_invariant) (auto intro: add_reaction_self_keyed)
  then have "strictly_keyed reaction_key (sn_reactions s)"
    using map_of_values(1) s(1) by metis
  moreover have "strictly_keyed ac_user_id (sn_access s)"
    using s(2) by (auto simp: strictly_keyed_def length_Suc_conv)
  ultimately show ?thesis using s(3) by (simp add: snapshot_ok_def)
qed

definition captured_ok :: "(string \<Rightarrow> string) \<Rightarrow> history_range \<Rightarrow> (int \<times> snapshot) list \<Rightarrow> bool" where
  "captured_ok sha256 page d =
     (self_keyed sn_id d \<and> (\<forall>s \<in> snd ` set d.
        hr_from_id page \<le> sn_id s \<and> sn_id s \<le> hr_to_id page \<and> snapshot_ok sha256 s))"

lemma add_message_Inr:
  assumes "add_message sha256 page observer d raw = Inr d'"
  obtains m where "message_snapshot sha256 raw observer = Inr m" "d' = dict_set (sn_id m) m d"
    "hr_from_id page \<le> sn_id m" "sn_id m \<le> hr_to_id page"
  using assms by (auto simp: add_message_def bindE_eq_Inr split: if_splits option.splits)

lemma add_message_captured:
  assumes "add_message sha256 page observer d raw = Inr d'" and "captured_ok sha256 page d"
  shows "captured_ok sha256 page d'"
proof -
  obtain m where m: "message_snapshot sha256 raw observer = Inr m"
    and d': "d' = dict_set (sn_id m) m d"
    and r: "hr_from_id page \<le> sn_id m" "sn_id m \<le> hr_to_id page"
    using assms(1) by (rule add_message_Inr)
  have "snd ` set d' \<subseteq> insert m (snd ` set d)"
    using set_dict_set [of "sn_id m" m d] d' by force
  with assms(2) r message_snapshot_ok [OF m] show ?thesis
    unfolding captured_ok_def d' by blast
qed

lemma user_catalog_sorted: "user_catalog users = Inr us \<Longrightarrow> strictly_keyed hu_id us"
proof -
  assume "user_catalog users = Inr us"
  then obtain c where c: "foldE (\<lambda>catalog user.
      bindE (catalog_user user) (\<lambda>u. Inr (dict_set (hu_id u) u catalog))) [] users = Inr c"
    and us: "us = values_by_key c" by (auto simp: user_catalog_def bindE_eq_Inr)
  have "self_keyed hu_id c" using c by (rule foldE_invariant) (auto simp: bindE_eq_Inr)
  then show ?thesis using us map_of_values(1) by metis
qed

lemma make_batch_Inr:
  assumes "make_batch sha256 page users observer = Inr b"
  obtains d us where "1 \<le> hr_from_id page" "(hr_from_id page - 1) mod BATCH_SIZE = 0"
    "hr_to_id page = hr_from_id page + BATCH_SIZE - 1"
    "foldE (add_message sha256 page observer) [] (hr_messages page) = Inr d"
    "user_catalog users = Inr us"
    "b = hash_batch sha256 \<lparr>ba_from_id = hr_from_id page, ba_to_id = hr_to_id page,
      ba_users = us, ba_messages = values_by_key d, ba_hash = []\<rparr>"
    "captured_ok sha256 page d" "self_keyed sn_id d"
proof -
  from assms obtain d us where *: "1 \<le> hr_from_id page"
    "(hr_from_id page - 1) mod BATCH_SIZE = 0" "hr_to_id page = hr_from_id page + BATCH_SIZE - 1"
    and d: "foldE (add_message sha256 page observer) [] (hr_messages page) = Inr d"
    and us: "user_catalog users = Inr us"
    and b: "b = hash_batch sha256 \<lparr>ba_from_id = hr_from_id page, ba_to_id = hr_to_id page,
      ba_users = us, ba_messages = values_by_key d, ba_hash = []\<rparr>"
    by (auto simp: make_batch_def bindE_eq_Inr split: if_splits)
  have "captured_ok sha256 page d"
    using d by (rule foldE_invariant) (auto simp: captured_ok_def [of _ _ "[]"] intro: add_message_captured)
  moreover from this have "self_keyed sn_id d" by (simp add: captured_ok_def)
  ultimately show ?thesis by (rule that [OF * d us b])
qed

lemma make_batch_ok:
  assumes "make_batch sha256 page users observer = Inr b"
  shows "batch_ok sha256 b"
  using assms
proof (rule make_batch_Inr)
  fix d us
  assume *: "1 \<le> hr_from_id page" "(hr_from_id page - 1) mod BATCH_SIZE = 0"
    "hr_to_id page = hr_from_id page + BATCH_SIZE - 1" "user_catalog users = Inr us"
    and b: "b = hash_batch sha256 \<lparr>ba_from_id = hr_from_id page, ba_to_id = hr_to_id page,
      ba_users = us, ba_messages = values_by_key d, ba_hash = []\<rparr>"
    and cap: "captured_ok sha256 page d" and keyed: "self_keyed sn_id d"
  have "strictly_keyed sn_id (values_by_key d)" "set (values_by_key d) \<subseteq> snd ` set d"
    by (rule map_of_values(1) [OF keyed], rule set_values_by_key [OF keyed])
  with cap * user_catalog_sorted show ?thesis
    unfolding b batch_ok_def captured_ok_def by auto
qed

lemma message_snapshot_id:
  "message_snapshot sha256 raw observer = Inr s \<Longrightarrow>
     get_val raw ''id'' = VInt (sn_id s) \<and> map ac_user_id (sn_access s) = [observer]"
  by (auto simp: message_snapshot_def validated_id_def bindE_eq_Inr split: pyval.splits if_splits)

lemma add_messages_ids:
  "foldE (add_message sha256 page observer) d raws = Inr d' \<Longrightarrow>
     VInt ` fst ` set d' = VInt ` fst ` set d \<union> (\<lambda>raw. get_val raw ''id'') ` set raws"
proof (induction raws arbitrary: d)
  case Nil
  then show ?case by simp
next
  case (Cons raw raws)
  then obtain e where e: "add_message sha256 page observer d raw = Inr e"
    and tail: "foldE (add_message sha256 page observer) e raws = Inr d'"
    by (auto simp: bindE_eq_Inr)
  obtain m where m: "message_snapshot sha256 raw observer = Inr m" and "e = dict_set (sn_id m) m d"
    using e by (rule add_message_Inr)
  with tail have r: "foldE (add_message sha256 page observer) (dict_set (sn_id m) m d) raws = Inr d'"
    by simp
  have "fst ` set (dict_set (sn_id m) m d) = insert (sn_id m) (fst ` set d)"
    using dom_map_of_conv_image_fst [of "dict_set (sn_id m) m d"]
    by (simp add: dom_map_of_conv_image_fst [symmetric])
  with Cons.IH [OF r] message_snapshot_id [OF m] show ?case by auto
qed

lemma add_message_observer:
  "add_message sha256 page observer d raw = Inr d' \<Longrightarrow>
     \<forall>s \<in> snd ` set d. map ac_user_id (sn_access s) = [observer] \<Longrightarrow>
     \<forall>s \<in> snd ` set d'. map ac_user_id (sn_access s) = [observer]"
proof (erule add_message_Inr)
  fix m
  assume old: "\<forall>s \<in> snd ` set d. map ac_user_id (sn_access s) = [observer]"
    and m: "message_snapshot sha256 raw observer = Inr m" and d': "d' = dict_set (sn_id m) m d"
  show "\<forall>s \<in> snd ` set d'. map ac_user_id (sn_access s) = [observer]"
    using old message_snapshot_id [OF m] set_dict_set [of "sn_id m" m d] unfolding d' by force
qed

lemma values_by_key_keys: "self_keyed key d \<Longrightarrow> key ` set (values_by_key d) = fst ` set d"
  by (metis dom_map_of_conv_image_fst dom_view map_of_values(2))

text \<open>
  C29. Every batch the builder accepts is well formed (it covers one aligned block of 5000
  identifiers, its users, messages, reactions and access rows are strictly ordered by their
  keys, every message lies in the block, every stored hash is the digest of what it covers)
  and complete: it has exactly the messages of the page, each with the one access row of
  the observing account.
\<close>

theorem make_batch_well_formed:
  assumes "make_batch sha256 page users observer = Inr b"
  shows "batch_ok sha256 b \<and>
    (VInt \<circ> sn_id) ` set (ba_messages b) = (\<lambda>raw. get_val raw ''id'') ` set (hr_messages page) \<and>
    (\<forall>s \<in> set (ba_messages b). map ac_user_id (sn_access s) = [observer])"
  using assms
proof (rule make_batch_Inr)
  fix d us
  assume d: "foldE (add_message sha256 page observer) [] (hr_messages page) = Inr d"
    and b: "b = hash_batch sha256 \<lparr>ba_from_id = hr_from_id page, ba_to_id = hr_to_id page,
      ba_users = us, ba_messages = values_by_key d, ba_hash = []\<rparr>"
    and keyed: "self_keyed sn_id d"
  have "\<forall>s \<in> snd ` set d. map ac_user_id (sn_access s) = [observer]"
    using d by (rule foldE_invariant) (use add_message_observer in \<open>simp, blast\<close>)
  moreover have "VInt ` sn_id ` set (ba_messages b) = (\<lambda>raw. get_val raw ''id'') ` set (hr_messages page)"
    using add_messages_ids [OF d] values_by_key_keys [OF keyed] by (simp add: b)
  ultimately show ?thesis
    using make_batch_ok [OF assms] set_values_by_key [OF keyed] by (auto simp: b image_comp)
qed

definition sample_message :: dict where
  "sample_message =
     [(''id'', VInt 7), (''sender_id'', VInt 3), (''type'', VStr ''stream''), (''stream_id'', VInt 5),
      (''display_recipient'', VStr ''dev''), (''subject'', VStr ''t''), (''timestamp'', VInt 9),
      (''content'', VStr ''hi''), (''flags'', VList [VStr ''read'']), (''reactions'', VList [])]"

definition sample_page :: history_range where
  "sample_page = \<lparr>hr_from_id = 1, hr_to_id = 5000, hr_messages = [sample_message], hr_next_anchor = None\<rparr>"

text \<open>The batch that observer \<open>u\<close> captures from the sample page.\<close>

definition sample_batch :: "int \<Rightarrow> batch" where
  "sample_batch u = (case make_batch id sample_page [] u of Inr b \<Rightarrow> b | Inl _ \<Rightarrow> undefined)"

lemmas history_eval =
  sample_batch_def sample_page_def sample_message_def make_batch_def add_message_def
  message_snapshot_def message_location_def user_catalog_def validated_id_def history_text_def
  get_val_def BATCH_SIZE_def values_by_key_def

lemma sample_batch_built: "0 < u \<Longrightarrow> u < 100 \<Longrightarrow> make_batch id sample_page [] u = Inr (sample_batch u)"
  by (simp add: history_eval)

theorem make_batch_well_formed_witness:
  "batch_ok id (sample_batch 4) \<and> (VInt \<circ> sn_id) ` set (ba_messages (sample_batch 4)) = {VInt 7}"
  using make_batch_well_formed [OF sample_batch_built [of 4]]
  by (simp add: sample_page_def sample_message_def get_val_def)

lemma sample_batch_ok: "0 < u \<Longrightarrow> u < 100 \<Longrightarrow> batch_ok id (sample_batch u)"
  using make_batch_ok [OF sample_batch_built] by simp

lemma sample_batch_fields:
  assumes "0 < u" "u < 100"
  shows "ba_from_id (sample_batch u) = 1" "ba_to_id (sample_batch u) = 5000" "ba_users (sample_batch u) = []"
    "ba_messages (sample_batch u) = [hash_snapshot id
       \<lparr>sn_id = 7, sn_sender_id = 3, sn_location = Stream_Location 5 ''dev'' ''t'', sn_sent_at = 9,
        sn_content = ''hi'', sn_reactions = [],
        sn_access = [\<lparr>ac_user_id = u, ac_read = True, ac_starred = False\<rparr>], sn_hash = []\<rparr>]"
  using assms by (simp_all add: history_eval)

section \<open>Merging batches of several observers\<close>

text \<open>What a batch says of one observer's access to one message.\<close>

definition access_of :: "batch \<Rightarrow> int \<Rightarrow> int \<Rightarrow> access_item option" where
  "access_of b mid u = Option.bind (view sn_id (ba_messages b) mid) (\<lambda>s. view ac_user_id (sn_access s) u)"

lemma merge_batch_Inr:
  "merge_batch sha256 (Some a) b = Inr c \<longleftrightarrow>
     ba_from_id a = ba_from_id b \<and> ba_to_id a = ba_to_id b \<and>
     hash_batch sha256 c = c \<and> ba_from_id c = ba_from_id b \<and> ba_to_id c = ba_to_id b \<and>
     ba_users c = merge_users (ba_users a) (ba_users b) \<and>
     ba_messages c = merge_messages sha256 (ba_messages a) (ba_messages b)"
  by (auto simp: merge_batch_def intro: hash_batch_determined [of sha256])

lemma merge_batch_Inl:
  "merge_batch sha256 (Some a) b = Inl e \<longleftrightarrow>
     (ba_from_id a \<noteq> ba_from_id b \<or> ba_to_id a \<noteq> ba_to_id b) \<and> e = ValueErr ''history_range_mismatch''"
  by (auto simp: merge_batch_def)

lemma merge_messages_elem:
  assumes "strictly_keyed sn_id new" and "s \<in> set (merge_messages sha256 old new)"
  shows "s \<in> set old \<or> (\<exists>m \<in> set new. \<exists>p. s = merge_message sha256 p m)"
proof -
  have "view sn_id (merge_messages sha256 old new) (sn_id s) = Some s"
    using assms(2) message_merge.merge_sorted view_Some_iff by metis
  then consider "view sn_id old (sn_id s) = Some s"
    | m where "view sn_id new (sn_id s) = Some m" "s = merge_message sha256 (view sn_id old (sn_id s)) m"
    by (auto simp: message_merge.merge_view [OF assms(1)] split: option.splits)
  then show ?thesis by cases (blast dest: view_key)+
qed

lemma merge_batch_ok:
  assumes "batch_ok sha256 a" "batch_ok sha256 b" "merge_batch sha256 (Some a) b = Inr c"
  shows "batch_ok sha256 c"
proof -
  have new: "strictly_keyed sn_id (ba_messages b)" using assms(2) by (simp add: batch_ok_def)
  have c: "ba_from_id c = ba_from_id b" "ba_to_id c = ba_to_id b" "ba_from_id a = ba_from_id b"
    "ba_to_id a = ba_to_id b" "ba_messages c = merge_messages sha256 (ba_messages a) (ba_messages b)"
    "ba_users c = merge_users (ba_users a) (ba_users b)" "hash_batch sha256 c = c"
    using assms(3) by (auto simp: merge_batch_Inr)
  have elem: "ba_from_id d \<le> sn_id s \<and> sn_id s \<le> ba_to_id d \<and> snapshot_ok sha256 s"
    if "batch_ok sha256 d" "s \<in> set (ba_messages d)" for d s
    using that unfolding batch_ok_def by blast
  have "ba_from_id c \<le> sn_id s \<and> sn_id s \<le> ba_to_id c \<and> snapshot_ok sha256 s"
    if "s \<in> set (ba_messages c)" for s
    using merge_messages_elem [OF new that [unfolded c(5)]]
  proof
    assume "s \<in> set (ba_messages a)"
    from elem [OF assms(1) this] show ?thesis by (simp only: c(1-4))
  next
    assume "\<exists>m \<in> set (ba_messages b). \<exists>p. s = merge_message sha256 p m"
    with elem [OF assms(2)] merge_message_ok show ?thesis by (auto simp only: c(1-2) merge_message_id)
  qed
  then show ?thesis
    using assms(2) c user_merge.merge_sorted message_merge.merge_sorted
    by (simp add: batch_ok_def)
qed

text \<open>
  C28. Merging two well-formed batches fails with the range error exactly when they cover
  different blocks; otherwise it gives a well-formed batch of that block that holds exactly
  the users and the messages of the two.
\<close>

theorem merge_batch_well_formed:
  assumes "batch_ok sha256 a" "batch_ok sha256 b"
  shows "case merge_batch sha256 (Some a) b of
      Inl e \<Rightarrow> ba_from_id a \<noteq> ba_from_id b \<and> e = ValueErr ''history_range_mismatch''
    | Inr c \<Rightarrow> ba_from_id a = ba_from_id b \<and> batch_ok sha256 c \<and> ba_from_id c = ba_from_id b \<and>
        sn_id ` set (ba_messages c) = sn_id ` set (ba_messages a) \<union> sn_id ` set (ba_messages b) \<and>
        hu_id ` set (ba_users c) = hu_id ` set (ba_users a) \<union> hu_id ` set (ba_users b)"
proof (cases "merge_batch sha256 (Some a) b")
  case (Inl e)
  then have "ba_from_id a \<noteq> ba_from_id b \<and> e = ValueErr ''history_range_mismatch''"
    using assms unfolding merge_batch_Inl by (auto simp: batch_ok_def)
  with Inl show ?thesis by simp
next
  case (Inr c)
  have "strictly_keyed sn_id (ba_messages b)" "strictly_keyed hu_id (ba_users b)"
    using assms(2) by (simp_all add: batch_ok_def)
  with Inr [unfolded merge_batch_Inr] merge_batch_ok [OF assms Inr] show ?thesis
    unfolding Inr sum.case by (simp add: message_merge.merge_keys user_merge.merge_keys)
qed

theorem merge_batch_well_formed_witness:
  "case merge_batch id (Some (sample_batch 4)) (sample_batch 5) of Inl e \<Rightarrow> False | Inr c \<Rightarrow> batch_ok id c"
  using merge_batch_well_formed [OF sample_batch_ok [of 4] sample_batch_ok [of 5]]
  by (auto simp: sample_batch_fields split: sum.splits)

text \<open>
  The order in which a sequence of captures is grouped does not matter: merging is
  associative, the range errors included.
\<close>

lemma merge_batch_associative:
  assumes "batch_ok sha256 b" "batch_ok sha256 c"
  shows "bindE (merge_batch sha256 (Some a) b) (\<lambda>ab. merge_batch sha256 (Some ab) c)
       = bindE (merge_batch sha256 (Some b) c) (\<lambda>bc. merge_batch sha256 (Some a) bc)"
proof -
  have keyed: "strictly_keyed sn_id (ba_messages b)" "strictly_keyed sn_id (ba_messages c)"
    "strictly_keyed hu_id (ba_users b)" "strictly_keyed hu_id (ba_users c)"
    using assms by (simp_all add: batch_ok_def)
  show ?thesis
    unfolding merge_batch_def
    by (simp add: message_merge.merge_assoc [OF keyed(1,2)] user_merge.merge_assoc [OF keyed(3,4)])
qed

text \<open>
  A merge keeps every observer's last word: for every message and every observer the
  merged batch records the incoming access row when the incoming batch has one, and else
  the row recorded before. No other observer's row is lost or changed.
\<close>

lemma merge_batch_access:
  assumes "batch_ok sha256 a" "batch_ok sha256 b" "merge_batch sha256 (Some a) b = Inr c"
  shows "access_of c mid u = (case access_of b mid u of Some r \<Rightarrow> Some r | None \<Rightarrow> access_of a mid u)"
proof -
  have new: "strictly_keyed sn_id (ba_messages b)" using assms(2) by (simp add: batch_ok_def)
  have c: "ba_messages c = merge_messages sha256 (ba_messages a) (ba_messages b)"
    using assms(3) by (simp add: merge_batch_Inr)
  have rows: "strictly_keyed ac_user_id (sn_access s)" if "view sn_id (ba_messages b) mid = Some s" for s
    using assms(2) view_key [OF that] by (auto simp: batch_ok_def snapshot_ok_def)
  show ?thesis
    unfolding access_of_def c message_merge.merge_view [OF new]
    by (auto simp: access_merge.merge_view rows split: option.splits)
qed

text \<open>
  Captures by different observers commute: when two batches of one block agree on every
  message both of them hold, apart from the access rows, and no observer appears in both,
  then either order of merging stores the same messages.
\<close>

lemma merge_batch_commutes:
  assumes "batch_ok sha256 a" "batch_ok sha256 b" "ba_from_id a = ba_from_id b"
    and "\<And>x y. x \<in> set (ba_messages a) \<Longrightarrow> y \<in> set (ba_messages b) \<Longrightarrow> sn_id x = sn_id y \<Longrightarrow>
      x\<lparr>sn_access := [], sn_hash := []\<rparr> = y\<lparr>sn_access := [], sn_hash := []\<rparr> \<and>
      ac_user_id ` set (sn_access x) \<inter> ac_user_id ` set (sn_access y) = {}"
    and "\<And>x y. x \<in> set (ba_users a) \<Longrightarrow> y \<in> set (ba_users b) \<Longrightarrow> hu_id x = hu_id y \<Longrightarrow> x = y"
  shows "merge_batch sha256 (Some a) b = merge_batch sha256 (Some b) a"
proof -
  have ok: "strictly_keyed sn_id (ba_messages a)" "strictly_keyed sn_id (ba_messages b)"
    "strictly_keyed hu_id (ba_users a)" "strictly_keyed hu_id (ba_users b)"
    "ba_to_id a = ba_to_id b"
    using assms(1-3) by (simp_all add: batch_ok_def)
  have snap: "snapshot_ok sha256 s" if "s \<in> set (ba_messages a) \<union> set (ba_messages b)" for s
    using that assms(1,2) by (auto simp: batch_ok_def)
  have comb: "merge_message sha256 (Some x) y = merge_message sha256 (Some y) x"
    if "x \<in> set (ba_messages a)" "y \<in> set (ba_messages b)" "sn_id x = sn_id y" for x y
  proof -
    have "merge_access (sn_access x) (sn_access y) = merge_access (sn_access y) (sn_access x)"
      using snap [of x] snap [of y] that assms(4) [OF that]
      by (intro access_merge.merge_commute) (auto simp: snapshot_ok_def)
    then show ?thesis
      using assms(4) [OF that] unfolding merge_message_def
      by (intro hash_snapshot_eqI) (cases x; cases y; simp)
  qed
  have "merge_messages sha256 (ba_messages a) (ba_messages b) = merge_messages sha256 (ba_messages b) (ba_messages a)"
    using ok(1,2) comb merge_message_none snap by (intro message_merge.merge_commute) blast+
  moreover have "merge_users (ba_users a) (ba_users b) = merge_users (ba_users b) (ba_users a)"
    using ok(3,4) assms(5) by (intro user_merge.merge_commute) auto
  ultimately show ?thesis using assms(3) ok(5) by (simp add: merge_batch_def)
qed

text \<open>
  Capturing the same page again changes nothing: merging a well-formed batch into
  itself gives the batch back, with the same hash.
\<close>

lemma merge_batch_idempotent:
  assumes "batch_ok sha256 b"
  shows "merge_batch sha256 (Some b) b = Inr b"
proof -
  have "merge_messages sha256 (ba_messages b) (ba_messages b) = ba_messages b"
    using assms by (intro message_merge.merge_idem) (auto simp: batch_ok_def merge_message_same)
  moreover have "merge_users (ba_users b) (ba_users b) = ba_users b"
    using assms by (intro user_merge.merge_idem) (auto simp: batch_ok_def)
  ultimately show ?thesis using assms by (simp add: merge_batch_Inr batch_ok_def)
qed

section \<open>Statement timeouts\<close>

text \<open>The objects that \<open>__cause__ or __context__\<close> links reach from an exception.\<close>

inductive exc_reaches :: "exc_node list \<Rightarrow> nat option \<Rightarrow> nat \<Rightarrow> bool" for heap where
  here: "i < length heap \<Longrightarrow> exc_reaches heap (Some i) i"
| there: "i < length heap \<Longrightarrow> exc_reaches heap (exc_next (heap ! i)) j \<Longrightarrow> exc_reaches heap (Some i) j"

inductive_cases exc_reachesE: "exc_reaches heap err j"

inductive_simps exc_reaches_None [simp]: "exc_reaches heap None j"

lemma exc_reaches_trans:
  "exc_reaches heap err i \<Longrightarrow> exc_reaches heap (exc_next (heap ! i)) j \<Longrightarrow> exc_reaches heap err j"
  by (induction rule: exc_reaches.induct) (auto intro: exc_reaches.intros)

lemma exc_reaches_closed:
  assumes "exc_reaches heap x j" "x \<in> C"
    and "\<And>i. Some i \<in> C \<Longrightarrow> i < length heap \<Longrightarrow> \<not> P (heap ! i) \<and> exc_next (heap ! i) \<in> C"
  shows "\<not> P (heap ! j)"
  using assms by (induction rule: exc_reaches.induct) auto

lemma chain_matches_complete:
  assumes "\<not> chain_matches states heap seen err"
    and "\<And>i. i \<in> set seen \<Longrightarrow> i < length heap \<and> \<not> exc_has_state states (heap ! i) \<and>
      exc_next (heap ! i) \<in> insert err (Some ` set seen)"
    and "exc_reaches heap err j"
  shows "\<not> exc_has_state states (heap ! j)"
  using assms
proof (induction states heap seen err rule: chain_matches.induct)
  case (1 states heap seen err)
  show ?case
  proof (cases "\<exists>i. err = Some i \<and> i \<notin> set seen \<and> i < length heap")
    case True
    then obtain i where i: "err = Some i" "i \<notin> set seen" "i < length heap" by blast
    with "1.prems"(1) have step: "\<not> exc_has_state states (heap ! i)"
      "\<not> chain_matches states heap (i # seen) (exc_next (heap ! i))"
      by (auto simp: chain_matches.simps [of states heap seen "Some i"] split: if_splits)
    consider "j = i" | "exc_reaches heap (exc_next (heap ! i)) j"
      using "1.prems"(3) i(1) by (auto elim: exc_reachesE)
    then show ?thesis
    proof cases
      case 2
      show ?thesis
        by (rule "1.IH" [OF i(1) _ step(1) step(2) _ 2]) (use i "1.prems"(2) step(1) in auto)
    qed (use step(1) in simp)
  next
    case False
    have closed: "\<not> exc_has_state states (heap ! i) \<and> exc_next (heap ! i) \<in> insert err (Some ` set seen)"
      if "Some i \<in> insert err (Some ` set seen)" "i < length heap" for i
      using that False "1.prems"(2) by blast
    show ?thesis by (rule exc_reaches_closed [OF "1.prems"(3) insertI1 closed])
  qed
qed

lemma chain_matches_sound:
  "chain_matches states heap seen err \<Longrightarrow> \<exists>j. exc_reaches heap err j \<and> exc_has_state states (heap ! j)"
proof (induction states heap seen err rule: chain_matches.induct)
  case (1 states heap seen err)
  from "1.prems" obtain i where i: "err = Some i" "i \<notin> set seen" "i < length heap"
    and hit: "exc_has_state states (heap ! i) \<or> chain_matches states heap (i # seen) (exc_next (heap ! i))"
    by (subst (asm) chain_matches.simps) (auto split: option.splits if_splits)
  show ?case
  proof (cases "exc_has_state states (heap ! i)")
    case True
    with exc_reaches.here [OF i(3)] show ?thesis unfolding i(1) by blast
  next
    case False
    with "1.IH" [OF i(1) _ False] hit i obtain j where
      "exc_reaches heap (exc_next (heap ! i)) j" "exc_has_state states (heap ! j)" by auto
    with exc_reaches.there [OF i(3)] show ?thesis unfolding i(1) by blast
  qed
qed

lemma chain_matches_iff:
  "chain_matches states heap [] err \<longleftrightarrow> (\<exists>j. exc_reaches heap err j \<and> exc_has_state states (heap ! j))"
  using chain_matches_sound [of states heap "[]" err] chain_matches_complete [of states heap "[]" err]
  by (metis empty_iff list.set(1))

text \<open>
  C30. The walk along an exception's cause and context links ends on every object graph,
  also on a cyclic one, and reports a statement timeout exactly when an exception it can
  reach carries the SQL state 57014.
\<close>

theorem statement_timeout_reachable:
  "is_statement_timeout heap err \<longleftrightarrow>
     (\<exists>j. exc_reaches heap err j \<and>
        (exc_sqlstate (heap ! j) = Some ''57014'' \<or> exc_code (heap ! j) = Some ''57014''))"
proof -
  have "exc_has_state [''57014''] e \<longleftrightarrow> exc_sqlstate e = Some ''57014'' \<or> exc_code e = Some ''57014''" for e
    by (auto simp: exc_has_state_def split: option.splits)
  then show ?thesis unfolding is_statement_timeout_def chain_matches_iff by simp
qed

text \<open>
  The write budget of a capture stays between 500 and 5000 milliseconds for every
  encoded size, and never shrinks as the batch grows.
\<close>

lemma capture_write_budget_bounds:
  assumes "0 \<le> n" "n \<le> m"
  shows "500 \<le> capture_write_budget_ms n \<and> capture_write_budget_ms n \<le> 5000 \<and>
    capture_write_budget_ms n \<le> capture_write_budget_ms m"
  using assms zdiv_mono1 [of "n + 16383" "m + 16383" 16384] zdiv_mono1 [of 0 "n + 16383" 16384]
  by (simp add: capture_write_budget_ms_def min_def)

end
