(* ===== verification/Queue_Tables.thy ===== *)
theory Queue_Tables
  imports Canonical "HOL-Library.Product_Lexorder" "HOL-Library.Option_ord"
begin

text \<open>
  The durable state of the operation queue: the rows of \<open>bridge_operations\<close>,
  \<open>operation_idempotency\<close>, \<open>causal_lane_state\<close>, \<open>producer_lane_counters\<close>,
  \<open>producer_operations\<close>, \<open>desired_resources\<close>, \<open>scheduler_accounts\<close> and the two mapping tables
  as the migrations create them, and the operation records stored in the queue. Tables that
  the code only addresses by primary key are maps from the key, the others are lists of
  rows in insertion order. Instants are microseconds since the epoch.
\<close>

section \<open>Instants\<close>

definition seconds :: "int \<Rightarrow> int" where
  "seconds n = n * 1000000"

text \<open>Days since 1970-01-01 in the proleptic Gregorian calendar.\<close>

definition days_from_civil :: "int \<Rightarrow> int \<Rightarrow> int \<Rightarrow> int" where
  "days_from_civil y m d =
     (let y' = (if m \<le> 2 then y - 1 else y);
          era = y' div 400;
          yoe = y' - era * 400;
          mp = (m + 9) mod 12;
          doy = (153 * mp + 2) div 5 + d - 1;
          doe = yoe * 365 + yoe div 4 - yoe div 100 + doy
      in era * 146097 + doe - 719468)"

definition leap_year :: "int \<Rightarrow> bool" where
  "leap_year y = (y mod 4 = 0 \<and> (y mod 100 \<noteq> 0 \<or> y mod 400 = 0))"

definition month_days :: "int \<Rightarrow> int \<Rightarrow> int" where
  "month_days y m = (if m = 2 then (if leap_year y then 29 else 28) else if m \<in> {4, 6, 9, 11} then 30 else 31)"

definition fixed_digits :: "nat \<Rightarrow> string \<Rightarrow> int option" where
  "fixed_digits n s =
     (if length s = n \<and> list_all (\<lambda>c. CHR ''0'' \<le> c \<and> c \<le> CHR ''9'') s
      then map_option int (unsigned_int 10 s) else None)"

text \<open>The offset of an ISO text: \<open>+HH:MM\<close> or \<open>-HH:MM\<close>, in minutes.\<close>

definition parse_offset :: "string \<Rightarrow> int option" where
  "parse_offset s =
     (case s of
        sg # a # b # c # d # e # [] \<Rightarrow>
          (case (fixed_digits 2 [a, b], fixed_digits 2 [d, e]) of
             (Some h, Some m) \<Rightarrow>
               if c = CHR '':'' \<and> h < 24 \<and> m < 60 \<and> sg \<in> {CHR ''+'', CHR ''-''}
               then Some ((if sg = CHR ''-'' then -1 else 1) * (h * 60 + m)) else None
           | _ \<Rightarrow> None)
      | _ \<Rightarrow> None)"

text \<open>An optional fraction of up to six digits, in microseconds, and what follows it.\<close>

definition parse_fraction :: "string \<Rightarrow> (int \<times> string) option" where
  "parse_fraction s =
     (case s of
        CHR ''.'' # r \<Rightarrow>
          (let ds = takeWhile (\<lambda>c. CHR ''0'' \<le> c \<and> c \<le> CHR ''9'') r in
           if ds = [] then None
           else case fixed_digits 6 (take 6 (ds @ ''000000'')) of
                  Some n \<Rightarrow> Some (n, drop (length ds) r)
                | None \<Rightarrow> None)
      | _ \<Rightarrow> Some (0, s))"

text \<open>
  \<open>datetime.fromisoformat(text.replace("Z", "+00:00"))\<close> on the extended format with seconds
  and an offset that the Provider API sends.
\<close>

definition parse_iso :: "string \<Rightarrow> timestamp option" where
  "parse_iso text =
     (let s = replace_sub ''Z'' ''+00:00'' text;
          f = (\<lambda>i n. fixed_digits n (take n (drop i s)));
          sep = (\<lambda>i c. take 1 (drop i s) = [c])
      in if \<not> (sep 4 (CHR ''-'') \<and> sep 7 (CHR ''-'') \<and> sep 13 (CHR '':'') \<and> sep 16 (CHR '':'')
               \<and> (sep 10 (CHR ''T'') \<or> sep 10 (CHR '' ''))) then None
         else case (f 0 4, f 5 2, f 8 2, f 11 2, f 14 2, f 17 2, parse_fraction (drop 19 s)) of
             (Some y, Some m, Some d, Some hh, Some mm, Some ss, Some (us, rest)) \<Rightarrow>
               if 1 \<le> y \<and> 1 \<le> m \<and> m \<le> 12 \<and> 1 \<le> d \<and> d \<le> month_days y m \<and> hh < 24 \<and> mm < 60 \<and> ss < 60
               then map_option (\<lambda>off. seconds (days_from_civil y m d * 86400 + hh * 3600 + mm * 60 + ss - off * 60) + us)
                      (parse_offset rest)
               else None
           | _ \<Rightarrow> None)"

section \<open>JSON columns\<close>

text \<open>\<open>value -> key\<close> and \<open>value ->> key\<close> of PostgreSQL on stored JSON values.\<close>

definition json_field :: "pyval \<Rightarrow> string \<Rightarrow> pyval" where
  "json_field v k = (case v of VDict d \<Rightarrow> get_val d k | _ \<Rightarrow> VNone)"

fun jsonb_out :: "pyval \<Rightarrow> string" and jsonb_members :: "(string \<times> pyval) list \<Rightarrow> (string \<times> string) list" where
  "jsonb_out (VList xs) = ''['' @ join '', '' (map jsonb_out xs) @ '']''"
| "jsonb_out (VDict kvs) =
     ''{'' @ join '', '' (map (\<lambda>(k, t). json_string k @ '': '' @ t)
       (sort_key (\<lambda>p. length (fst p)) (sort_key fst (jsonb_members kvs)))) @ ''}''"
| "jsonb_out v = encode v"
| "jsonb_members [] = []"
| "jsonb_members ((k, v) # kvs) = (k, jsonb_out v) # jsonb_members kvs"

definition json_text :: "pyval \<Rightarrow> string option" where
  "json_text v = (case v of VNone \<Rightarrow> None | VStr s \<Rightarrow> Some s | _ \<Rightarrow> Some (jsonb_out v))"

text \<open>
  The cast \<open>::boolean\<close> of a text: \<open>None\<close> for SQL NULL. The code reads only members that
  the control plane sends as JSON booleans; a text that is no boolean literal makes
  PostgreSQL abort the statement and is outside the model.
\<close>

definition lower_char :: "char \<Rightarrow> char" where
  "lower_char c = (if CHR ''A'' \<le> c \<and> c \<le> CHR ''Z'' then char_of (of_char c + (32::nat)) else c)"

definition pg_boolean :: "string \<Rightarrow> bool option" where
  "pg_boolean s =
     (let t = map lower_char (strip s) in
      if t \<in> {''t'', ''tr'', ''tru'', ''true'', ''y'', ''ye'', ''yes'', ''on'', ''1''} then Some True
      else if t \<in> {''f'', ''fa'', ''fal'', ''fals'', ''false'', ''n'', ''no'', ''of'', ''off'', ''0''} then Some False
      else None)"

text \<open>\<open>COALESCE((body->>key)::boolean, false)\<close>\<close>

definition body_flag :: "pyval \<Rightarrow> string \<Rightarrow> bool" where
  "body_flag body k = (Option.bind (json_text (json_field body k)) pg_boolean = Some True)"

section \<open>Operation records\<close>

text \<open>
  The operation record the bridge persists and passes to the scheduler (a \<open>dict\<close> in the
  code, with the keys that \<open>leased_operation_record\<close> writes). \<open>rec_read_sha256\<close> is the
  member \<open>_workspace_read_semantic_sha256\<close> that the queue adds to read operations.
\<close>

record op_record =
  rec_schema :: string
  rec_schema_version :: int
  rec_uuid :: uuid
  rec_operation_uuid :: uuid
  rec_attempt :: int
  rec_sha256 :: string
  rec_account_uuid :: uuid
  rec_project_uuid :: uuid
  rec_origin :: string
  rec_causal_lane :: string
  rec_sequence :: int
  rec_predecessor :: "uuid option"
  rec_created_at :: string
  rec_expires_at :: "string option"
  rec_transport :: "dict option"
  rec_operation :: dict
  rec_read_sha256 :: "string option"

definition opt_str :: "string option \<Rightarrow> pyval" where
  "opt_str x = (case x of None \<Rightarrow> VNone | Some s \<Rightarrow> VStr s)"

text \<open>The JSON object of a record.\<close>

definition record_dict :: "op_record \<Rightarrow> dict" where
  "record_dict r =
     [(''schema'', VStr (rec_schema r)), (''schema_version'', VInt (rec_schema_version r)),
      (''record_kind'', VStr ''operation''), (''record_uuid'', VStr (rec_uuid r)),
      (''operation_uuid'', VStr (rec_operation_uuid r)), (''attempt'', VInt (rec_attempt r)),
      (''operation_sha256'', VStr (rec_sha256 r)), (''account_uuid'', VStr (rec_account_uuid r)),
      (''project_uuid'', VStr (rec_project_uuid r)), (''origin'', VStr (rec_origin r)),
      (''causal_lane'', VStr (rec_causal_lane r)), (''sequence'', VInt (rec_sequence r)),
      (''predecessor_operation_uuid'', opt_str (rec_predecessor r)),
      (''created_at'', VStr (rec_created_at r)), (''expires_at'', opt_str (rec_expires_at r))]
     @ (case rec_transport r of None \<Rightarrow> [] | Some t \<Rightarrow> [(''transport'', VDict t)])
     @ [(''operation'', VDict (rec_operation r))]
     @ (case rec_read_sha256 r of None \<Rightarrow> [] | Some h \<Rightarrow> [(''_workspace_read_semantic_sha256'', VStr h)])"

definition rec_kind :: "op_record \<Rightarrow> pyval" where
  "rec_kind r = get_val (rec_operation r) ''kind''"

definition record_digest :: "(string \<Rightarrow> string) \<Rightarrow> (string \<Rightarrow> string) \<Rightarrow> op_record \<Rightarrow> string result" where
  "record_digest nfc sha256 r = operation_digest nfc sha256 (record_dict r)"

text \<open>
  A result record: the envelope it copies from the operation record, and its \<open>result\<close>
  member. \<open>res_created_at\<close> is the instant the code prints in ISO form.
\<close>

record result_rec =
  res_uuid :: uuid
  res_in_reply_to :: op_record
  res_created_at :: timestamp
  res_outcome :: string
  res_committed_at :: "timestamp option"
  res_entity_id :: "string option"
  res_revision :: "string option"
  res_error_code :: "string option"
  res_manual_retry_allowed :: bool
  res_reconciliation :: "(string \<times> pyval) option"
  res_transport :: "dict option"

section \<open>Rows\<close>

datatype op_state = Pending | Running | Uncertain | Committed | Rejected | Expired | Cancelled

definition terminal :: "op_state \<Rightarrow> bool" where
  "terminal s = (s \<in> {Committed, Rejected, Expired, Cancelled})"

fun outcome_state :: "string \<Rightarrow> op_state option" where
  "outcome_state s =
     (if s = ''committed'' then Some Committed else if s = ''rejected'' then Some Rejected
      else if s = ''expired'' then Some Expired else if s = ''cancelled'' then Some Cancelled
      else None)"

record op_row =
  op_uuid :: uuid
  op_operation_uuid :: uuid
  op_attempt :: int
  op_sha256 :: string
  op_account_uuid :: uuid
  op_project_uuid :: uuid
  op_origin :: string
  op_causal_lane :: string
  op_lane_sequence :: int
  op_predecessor :: "uuid option"
  op_assignment_uuid :: "uuid option"
  op_assignment_generation :: "int option"
  op_priority :: int
  op_state :: op_state
  op_retry_count :: int
  op_available_at :: timestamp
  op_expires_at :: "timestamp option"
  op_lease_owner :: "string option"
  op_lease_until :: "timestamp option"
  op_record :: op_record
  op_result :: "result_rec option"
  op_result_sent_at :: "timestamp option"
  op_last_error_code :: "string option"
  op_provider_queue_id :: "string option"
  op_provider_local_id :: "string option"
  op_provider_attempted_at :: "timestamp option"
  op_check_count :: int
  op_reconciliation_after :: "timestamp option"
  op_auto_resend_count :: int
  op_evidence :: "pyval list"
  op_manual_required :: bool
  op_manual_context :: "dict option"
  op_created_at :: timestamp
  op_updated_at :: timestamp

record idem_row =
  idem_sha256 :: string
  idem_outcome :: "string option"
  idem_entity_id :: "string option"
  idem_revision :: "string option"
  idem_result_uuid :: "uuid option"
  idem_manual_retry :: bool

type_synonym lane = "string \<times> string"

text \<open>A lane position: the last sequence number and the operation that has it.\<close>

record lane_pos =
  lane_last_sequence :: int
  lane_last_operation :: "uuid option"

record producer_row =
  pr_lane :: lane
  pr_sequence :: int
  pr_predecessor :: "uuid option"

record desired_row =
  ds_type :: string
  ds_uuid :: uuid
  ds_generation :: int
  ds_body :: pyval
  ds_deleted :: bool

datatype provider_state = Ready | Backoff | Auth_Required

record sched_row =
  sa_last_dispatched_at :: "timestamp option"
  sa_generation :: "int option"
  sa_state :: provider_state
  sa_retry_count :: int
  sa_retry_after :: "timestamp option"
  sa_error_code :: "string option"
  sa_projection_reset :: int

record mapping_row =
  mp_account_uuid :: uuid
  mp_kind :: string
  mp_workspace_uuid :: uuid
  mp_provider_id :: string
  mp_revision :: "string option"
  mp_metadata :: dict
  mp_deleted :: bool

record cursor_row =
  cu_queue_id :: string
  cu_last_event_id :: int
  cu_realm_uuid :: "uuid option"
  cu_owner_user_id :: "string option"
  cu_account_generation :: "int option"
  cu_scanned_generation :: "int option"

text \<open>A history job of one chat; the account breaker re-opens those that authentication stopped.\<close>

record backfill_row =
  bf_account_uuid :: uuid
  bf_chat_key :: string
  bf_depth :: string
  bf_next_anchor :: "int option"
  bf_cutoff_at :: "timestamp option"
  bf_state :: string
  bf_lease_until :: "timestamp option"
  bf_available_at :: timestamp
  bf_retry_count :: int
  bf_error_code :: "string option"
  bf_capture_timeout :: bool
  bf_updated_at :: timestamp

text \<open>A journalled provider event, with the columns that decide when it is processed.\<close>

record event_row =
  je_account_uuid :: uuid
  je_queue_id :: string
  je_event_id :: int
  je_type :: string
  je_body :: dict
  je_lane :: "string option"
  je_state :: string
  je_reason :: "string option"
  je_available_at :: timestamp
  je_created_at :: timestamp
  je_retry_count :: int
  je_pending_since :: "timestamp option"
  je_reported_at :: "timestamp option"
  je_context :: "pyval option"
  je_prepared :: "pyval option"

record queue_db =
  db_operations :: "op_row list"
  db_idempotency :: "uuid \<rightharpoonup> idem_row"
  db_lanes :: "lane \<rightharpoonup> lane_pos"
  db_counters :: "lane \<rightharpoonup> lane_pos"
  db_producers :: "(uuid \<times> producer_row) list"
  db_desired :: "desired_row list"
  db_accounts :: "uuid \<rightharpoonup> sched_row"
  db_mappings :: "mapping_row list"
  db_aliases :: "mapping_row list"
  db_cursors :: "uuid \<rightharpoonup> cursor_row"
  db_backfills :: "backfill_row list"
  db_health :: "string \<rightharpoonup> string \<times> string option"
  db_catalog :: "uuid \<times> string \<rightharpoonup> pyval"
  db_events :: "event_row list"
  db_control_cursor :: string

text \<open>
  A transaction of the store takes the database and either raises, which rolls it back, or
  returns a value and the new database.
\<close>

type_synonym 'a transaction = "queue_db \<Rightarrow> ('a \<times> queue_db) result"

section \<open>Row updates\<close>

text \<open>\<open>UPDATE ... SET f WHERE p\<close>\<close>

definition update_where :: "('a \<Rightarrow> bool) \<Rightarrow> ('a \<Rightarrow> 'a) \<Rightarrow> 'a list \<Rightarrow> 'a list" where
  "update_where p f xs = map (\<lambda>x. if p x then f x else x) xs"

definition update_operations :: "(op_row \<Rightarrow> bool) \<Rightarrow> (op_row \<Rightarrow> op_row) \<Rightarrow> queue_db \<Rightarrow> queue_db" where
  "update_operations p f db = db\<lparr>db_operations := update_where p f (db_operations db)\<rparr>"

text \<open>\<open>ORDER BY key LIMIT 1\<close>, ties in table order.\<close>

fun first_by :: "('a \<Rightarrow> 'k::linorder) \<Rightarrow> 'a list \<Rightarrow> 'a option" where
  "first_by key [] = None"
| "first_by key (x # xs) =
     (case first_by key xs of None \<Rightarrow> Some x | Some y \<Rightarrow> if key y < key x then Some y else Some x)"

lemma first_by_None [simp]: "first_by key xs = None \<longleftrightarrow> xs = []"
  by (cases xs) (auto split: option.splits)

lemma first_by_in: "first_by key xs = Some x \<Longrightarrow> x \<in> set xs"
  by (induction xs arbitrary: x) (auto split: option.splits if_splits)

lemma first_by_least: "first_by key xs = Some x \<Longrightarrow> y \<in> set xs \<Longrightarrow> key x \<le> key y"
  by (induction xs arbitrary: x) (fastforce split: option.splits if_splits)+

lemma first_by_filterD: "first_by key (filter p xs) = Some x \<Longrightarrow> x \<in> set xs \<and> p x"
  using first_by_in by fastforce

lemma update_where_simps [simp]:
  "update_where p f [] = []"
  "update_where p f (x # xs) = (if p x then f x else x) # update_where p f xs"
  "length (update_where p f xs) = length xs"
  by (simp_all add: update_where_def)

lemma set_update_where: "x \<in> set (update_where p f xs) \<longleftrightarrow> (\<exists>y \<in> set xs. x = (if p y then f y else y))"
  by (auto simp: update_where_def)

lemma update_where_none: "\<forall>x \<in> set xs. \<not> p x \<Longrightarrow> update_where p f xs = xs"
  by (induction xs) (auto simp: update_where_def)

lemma map_update_where: "(\<And>x. p x \<Longrightarrow> g (f x) = g x) \<Longrightarrow> map g (update_where p f xs) = map g xs"
  by (induction xs) auto

end
