(* ===== verification/Operation_Queue.thy ===== *)
theory Operation_Queue
  imports Queue_Tables
begin

text \<open>
  The durable operation queue of the store (\<open>storage.py\<close>): producer lanes, \<open>enqueue\<close>, lease
  renewal, the two claims, the reaper, completion and the reconciliation transitions. Each
  store method is one transaction; \<open>now\<close> is the database clock, \<open>locked\<close> the rows that
  another open transaction holds (\<open>FOR UPDATE SKIP LOCKED\<close>). NFC normalisation and SHA-256
  are the parameters \<open>nfc\<close> and \<open>sha256\<close>.
\<close>

section \<open>Producer lanes\<close>

definition producer_lane_position :: "uuid \<Rightarrow> queue_db \<Rightarrow> int \<times> uuid option" where
  "producer_lane_position operation_uuid db =
     (case map_of (db_producers db) operation_uuid of
        Some e \<Rightarrow> (pr_sequence e, pr_predecessor e)
      | None \<Rightarrow> (0, None))"

definition lane_start :: lane_pos where
  "lane_start = \<lparr>lane_last_sequence = 0, lane_last_operation = None\<rparr>"

definition lane_at :: "(lane \<rightharpoonup> lane_pos) \<Rightarrow> lane \<Rightarrow> lane_pos" where
  "lane_at m l = (case m l of None \<Rightarrow> lane_start | Some p \<Rightarrow> p)"

definition rec_lane :: "op_record \<Rightarrow> lane" where
  "rec_lane r = (rec_origin r, rec_causal_lane r)"

definition allocate_producer_lane ::
  "(string \<Rightarrow> string) \<Rightarrow> (string \<Rightarrow> string) \<Rightarrow> op_record \<Rightarrow> op_record transaction" where
  "allocate_producer_lane nfc sha256 r db =
     (if rec_sequence r \<noteq> 0 then Inr (r, db)
      else
        let lane = rec_lane r;
            counter = lane_at (db_counters db) lane;
            db1 = db\<lparr>db_counters := (db_counters db)(lane \<mapsto> counter)\<rparr>
        in case map_of (db_producers db) (rec_operation_uuid r) of
             Some existing \<Rightarrow>
               (let r1 = r\<lparr>rec_sequence := pr_sequence existing, rec_predecessor := pr_predecessor existing\<rparr>
                in bindE (record_digest nfc sha256 r1) (\<lambda>h. Inr (r1\<lparr>rec_sha256 := h\<rparr>, db1)))
           | None \<Rightarrow>
               (let seq = lane_last_sequence counter + 1;
                    pred = lane_last_operation counter;
                    row = \<lparr>pr_lane = lane, pr_sequence = seq, pr_predecessor = pred\<rparr>;
                    r1 = r\<lparr>rec_sequence := seq, rec_predecessor := pred\<rparr>
                in if \<exists>p \<in> set (db_producers db). pr_lane (snd p) = lane \<and> pr_sequence (snd p) = seq
                   then Inl (DatabaseErr ''unique_violation'')
                   else bindE (record_digest nfc sha256 r1) (\<lambda>h.
                     Inr (r1\<lparr>rec_sha256 := h\<rparr>,
                       db1\<lparr>db_producers := db_producers db @ [(rec_operation_uuid r, row)],
                           db_counters := (db_counters db)(lane \<mapsto>
                             \<lparr>lane_last_sequence = seq, lane_last_operation = Some (rec_operation_uuid r)\<rparr>)\<rparr>))))"

section \<open>Desired state lookups\<close>

text \<open>\<open>JOIN desired_resources ON resource_type = t AND resource_uuid = u AND NOT deleted\<close>\<close>

definition live_resource :: "queue_db \<Rightarrow> string \<Rightarrow> uuid option \<Rightarrow> desired_row option" where
  "live_resource db t u =
     find (\<lambda>d. ds_type d = t \<and> Some (ds_uuid d) = u \<and> \<not> ds_deleted d) (db_desired db)"

definition body_text :: "desired_row \<Rightarrow> string \<Rightarrow> string option" where
  "body_text d k = json_text (json_field (ds_body d) k)"

definition active_assignment :: "queue_db \<Rightarrow> uuid \<Rightarrow> string \<Rightarrow> uuid \<Rightarrow> desired_row option" where
  "active_assignment db account chat project =
     find (\<lambda>d. ds_type d = ''external_chat_assignment'' \<and> \<not> ds_deleted d
        \<and> body_text d ''external_account_uuid'' = Some account
        \<and> json_text (json_field (json_field (ds_body d) ''provider_chat'') ''provider_chat_key'') = Some chat
        \<and> body_text d ''project_id'' = Some project
        \<and> body_flag (ds_body d) ''selected'') (db_desired db)"

section \<open>Enqueue\<close>

text \<open>\<open>v[k]\<close> for a value that should be a dictionary.\<close>

definition sub_item :: "pyval \<Rightarrow> string \<Rightarrow> pyval result" where
  "sub_item v k = (case v of VDict d \<Rightarrow> item d k | _ \<Rightarrow> Inl TypeErr)"

definition db_time :: "string option \<Rightarrow> timestamp option result" where
  "db_time t =
     (case t of
        None \<Rightarrow> Inr None
      | Some s \<Rightarrow> (case parse_iso s of
                    None \<Rightarrow> Inl (DatabaseErr ''invalid_datetime_format'')
                  | Some i \<Rightarrow> Inr (Some i)))"

definition new_operation :: "timestamp \<Rightarrow> op_record \<Rightarrow> desired_row \<Rightarrow> int \<Rightarrow> timestamp option \<Rightarrow> op_row" where
  "new_operation now r assignment priority expires =
     \<lparr>op_uuid = rec_uuid r, op_operation_uuid = rec_operation_uuid r, op_attempt = rec_attempt r,
      op_sha256 = rec_sha256 r, op_account_uuid = rec_account_uuid r, op_project_uuid = rec_project_uuid r,
      op_origin = rec_origin r, op_causal_lane = rec_causal_lane r, op_lane_sequence = rec_sequence r,
      op_predecessor = rec_predecessor r, op_assignment_uuid = Some (ds_uuid assignment),
      op_assignment_generation = Some (ds_generation assignment), op_priority = priority,
      op_state = Pending, op_retry_count = 0, op_available_at = now, op_expires_at = expires,
      op_lease_owner = None, op_lease_until = None, op_record = r, op_result = None,
      op_result_sent_at = None, op_last_error_code = None, op_provider_queue_id = None,
      op_provider_local_id = None, op_provider_attempted_at = None, op_check_count = 0,
      op_reconciliation_after = None, op_auto_resend_count = 0, op_evidence = [],
      op_manual_required = False, op_manual_context = None, op_created_at = now, op_updated_at = now\<rparr>"

definition op_lane :: "op_row \<Rightarrow> lane" where
  "op_lane x = (op_origin x, op_causal_lane x)"

text \<open>
  \<open>INSERT INTO bridge_operations ... ON CONFLICT (record_uuid) DO NOTHING\<close> with the checks and
  the two further unique keys of the table.
\<close>

definition insert_operation :: "op_row \<Rightarrow> bool transaction" where
  "insert_operation row db =
     (if op_attempt row \<le> 0 \<or> op_lane_sequence row \<le> 0 \<or> op_origin row \<notin> {''workspace'', ''zulip''}
      then Inl (DatabaseErr ''check_violation'')
      else if \<exists>x \<in> set (db_operations db). op_uuid x = op_uuid row then Inr (False, db)
      else if \<exists>x \<in> set (db_operations db). op_attempt x = op_attempt row \<and>
                (op_operation_uuid x = op_operation_uuid row \<or>
                 op_lane x = op_lane row \<and> op_lane_sequence x = op_lane_sequence row)
      then Inl (DatabaseErr ''unique_violation'')
      else Inr (True, db\<lparr>db_operations := db_operations db @ [row]\<rparr>))"

definition terminal_prior :: "idem_row option \<Rightarrow> bool" where
  "terminal_prior prior = (case prior of None \<Rightarrow> False | Some p \<Rightarrow> idem_outcome p \<noteq> None)"

definition new_idempotency :: "string \<Rightarrow> idem_row" where
  "new_idempotency h =
     \<lparr>idem_sha256 = h, idem_outcome = None, idem_entity_id = None, idem_revision = None,
      idem_result_uuid = None, idem_manual_retry = False\<rparr>"

definition insert_idempotency :: "uuid \<Rightarrow> string \<Rightarrow> queue_db \<Rightarrow> queue_db" where
  "insert_idempotency u h db =
     (case db_idempotency db u of
        Some _ \<Rightarrow> db
      | None \<Rightarrow> db\<lparr>db_idempotency := (db_idempotency db)(u \<mapsto> new_idempotency h)\<rparr>)"

definition retry_authorized :: "idem_row option \<Rightarrow> bool" where
  "retry_authorized prior =
     (case prior of
        None \<Rightarrow> False
      | Some p \<Rightarrow> idem_outcome p \<in> {Some ''rejected'', Some ''expired''} \<and> idem_manual_retry p)"

definition consecutive_attempt :: "op_row list \<Rightarrow> uuid \<Rightarrow> int \<Rightarrow> bool" where
  "consecutive_attempt ops u attempt =
     (let as = map op_attempt (filter (\<lambda>x. op_operation_uuid x = u) ops) in
      as \<noteq> [] \<and> attempt = Max (set as) + 1)"

definition enqueue ::
  "(string \<Rightarrow> string) \<Rightarrow> (string \<Rightarrow> string) \<Rightarrow> timestamp \<Rightarrow> op_record \<Rightarrow> int \<Rightarrow> bool transaction" where
  "enqueue nfc sha256 now record priority db =
     (if priority \<notin> {0, 1, 2} then Inl (ValueErr ''Invalid operation priority'')
      else bindE (allocate_producer_lane nfc sha256 record db) (\<lambda>(r, db1).
        let prior = db_idempotency db1 (rec_operation_uuid r); attempt = rec_attempt r in
        if attempt = 1 \<and> terminal_prior prior \<and> rec_kind r = VStr ''read_state.set'' then Inr (False, db1)
        else if (case prior of None \<Rightarrow> False | Some p \<Rightarrow> idem_sha256 p \<noteq> rec_sha256 r)
        then Inl (ValueErr ''Operation UUID reused with a different digest'')
        else if attempt = 1 \<and> terminal_prior prior then Inr (False, db1)
        else if attempt > 1 \<and> \<not> retry_authorized prior
        then Inl (ValueErr ''Higher attempt is not authorized by prior result'')
        else
          bindE (item (rec_operation r) ''provider'') (\<lambda>provider.
          bindE (sub_item provider ''chat_id'') (\<lambda>chat.
          case active_assignment db1 (rec_account_uuid r) (py_str chat) (rec_project_uuid r) of
            None \<Rightarrow> Inl (ValueErr ''Operation does not match an active assignment'')
          | Some assignment \<Rightarrow>
              if attempt > 1 \<and> \<not> consecutive_attempt (db_operations db1) (rec_operation_uuid r) attempt
              then Inl (ValueErr ''Manual retry attempt is not consecutive'')
              else bindE (db_time (rec_expires_at r)) (\<lambda>expires.
                insert_operation (new_operation now r assignment priority expires)
                  (insert_idempotency (rec_operation_uuid r) (rec_sha256 r) db1))))))"

section \<open>Lease renewal\<close>

definition read_semantic_keys :: "string list" where
  "read_semantic_keys =
     [''_workspace_read_semantic_sha256'', ''created_at'', ''expires_at'', ''operation_sha256'',
      ''operation_uuid'', ''predecessor_operation_uuid'', ''sequence'', ''transport'']"

definition provider_read_semantic_sha256 ::
  "(string \<Rightarrow> string) \<Rightarrow> (string \<Rightarrow> string) \<Rightarrow> op_record \<Rightarrow> string option result" where
  "provider_read_semantic_sha256 nfc sha256 r =
     (if rec_kind r \<noteq> VStr ''read_state.set'' then Inr None
      else
        let value = fold dict_del read_semantic_keys
              (record_dict (r\<lparr>rec_operation := dict_del ''occurred_at'' (rec_operation r)\<rparr>))
        in bindE (canonical_json nfc (VDict value)) (\<lambda>b. Inr (Some (sha256 b))))"

text \<open>Equality of \<open>jsonb\<close> values: the order of object keys does not matter.\<close>

definition jsonb_eq :: "pyval \<Rightarrow> pyval \<Rightarrow> bool" where
  "jsonb_eq v w = (sort_keys v = sort_keys w)"

definition lease_keys :: "string list" where
  "lease_keys = [''created_at'', ''expires_at'', ''operation_sha256'', ''operation_uuid'',
     ''predecessor_operation_uuid'', ''sequence'', ''transport'']"

text \<open>\<open>(record #- '{operation,occurred_at}') - ARRAY[...]\<close>\<close>

definition read_identity :: "op_record \<Rightarrow> pyval" where
  "read_identity r =
     VDict (fold dict_del lease_keys
       (record_dict (r\<lparr>rec_operation := dict_del ''occurred_at'' (rec_operation r)\<rparr>)))"

text \<open>\<open>jsonb_set(record, '{operation,payload,message_uuids}', '[]', false)\<close>\<close>

definition clear_message_uuids :: "op_record \<Rightarrow> op_record" where
  "clear_message_uuids r =
     (case get_val (rec_operation r) ''payload'' of
        VDict p \<Rightarrow>
          if map_of p ''message_uuids'' = None then r
          else r\<lparr>rec_operation := dict_set ''payload''
                  (VDict (dict_set ''message_uuids'' (VList []) p)) (rec_operation r)\<rparr>
      | _ \<Rightarrow> r)"

definition payload_message_uuids :: "op_record \<Rightarrow> pyval" where
  "payload_message_uuids r = json_field (get_val (rec_operation r) ''payload'') ''message_uuids''"

definition same_lease :: "op_row \<Rightarrow> op_record \<Rightarrow> string option \<Rightarrow> bool" where
  "same_lease x candidate semantic =
     (op_uuid x = rec_uuid candidate \<and>
      (op_operation_uuid x = rec_operation_uuid candidate \<and> op_sha256 x = rec_sha256 candidate \<or>
       rec_kind (op_record x) = VStr ''read_state.set'' \<and> rec_kind candidate = VStr ''read_state.set'' \<and>
       ((case (rec_read_sha256 (op_record x), semantic) of
           (Some a, Some b) \<Rightarrow> a = b | _ \<Rightarrow> False) \<or>
        rec_read_sha256 (op_record x) = None \<and>
          jsonb_eq (read_identity (op_record x)) (read_identity candidate) \<or>
        rec_read_sha256 (op_record x) = None \<and> op_result x \<noteq> None \<and> terminal (op_state x) \<and>
          payload_message_uuids (op_record x) = VList [] \<and>
          jsonb_eq (read_identity (op_record x)) (read_identity (clear_message_uuids candidate)))))"

definition rebind_row ::
  "timestamp \<Rightarrow> timestamp option \<Rightarrow> dict \<Rightarrow> string option \<Rightarrow> op_row \<Rightarrow> op_row" where
  "rebind_row now expires transport semantic x =
     x\<lparr>op_record := (op_record x)\<lparr>rec_transport := Some transport,
          rec_read_sha256 := (case semantic of None \<Rightarrow> rec_read_sha256 (op_record x) | Some h \<Rightarrow> Some h)\<rparr>,
       op_result := map_option (\<lambda>res. res\<lparr>res_transport := Some transport\<rparr>) (op_result x),
       op_result_sent_at := (if op_result x = None then op_result_sent_at x else None),
       op_last_error_code :=
         (if op_result x \<noteq> None \<and> op_last_error_code x = Some ''provider_result_stale_lease''
          then None else op_last_error_code x),
       op_expires_at := expires, op_updated_at := now\<rparr>"

definition bind_provider_lease ::
  "(string \<Rightarrow> string) \<Rightarrow> (string \<Rightarrow> string) \<Rightarrow> timestamp \<Rightarrow> op_record \<Rightarrow> bool transaction" where
  "bind_provider_lease nfc sha256 now record db =
     (case rec_transport record of
        None \<Rightarrow> Inl (KeyErr ''transport'')
      | Some transport \<Rightarrow>
          bindE (provider_read_semantic_sha256 nfc sha256 record) (\<lambda>semantic.
          bindE (db_time (rec_expires_at record)) (\<lambda>expires.
          Inr (\<exists>x \<in> set (db_operations db). same_lease x record semantic,
               update_operations (\<lambda>x. same_lease x record semantic)
                 (rebind_row now expires transport semantic) db))))"

section \<open>Claims\<close>

record queued_operation =
  qo_uuid :: uuid
  qo_record :: op_record
  qo_priority :: int
  qo_attempts :: int
  qo_attempted_at :: "timestamp option"
  qo_auto_resend_count :: int
  qo_check_count :: int
  qo_rendered :: "string option"

definition queued_operation :: "op_row \<Rightarrow> queued_operation" where
  "queued_operation x =
     \<lparr>qo_uuid = op_uuid x, qo_record = op_record x, qo_priority = op_priority x,
      qo_attempts = op_retry_count x, qo_attempted_at = op_provider_attempted_at x,
      qo_auto_resend_count = op_auto_resend_count x, qo_check_count = op_check_count x,
      qo_rendered = (case op_manual_context x of
         None \<Rightarrow> None | Some c \<Rightarrow> json_text (get_val c ''provider_rendered_content''))\<rparr>"

definition lane_head :: "queue_db \<Rightarrow> op_row \<Rightarrow> bool" where
  "lane_head db x =
     (op_lane_sequence x = lane_last_sequence (lane_at (db_lanes db) (op_lane x)) + 1 \<and>
      op_predecessor x = lane_last_operation (lane_at (db_lanes db) (op_lane x)))"

definition expired_at :: "timestamp \<Rightarrow> op_row \<Rightarrow> bool" where
  "expired_at now x = (case op_expires_at x of None \<Rightarrow> False | Some t \<Rightarrow> t \<le> now)"

definition op_assignment :: "queue_db \<Rightarrow> op_row \<Rightarrow> desired_row option" where
  "op_assignment db x = live_resource db ''external_chat_assignment'' (op_assignment_uuid x)"

definition op_account :: "queue_db \<Rightarrow> op_row \<Rightarrow> desired_row option" where
  "op_account db x = live_resource db ''external_account'' (Some (op_account_uuid x))"

definition auth_required :: "queue_db \<Rightarrow> op_row \<Rightarrow> bool" where
  "auth_required db x =
     (case (op_account db x, db_accounts db (op_account_uuid x)) of
        (Some a, Some s) \<Rightarrow> sa_generation s = Some (ds_generation a) \<and> sa_state s = Auth_Required
      | _ \<Rightarrow> False)"

definition unroutable :: "queue_db \<Rightarrow> op_row \<Rightarrow> bool" where
  "unroutable db x =
     ((case op_assignment db x of
         None \<Rightarrow> True
       | Some a \<Rightarrow>
           (case op_assignment_generation x of None \<Rightarrow> False | Some g \<Rightarrow> ds_generation a \<noteq> g) \<or>
           (case body_text a ''project_id'' of None \<Rightarrow> False | Some p \<Rightarrow> p \<noteq> op_project_uuid x) \<or>
           \<not> body_flag (ds_body a) ''selected'') \<or>
      (case op_account db x of
         None \<Rightarrow> True | Some a \<Rightarrow> \<not> body_flag (ds_body a) ''synchronization_enabled''))"

definition terminal_candidate :: "timestamp \<Rightarrow> queue_db \<Rightarrow> op_row \<Rightarrow> bool" where
  "terminal_candidate now db x =
     (op_state x = Pending \<and> op_available_at x \<le> now \<and>
      (op_attempt x > 1 \<or> lane_head db x) \<and>
      (expired_at now x \<or> unroutable db x \<or> auth_required db x))"

definition terminal_reason :: "timestamp \<Rightarrow> queue_db \<Rightarrow> op_row \<Rightarrow> string" where
  "terminal_reason now db x =
     (if expired_at now x then ''expired''
      else if auth_required db x then ''unauthorized_account''
      else ''cancelled'')"

definition take_lease :: "timestamp \<Rightarrow> string \<Rightarrow> int \<Rightarrow> op_row \<Rightarrow> op_row" where
  "take_lease now worker secs x =
     x\<lparr>op_state := Running, op_lease_owner := Some worker,
       op_lease_until := Some (now + seconds secs), op_updated_at := now\<rparr>"

definition claim_terminal ::
  "timestamp \<Rightarrow> (uuid \<Rightarrow> bool) \<Rightarrow> string \<Rightarrow> int \<Rightarrow> queue_db \<Rightarrow> (queued_operation \<times> string) option \<times> queue_db" where
  "claim_terminal now locked worker secs db =
     (case first_by op_created_at
         (filter (\<lambda>x. terminal_candidate now db x \<and> \<not> locked (op_uuid x)) (db_operations db)) of
        None \<Rightarrow> (None, db)
      | Some x \<Rightarrow>
          (Some (queued_operation (take_lease now worker secs x), terminal_reason now db x),
           update_operations (\<lambda>y. op_uuid y = op_uuid x) (take_lease now worker secs) db))"

definition provider_ready :: "timestamp \<Rightarrow> sched_row \<Rightarrow> bool" where
  "provider_ready now s =
     (sa_state s = Ready \<or>
      sa_state s = Backoff \<and> (case sa_retry_after s of None \<Rightarrow> False | Some t \<Rightarrow> t \<le> now))"

text \<open>A later committed deletion of the same entity in the lane.\<close>

definition superseded :: "op_row list \<Rightarrow> op_row \<Rightarrow> bool" where
  "superseded ops x =
     (\<exists>y \<in> set ops. op_lane y = op_lane x \<and> op_lane_sequence x < op_lane_sequence y \<and>
        op_state y = Committed \<and>
        rec_kind (op_record y) \<in> {VStr ''message.delete'', VStr ''topic.delete'', VStr ''stream.delete''} \<and>
        json_text (get_val (rec_operation (op_record y)) ''entity_uuid'') \<noteq> None \<and>
        json_text (get_val (rec_operation (op_record y)) ''entity_uuid'') =
          json_text (get_val (rec_operation (op_record x)) ''entity_uuid''))"

definition routable :: "queue_db \<Rightarrow> op_row \<Rightarrow> bool" where
  "routable db x =
     ((case op_assignment db x of
         None \<Rightarrow> False
       | Some a \<Rightarrow> op_assignment_generation x = Some (ds_generation a) \<and>
           body_text a ''project_id'' = Some (op_project_uuid x) \<and> body_flag (ds_body a) ''selected'') \<and>
      (case op_account db x of
         None \<Rightarrow> False | Some a \<Rightarrow> body_flag (ds_body a) ''synchronization_enabled''))"

definition account_open :: "timestamp \<Rightarrow> queue_db \<Rightarrow> op_row \<Rightarrow> bool" where
  "account_open now db x =
     (case (op_account db x, db_accounts db (op_account_uuid x)) of
        (Some a, Some s) \<Rightarrow> sa_generation s = Some (ds_generation a) \<and> provider_ready now s
      | _ \<Rightarrow> False)"

definition claim_candidate :: "timestamp \<Rightarrow> queue_db \<Rightarrow> op_row \<Rightarrow> bool" where
  "claim_candidate now db x =
     (op_state x = Pending \<and> op_available_at x \<le> now \<and> \<not> expired_at now x \<and>
      routable db x \<and> account_open now db x \<and>
      (op_attempt x = 1 \<and> lane_head db x \<or> op_attempt x > 1 \<and> \<not> superseded (db_operations db) x))"

definition last_dispatched :: "queue_db \<Rightarrow> op_row \<Rightarrow> timestamp option" where
  "last_dispatched db x = Option.bind (db_accounts db (op_account_uuid x)) sa_last_dispatched_at"

definition new_account :: "timestamp \<Rightarrow> sched_row" where
  "new_account now =
     \<lparr>sa_last_dispatched_at = Some now, sa_generation = None, sa_state = Ready, sa_retry_count = 0,
      sa_retry_after = None, sa_error_code = None, sa_projection_reset = 0\<rparr>"

definition touch_account :: "timestamp \<Rightarrow> uuid \<Rightarrow> queue_db \<Rightarrow> queue_db" where
  "touch_account now u db =
     db\<lparr>db_accounts := (db_accounts db)(u \<mapsto>
       (case db_accounts db u of
          None \<Rightarrow> new_account now
        | Some s \<Rightarrow> s\<lparr>sa_last_dispatched_at := Some now\<rparr>))\<rparr>"

definition claim ::
  "timestamp \<Rightarrow> (uuid \<Rightarrow> bool) \<Rightarrow> string \<Rightarrow> int \<Rightarrow> queue_db \<Rightarrow> queued_operation option \<times> queue_db" where
  "claim now locked worker secs db =
     (case first_by (\<lambda>x. (op_priority x, last_dispatched db x, op_available_at x, op_created_at x))
         (filter (\<lambda>x. claim_candidate now db x \<and> \<not> locked (op_uuid x)) (db_operations db)) of
        None \<Rightarrow> (None, db)
      | Some x \<Rightarrow>
          (Some (queued_operation (take_lease now worker secs x)),
           touch_account now (rec_account_uuid (op_record x))
             (update_operations (\<lambda>y. op_uuid y = op_uuid x) (take_lease now worker secs) db)))"

section \<open>The reaper\<close>

definition attempted :: "op_row \<Rightarrow> bool" where
  "attempted x =
     (op_provider_attempted_at x \<noteq> None \<or> op_provider_queue_id x \<noteq> None \<or> op_provider_local_id x \<noteq> None)"

definition lease_lapsed :: "timestamp \<Rightarrow> op_row \<Rightarrow> bool" where
  "lease_lapsed now x =
     (op_state x = Running \<and> (case op_lease_until x of None \<Rightarrow> False | Some t \<Rightarrow> t < now))"

definition reap_row :: "timestamp \<Rightarrow> op_row \<Rightarrow> op_row" where
  "reap_row now x =
     x\<lparr>op_state := (if attempted x then Uncertain else Pending),
       op_available_at := (if attempted x then op_available_at x else now),
       op_reconciliation_after := (if attempted x then Some now else op_reconciliation_after x),
       op_check_count := (if attempted x then 0 else op_check_count x),
       op_lease_owner := None, op_lease_until := None, op_updated_at := now\<rparr>"

definition reap_expired_running :: "timestamp \<Rightarrow> queue_db \<Rightarrow> nat \<times> queue_db" where
  "reap_expired_running now db =
     (length (filter (lease_lapsed now) (db_operations db)),
      update_operations (lease_lapsed now) (reap_row now) db)"

end
