(* ===== verification/Desired_State.thy ===== *)
theory Desired_State
  imports Operation_Queue
begin

text \<open>
  Desired state as the control plane sends it: validation of changes and snapshots
  (\<open>_validate_required_capabilities\<close>, \<open>_validate_desired_upsert\<close>, \<open>_validate_desired_delete\<close>,
  \<open>_validated_snapshot_resource\<close> in \<open>storage.py\<close>, the capability table of \<open>control.py\<close>) and the
  readers of \<open>desired_resources\<close> that decide whether the provider and an account are active.
\<close>

section \<open>Equality of Python values\<close>

text \<open>
  \<open>==\<close> on JSON values: booleans are the integers 0 and 1, an integral float equals the
  integer (it prints as the integer followed by \<open>.0\<close>), and the order of dictionary keys
  does not matter.
\<close>

lemma size_zip_fst [termination_simp]: "(a, b) \<in> set (zip xs ys) \<Longrightarrow> size a < Suc (size_list size xs)"
  by (meson le_imp_less_Suc set_zip_leftD size_list_estimation' order_refl)

fun py_eq :: "pyval \<Rightarrow> pyval \<Rightarrow> bool" where
  "py_eq VNone w = (w = VNone)"
| "py_eq (VBool b) w =
     (case w of VBool c \<Rightarrow> b = c | VInt j \<Rightarrow> j = of_bool b | VFloat t \<Rightarrow> t = show_int (of_bool b) @ ''.0'' | _ \<Rightarrow> False)"
| "py_eq (VInt i) w =
     (case w of VBool c \<Rightarrow> i = of_bool c | VInt j \<Rightarrow> i = j | VFloat t \<Rightarrow> t = show_int i @ ''.0'' | _ \<Rightarrow> False)"
| "py_eq (VFloat s) w =
     (case w of VBool c \<Rightarrow> s = show_int (of_bool c) @ ''.0'' | VInt j \<Rightarrow> s = show_int j @ ''.0'' | VFloat t \<Rightarrow> s = t | _ \<Rightarrow> False)"
| "py_eq (VStr s) w = (w = VStr s)"
| "py_eq (VList xs) w =
     (case w of VList ys \<Rightarrow> length xs = length ys \<and> (\<forall>p \<in> set (zip xs ys). py_eq (fst p) (snd p)) | _ \<Rightarrow> False)"
| "py_eq (VDict kvs) w =
     (case w of
        VDict lws \<Rightarrow> fst ` set kvs = fst ` set lws \<and>
          (\<forall>p \<in> set kvs. case map_of lws (fst p) of None \<Rightarrow> False | Some v \<Rightarrow> py_eq (snd p) v)
      | _ \<Rightarrow> False)"
| "py_eq VBadKeys w = False"
| "py_eq VOther w = False"

lemma py_eq_None [simp]: "py_eq v VNone \<longleftrightarrow> v = VNone"
  by (cases v) auto

lemma py_eq_Str [simp]: "py_eq v (VStr s) \<longleftrightarrow> v = VStr s"
  by (cases v) auto

section \<open>Validation\<close>

definition CAPABILITIES :: "(string \<times> int \<times> dict) list" where
  "CAPABILITIES =
     [(''messenger.chat_catalog'', 1, []), (''messenger.message.send'', 1, []), (''messenger.message.edit'', 1, []),
      (''messenger.message.delete'', 1, []), (''messenger.message.read'', 2, []),
      (''messenger.message.read.paging'', 1, []), (''messenger.reaction.write'', 1, []),
      (''messenger.membership.write'', 1, []), (''messenger.notification.write'', 1, []),
      (''messenger.stream.delete'', 1, []), (''messenger.stream.rename'', 1, []), (''messenger.topic.create'', 1, []),
      (''messenger.topic.delete'', 1, []), (''messenger.topic.rename'', 1, []),
      (''messenger.file.transfer'', 1, [(''max_file_bytes'', VInt 52428800)])]"

definition RESOURCE_TYPES :: "string list" where
  "RESOURCE_TYPES = [''custom_ca_bundle'', ''external_account'', ''external_chat_assignment'', ''external_provider_policy'']"

definition known_type :: "pyval \<Rightarrow> bool" where
  "known_type v = (case v of VStr s \<Rightarrow> s \<in> set RESOURCE_TYPES | _ \<Rightarrow> False)"

text \<open>\<open>isinstance(v, int) and not isinstance(v, bool) and v >= 1\<close>\<close>

definition positive_int :: "pyval \<Rightarrow> bool" where
  "positive_int v = (case v of VInt i \<Rightarrow> i \<ge> 1 | _ \<Rightarrow> False)"

definition requirement_met :: "string \<times> pyval \<Rightarrow> bool" where
  "requirement_met p =
     (case (map_of CAPABILITIES (fst p), snd p) of
        (Some (revision, supported), VDict requirement) \<Rightarrow>
          (case (get_val requirement ''min_revision'', get_val requirement ''limits'') of
             (VInt minimum, VDict limits) \<Rightarrow> 1 \<le> minimum \<and> minimum \<le> revision \<and>
               list_all (\<lambda>(k, limit). py_eq (get_val supported k) limit) limits
           | _ \<Rightarrow> False)
      | _ \<Rightarrow> False)"

definition validate_required_capabilities :: "pyval \<Rightarrow> unit result" where
  "validate_required_capabilities v =
     (case v of
        VDict reqs \<Rightarrow>
          guardE (list_all requirement_met reqs) (ValueErr ''Desired resource requires an unsupported capability'')
      | VBadKeys \<Rightarrow> Inl (ValueErr ''Desired resource requires an unsupported capability'')
      | _ \<Rightarrow> Inl (ValueErr ''Desired resource capability requirements are invalid''))"

definition validate_desired_upsert :: "pyval \<Rightarrow> pyval \<Rightarrow> pyval \<Rightarrow> pyval \<Rightarrow> pyval \<Rightarrow> unit result" where
  "validate_desired_upsert resource_type resource_uuid generation required resource =
     (case (known_type resource_type, resource) of
        (True, VDict body) \<Rightarrow>
          let mismatch = ValueErr ''Desired resource identity or generation mismatch'' in
          bindE (guardE (py_eq (get_val body ''resource_type'') resource_type) mismatch) (\<lambda>_.
          bindE (uuid_int (py_str (get_val body ''uuid''))) (\<lambda>u.
          bindE (uuid_int (py_str resource_uuid)) (\<lambda>w.
          bindE (guardE (u = w \<and> positive_int generation \<and> py_eq (get_val body ''generation'') generation) mismatch)
            (\<lambda>_. validate_required_capabilities required))))
      | _ \<Rightarrow> Inl (ValueErr ''Unsupported desired-state resource type''))"

definition validate_desired_delete :: "pyval \<Rightarrow> pyval \<Rightarrow> pyval \<Rightarrow> unit result" where
  "validate_desired_delete resource_type resource_uuid generation =
     bindE (guardE (known_type resource_type) (ValueErr ''Unsupported desired-state resource type'')) (\<lambda>_.
     bindE (case uuid_int (py_str resource_uuid) of
              Inl _ \<Rightarrow> Inl (ValueErr ''Desired resource identity is invalid'')
            | Inr _ \<Rightarrow> Inr ()) (\<lambda>_.
     guardE (positive_int generation) (ValueErr ''Desired resource generation is invalid'')))"

definition validated_snapshot_resource :: "pyval \<Rightarrow> dict result" where
  "validated_snapshot_resource v =
     (case v of
        VDict body \<Rightarrow>
          bindE (validate_desired_upsert (get_val body ''resource_type'') (get_val body ''uuid'')
                   (get_val body ''generation'') (get_val body ''required_capabilities'') v)
            (\<lambda>_. Inr (dict_del ''required_capabilities'' body))
      | _ \<Rightarrow> Inl (ValueErr ''Desired snapshot resource is invalid''))"

section \<open>Readers of desired state\<close>

definition desired_resource :: "string \<Rightarrow> uuid \<Rightarrow> queue_db \<Rightarrow> pyval option" where
  "desired_resource t u db = map_option ds_body (live_resource db t (Some u))"

definition account_resource :: "uuid \<Rightarrow> queue_db \<Rightarrow> pyval option" where
  "account_resource u db = desired_resource ''external_account'' u db"

definition provider_policy :: "string \<Rightarrow> queue_db \<Rightarrow> pyval option" where
  "provider_policy kind db =
     map_option ds_body (first_by (\<lambda>d. - ds_generation d)
       (filter (\<lambda>d. ds_type d = ''external_provider_policy'' \<and> \<not> ds_deleted d \<and>
                    body_text d ''provider_kind'' = Some kind) (db_desired db)))"

definition provider_is_enabled :: "string \<Rightarrow> queue_db \<Rightarrow> bool" where
  "provider_is_enabled kind db =
     (case provider_policy kind db of
        None \<Rightarrow> False
      | Some policy \<Rightarrow> json_field policy ''enabled'' = VBool True \<and>
          json_field policy ''emergency_suspended'' \<noteq> VBool True)"

definition account_is_active :: "uuid \<Rightarrow> queue_db \<Rightarrow> bool" where
  "account_is_active u db =
     (provider_is_enabled ''zulip'' db \<and>
      (case account_resource u db of
         None \<Rightarrow> False | Some body \<Rightarrow> json_field body ''synchronization_enabled'' = VBool True))"

definition custom_ca_bundle :: "string \<Rightarrow> queue_db \<Rightarrow> pyval option" where
  "custom_ca_bundle kind db =
     (case provider_policy kind db of
        None \<Rightarrow> None
      | Some policy \<Rightarrow>
          (case json_field policy ''custom_ca_bundle_uuid'' of
             VNone \<Rightarrow> None | v \<Rightarrow> desired_resource ''custom_ca_bundle'' (py_str v) db))"

definition effective_file_limit :: "int \<Rightarrow> queue_db \<Rightarrow> int" where
  "effective_file_limit hard_limit db =
     (case provider_policy ''zulip'' db of
        None \<Rightarrow> 0
      | Some policy \<Rightarrow>
          (case json_field policy ''limits'' of
             VDict limits \<Rightarrow>
               (case get_val limits ''max_file_bytes'' of
                  VInt configured \<Rightarrow> max 0 (min hard_limit configured) | _ \<Rightarrow> 0)
           | _ \<Rightarrow> 0))"

definition assignment_for_provider_chat :: "uuid \<Rightarrow> string \<Rightarrow> queue_db \<Rightarrow> pyval option" where
  "assignment_for_provider_chat account chat db =
     map_option ds_body
       (find (\<lambda>d. ds_type d = ''external_chat_assignment'' \<and> \<not> ds_deleted d \<and>
          body_text d ''external_account_uuid'' = Some account \<and>
          json_text (json_field (json_field (ds_body d) ''provider_chat'') ''provider_chat_key'') = Some chat)
        (db_desired db))"

definition active_account_uuids :: "queue_db \<Rightarrow> uuid list" where
  "active_account_uuids db =
     (if provider_is_enabled ''zulip'' db
      then sort (map ds_uuid (filter (\<lambda>d. ds_type d = ''external_account'' \<and> \<not> ds_deleted d \<and>
             body_flag (ds_body d) ''synchronization_enabled'') (db_desired db)))
      else [])"

text \<open>The breaker of the account's current generation does not hold it back.\<close>

definition breaker_permits :: "timestamp \<Rightarrow> desired_row \<Rightarrow> sched_row option \<Rightarrow> bool" where
  "breaker_permits now d s =
     (case s of
        None \<Rightarrow> True
      | Some r \<Rightarrow> sa_generation r \<noteq> Some (ds_generation d) \<or> provider_ready now r)"

definition eligible_account_uuids :: "timestamp \<Rightarrow> queue_db \<Rightarrow> uuid list" where
  "eligible_account_uuids now db =
     (if provider_is_enabled ''zulip'' db
      then sort (map ds_uuid (filter (\<lambda>d. ds_type d = ''external_account'' \<and> \<not> ds_deleted d \<and>
             body_flag (ds_body d) ''synchronization_enabled'' \<and>
             breaker_permits now d (db_accounts db (ds_uuid d))) (db_desired db)))
      else [])"

definition provider_account_is_eligible :: "timestamp \<Rightarrow> uuid \<Rightarrow> queue_db \<Rightarrow> bool" where
  "provider_account_is_eligible now u db =
     list_ex (\<lambda>d. ds_type d = ''external_account'' \<and> ds_uuid d = u \<and> \<not> ds_deleted d \<and>
        body_flag (ds_body d) ''synchronization_enabled'' \<and> breaker_permits now d (db_accounts db u))
       (db_desired db)"

end
