(* ===== verification/Provider_Mappings.thy ===== *)
theory Provider_Mappings
  imports Operation_Queue
begin

text \<open>
  The effect of a committed operation on \<open>provider_mappings\<close> and
  \<open>provider_mapping_aliases\<close> (\<open>_persist_committed_mapping\<close> in \<open>storage.py\<close>), one definition per
  branch on the operation kind. The advisory locks of the code serialise transactions and
  have no effect inside one.
\<close>

section \<open>The mapping tables\<close>

definition mapping_key :: "mapping_row \<Rightarrow> uuid \<times> string \<times> uuid" where
  "mapping_key m = (mp_account_uuid m, mp_kind m, mp_workspace_uuid m)"

definition provider_key :: "mapping_row \<Rightarrow> uuid \<times> string \<times> string" where
  "provider_key m = (mp_account_uuid m, mp_kind m, mp_provider_id m)"

text \<open>Both keys of \<open>provider_mappings\<close>; the alias table only has the first.\<close>

definition mappings_unique :: "mapping_row list \<Rightarrow> bool" where
  "mappings_unique ms = (distinct (map mapping_key ms) \<and> distinct (map provider_key ms))"

definition checked :: "('a list \<Rightarrow> bool) \<Rightarrow> 'a list \<Rightarrow> 'a list result" where
  "checked unique xs = (if unique xs then Inr xs else Inl (DatabaseErr ''unique_violation''))"

text \<open>\<open>INSERT ... ON CONFLICT (account_uuid, entity_kind, provider_id) DO UPDATE SET f\<close>\<close>

definition upsert_mapping :: "(mapping_row \<Rightarrow> mapping_row) \<Rightarrow> mapping_row \<Rightarrow> mapping_row list \<Rightarrow> mapping_row list result" where
  "upsert_mapping f row ms =
     checked mappings_unique
       (if \<exists>m \<in> set ms. provider_key m = provider_key row
        then update_where (\<lambda>m. provider_key m = provider_key row) f ms
        else ms @ [row])"

text \<open>\<open>INSERT ... ON CONFLICT (account_uuid, entity_kind, workspace_uuid) DO UPDATE SET f\<close>\<close>

definition upsert_alias :: "(mapping_row \<Rightarrow> mapping_row) \<Rightarrow> mapping_row \<Rightarrow> mapping_row list \<Rightarrow> mapping_row list" where
  "upsert_alias f row ms =
     (if \<exists>m \<in> set ms. mapping_key m = mapping_key row
      then update_where (\<lambda>m. mapping_key m = mapping_key row) f ms
      else ms @ [row])"

definition mapped :: "uuid \<Rightarrow> string \<Rightarrow> uuid \<Rightarrow> mapping_row \<Rightarrow> bool" where
  "mapped account kind workspace m = (mapping_key m = (account, kind, workspace))"

text \<open>
  \<open>workspace_mapping\<close> answers the active alias of a workspace identifier, with the revision
  of the active mapping its provider identifier belongs to; only without one, the active
  mapping itself. The primary key leaves at most one row of each table to choose from.
\<close>

type_synonym mapping_tables = "mapping_row list \<times> mapping_row list"

definition alias_target :: "mapping_row list \<Rightarrow> mapping_row \<Rightarrow> mapping_row" where
  "alias_target ms a =
     a\<lparr>mp_revision :=
         Option.bind (find (\<lambda>m. provider_key m = provider_key a \<and> \<not> mp_deleted m) ms) mp_revision\<rparr>"

definition workspace_mapping :: "uuid \<Rightarrow> string \<Rightarrow> uuid \<Rightarrow> mapping_tables \<Rightarrow> mapping_row option" where
  "workspace_mapping account kind workspace tables =
     (case find (\<lambda>a. mapped account kind workspace a \<and> \<not> mp_deleted a) (snd tables) of
        Some a \<Rightarrow> Some (alias_target (fst tables) a)
      | None \<Rightarrow> find (\<lambda>m. mapped account kind workspace m \<and> \<not> mp_deleted m) (fst tables))"

definition tombstoned_workspace_mapping :: "uuid \<Rightarrow> string \<Rightarrow> uuid \<Rightarrow> mapping_tables \<Rightarrow> mapping_row option" where
  "tombstoned_workspace_mapping account kind workspace tables =
     find (\<lambda>m. mapped account kind workspace m \<and> mp_deleted m) (fst tables)"

definition new_mapping :: "uuid \<Rightarrow> string \<Rightarrow> uuid \<Rightarrow> string \<Rightarrow> string option \<Rightarrow> dict \<Rightarrow> mapping_row" where
  "new_mapping account kind workspace provider_id revision metadata =
     \<lparr>mp_account_uuid = account, mp_kind = kind, mp_workspace_uuid = workspace,
      mp_provider_id = provider_id, mp_revision = revision, mp_metadata = metadata, mp_deleted = False\<rparr>"

section \<open>Metadata\<close>

text \<open>The object written for a topic, with \<open>payload["stream_uuid"]\<close> and \<open>payload["name"]\<close>.\<close>

definition topic_metadata :: "op_record \<Rightarrow> dict \<Rightarrow> dict \<Rightarrow> dict result" where
  "topic_metadata r payload provider =
     bindE (item payload ''stream_uuid'') (\<lambda>s.
     bindE (item provider ''chat_id'') (\<lambda>c.
     bindE (item payload ''name'') (\<lambda>n.
     Inr [(''stream_uuid'', s), (''chat_key'', c), (''name'', n),
          (''project_uuid'', VStr (rec_project_uuid r)), (''mapping_origin'', VStr (rec_origin r)),
          (''workspace_delivery_state'', VStr ''committed'')])))"

definition message_metadata :: "op_record \<Rightarrow> dict \<Rightarrow> dict \<Rightarrow> dict result" where
  "message_metadata r payload provider =
     bindE (item payload ''stream_uuid'') (\<lambda>s.
     bindE (item payload ''topic_uuid'') (\<lambda>t.
     bindE (item payload ''author_uuid'') (\<lambda>a.
     bindE (item provider ''chat_id'') (\<lambda>c.
     Inr [(''stream_uuid'', s), (''topic_uuid'', t), (''author_uuid'', a), (''chat_key'', c),
          (''project_uuid'', VStr (rec_project_uuid r)), (''causal_lane'', VStr (rec_causal_lane r)),
          (''mapping_origin'', VStr (rec_origin r)), (''workspace_delivery_state'', VStr ''committed'')]))))"

definition reaction_metadata :: "op_record \<Rightarrow> dict \<Rightarrow> dict \<Rightarrow> dict result" where
  "reaction_metadata r payload provider =
     bindE (item payload ''message_uuid'') (\<lambda>m.
     bindE (item payload ''user_uuid'') (\<lambda>u.
     bindE (item payload ''emoji_name'') (\<lambda>e.
     bindE (item provider ''chat_id'') (\<lambda>c.
     Inr [(''project_uuid'', VStr (rec_project_uuid r)), (''message_uuid'', m), (''user_uuid'', u),
          (''emoji_name'', e), (''chat_key'', c), (''mapping_origin'', VStr (rec_origin r)),
          (''workspace_delivery_state'', VStr ''committed'')]))))"

text \<open>\<open>jsonb_strip_nulls(jsonb_build_object(k, v::text, ...))\<close>\<close>

definition text_members :: "(string \<times> pyval) list \<Rightarrow> dict" where
  "text_members kvs =
     map (\<lambda>(k, v). (k, VStr (py_str v))) (filter (\<lambda>p. snd p \<noteq> VNone) kvs)"

definition update_metadata :: "op_record \<Rightarrow> dict \<Rightarrow> dict \<Rightarrow> dict \<Rightarrow> dict" where
  "update_metadata r extensions payload provider =
     text_members [(''content_sha256'', get_val extensions ''content_sha256''),
       (''provider_content_sha256'', get_val extensions ''provider_content_sha256''),
       (''subject'', get_val extensions ''subject''),
       (''stream_uuid'', get_val payload ''stream_uuid''), (''topic_uuid'', get_val payload ''topic_uuid''),
       (''chat_key'', get_val provider ''chat_id''), (''project_uuid'', VStr (rec_project_uuid r))]
     @ [(''workspace_delivery_state'', VStr ''committed'')]"

section \<open>One operation kind at a time\<close>

text \<open>Every branch reads the tables and returns them changed, or raises.\<close>

definition persist_topic_create ::
  "op_record \<Rightarrow> dict \<Rightarrow> dict \<Rightarrow> uuid \<Rightarrow> string option \<Rightarrow> string option \<Rightarrow> mapping_tables \<Rightarrow> mapping_tables result" where
  "persist_topic_create r payload provider workspace entity revision tables =
     (case entity of
        None \<Rightarrow> Inl (ValueErr ''Committed topic create has no provider identifier'')
      | Some pid \<Rightarrow>
          bindE (topic_metadata r payload provider) (\<lambda>meta.
          bindE (upsert_mapping
              (\<lambda>m. m\<lparr>mp_workspace_uuid := workspace, mp_revision := revision, mp_metadata := meta,
                     mp_deleted := False\<rparr>)
              (new_mapping (rec_account_uuid r) ''topic'' workspace pid revision meta) (fst tables))
            (\<lambda>ms. Inr (ms, snd tables))))"

definition persist_message_create ::
  "op_record \<Rightarrow> dict \<Rightarrow> dict \<Rightarrow> uuid \<Rightarrow> string option \<Rightarrow> string option \<Rightarrow> mapping_tables \<Rightarrow> mapping_tables result" where
  "persist_message_create r payload provider workspace entity revision tables =
     (case entity of
        None \<Rightarrow> Inl (ValueErr ''Committed message create has no provider identifier'')
      | Some pid \<Rightarrow>
          bindE (message_metadata r payload provider) (\<lambda>meta.
          bindE (upsert_mapping
              (\<lambda>m. m\<lparr>mp_revision := revision, mp_metadata := dict_update (mp_metadata m) meta, mp_deleted := False\<rparr>)
              (new_mapping (rec_account_uuid r) ''message'' workspace pid revision meta) (fst tables))
            (\<lambda>ms. Inr (ms,
              upsert_alias (\<lambda>m. m\<lparr>mp_provider_id := pid, mp_metadata := meta, mp_deleted := False\<rparr>)
                (new_mapping (rec_account_uuid r) ''message'' workspace pid None meta) (snd tables)))))"

text \<open>
  The statement deletes the stale mapping of the reaction in a common table expression that
  its main \<open>INSERT\<close> does not read. Both work on the snapshot of the statement, and PostgreSQL
  runs such an expression to completion only after the main query, so the keys of the
  inserted row are checked while the stale row is still there.
\<close>

definition persist_reaction ::
  "op_record \<Rightarrow> dict \<Rightarrow> dict \<Rightarrow> uuid \<Rightarrow> string option \<Rightarrow> string option \<Rightarrow> mapping_tables \<Rightarrow> mapping_tables result" where
  "persist_reaction r payload provider workspace entity revision tables =
     (case entity of
        None \<Rightarrow> Inl (ValueErr ''Committed reaction mutation has no provider identifier'')
      | Some pid \<Rightarrow>
          bindE (reaction_metadata r payload provider) (\<lambda>meta.
          bindE (upsert_mapping
              (\<lambda>m. m\<lparr>mp_workspace_uuid := workspace, mp_revision := revision,
                     mp_metadata := dict_update (mp_metadata m) meta, mp_deleted := False\<rparr>)
              (new_mapping (rec_account_uuid r) ''reaction'' workspace pid revision meta) (fst tables))
            (\<lambda>ms. Inr
              (filter (\<lambda>m. \<not> (mapped (rec_account_uuid r) ''reaction'' workspace m \<and> mp_provider_id m \<noteq> pid)) ms,
               snd tables))))"

definition persist_message_update ::
  "op_record \<Rightarrow> dict \<Rightarrow> dict \<Rightarrow> uuid \<Rightarrow> string option \<Rightarrow> mapping_tables \<Rightarrow> mapping_tables" where
  "persist_message_update r payload provider workspace revision tables =
     (let extensions = (case get_val (rec_operation r) ''extensions'' of VDict e \<Rightarrow> e | _ \<Rightarrow> []);
          meta = update_metadata r extensions payload provider;
          hit = mapped (rec_account_uuid r) ''message'' workspace
      in (update_where hit
            (\<lambda>m. m\<lparr>mp_revision := (case revision of None \<Rightarrow> mp_revision m | Some v \<Rightarrow> Some v),
                   mp_metadata := dict_update (mp_metadata m) meta, mp_deleted := False\<rparr>) (fst tables),
          update_where hit
            (\<lambda>m. m\<lparr>mp_metadata := dict_update (mp_metadata m) meta, mp_deleted := False\<rparr>) (snd tables)))"

text \<open>The list of earlier provider identifiers kept in the metadata of a renamed topic.\<close>

definition with_alias :: "string option \<Rightarrow> string \<Rightarrow> dict \<Rightarrow> dict" where
  "with_alias previous pid meta =
     (case previous of
        Some p \<Rightarrow>
          if p \<noteq> pid
          then [(''provider_aliases'',
                 VList ((case get_val meta ''provider_aliases'' of VList xs \<Rightarrow> xs | VNone \<Rightarrow> [] | v \<Rightarrow> [v]) @ [VStr p]))]
          else []
      | None \<Rightarrow> [])"

definition previous_provider_id :: "dict \<Rightarrow> string option" where
  "previous_provider_id provider =
     (case get_val provider ''entity_id'' of VNone \<Rightarrow> None | v \<Rightarrow> Some (py_str v))"

definition persist_topic_upsert ::
  "op_record \<Rightarrow> dict \<Rightarrow> dict \<Rightarrow> uuid \<Rightarrow> string option \<Rightarrow> string option \<Rightarrow> mapping_tables \<Rightarrow> mapping_tables result" where
  "persist_topic_upsert r payload provider workspace entity revision tables =
     (case entity of
        None \<Rightarrow> Inl (ValueErr ''Committed topic update has no provider identifier'')
      | Some pid \<Rightarrow>
          let previous = previous_provider_id provider in
          bindE (topic_metadata r payload provider) (\<lambda>meta.
          bindE (checked mappings_unique (update_where (mapped (rec_account_uuid r) ''topic'' workspace)
              (\<lambda>m. m\<lparr>mp_provider_id := pid,
                     mp_revision := (case revision of None \<Rightarrow> mp_revision m | Some v \<Rightarrow> Some v),
                     mp_metadata := dict_update (dict_update (mp_metadata m) meta)
                       (with_alias previous pid (mp_metadata m)),
                     mp_deleted := False\<rparr>) (fst tables)))
            (\<lambda>ms. Inr (ms,
              (case previous of
                 None \<Rightarrow> snd tables
               | Some p \<Rightarrow>
                   update_where (\<lambda>m. provider_key m = (rec_account_uuid r, ''topic'', p))
                     (\<lambda>m. m\<lparr>mp_provider_id := pid, mp_metadata := dict_update (mp_metadata m) meta,
                            mp_deleted := False\<rparr>) (snd tables))))))"

definition tombstone :: "uuid \<Rightarrow> string \<Rightarrow> uuid \<Rightarrow> mapping_row list \<Rightarrow> mapping_row list" where
  "tombstone account kind workspace ms =
     update_where (mapped account kind workspace) (\<lambda>m. m\<lparr>mp_deleted := True\<rparr>) ms"

definition revive :: "uuid \<Rightarrow> string \<Rightarrow> uuid \<Rightarrow> string option \<Rightarrow> mapping_row list \<Rightarrow> mapping_row list" where
  "revive account kind workspace revision ms =
     update_where (mapped account kind workspace)
       (\<lambda>m. m\<lparr>mp_revision := (case revision of None \<Rightarrow> mp_revision m | Some v \<Rightarrow> Some v),
              mp_deleted := False\<rparr>) ms"

section \<open>The dispatcher\<close>

definition persist_committed_mapping ::
  "op_record \<Rightarrow> string option \<Rightarrow> string option \<Rightarrow> mapping_tables \<Rightarrow> mapping_tables result" where
  "persist_committed_mapping r entity revision tables =
     bindE (item (rec_operation r) ''kind'') (\<lambda>k.
     bindE (item (rec_operation r) ''payload'') (\<lambda>pl.
     bindE (item (rec_operation r) ''provider'') (\<lambda>pr.
     bindE (item (rec_operation r) ''entity_uuid'') (\<lambda>eu.
       let kind = py_str k; account = rec_account_uuid r; workspace = py_str eu;
           payload = (case pl of VDict d \<Rightarrow> d | _ \<Rightarrow> []); provider = (case pr of VDict d \<Rightarrow> d | _ \<Rightarrow> [])
       in if kind = ''topic.create'' then persist_topic_create r payload provider workspace entity revision tables
          else if kind = ''message.create'' then persist_message_create r payload provider workspace entity revision tables
          else if kind = ''reaction.create'' \<or> kind = ''reaction.update''
          then persist_reaction r payload provider workspace entity revision tables
          else if kind = ''message.update'' then Inr (persist_message_update r payload provider workspace revision tables)
          else if kind = ''topic.upsert'' then persist_topic_upsert r payload provider workspace entity revision tables
          else if kind = ''topic.delete''
          then Inr (tombstone account ''topic'' workspace (fst tables), tombstone account ''topic'' workspace (snd tables))
          else if kind = ''stream.upsert'' then Inr (revive account ''stream'' workspace revision (fst tables), snd tables)
          else if kind = ''message.delete''
          then Inr (tombstone account ''message'' workspace (fst tables), tombstone account ''message'' workspace (snd tables))
          else if kind = ''reaction.delete''
          then Inr (tombstone account ''reaction'' workspace (fst tables), snd tables)
          else Inr tables))))"

end
