(* ===== verification/Queue_Completion.thy ===== *)
theory Queue_Completion
  imports Provider_Mappings
begin

text \<open>
  The remaining transactions of the operation queue (\<open>storage.py\<close>): completion with the lane
  advance and the mapping write, retry, attempt evidence, the reconciliation transitions of
  uncertain operations, and the delivery of results to the Provider API.
\<close>

section \<open>Completion\<close>

definition find_operation :: "uuid \<Rightarrow> queue_db \<Rightarrow> op_row option" where
  "find_operation u db = find (\<lambda>x. op_uuid x = u) (db_operations db)"

definition close_row :: "timestamp \<Rightarrow> op_state \<Rightarrow> result_rec \<Rightarrow> op_row \<Rightarrow> op_row" where
  "close_row now st result x =
     x\<lparr>op_state := st, op_result := Some result, op_lease_owner := None, op_lease_until := None,
       op_updated_at := now\<rparr>"

definition outcome_idempotency :: "string \<Rightarrow> result_rec \<Rightarrow> idem_row \<Rightarrow> idem_row" where
  "outcome_idempotency outcome result p =
     p\<lparr>idem_outcome := Some outcome, idem_result_uuid := Some (res_uuid result),
       idem_entity_id := res_entity_id result, idem_revision := res_revision result,
       idem_manual_retry := res_manual_retry_allowed result\<rparr>"

definition update_idempotency :: "uuid \<Rightarrow> (idem_row \<Rightarrow> idem_row) \<Rightarrow> queue_db \<Rightarrow> queue_db" where
  "update_idempotency u f db =
     (case db_idempotency db u of
        None \<Rightarrow> db
      | Some p \<Rightarrow> db\<lparr>db_idempotency := (db_idempotency db)(u \<mapsto> f p)\<rparr>)"

definition advance_lane :: "op_record \<Rightarrow> unit transaction" where
  "advance_lane r db =
     (let lane = rec_lane r; pos = lane_at (db_lanes db) lane in
      if lane_last_sequence pos = rec_sequence r - 1 \<and> lane_last_operation pos = rec_predecessor r
      then Inr ((), db\<lparr>db_lanes := (db_lanes db)(lane \<mapsto>
             \<lparr>lane_last_sequence = rec_sequence r, lane_last_operation = Some (rec_operation_uuid r)\<rparr>)\<rparr>)
      else Inl (ValueErr ''Causal lane state changed before completion''))"

definition complete ::
  "timestamp \<Rightarrow> queued_operation \<Rightarrow> result_rec \<Rightarrow> string \<Rightarrow> unit transaction" where
  "complete now qop result outcome db =
     (case outcome_state outcome of
        None \<Rightarrow> Inl (ValueErr ''Invalid terminal outcome'')
      | Some st \<Rightarrow>
          case find_operation (qo_uuid qop) db of
            None \<Rightarrow> Inl (ValueErr ''Unknown bridge operation'')
          | Some current \<Rightarrow>
              if terminal (op_state current) then Inr ((), db)
              else
                let db1 = update_operations
                      (\<lambda>x. op_uuid x = qo_uuid qop \<and> op_state x \<in> {Running, Uncertain})
                      (close_row now st result) db;
                    db2 = update_idempotency (rec_operation_uuid (qo_record qop))
                      (outcome_idempotency outcome result) db1
                in bindE (if rec_attempt (qo_record qop) = 1 then advance_lane (qo_record qop) db2
                          else Inr ((), db2)) (\<lambda>(_, db3).
                   if outcome = ''committed''
                   then bindE (persist_committed_mapping (qo_record qop) (res_entity_id result)
                                 (res_revision result) (db_mappings db3, db_aliases db3))
                          (\<lambda>(ms, als). Inr ((), db3\<lparr>db_mappings := ms, db_aliases := als\<rparr>))
                   else Inr ((), db3)))"

section \<open>Retry and attempt evidence\<close>

definition retry_row :: "timestamp \<Rightarrow> timestamp \<Rightarrow> string \<Rightarrow> op_row \<Rightarrow> op_row" where
  "retry_row now available_at code x =
     x\<lparr>op_state := Pending, op_available_at := available_at, op_last_error_code := Some code,
       op_retry_count := op_retry_count x + 1, op_lease_owner := None, op_lease_until := None,
       op_updated_at := now\<rparr>"

definition retry :: "timestamp \<Rightarrow> queued_operation \<Rightarrow> timestamp \<Rightarrow> string \<Rightarrow> queue_db \<Rightarrow> queue_db" where
  "retry now qop available_at code db =
     update_operations (\<lambda>x. op_uuid x = qo_uuid qop) (retry_row now available_at code) db"

definition attempt_row :: "timestamp \<Rightarrow> string \<Rightarrow> string \<Rightarrow> string \<Rightarrow> op_row \<Rightarrow> op_row" where
  "attempt_row now queue_id local_id rendered x =
     x\<lparr>op_provider_queue_id := Some queue_id, op_provider_local_id := Some local_id,
       op_provider_attempted_at := (case op_provider_attempted_at x of None \<Rightarrow> Some now | Some t \<Rightarrow> Some t),
       op_manual_context := Some (dict_set ''provider_rendered_content'' (VStr rendered)
         (case op_manual_context x of None \<Rightarrow> [] | Some c \<Rightarrow> c)),
       op_updated_at := now\<rparr>"

definition record_provider_attempt ::
  "timestamp \<Rightarrow> queued_operation \<Rightarrow> string \<Rightarrow> string \<Rightarrow> string \<Rightarrow> queue_db \<Rightarrow> queue_db" where
  "record_provider_attempt now qop queue_id local_id rendered db =
     update_operations (\<lambda>x. op_uuid x = qo_uuid qop \<and> op_state x = Running)
       (attempt_row now queue_id local_id rendered) db"

definition uncertain_row :: "timestamp \<Rightarrow> string \<Rightarrow> op_row \<Rightarrow> op_row" where
  "uncertain_row now code x =
     x\<lparr>op_state := Uncertain, op_last_error_code := Some code, op_check_count := 0,
       op_reconciliation_after := Some (now + seconds 5), op_lease_owner := None,
       op_lease_until := None, op_updated_at := now\<rparr>"

definition mark_uncertain :: "timestamp \<Rightarrow> queued_operation \<Rightarrow> string \<Rightarrow> queue_db \<Rightarrow> queue_db" where
  "mark_uncertain now qop code db =
     update_operations (\<lambda>x. op_uuid x = qo_uuid qop) (uncertain_row now code) db"

section \<open>Reconciliation of uncertain operations\<close>

definition uncertain_candidate :: "timestamp \<Rightarrow> queue_db \<Rightarrow> op_row \<Rightarrow> bool" where
  "uncertain_candidate now db x =
     (op_state x = Uncertain \<and> \<not> op_manual_required x \<and>
      (case op_reconciliation_after x of None \<Rightarrow> False | Some t \<Rightarrow> t \<le> now) \<and>
      (case op_lease_until x of None \<Rightarrow> True | Some t \<Rightarrow> t < now) \<and>
      account_open now db x)"

definition lease_uncertain :: "timestamp \<Rightarrow> string \<Rightarrow> op_row \<Rightarrow> op_row" where
  "lease_uncertain now worker x =
     x\<lparr>op_lease_owner := Some worker, op_lease_until := Some (now + seconds 60), op_updated_at := now\<rparr>"

definition claim_uncertain ::
  "timestamp \<Rightarrow> (uuid \<Rightarrow> bool) \<Rightarrow> string \<Rightarrow> queue_db \<Rightarrow> queued_operation option \<times> queue_db" where
  "claim_uncertain now locked worker db =
     (case first_by (\<lambda>x. (op_reconciliation_after x, op_created_at x))
         (filter (\<lambda>x. uncertain_candidate now db x \<and> \<not> locked (op_uuid x)) (db_operations db)) of
        None \<Rightarrow> (None, db)
      | Some x \<Rightarrow>
          (Some (queued_operation (lease_uncertain now worker x)),
           update_operations (\<lambda>y. op_uuid y = op_uuid x) (lease_uncertain now worker) db))"

definition defer_uncertain :: "timestamp \<Rightarrow> queued_operation \<Rightarrow> timestamp \<Rightarrow> string \<Rightarrow> queue_db \<Rightarrow> queue_db" where
  "defer_uncertain now qop available_at code db =
     update_operations (\<lambda>x. op_uuid x = qo_uuid qop \<and> op_state x = Uncertain)
       (\<lambda>x. x\<lparr>op_reconciliation_after := Some available_at, op_last_error_code := Some (take 128 code),
              op_lease_owner := None, op_lease_until := None, op_updated_at := now\<rparr>) db"

definition schedule_reconciliation_check ::
  "timestamp \<Rightarrow> queued_operation \<Rightarrow> timestamp \<Rightarrow> pyval \<Rightarrow> queue_db \<Rightarrow> queue_db" where
  "schedule_reconciliation_check now qop after evidence db =
     update_operations (\<lambda>x. op_uuid x = qo_uuid qop \<and> op_state x = Uncertain)
       (\<lambda>x. x\<lparr>op_check_count := op_check_count x + 1, op_reconciliation_after := Some after,
              op_evidence := op_evidence x @ [evidence], op_lease_owner := None,
              op_lease_until := None, op_updated_at := now\<rparr>) db"

definition resend_row :: "timestamp \<Rightarrow> pyval \<Rightarrow> op_row \<Rightarrow> op_row" where
  "resend_row now evidence x =
     x\<lparr>op_state := Pending, op_available_at := now, op_auto_resend_count := op_auto_resend_count x + 1,
       op_evidence := op_evidence x @ [evidence], op_lease_owner := None, op_lease_until := None,
       op_updated_at := now\<rparr>"

definition schedule_single_resend :: "timestamp \<Rightarrow> queued_operation \<Rightarrow> pyval \<Rightarrow> queue_db \<Rightarrow> queue_db" where
  "schedule_single_resend now qop evidence db =
     update_operations
       (\<lambda>x. op_uuid x = qo_uuid qop \<and> op_state x = Uncertain \<and> op_auto_resend_count x = 0)
       (resend_row now evidence) db"

definition manual_context :: "op_row \<Rightarrow> dict" where
  "manual_context x =
     [(''operation_uuid'', VStr (op_operation_uuid x)), (''account_uuid'', VStr (op_account_uuid x)),
      (''causal_lane'', VStr (op_causal_lane x)), (''original_link'', VNone),
      (''duplicate_risk_warning'', VStr ''An explicit retry may create a duplicate Zulip message.'')]"

text \<open>\<open>uuid5\<close> is the name-based UUID of the standard library, a parameter here.\<close>

definition manual_result ::
  "(uuid \<Rightarrow> string \<Rightarrow> uuid) \<Rightarrow> timestamp \<Rightarrow> queued_operation \<Rightarrow> string \<Rightarrow> pyval \<Rightarrow> result_rec" where
  "manual_result uuid5 now qop code evidence =
     \<lparr>res_uuid = uuid5 (qo_uuid qop) (''manual:'' @ code), res_in_reply_to = qo_record qop,
      res_created_at = now, res_outcome = ''manual_reconciliation_required'', res_committed_at = None,
      res_entity_id = None, res_revision = None, res_error_code = Some code,
      res_manual_retry_allowed = False, res_reconciliation = Some (code, evidence),
      res_transport = rec_transport (qo_record qop)\<rparr>"

definition manual_row :: "timestamp \<Rightarrow> string \<Rightarrow> pyval \<Rightarrow> result_rec \<Rightarrow> op_row \<Rightarrow> op_row" where
  "manual_row now code evidence result x =
     x\<lparr>op_state := Rejected, op_manual_required := True, op_last_error_code := Some code,
       op_evidence := op_evidence x @ [evidence], op_result := Some result, op_result_sent_at := None,
       op_manual_context := Some (manual_context x), op_lease_owner := None, op_lease_until := None,
       op_updated_at := now\<rparr>"

definition manual_idempotency :: "result_rec \<Rightarrow> idem_row \<Rightarrow> idem_row" where
  "manual_idempotency result p =
     (if idem_outcome p = None
      then p\<lparr>idem_outcome := Some ''rejected'', idem_result_uuid := Some (res_uuid result),
             idem_manual_retry := False\<rparr>
      else p)"

definition require_operation_manual_reconciliation ::
  "(uuid \<Rightarrow> string \<Rightarrow> uuid) \<Rightarrow> timestamp \<Rightarrow> queued_operation \<Rightarrow> string \<Rightarrow> pyval \<Rightarrow> queue_db \<Rightarrow> queue_db" where
  "require_operation_manual_reconciliation uuid5 now qop code evidence db =
     (let result = manual_result uuid5 now qop code evidence in
      update_idempotency (rec_operation_uuid (qo_record qop)) (manual_idempotency result)
        (update_operations (\<lambda>x. op_uuid x = qo_uuid qop \<and> op_state x = Uncertain)
          (manual_row now code evidence result) db))"

definition require_manual_reconciliation :: "timestamp \<Rightarrow> uuid \<Rightarrow> string \<Rightarrow> queue_db \<Rightarrow> queue_db" where
  "require_manual_reconciliation now account code db =
     update_operations (\<lambda>x. op_account_uuid x = account \<and> op_state x = Uncertain)
       (\<lambda>x. x\<lparr>op_manual_required := True, op_last_error_code := Some code,
              op_manual_context := Some (manual_context x), op_updated_at := now\<rparr>) db"

definition uncertain_by_local_id :: "uuid \<Rightarrow> string \<Rightarrow> string \<Rightarrow> queue_db \<Rightarrow> queued_operation option" where
  "uncertain_by_local_id account queue_id local_id db =
     map_option queued_operation
       (find (\<lambda>x. op_account_uuid x = account \<and> op_provider_queue_id x = Some queue_id \<and>
                  op_provider_local_id x = Some local_id \<and> op_state x = Uncertain) (db_operations db))"

section \<open>Results\<close>

definition pending_results :: "nat \<Rightarrow> queue_db \<Rightarrow> result_rec list" where
  "pending_results limit db =
     map (the \<circ> op_result) (take limit (sort_key (\<lambda>x. (op_updated_at x, op_uuid x))
       (filter (\<lambda>x. op_result x \<noteq> None \<and> op_result_sent_at x = None) (db_operations db))))"

definition mark_result_sent :: "timestamp \<Rightarrow> uuid \<Rightarrow> queue_db \<Rightarrow> queue_db" where
  "mark_result_sent now u db =
     update_operations (\<lambda>x. case op_result x of None \<Rightarrow> False | Some res \<Rightarrow> res_uuid res = u)
       (\<lambda>x. x\<lparr>op_result_sent_at := Some now, op_updated_at := now\<rparr>) db"

definition result_statuses :: "string list" where
  "result_statuses = [''applied'', ''duplicate'', ''conflict'', ''not_found'', ''stale_lease'', ''rejected'']"

type_synonym result_response = "uuid \<times> string \<times> string option"

text \<open>The rows a response matches: its result identifier, and its lease when it names one.\<close>

definition response_matches :: "result_response \<Rightarrow> op_row \<Rightarrow> bool" where
  "response_matches resp x =
     (case (resp, op_result x) of
        ((u, status, lease), Some res) \<Rightarrow> res_uuid res = u \<and>
          (case lease of
             None \<Rightarrow> True
           | Some l \<Rightarrow> (case res_transport res of
                         None \<Rightarrow> False
                       | Some t \<Rightarrow> json_text (get_val t ''lease_uuid'') = Some l))
      | _ \<Rightarrow> False)"

definition settled :: "string \<Rightarrow> bool" where
  "settled status = (status \<in> {''applied'', ''duplicate''})"

definition acknowledge_row :: "timestamp \<Rightarrow> string \<Rightarrow> string option \<Rightarrow> op_row \<Rightarrow> op_row" where
  "acknowledge_row now status semantic x =
     x\<lparr>op_result_sent_at := Some now,
       op_record :=
         (if settled status \<and> rec_kind (op_record x) = VStr ''read_state.set''
          then clear_message_uuids ((op_record x)\<lparr>rec_read_sha256 := semantic\<rparr>) else op_record x),
       op_manual_required := (op_manual_required x \<or> status \<in> {''conflict'', ''not_found'', ''rejected''}),
       op_last_error_code := (if settled status then None else Some (''provider_result_'' @ status)),
       op_evidence := (if settled status then op_evidence x
          else op_evidence x @ [VDict [(''kind'', VStr ''provider_result_response''), (''status'', VStr status)]]),
       op_updated_at := now\<rparr>"

text \<open>
  The matched rows in response order with the status and the read digest the update uses;
  the digest stored with the record wins over the computed one.
\<close>

definition matched_responses ::
  "(string \<Rightarrow> string) \<Rightarrow> (string \<Rightarrow> string) \<Rightarrow> result_response list \<Rightarrow> queue_db
     \<Rightarrow> (uuid \<times> string \<times> string option) list result" where
  "matched_responses nfc sha256 responses db =
     mapE (\<lambda>(resp, x).
         bindE (case rec_read_sha256 (op_record x) of
                  Some h \<Rightarrow> Inr (Some h)
                | None \<Rightarrow> provider_read_semantic_sha256 nfc sha256 (op_record x))
           (\<lambda>h. Inr (op_uuid x, fst (snd resp), h)))
       (concat (map (\<lambda>resp. map (\<lambda>x. (resp, x)) (filter (response_matches resp) (db_operations db))) responses))"

text \<open>
  \<open>UPDATE ... FROM responses\<close>: a row that several responses match takes one of them; the
  first in response order here.
\<close>

definition finalize_provider_result_responses ::
  "(string \<Rightarrow> string) \<Rightarrow> (string \<Rightarrow> string) \<Rightarrow> timestamp \<Rightarrow> result_response list \<Rightarrow> unit transaction" where
  "finalize_provider_result_responses nfc sha256 now responses db =
     (if responses = [] then Inr ((), db)
      else if \<exists>resp \<in> set responses. fst (snd resp) \<notin> set result_statuses
      then Inl (ValueErr ''Unsupported Provider result response status'')
      else bindE (matched_responses nfc sha256 responses db) (\<lambda>hits.
        Inr ((), db\<lparr>db_operations := map (\<lambda>x.
          case map_of hits (op_uuid x) of
            None \<Rightarrow> x
          | Some (status, h) \<Rightarrow> acknowledge_row now status h x) (db_operations db)\<rparr>)))"

end
