(* ===== verification/Transition_Systems.thy ===== *)
theory Transition_Systems
  imports Main
begin

text \<open>
  The interface between a step relation and the properties of its reachable states: a
  locale for inductive invariants and one for relations that every step respects.
\<close>

definition reachable :: "('s \<Rightarrow> bool) \<Rightarrow> ('s \<Rightarrow> 's \<Rightarrow> bool) \<Rightarrow> 's \<Rightarrow> bool" where
  "reachable init step s = (\<exists>s0. init s0 \<and> step\<^sup>*\<^sup>* s0 s)"

lemma reachable_init: "init s \<Longrightarrow> reachable init step s"
  unfolding reachable_def by blast

lemma reachable_step: "reachable init step s \<Longrightarrow> step s t \<Longrightarrow> reachable init step t"
  unfolding reachable_def by (meson rtranclp.rtrancl_into_rtrancl)

lemma reachable_trans: "reachable init step s \<Longrightarrow> step\<^sup>*\<^sup>* s t \<Longrightarrow> reachable init step t"
  unfolding reachable_def by (meson rtranclp_trans)

locale inductive_invariant =
  fixes init :: "'s \<Rightarrow> bool" and step :: "'s \<Rightarrow> 's \<Rightarrow> bool" and inv :: "'s \<Rightarrow> bool"
  assumes inv_init: "init s \<Longrightarrow> inv s"
    and inv_step: "inv s \<Longrightarrow> step s t \<Longrightarrow> inv t"
begin

lemma inv_steps: "step\<^sup>*\<^sup>* s t \<Longrightarrow> inv s \<Longrightarrow> inv t"
  by (induction rule: rtranclp_induct) (auto intro: inv_step)

lemma reachable_inv: "reachable init step s \<Longrightarrow> inv s"
  unfolding reachable_def using inv_init inv_steps by blast

end

text \<open>
  A relation between an earlier and a later state: reflexive and transitive, and respected
  by every step from a state that satisfies the invariant.
\<close>

locale monotone_system = inductive_invariant +
  fixes progress :: "'a \<Rightarrow> 'a \<Rightarrow> bool"
  assumes progress_refl: "progress s s"
    and progress_trans: "progress s t \<Longrightarrow> progress t u \<Longrightarrow> progress s u"
    and progress_step: "inv s \<Longrightarrow> step s t \<Longrightarrow> progress s t"
begin

lemma progress_steps: "step\<^sup>*\<^sup>* s t \<Longrightarrow> inv s \<Longrightarrow> progress s t"
proof (induction rule: rtranclp_induct)
  case base
  then show ?case by (simp add: progress_refl)
next
  case (step t u)
  then show ?case using inv_steps progress_step progress_trans by blast
qed

lemma reachable_progress: "reachable init step s \<Longrightarrow> step\<^sup>*\<^sup>* s t \<Longrightarrow> progress s t"
  using progress_steps reachable_inv by blast

end

end
