(* ===== verification/Queue_Invariants.thy ===== *)
theory Queue_Invariants
  imports Queue_Completion Transition_Systems
begin

text \<open>
  The consistency of the queue tables: producer lanes are gap-free chains, every operation
  row matches its producer entry and its record, and the state of a row agrees with the
  position of its lane. Each transaction of the store keeps it.
\<close>

section \<open>Lanes as lists\<close>

definition lane_ops :: "queue_db \<Rightarrow> lane \<Rightarrow> (uuid \<times> producer_row) list" where
  "lane_ops db l = filter (\<lambda>p. pr_lane (snd p) = l) (db_producers db)"

text \<open>The position after the first \<open>n\<close> operations of a lane.\<close>

definition pos_of :: "(uuid \<times> producer_row) list \<Rightarrow> nat \<Rightarrow> lane_pos" where
  "pos_of L n = \<lparr>lane_last_sequence = int n,
     lane_last_operation = (if n = 0 then None else Some (fst (L ! (n - 1))))\<rparr>"

definition chain :: "(uuid \<times> producer_row) list \<Rightarrow> bool" where
  "chain L = (\<forall>i < length L. pr_sequence (snd (L ! i)) = int i + 1 \<and>
     pr_predecessor (snd (L ! i)) = lane_last_operation (pos_of L i))"

definition lane_ok :: "queue_db \<Rightarrow> lane \<Rightarrow> bool" where
  "lane_ok db l =
     (chain (lane_ops db l) \<and>
      lane_at (db_counters db) l = pos_of (lane_ops db l) (length (lane_ops db l)) \<and>
      (\<exists>n \<le> length (lane_ops db l). lane_at (db_lanes db) l = pos_of (lane_ops db l) n))"

lemma pos_of_append: "n \<le> length L \<Longrightarrow> pos_of (L @ M) n = pos_of L n"
  by (auto simp: pos_of_def nth_append)

lemma chain_snoc:
  "chain L \<Longrightarrow> pr_sequence (snd p) = int (length L) + 1 \<Longrightarrow>
   pr_predecessor (snd p) = lane_last_operation (pos_of L (length L)) \<Longrightarrow> chain (L @ [p])"
  unfolding chain_def by (auto simp: nth_append pos_of_append less_Suc_eq)

lemma pos_of_snoc: "pos_of (L @ [p]) (Suc (length L)) =
    \<lparr>lane_last_sequence = int (length L) + 1, lane_last_operation = Some (fst p)\<rparr>"
  by (simp add: pos_of_def)

section \<open>Rows\<close>

definition identity_agrees :: "op_row \<Rightarrow> op_record \<Rightarrow> bool" where
  "identity_agrees x r =
     (rec_uuid r = op_uuid x \<and> rec_operation_uuid r = op_operation_uuid x \<and>
      rec_attempt r = op_attempt x \<and> rec_lane r = op_lane x \<and>
      rec_sequence r = op_lane_sequence x \<and> rec_predecessor r = op_predecessor x)"

definition entry_ok :: "queue_db \<Rightarrow> op_row \<Rightarrow> bool" where
  "entry_ok db x =
     (case map_of (db_producers db) (op_operation_uuid x) of
        None \<Rightarrow> False
      | Some e \<Rightarrow> pr_lane e = op_lane x \<and> pr_sequence e = op_lane_sequence x \<and>
          pr_predecessor e = op_predecessor x)"

definition lane_last :: "queue_db \<Rightarrow> lane \<Rightarrow> int" where
  "lane_last db l = lane_last_sequence (lane_at (db_lanes db) l)"

text \<open>
  What the position of its lane says of the state of a first attempt: behind the position
  it is finished; ahead of it, it is waiting, unless it is the very next one, which may be
  in flight or parked for manual reconciliation.
\<close>

definition position_ok :: "queue_db \<Rightarrow> op_row \<Rightarrow> bool" where
  "position_ok db x =
     (if op_lane_sequence x \<le> lane_last db (op_lane x) then terminal (op_state x)
      else op_state x = Pending \<or>
        op_lane_sequence x = lane_last db (op_lane x) + 1 \<and>
        (op_state x \<in> {Running, Uncertain} \<or> op_state x = Rejected \<and> op_manual_required x))"

definition outcome_known :: "queue_db \<Rightarrow> op_row \<Rightarrow> bool" where
  "outcome_known db x =
     (case db_idempotency db (op_operation_uuid x) of
        None \<Rightarrow> False
      | Some p \<Rightarrow> terminal (op_state x) \<longrightarrow> idem_outcome p \<noteq> None)"

definition row_ok :: "queue_db \<Rightarrow> op_row \<Rightarrow> bool" where
  "row_ok db x =
     (identity_agrees x (op_record x) \<and> op_auto_resend_count x \<in> {0, 1} \<and> outcome_known db x \<and>
      (op_attempt x = 1 \<longrightarrow> entry_ok db x \<and> position_ok db x))"

definition keys_ok :: "op_row list \<Rightarrow> bool" where
  "keys_ok ops =
     (distinct (map op_uuid ops) \<and> distinct (map (\<lambda>x. (op_operation_uuid x, op_attempt x)) ops) \<and>
      distinct (map (\<lambda>x. (op_lane x, op_lane_sequence x, op_attempt x)) ops))"

definition queue_ok :: "queue_db \<Rightarrow> bool" where
  "queue_ok db =
     (keys_ok (db_operations db) \<and> (\<forall>x \<in> set (db_operations db). row_ok db x) \<and>
      (\<forall>l. lane_ok db l) \<and> distinct (map fst (db_producers db)) \<and>
      (\<forall>u. db_idempotency db u \<noteq> None \<longrightarrow> u \<in> fst ` set (db_producers db)) \<and>
      (\<forall>u \<in> fst ` set (db_producers db). \<exists>x \<in> set (db_operations db). op_operation_uuid x = u \<and> op_attempt x = 1))"

lemma queue_okD:
  assumes "queue_ok db"
  shows "keys_ok (db_operations db)" "\<And>x. x \<in> set (db_operations db) \<Longrightarrow> row_ok db x"
    "\<And>l. lane_ok db l" "distinct (map fst (db_producers db))"
    "\<And>u. db_idempotency db u \<noteq> None \<Longrightarrow> u \<in> fst ` set (db_producers db)"
    "\<And>u. u \<in> fst ` set (db_producers db) \<Longrightarrow> \<exists>x \<in> set (db_operations db). op_operation_uuid x = u \<and> op_attempt x = 1"
  using assms unfolding queue_ok_def by blast+

text \<open>The columns that no update of a row touches.\<close>

definition same_row :: "op_row \<Rightarrow> op_row \<Rightarrow> bool" where
  "same_row x y =
     (op_uuid y = op_uuid x \<and> op_operation_uuid y = op_operation_uuid x \<and> op_attempt y = op_attempt x \<and>
      op_origin y = op_origin x \<and> op_causal_lane y = op_causal_lane x \<and>
      op_lane_sequence y = op_lane_sequence x \<and> op_predecessor y = op_predecessor x)"

lemma same_row_lane: "same_row x y \<Longrightarrow> op_lane y = op_lane x"
  by (simp add: same_row_def op_lane_def)

lemma same_row_refl [simp]: "same_row x x"
  by (simp add: same_row_def)

text \<open>A row that keeps its identity and its state stays consistent.\<close>

lemma row_ok_cong:
  assumes "row_ok db x" "same_row x y" "op_state y = op_state x"
    "op_manual_required x \<longrightarrow> op_manual_required y"
    "op_auto_resend_count y = op_auto_resend_count x" "identity_agrees y (op_record y)"
  shows "row_ok db y"
proof -
  note eqs = assms(2) [unfolded same_row_def] same_row_lane [OF assms(2)] assms(3)
  have "entry_ok db y = entry_ok db x" "outcome_known db y = outcome_known db x"
    by (simp_all add: entry_ok_def outcome_known_def eqs cong: option.case_cong)
  moreover have "position_ok db x \<Longrightarrow> position_ok db y"
    using assms(4) by (auto simp: position_ok_def eqs split: if_splits)
  ultimately show ?thesis using assms(1,5,6) by (auto simp: row_ok_def eqs)
qed

lemma keys_ok_map:
  assumes "keys_ok ops" "\<And>x. x \<in> set ops \<Longrightarrow> same_row x (f x)"
  shows "keys_ok (map f ops)"
proof -
  have 1: "map (op_uuid \<circ> f) ops = map op_uuid ops"
    by (rule map_cong) (use assms(2) in \<open>auto simp: same_row_def\<close>)
  have 2: "map ((\<lambda>x. (op_operation_uuid x, op_attempt x)) \<circ> f) ops = map (\<lambda>x. (op_operation_uuid x, op_attempt x)) ops"
    by (rule map_cong) (use assms(2) in \<open>auto simp: same_row_def\<close>)
  have 3: "map ((\<lambda>x. (op_lane x, op_lane_sequence x, op_attempt x)) \<circ> f) ops = map (\<lambda>x. (op_lane x, op_lane_sequence x, op_attempt x)) ops"
    by (rule map_cong) (use assms(2) in \<open>auto simp: same_row_def op_lane_def\<close>)
  show ?thesis using assms(1) unfolding keys_ok_def map_map 1 2 3 .
qed

text \<open>
  The rows may change one by one: a transaction that maps every row to a consistent row with
  the same identity, and that leaves the lanes and producers alone, keeps the queue
  consistent. The account and desired-state tables do not matter.
\<close>

lemma row_ok_tables:
  assumes "db_producers db' = db_producers db" "db_lanes db' = db_lanes db"
    "db_idempotency db' = db_idempotency db"
  shows "row_ok db' x \<longleftrightarrow> row_ok db x"
  using assms by (simp add: row_ok_def entry_ok_def position_ok_def outcome_known_def lane_last_def)

lemma lane_ok_tables:
  "db_producers db' = db_producers db \<Longrightarrow> db_lanes db' = db_lanes db \<Longrightarrow> db_counters db' = db_counters db \<Longrightarrow>
   lane_ok db' l \<longleftrightarrow> lane_ok db l"
  by (simp add: lane_ok_def lane_ops_def)

lemma queue_ok_rows:
  assumes ok: "queue_ok db" and rows: "db_operations db' = map f (db_operations db)"
    and step: "\<And>x. x \<in> set (db_operations db) \<Longrightarrow> same_row x (f x) \<and> row_ok db' (f x)"
    and same: "db_producers db' = db_producers db" "\<And>l. lane_ok db' l"
    and idem: "\<And>u. db_idempotency db' u \<noteq> None \<Longrightarrow> db_idempotency db u \<noteq> None"
  shows "queue_ok db'"
proof -
  have "keys_ok (db_operations db')" using ok step unfolding rows queue_ok_def by (intro keys_ok_map) auto
  moreover have "\<exists>x \<in> set (db_operations db'). op_operation_uuid x = u \<and> op_attempt x = 1"
    if "u \<in> fst ` set (db_producers db')" for u
  proof -
    obtain x where "x \<in> set (db_operations db)" "op_operation_uuid x = u" "op_attempt x = 1"
      using ok \<open>u \<in> fst ` set (db_producers db')\<close> unfolding queue_ok_def same by blast
    with step [of x] show ?thesis unfolding rows same_row_def by auto
  qed
  ultimately show ?thesis using ok step same idem unfolding queue_ok_def rows by auto
qed

lemma update_operations_simps [simp]:
  "db_operations (update_operations p f db) = map (\<lambda>x. if p x then f x else x) (db_operations db)"
  "db_producers (update_operations p f db) = db_producers db"
  "db_lanes (update_operations p f db) = db_lanes db"
  "db_counters (update_operations p f db) = db_counters db"
  "db_idempotency (update_operations p f db) = db_idempotency db"
  "db_mappings (update_operations p f db) = db_mappings db"
  "db_aliases (update_operations p f db) = db_aliases db"
  "db_accounts (update_operations p f db) = db_accounts db"
  "db_desired (update_operations p f db) = db_desired db"
  by (simp_all add: update_operations_def update_where_def)

lemma queue_ok_update:
  assumes ok: "queue_ok db"
    and step: "\<And>x. x \<in> set (db_operations db) \<Longrightarrow> p x \<Longrightarrow> row_ok db x \<Longrightarrow> same_row x (f x) \<and> row_ok db (f x)"
  shows "queue_ok (update_operations p f db)"
proof (rule queue_ok_rows [OF ok, of _ "\<lambda>x. if p x then f x else x"])
  show "same_row x (if p x then f x else x) \<and> row_ok (update_operations p f db) (if p x then f x else x)"
    if "x \<in> set (db_operations db)" for x
    using step [OF that] ok that row_ok_tables [of "update_operations p f db" db]
    by (simp add: queue_ok_def)
  show "lane_ok (update_operations p f db) l" for l
    using queue_okD(3) [OF ok, of l] lane_ok_tables [of "update_operations p f db" db l] by simp
qed simp_all

lemma row_ok_other_tables [simp]:
  "row_ok (db\<lparr>db_operations := ops\<rparr>) x = row_ok db x" "lane_ok (db\<lparr>db_operations := ops\<rparr>) l = lane_ok db l"
  "row_ok (db\<lparr>db_accounts := a\<rparr>) x = row_ok db x" "lane_ok (db\<lparr>db_accounts := a\<rparr>) l = lane_ok db l"
  "row_ok (db\<lparr>db_desired := d\<rparr>) x = row_ok db x" "lane_ok (db\<lparr>db_desired := d\<rparr>) l = lane_ok db l"
  "row_ok (db\<lparr>db_mappings := m\<rparr>) x = row_ok db x" "lane_ok (db\<lparr>db_mappings := m\<rparr>) l = lane_ok db l"
  "row_ok (db\<lparr>db_aliases := m\<rparr>) x = row_ok db x" "lane_ok (db\<lparr>db_aliases := m\<rparr>) l = lane_ok db l"
  "row_ok (db\<lparr>db_cursors := c\<rparr>) x = row_ok db x" "lane_ok (db\<lparr>db_cursors := c\<rparr>) l = lane_ok db l"
  "row_ok (db\<lparr>db_backfills := b\<rparr>) x = row_ok db x" "lane_ok (db\<lparr>db_backfills := b\<rparr>) l = lane_ok db l"
  "row_ok (db\<lparr>db_catalog := vc\<rparr>) x = row_ok db x" "lane_ok (db\<lparr>db_catalog := vc\<rparr>) l = lane_ok db l"
  "row_ok (db\<lparr>db_events := ve\<rparr>) x = row_ok db x" "lane_ok (db\<lparr>db_events := ve\<rparr>) l = lane_ok db l"
  "row_ok (db\<lparr>db_control_cursor := vt\<rparr>) x = row_ok db x" "lane_ok (db\<lparr>db_control_cursor := vt\<rparr>) l = lane_ok db l"
  "row_ok (db\<lparr>db_health := h\<rparr>) x = row_ok db x" "lane_ok (db\<lparr>db_health := h\<rparr>) l = lane_ok db l"
  by (simp_all add: row_ok_def entry_ok_def position_ok_def outcome_known_def lane_last_def
      lane_ok_def lane_ops_def)

section \<open>Transactions that keep every state\<close>

lemma identity_agrees_cong:
  "identity_agrees x r \<Longrightarrow> same_row x y \<Longrightarrow> rec_uuid r' = rec_uuid r \<Longrightarrow>
   rec_operation_uuid r' = rec_operation_uuid r \<Longrightarrow> rec_attempt r' = rec_attempt r \<Longrightarrow>
   rec_origin r' = rec_origin r \<Longrightarrow> rec_causal_lane r' = rec_causal_lane r \<Longrightarrow>
   rec_sequence r' = rec_sequence r \<Longrightarrow> rec_predecessor r' = rec_predecessor r \<Longrightarrow> identity_agrees y r'"
  by (simp add: identity_agrees_def same_row_def op_lane_def rec_lane_def)

lemma row_ok_identity: "row_ok db x \<Longrightarrow> identity_agrees x (op_record x)"
  by (simp add: row_ok_def)

lemma clear_message_uuids_simps [simp]:
  "rec_uuid (clear_message_uuids r) = rec_uuid r"
  "rec_operation_uuid (clear_message_uuids r) = rec_operation_uuid r"
  "rec_attempt (clear_message_uuids r) = rec_attempt r"
  "rec_origin (clear_message_uuids r) = rec_origin r"
  "rec_causal_lane (clear_message_uuids r) = rec_causal_lane r"
  "rec_sequence (clear_message_uuids r) = rec_sequence r"
  "rec_predecessor (clear_message_uuids r) = rec_predecessor r"
  by (auto simp: clear_message_uuids_def split: pyval.splits)

text \<open>The row updates that leave state, resend count and identity alone.\<close>

definition quiet :: "(op_row \<Rightarrow> op_row) \<Rightarrow> bool" where
  "quiet f = (\<forall>x. same_row x (f x) \<and> op_state (f x) = op_state x \<and>
     (op_manual_required x \<longrightarrow> op_manual_required (f x)) \<and>
     op_auto_resend_count (f x) = op_auto_resend_count x \<and>
     (identity_agrees x (op_record x) \<longrightarrow> identity_agrees (f x) (op_record (f x))))"

lemma quietI:
  assumes "\<And>x. same_row x (f x)" "\<And>x. op_state (f x) = op_state x"
    "\<And>x. op_manual_required x \<Longrightarrow> op_manual_required (f x)"
    "\<And>x. op_auto_resend_count (f x) = op_auto_resend_count x"
    "\<And>x. identity_agrees x (op_record x) \<Longrightarrow> identity_agrees (f x) (op_record (f x))"
  shows "quiet f"
  using assms by (simp add: quiet_def)

lemma quiet_row_ok: "quiet f \<Longrightarrow> row_ok db x \<Longrightarrow> same_row x (f x) \<and> row_ok db (f x)"
  using row_ok_cong [of db x "f x"] row_ok_identity [of db x] unfolding quiet_def by blast

lemma quiet_update: "queue_ok db \<Longrightarrow> quiet f \<Longrightarrow> queue_ok (update_operations p f db)"
  by (rule queue_ok_update) (auto dest: quiet_row_ok)

lemma rebind_row_quiet: "quiet (rebind_row now expires transport semantic)"
  by (rule quietI) (auto simp: rebind_row_def same_row_def elim!: identity_agrees_cong)

lemma acknowledge_row_quiet: "quiet (acknowledge_row now status semantic)"
  by (rule quietI) (auto simp: acknowledge_row_def same_row_def elim!: identity_agrees_cong)

lemma lease_uncertain_quiet: "quiet (lease_uncertain now worker)"
  by (rule quietI) (auto simp: lease_uncertain_def same_row_def elim!: identity_agrees_cong)

lemma bind_provider_lease_ok:
  "queue_ok db \<Longrightarrow> bind_provider_lease nfc sha256 now r db = Inr (b, db') \<Longrightarrow> queue_ok db'"
  by (auto simp: bind_provider_lease_def bindE_eq_Inr split: option.splits
      intro: quiet_update rebind_row_quiet)

lemma attempt_row_quiet: "quiet (attempt_row now q l c)"
  by (rule quietI) (auto simp: attempt_row_def same_row_def elim!: identity_agrees_cong)

lemma record_provider_attempt_ok: "queue_ok db \<Longrightarrow> queue_ok (record_provider_attempt now qop q l c db)"
  unfolding record_provider_attempt_def by (rule quiet_update [OF _ attempt_row_quiet])

lemma claim_uncertain_ok: "queue_ok db \<Longrightarrow> claim_uncertain now locked worker db = (r, db') \<Longrightarrow> queue_ok db'"
  by (auto simp: claim_uncertain_def split: option.splits intro: quiet_update lease_uncertain_quiet)

lemma defer_uncertain_ok: "queue_ok db \<Longrightarrow> queue_ok (defer_uncertain now qop at code db)"
  unfolding defer_uncertain_def
  by (rule quiet_update, assumption, rule quietI) (auto simp: same_row_def elim!: identity_agrees_cong)

lemma schedule_check_ok: "queue_ok db \<Longrightarrow> queue_ok (schedule_reconciliation_check now qop after ev db)"
  unfolding schedule_reconciliation_check_def
  by (rule quiet_update, assumption, rule quietI) (auto simp: same_row_def elim!: identity_agrees_cong)

lemma require_manual_ok: "queue_ok db \<Longrightarrow> queue_ok (require_manual_reconciliation now account code db)"
  unfolding require_manual_reconciliation_def
  by (rule quiet_update, assumption, rule quietI) (auto simp: same_row_def elim!: identity_agrees_cong)

lemma mark_result_sent_ok: "queue_ok db \<Longrightarrow> queue_ok (mark_result_sent now u db)"
  unfolding mark_result_sent_def
  by (rule quiet_update, assumption, rule quietI) (auto simp: same_row_def elim!: identity_agrees_cong)

lemma finalize_ok:
  assumes "queue_ok db" "finalize_provider_result_responses nfc sha256 now resps db = Inr ((), db')"
  shows "queue_ok db'"
proof (cases "resps = []")
  case True
  with assms show ?thesis by (simp add: finalize_provider_result_responses_def)
next
  case False
  obtain hits where db': "db' = db\<lparr>db_operations := map (\<lambda>x. case map_of hits (op_uuid x) of None \<Rightarrow> x
      | Some (status, h) \<Rightarrow> acknowledge_row now status h x) (db_operations db)\<rparr>"
    using assms(2) False
    by (auto simp: finalize_provider_result_responses_def bindE_eq_Inr split: if_splits)
  show ?thesis
  proof (rule queue_ok_rows [OF assms(1)])
    show "same_row x (case map_of hits (op_uuid x) of None \<Rightarrow> x | Some (status, h) \<Rightarrow> acknowledge_row now status h x) \<and>
        row_ok db' (case map_of hits (op_uuid x) of None \<Rightarrow> x | Some (status, h) \<Rightarrow> acknowledge_row now status h x)"
      if "x \<in> set (db_operations db)" for x
      using queue_okD(2) [OF assms(1) that] quiet_row_ok [OF acknowledge_row_quiet]
      by (auto simp: db' split: option.splits)
    show "lane_ok db' l" for l
      using queue_okD(3) [OF assms(1), of l] lane_ok_tables [of db' db l] by (simp add: db')
  qed (simp_all add: db')
qed

section \<open>Transactions that move a row\<close>

lemma row_ok_live:
  assumes "row_ok db x" "same_row x y" "\<not> terminal (op_state y)"
    "op_auto_resend_count y = op_auto_resend_count x \<or> op_auto_resend_count y \<in> {0, 1}" "op_record y = op_record x" "op_attempt x = 1 \<longrightarrow> position_ok db y"
  shows "row_ok db y"
proof -
  note eqs = assms(2) [unfolded same_row_def] same_row_lane [OF assms(2)]
  have "entry_ok db y = entry_ok db x" by (simp add: entry_ok_def eqs cong: option.case_cong)
  moreover have "outcome_known db x \<Longrightarrow> outcome_known db y"
    using assms(3) by (simp add: outcome_known_def eqs split: option.splits)
  moreover have "identity_agrees x (op_record x) \<Longrightarrow> identity_agrees y (op_record y)"
    using assms(5) by (simp add: identity_agrees_def eqs)
  ultimately show ?thesis using assms(1,4,6) by (auto simp: row_ok_def eqs)
qed

lemma lane_head_position: "lane_head db x \<Longrightarrow> op_lane_sequence x = lane_last db (op_lane x) + 1"
  by (simp add: lane_head_def lane_last_def)

lemma same_uuid_row:
  "keys_ok ops \<Longrightarrow> x \<in> set ops \<Longrightarrow> y \<in> set ops \<Longrightarrow> op_uuid x = op_uuid y \<Longrightarrow> x = y"
  by (auto simp: keys_ok_def distinct_map inj_on_def)

lemma take_lease_ok:
  assumes "queue_ok db" "x \<in> set (db_operations db)" "op_attempt x = 1 \<longrightarrow> lane_head db x"
  shows "queue_ok (update_operations (\<lambda>y. op_uuid y = op_uuid x) (take_lease now worker secs) db)"
proof (rule queue_ok_update [OF assms(1)])
  fix y
  assume y: "y \<in> set (db_operations db)" "op_uuid y = op_uuid x" and ok: "row_ok db y"
  then have "y = x" using same_uuid_row [OF queue_okD(1) [OF assms(1)]] assms(2) by blast
  then have "op_attempt y = 1 \<longrightarrow> position_ok db (take_lease now worker secs y)"
    using assms(3) lane_head_position [of db x]
    by (auto simp: position_ok_def take_lease_def op_lane_def)
  then show "same_row y (take_lease now worker secs y) \<and> row_ok db (take_lease now worker secs y)"
    by (auto intro!: row_ok_live [OF ok] simp: take_lease_def same_row_def terminal_def)
qed

lemma queue_ok_other_tables [simp]:
  "queue_ok (db\<lparr>db_accounts := a\<rparr>) = queue_ok db" "queue_ok (db\<lparr>db_desired := d\<rparr>) = queue_ok db"
  "queue_ok (db\<lparr>db_mappings := m\<rparr>) = queue_ok db" "queue_ok (db\<lparr>db_aliases := m\<rparr>) = queue_ok db"
  "queue_ok (db\<lparr>db_cursors := c\<rparr>) = queue_ok db" "queue_ok (db\<lparr>db_backfills := b\<rparr>) = queue_ok db"
  "queue_ok (db\<lparr>db_catalog := vc\<rparr>) = queue_ok db"
  "queue_ok (db\<lparr>db_events := ve\<rparr>) = queue_ok db"
  "queue_ok (db\<lparr>db_control_cursor := vt\<rparr>) = queue_ok db"
  "queue_ok (db\<lparr>db_health := h\<rparr>) = queue_ok db"
  by (simp_all add: queue_ok_def)

lemma claim_terminal_ok:
  assumes "queue_ok db" "claim_terminal now locked worker secs db = (r, db')"
  shows "queue_ok db'"
  using assms
  by (auto simp: claim_terminal_def terminal_candidate_def split: option.splits
      dest!: first_by_filterD intro!: take_lease_ok [OF assms(1)])

lemma claim_ok:
  assumes "queue_ok db" "claim now locked worker secs db = (r, db')"
  shows "queue_ok db'"
  using assms
  by (auto simp: claim_def claim_candidate_def touch_account_def split: option.splits
      dest!: first_by_filterD intro!: take_lease_ok [OF assms(1)])

lemma reap_ok: "queue_ok db \<Longrightarrow> queue_ok (snd (reap_expired_running now db))"
proof -
  assume ok: "queue_ok db"
  have "queue_ok (update_operations (lease_lapsed now) (reap_row now) db)"
  proof (rule queue_ok_update [OF ok])
    fix x
    assume x: "lease_lapsed now x" and rok: "row_ok db x"
    then have "op_attempt x = 1 \<longrightarrow> position_ok db (reap_row now x)"
      by (auto simp: row_ok_def position_ok_def reap_row_def lease_lapsed_def op_lane_def terminal_def split: if_splits)
    then show "same_row x (reap_row now x) \<and> row_ok db (reap_row now x)"
      by (auto intro!: row_ok_live [OF rok] simp: reap_row_def same_row_def terminal_def)
  qed
  then show ?thesis by (simp add: reap_expired_running_def)
qed

text \<open>What a worker knows of the row it holds: the record it was handed is the row's.\<close>

definition holds :: "queue_db \<Rightarrow> queued_operation \<Rightarrow> op_state set \<Rightarrow> bool" where
  "holds db qop sts =
     (\<exists>x \<in> set (db_operations db). op_uuid x = qo_uuid qop \<and> op_state x \<in> sts \<and> identity_agrees x (qo_record qop))"

lemma holds_row:
  assumes "queue_ok db" "holds db qop sts" "y \<in> set (db_operations db)" "op_uuid y = qo_uuid qop"
  shows "op_state y \<in> sts" "identity_agrees y (qo_record qop)" "row_ok db y"
proof -
  obtain x where x: "x \<in> set (db_operations db)" "op_uuid x = qo_uuid qop" "op_state x \<in> sts" "identity_agrees x (qo_record qop)"
    using assms(2) by (auto simp: holds_def)
  have "y = x" using same_uuid_row [OF queue_okD(1) [OF assms(1)]] x assms(3,4) by metis
  with x show "op_state y \<in> sts" "identity_agrees y (qo_record qop)" by simp_all
  show "row_ok db y" by (rule queue_okD(2) [OF assms(1,3)])
qed

text \<open>A live row may go back to waiting, or to uncertain when it was in flight.\<close>

lemma row_ok_wait:
  assumes "row_ok db x" "same_row x y" "\<not> terminal (op_state x)" "op_record y = op_record x"
    "op_auto_resend_count y = op_auto_resend_count x \<or> op_auto_resend_count y \<in> {0, 1}"
    "op_state y = Pending \<or> op_state x \<noteq> Pending \<and> op_state y = Uncertain"
  shows "row_ok db y"
proof (rule row_ok_live [OF assms(1,2)])
  note eqs = assms(2) [unfolded same_row_def] same_row_lane [OF assms(2)]
  show "op_attempt x = 1 \<longrightarrow> position_ok db y"
    using assms(1,3,6) by (auto simp: row_ok_def position_ok_def eqs terminal_def split: if_splits)
  show "\<not> terminal (op_state y)" using assms(6) by (auto simp: terminal_def)
qed (fact assms)+

lemma retry_ok:
  assumes "queue_ok db" "holds db qop {Running, Uncertain}"
  shows "queue_ok (retry now qop at code db)"
  unfolding retry_def
proof (rule queue_ok_update [OF assms(1)], intro conjI)
  fix x
  assume x: "x \<in> set (db_operations db)" "op_uuid x = qo_uuid qop" and rok: "row_ok db x"
  show same: "same_row x (retry_row now at code x)" by (simp add: same_row_def retry_row_def)
  show "row_ok db (retry_row now at code x)"
    by (rule row_ok_wait [OF rok same]) (use holds_row(1) [OF assms x] in \<open>auto simp: retry_row_def terminal_def\<close>)
qed

lemma mark_uncertain_ok:
  assumes "queue_ok db" "holds db qop {Running, Uncertain}"
  shows "queue_ok (mark_uncertain now qop code db)"
  unfolding mark_uncertain_def
proof (rule queue_ok_update [OF assms(1)], intro conjI)
  fix x
  assume x: "x \<in> set (db_operations db)" "op_uuid x = qo_uuid qop" and rok: "row_ok db x"
  show same: "same_row x (uncertain_row now code x)" by (simp add: same_row_def uncertain_row_def)
  show "row_ok db (uncertain_row now code x)"
    by (rule row_ok_wait [OF rok same]) (use holds_row(1) [OF assms x] in \<open>auto simp: uncertain_row_def terminal_def\<close>)
qed

lemma schedule_single_resend_ok:
  assumes "queue_ok db"
  shows "queue_ok (schedule_single_resend now qop ev db)"
  unfolding schedule_single_resend_def
proof (rule queue_ok_update [OF assms], intro conjI)
  fix x
  assume x: "op_uuid x = qo_uuid qop \<and> op_state x = Uncertain \<and> op_auto_resend_count x = 0" and rok: "row_ok db x"
  show same: "same_row x (resend_row now ev x)" by (simp add: same_row_def resend_row_def)
  show "row_ok db (resend_row now ev x)"
    by (rule row_ok_wait [OF rok same]) (use x in \<open>auto simp: resend_row_def terminal_def\<close>)
qed

section \<open>Outcomes\<close>

text \<open>Recording an outcome keeps what the idempotency table knows of every operation.\<close>

lemma update_idempotency_simps [simp]:
  "db_operations (update_idempotency u f db) = db_operations db"
  "db_producers (update_idempotency u f db) = db_producers db"
  "db_lanes (update_idempotency u f db) = db_lanes db"
  "db_counters (update_idempotency u f db) = db_counters db"
  "db_mappings (update_idempotency u f db) = db_mappings db"
  "db_aliases (update_idempotency u f db) = db_aliases db"
  "db_idempotency (update_idempotency u f db) v =
     (if v = u then map_option f (db_idempotency db u) else db_idempotency db v)"
  by (simp_all add: update_idempotency_def split: option.splits)

lemma outcome_set [simp]:
  "idem_outcome (manual_idempotency result p) \<noteq> None"
  "idem_outcome (outcome_idempotency outcome result p) \<noteq> None"
  by (simp_all add: manual_idempotency_def outcome_idempotency_def)

lemma lane_ok_idempotency [simp]: "lane_ok (update_idempotency u f db) l = lane_ok db l"
  by (simp add: lane_ok_def lane_ops_def)

lemma row_ok_idempotency:
  assumes "row_ok db x" "\<And>p. idem_outcome p \<noteq> None \<Longrightarrow> idem_outcome (f p) \<noteq> None"
  shows "row_ok (update_idempotency u f db) x"
  using assms
  by (auto simp: row_ok_def entry_ok_def position_ok_def lane_last_def outcome_known_def split: option.splits)

lemma row_ok_known: "row_ok db x \<Longrightarrow> db_idempotency db (op_operation_uuid x) \<noteq> None"
  by (auto simp: row_ok_def outcome_known_def split: option.splits)

lemma row_ok_closed:
  assumes "row_ok old x" "db_producers db = db_producers old" "same_row x y" "op_record y = op_record x"
    "op_auto_resend_count y = op_auto_resend_count x" "op_attempt x = 1 \<longrightarrow> position_ok db y"
    "\<exists>p. db_idempotency db (op_operation_uuid x) = Some p \<and> idem_outcome p \<noteq> None"
  shows "row_ok db y"
proof -
  note eqs = assms(3) [unfolded same_row_def] same_row_lane [OF assms(3)]
  have "entry_ok db y = entry_ok old x" by (simp add: entry_ok_def eqs assms(2) cong: option.case_cong)
  moreover have "outcome_known db y" using assms(7) by (auto simp: outcome_known_def eqs)
  ultimately show ?thesis using assms(1,4,5,6) by (auto simp: row_ok_def identity_agrees_def eqs)
qed

lemma manual_reconciliation_ok:
  assumes ok: "queue_ok db" and held: "holds db qop sts"
  shows "queue_ok (require_operation_manual_reconciliation uuid5 now qop code ev db)"
proof -
  let ?res = "manual_result uuid5 now qop code ev"
  define p :: "op_row \<Rightarrow> bool" where "p x \<longleftrightarrow> op_uuid x = qo_uuid qop \<and> op_state x = Uncertain" for x
  define db1 where "db1 = update_operations p (manual_row now code ev ?res) db"
  define db2 where "db2 = update_idempotency (rec_operation_uuid (qo_record qop)) (manual_idempotency ?res) db1"
  have "queue_ok db2"
  proof (rule queue_ok_rows [OF ok, of _ "\<lambda>x. if p x then manual_row now code ev ?res x else x"])
    fix x
    assume x: "x \<in> set (db_operations db)"
    have "row_ok db1 x" using queue_okD(2) [OF ok x] by (simp add: db1_def update_operations_def)
    then have keep: "row_ok db2 x"
      unfolding db2_def by (rule row_ok_idempotency) (rule outcome_set)
    have same: "same_row x (manual_row now code ev ?res x)" by (simp add: same_row_def manual_row_def)
    have "row_ok db2 (manual_row now code ev ?res x)" if "p x"
    proof (rule row_ok_closed [OF keep refl same])
      have "rec_operation_uuid (qo_record qop) = op_operation_uuid x"
        using holds_row(2) [OF ok held x] that by (simp add: p_def identity_agrees_def)
      moreover have "db_idempotency db (op_operation_uuid x) \<noteq> None"
        by (rule row_ok_known [OF queue_okD(2) [OF ok x]])
      ultimately show "\<exists>q. db_idempotency db2 (op_operation_uuid x) = Some q \<and> idem_outcome q \<noteq> None"
        by (auto simp: db2_def db1_def simp del: not_None_eq)
      show "op_attempt x = 1 \<longrightarrow> position_ok db2 (manual_row now code ev ?res x)"
        using keep that by (auto simp: row_ok_def position_ok_def p_def manual_row_def op_lane_def terminal_def split: if_splits)
    qed (simp_all add: manual_row_def)
    with keep same show "same_row x (if p x then manual_row now code ev ?res x else x) \<and>
        row_ok db2 (if p x then manual_row now code ev ?res x else x)" by simp
  next
    show "lane_ok db2 l" for l using queue_okD(3) [OF ok, of l] by (simp add: db2_def db1_def update_operations_def)
  qed (auto simp: db2_def db1_def split: if_splits)
  then show ?thesis
    by (simp add: require_operation_manual_reconciliation_def Let_def db2_def db1_def p_def [abs_def])
qed

section \<open>Completion\<close>

definition closed_lanes :: "op_record \<Rightarrow> (lane \<rightharpoonup> lane_pos) \<Rightarrow> lane \<rightharpoonup> lane_pos" where
  "closed_lanes r lanes =
     (if rec_attempt r = 1
      then lanes(rec_lane r \<mapsto> \<lparr>lane_last_sequence = rec_sequence r, lane_last_operation = Some (rec_operation_uuid r)\<rparr>)
      else lanes)"

lemma find_operation_Some: "find_operation u db = Some x \<Longrightarrow> x \<in> set (db_operations db) \<and> op_uuid x = u"
  by (auto simp: find_operation_def find_Some_iff)

text \<open>What a completion that does not raise does to the tables.\<close>

lemma complete_cases:
  assumes "complete now qop result outcome db = Inr ((), db')"
  obtains (repeated) x where "find_operation (qo_uuid qop) db = Some x" "terminal (op_state x)" "db' = db"
  | (closed) x st where "find_operation (qo_uuid qop) db = Some x" "\<not> terminal (op_state x)"
      "outcome_state outcome = Some st"
      "db_operations db' = map (\<lambda>y. if op_uuid y = qo_uuid qop \<and> op_state y \<in> {Running, Uncertain}
         then close_row now st result y else y) (db_operations db)"
      "db_producers db' = db_producers db" "db_counters db' = db_counters db"
      "db_idempotency db' = db_idempotency (update_idempotency (rec_operation_uuid (qo_record qop))
         (outcome_idempotency outcome result) db)"
      "db_lanes db' = closed_lanes (qo_record qop) (db_lanes db)"
      "rec_attempt (qo_record qop) = 1 \<longrightarrow> lane_at (db_lanes db) (rec_lane (qo_record qop)) =
         \<lparr>lane_last_sequence = rec_sequence (qo_record qop) - 1, lane_last_operation = rec_predecessor (qo_record qop)\<rparr>"
proof -
  from assms obtain st x where st: "outcome_state outcome = Some st" and x: "find_operation (qo_uuid qop) db = Some x"
    by (auto simp: complete_def simp del: outcome_state.simps split: option.splits)
  show thesis
  proof (cases "terminal (op_state x)")
    case True
    with assms st x show thesis by (intro repeated) (auto simp: complete_def simp del: outcome_state.simps)
  next
    case False
    show thesis
      by (rule closed [OF x False st])
        (use assms st x False in \<open>auto simp: complete_def advance_lane_def closed_lanes_def bindE_eq_Inr
           Let_def fun_eq_iff simp del: outcome_state.simps split: if_splits intro!: lane_pos.equality\<close>)
  qed
qed

lemma lane_entry:
  assumes "lane_ok db l" "(u, e) \<in> set (db_producers db)" "pr_lane e = l"
  obtains i where "i < length (lane_ops db l)" "lane_ops db l ! i = (u, e)" "pr_sequence e = int i + 1"
    "pr_predecessor e = lane_last_operation (pos_of (lane_ops db l) i)"
proof -
  have "(u, e) \<in> set (lane_ops db l)" using assms(2,3) by (simp add: lane_ops_def)
  then obtain i where i: "i < length (lane_ops db l)" "lane_ops db l ! i = (u, e)" by (auto simp: in_set_conv_nth)
  with assms(1) have "pr_sequence e = int i + 1" "pr_predecessor e = lane_last_operation (pos_of (lane_ops db l) i)"
    unfolding lane_ok_def chain_def by force+
  with i show thesis by (rule that)
qed

lemma row_entry:
  "row_ok db x \<Longrightarrow> op_attempt x = 1 \<Longrightarrow> \<exists>e. (op_operation_uuid x, e) \<in> set (db_producers db) \<and>
     pr_lane e = op_lane x \<and> pr_sequence e = op_lane_sequence x \<and> pr_predecessor e = op_predecessor x"
  by (auto simp: row_ok_def entry_ok_def split: option.splits dest: map_of_SomeD)

lemma lane_at_upd [simp]: "lane_at (m(l \<mapsto> p)) k = (if k = l then p else lane_at m k)"
  by (simp add: lane_at_def)

text \<open>The lane moves from an operation to the next one of its chain.\<close>

lemma lane_ok_advance:
  assumes ok: "queue_ok db" and x: "x \<in> set (db_operations db)" "op_attempt x = 1"
    and pos: "lane_last db (op_lane x) = op_lane_sequence x - 1"
    and tables: "db_producers db' = db_producers db" "db_counters db' = db_counters db"
      "db_lanes db' = (db_lanes db)(op_lane x \<mapsto>
         \<lparr>lane_last_sequence = op_lane_sequence x, lane_last_operation = Some (op_operation_uuid x)\<rparr>)"
  shows "lane_ok db' l"
proof (cases "l = op_lane x")
  case False
  with queue_okD(3) [OF ok, of l] tables show ?thesis by (simp add: lane_ok_def lane_ops_def)
next
  case True
  obtain e where e: "(op_operation_uuid x, e) \<in> set (db_producers db)" "pr_lane e = l" "pr_sequence e = op_lane_sequence x"
    using row_entry [OF queue_okD(2) [OF ok x(1)] x(2)] True by blast
  obtain i where i: "i < length (lane_ops db l)" "lane_ops db l ! i = (op_operation_uuid x, e)" "pr_sequence e = int i + 1"
    using lane_entry [OF queue_okD(3) [OF ok] e(1,2)] by blast
  have "pos_of (lane_ops db l) (Suc i) =
      \<lparr>lane_last_sequence = op_lane_sequence x, lane_last_operation = Some (op_operation_uuid x)\<rparr>"
    using i e(3) by (simp add: pos_of_def)
  moreover have "lane_ops db' l = lane_ops db l" using tables(1) by (simp add: lane_ops_def)
  ultimately show ?thesis
    using queue_okD(3) [OF ok, of l] i(1) True tables(2,3) unfolding lane_ok_def
    by (auto intro!: exI [of _ "Suc i"])
qed

lemma same_lane_row:
  "keys_ok ops \<Longrightarrow> x \<in> set ops \<Longrightarrow> y \<in> set ops \<Longrightarrow> op_lane x = op_lane y \<Longrightarrow>
   op_lane_sequence x = op_lane_sequence y \<Longrightarrow> op_attempt x = op_attempt y \<Longrightarrow> x = y"
  by (auto simp: keys_ok_def distinct_map inj_on_def)

text \<open>Moving a lane past its finished head leaves every other row of it waiting.\<close>

lemma row_ok_advanced:
  assumes ok: "queue_ok db" and x: "x \<in> set (db_operations db)" "op_attempt x = 1"
    and pos: "lane_last db (op_lane x) = op_lane_sequence x - 1"
    and y: "y \<in> set (db_operations db)" "y \<noteq> x" and row: "row_ok db2 y"
    and tables: "db_producers db2 = db_producers db" "db_lanes db2 = db_lanes db"
  shows "row_ok (db2\<lparr>db_lanes := (db_lanes db)(op_lane x \<mapsto>
      \<lparr>lane_last_sequence = op_lane_sequence x, lane_last_operation = u\<rparr>)\<rparr>) y"
proof -
  have "op_lane_sequence y \<noteq> op_lane_sequence x" if "op_attempt y = 1" "op_lane y = op_lane x"
    using same_lane_row [OF queue_okD(1) [OF ok] x(1) y(1)] y(2) x(2) that by auto
  with row pos tables(2) show ?thesis
    by (auto simp: row_ok_def entry_ok_def outcome_known_def position_ok_def lane_last_def terminal_def split: if_splits)
qed

lemma complete_ok:
  assumes ok: "queue_ok db" and held: "holds db qop (- {Pending})"
    and run: "complete now qop result outcome db = Inr ((), db')"
  shows "queue_ok db'"
  using run
proof (cases rule: complete_cases)
  case repeated
  with ok show ?thesis by simp
next
  case (closed x st)
  have x: "x \<in> set (db_operations db)" "op_uuid x = qo_uuid qop"
    using find_operation_Some [OF closed(1)] by auto
  note rok = holds_row [OF ok held x]
  have inflight: "op_state x \<in> {Running, Uncertain}"
    using rok(1) closed(2) by (cases "op_state x") (auto simp: terminal_def)
  have id: "rec_operation_uuid (qo_record qop) = op_operation_uuid x" "rec_attempt (qo_record qop) = op_attempt x"
    "rec_lane (qo_record qop) = op_lane x" "rec_sequence (qo_record qop) = op_lane_sequence x"
    using rok(2) by (simp_all add: identity_agrees_def)
  define db2 where "db2 = update_idempotency (op_operation_uuid x) (outcome_idempotency outcome result) db"
  have hit: "op_uuid y = qo_uuid qop \<and> op_state y \<in> {Running, Uncertain} \<longleftrightarrow> y = x" if "y \<in> set (db_operations db)" for y
    using same_uuid_row [OF queue_okD(1) [OF ok] that x(1)] x(2) inflight by auto
  have pos: "lane_last db (op_lane x) = op_lane_sequence x - 1" if "op_attempt x = 1"
    using closed(9) that by (simp add: id lane_last_def)
  have rows': "row_ok db' z \<longleftrightarrow> row_ok (db2\<lparr>db_lanes := db_lanes db'\<rparr>) z" for z
    using closed(5,7) by (intro row_ok_tables) (simp_all add: db2_def id)
  have st: "terminal st" using closed(3) by (auto simp: terminal_def split: if_splits)
  show ?thesis
  proof (rule queue_ok_rows [OF ok, of _ "\<lambda>y. if y = x then close_row now st result y else y"])
    show "db_operations db' = map (\<lambda>y. if y = x then close_row now st result y else y) (db_operations db)"
      unfolding closed(4) using hit by (intro map_cong) auto
    fix y
    assume y: "y \<in> set (db_operations db)"
    have y2: "row_ok db2 y"
      unfolding db2_def by (rule row_ok_idempotency [OF queue_okD(2) [OF ok y]]) simp
    have same: "same_row x (close_row now st result x)" by (simp add: same_row_def close_row_def)
    show "same_row y (if y = x then close_row now st result y else y) \<and>
        row_ok db' (if y = x then close_row now st result y else y)"
    proof (cases "y = x")
      case True
      have "\<exists>p. db_idempotency db2 (op_operation_uuid x) = Some p \<and> idem_outcome p \<noteq> None"
        using row_ok_known [OF rok(3)] by (auto simp: db2_def simp del: not_None_eq)
      moreover have "row_ok db2 x" using y2 True by simp
      moreover have "position_ok (db2\<lparr>db_lanes := db_lanes db'\<rparr>) (close_row now st result x)" if "op_attempt x = 1"
        using st that closed(8) same_row_lane [OF same]
        by (simp add: position_ok_def lane_last_def closed_lanes_def id) (simp add: close_row_def)
      ultimately have "row_ok db' (close_row now st result x)"
        unfolding rows' by (intro row_ok_closed [OF _ _ same]) (auto simp: close_row_def)
      with True same show ?thesis by simp
    next
      case False
      have "row_ok db' y"
      proof (cases "op_attempt x = 1")
        case True
        from row_ok_advanced [OF ok x(1) this pos [OF this] y False y2] show ?thesis
          unfolding rows' using closed(8) True by (simp add: closed_lanes_def id db2_def)
      next
        case False
        then have "row_ok (db2\<lparr>db_lanes := db_lanes db'\<rparr>) y \<longleftrightarrow> row_ok db2 y"
          using closed(8) by (intro row_ok_tables) (simp_all add: closed_lanes_def id db2_def)
        with y2 show ?thesis unfolding rows' by simp
      qed
      with False show ?thesis by simp
    qed
  next
    show "lane_ok db' l" for l
    proof (cases "op_attempt x = 1")
      case True
      from lane_ok_advance [OF ok x(1) this pos [OF this] closed(5,6)] closed(8) True show ?thesis
        by (simp add: closed_lanes_def id)
    next
      case False
      with queue_okD(3) [OF ok, of l] closed(5,6,8) show ?thesis
        by (simp add: lane_ok_def lane_ops_def closed_lanes_def id)
    qed
  qed (use closed(5,7) in \<open>auto split: if_splits\<close>)
qed

section \<open>Enqueue\<close>

text \<open>
  What the Provider API and \<open>leased_operation_record\<close> promise of a record they pass to
  \<open>enqueue\<close>: an operation that has a lane position keeps its lane, the record carries that
  position or none, and a record identifier always names the same operation.
\<close>

definition well_leased :: "queue_db \<Rightarrow> op_record \<Rightarrow> bool" where
  "well_leased db r =
     ((case map_of (db_producers db) (rec_operation_uuid r) of
         None \<Rightarrow> rec_sequence r = 0
       | Some e \<Rightarrow> rec_lane r = pr_lane e \<and>
           (rec_sequence r = 0 \<or> rec_sequence r = pr_sequence e \<and> rec_predecessor r = pr_predecessor e)) \<and>
      (\<forall>x \<in> set (db_operations db). op_uuid x = rec_uuid r \<longrightarrow> op_operation_uuid x = rec_operation_uuid r))"

lemma allocate_known:
  assumes "allocate_producer_lane nfc sha256 r db = Inr (r', db1)" "well_leased db r"
    "map_of (db_producers db) (rec_operation_uuid r) = Some e"
  shows "rec_uuid r' = rec_uuid r" "rec_operation_uuid r' = rec_operation_uuid r" "rec_attempt r' = rec_attempt r"
    "rec_lane r' = pr_lane e" "rec_sequence r' = pr_sequence e" "rec_predecessor r' = pr_predecessor e"
    "lane_at (db_counters db1) = lane_at (db_counters db)" "\<exists>c. db1 = db\<lparr>db_counters := c\<rparr>"
  using assms
  by (auto simp: allocate_producer_lane_def well_leased_def rec_lane_def bindE_eq_Inr Let_def fun_eq_iff
      split: if_splits intro: exI [of _ "db_counters db"])

lemma allocate_new:
  assumes "allocate_producer_lane nfc sha256 r db = Inr (r', db1)" "well_leased db r"
    "map_of (db_producers db) (rec_operation_uuid r) = None"
  defines "c \<equiv> lane_at (db_counters db) (rec_lane r)"
  shows "rec_uuid r' = rec_uuid r" "rec_operation_uuid r' = rec_operation_uuid r" "rec_attempt r' = rec_attempt r"
    "rec_lane r' = rec_lane r" "rec_sequence r' = lane_last_sequence c + 1" "rec_predecessor r' = lane_last_operation c"
    "db1 = db\<lparr>db_producers := db_producers db @ [(rec_operation_uuid r,
        \<lparr>pr_lane = rec_lane r, pr_sequence = lane_last_sequence c + 1, pr_predecessor = lane_last_operation c\<rparr>)],
      db_counters := (db_counters db)(rec_lane r \<mapsto>
        \<lparr>lane_last_sequence = lane_last_sequence c + 1, lane_last_operation = Some (rec_operation_uuid r)\<rparr>)\<rparr>"
  using assms
  by (auto simp: allocate_producer_lane_def well_leased_def rec_lane_def bindE_eq_Inr Let_def split: if_splits)

lemma enqueue_cases:
  assumes "enqueue nfc sha256 now r priority db = Inr (b, db')"
  obtains (replayed) r' where "allocate_producer_lane nfc sha256 r db = Inr (r', db')" "rec_attempt r' = 1"
      "terminal_prior (db_idempotency db' (rec_operation_uuid r'))" "\<not> b"
  | (inserted) r' db1 a expires where "allocate_producer_lane nfc sha256 r db = Inr (r', db1)"
      "rec_attempt r' > 1 \<longrightarrow> retry_authorized (db_idempotency db1 (rec_operation_uuid r'))"
      "insert_operation (new_operation now r' a priority expires)
         (insert_idempotency (rec_operation_uuid r') (rec_sha256 r') db1) = Inr (b, db')"
proof -
  from assms obtain r' db1 where al: "allocate_producer_lane nfc sha256 r db = Inr (r', db1)"
    by (auto simp: enqueue_def bindE_eq_Inr split: if_splits)
  show thesis
  proof (cases "rec_attempt r' = 1 \<and> terminal_prior (db_idempotency db1 (rec_operation_uuid r'))")
    case True
    then have "db' = db1" "\<not> b" using assms al by (auto simp: enqueue_def Let_def split: if_splits)
    with True al show thesis by (intro replayed [of r']) auto
  next
    case False
    then have "rec_attempt r' > 1 \<longrightarrow> retry_authorized (db_idempotency db1 (rec_operation_uuid r'))"
      using assms al by (auto simp: enqueue_def Let_def split: if_splits)
    moreover from False obtain a expires where "insert_operation (new_operation now r' a priority expires)
         (insert_idempotency (rec_operation_uuid r') (rec_sha256 r') db1) = Inr (b, db')"
      using assms al unfolding enqueue_def Let_def
      by (auto simp: bindE_eq_Inr simp del: not_None_eq split: if_split_asm option.split_asm)
    ultimately show thesis by (rule inserted [OF al])
  qed
qed

lemma new_operation_simps [simp]:
  "op_uuid (new_operation now r a p e) = rec_uuid r" "op_operation_uuid (new_operation now r a p e) = rec_operation_uuid r"
  "op_attempt (new_operation now r a p e) = rec_attempt r" "op_lane (new_operation now r a p e) = rec_lane r"
  "op_lane_sequence (new_operation now r a p e) = rec_sequence r" "op_predecessor (new_operation now r a p e) = rec_predecessor r"
  "op_state (new_operation now r a p e) = Pending" "op_record (new_operation now r a p e) = r"
  "op_auto_resend_count (new_operation now r a p e) = 0"
  by (simp_all add: new_operation_def op_lane_def rec_lane_def)

lemma insert_operation_cases:
  assumes "insert_operation row db = Inr (b, db')"
  obtains (conflict) x where "x \<in> set (db_operations db)" "op_uuid x = op_uuid row" "db' = db" "\<not> b"
  | (appended) "db' = db\<lparr>db_operations := db_operations db @ [row]\<rparr>" "op_attempt row > 0" "b"
      "\<And>x. x \<in> set (db_operations db) \<Longrightarrow> op_uuid x \<noteq> op_uuid row"
      "\<And>x. x \<in> set (db_operations db) \<Longrightarrow> op_attempt x = op_attempt row \<Longrightarrow> op_operation_uuid x \<noteq> op_operation_uuid row \<and>
         \<not> (op_lane x = op_lane row \<and> op_lane_sequence x = op_lane_sequence row)"
  using assms by (fastforce simp: insert_operation_def split: if_splits)

lemma keys_ok_snoc:
  assumes "keys_ok ops" "\<And>x. x \<in> set ops \<Longrightarrow> op_uuid x \<noteq> op_uuid row"
    "\<And>x. x \<in> set ops \<Longrightarrow> op_attempt x = op_attempt row \<Longrightarrow> op_operation_uuid x \<noteq> op_operation_uuid row \<and>
       \<not> (op_lane x = op_lane row \<and> op_lane_sequence x = op_lane_sequence row)"
  shows "keys_ok (ops @ [row])"
proof -
  have "op_uuid row \<notin> op_uuid ` set ops" using assms(2) by force
  moreover have "(op_operation_uuid row, op_attempt row) \<notin> (\<lambda>x. (op_operation_uuid x, op_attempt x)) ` set ops"
    using assms(3) by force
  moreover have "(op_lane row, op_lane_sequence row, op_attempt row) \<notin> (\<lambda>x. (op_lane x, op_lane_sequence x, op_attempt x)) ` set ops"
    using assms(3) by force
  ultimately show ?thesis using assms(1) by (simp add: keys_ok_def)
qed

lemma queue_ok_counters:
  assumes ok: "queue_ok db" and "lane_at c = lane_at (db_counters db)"
  shows "queue_ok (db\<lparr>db_counters := c\<rparr>)"
proof (rule queue_ok_rows [OF ok, of _ "\<lambda>x. x"])
  show "same_row x x \<and> row_ok (db\<lparr>db_counters := c\<rparr>) x" if "x \<in> set (db_operations db)" for x
    using queue_okD(2) [OF ok that] row_ok_tables [of "db\<lparr>db_counters := c\<rparr>" db x] by simp
  show "lane_ok (db\<lparr>db_counters := c\<rparr>) l" for l
    using queue_okD(3) [OF ok, of l] assms(2) by (simp add: lane_ok_def lane_ops_def)
qed simp_all

text \<open>An operation the producer table already has: at most a further attempt is added.\<close>

lemma enqueue_known_ok:
  assumes ok: "queue_ok db" and leased: "well_leased db r"
    and e: "map_of (db_producers db) (rec_operation_uuid r) = Some e"
    and run: "enqueue nfc sha256 now r priority db = Inr (b, db')"
  shows "queue_ok db'"
proof -
  have db1: "queue_ok db1" if "lane_at (db_counters db1) = lane_at (db_counters db)" "\<exists>c. db1 = db\<lparr>db_counters := c\<rparr>" for db1
    using queue_ok_counters [OF ok] that by auto
  obtain x0 where x0: "x0 \<in> set (db_operations db)" "op_operation_uuid x0 = rec_operation_uuid r" "op_attempt x0 = 1"
    using queue_okD(6) [OF ok] e by (metis fst_conv image_eqI map_of_SomeD)
  have known: "db_idempotency db (rec_operation_uuid r) \<noteq> None"
    using row_ok_known [OF queue_okD(2) [OF ok x0(1)]] x0(2) by simp
  from run show ?thesis
  proof (cases rule: enqueue_cases)
    case (replayed r')
    then show ?thesis using db1 allocate_known(7,8) [OF replayed(1) leased e] by blast
  next
    case (inserted r' db1 a expires)
    note al = allocate_known [OF inserted(1) leased e]
    have ok1: "queue_ok db1" using db1 al(7,8) by blast
    have "insert_idempotency (rec_operation_uuid r') (rec_sha256 r') db1 = db1"
      using known al(2,8) by (auto simp: insert_idempotency_def)
    with inserted(3) have "insert_operation (new_operation now r' a priority expires) db1 = Inr (b, db')" by simp
    then show ?thesis
    proof (cases rule: insert_operation_cases)
      case conflict
      with ok1 show ?thesis by simp
    next
      case appended
      let ?row = "new_operation now r' a priority expires"
      have x1: "x0 \<in> set (db_operations db1)" using x0(1) al(8) by auto
      have attempt: "rec_attempt r' \<noteq> 1" using appended(5) [OF x1] x0(2,3) al(2) by auto
      have "row_ok db1 ?row"
        using attempt known al(2,8) by (auto simp: row_ok_def identity_agrees_def outcome_known_def terminal_def)
      moreover have "keys_ok (db_operations db1 @ [?row])"
        by (rule keys_ok_snoc [OF queue_okD(1) [OF ok1] appended(4,5)])
      ultimately show ?thesis
        using ok1 unfolding appended(1) queue_ok_def by auto
    qed
  qed
qed

text \<open>A new operation: its lane grows by one, and its first attempt waits at the end.\<close>

lemma lane_ok_append:
  assumes ok: "lane_ok db l" and e: "pr_lane e = l'"
    "l = l' \<Longrightarrow> pr_sequence e = lane_last_sequence (lane_at (db_counters db) l) + 1"
    "l = l' \<Longrightarrow> pr_predecessor e = lane_last_operation (lane_at (db_counters db) l)"
    and tables: "db_producers db' = db_producers db @ [(u, e)]" "db_lanes db' = db_lanes db"
      "db_counters db' = (db_counters db)(l' \<mapsto> \<lparr>lane_last_sequence = pr_sequence e, lane_last_operation = Some u\<rparr>)"
  shows "lane_ok db' l"
proof (cases "l = l'")
  case False
  with ok e(1) tables show ?thesis by (simp add: lane_ok_def lane_ops_def)
next
  case True
  let ?L = "lane_ops db l"
  have L': "lane_ops db' l = ?L @ [(u, e)]" using tables(1) e(1) True by (simp add: lane_ops_def)
  have c: "lane_at (db_counters db) l = pos_of ?L (length ?L)" using ok by (simp add: lane_ok_def)
  have seq: "pr_sequence e = int (length ?L) + 1" "pr_predecessor e = lane_last_operation (pos_of ?L (length ?L))"
    using e(2,3) [OF True] unfolding c by (simp_all add: pos_of_def)
  have "chain (?L @ [(u, e)])" using ok seq by (intro chain_snoc) (simp_all add: lane_ok_def)
  moreover have "\<exists>n \<le> length (?L @ [(u, e)]). lane_at (db_lanes db') l = pos_of (?L @ [(u, e)]) n"
    using ok tables(2) pos_of_append [of _ ?L "[(u, e)]"] unfolding lane_ok_def by (metis le_SucI length_append_singleton)
  ultimately show ?thesis
    unfolding lane_ok_def L' using tables(3) True seq(1) by (simp add: pos_of_snoc)
qed

lemma lane_last_le: "lane_ok db l \<Longrightarrow> lane_last db l \<le> lane_last_sequence (lane_at (db_counters db) l)"
  by (auto simp: lane_ok_def lane_last_def pos_of_def)

lemma enqueue_new_ok:
  assumes ok: "queue_ok db" and leased: "well_leased db r"
    and e: "map_of (db_producers db) (rec_operation_uuid r) = None"
    and run: "enqueue nfc sha256 now r priority db = Inr (b, db')"
  shows "queue_ok db'"
proof -
  let ?u = "rec_operation_uuid r"
  have fresh: "?u \<notin> fst ` set (db_producers db)" using e by (simp add: map_of_eq_None_iff)
  then have noidem: "db_idempotency db ?u = None" using queue_okD(5) [OF ok] by blast
  have norow: "op_operation_uuid x \<noteq> ?u" if "x \<in> set (db_operations db)" for x
    using row_ok_known [OF queue_okD(2) [OF ok that]] noidem by auto
  from run show ?thesis
  proof (cases rule: enqueue_cases)
    case (replayed r')
    with noidem allocate_new(2,7) [OF replayed(1) leased e] show ?thesis by (simp add: terminal_prior_def)
  next
    case (inserted r' db1 a expires)
    note al = allocate_new [OF inserted(1) leased e]
    let ?row = "new_operation now r' a priority expires"
    let ?c = "lane_at (db_counters db) (rec_lane r)"
    let ?e = "\<lparr>pr_lane = rec_lane r, pr_sequence = lane_last_sequence ?c + 1, pr_predecessor = lane_last_operation ?c\<rparr>"
    let ?db2 = "db1\<lparr>db_idempotency := (db_idempotency db)(?u \<mapsto> new_idempotency (rec_sha256 r'))\<rparr>"
    have "insert_idempotency (rec_operation_uuid r') (rec_sha256 r') db1 = ?db2"
      using noidem al(2,7) by (simp add: insert_idempotency_def)
    with inserted(3) have "insert_operation ?row ?db2 = Inr (b, db')" by simp
    then show ?thesis
    proof (cases rule: insert_operation_cases)
      case (conflict x)
      then have "x \<in> set (db_operations db)" "op_uuid x = rec_uuid r" using al(1,7) by auto
      with leased norow show ?thesis by (auto simp: well_leased_def)
    next
      case appended
      have attempt: "rec_attempt r' = 1"
        using inserted(2) noidem al(2,7) appended(2) by (auto simp: retry_authorized_def)
      have ops: "db_operations ?db2 = db_operations db" using al(7) by simp
      have rows: "row_ok db' x" if "x \<in> set (db_operations db)" for x
        using queue_okD(2) [OF ok that] norow [OF that] al(7) unfolding appended(1)
        by (auto simp: row_ok_def entry_ok_def outcome_known_def position_ok_def lane_last_def split: option.splits)
      have lanes: "lane_ok db' l" for l
        by (rule lane_ok_append [OF queue_okD(3) [OF ok, of l], where e = ?e and l' = "rec_lane r" and u = ?u])
          (use al(7) in \<open>simp_all add: appended(1)\<close>)
      have "row_ok db' ?row"
        using attempt al lane_last_le [OF queue_okD(3) [OF ok, of "rec_lane r"]] e unfolding appended(1)
        by (simp add: row_ok_def identity_agrees_def entry_ok_def outcome_known_def position_ok_def lane_last_def terminal_def map_add_def)
      moreover have "keys_ok (db_operations db @ [?row])"
        using keys_ok_snoc [OF queue_okD(1) [OF ok]] appended(4,5) unfolding ops by blast
      moreover have "distinct (map fst (db_producers db'))"
        using queue_okD(4) [OF ok] fresh al(7) by (simp add: appended(1))
      ultimately show ?thesis
        using queue_okD(5,6) [OF ok] rows lanes attempt al(2,7) unfolding queue_ok_def appended(1)
        by (auto split: if_splits)
    qed
  qed
qed

lemma enqueue_ok:
  "queue_ok db \<Longrightarrow> well_leased db r \<Longrightarrow> enqueue nfc sha256 now r priority db = Inr (b, db') \<Longrightarrow> queue_ok db'"
  by (cases "map_of (db_producers db) (rec_operation_uuid r)") (auto intro: enqueue_known_ok enqueue_new_ok)

end
