(* ===== verification/Queue_Protocol.thy ===== *)
theory Queue_Protocol
  imports Queue_Invariants
begin

text \<open>
  The queue under concurrency. The store's transactions interleave: one scheduler worker
  (the live lane runs a single one) that holds at most one operation, and the threads that
  lease operations, deliver results, watch the event queues for local echoes and apply
  control-plane changes. The worker may die at any moment. A local echo looks its operation
  up and completes it in one step here; the theorem on the echo race below shows what the
  two separate transactions of the code allow.
\<close>

section \<open>Steps\<close>

datatype hand = Idle | Sending queued_operation | Checking queued_operation

type_synonym queue_system = "queue_db \<times> hand"

text \<open>
  Transactions of other components that leave the queue's own tables alone: they change
  desired state, the account breaker, event cursors and mappings.
\<close>

definition same_queue :: "queue_db \<Rightarrow> queue_db \<Rightarrow> bool" where
  "same_queue db db' =
     (db_operations db' = db_operations db \<and> db_idempotency db' = db_idempotency db \<and>
      db_lanes db' = db_lanes db \<and> db_counters db' = db_counters db \<and> db_producers db' = db_producers db)"

inductive qstep ::
  "(string \<Rightarrow> string) \<Rightarrow> (string \<Rightarrow> string) \<Rightarrow> (uuid \<Rightarrow> string \<Rightarrow> uuid) \<Rightarrow> queue_system \<Rightarrow> queue_system \<Rightarrow> bool"
  for nfc sha256 uuid5 where
  enqueue: "well_leased db r \<Longrightarrow> enqueue nfc sha256 now r priority db = Inr (b, db') \<Longrightarrow>
    qstep nfc sha256 uuid5 (db, h) (db', h)"
| renew: "bind_provider_lease nfc sha256 now r db = Inr (b, db') \<Longrightarrow> qstep nfc sha256 uuid5 (db, h) (db', h)"
| reap: "qstep nfc sha256 uuid5 (db, Idle) (snd (reap_expired_running now db), Idle)"
| claim_terminal: "claim_terminal now locked worker secs db = (Some (qop, reason), db') \<Longrightarrow>
    qstep nfc sha256 uuid5 (db, Idle) (db', Sending qop)"
| claim: "claim now locked worker secs db = (Some qop, db') \<Longrightarrow> qstep nfc sha256 uuid5 (db, Idle) (db', Sending qop)"
| attempt: "qstep nfc sha256 uuid5 (db, Sending qop) (record_provider_attempt now qop q l c db, Sending qop)"
| complete_send: "complete now qop result outcome db = Inr ((), db') \<Longrightarrow>
    qstep nfc sha256 uuid5 (db, Sending qop) (db', Idle)"
| retry: "qstep nfc sha256 uuid5 (db, Sending qop) (retry now qop at code db, Idle)"
| uncertain: "qstep nfc sha256 uuid5 (db, Sending qop) (mark_uncertain now qop code db, Idle)"
| claim_uncertain: "claim_uncertain now locked worker db = (Some qop, db') \<Longrightarrow>
    qstep nfc sha256 uuid5 (db, Idle) (db', Checking qop)"
| complete_check: "complete now qop result outcome db = Inr ((), db') \<Longrightarrow>
    qstep nfc sha256 uuid5 (db, Checking qop) (db', Idle)"
| deferred: "qstep nfc sha256 uuid5 (db, Checking qop) (defer_uncertain now qop at code db, Idle)"
| check: "qstep nfc sha256 uuid5 (db, Checking qop) (schedule_reconciliation_check now qop after ev db, Idle)"
| resend: "qstep nfc sha256 uuid5 (db, Checking qop) (schedule_single_resend now qop ev db, Idle)"
| manual: "qstep nfc sha256 uuid5 (db, Checking qop)
    (require_operation_manual_reconciliation uuid5 now qop code ev db, Idle)"
| crash: "qstep nfc sha256 uuid5 (db, h) (db, Idle)"
| echo: "uncertain_by_local_id account q l db = Some qop \<Longrightarrow> complete now qop result outcome db = Inr ((), db') \<Longrightarrow>
    qstep nfc sha256 uuid5 (db, h) (db', h)"
| manual_account: "qstep nfc sha256 uuid5 (db, h) (require_manual_reconciliation now account code db, h)"
| result_sent: "qstep nfc sha256 uuid5 (db, h) (mark_result_sent now u db, h)"
| acknowledged: "finalize_provider_result_responses nfc sha256 now resps db = Inr ((), db') \<Longrightarrow>
    qstep nfc sha256 uuid5 (db, h) (db', h)"
| control: "same_queue db db' \<Longrightarrow> qstep nfc sha256 uuid5 (db, h) (db', h)"

text \<open>The queue starts empty; mappings and control state are arbitrary.\<close>

definition queue_init :: "queue_system \<Rightarrow> bool" where
  "queue_init s =
     (snd s = Idle \<and> db_operations (fst s) = [] \<and> db_idempotency (fst s) = Map.empty \<and>
      db_lanes (fst s) = Map.empty \<and> db_counters (fst s) = Map.empty \<and> db_producers (fst s) = [])"

definition hand_ok :: "queue_db \<Rightarrow> hand \<Rightarrow> bool" where
  "hand_ok db h =
     (case h of Idle \<Rightarrow> True | Sending qop \<Rightarrow> holds db qop {Running}
      | Checking qop \<Rightarrow> holds db qop (- {Pending, Running}))"

definition system_ok :: "queue_system \<Rightarrow> bool" where
  "system_ok s = (queue_ok (fst s) \<and> hand_ok (fst s) (snd s))"

lemma same_queue_ok: "same_queue db db' \<Longrightarrow> queue_ok db' = queue_ok db"
proof -
  assume "same_queue db db'"
  then have "db' = db\<lparr>db_desired := db_desired db', db_accounts := db_accounts db', db_mappings := db_mappings db',
      db_aliases := db_aliases db', db_cursors := db_cursors db', db_backfills := db_backfills db',
      db_health := db_health db', db_catalog := db_catalog db', db_events := db_events db',
      db_control_cursor := db_control_cursor db'\<rparr>"
    by (cases db; cases db') (simp add: same_queue_def)
  then show ?thesis by (metis queue_ok_other_tables)
qed

section \<open>How one transaction moves the rows\<close>

text \<open>
  Rows are never lost, keep their identity, and a finished row stays as it is; the number
  of automatic resends only grows.
\<close>

definition row_progress :: "op_row \<Rightarrow> op_row \<Rightarrow> bool" where
  "row_progress x y =
     (same_row x y \<and> (terminal (op_state x) \<longrightarrow> op_state y = op_state x) \<and>
      op_auto_resend_count x \<le> op_auto_resend_count y \<and> (op_manual_required x \<longrightarrow> op_manual_required y))"

lemma row_progress_refl [simp]: "row_progress x x"
  by (simp add: row_progress_def)

lemma same_row_trans: "same_row x y \<Longrightarrow> same_row y z \<Longrightarrow> same_row x z"
  by (simp add: same_row_def)

lemma row_progress_trans: "row_progress x y \<Longrightarrow> row_progress y z \<Longrightarrow> row_progress x z"
  by (auto simp: row_progress_def intro: same_row_trans)

definition rows_progress :: "queue_db \<Rightarrow> queue_db \<Rightarrow> bool" where
  "rows_progress db db' = (\<forall>x \<in> set (db_operations db). \<exists>y \<in> set (db_operations db'). row_progress x y)"

lemma rows_progress_refl: "rows_progress db db"
  by (auto simp: rows_progress_def intro!: bexI)

lemma rows_progress_trans: "rows_progress db db' \<Longrightarrow> rows_progress db' db'' \<Longrightarrow> rows_progress db db''"
  unfolding rows_progress_def by (meson row_progress_trans)

lemma rows_progress_map:
  "db_operations db' = map f (db_operations db) \<Longrightarrow> (\<And>x. x \<in> set (db_operations db) \<Longrightarrow> row_progress x (f x)) \<Longrightarrow>
   rows_progress db db'"
  by (auto simp: rows_progress_def)

lemma rows_progress_update:
  "(\<And>x. x \<in> set (db_operations db) \<Longrightarrow> p x \<Longrightarrow> row_progress x (f x)) \<Longrightarrow> rows_progress db (update_operations p f db)"
  by (rule rows_progress_map [of _ "\<lambda>x. if p x then f x else x"]) auto

text \<open>A held row is found again after a transaction that does not change its state.\<close>

lemma holds_map:
  assumes "holds db qop sts" "db_operations db' = map f (db_operations db) @ extra"
    "\<And>x. x \<in> set (db_operations db) \<Longrightarrow> same_row x (f x) \<and> (op_state x \<in> sts \<longrightarrow> op_state (f x) \<in> sts)"
  shows "holds db' qop sts"
proof -
  obtain x where x: "x \<in> set (db_operations db)" "op_uuid x = qo_uuid qop" "op_state x \<in> sts" "identity_agrees x (qo_record qop)"
    using assms(1) by (auto simp: holds_def)
  then have "f x \<in> set (db_operations db')" "same_row x (f x)" "op_state (f x) \<in> sts"
    using assms(2,3) by auto
  with x show ?thesis
    unfolding holds_def by (intro bexI [of _ "f x"]) (auto simp: same_row_def identity_agrees_def op_lane_def)
qed

section \<open>Transactions of the other threads\<close>

text \<open>
  They append rows and change existing ones, but the only state they change is that of an
  uncertain operation, which an echo may finish.
\<close>

definition env_ops :: "queue_db \<Rightarrow> queue_db \<Rightarrow> bool" where
  "env_ops db db' =
     (\<exists>f extra. db_operations db' = map f (db_operations db) @ extra \<and>
        (\<forall>x \<in> set (db_operations db). row_progress x (f x) \<and>
           (op_state (f x) = op_state x \<or> op_state x = Uncertain \<and> terminal (op_state (f x)))))"

lemma env_opsI:
  "db_operations db' = map f (db_operations db) @ extra \<Longrightarrow>
   (\<And>x. x \<in> set (db_operations db) \<Longrightarrow> row_progress x (f x) \<and>
      (op_state (f x) = op_state x \<or> op_state x = Uncertain \<and> terminal (op_state (f x)))) \<Longrightarrow> env_ops db db'"
  unfolding env_ops_def by blast

lemma env_rows_progress: "env_ops db db' \<Longrightarrow> rows_progress db db'"
  by (force simp: env_ops_def rows_progress_def)

lemma env_hand_ok:
  assumes "env_ops db db'" "hand_ok db h"
  shows "hand_ok db' h"
proof -
  obtain f extra where f: "db_operations db' = map f (db_operations db) @ extra"
    "\<And>x. x \<in> set (db_operations db) \<Longrightarrow> row_progress x (f x) \<and>
      (op_state (f x) = op_state x \<or> op_state x = Uncertain \<and> terminal (op_state (f x)))"
    using assms(1) unfolding env_ops_def by blast
  have keep: "holds db' qop sts" if "holds db qop sts" "Uncertain \<notin> sts \<or> (\<forall>st. terminal st \<longrightarrow> st \<in> sts)" for qop sts
    by (rule holds_map [OF that(1) f(1)]) (use f(2) that(2) in \<open>force simp: row_progress_def\<close>)
  show ?thesis
    using assms(2) by (auto simp: hand_ok_def terminal_def intro: keep split: hand.splits)
qed

lemma quiet_progress: "quiet f \<Longrightarrow> row_progress x (f x) \<and> op_state (f x) = op_state x"
  by (simp add: quiet_def row_progress_def)

lemma env_quiet: "quiet f \<Longrightarrow> env_ops db (update_operations p f db)"
  by (rule env_opsI [of _ "\<lambda>x. if p x then f x else x" _ "[]"]) (auto dest: quiet_progress)

lemma env_same_rows: "db_operations db' = db_operations db @ extra \<Longrightarrow> env_ops db db'"
  by (rule env_opsI [of _ "\<lambda>x. x"]) auto

lemma allocate_rows: "allocate_producer_lane nfc sha256 r db = Inr (r', db1) \<Longrightarrow>
    db_operations db1 = db_operations db \<and> db_lanes db1 = db_lanes db"
  by (auto simp: allocate_producer_lane_def bindE_eq_Inr Let_def split: if_splits option.splits)

lemma insert_idempotency_rows [simp]:
  "db_operations (insert_idempotency u h db) = db_operations db" "db_lanes (insert_idempotency u h db) = db_lanes db"
  by (simp_all add: insert_idempotency_def split: option.splits)

lemma enqueue_rows:
  assumes "enqueue nfc sha256 now r priority db = Inr (b, db')"
  shows "(\<exists>extra. db_operations db' = db_operations db @ extra) \<and> db_lanes db' = db_lanes db"
  using assms
proof (cases rule: enqueue_cases)
  case (inserted r' db1 a expires)
  show ?thesis
    using inserted(3) allocate_rows [OF inserted(1)] by (cases rule: insert_operation_cases) auto
qed (use allocate_rows in force)

lemma renew_rows:
  "bind_provider_lease nfc sha256 now r db = Inr (b, db') \<Longrightarrow> env_ops db db' \<and> db_lanes db' = db_lanes db"
  by (auto simp: bind_provider_lease_def bindE_eq_Inr split: option.splits intro: env_quiet rebind_row_quiet)

lemma manual_account_quiet:
  "quiet (\<lambda>x. x\<lparr>op_manual_required := True, op_last_error_code := c, op_manual_context := Some (manual_context x), op_updated_at := n\<rparr>)"
  by (rule quietI) (auto simp: same_row_def elim!: identity_agrees_cong)

lemma result_sent_quiet: "quiet (\<lambda>x. x\<lparr>op_result_sent_at := Some n, op_updated_at := m\<rparr>)"
  by (rule quietI) (auto simp: same_row_def elim!: identity_agrees_cong)

lemma finalize_rows:
  assumes "finalize_provider_result_responses nfc sha256 now resps db = Inr ((), db')"
  shows "env_ops db db' \<and> db_lanes db' = db_lanes db"
proof (cases "resps = []")
  case True
  with assms show ?thesis by (auto simp: finalize_provider_result_responses_def intro: env_same_rows [of _ _ "[]"])
next
  case False
  obtain hits where db': "db' = db\<lparr>db_operations := map (\<lambda>x. case map_of hits (op_uuid x) of None \<Rightarrow> x
      | Some (status, h) \<Rightarrow> acknowledge_row now status h x) (db_operations db)\<rparr>"
    using assms False by (auto simp: finalize_provider_result_responses_def bindE_eq_Inr split: if_splits)
  have "env_ops db db'"
    by (rule env_opsI [of _ "\<lambda>x. case map_of hits (op_uuid x) of None \<Rightarrow> x
        | Some (status, h) \<Rightarrow> acknowledge_row now status h x" _ "[]"])
      (auto simp: db' quiet_progress [OF acknowledge_row_quiet] split: option.splits)
  with db' show ?thesis by simp
qed

text \<open>Completion of an operation in flight: its row is closed, no other row moves.\<close>

lemma complete_rows:
  assumes "queue_ok db" "holds db qop sts" "complete now qop result outcome db = Inr ((), db')"
  shows "rows_progress db db' \<and> (sts \<subseteq> - {Pending, Running} \<longrightarrow> env_ops db db')"
  using assms(3)
proof (cases rule: complete_cases)
  case repeated
  then show ?thesis by (auto simp: rows_progress_refl intro: env_same_rows [of _ _ "[]"])
next
  case (closed x st)
  let ?f = "\<lambda>y. if op_uuid y = qo_uuid qop \<and> op_state y \<in> {Running, Uncertain} then close_row now st result y else y"
  have close: "row_progress y (?f y)" for y
    by (auto simp: row_progress_def same_row_def close_row_def terminal_def)
  have "op_state (?f y) = op_state y \<or> op_state y = Uncertain \<and> terminal (op_state (?f y))"
    if "y \<in> set (db_operations db)" "sts \<subseteq> - {Pending, Running}" for y
  proof (cases "op_uuid y = qo_uuid qop")
    case True
    then have "op_state y \<noteq> Running" using holds_row(1) [OF assms(1,2) that(1)] that(2) by auto
    with closed(3) show ?thesis by (auto simp: close_row_def terminal_def split: if_splits)
  qed simp
  with close closed(4) have "env_ops db db'" if "sts \<subseteq> - {Pending, Running}"
    using that by (intro env_opsI [of _ ?f _ "[]"]) auto
  with rows_progress_map [OF closed(4) close] show ?thesis by blast
qed

lemma echo_holds: "queue_ok db \<Longrightarrow> uncertain_by_local_id account q l db = Some qop \<Longrightarrow> holds db qop {Uncertain}"
  by (auto simp: uncertain_by_local_id_def find_Some_iff holds_def queued_operation_def
      dest: nth_mem intro!: bexI row_ok_identity queue_okD(2))

section \<open>Transactions of the worker\<close>

lemma leased_rows:
  assumes "queue_ok db" "x \<in> set (db_operations db)" "op_state x = Pending"
    "db_operations db' = map (\<lambda>y. if op_uuid y = op_uuid x then take_lease now worker secs y else y) (db_operations db)"
  shows "holds db' (queued_operation (take_lease now worker secs x)) {Running} \<and> rows_progress db db'"
proof
  show "holds db' (queued_operation (take_lease now worker secs x)) {Running}"
    unfolding holds_def assms(4) using assms(2) row_ok_identity [OF queue_okD(2) [OF assms(1,2)]]
    by (intro bexI [of _ "take_lease now worker secs x"])
      (auto simp: queued_operation_def take_lease_def identity_agrees_def op_lane_def)
  show "rows_progress db db'"
  proof (rule rows_progress_map [OF assms(4)])
    fix y
    assume "y \<in> set (db_operations db)"
    then have "op_uuid y = op_uuid x \<Longrightarrow> y = x" using same_uuid_row [OF queue_okD(1) [OF assms(1)]] assms(2) by blast
    then show "row_progress y (if op_uuid y = op_uuid x then take_lease now worker secs y else y)"
      using assms(3) by (auto simp: row_progress_def same_row_def take_lease_def terminal_def)
  qed
qed

lemma claim_terminal_rows:
  assumes "queue_ok db" "claim_terminal now locked worker secs db = (Some (qop, reason), db')"
  shows "holds db' qop {Running} \<and> rows_progress db db' \<and> db_lanes db' = db_lanes db"
proof -
  obtain x where x: "x \<in> set (db_operations db)" "terminal_candidate now db x"
    and r: "qop = queued_operation (take_lease now worker secs x)"
      "db' = update_operations (\<lambda>y. op_uuid y = op_uuid x) (take_lease now worker secs) db"
    using assms(2) by (auto simp: claim_terminal_def split: option.splits dest!: first_by_filterD)
  have "op_state x = Pending" using x(2) by (simp add: terminal_candidate_def)
  from leased_rows [OF assms(1) x(1) this, of db' now worker secs] show ?thesis by (simp add: r)
qed

lemma claim_rows:
  assumes "queue_ok db" "claim now locked worker secs db = (Some qop, db')"
  shows "holds db' qop {Running} \<and> rows_progress db db' \<and> db_lanes db' = db_lanes db"
proof -
  obtain x where x: "x \<in> set (db_operations db)" "claim_candidate now db x"
    and r: "qop = queued_operation (take_lease now worker secs x)"
      "db' = touch_account now (rec_account_uuid (op_record x))
        (update_operations (\<lambda>y. op_uuid y = op_uuid x) (take_lease now worker secs) db)"
    using assms(2) by (auto simp: claim_def split: option.splits dest!: first_by_filterD)
  have "op_state x = Pending" using x(2) by (simp add: claim_candidate_def)
  from leased_rows [OF assms(1) x(1) this, of db' now worker secs] show ?thesis by (simp add: r touch_account_def)
qed

lemma claim_uncertain_rows:
  assumes "queue_ok db" "claim_uncertain now locked worker db = (Some qop, db')"
  shows "holds db' qop (- {Pending, Running}) \<and> rows_progress db db' \<and> db_lanes db' = db_lanes db"
proof -
  obtain x where x: "x \<in> set (db_operations db)" "uncertain_candidate now db x"
    and r: "qop = queued_operation (lease_uncertain now worker x)"
      "db' = update_operations (\<lambda>y. op_uuid y = op_uuid x) (lease_uncertain now worker) db"
    using assms(2) by (auto simp: claim_uncertain_def split: option.splits dest!: first_by_filterD)
  have "holds db' qop (- {Pending, Running})"
    unfolding holds_def r using x row_ok_identity [OF queue_okD(2) [OF assms(1) x(1)]]
    by (intro bexI [of _ "lease_uncertain now worker x"])
      (auto simp: queued_operation_def lease_uncertain_def identity_agrees_def op_lane_def uncertain_candidate_def)
  moreover have "rows_progress db db'"
    unfolding r by (rule env_rows_progress [OF env_quiet [OF lease_uncertain_quiet]])
  ultimately show ?thesis by (simp add: r)
qed

lemma attempt_rows: "env_ops db (record_provider_attempt now qop q l c db)"
  unfolding record_provider_attempt_def by (rule env_quiet [OF attempt_row_quiet])

lemma deferred_rows: "rows_progress db (defer_uncertain now qop at code db)"
  unfolding defer_uncertain_def
  by (rule rows_progress_update) (auto simp: row_progress_def same_row_def)

lemma check_rows: "rows_progress db (schedule_reconciliation_check now qop after ev db)"
  unfolding schedule_reconciliation_check_def
  by (rule rows_progress_update) (auto simp: row_progress_def same_row_def)

lemma resend_rows: "rows_progress db (schedule_single_resend now qop ev db)"
  unfolding schedule_single_resend_def
  by (rule rows_progress_update) (auto simp: row_progress_def same_row_def resend_row_def terminal_def)

lemma manual_rows: "rows_progress db (require_operation_manual_reconciliation uuid5 now qop code ev db)"
  unfolding require_operation_manual_reconciliation_def Let_def
  by (rule rows_progress_map [of _ "\<lambda>x. if op_uuid x = qo_uuid qop \<and> op_state x = Uncertain
        then manual_row now code ev (manual_result uuid5 now qop code ev) x else x"])
    (auto simp: row_progress_def same_row_def manual_row_def terminal_def)

lemma reap_rows: "rows_progress db (snd (reap_expired_running now db))"
  unfolding reap_expired_running_def snd_conv
  by (rule rows_progress_update) (auto simp: row_progress_def same_row_def reap_row_def lease_lapsed_def terminal_def)

lemma retry_rows:
  assumes "queue_ok db" "holds db qop {Running}"
  shows "rows_progress db (retry now qop at code db)"
  unfolding retry_def
  by (rule rows_progress_update)
    (use holds_row(1) [OF assms] in \<open>auto simp: row_progress_def same_row_def retry_row_def terminal_def\<close>)

lemma uncertain_rows:
  assumes "queue_ok db" "holds db qop {Running}"
  shows "rows_progress db (mark_uncertain now qop code db)"
  unfolding mark_uncertain_def
  by (rule rows_progress_update)
    (use holds_row(1) [OF assms] in \<open>auto simp: row_progress_def same_row_def uncertain_row_def terminal_def\<close>)

lemma lanes_kept [simp]:
  "db_lanes (snd (reap_expired_running now db)) = db_lanes db"
  "db_lanes (record_provider_attempt now qop q l c db) = db_lanes db"
  "db_lanes (retry now qop at code db) = db_lanes db"
  "db_lanes (mark_uncertain now qop code db) = db_lanes db"
  "db_lanes (defer_uncertain now qop at code db) = db_lanes db"
  "db_lanes (schedule_reconciliation_check now qop after ev db) = db_lanes db"
  "db_lanes (schedule_single_resend now qop ev db) = db_lanes db"
  "db_lanes (require_operation_manual_reconciliation uuid5 now qop code ev db) = db_lanes db"
  by (simp_all add: reap_expired_running_def record_provider_attempt_def retry_def mark_uncertain_def
      defer_uncertain_def schedule_reconciliation_check_def schedule_single_resend_def
      require_operation_manual_reconciliation_def Let_def)

section \<open>The invariant\<close>

lemma holds_mono: "holds db qop sts \<Longrightarrow> sts \<subseteq> sts' \<Longrightarrow> holds db qop sts'"
  by (auto simp: holds_def)

lemma queue_init_ok: "queue_init s \<Longrightarrow> system_ok s"
  by (auto simp: queue_init_def system_ok_def queue_ok_def keys_ok_def hand_ok_def lane_ok_def lane_ops_def
      chain_def pos_of_def lane_at_def lane_start_def)

lemma qstep_queue_ok:
  assumes "qstep nfc sha256 uuid5 s t" "system_ok s"
  shows "queue_ok (fst t)"
  using assms
proof (induction rule: qstep.induct)
  case (enqueue db r now priority b db' h)
  then show ?case by (auto simp: system_ok_def intro: enqueue_ok)
next
  case (renew now r db b db' h)
  then show ?case by (auto simp: system_ok_def intro: bind_provider_lease_ok)
next
  case (complete_send now qop result outcome db db')
  then have "queue_ok db" "holds db qop (- {Pending})"
    using holds_mono [of db qop "{Running}" "- {Pending}"] by (simp_all add: system_ok_def hand_ok_def)
  then show ?case using complete_ok [OF _ _ complete_send(1)] by simp
next
  case (complete_check now qop result outcome db db')
  then have "queue_ok db" "holds db qop (- {Pending})"
    using holds_mono [of db qop "- {Pending, Running}" "- {Pending}"] by (auto simp: system_ok_def hand_ok_def)
  then show ?case using complete_ok [OF _ _ complete_check(1)] by simp
next
  case (echo account q l db qop now result outcome db' h)
  then have "queue_ok db" by (simp add: system_ok_def)
  then have "holds db qop (- {Pending})" by (rule holds_mono [OF echo_holds [OF _ echo(1)]]) simp
  then show ?case using complete_ok [OF \<open>queue_ok db\<close> _ echo(2)] by simp
next
  case (retry db qop now at code)
  then have "queue_ok db" "holds db qop {Running, Uncertain}"
    using holds_mono [of db qop "{Running}" "{Running, Uncertain}"] by (simp_all add: system_ok_def hand_ok_def)
  then show ?case by (simp add: retry_ok)
next
  case (uncertain db qop now code)
  then have "queue_ok db" "holds db qop {Running, Uncertain}"
    using holds_mono [of db qop "{Running}" "{Running, Uncertain}"] by (simp_all add: system_ok_def hand_ok_def)
  then show ?case by (simp add: mark_uncertain_ok)
next
  case (control db db' h)
  then show ?case by (simp add: system_ok_def same_queue_ok)
qed (auto simp: system_ok_def hand_ok_def reap_ok record_provider_attempt_ok defer_uncertain_ok schedule_check_ok
    schedule_single_resend_ok require_manual_ok mark_result_sent_ok
    intro: claim_terminal_ok claim_ok claim_uncertain_ok finalize_ok manual_reconciliation_ok)

lemma qstep_hand_ok:
  assumes "qstep nfc sha256 uuid5 s t" "system_ok s"
  shows "hand_ok (fst t) (snd t)"
  using assms
proof (induction rule: qstep.induct)
  case (enqueue db r now priority b db' h)
  then show ?case using enqueue_rows env_same_rows env_hand_ok by (metis fst_conv snd_conv system_ok_def)
next
  case (claim_terminal now locked worker secs db qop reason db')
  then show ?case using claim_terminal_rows by (auto simp: system_ok_def hand_ok_def)
next
  case (claim now locked worker secs db qop db')
  then show ?case using claim_rows by (auto simp: system_ok_def hand_ok_def)
next
  case (claim_uncertain now locked worker db qop db')
  then show ?case using claim_uncertain_rows by (auto simp: system_ok_def hand_ok_def)
next
  case (echo account q l db qop now result outcome db' h)
  then have ok: "queue_ok db" "hand_ok db h" by (simp_all add: system_ok_def)
  then have "env_ops db db'" using complete_rows [OF ok(1) echo_holds [OF ok(1) echo(1)] echo(2)] by auto
  with ok show ?case using env_hand_ok by simp
next
  case (manual_account db h now account code)
  then show ?case
    using env_hand_ok [OF env_quiet [OF manual_account_quiet]]
    by (simp add: system_ok_def require_manual_reconciliation_def)
next
  case (result_sent db h now u)
  then show ?case
    using env_hand_ok [OF env_quiet [OF result_sent_quiet]] by (simp add: system_ok_def mark_result_sent_def)
next
  case (control db db' h)
  then show ?case
    using env_hand_ok [OF env_same_rows [of db' db "[]"]] by (simp add: system_ok_def same_queue_def)
qed (auto simp: system_ok_def hand_ok_def [of _ Idle] dest: renew_rows finalize_rows intro: env_hand_ok attempt_rows)

interpretation queue_inv: inductive_invariant queue_init "qstep nfc sha256 uuid5" system_ok for nfc sha256 uuid5
proof unfold_locales
  show "system_ok s" if "queue_init s" for s using that by (rule queue_init_ok)
  show "system_ok t" if "system_ok s" "qstep nfc sha256 uuid5 s t" for s t
    using qstep_queue_ok [OF that(2,1)] qstep_hand_ok [OF that(2,1)] by (simp add: system_ok_def)
qed

section \<open>Progress\<close>

text \<open>
  A finished first attempt that its lane has not passed: the state in which
  \<open>require_operation_manual_reconciliation\<close> leaves the head of a lane.
\<close>

definition blocked :: "queue_db \<Rightarrow> op_row \<Rightarrow> bool" where
  "blocked db x = (op_attempt x = 1 \<and> terminal (op_state x) \<and> op_lane_sequence x = lane_last db (op_lane x) + 1)"

definition queue_progress :: "queue_system \<Rightarrow> queue_system \<Rightarrow> bool" where
  "queue_progress s t =
     (rows_progress (fst s) (fst t) \<and> (\<forall>l. lane_last (fst s) l \<le> lane_last (fst t) l) \<and>
      (\<forall>x \<in> set (db_operations (fst s)). blocked (fst s) x \<longrightarrow>
         (\<exists>y \<in> set (db_operations (fst t)). same_row x y \<and> blocked (fst t) y)))"

lemma blocked_progress:
  assumes "blocked db x" "row_progress x y" "lane_last db' (op_lane x) = lane_last db (op_lane x)"
  shows "blocked db' y"
proof -
  have "same_row x y" using assms(2) by (simp add: row_progress_def)
  from same_row_lane [OF this] this [unfolded same_row_def] assms show ?thesis
    by (simp add: blocked_def row_progress_def)
qed

lemma progress_same_lanes:
  assumes "rows_progress db db'" "db_lanes db' = db_lanes db"
  shows "queue_progress (db, h) (db', h')"
proof -
  have "\<exists>y \<in> set (db_operations db'). same_row x y \<and> blocked db' y"
    if x: "x \<in> set (db_operations db)" "blocked db x" for x
  proof -
    obtain y where "y \<in> set (db_operations db')" "row_progress x y"
      using assms(1) x(1) unfolding rows_progress_def by blast
    moreover from this have "blocked db' y"
      by (intro blocked_progress [OF x(2)]) (simp_all add: lane_last_def assms(2))
    ultimately show ?thesis by (auto simp: row_progress_def)
  qed
  with assms show ?thesis by (auto simp: queue_progress_def lane_last_def)
qed

text \<open>Only a completion moves a lane, and only past an operation that was in flight.\<close>

lemma complete_progress:
  assumes ok: "queue_ok db" and held: "holds db qop sts" "sts \<subseteq> - {Pending}"
    and run: "complete now qop result outcome db = Inr ((), db')"
  shows "queue_progress (db, h) (db', h')"
proof -
  have rows: "rows_progress db db'" using complete_rows [OF ok held(1) run] by simp
  from run show ?thesis
  proof (cases rule: complete_cases)
    case repeated
    show ?thesis by (rule progress_same_lanes [OF rows]) (simp add: repeated)
  next
    case (closed x st)
    have x: "x \<in> set (db_operations db)" "op_uuid x = qo_uuid qop" using find_operation_Some [OF closed(1)] by auto
    note held_x = holds_row [OF ok held(1) x]
    show ?thesis
    proof (cases "op_attempt x = 1")
      case False
      show ?thesis
        by (rule progress_same_lanes [OF rows])
          (use closed(8) held_x(2) False in \<open>simp add: closed_lanes_def identity_agrees_def\<close>)
    next
      case True
      have lanes: "lane_last db' l = (if l = op_lane x then lane_last db l + 1 else lane_last db l)" for l
        using closed(8,9) held_x(2) True by (auto simp: closed_lanes_def identity_agrees_def lane_last_def)
      have pos: "lane_last db (op_lane x) = op_lane_sequence x - 1"
        using closed(9) held_x(2) True by (auto simp: identity_agrees_def lane_last_def)
      have "op_lane z \<noteq> op_lane x" if "z \<in> set (db_operations db)" "blocked db z" for z
        using same_lane_row [OF queue_okD(1) [OF ok] that(1) x(1)] that(2) closed(2) True pos by (auto simp: blocked_def)
      then have "\<exists>y \<in> set (db_operations db'). same_row z y \<and> blocked db' y"
        if z: "z \<in> set (db_operations db)" "blocked db z" for z
      proof -
        obtain y where y: "y \<in> set (db_operations db')" "row_progress z y"
          using rows z(1) unfolding rows_progress_def by blast
        have "lane_last db' (op_lane z) = lane_last db (op_lane z)"
          using lanes \<open>\<And>z. z \<in> set (db_operations db) \<Longrightarrow> blocked db z \<Longrightarrow> op_lane z \<noteq> op_lane x\<close> [OF z] by simp
        then have "blocked db' y" by (rule blocked_progress [OF z(2) y(2)])
        with y show ?thesis by (auto simp: row_progress_def)
      qed
      with rows lanes show ?thesis by (auto simp: queue_progress_def)
    qed
  qed
qed

lemma qstep_progress:
  assumes "qstep nfc sha256 uuid5 s t" "system_ok s"
  shows "queue_progress s t"
  using assms
proof (induction rule: qstep.induct)
  case (enqueue db r now priority b db' h)
  have "rows_progress db db'"
    using enqueue_rows [OF enqueue(2)] by (blast intro: env_rows_progress env_same_rows)
  then show ?case using enqueue_rows [OF enqueue(2)] by (blast intro: progress_same_lanes)
next
  case (claim_terminal now locked worker secs db qop reason db')
  then show ?case using claim_terminal_rows by (auto simp: system_ok_def intro: progress_same_lanes)
next
  case (claim now locked worker secs db qop db')
  then show ?case using claim_rows by (auto simp: system_ok_def intro: progress_same_lanes)
next
  case (claim_uncertain now locked worker db qop db')
  then show ?case using claim_uncertain_rows by (auto simp: system_ok_def intro: progress_same_lanes)
next
  case (complete_send now qop result outcome db db')
  show ?case
    by (rule complete_progress [OF _ _ _ complete_send(1)]) (use complete_send(2) in \<open>auto simp: system_ok_def hand_ok_def\<close>)
next
  case (complete_check now qop result outcome db db')
  show ?case
    by (rule complete_progress [OF _ _ _ complete_check(1)]) (use complete_check(2) in \<open>auto simp: system_ok_def hand_ok_def\<close>)
next
  case (echo account q l db qop now result outcome db' h)
  then have "queue_ok db" by (simp add: system_ok_def)
  then show ?case using complete_progress [OF _ echo_holds [OF _ echo(1)] _ echo(2)] by auto
next
  case (retry db qop now at code)
  then show ?case
    by (intro progress_same_lanes retry_rows) (auto simp: system_ok_def hand_ok_def retry_def)
next
  case (uncertain db qop now code)
  then show ?case
    by (intro progress_same_lanes uncertain_rows) (auto simp: system_ok_def hand_ok_def mark_uncertain_def)
next
  case (manual_account db h now account code)
  then show ?case
    unfolding require_manual_reconciliation_def
    by (intro progress_same_lanes env_rows_progress env_quiet manual_account_quiet) simp
next
  case (result_sent db h now u)
  then show ?case
    unfolding mark_result_sent_def
    by (intro progress_same_lanes env_rows_progress env_quiet result_sent_quiet) simp
next
  case (control db db' h)
  then show ?case
    by (intro progress_same_lanes env_rows_progress env_same_rows [of _ _ "[]"]) (simp_all add: same_queue_def)
next
  case (crash db h)
  then show ?case by (intro progress_same_lanes rows_progress_refl) simp
qed (auto intro!: progress_same_lanes reap_rows deferred_rows check_rows resend_rows manual_rows
      env_rows_progress [OF attempt_rows] dest!: renew_rows finalize_rows intro: env_rows_progress)

interpretation queue_mono: monotone_system queue_init "qstep nfc sha256 uuid5" system_ok queue_progress
  for nfc sha256 uuid5
proof unfold_locales
  show "queue_progress s s" for s
    by (auto simp: queue_progress_def rows_progress_refl intro!: bexI)
  show "queue_progress s u" if "queue_progress s t" "queue_progress t u" for s t u
    using that unfolding queue_progress_def by (meson order_trans rows_progress_trans same_row_trans)
  show "queue_progress s t" if "system_ok s" "qstep nfc sha256 uuid5 s t" for s t
    using qstep_progress [OF that(2,1)] .
qed

abbreviation queue_reachable ::
  "(string \<Rightarrow> string) \<Rightarrow> (string \<Rightarrow> string) \<Rightarrow> (uuid \<Rightarrow> string \<Rightarrow> uuid) \<Rightarrow> queue_system \<Rightarrow> bool" where
  "queue_reachable nfc sha256 uuid5 \<equiv> reachable queue_init (qstep nfc sha256 uuid5)"

lemma reachable_queue_ok: "queue_reachable nfc sha256 uuid5 (db, h) \<Longrightarrow> queue_ok db \<and> hand_ok db h"
  using queue_inv.reachable_inv by (fastforce simp: system_ok_def)

end
