(* ===== verification/Scheduler.thy ===== *)
theory Scheduler
  imports Queue_Protocol
begin

text \<open>
  The scheduler (\<open>scheduler.py\<close>): one pass of the sending loop (\<open>run_once\<close>), one pass of the
  reconciliation loop (\<open>reconcile_once\<close>) and the confirmation by a local echo. Every call of
  the store is a transaction of its own, so a pass is a sequence of transactions and what
  it has committed stays when a later call raises.

  The adapter the scheduler is given, the handlers it reports to, the clock and the random
  source are parameters, as they are arguments or attributes in the code.
\<close>

section \<open>Parameters\<close>

text \<open>
  \<open>ZulipOperationError\<close> and how a call of the adapter ends: it returns, it raises
  \<open>ZulipAmbiguousOutcome\<close>, it raises \<open>ZulipOperationError\<close>, or it raises anything else.
\<close>

record zulip_error =
  ze_code :: string
  ze_retryable :: bool
  ze_generation :: "int option"

datatype 'a outcome = Done 'a | Ambiguous string | Failed zulip_error | Raised pyerror

record correlation =
  co_queue_id :: string
  co_local_id :: string
  co_last_event_id :: int
  co_rendered :: string

record evidence =
  ev_checked_at :: string
  ev_candidate_ids :: "string list"
  ev_match_count :: int
  ev_selected :: "string option"

text \<open>
  The adapter of one account. \<open>prepare\<close> and \<open>apply\<close> run after \<open>restore_queue\<close>, whose
  arguments they are given here.
\<close>

record adapter =
  ad_generation :: pyval
  ad_prepare :: "(string \<times> int) option \<Rightarrow> dict \<Rightarrow> uuid \<Rightarrow> string option \<Rightarrow> correlation option outcome"
  ad_apply :: "(string \<times> int) option \<Rightarrow> dict \<Rightarrow> correlation option \<Rightarrow> (string option \<times> string option) outcome"
  ad_reconcile :: "dict \<Rightarrow> timestamp \<Rightarrow> string option \<Rightarrow> evidence outcome"

type_synonym failure_handler = "uuid \<Rightarrow> zulip_error \<Rightarrow> int option \<Rightarrow> queue_db \<Rightarrow> bool result \<times> queue_db"
type_synonym success_handler = "uuid \<Rightarrow> int option \<Rightarrow> queue_db \<Rightarrow> unit result \<times> queue_db"

text \<open>
  What one pass reads from outside: the successive readings of the clock (of the process
  and of the database), the rows other transactions hold locked, a fresh UUID and the
  random delay, in microseconds, drawn from \<open>uniform(0, maximum)\<close>.
\<close>

record sched_env =
  en_clock :: "nat \<Rightarrow> timestamp"
  en_locked :: "uuid \<Rightarrow> bool"
  en_worker :: string
  en_uuid4 :: uuid
  en_uniform :: "int \<Rightarrow> int"
  en_adapters :: "uuid \<Rightarrow> adapter outcome"
  en_failed :: "failure_handler option"
  en_succeeded :: "success_handler option"

section \<open>Result records\<close>

definition SAFE_ERROR_CODES :: "string list" where
  "SAFE_ERROR_CODES =
     [''invalid_record'', ''unauthorized_account'', ''project_mismatch'', ''chat_not_selected'',
      ''capability_missing'', ''unsupported_operation'', ''not_found'', ''permission_denied'', ''conflict'',
      ''rate_limited'', ''provider_unavailable'', ''workspace_unavailable'', ''expired'', ''cancelled'',
      ''internal_error'']"

record target_commit =
  tc_entity_id :: "string option"
  tc_revision :: "string option"

definition result_record ::
  "timestamp \<Rightarrow> uuid \<Rightarrow> op_record \<Rightarrow> string \<Rightarrow> target_commit option \<Rightarrow> string option \<Rightarrow> result_rec" where
  "result_record now u r outcome commit code =
     \<lparr>res_uuid = u, res_in_reply_to = r, res_created_at = now, res_outcome = outcome,
      res_committed_at = (if outcome = ''committed'' then Some now else None),
      res_entity_id = Option.bind commit tc_entity_id,
      res_revision = Option.bind commit tc_revision,
      res_error_code =
        map_option (\<lambda>c. if c \<in> set SAFE_ERROR_CODES then c else ''internal_error'') code,
      res_manual_retry_allowed = (outcome \<in> {''rejected'', ''expired''}),
      res_reconciliation = None, res_transport = rec_transport r\<rparr>"

section \<open>Account handlers\<close>

definition account_failed :: "sched_env \<Rightarrow> failure_handler" where
  "account_failed e account err gen db =
     (case en_failed e of
        None \<Rightarrow> (Inr (ze_code err = ''unauthorized_account''), db)
      | Some handler \<Rightarrow> handler account err gen db)"

definition account_succeeded :: "sched_env \<Rightarrow> success_handler" where
  "account_succeeded e account gen db =
     (case en_succeeded e of None \<Rightarrow> (Inr (), db) | Some handler \<Rightarrow> handler account gen db)"

definition adapter_generation :: "adapter option \<Rightarrow> int option" where
  "adapter_generation ad =
     (case ad of
        None \<Rightarrow> None
      | Some a \<Rightarrow> (case ad_generation a of VInt g \<Rightarrow> Some g | _ \<Rightarrow> None))"

text \<open>\<open>exc.account_generation or self._adapter_generation(adapter)\<close>\<close>

definition attempted_generation :: "zulip_error \<Rightarrow> adapter option \<Rightarrow> int option" where
  "attempted_generation err ad =
     (case ze_generation err of
        Some g \<Rightarrow> if g \<noteq> 0 then Some g else adapter_generation ad
      | None \<Rightarrow> adapter_generation ad)"

section \<open>Sending\<close>

text \<open>A transaction as the last call of a pass: it commits, or it raises and rolls back.\<close>

definition finally_run :: "unit transaction \<Rightarrow> queue_db \<Rightarrow> bool result \<times> queue_db" where
  "finally_run t db = (case t db of Inl err \<Rightarrow> (Inl err, db) | Inr (_, db') \<Rightarrow> (Inr True, db'))"

definition finish ::
  "sched_env \<Rightarrow> queued_operation \<Rightarrow> string \<Rightarrow> target_commit option \<Rightarrow> string option \<Rightarrow> queue_db \<Rightarrow> bool result \<times> queue_db" where
  "finish e qop outcome commit code db =
     finally_run
       (complete (en_clock e 9) qop (result_record (en_clock e 8) (en_uuid4 e) (qo_record qop) outcome commit code) outcome)
       db"

text \<open>The deadline the record carries; a text that is no instant raises.\<close>

definition record_expired :: "timestamp \<Rightarrow> op_record \<Rightarrow> bool result" where
  "record_expired now r =
     (case rec_expires_at r of
        None \<Rightarrow> Inr False
      | Some s \<Rightarrow> (case parse_iso s of
                    None \<Rightarrow> Inl (ValueErr ''Invalid isoformat string'')
                  | Some deadline \<Rightarrow> Inr (deadline \<le> now)))"

definition restored_queue :: "queue_db \<Rightarrow> uuid \<Rightarrow> (string \<times> int) option" where
  "restored_queue db account = map_option (\<lambda>c. (cu_queue_id c, cu_last_event_id c)) (db_cursors db account)"

text \<open>
  The body of the \<open>try\<close> statement: resolve the adapter, prepare the call, persist the
  attempt before the call that may reach the provider, and apply. It also returns the
  adapter, as far as it was resolved.
\<close>

definition call_provider ::
  "sched_env \<Rightarrow> queued_operation \<Rightarrow> queue_db \<Rightarrow> (string option \<times> string option) outcome \<times> adapter option \<times> queue_db" where
  "call_provider e qop db =
     (let r = qo_record qop; queue = restored_queue db (rec_account_uuid r) in
      case en_adapters e (rec_account_uuid r) of
        Ambiguous m \<Rightarrow> (Ambiguous m, None, db)
      | Failed err \<Rightarrow> (Failed err, None, db)
      | Raised err \<Rightarrow> (Raised err, None, db)
      | Done ad \<Rightarrow>
          (case ad_prepare ad queue (rec_operation r) (rec_operation_uuid r) (qo_rendered qop) of
             Ambiguous m \<Rightarrow> (Ambiguous m, Some ad, db)
           | Failed err \<Rightarrow> (Failed err, Some ad, db)
           | Raised err \<Rightarrow> (Raised err, Some ad, db)
           | Done None \<Rightarrow> (ad_apply ad queue (rec_operation r) None, Some ad, db)
           | Done (Some c) \<Rightarrow>
               (ad_apply ad queue (rec_operation r) (Some c), Some ad,
                record_provider_attempt (en_clock e 4) qop (co_queue_id c) (co_local_id c) (co_rendered c) db)))"

text \<open>\<open>min(30.0, float(2 ** min(attempts, 5)))\<close> seconds, in microseconds.\<close>

definition retry_maximum :: "int \<Rightarrow> int" where
  "retry_maximum attempts = min (seconds 30) (seconds (2 ^ nat (min attempts 5)))"

definition send_failed ::
  "sched_env \<Rightarrow> queued_operation \<Rightarrow> zulip_error \<Rightarrow> adapter option \<Rightarrow> queue_db \<Rightarrow> bool result \<times> queue_db" where
  "send_failed e qop err ad db =
     (case account_failed e (rec_account_uuid (qo_record qop)) err (attempted_generation err ad) db of
        (Inl x, db') \<Rightarrow> (Inl x, db')
      | (Inr authentication, db') \<Rightarrow>
          let code = (if authentication then ''unauthorized_account'' else ze_code err) in
          if ze_retryable err \<and> \<not> authentication
          then (Inr True, retry (en_clock e 7) qop
                  (en_clock e 6 + en_uniform e (retry_maximum (qo_attempts qop))) code db')
          else finish e qop ''rejected'' None (Some code) db')"

definition send_succeeded ::
  "sched_env \<Rightarrow> queued_operation \<Rightarrow> adapter option \<Rightarrow> string option \<times> string option \<Rightarrow> queue_db \<Rightarrow> bool result \<times> queue_db" where
  "send_succeeded e qop ad target db =
     (case account_succeeded e (rec_account_uuid (qo_record qop)) (adapter_generation ad) db of
        (Inl x, db') \<Rightarrow> (Inl x, db')
      | (Inr _, db') \<Rightarrow>
          finish e qop ''committed'' (Some \<lparr>tc_entity_id = fst target, tc_revision = snd target\<rparr>) None db')"

definition send :: "sched_env \<Rightarrow> queued_operation \<Rightarrow> queue_db \<Rightarrow> bool result \<times> queue_db" where
  "send e qop db =
     (case record_expired (en_clock e 3) (qo_record qop) of
        Inl err \<Rightarrow> (Inl err, db)
      | Inr True \<Rightarrow> finish e qop ''expired'' None (Some ''expired'') db
      | Inr False \<Rightarrow>
          (case call_provider e qop db of
             (Ambiguous m, ad, db') \<Rightarrow> (Inr True, mark_uncertain (en_clock e 5) qop m db')
           | (Failed err, ad, db') \<Rightarrow> send_failed e qop err ad db'
           | (Raised err, ad, db') \<Rightarrow> (Inl err, db')
           | (Done target, ad, db') \<Rightarrow> send_succeeded e qop ad target db'))"

definition run_once :: "sched_env \<Rightarrow> queue_db \<Rightarrow> bool result \<times> queue_db" where
  "run_once e db =
     (let db0 = snd (reap_expired_running (en_clock e 0) db) in
      case claim_terminal (en_clock e 1) (en_locked e) (en_worker e) 60 db0 of
        (Some (qop, reason), db1) \<Rightarrow>
          finish e qop (if reason = ''unauthorized_account'' then ''rejected'' else reason) None (Some reason) db1
      | (None, db1) \<Rightarrow>
          (case claim (en_clock e 2) (en_locked e) (en_worker e) 60 db1 of
             (None, db2) \<Rightarrow> (Inr False, db2)
           | (Some qop, db2) \<Rightarrow> send e qop db2))"

section \<open>Local echoes\<close>

definition reconcile_local_echo ::
  "sched_env \<Rightarrow> uuid \<Rightarrow> string \<Rightarrow> string \<Rightarrow> string \<Rightarrow> queue_db \<Rightarrow> bool result \<times> queue_db" where
  "reconcile_local_echo e account queue_id local_id message_id db =
     (case uncertain_by_local_id account queue_id local_id db of
        None \<Rightarrow> (Inr False, db)
      | Some qop \<Rightarrow>
          finish e qop ''committed'' (Some \<lparr>tc_entity_id = Some message_id, tc_revision = None\<rparr>) None db)"

section \<open>Reconciliation\<close>

definition RECONCILIATION_DELAYS_SECONDS :: "int list" where
  "RECONCILIATION_DELAYS_SECONDS = [5, 15, 30]"

definition MAX_AUTO_RESENDS :: int where
  "MAX_AUTO_RESENDS = 1"

definition stored_evidence :: "evidence \<Rightarrow> pyval" where
  "stored_evidence ev =
     VDict [(''checked_at'', VStr (ev_checked_at ev)), (''candidate_ids'', VList (map VStr (ev_candidate_ids ev))),
       (''match_count'', VInt (ev_match_count ev)), (''selected_provider_id'', opt_str (ev_selected ev))]"

definition check_failed ::
  "sched_env \<Rightarrow> (uuid \<Rightarrow> string \<Rightarrow> uuid) \<Rightarrow> queued_operation \<Rightarrow> zulip_error \<Rightarrow> adapter option \<Rightarrow> queue_db \<Rightarrow> bool result \<times> queue_db" where
  "check_failed e uuid5 qop err ad db =
     (case account_failed e (rec_account_uuid (qo_record qop)) err (attempted_generation err ad) db of
        (Inl x, db') \<Rightarrow> (Inl x, db')
      | (Inr authentication, db') \<Rightarrow>
          if authentication \<or> ze_retryable err
          then (Inr True, defer_uncertain (en_clock e 7) qop (en_clock e 6 + seconds 5)
                  (if authentication then ''unauthorized_account'' else ze_code err) db')
          else (Inr True, require_operation_manual_reconciliation uuid5 (en_clock e 7) qop
                  (if ze_code err = ''provider_unavailable'' then ''provider_history_unavailable''
                   else ''unsafe_provider_state'')
                  (VDict [(''match_count'', VNone), (''provider_available'', VBool False),
                          (''provider_error_class'', VStr (ze_code err))]) db'))"

text \<open>The provider identifier to commit: a mapping already known, if it is among the candidates.\<close>

definition chosen_provider_id :: "op_record \<Rightarrow> uuid \<Rightarrow> evidence \<Rightarrow> string \<Rightarrow> queue_db \<Rightarrow> string" where
  "chosen_provider_id r entity ev selected db =
     (case workspace_mapping (rec_account_uuid r) ''message'' entity (db_mappings db, db_aliases db) of
        None \<Rightarrow> selected
      | Some m \<Rightarrow> if mp_provider_id m \<in> set (ev_candidate_ids ev) then mp_provider_id m else selected)"

definition check_matched ::
  "sched_env \<Rightarrow> queued_operation \<Rightarrow> evidence \<Rightarrow> queue_db \<Rightarrow> bool result \<times> queue_db" where
  "check_matched e qop ev db =
     (case ev_selected ev of
        None \<Rightarrow> (Inl (ValueErr ''AssertionError''), db)
      | Some selected \<Rightarrow>
          (case item (rec_operation (qo_record qop)) ''entity_uuid'' of
             Inl err \<Rightarrow> (Inl err, db)
           | Inr entity \<Rightarrow>
               finish e qop ''committed''
                 (Some \<lparr>tc_entity_id = Some (chosen_provider_id (qo_record qop) (py_str entity) ev selected db),
                        tc_revision = None\<rparr>) None db))"

definition check_unmatched ::
  "sched_env \<Rightarrow> (uuid \<Rightarrow> string \<Rightarrow> uuid) \<Rightarrow> queued_operation \<Rightarrow> evidence \<Rightarrow> queue_db \<Rightarrow> bool result \<times> queue_db" where
  "check_unmatched e uuid5 qop ev db =
     (let next_check = qo_check_count qop + 1; delays = RECONCILIATION_DELAYS_SECONDS in
      if next_check < int (length delays)
      then (Inr True, schedule_reconciliation_check (en_clock e 9) qop
              (en_clock e 8 + seconds (delays ! nat next_check - delays ! nat (next_check - 1)))
              (stored_evidence ev) db)
      else if qo_auto_resend_count qop < MAX_AUTO_RESENDS
      then (Inr True, schedule_single_resend (en_clock e 9) qop (stored_evidence ev) db)
      else (Inr True, require_operation_manual_reconciliation uuid5 (en_clock e 9) qop
              ''no_match_after_auto_resend'' (stored_evidence ev) db))"

text \<open>The body of the \<open>try\<close> statement, with the adapter as far as it was resolved.\<close>

definition call_reconcile ::
  "sched_env \<Rightarrow> queued_operation \<Rightarrow> timestamp \<Rightarrow> evidence outcome \<times> adapter option" where
  "call_reconcile e qop attempted_at =
     (case en_adapters e (rec_account_uuid (qo_record qop)) of
        Ambiguous m \<Rightarrow> (Ambiguous m, None)
      | Failed err \<Rightarrow> (Failed err, None)
      | Raised err \<Rightarrow> (Raised err, None)
      | Done ad \<Rightarrow> (ad_reconcile ad (rec_operation (qo_record qop)) attempted_at (qo_rendered qop), Some ad))"

definition check ::
  "sched_env \<Rightarrow> (uuid \<Rightarrow> string \<Rightarrow> uuid) \<Rightarrow> queued_operation \<Rightarrow> timestamp \<Rightarrow> queue_db \<Rightarrow> bool result \<times> queue_db" where
  "check e uuid5 qop attempted_at db =
     (case call_reconcile e qop attempted_at of
        (Ambiguous m, ad) \<Rightarrow> (Inl (ValueErr m), db)
      | (Failed err, ad) \<Rightarrow> check_failed e uuid5 qop err ad db
      | (Raised err, ad) \<Rightarrow> (Inl err, db)
      | (Done ev, ad) \<Rightarrow>
          (case account_succeeded e (rec_account_uuid (qo_record qop)) (adapter_generation ad) db of
             (Inl x, db') \<Rightarrow> (Inl x, db')
           | (Inr _, db') \<Rightarrow>
               if ev_match_count ev \<ge> 1 then check_matched e qop ev db' else check_unmatched e uuid5 qop ev db'))"

definition reconcile_once :: "sched_env \<Rightarrow> (uuid \<Rightarrow> string \<Rightarrow> uuid) \<Rightarrow> queue_db \<Rightarrow> bool result \<times> queue_db" where
  "reconcile_once e uuid5 db =
     (let db0 = snd (reap_expired_running (en_clock e 0) db) in
      case claim_uncertain (en_clock e 1) (en_locked e) (en_worker e) db0 of
        (None, db1) \<Rightarrow> (Inr False, db1)
      | (Some qop, db1) \<Rightarrow>
          (case qo_attempted_at qop of
             None \<Rightarrow> (Inr True, require_operation_manual_reconciliation uuid5 (en_clock e 2) qop
                       ''unsafe_provider_state'' (VDict [(''match_count'', VNone)]) db1)
           | Some attempted_at \<Rightarrow> check e uuid5 qop attempted_at db1))"

section \<open>A pass is a run of the queue\<close>

lemma same_queue_refl [simp]: "same_queue db db"
  by (simp add: same_queue_def)

lemma qsteps_trans:
  "qstep nfc sha256 uuid5 s t \<Longrightarrow> (qstep nfc sha256 uuid5)\<^sup>*\<^sup>* t u \<Longrightarrow> (qstep nfc sha256 uuid5)\<^sup>*\<^sup>* s u"
  by (rule converse_rtranclp_into_rtranclp)

lemma claim_terminal_None: "claim_terminal now locked worker secs db = (None, db') \<Longrightarrow> db' = db"
  by (auto simp: claim_terminal_def split: option.splits)

lemma claim_None: "claim now locked worker secs db = (None, db') \<Longrightarrow> db' = db"
  by (auto simp: claim_def split: option.splits)

lemma claim_uncertain_None: "claim_uncertain now locked worker db = (None, db') \<Longrightarrow> db' = db"
  by (auto simp: claim_uncertain_def split: option.splits)

lemma finish_steps:
  assumes "finish e qop outcome commit code db = (r, db')" "h \<in> {Sending qop, Checking qop}"
  shows "(qstep nfc sha256 uuid5)\<^sup>*\<^sup>* (db, h) (db', Idle)"
  using assms
  by (auto simp: finish_def finally_run_def split: sum.splits
      intro: r_into_rtranclp qstep.crash qstep.complete_send qstep.complete_check)

lemma call_provider_steps:
  "call_provider e qop db = (out, ad, db') \<Longrightarrow> (qstep nfc sha256 uuid5)\<^sup>*\<^sup>* (db, Sending qop) (db', Sending qop)"
  by (auto simp: call_provider_def Let_def split: outcome.splits option.splits
      intro: r_into_rtranclp qstep.attempt)

text \<open>
  What the scheduler relies on in the handlers it calls: they leave the tables of the
  queue alone. Under that contract every pass is a run of the step relation, so that the
  guarantees of the queue hold of the running scheduler.
\<close>

locale account_handlers =
  fixes e :: sched_env
  assumes failed_keeps: "same_queue db (snd (account_failed e u err g db))"
    and succeeded_keeps: "same_queue db (snd (account_succeeded e u g db))"
begin

lemma failed_step: "account_failed e u err g db = (r, db') \<Longrightarrow> qstep nfc sha256 uuid5 (db, h) (db', h)"
  using failed_keeps [of db u err g] by (auto intro: qstep.control)

lemma succeeded_step: "account_succeeded e u g db = (r, db') \<Longrightarrow> qstep nfc sha256 uuid5 (db, h) (db', h)"
  using succeeded_keeps [of db u g] by (auto intro: qstep.control)

lemma send_failed_steps:
  assumes "send_failed e qop err ad db = (r, db')"
  shows "(qstep nfc sha256 uuid5)\<^sup>*\<^sup>* (db, Sending qop) (db', Idle)"
proof -
  obtain a db1 where a: "account_failed e (rec_account_uuid (qo_record qop)) err (attempted_generation err ad) db = (a, db1)"
    by (metis surj_pair)
  show ?thesis
  proof (rule qsteps_trans [OF failed_step [OF a]], cases a)
    case (Inl x)
    with assms a show "(qstep nfc sha256 uuid5)\<^sup>*\<^sup>* (db1, Sending qop) (db', Idle)"
      by (simp add: send_failed_def) (rule r_into_rtranclp, rule qstep.crash)
  next
    case (Inr b)
    show "(qstep nfc sha256 uuid5)\<^sup>*\<^sup>* (db1, Sending qop) (db', Idle)"
    proof (cases "ze_retryable err \<and> \<not> b")
      case True
      with assms a Inr show ?thesis
        by (auto simp: send_failed_def intro!: r_into_rtranclp qstep.retry)
    next
      case False
      with assms a Inr show ?thesis
        by (intro finish_steps [of e qop "''rejected''" None "Some (if b then ''unauthorized_account'' else ze_code err)"])
          (auto simp: send_failed_def)
    qed
  qed
qed

lemma send_succeeded_steps:
  assumes "send_succeeded e qop ad target db = (r, db')"
  shows "(qstep nfc sha256 uuid5)\<^sup>*\<^sup>* (db, Sending qop) (db', Idle)"
proof -
  obtain a db1 where a: "account_succeeded e (rec_account_uuid (qo_record qop)) (adapter_generation ad) db = (a, db1)"
    by (metis surj_pair)
  show ?thesis
  proof (rule qsteps_trans [OF succeeded_step [OF a]], cases a)
    case (Inl x)
    with assms a show "(qstep nfc sha256 uuid5)\<^sup>*\<^sup>* (db1, Sending qop) (db', Idle)"
      by (simp add: send_succeeded_def) (rule r_into_rtranclp, rule qstep.crash)
  next
    case (Inr u)
    with assms a show "(qstep nfc sha256 uuid5)\<^sup>*\<^sup>* (db1, Sending qop) (db', Idle)"
      by (simp add: send_succeeded_def) (erule finish_steps, simp)
  qed
qed

lemma send_steps:
  assumes "send e qop db = (r, db')"
  shows "(qstep nfc sha256 uuid5)\<^sup>*\<^sup>* (db, Sending qop) (db', Idle)"
proof (cases "record_expired (en_clock e 3) (qo_record qop)")
  case (Inl err)
  with assms show ?thesis by (auto simp: send_def intro: r_into_rtranclp qstep.crash)
next
  case (Inr b)
  obtain out ad db1 where call: "call_provider e qop db = (out, ad, db1)" by (metis surj_pair)
  have "(qstep nfc sha256 uuid5)\<^sup>*\<^sup>* (db1, Sending qop) (db', Idle)" if "\<not> b"
    using assms Inr call that
    by (cases out) (auto simp: send_def intro: r_into_rtranclp qstep.crash qstep.uncertain
        send_failed_steps send_succeeded_steps)
  then show ?thesis
    using assms Inr rtranclp_trans [OF call_provider_steps [OF call]]
    by (cases b) (auto simp: send_def intro: finish_steps)
qed

lemma run_once_steps:
  assumes "run_once e db = (r, db')"
  shows "(qstep nfc sha256 uuid5)\<^sup>*\<^sup>* (db, Idle) (db', Idle)"
proof (rule qsteps_trans [OF qstep.reap [of _ _ _ _ "en_clock e 0"]])
  let ?db0 = "snd (reap_expired_running (en_clock e 0) db)"
  obtain t db1 where t: "claim_terminal (en_clock e 1) (en_locked e) (en_worker e) 60 ?db0 = (t, db1)"
    by (metis surj_pair)
  obtain c db2 where c: "claim (en_clock e 2) (en_locked e) (en_worker e) 60 db1 = (c, db2)" by (metis surj_pair)
  show "(qstep nfc sha256 uuid5)\<^sup>*\<^sup>* (?db0, Idle) (db', Idle)"
  proof (cases t)
    case (Some p)
    then obtain qop reason where p: "t = Some (qop, reason)" by (cases p) simp
    have "finish e qop (if reason = ''unauthorized_account'' then ''rejected'' else reason) None (Some reason) db1 = (r, db')"
      using assms t p by (simp add: run_once_def)
    then show ?thesis using finish_steps qsteps_trans [OF qstep.claim_terminal [OF t [unfolded p]]] by blast
  next
    case None
    then have "db1 = ?db0" using t claim_terminal_None by blast
    show ?thesis
    proof (cases c)
      case None
      then have "db' = ?db0" using assms t c claim_None [OF c [unfolded None]] \<open>t = None\<close> \<open>db1 = ?db0\<close>
        by (simp add: run_once_def)
      then show ?thesis by simp
    next
      case (Some qop)
      then have "send e qop db2 = (r, db')" using assms t c \<open>t = None\<close> by (simp add: run_once_def)
      with Some c \<open>db1 = ?db0\<close> show ?thesis using send_steps qsteps_trans [OF qstep.claim] by blast
    qed
  qed
qed

lemma check_failed_steps:
  assumes "check_failed e uuid5 qop err ad db = (r, db')"
  shows "(qstep nfc sha256 uuid5)\<^sup>*\<^sup>* (db, Checking qop) (db', Idle)"
proof -
  obtain a db1 where a: "account_failed e (rec_account_uuid (qo_record qop)) err (attempted_generation err ad) db = (a, db1)"
    by (metis surj_pair)
  show ?thesis
  proof (rule qsteps_trans [OF failed_step [OF a]], cases a)
    case (Inl x)
    with assms a show "(qstep nfc sha256 uuid5)\<^sup>*\<^sup>* (db1, Checking qop) (db', Idle)"
      by (simp add: check_failed_def) (rule r_into_rtranclp, rule qstep.crash)
  next
    case (Inr b)
    with assms a show "(qstep nfc sha256 uuid5)\<^sup>*\<^sup>* (db1, Checking qop) (db', Idle)"
      by (cases "b \<or> ze_retryable err") (auto simp: check_failed_def intro!: r_into_rtranclp qstep.deferred qstep.manual)
  qed
qed

lemma check_matched_steps:
  assumes "check_matched e qop ev db = (r, db')"
  shows "(qstep nfc sha256 uuid5)\<^sup>*\<^sup>* (db, Checking qop) (db', Idle)"
  using assms
  by (auto simp: check_matched_def split: option.splits sum.splits
      intro: r_into_rtranclp qstep.crash finish_steps)

lemma check_unmatched_steps:
  assumes "check_unmatched e uuid5 qop ev db = (r, db')"
  shows "(qstep nfc sha256 uuid5)\<^sup>*\<^sup>* (db, Checking qop) (db', Idle)"
  using assms
  by (auto simp: check_unmatched_def Let_def split: if_splits
      intro: r_into_rtranclp qstep.check qstep.resend qstep.manual)

lemma check_steps:
  assumes "check e uuid5 qop at db = (r, db')"
  shows "(qstep nfc sha256 uuid5)\<^sup>*\<^sup>* (db, Checking qop) (db', Idle)"
proof -
  obtain out ad where call: "call_reconcile e qop at = (out, ad)" by (metis surj_pair)
  obtain a db1 where a: "account_succeeded e (rec_account_uuid (qo_record qop)) (adapter_generation ad) db = (a, db1)"
    by (metis surj_pair)
  have crash: "(qstep nfc sha256 uuid5)\<^sup>*\<^sup>* (d, Checking qop) (d, Idle)" for d
    by (intro r_into_rtranclp qstep.crash)
  show ?thesis
  proof (cases out)
    case (Done ev)
    have "(qstep nfc sha256 uuid5)\<^sup>*\<^sup>* (db1, Checking qop) (db', Idle)"
      using assms call a Done crash
      by (cases a) (auto simp: check_def split: if_splits intro: check_matched_steps check_unmatched_steps)
    then show ?thesis by (rule qsteps_trans [OF succeeded_step [OF a]])
  qed (use assms call crash in \<open>auto simp: check_def intro: check_failed_steps\<close>)
qed

lemma reconcile_once_steps:
  assumes "reconcile_once e uuid5 db = (r, db')"
  shows "(qstep nfc sha256 uuid5)\<^sup>*\<^sup>* (db, Idle) (db', Idle)"
proof (rule qsteps_trans [OF qstep.reap [of _ _ _ _ "en_clock e 0"]])
  let ?db0 = "snd (reap_expired_running (en_clock e 0) db)"
  obtain c db1 where c: "claim_uncertain (en_clock e 1) (en_locked e) (en_worker e) ?db0 = (c, db1)"
    by (metis surj_pair)
  show "(qstep nfc sha256 uuid5)\<^sup>*\<^sup>* (?db0, Idle) (db', Idle)"
  proof (cases c)
    case None
    then show ?thesis using assms c claim_uncertain_None [OF c [unfolded None]] by (simp add: reconcile_once_def)
  next
    case (Some qop)
    have "(qstep nfc sha256 uuid5)\<^sup>*\<^sup>* (db1, Checking qop) (db', Idle)"
      using assms c Some
      by (cases "qo_attempted_at qop")
        (auto simp: reconcile_once_def intro: check_steps r_into_rtranclp qstep.manual)
    then show ?thesis by (rule qsteps_trans [OF qstep.claim_uncertain [OF c [unfolded Some]]])
  qed
qed

end

end
