(* ===== verification/Account_Breaker.thy ===== *)
theory Account_Breaker
  imports Desired_State Scheduler
begin

text \<open>
  The circuit breaker of a provider account: fencing by account generation
  (\<open>_reconcile_provider_account_generation\<close>, \<open>_reset_provider_projection\<close>), recording of
  failures and successes (\<open>record_provider_account_failure\<close>,
  \<open>record_provider_account_success\<close>) in \<open>storage.py\<close>, and the handlers that \<open>service.py\<close>
  installs in the scheduler. Every write to the account report outbox is returned as the
  report to send; the outbox itself belongs to the control-plane reporter.
\<close>

section \<open>Generations\<close>

definition provider_account_health_component :: "uuid \<Rightarrow> string" where
  "provider_account_health_component u = ''provider:'' @ u"

definition backfill_health_component :: "uuid \<Rightarrow> string \<Rightarrow> string" where
  "backfill_health_component u chat = ''provider:'' @ u @ '':'' @ chat"

text \<open>
  A projection reset forgets what can be rebuilt from Zulip. The queue tables of the model
  hold the operations of origin \<open>workspace\<close>; the statement removes those of origin \<open>zulip\<close>,
  so that here it changes the mappings, the cursor, the journal, the history jobs and the
  health rows of the account.
\<close>

definition reset_provider_projection :: "timestamp \<Rightarrow> uuid \<Rightarrow> queue_db \<Rightarrow> queue_db" where
  "reset_provider_projection now u db =
     db\<lparr>db_aliases := filter (\<lambda>m. \<not> (mp_account_uuid m = u \<and> mp_kind m \<noteq> ''identity'')) (db_aliases db),
        db_mappings := filter (\<lambda>m. \<not> (mp_account_uuid m = u \<and> mp_kind m \<noteq> ''identity'')) (db_mappings db),
        db_events := filter (\<lambda>ev. je_account_uuid ev \<noteq> u) (db_events db),
        db_cursors := (db_cursors db)(u := None),
        db_backfills := update_where (\<lambda>b. bf_account_uuid b = u)
          (\<lambda>b. b\<lparr>bf_state := ''cancelled'', bf_next_anchor := None, bf_cutoff_at := None, bf_lease_until := None,
                  bf_available_at := now, bf_retry_count := 0, bf_error_code := None, bf_updated_at := now\<rparr>) (db_backfills db),
        db_health := (\<lambda>c. if c = provider_account_health_component u \<or>
            starts_with (provider_account_health_component u @ '':'') c then None else db_health db c)\<rparr>"

definition fresh_breaker :: "int \<Rightarrow> int \<Rightarrow> sched_row option \<Rightarrow> sched_row" where
  "fresh_breaker generation reset s =
     \<lparr>sa_last_dispatched_at = Option.bind s sa_last_dispatched_at, sa_generation = Some generation,
      sa_state = Ready, sa_retry_count = 0, sa_retry_after = None, sa_error_code = None,
      sa_projection_reset = reset\<rparr>"

definition wake_unauthorized_jobs :: "timestamp \<Rightarrow> uuid \<Rightarrow> backfill_row list \<Rightarrow> backfill_row list" where
  "wake_unauthorized_jobs now u =
     update_where (\<lambda>b. bf_account_uuid b = u \<and> bf_state b = ''failed'' \<and>
         bf_error_code b \<in> {Some ''unauthorized'', Some ''unauthorized_account''})
       (\<lambda>b. b\<lparr>bf_state := ''pending'', bf_lease_until := None, bf_available_at := now,
               bf_retry_count := 0, bf_error_code := None, bf_updated_at := now\<rparr>)"

definition reconcile_provider_account_generation ::
  "timestamp \<Rightarrow> uuid \<Rightarrow> int \<Rightarrow> int \<Rightarrow> unit transaction" where
  "reconcile_provider_account_generation now u generation reset db =
     (let s = db_accounts db u; current = (case s of None \<Rightarrow> 0 | Some r \<Rightarrow> sa_projection_reset r) in
      if reset < current then Inl (ValueErr ''Projection reset generation moved backwards'')
      else if (case s of None \<Rightarrow> False | Some r \<Rightarrow> sa_generation r = Some generation \<and> sa_projection_reset r = reset)
      then Inr ((), db)
      else
        let db1 = db\<lparr>db_accounts := (db_accounts db)(u \<mapsto> fresh_breaker generation reset s)\<rparr>;
            db2 = (if reset > current then reset_provider_projection now u db1 else db1)
        in Inr ((), db2\<lparr>db_backfills := wake_unauthorized_jobs now u (db_backfills db2),
                        db_health := (db_health db2)(provider_account_health_component u := None)\<rparr>))"

section \<open>Failures and successes\<close>

text \<open>\<open>COALESCE((body->>key)::bigint, 0)\<close>; a text that is no 64-bit integer aborts the statement.\<close>

definition body_bigint :: "pyval \<Rightarrow> string \<Rightarrow> int result" where
  "body_bigint body k =
     (case json_text (json_field body k) of
        None \<Rightarrow> Inr 0
      | Some t \<Rightarrow>
          (case py_int 10 t of
             Some i \<Rightarrow> if - (2 ^ 63) \<le> i \<and> i < 2 ^ 63 then Inr i else Inl (DatabaseErr ''numeric_value_out_of_range'')
           | None \<Rightarrow> Inl (DatabaseErr ''invalid_text_representation'')))"

text \<open>The account as the request that is reported on saw it.\<close>

definition attempted_account :: "uuid \<Rightarrow> int \<Rightarrow> queue_db \<Rightarrow> desired_row option" where
  "attempted_account u generation db =
     (case live_resource db ''external_account'' (Some u) of
        None \<Rightarrow> None
      | Some d \<Rightarrow> if ds_generation d = generation \<and> body_flag (ds_body d) ''synchronization_enabled''
                  then Some d else None)"

text \<open>\<open>LEAST(300.0, power(2.0, LEAST(provider_retry_count, 8)))\<close> seconds, in microseconds.\<close>

definition backoff_maximum :: "int \<Rightarrow> int" where
  "backoff_maximum retries = min (seconds 300) (seconds (2 ^ nat (min retries 8)))"

definition failure_row :: "timestamp \<Rightarrow> (int \<Rightarrow> int) \<Rightarrow> string \<Rightarrow> bool \<Rightarrow> sched_row \<Rightarrow> sched_row" where
  "failure_row now random code retryable s =
     s\<lparr>sa_state := (if sa_state s = Auth_Required then Auth_Required else if retryable then Backoff else Auth_Required),
       sa_retry_count := sa_retry_count s + 1,
       sa_retry_after :=
         (if sa_state s = Auth_Required then None
          else if retryable then Some (now + random (backoff_maximum (sa_retry_count s)))
          else None),
       sa_error_code := (if sa_state s = Auth_Required then sa_error_code s else Some (take 128 code))\<rparr>"

definition record_provider_account_failure ::
  "timestamp \<Rightarrow> (int \<Rightarrow> int) \<Rightarrow> uuid \<Rightarrow> int \<Rightarrow> string \<Rightarrow> bool \<Rightarrow> sched_row option transaction" where
  "record_provider_account_failure now random u generation code retryable db =
     (case attempted_account u generation db of
        None \<Rightarrow> Inr (None, db)
      | Some d \<Rightarrow>
          bindE (body_bigint (ds_body d) ''projection_reset_generation'') (\<lambda>reset.
          bindE (reconcile_provider_account_generation now u generation reset db) (\<lambda>(_, db1).
          case db_accounts db1 u of
            None \<Rightarrow> Inr (None, db1)
          | Some s \<Rightarrow>
              if sa_generation s = Some generation
              then let s' = failure_row now random code retryable s
                   in Inr (Some s', db1\<lparr>db_accounts := (db_accounts db1)(u \<mapsto> s')\<rparr>)
              else Inr (None, db1))))"

definition success_row :: "sched_row \<Rightarrow> sched_row" where
  "success_row s = s\<lparr>sa_state := Ready, sa_retry_count := 0, sa_retry_after := None, sa_error_code := None\<rparr>"

definition record_provider_account_success :: "timestamp \<Rightarrow> uuid \<Rightarrow> int \<Rightarrow> bool option transaction" where
  "record_provider_account_success now u generation db =
     (case attempted_account u generation db of
        None \<Rightarrow> Inr (None, db)
      | Some d \<Rightarrow>
          bindE (body_bigint (ds_body d) ''projection_reset_generation'') (\<lambda>reset.
          bindE (reconcile_provider_account_generation now u generation reset db) (\<lambda>(_, db1).
          case db_accounts db1 u of
            None \<Rightarrow> Inr (Some False, db1)
          | Some s \<Rightarrow>
              if sa_generation s = Some generation \<and> sa_state s = Backoff
              then Inr (Some True, db1\<lparr>db_accounts := (db_accounts db1)(u \<mapsto> success_row s),
                          db_health := (db_health db1)(provider_account_health_component u := None)\<rparr>)
              else Inr (Some False, db1))))"

section \<open>The handlers of the service\<close>

definition PROVIDER_AUTH_ERROR_CODES :: "string list" where
  "PROVIDER_AUTH_ERROR_CODES =
     [''unauthorized'', ''unauthorized_account'', ''bad_api_key'', ''invalid_api_key'', ''user_not_authorized'']"

definition provider_auth_error :: "string \<Rightarrow> bool" where
  "provider_auth_error code = (map lower_char code \<in> set PROVIDER_AUTH_ERROR_CODES)"

definition mark_health :: "string \<Rightarrow> string \<Rightarrow> string option \<Rightarrow> queue_db \<Rightarrow> queue_db" where
  "mark_health component status code db = db\<lparr>db_health := (db_health db)(component \<mapsto> (status, code))\<rparr>"

record account_report =
  ar_account_uuid :: uuid
  ar_status :: string
  ar_code :: string
  ar_generation :: "int option"

definition handle_provider_account_error ::
  "timestamp \<Rightarrow> (int \<Rightarrow> int) \<Rightarrow> uuid \<Rightarrow> zulip_error \<Rightarrow> int option \<Rightarrow> queue_db \<Rightarrow>
     (bool \<times> account_report option) result \<times> queue_db" where
  "handle_provider_account_error now random u err gen db =
     (let authentication = provider_auth_error (ze_code err);
          code = (if authentication then ''unauthorized_account'' else ze_code err);
          generation = (case gen of None \<Rightarrow> ze_generation err | Some g \<Rightarrow> Some g)
      in case (case generation of
                 None \<Rightarrow> Inr (None, db)
               | Some g \<Rightarrow>
                   if authentication \<or> ze_retryable err
                   then record_provider_account_failure now random u g code (ze_retryable err \<and> \<not> authentication) db
                   else Inr (None, db)) of
           Inl x \<Rightarrow> (Inl x, db)
         | Inr (recorded, db1) \<Rightarrow>
             let sticky = (case recorded of None \<Rightarrow> False | Some s \<Rightarrow> sa_state s = Auth_Required);
                 authentication' = (authentication \<or> sticky);
                 code' = (if sticky then ''unauthorized_account'' else code)
             in if \<not> authentication' \<and> \<not> ze_retryable err then (Inr (False, None), db1)
                else if recorded = None then (Inr (authentication', None), db1)
                else (Inr (authentication', Some \<lparr>ar_account_uuid = u,
                        ar_status = (if authentication' then ''auth_required'' else ''degraded''),
                        ar_code = code', ar_generation = generation\<rparr>),
                      mark_health (provider_account_health_component u) ''degraded'' (Some code') db1))"

definition record_account_success_handler :: "timestamp \<Rightarrow> success_handler" where
  "record_account_success_handler now u gen db =
     (case gen of
        None \<Rightarrow> (Inr (), db)
      | Some g \<Rightarrow>
          (case record_provider_account_success now u g db of
             Inl x \<Rightarrow> (Inl x, db)
           | Inr (_, db') \<Rightarrow> (Inr (), db')))"

text \<open>The scheduler as the service builds it (\<open>service.py\<close>, lines 534 and 535).\<close>

definition service_env :: "timestamp \<Rightarrow> (int \<Rightarrow> int) \<Rightarrow> sched_env \<Rightarrow> sched_env" where
  "service_env now random e =
     e\<lparr>en_failed := Some (\<lambda>u err g db.
          case handle_provider_account_error now random u err g db of
            (Inl x, db') \<Rightarrow> (Inl x, db')
          | (Inr (authentication, _), db') \<Rightarrow> (Inr authentication, db')),
       en_succeeded := Some (record_account_success_handler now)\<rparr>"

section \<open>The breaker leaves the queue alone\<close>

named_theorems breaker_queue \<open>breaker transactions keep the tables of the queue\<close>

lemma reconcile_generation_queue [breaker_queue]:
  "reconcile_provider_account_generation now u generation reset db = Inr ((), db') \<Longrightarrow> same_queue db db'"
  by (auto simp: reconcile_provider_account_generation_def reset_provider_projection_def same_queue_def Let_def
      split: if_splits)

lemma failure_queue [breaker_queue]:
  "record_provider_account_failure now random u g code retryable db = Inr (r, db') \<Longrightarrow> same_queue db db'"
  by (auto simp: record_provider_account_failure_def bindE_eq_Inr Let_def same_queue_def
      split: option.splits if_splits dest!: reconcile_generation_queue)

lemma success_queue [breaker_queue]:
  "record_provider_account_success now u g db = Inr (r, db') \<Longrightarrow> same_queue db db'"
  by (auto simp: record_provider_account_success_def bindE_eq_Inr same_queue_def
      split: option.splits if_splits dest!: reconcile_generation_queue)

lemma mark_health_queue [simp]: "same_queue db (mark_health component status code db') = same_queue db db'"
  by (simp add: same_queue_def mark_health_def)

lemma error_handler_queue:
  "handle_provider_account_error now random u err g db = (r, db') \<Longrightarrow> same_queue db db'"
  by (auto simp: handle_provider_account_error_def Let_def split: option.splits if_splits sum.splits prod.splits
      dest!: failure_queue)

lemma success_handler_queue:
  "record_account_success_handler now u g db = (r, db') \<Longrightarrow> same_queue db db'"
  by (auto simp: record_account_success_handler_def split: option.splits sum.splits prod.splits dest!: success_queue)

interpretation service: account_handlers "service_env now random e" for now random e
proof unfold_locales
  show "same_queue db (snd (account_failed (service_env now random e) u err g db))" for db u err g
    using error_handler_queue [of now random u err g db]
    by (auto simp: account_failed_def service_env_def split: prod.splits sum.splits)
  show "same_queue db (snd (account_succeeded (service_env now random e) u g db))" for db u g
    using success_handler_queue [of now u g db] by (auto simp: account_succeeded_def service_env_def)
      (metis prod.collapse)
qed

end
