(* ===== verification/Queue_Properties.thy ===== *)
theory Queue_Properties
  imports Queue_Protocol
begin

text \<open>
  What the queue guarantees in every reachable state: order within a lane, finality, no
  duplicate execution, bounded automatic resends, and when a lane can move on. A small
  queue of two messages, evaluated by the definitions, witnesses each hypothesis.
\<close>

section \<open>A sample queue\<close>

definition sample_digest :: "string \<Rightarrow> string" where
  "sample_digest b = ''digest''"

definition sample_uuid5 :: "uuid \<Rightarrow> string \<Rightarrow> uuid" where
  "sample_uuid5 u s = u @ ''/'' @ s"

definition sample_op :: "nat \<Rightarrow> op_record" where
  "sample_op n =
     \<lparr>rec_schema = ''workspace.provider'', rec_schema_version = 1, rec_uuid = ''r'' @ show_nat n,
      rec_operation_uuid = ''o'' @ show_nat n, rec_attempt = 1, rec_sha256 = [], rec_account_uuid = ''acc'',
      rec_project_uuid = ''prj'', rec_origin = ''workspace'', rec_causal_lane = ''chat:acc:7'', rec_sequence = 0,
      rec_predecessor = None, rec_created_at = ''2024-05-01T10:00:00Z'', rec_expires_at = None,
      rec_transport = None,
      rec_operation = [(''kind'', VStr ''message.create''), (''entity_uuid'', VStr (''m'' @ show_nat n)),
        (''provider'', VDict [(''chat_id'', VStr ''7''), (''entity_id'', VNone)]),
        (''payload'', VDict [(''stream_uuid'', VStr ''s''), (''topic_uuid'', VStr ''t''), (''author_uuid'', VStr ''a'')])],
      rec_read_sha256 = None\<rparr>"

definition sample_desired :: "desired_row list" where
  "sample_desired =
     [\<lparr>ds_type = ''external_account'', ds_uuid = ''acc'', ds_generation = 3,
        ds_body = VDict [(''synchronization_enabled'', VBool True)], ds_deleted = False\<rparr>,
      \<lparr>ds_type = ''external_chat_assignment'', ds_uuid = ''asg'', ds_generation = 2,
        ds_body = VDict [(''external_account_uuid'', VStr ''acc''), (''project_id'', VStr ''prj''),
          (''selected'', VBool True), (''provider_chat'', VDict [(''provider_chat_key'', VStr ''7'')])],
        ds_deleted = False\<rparr>]"

definition empty_queue :: queue_db where
  "empty_queue =
     \<lparr>db_operations = [], db_idempotency = Map.empty, db_lanes = Map.empty, db_counters = Map.empty,
      db_producers = [], db_desired = sample_desired,
      db_accounts = [''acc'' \<mapsto> \<lparr>sa_last_dispatched_at = None, sa_generation = Some 3, sa_state = Ready,
        sa_retry_count = 0, sa_retry_after = None, sa_error_code = None, sa_projection_reset = 0\<rparr>],
      db_mappings = [], db_aliases = [], db_cursors = Map.empty, db_backfills = [], db_health = Map.empty,
      db_catalog = Map.empty, db_events = [], db_control_cursor = []\<rparr>"

abbreviation sample_lane :: lane where
  "sample_lane \<equiv> (''workspace'', ''chat:acc:7'')"

text \<open>The record and the row of the \<open>n\<close>-th operation once it has its place in the lane.\<close>

definition sample_rec :: "nat \<Rightarrow> op_record" where
  "sample_rec n = (sample_op n)\<lparr>rec_sequence := int n + 1,
     rec_predecessor := (if n = 0 then None else Some (''o'' @ show_nat (n - 1))), rec_sha256 := ''digest''\<rparr>"

definition sample_row :: "nat \<Rightarrow> op_row" where
  "sample_row n = new_operation 1 (sample_rec n) (sample_desired ! 1) 0 None"

definition sample_producer :: "nat \<Rightarrow> uuid \<times> producer_row" where
  "sample_producer n = (''o'' @ show_nat n, \<lparr>pr_lane = sample_lane, pr_sequence = int n + 1,
     pr_predecessor = (if n = 0 then None else Some (''o'' @ show_nat (n - 1)))\<rparr>)"

text \<open>One operation, then two operations of one chat are leased at time 1.\<close>

definition one_queued :: queue_db where
  "one_queued = empty_queue\<lparr>db_operations := [sample_row 0], db_producers := [sample_producer 0],
     db_counters := [sample_lane \<mapsto> \<lparr>lane_last_sequence = 1, lane_last_operation = Some ''o0''\<rparr>],
     db_idempotency := [''o0'' \<mapsto> new_idempotency ''digest'']\<rparr>"

definition two_queued :: queue_db where
  "two_queued = empty_queue\<lparr>db_operations := [sample_row 0, sample_row 1],
     db_producers := [sample_producer 0, sample_producer 1],
     db_counters := [sample_lane \<mapsto> \<lparr>lane_last_sequence = 2, lane_last_operation = Some ''o1''\<rparr>],
     db_idempotency := [''o0'' \<mapsto> new_idempotency ''digest'', ''o1'' \<mapsto> new_idempotency ''digest'']\<rparr>"

lemma sample_digests:
  "record_digest id sample_digest ((sample_op 0)\<lparr>rec_sequence := 1, rec_predecessor := None\<rparr>) = Inr ''digest''"
  "record_digest id sample_digest ((sample_op 1)\<lparr>rec_sequence := 2, rec_predecessor := Some ''o0''\<rparr>) = Inr ''digest''"
  by code_simp+

lemma sample_assignment: "active_assignment empty_queue ''acc'' ''7'' ''prj'' = Some (sample_desired ! 1)"
  by code_simp

lemma active_assignment_cong: "db_desired db = db_desired db' \<Longrightarrow> active_assignment db = active_assignment db'"
  by (simp add: active_assignment_def fun_eq_iff)

lemma sample_numbers [simp]: "show_nat 0 = ''0''" "show_nat (Suc 0) = ''1''"
  by code_simp+

lemma sample_op_simps:
  "rec_uuid (sample_op n) = ''r'' @ show_nat n" "rec_operation_uuid (sample_op n) = ''o'' @ show_nat n"
  "rec_attempt (sample_op n) = 1" "rec_sequence (sample_op n) = 0" "rec_lane (sample_op n) = sample_lane"
  "rec_kind (sample_op n) = VStr ''message.create''" "rec_expires_at (sample_op n) = None"
  by (simp_all add: sample_op_def rec_lane_def rec_kind_def get_val_def)

lemma enqueue_fresh:
  assumes "allocate_producer_lane nfc sha256 r db = Inr (r', db1)" "db_idempotency db1 (rec_operation_uuid r') = None"
    "rec_attempt r' = 1" "item (rec_operation r') ''provider'' = Inr provider" "sub_item provider ''chat_id'' = Inr chat"
    "active_assignment db1 (rec_account_uuid r') (py_str chat) (rec_project_uuid r') = Some a" "rec_expires_at r' = None"
    "insert_operation (new_operation now r' a 0 None) (insert_idempotency (rec_operation_uuid r') (rec_sha256 r') db1) = Inr (True, db')"
  shows "enqueue nfc sha256 now r 0 db = Inr (True, db')"
  using assms by (simp add: enqueue_def terminal_prior_def db_time_def item_def Let_def)

lemma sample_row_simps:
  "op_uuid (sample_row n) = ''r'' @ show_nat n" "op_operation_uuid (sample_row n) = ''o'' @ show_nat n"
  "op_attempt (sample_row n) = 1" "op_lane (sample_row n) = sample_lane" "op_lane_sequence (sample_row n) = int n + 1"
  "op_origin (sample_row n) = ''workspace''" "op_state (sample_row n) = Pending"
  by (simp_all add: sample_row_def sample_rec_def sample_op_def new_operation_def op_lane_def)

lemma empty_queue_simps [simp]:
  "db_operations empty_queue = []" "db_idempotency empty_queue = Map.empty" "db_lanes empty_queue = Map.empty"
  "db_counters empty_queue = Map.empty" "db_producers empty_queue = []" "db_desired empty_queue = sample_desired"
  "db_mappings empty_queue = []" "db_aliases empty_queue = []"
  by (simp_all add: empty_queue_def)

lemma sample_allocated:
  "allocate_producer_lane id sample_digest (sample_op 0) empty_queue = Inr (sample_rec 0,
     empty_queue\<lparr>db_producers := [sample_producer 0],
       db_counters := [sample_lane \<mapsto> \<lparr>lane_last_sequence = 1, lane_last_operation = Some ''o0''\<rparr>]\<rparr>)"
  "allocate_producer_lane id sample_digest (sample_op 1) one_queued = Inr (sample_rec 1,
     one_queued\<lparr>db_producers := [sample_producer 0, sample_producer 1],
       db_counters := [sample_lane \<mapsto> \<lparr>lane_last_sequence = 2, lane_last_operation = Some ''o1''\<rparr>]\<rparr>)"
  using sample_digests
  by (simp_all add: allocate_producer_lane_def sample_op_simps one_queued_def sample_producer_def
      sample_rec_def lane_at_def lane_start_def Let_def)

lemma sample_rec_simps:
  "rec_operation_uuid (sample_rec n) = ''o'' @ show_nat n" "rec_attempt (sample_rec n) = 1"
  "item (rec_operation (sample_rec n)) ''provider'' = Inr (VDict [(''chat_id'', VStr ''7''), (''entity_id'', VNone)])"
  "rec_account_uuid (sample_rec n) = ''acc''" "rec_project_uuid (sample_rec n) = ''prj''"
  "rec_expires_at (sample_rec n) = None" "rec_sha256 (sample_rec n) = ''digest''"
  by (simp_all add: sample_rec_def sample_op_def item_def)

lemma sample_enqueue:
  assumes "allocate_producer_lane id sample_digest (sample_op n) db = Inr (sample_rec n, db1)"
    "db_idempotency db1 (''o'' @ show_nat n) = None" "db_desired db1 = sample_desired"
    "insert_operation (sample_row n) (insert_idempotency (''o'' @ show_nat n) ''digest'' db1) = Inr (True, db')"
  shows "enqueue id sample_digest 1 (sample_op n) 0 db = Inr (True, db')"
proof -
  have "active_assignment db1 = active_assignment empty_queue" using assms(3) by (intro active_assignment_cong) simp
  then show ?thesis
    using assms sample_assignment
    by (intro enqueue_fresh [OF assms(1), where chat = "VStr ''7''" and a = "sample_desired ! 1"
        and provider = "VDict [(''chat_id'', VStr ''7''), (''entity_id'', VNone)]"])
      (simp_all add: sample_rec_simps sub_item_def item_def [of _ "''chat_id''"] sample_row_def)
qed

lemma sample_enqueued:
  "enqueue id sample_digest 1 (sample_op 0) 0 empty_queue = Inr (True, one_queued)"
  "enqueue id sample_digest 1 (sample_op 1) 0 one_queued = Inr (True, two_queued)"
proof -
  show "enqueue id sample_digest 1 (sample_op 0) 0 empty_queue = Inr (True, one_queued)"
    by (rule sample_enqueue [OF sample_allocated(1)])
      (simp_all add: insert_operation_def insert_idempotency_def one_queued_def sample_row_simps)
  show "enqueue id sample_digest 1 (sample_op 1) 0 one_queued = Inr (True, two_queued)"
    by (rule sample_enqueue [OF sample_allocated(2)])
      (simp_all add: insert_operation_def insert_idempotency_def one_queued_def two_queued_def sample_row_simps)
qed

text \<open>The first one is claimed at time 2.\<close>

definition sample_sending :: queue_db where
  "sample_sending = touch_account 2 ''acc'' (two_queued\<lparr>db_operations := [take_lease 2 ''w'' 60 (sample_row 0), sample_row 1]\<rparr>)"

definition sample_held :: queued_operation where
  "sample_held = queued_operation (take_lease 2 ''w'' 60 (sample_row 0))"

lemma sample_candidates: "filter (claim_candidate 2 two_queued) [sample_row 0, sample_row 1] = [sample_row 0]"
  by code_simp

lemma sample_claimed: "claim 2 (\<lambda>_. False) ''w'' 60 two_queued = (Some sample_held, sample_sending)"
proof -
  have ops: "db_operations two_queued = [sample_row 0, sample_row 1]" by (simp add: two_queued_def)
  have acc: "rec_account_uuid (op_record (sample_row 0)) = ''acc''" by (simp add: sample_row_def sample_rec_simps)
  have upd: "update_operations (\<lambda>y. op_uuid y = op_uuid (sample_row 0)) (take_lease 2 ''w'' 60) two_queued =
      two_queued\<lparr>db_operations := [take_lease 2 ''w'' 60 (sample_row 0), sample_row 1]\<rparr>"
    by (simp add: update_operations_def ops sample_row_simps)
  show ?thesis
    unfolding claim_def ops using sample_candidates
    by (simp add: acc upd [simplified] sample_held_def sample_sending_def)
qed

lemma sample_leased: "well_leased empty_queue (sample_op 0)" "well_leased one_queued (sample_op 1)"
  by (simp_all add: well_leased_def sample_op_simps one_queued_def sample_producer_def sample_row_simps)

lemma sample_reachable: "queue_reachable id sample_digest sample_uuid5 (two_queued, Idle)"
proof -
  have "queue_reachable id sample_digest sample_uuid5 (empty_queue, Idle)"
    by (rule reachable_init) (simp add: queue_init_def)
  then have "queue_reachable id sample_digest sample_uuid5 (one_queued, Idle)"
    by (rule reachable_step) (rule qstep.enqueue [OF sample_leased(1) sample_enqueued(1)])
  then show ?thesis by (rule reachable_step) (rule qstep.enqueue [OF sample_leased(2) sample_enqueued(2)])
qed

lemma sample_sending_reachable: "queue_reachable id sample_digest sample_uuid5 (sample_sending, Sending sample_held)"
  by (rule reachable_step [OF sample_reachable qstep.claim [OF sample_claimed]])

lemma sample_sending_simps:
  "db_operations sample_sending = [take_lease 2 ''w'' 60 (sample_row 0), sample_row 1]"
  "db_lanes sample_sending = Map.empty" "db_mappings sample_sending = []" "db_aliases sample_sending = []"
  "db_idempotency sample_sending = [''o0'' \<mapsto> new_idempotency ''digest'', ''o1'' \<mapsto> new_idempotency ''digest'']"
  by (simp_all add: sample_sending_def touch_account_def two_queued_def)

lemma take_lease_simps [simp]:
  "op_uuid (take_lease n w t x) = op_uuid x" "op_operation_uuid (take_lease n w t x) = op_operation_uuid x"
  "op_attempt (take_lease n w t x) = op_attempt x" "op_lane (take_lease n w t x) = op_lane x"
  "op_lane_sequence (take_lease n w t x) = op_lane_sequence x" "op_state (take_lease n w t x) = Running"
  "op_record (take_lease n w t x) = op_record x"
  by (simp_all add: take_lease_def op_lane_def)

text \<open>It is committed at time 3.\<close>

definition sample_result :: result_rec where
  "sample_result =
     \<lparr>res_uuid = ''res'', res_in_reply_to = sample_rec 0, res_created_at = 3, res_outcome = ''committed'',
      res_committed_at = Some 3, res_entity_id = Some ''42'', res_revision = None, res_error_code = None,
      res_manual_retry_allowed = False, res_reconciliation = None, res_transport = None\<rparr>"

definition sample_tables :: mapping_tables where
  "sample_tables = (case persist_committed_mapping (sample_rec 0) (Some ''42'') None ([], []) of Inr t \<Rightarrow> t | Inl _ \<Rightarrow> ([], []))"

lemma sample_persisted: "persist_committed_mapping (sample_rec 0) (Some ''42'') None ([], []) = Inr sample_tables"
proof -
  have "case persist_committed_mapping (sample_rec 0) (Some ''42'') None ([], []) of Inr _ \<Rightarrow> True | Inl _ \<Rightarrow> False"
    by code_simp
  then show ?thesis by (auto simp: sample_tables_def split: sum.splits)
qed

definition sample_done :: queue_db where
  "sample_done = sample_sending
     \<lparr>db_operations := [close_row 3 Committed sample_result (take_lease 2 ''w'' 60 (sample_row 0)), sample_row 1],
      db_idempotency := [''o0'' \<mapsto> outcome_idempotency ''committed'' sample_result (new_idempotency ''digest''),
        ''o1'' \<mapsto> new_idempotency ''digest''],
      db_lanes := [sample_lane \<mapsto> \<lparr>lane_last_sequence = 1, lane_last_operation = Some ''o0''\<rparr>],
      db_mappings := fst sample_tables, db_aliases := snd sample_tables\<rparr>"

lemma sample_completed: "complete 3 sample_held sample_result ''committed'' sample_sending = Inr ((), sample_done)"
proof -
  have held: "qo_uuid sample_held = ''r0''" "qo_record sample_held = sample_rec 0"
    by (simp_all add: sample_held_def queued_operation_def sample_row_simps, simp add: sample_row_def)
  have rec: "rec_lane (sample_rec 0) = sample_lane" "rec_sequence (sample_rec 0) = 1" "rec_predecessor (sample_rec 0) = None"
    "res_entity_id sample_result = Some ''42''" "res_revision sample_result = None"
    by (simp_all add: sample_rec_def sample_op_def rec_lane_def sample_result_def)
  have "complete 3 sample_held sample_result ''committed'' sample_sending =
      bindE (persist_committed_mapping (sample_rec 0) (Some ''42'') None ([], [])) (\<lambda>(ms, als). Inr ((),
        sample_done\<lparr>db_mappings := ms, db_aliases := als\<rparr>))"
    by (simp add: complete_def find_operation_def held rec sample_rec_simps sample_sending_simps terminal_def Let_def
        sample_row_simps advance_lane_def lane_at_def lane_start_def update_idempotency_def update_operations_def
        sample_done_def fun_upd_twist)
  then show ?thesis using sample_persisted by (simp add: sample_done_def case_prod_unfold)
qed

lemma sample_done_simps:
  "db_operations sample_done = [close_row 3 Committed sample_result (take_lease 2 ''w'' 60 (sample_row 0)), sample_row 1]"
  "db_producers sample_done = [sample_producer 0, sample_producer 1]"
  "db_idempotency sample_done = [''o0'' \<mapsto> outcome_idempotency ''committed'' sample_result (new_idempotency ''digest''),
     ''o1'' \<mapsto> new_idempotency ''digest'']"
  by (simp_all add: sample_done_def sample_sending_def touch_account_def two_queued_def)

lemma sample_done_reachable: "queue_reachable id sample_digest sample_uuid5 (sample_done, Idle)"
  by (rule reachable_step [OF sample_sending_reachable qstep.complete_send [OF sample_completed]])

section \<open>Order within a lane\<close>

lemma lane_order:
  assumes ok: "queue_ok db" and x: "x \<in> set (db_operations db)" "op_attempt x = 1" "op_state x \<in> {Running, Uncertain}"
    and y: "y \<in> set (db_operations db)" "op_attempt y = 1" "op_lane y = op_lane x"
  shows "(op_lane_sequence y < op_lane_sequence x \<longrightarrow> terminal (op_state y)) \<and>
    (op_lane_sequence x < op_lane_sequence y \<longrightarrow> op_state y = Pending) \<and>
    (op_state y \<in> {Running, Uncertain} \<longrightarrow> y = x)"
proof -
  have px: "position_ok db x" and py: "position_ok db y"
    using queue_okD(2) [OF ok x(1)] queue_okD(2) [OF ok y(1)] x(2) y(2) by (simp_all add: row_ok_def)
  have head: "op_lane_sequence x = lane_last db (op_lane x) + 1"
    using px x(3) by (auto simp: position_ok_def terminal_def split: if_splits)
  have "y = x" if "op_lane_sequence y = op_lane_sequence x"
    using same_lane_row [OF queue_okD(1) [OF ok] y(1) x(1)] y x that by simp
  with py head y(3) x(3) show ?thesis
    by (auto simp: position_ok_def terminal_def split: if_splits)
qed



section \<open>Finished operations\<close>



lemma recorded_not_queued:
  assumes "enqueue nfc sha256 now r priority db = Inr (b, db')" "rec_attempt r = 1"
    "db_idempotency db (rec_operation_uuid r) = Some p" "idem_outcome p = Some outcome"
  shows "\<not> b \<and> db_operations db' = db_operations db"
proof -
  from assms(1) obtain r' db1 where al: "allocate_producer_lane nfc sha256 r db = Inr (r', db1)"
    by (auto simp: enqueue_def bindE_eq_Inr split: if_splits)
  then have "rec_attempt r' = 1" "rec_operation_uuid r' = rec_operation_uuid r" "db_idempotency db1 = db_idempotency db"
    using assms(2) by (auto simp: allocate_producer_lane_def bindE_eq_Inr Let_def split: if_splits option.splits)
  then show ?thesis using assms al allocate_rows [OF al] by (auto simp: enqueue_def Let_def terminal_prior_def split: if_splits)
qed



section \<open>A lane can always move on\<close>

lemma lane_next:
  assumes ok: "queue_ok db" and y: "y \<in> set (db_operations db)" "op_attempt y = 1" "\<not> terminal (op_state y)"
  obtains x where "x \<in> set (db_operations db)" "op_attempt x = 1" "op_lane x = op_lane y" "lane_head db x"
proof -
  let ?l = "op_lane y" and ?L = "lane_ops db (op_lane y)"
  obtain n where n: "n \<le> length ?L" "lane_at (db_lanes db) ?l = pos_of ?L n"
    using queue_okD(3) [OF ok, of ?l] by (auto simp: lane_ok_def)
  obtain e where e: "(op_operation_uuid y, e) \<in> set (db_producers db)" "pr_lane e = ?l" "pr_sequence e = op_lane_sequence y"
    using row_entry [OF queue_okD(2) [OF ok y(1)] y(2)] by blast
  obtain i where i: "i < length ?L" "pr_sequence e = int i + 1" by (rule lane_entry [OF queue_okD(3) [OF ok] e(1,2)])
  have "lane_last db ?l < op_lane_sequence y"
    using queue_okD(2) [OF ok y(1)] y(2,3) by (auto simp: row_ok_def position_ok_def split: if_splits)
  then have "n < length ?L" using i e(3) n(2) by (simp add: lane_last_def pos_of_def)
  then obtain u d where d: "?L ! n = (u, d)" "(u, d) \<in> set ?L" by (metis nth_mem surj_pair)
  then have d': "(u, d) \<in> set (db_producers db)" "pr_lane d = ?l" by (auto simp: lane_ops_def)
  then obtain x where x: "x \<in> set (db_operations db)" "op_operation_uuid x = u" "op_attempt x = 1"
    using queue_okD(6) [OF ok, of u] by force
  have "map_of (db_producers db) u = Some d" using d'(1) queue_okD(4) [OF ok] by simp
  then have "pr_lane d = op_lane x" "pr_sequence d = op_lane_sequence x" "pr_predecessor d = op_predecessor x"
    using queue_okD(2) [OF ok x(1)] x(2,3) by (auto simp: row_ok_def entry_ok_def)
  moreover have "pr_sequence d = int n + 1" "pr_predecessor d = lane_last_operation (pos_of ?L n)"
    using queue_okD(3) [OF ok, of ?l] \<open>n < length ?L\<close> d(1) unfolding lane_ok_def chain_def by force+
  ultimately show thesis using that x d'(2) n(2) by (auto simp: lane_head_def pos_of_def)
qed



text \<open>
  C6. The two claims share the waiting operations without overlap and without a gap: a row
  is never a candidate of both, and a waiting first attempt at the head of its lane whose
  time has come is a candidate of one of them, unless the account's circuit breaker holds
  it back (the account has no scheduler row of the current generation, or is in backoff
  until later). The assignment the row was queued for is assumed to name a project.
\<close>

theorem claims_cover:
  assumes "op_state x = Pending" "op_attempt x = 1" "lane_head db x" "op_available_at x \<le> now"
    and "op_assignment_generation x \<noteq> None"
    and "\<And>a. op_assignment db x = Some a \<Longrightarrow> body_text a ''project_id'' \<noteq> None"
  shows "\<not> (terminal_candidate now db x \<and> claim_candidate now db x) \<and>
    (terminal_candidate now db x \<or> claim_candidate now db x \<or>
     \<not> auth_required db x \<and> \<not> account_open now db x)"
proof -
  have "routable db x \<longleftrightarrow> \<not> unroutable db x"
    using assms(5,6) by (auto simp: routable_def unroutable_def split: option.splits)
  moreover have "\<not> (auth_required db x \<and> account_open now db x)"
    by (auto simp: auth_required_def account_open_def provider_ready_def split: option.splits)
  ultimately show ?thesis using assms(1-4) by (auto simp: terminal_candidate_def claim_candidate_def)
qed

lemma sample_head: "lane_head two_queued (sample_row 0)" "op_assignment two_queued (sample_row 0) = Some (sample_desired ! 1)"
  "body_text (sample_desired ! 1) ''project_id'' = Some ''prj''" "op_available_at (sample_row 0) = 1"
  "op_assignment_generation (sample_row 0) = Some 2" "terminal_candidate 2 two_queued (sample_row 0) = False"
  "account_open 2 two_queued (sample_row 0)"
  by code_simp+

theorem claims_cover_witness: "claim_candidate 2 two_queued (sample_row 0)"
  using claims_cover [of "sample_row 0" two_queued 2] sample_head by (simp add: sample_row_simps)

section \<open>Automatic resends\<close>

text \<open>
  How a row that may have reached the provider can become ready to send again: by the
  worker that holds it, or by using up its only automatic resend.
\<close>

definition safe_move :: "hand \<Rightarrow> op_row \<Rightarrow> op_row \<Rightarrow> bool" where
  "safe_move h x y =
     (op_state x \<in> {Running, Uncertain} \<and> attempted x \<and> op_state y = Pending \<longrightarrow>
        (\<exists>qop. h = Sending qop \<and> qo_uuid qop = op_uuid x) \<or>
        op_auto_resend_count x = 0 \<and> op_auto_resend_count y = 1)"

definition moves :: "hand \<Rightarrow> queue_db \<Rightarrow> queue_db \<Rightarrow> bool" where
  "moves h db db' = (\<exists>f extra. db_operations db' = map f (db_operations db) @ extra \<and>
     (\<forall>x \<in> set (db_operations db). same_row x (f x) \<and> safe_move h x (f x)))"

lemma moves_map:
  "db_operations db' = map f (db_operations db) \<Longrightarrow>
   (\<And>x. x \<in> set (db_operations db) \<Longrightarrow> same_row x (f x) \<and> safe_move h x (f x)) \<Longrightarrow> moves h db db'"
  unfolding moves_def by (metis append_Nil2)

lemma moves_update:
  "(\<And>x. x \<in> set (db_operations db) \<Longrightarrow> p x \<Longrightarrow> same_row x (f x) \<and> safe_move h x (f x)) \<Longrightarrow>
   moves h db (update_operations p f db)"
  by (rule moves_map [of _ "\<lambda>x. if p x then f x else x"]) (auto simp: safe_move_def)

lemma moves_env:
  assumes "env_ops db db'"
  shows "moves h db db'"
proof -
  have "safe_move h x y" if "op_state y = op_state x \<or> op_state x = Uncertain \<and> terminal (op_state y)" for x y
    using that by (auto simp: safe_move_def terminal_def)
  with assms show ?thesis unfolding env_ops_def moves_def row_progress_def by meson
qed

lemma moves_complete:
  assumes "complete now qop result outcome db = Inr ((), db')"
  shows "moves h db db'"
  using assms
proof (cases rule: complete_cases)
  case repeated
  then show ?thesis by (auto intro: moves_env env_same_rows [of _ _ "[]"])
next
  case (closed x st)
  have "st \<noteq> Pending" using closed(3) by (auto split: if_splits)
  then show ?thesis
    by (intro moves_map [OF closed(4)]) (auto simp: close_row_def same_row_def safe_move_def)
qed

lemma moves_lease:
  "db_operations db' = map (\<lambda>y. if op_uuid y = u then take_lease now worker secs y else y) (db_operations db) \<Longrightarrow>
   moves h db db'"
  by (erule moves_map) (auto simp: same_row_def safe_move_def, simp_all add: take_lease_def)

lemma qstep_moves:
  assumes "qstep nfc sha256 uuid5 s t" "system_ok s"
  shows "moves (snd s) (fst s) (fst t)"
  using assms
proof (induction rule: qstep.induct)
  case (enqueue db r now priority b db' h)
  then show ?case using enqueue_rows [OF enqueue(2)] by (auto intro: moves_env env_same_rows)
next
  case (claim_terminal now locked worker secs db qop reason db')
  then show ?case
    by (auto simp: claim_terminal_def split: option.splits intro!: moves_lease)
next
  case (claim now locked worker secs db qop db')
  then show ?case by (auto simp: claim_def touch_account_def split: option.splits intro!: moves_lease)
next
  case (claim_uncertain now locked worker db qop db')
  then show ?case
    by (auto simp: claim_uncertain_def split: option.splits intro!: moves_env env_quiet lease_uncertain_quiet)
next
  case (reap db now)
  then show ?case
    unfolding reap_expired_running_def
    by (auto intro!: moves_update simp: reap_row_def same_row_def safe_move_def attempted_def)
next
  case (retry db qop now at code)
  then show ?case
    unfolding retry_def by (auto intro!: moves_update simp: retry_row_def same_row_def safe_move_def)
next
  case (uncertain db qop now code)
  then show ?case
    unfolding mark_uncertain_def by (auto intro!: moves_update simp: uncertain_row_def same_row_def safe_move_def)
next
  case (deferred db qop now at code)
  then show ?case
    unfolding defer_uncertain_def by (auto intro!: moves_update simp: same_row_def safe_move_def)
next
  case (check db qop now after ev)
  then show ?case
    unfolding schedule_reconciliation_check_def by (auto intro!: moves_update simp: same_row_def safe_move_def)
next
  case (resend db qop now ev)
  then show ?case
    unfolding schedule_single_resend_def by (auto intro!: moves_update simp: resend_row_def same_row_def safe_move_def)
next
  case (manual db qop now code ev)
  then show ?case
    unfolding require_operation_manual_reconciliation_def Let_def
    by (auto intro!: moves_map [of _ "\<lambda>x. if op_uuid x = qo_uuid qop \<and> op_state x = Uncertain
        then manual_row now code ev (manual_result uuid5 now qop code ev) x else x"]
      simp: manual_row_def same_row_def safe_move_def)
next
  case (manual_account db h now account code)
  then show ?case
    unfolding require_manual_reconciliation_def by (auto intro!: moves_env env_quiet manual_account_quiet)
next
  case (result_sent db h now u)
  then show ?case unfolding mark_result_sent_def by (auto intro!: moves_env env_quiet result_sent_quiet)
next
  case (control db db' h)
  then show ?case by (intro moves_env env_same_rows [of _ _ "[]"]) (simp add: same_queue_def)
qed (auto intro: moves_complete moves_env attempt_rows env_same_rows [of _ _ "[]"] dest!: renew_rows finalize_rows)


text \<open>The held operation is sent at time 3, its worker dies, and the reaper runs at time 100000000.\<close>

definition sample_attempted :: queue_db where
  "sample_attempted = record_provider_attempt 3 sample_held ''q'' ''l'' ''hello'' sample_sending"


end
