(* ===== verification/Scheduler_Properties.thy ===== *)
theory Scheduler_Properties
  imports Account_Breaker Queue_Properties
begin

text \<open>
  What the scheduler guarantees as the service runs it: its passes are runs of the queue,
  leave no lease behind, write only safe error codes, retry within bounds and settle an
  uncertain send after a bounded number of checks; and what two gaps of the code allow.
\<close>

section \<open>Refinement\<close>

text \<open>
  C31. Every pass of the scheduler, with the account handlers the service installs, is a
  run of the queue's step relation, whatever the adapter answers and wherever a call
  raises: from any database, what \<open>run_once\<close> and \<open>reconcile_once\<close> leave behind is reached
  by steps of the queue, with the worker's hand empty again.
\<close>

theorem scheduler_refines_queue:
  "(qstep nfc sha256 uuid5)\<^sup>*\<^sup>* (db, Idle) (snd (run_once (service_env now random e) db), Idle) \<and>
   (qstep nfc sha256 uuid5)\<^sup>*\<^sup>* (db, Idle) (snd (reconcile_once (service_env now random e) uuid5 db), Idle)"
  by (metis prod.collapse service.run_once_steps service.reconcile_once_steps)

section \<open>Leases\<close>

definition running :: "queue_db \<Rightarrow> uuid \<Rightarrow> bool" where
  "running db u = (\<exists>x \<in> set (db_operations db). op_uuid x = u \<and> op_state x = Running)"

lemma running_same_queue: "same_queue db db' \<Longrightarrow> running db' u = running db u"
  by (simp add: running_def same_queue_def)

lemma running_leased:
  "db_operations db' = map (\<lambda>y. if op_uuid y = op_uuid x then take_lease now worker secs y else y) (db_operations db) \<Longrightarrow>
   qo_uuid qop = op_uuid x \<Longrightarrow> running db' u \<Longrightarrow> running db u \<or> u = qo_uuid qop"
  by (auto simp: running_def take_lease_def split: if_splits)

lemma running_claimed:
  assumes "claim now locked worker secs db = (Some qop, db')" "running db' u"
  shows "running db u \<or> u = qo_uuid qop"
proof -
  obtain x where x: "qop = queued_operation (take_lease now worker secs x)"
    "db_operations db' = map (\<lambda>y. if op_uuid y = op_uuid x then take_lease now worker secs y else y) (db_operations db)"
    using assms(1) by (auto simp: claim_def touch_account_def split: option.splits)
  from x(1) have "qo_uuid qop = op_uuid x" by (simp add: queued_operation_def take_lease_def)
  from running_leased [OF x(2) this assms(2)] show ?thesis .
qed

lemma running_claimed_terminal:
  assumes "claim_terminal now locked worker secs db = (Some (qop, reason), db')" "running db' u"
  shows "running db u \<or> u = qo_uuid qop"
proof -
  obtain x where x: "qop = queued_operation (take_lease now worker secs x)"
    "db_operations db' = map (\<lambda>y. if op_uuid y = op_uuid x then take_lease now worker secs y else y) (db_operations db)"
    using assms(1) by (auto simp: claim_terminal_def split: option.splits)
  from x(1) have "qo_uuid qop = op_uuid x" by (simp add: queued_operation_def take_lease_def)
  from running_leased [OF x(2) this assms(2)] show ?thesis .
qed

lemma running_update:
  "running (update_operations p f db) u \<longleftrightarrow>
   (\<exists>x \<in> set (db_operations db). op_uuid (if p x then f x else x) = u \<and> op_state (if p x then f x else x) = Running)"
  unfolding running_def update_operations_simps set_map bex_simps ..

lemma running_attempt: "running (record_provider_attempt now qop q l c db) u = running db u"
  unfolding record_provider_attempt_def running_update
  unfolding running_def by (intro bex_cong) (simp_all add: attempt_row_def)

lemma running_call: "call_provider e qop db = (out, ad, db') \<Longrightarrow> running db' u = running db u"
  by (auto simp: call_provider_def Let_def running_attempt split: outcome.splits option.splits)

lemma running_released:
  "running (retry now qop at code db) u \<Longrightarrow> running db u \<and> u \<noteq> qo_uuid qop"
  "running (mark_uncertain now qop code' db) u \<Longrightarrow> running db u \<and> u \<noteq> qo_uuid qop"
  by (auto simp: running_def retry_def retry_row_def mark_uncertain_def uncertain_row_def split: if_splits)

lemma running_finished:
  assumes "system_ok (db, Sending qop)" "finish e qop outcome commit code db = (Inr b, db')" "running db' u"
  shows "running db u \<and> u \<noteq> qo_uuid qop"
proof -
  have ok: "queue_ok db" and held: "holds db qop {Running}" using assms(1) by (auto simp: system_ok_def hand_ok_def)
  have "complete (en_clock e 9) qop (result_record (en_clock e 8) (en_uuid4 e) (qo_record qop) outcome commit code)
      outcome db = Inr ((), db')"
    using assms(2) by (auto simp: finish_def finally_run_def split: sum.splits)
  then show ?thesis
  proof (cases rule: complete_cases)
    case (repeated x)
    then show ?thesis
      using holds_row [OF ok held, of x] find_operation_Some [OF repeated(1)] by (auto simp: terminal_def)
  next
    case (closed x st)
    have "st \<noteq> Running" using closed(3) by (auto split: if_splits)
    with assms(3) closed(4) show ?thesis by (auto simp: running_def close_row_def split: if_splits)
  qed
qed

context account_handlers
begin

lemma steps_ok:
  assumes "system_ok s" "qstep nfc sha256 uuid5 s t"
  shows "system_ok t"
  using queue_inv.inv_step [OF assms] .

lemma send_failed_running:
  assumes ok: "system_ok (db, Sending qop)" and run: "send_failed e qop err ad db = (Inr b, db')" "running db' u"
  shows "running db u \<and> u \<noteq> qo_uuid qop"
proof -
  obtain a db1 where a: "account_failed e (rec_account_uuid (qo_record qop)) err (attempted_generation err ad) db = (a, db1)"
    by (metis surj_pair)
  have keep: "running db1 u = running db u"
    using running_same_queue [of db db1] failed_keeps [of db] a by (metis snd_conv)
  have "system_ok (db1, Sending qop)" using steps_ok [OF ok failed_step [OF a]] .
  then show ?thesis
    using run a keep running_released(1) [of _ qop _ _ db1 u] running_finished [of db1 qop e _ _ _ b db' u]
    by (cases a) (auto simp add: send_failed_def Let_def split: if_splits)
qed

lemma send_succeeded_running:
  assumes ok: "system_ok (db, Sending qop)" and run: "send_succeeded e qop ad target db = (Inr b, db')" "running db' u"
  shows "running db u \<and> u \<noteq> qo_uuid qop"
proof -
  obtain a db1 where a: "account_succeeded e (rec_account_uuid (qo_record qop)) (adapter_generation ad) db = (a, db1)"
    by (metis surj_pair)
  have keep: "running db1 u = running db u"
    using running_same_queue [of db db1] succeeded_keeps [of db] a by (metis snd_conv)
  have "system_ok (db1, Sending qop)" using steps_ok [OF ok succeeded_step [OF a]] .
  then show ?thesis
    using run a keep running_finished [of db1 qop e _ _ _ b db' u] by (cases a) (simp_all add: send_succeeded_def)
qed

lemma send_running:
  assumes ok: "system_ok (db, Sending qop)" and run: "send e qop db = (Inr b, db')" "running db' u"
  shows "running db u \<and> u \<noteq> qo_uuid qop"
proof -
  obtain out ad db1 where call: "call_provider e qop db = (out, ad, db1)" by (metis surj_pair)
  have ok1: "system_ok (db1, Sending qop)"
    by (rule queue_inv.inv_steps [OF call_provider_steps [OF call] ok])
  note keep = running_call [OF call]
  show ?thesis
  proof (cases "record_expired (en_clock e 3) (qo_record qop)")
    case (Inl x)
    with run show ?thesis by (simp add: send_def)
  next
    case (Inr late)
    show ?thesis
    proof (cases late)
      case True
      with run Inr show ?thesis using running_finished [OF ok, of e _ _ _ b db' u] by (simp add: send_def)
    next
      case False
      with run Inr call keep show ?thesis
        using send_failed_running [OF ok1, of _ ad b db' u] send_succeeded_running [OF ok1, of ad _ b db' u]
          running_released(2) [of _ qop _ db1 u]
        by (cases out) (auto simp add: send_def)
    qed
  qed
qed

lemma run_once_running:
  assumes ok: "queue_ok db" and run: "run_once e db = (Inr b, db')" "running db' u"
  shows "running (snd (reap_expired_running (en_clock e 0) db)) u"
proof -
  let ?db0 = "snd (reap_expired_running (en_clock e 0) db)"
  have ok0: "system_ok (?db0, Idle)"
    using steps_ok [OF _ qstep.reap] ok by (auto simp: system_ok_def hand_ok_def)
  obtain t db1 where t: "claim_terminal (en_clock e 1) (en_locked e) (en_worker e) 60 ?db0 = (t, db1)"
    by (metis surj_pair)
  obtain c db2 where c: "claim (en_clock e 2) (en_locked e) (en_worker e) 60 db1 = (c, db2)" by (metis surj_pair)
  show ?thesis
  proof (cases t)
    case (Some p)
    then obtain qop reason where p: "t = Some (qop, reason)" by (cases p) simp
    have "system_ok (db1, Sending qop)" by (rule steps_ok [OF ok0 qstep.claim_terminal [OF t [unfolded p]]])
    from running_finished [OF this, of e _ _ _ b db' u] run t p show ?thesis
      using running_claimed_terminal [OF t [unfolded p], of u] by (auto simp: run_once_def)
  next
    case None
    then have db1: "db1 = ?db0" using t claim_terminal_None by blast
    show ?thesis
    proof (cases c)
      case None
      then show ?thesis
        using run t c db1 claim_None [OF c [unfolded None]] \<open>t = None\<close> by (simp add: run_once_def)
    next
      case (Some qop)
      have "system_ok (db2, Sending qop)" by (rule steps_ok [OF ok0 qstep.claim [OF c [unfolded Some db1]]])
      from send_running [OF this, of b db' u] run t c Some \<open>t = None\<close> show ?thesis
        using running_claimed [OF c [unfolded Some db1], of u] by (auto simp: run_once_def)
    qed
  qed
qed

end

text \<open>
  A pass of the sending loop that returns leaves no lease behind: every operation that
  is running afterwards was running before it under a lease that had not lapsed, so the
  operation the pass worked on is finished, waiting or uncertain.
\<close>

lemma run_once_releases:
  assumes "queue_ok db" "run_once (service_env now random e) db = (Inr b, db')"
    and "y \<in> set (db_operations db')" "op_state y = Running"
  shows "\<exists>x \<in> set (db_operations db). op_uuid x = op_uuid y \<and> op_state x = Running \<and>
    \<not> lease_lapsed (en_clock e 0) x"
proof -
  have "running db' (op_uuid y)" using assms(3,4) by (auto simp: running_def)
  from service.run_once_running [OF assms(1,2) this] show ?thesis
    by (auto simp: running_def reap_expired_running_def reap_row_def service_env_def split: if_splits)
qed


text \<open>A provider that loses the answer, and a pass over the sample queue with it.\<close>

definition sample_adapter :: adapter where
  "sample_adapter =
     \<lparr>ad_generation = VInt 1, ad_prepare = (\<lambda>_ _ _ _. Done None), ad_apply = (\<lambda>_ _ _. Ambiguous ''lost''),
      ad_reconcile = (\<lambda>_ _ _. Done \<lparr>ev_checked_at = ''now'', ev_candidate_ids = [], ev_match_count = 0, ev_selected = None\<rparr>)\<rparr>"

definition sample_env :: sched_env where
  "sample_env =
     \<lparr>en_clock = (\<lambda>_. 2), en_locked = (\<lambda>_. False), en_worker = ''w'', en_uuid4 = ''res'', en_uniform = (\<lambda>m. m),
      en_adapters = (\<lambda>_. Done sample_adapter), en_failed = None, en_succeeded = None\<rparr>"

lemma sample_not_terminal: "claim_terminal 2 (\<lambda>_. False) ''w'' 60 two_queued = (None, two_queued)"
proof -
  have "filter (terminal_candidate 2 two_queued) [sample_row 0, sample_row 1] = []" by code_simp
  then show ?thesis by (simp add: claim_terminal_def two_queued_def)
qed

lemma sample_reaped: "snd (reap_expired_running 2 two_queued) = two_queued"
  by (simp add: reap_expired_running_def update_operations_def two_queued_def lease_lapsed_def sample_row_simps)

lemma sample_pass:
  "run_once (service_env 2 (\<lambda>m. m) sample_env) two_queued = (Inr True, mark_uncertain 2 sample_held ''lost'' sample_sending)"
proof -
  have "record_expired 2 (qo_record sample_held) = Inr False" by code_simp
  then show ?thesis
    by (simp add: run_once_def service_env_def sample_env_def sample_reaped sample_not_terminal sample_claimed
        send_def call_provider_def sample_adapter_def)
qed

section \<open>Error codes\<close>

definition RECONCILIATION_REASONS :: "string list" where
  "RECONCILIATION_REASONS = [''provider_history_unavailable'', ''no_match_after_auto_resend'', ''unsafe_provider_state'']"

definition safe_result :: "result_rec \<Rightarrow> bool" where
  "safe_result res =
     (case res_error_code res of None \<Rightarrow> True | Some c \<Rightarrow> c \<in> set (SAFE_ERROR_CODES @ RECONCILIATION_REASONS))"

definition safe_results :: "queue_db \<Rightarrow> bool" where
  "safe_results db = (\<forall>x \<in> set (db_operations db). \<forall>res. op_result x = Some res \<longrightarrow> safe_result res)"

lemma safe_record: "safe_result (result_record now u r outcome commit code)"
  by (auto simp: safe_result_def result_record_def SAFE_ERROR_CODES_def split: option.splits)

lemma safe_cong: "db_operations db' = db_operations db \<Longrightarrow> safe_results db' = safe_results db"
  by (simp add: safe_results_def)

lemma safe_same_queue: "same_queue db db' \<Longrightarrow> safe_results db' = safe_results db"
  by (simp add: safe_results_def same_queue_def)

lemma safe_update:
  assumes "safe_results db" "\<And>x. op_result (f x) = op_result x \<or> (\<exists>res. op_result (f x) = Some res \<and> safe_result res)"
  shows "safe_results (update_operations p f db)"
proof -
  have "safe_result res" if "x \<in> set (db_operations db)" "op_result (if p x then f x else x) = Some res" for x res
  proof (cases "p x")
    case True
    with that assms(2) [of x] assms(1) show ?thesis by (auto simp: safe_results_def)
  next
    case False
    with that assms(1) show ?thesis by (auto simp: safe_results_def)
  qed
  then show ?thesis unfolding safe_results_def update_operations_simps set_map by blast
qed

lemma safe_rows [simp]:
  "safe_results db \<Longrightarrow> safe_results (snd (reap_expired_running now db))"
  "safe_results db \<Longrightarrow> safe_results (record_provider_attempt now qop q l c db)"
  "safe_results db \<Longrightarrow> safe_results (retry now qop at code db)"
  "safe_results db \<Longrightarrow> safe_results (mark_uncertain now qop code db)"
  "safe_results db \<Longrightarrow> safe_results (defer_uncertain now qop at code db)"
  "safe_results db \<Longrightarrow> safe_results (schedule_reconciliation_check now qop at ev db)"
  "safe_results db \<Longrightarrow> safe_results (schedule_single_resend now qop ev db)"
  unfolding reap_expired_running_def record_provider_attempt_def retry_def mark_uncertain_def defer_uncertain_def
    schedule_reconciliation_check_def schedule_single_resend_def snd_conv
  by (erule safe_update, simp add: reap_row_def attempt_row_def retry_row_def uncertain_row_def resend_row_def)+

lemma safe_claims:
  "claim now locked worker secs db = (c, db') \<Longrightarrow> safe_results db \<Longrightarrow> safe_results db'"
  "claim_terminal now locked worker secs db = (t, db') \<Longrightarrow> safe_results db \<Longrightarrow> safe_results db'"
  "claim_uncertain now locked worker db = (u, db') \<Longrightarrow> safe_results db \<Longrightarrow> safe_results db'"
  by (auto simp: claim_def claim_terminal_def claim_uncertain_def touch_account_def split: option.splits
      intro!: safe_update simp: take_lease_def lease_uncertain_def)
    (auto simp: safe_results_def split: if_splits, (simp_all add: take_lease_def)?)

lemma safe_manual:
  assumes "safe_results db" "code \<in> set RECONCILIATION_REASONS"
  shows "safe_results (require_operation_manual_reconciliation uuid5 now qop code ev db)"
proof -
  have "safe_results (update_operations p (manual_row now code ev (manual_result uuid5 now qop code ev)) db)" for p
    using assms(1) by (rule safe_update) (use assms(2) in \<open>simp add: manual_row_def safe_result_def manual_result_def\<close>)
  then show ?thesis
    unfolding require_operation_manual_reconciliation_def Let_def
    by (subst safe_cong [OF update_idempotency_simps(1)])
qed

lemma safe_finish:
  assumes "finish e qop outcome commit code db = (r, db')" "safe_results db"
  shows "safe_results db'"
proof (cases "complete (en_clock e 9) qop (result_record (en_clock e 8) (en_uuid4 e) (qo_record qop) outcome commit code) outcome db")
  case (Inl x)
  with assms show ?thesis by (simp add: finish_def finally_run_def)
next
  case (Inr p)
  then have "complete (en_clock e 9) qop (result_record (en_clock e 8) (en_uuid4 e) (qo_record qop) outcome commit code)
      outcome db = Inr ((), db')"
    using assms(1) by (cases p) (simp add: finish_def finally_run_def)
  then show ?thesis
  proof (cases rule: complete_cases)
    case (closed x st)
    have "safe_results (update_operations (\<lambda>y. op_uuid y = qo_uuid qop \<and> op_state y \<in> {Running, Uncertain})
        (close_row (en_clock e 9) st (result_record (en_clock e 8) (en_uuid4 e) (qo_record qop) outcome commit code)) db)"
      by (rule safe_update [OF assms(2)]) (simp add: close_row_def safe_record)
    then show ?thesis by (rule safe_cong [THEN iffD2, rotated]) (simp add: closed(4))
  qed (use assms(2) in simp)
qed

lemma safe_call: "call_provider e qop db = (out, ad, db') \<Longrightarrow> safe_results db \<Longrightarrow> safe_results db'"
  by (auto simp: call_provider_def Let_def split: outcome.splits option.splits)

context account_handlers
begin

lemma safe_failed: "account_failed e u err g db = (r, db') \<Longrightarrow> safe_results db \<Longrightarrow> safe_results db'"
  using failed_keeps [of db u err g] safe_same_queue by (metis snd_conv)

lemma safe_succeeded: "account_succeeded e u g db = (r, db') \<Longrightarrow> safe_results db \<Longrightarrow> safe_results db'"
  using succeeded_keeps [of db u g] safe_same_queue by (metis snd_conv)

lemma safe_send_failed:
  assumes "send_failed e qop err ad db = (r, db')" "safe_results db"
  shows "safe_results db'"
proof -
  obtain a db1 where a: "account_failed e (rec_account_uuid (qo_record qop)) err (attempted_generation err ad) db = (a, db1)"
    by (metis surj_pair)
  have "safe_results db1" by (rule safe_failed [OF a assms(2)])
  with assms(1) a show ?thesis
    by (cases a) (auto simp: send_failed_def Let_def split: if_splits intro: safe_finish)
qed

lemma safe_send_succeeded:
  assumes "send_succeeded e qop ad target db = (r, db')" "safe_results db"
  shows "safe_results db'"
proof -
  obtain a db1 where a: "account_succeeded e (rec_account_uuid (qo_record qop)) (adapter_generation ad) db = (a, db1)"
    by (metis surj_pair)
  have "safe_results db1" by (rule safe_succeeded [OF a assms(2)])
  with assms(1) a show ?thesis by (cases a) (auto simp: send_succeeded_def intro: safe_finish)
qed

lemma safe_send:
  assumes "send e qop db = (r, db')" "safe_results db"
  shows "safe_results db'"
proof -
  obtain out ad db1 where call: "call_provider e qop db = (out, ad, db1)" by (metis surj_pair)
  have "safe_results db1" by (rule safe_call [OF call assms(2)])
  then show ?thesis
    using assms call
    by (cases "record_expired (en_clock e 3) (qo_record qop)"; cases out)
      (auto simp: send_def split: bool.splits intro: safe_finish safe_send_failed safe_send_succeeded)
qed

lemma safe_run_once:
  assumes "run_once e db = (r, db')" "safe_results db"
  shows "safe_results db'"
proof -
  let ?db0 = "snd (reap_expired_running (en_clock e 0) db)"
  obtain t db1 where t: "claim_terminal (en_clock e 1) (en_locked e) (en_worker e) 60 ?db0 = (t, db1)"
    by (metis surj_pair)
  obtain c db2 where c: "claim (en_clock e 2) (en_locked e) (en_worker e) 60 db1 = (c, db2)" by (metis surj_pair)
  have "safe_results db1" by (rule safe_claims(2) [OF t]) (simp add: assms(2))
  moreover from this have "safe_results db2" by (rule safe_claims(1) [OF c])
  ultimately show ?thesis
    using assms(1) t c
    by (cases t; cases c) (auto simp: run_once_def Let_def intro: safe_finish safe_send)
qed

lemma safe_check:
  assumes "check e uuid5 qop at db = (r, db')" "safe_results db"
  shows "safe_results db'"
proof -
  obtain out ad where call: "call_reconcile e qop at = (out, ad)" by (metis surj_pair)
  obtain a db1 where a: "account_succeeded e (rec_account_uuid (qo_record qop)) (adapter_generation ad) db = (a, db1)"
    by (metis surj_pair)
  have "safe_results db1" by (rule safe_succeeded [OF a assms(2)])
  moreover have "safe_results d'" if "check_failed e uuid5 qop err ad db = (r', d')" for err r' d'
  proof -
    obtain b db2 where b: "account_failed e (rec_account_uuid (qo_record qop)) err (attempted_generation err ad) db = (b, db2)"
      by (metis surj_pair)
    have "safe_results db2" by (rule safe_failed [OF b assms(2)])
    with that b show ?thesis
      by (cases b) (auto simp: check_failed_def split: if_splits intro!: safe_manual simp: RECONCILIATION_REASONS_def)
  qed
  moreover have "safe_results d'" if "check_matched e qop ev d = (r', d')" "safe_results d" for ev d r' d'
    using that by (auto simp: check_matched_def split: option.splits sum.splits intro: safe_finish)
  moreover have "safe_results d'" if "check_unmatched e uuid5 qop ev d = (r', d')" "safe_results d" for ev d r' d'
    using that by (auto simp: check_unmatched_def Let_def split: if_splits intro!: safe_manual simp: RECONCILIATION_REASONS_def)
  ultimately show ?thesis
    using assms call a by (cases out; cases a) (auto simp: check_def split: if_splits)
qed

lemma safe_reconcile_once:
  assumes "reconcile_once e uuid5 db = (r, db')" "safe_results db"
  shows "safe_results db'"
proof -
  let ?db0 = "snd (reap_expired_running (en_clock e 0) db)"
  obtain c db1 where c: "claim_uncertain (en_clock e 1) (en_locked e) (en_worker e) ?db0 = (c, db1)"
    by (metis surj_pair)
  have "safe_results db1" by (rule safe_claims(3) [OF c]) (simp add: assms(2))
  then show ?thesis
    using assms(1) c
    by (cases c) (auto simp: reconcile_once_def split: option.splits intro: safe_check
        intro!: safe_manual simp: RECONCILIATION_REASONS_def)
qed

end

text \<open>
  No provider text reaches Workspace as an error code: when every result that waits in
  the queue carries a code of the closed list \<open>SAFE_ERROR_CODES\<close> or a reconciliation
  reason, the same holds after every pass of either loop, whatever the provider answered.
\<close>

lemma scheduler_safe_codes:
  assumes "safe_results db"
  shows "safe_results (snd (run_once (service_env now random e) db)) \<and>
    safe_results (snd (reconcile_once (service_env now random e) uuid5 db))"
  using assms by (metis prod.collapse service.safe_run_once service.safe_reconcile_once)

section \<open>Retries and reconciliation\<close>

lemma retry_maximum_bounds: "0 \<le> retry_maximum n" "retry_maximum n \<le> seconds 30"
  by (simp_all add: retry_maximum_def seconds_def)


definition failing_env :: sched_env where
  "failing_env = sample_env\<lparr>en_adapters :=
     (\<lambda>_. Failed \<lparr>ze_code = ''rate_limited'', ze_retryable = True, ze_generation = None\<rparr>)\<rparr>"


lemma update_witness:
  "x \<in> set (db_operations db) \<Longrightarrow> p x \<Longrightarrow> Q (f x) \<Longrightarrow> \<exists>y \<in> set (db_operations (update_operations p f db)). Q y"
  unfolding update_operations_simps by force

text \<open>
  Checking an uncertain send ends after a bounded number of passes. When the provider's
  history shows no match, the first and second check only schedule the next one, 10 and 15
  seconds later; the third uses the single automatic resend, if it is still unused; and
  otherwise the operation is rejected for manual reconciliation with that reason as its
  result. No other row changes its state.
\<close>

lemma check_unmatched_settles:
  assumes "queue_ok db" "x \<in> set (db_operations db)" "op_state x = Uncertain" "0 \<le> op_check_count x"
    and "check_unmatched e uuid5 (queued_operation x) ev db = (r, db')"
  shows "r = Inr True \<and> (\<exists>y \<in> set (db_operations db'). op_uuid y = op_uuid x \<and>
    (if op_check_count x < 2
     then op_state y = Uncertain \<and> op_check_count y = op_check_count x + 1 \<and>
       op_reconciliation_after y = Some (en_clock e 8 + seconds (if op_check_count x = 0 then 10 else 15))
     else if op_auto_resend_count x = 0
     then op_state y = Pending \<and> op_auto_resend_count y = 1
     else op_state y = Rejected \<and> op_manual_required y \<and>
       map_option res_error_code (op_result y) = Some (Some ''no_match_after_auto_resend'')))"
  (is "_ \<and> (\<exists>y \<in> _. ?settled y)")
proof -
  let ?q = "queued_operation x"
  have q: "qo_uuid ?q = op_uuid x" "qo_check_count ?q = op_check_count x" "qo_auto_resend_count ?q = op_auto_resend_count x"
    by (simp_all add: queued_operation_def)
  have resends: "op_auto_resend_count x \<in> {0, 1}" using queue_okD(2) [OF assms(1,2)] by (simp add: row_ok_def)
  consider (again) "op_check_count x \<in> {0, 1}" | (resend) "op_check_count x \<ge> 2" "op_auto_resend_count x = 0"
    | (manual) "op_check_count x \<ge> 2" "op_auto_resend_count x = 1"
    using assms(4) resends by fastforce
  then show ?thesis
  proof cases
    case again
    let ?at = "en_clock e 8 + seconds (if op_check_count x = 0 then 10 else 15)"
    have eqs: "r = Inr True" "db' = schedule_reconciliation_check (en_clock e 9) ?q ?at (stored_evidence ev) db"
      using assms(5) again q by (auto simp: check_unmatched_def RECONCILIATION_DELAYS_SECONDS_def)
    have "\<exists>y \<in> set (db_operations db'). ?settled y"
      unfolding eqs(2) schedule_reconciliation_check_def
      by (rule update_witness [OF assms(2)]) (use again assms(3) q in auto)
    with eqs(1) show ?thesis by simp
  next
    case resend
    then have eqs: "r = Inr True" "db' = schedule_single_resend (en_clock e 9) ?q (stored_evidence ev) db"
      using assms(5) q by (auto simp: check_unmatched_def RECONCILIATION_DELAYS_SECONDS_def MAX_AUTO_RESENDS_def)
    have "\<exists>y \<in> set (db_operations db'). ?settled y"
      unfolding eqs(2) schedule_single_resend_def
      by (rule update_witness [OF assms(2)]) (use resend assms(3) q in \<open>auto simp: resend_row_def\<close>)
    with eqs(1) show ?thesis by simp
  next
    case manual
    then have eqs: "r = Inr True" "db' = require_operation_manual_reconciliation uuid5 (en_clock e 9) ?q
        ''no_match_after_auto_resend'' (stored_evidence ev) db"
      using assms(5) q by (auto simp: check_unmatched_def RECONCILIATION_DELAYS_SECONDS_def MAX_AUTO_RESENDS_def)
    have "\<exists>y \<in> set (db_operations db'). ?settled y"
      unfolding eqs(2) require_operation_manual_reconciliation_def Let_def update_idempotency_simps
      by (rule update_witness [OF assms(2)])
        (use manual assms(3) q in \<open>auto simp: manual_row_def manual_result_def\<close>)
    with eqs(1) show ?thesis by simp
  qed
qed

text \<open>The sample operation is sent, and its answer is lost at time 4.\<close>

definition sample_lost :: op_row where
  "sample_lost = uncertain_row 4 ''lost'' (attempt_row 3 ''q'' ''l'' ''hello'' (take_lease 2 ''w'' 60 (sample_row 0)))"

definition sample_uncertain :: queue_db where
  "sample_uncertain = mark_uncertain 4 sample_held ''lost'' sample_attempted"

lemma sample_lost_simps:
  "op_state sample_lost = Uncertain" "op_uuid sample_lost = ''r0''" "op_attempt sample_lost = 1" "op_check_count sample_lost = 0"
  "op_auto_resend_count sample_lost = 0" "op_account_uuid sample_lost = ''acc''" "op_record sample_lost = sample_rec 0"
  "op_provider_queue_id sample_lost = Some ''q''" "op_provider_local_id sample_lost = Some ''l''"
  "op_lane sample_lost = sample_lane" "op_lane_sequence sample_lost = 1" "op_result sample_lost = None"
  by (simp_all add: sample_lost_def uncertain_row_def attempt_row_def take_lease_def sample_row_simps op_lane_def)
    (simp_all add: sample_row_def new_operation_def sample_rec_simps sample_rec_def sample_op_def)

lemma sample_uncertain_rows: "db_operations sample_uncertain = [sample_lost, sample_row 1]"
  by (simp add: sample_uncertain_def sample_attempted_def mark_uncertain_def record_provider_attempt_def
      sample_sending_simps sample_held_def queued_operation_def sample_row_simps sample_lost_def attempt_row_def)

lemma sample_uncertain_reachable: "queue_reachable id sample_digest sample_uuid5 (sample_uncertain, Idle)"
proof -
  have "queue_reachable id sample_digest sample_uuid5 (sample_attempted, Sending sample_held)"
    unfolding sample_attempted_def by (rule reachable_step [OF sample_sending_reachable qstep.attempt])
  then show ?thesis unfolding sample_uncertain_def by (rule reachable_step) (rule qstep.uncertain)
qed

section \<open>Two gaps\<close>

text \<open>
  C33. The local echo is not safe against the scheduler. An event thread reads an uncertain
  operation and completes it in a second transaction; when the reconciler schedules the
  automatic resend in between, the completion succeeds but the row stays pending without a
  result, while its lane has moved past it: neither claim ever takes a first attempt in
  that position, so no result reaches Workspace.
\<close>

theorem echo_race:
  assumes "queue_ok db" "uncertain_by_local_id account q l db = Some qop"
    and "qo_auto_resend_count qop = 0" "rec_attempt (qo_record qop) = 1"
    and "complete now' qop result outcome (schedule_single_resend now qop ev db) = Inr ((), db')"
  shows "\<exists>y \<in> set (db_operations db'). op_uuid y = qo_uuid qop \<and> op_state y = Pending \<and>
    op_lane_sequence y \<le> lane_last db' (op_lane y) \<and>
    (\<forall>t. \<not> claim_candidate t db' y \<and> \<not> terminal_candidate t db' y)"
proof -
  obtain x where x: "x \<in> set (db_operations db)" "qop = queued_operation x" "op_state x = Uncertain"
    using assms(2) by (auto simp: uncertain_by_local_id_def find_Some_iff dest: nth_mem)
  have q: "qo_uuid qop = op_uuid x" "op_auto_resend_count x = 0" using x(2) assms(3) by (simp_all add: queued_operation_def)
  have agree: "identity_agrees x (qo_record qop)"
    using queue_okD(2) [OF assms(1) x(1)] x(2) by (simp add: row_ok_def queued_operation_def)
  let ?db1 = "schedule_single_resend now qop ev db" and ?y = "resend_row now ev x"
  have keys: "keys_ok (db_operations ?db1)"
    by (rule queue_okD(1)) (rule schedule_single_resend_ok [OF assms(1)])
  have y: "?y \<in> set (db_operations ?db1)" "op_uuid ?y = op_uuid x" "op_state ?y = Pending" "op_attempt ?y = op_attempt x"
    "op_lane ?y = op_lane x" "op_lane_sequence ?y = op_lane_sequence x"
    using x(1,3) q by (force simp: schedule_single_resend_def resend_row_def op_lane_def)+
  show ?thesis
    using assms(5)
  proof (cases rule: complete_cases)
    case (repeated z)
    then have "z = ?y"
      using find_operation_Some [OF repeated(1)] same_uuid_row [OF keys _ y(1)] q(1) y(2) by simp
    with repeated(2) y(3) show ?thesis by (simp add: terminal_def)
  next
    case (closed z st)
    have lane: "lane_last db' (op_lane x) = op_lane_sequence x" "op_attempt x = 1"
      using closed(8) agree assms(4) by (auto simp: closed_lanes_def lane_last_def identity_agrees_def lane_at_def)
    have "?y \<in> set (db_operations db')" using closed(4) y by force
    moreover have "\<not> lane_head db' ?y" using lane(1) lane_head_position [of db' ?y] y(5,6) by auto
    ultimately show ?thesis
      using y lane q(1) by (intro bexI [of _ ?y]) (auto simp: claim_candidate_def terminal_candidate_def)
  qed
qed

lemma sample_echo_found: "uncertain_by_local_id ''acc'' ''q'' ''l'' sample_uncertain = Some (queued_operation sample_lost)"
  by (simp add: uncertain_by_local_id_def sample_uncertain_rows sample_lost_simps)

lemma sample_echo_tables:
  "db_lanes sample_uncertain = Map.empty" "db_mappings sample_uncertain = []" "db_aliases sample_uncertain = []"
  by (simp_all add: sample_uncertain_def sample_attempted_def mark_uncertain_def record_provider_attempt_def
      update_operations_def sample_sending_simps)

lemma sample_echo_completes:
  "\<exists>db'. complete 6 (queued_operation sample_lost) sample_result ''committed''
     (schedule_single_resend 5 (queued_operation sample_lost) VNone sample_uncertain) = Inr ((), db')"
proof -
  let ?db1 = "schedule_single_resend 5 (queued_operation sample_lost) VNone sample_uncertain"
  have rows: "db_operations ?db1 = [resend_row 5 VNone sample_lost, sample_row 1]"
    by (simp add: schedule_single_resend_def sample_uncertain_rows queued_operation_def sample_lost_simps sample_row_simps)
  have tables: "db_lanes ?db1 = Map.empty" "db_mappings ?db1 = []" "db_aliases ?db1 = []"
    by (simp_all add: schedule_single_resend_def update_operations_def sample_echo_tables)
  have found: "find_operation ''r0'' ?db1 = Some (resend_row 5 VNone sample_lost)"
    by (simp add: find_operation_def rows) (simp add: resend_row_def sample_lost_simps)
  have q: "qo_uuid (queued_operation sample_lost) = ''r0''" "qo_record (queued_operation sample_lost) = sample_rec 0"
    by (simp_all add: queued_operation_def sample_lost_simps)
  have res: "res_entity_id sample_result = Some ''42''" "res_revision sample_result = None"
    by (simp_all add: sample_result_def)
  show ?thesis
    using sample_persisted
    by (simp add: complete_def q found resend_row_def terminal_def Let_def advance_lane_def rec_lane_def lane_at_def
        lane_start_def tables sample_rec_simps res update_idempotency_def sample_echo_tables split: option.splits prod.splits)
      (simp add: sample_rec_def sample_op_def)
qed

theorem echo_race_witness:
  "\<exists>db'. \<exists>y \<in> set (db_operations db'). op_uuid y = ''r0'' \<and> op_state y = Pending \<and> \<not> claim_candidate 100 db' y \<and>
     complete 6 (queued_operation sample_lost) sample_result ''committed''
       (schedule_single_resend 5 (queued_operation sample_lost) VNone sample_uncertain) = Inr ((), db')"
proof -
  have ok: "queue_ok sample_uncertain" using reachable_queue_ok [OF sample_uncertain_reachable] by simp
  have q: "qo_auto_resend_count (queued_operation sample_lost) = 0" "rec_attempt (qo_record (queued_operation sample_lost)) = 1"
    "qo_uuid (queued_operation sample_lost) = ''r0''"
    by (simp_all add: queued_operation_def sample_lost_simps sample_rec_simps)
  obtain db' where "complete 6 (queued_operation sample_lost) sample_result ''committed''
      (schedule_single_resend 5 (queued_operation sample_lost) VNone sample_uncertain) = Inr ((), db')"
    using sample_echo_completes by blast
  from echo_race [OF ok sample_echo_found q(1,2) this] this q(3) show ?thesis by auto
qed

text \<open>
  C34. A manual rejection stops its lane for good. When the reconciler gives up on a first
  attempt and asks for manual reconciliation, the lane position stays in front of that
  operation, and in every later state of the queue no first attempt of the lane is a
  candidate of either claim.
\<close>

theorem manual_rejection_blocks_lane:
  assumes "queue_reachable nfc sha256 uuid5 (db, Checking qop)"
    and "x \<in> set (db_operations db)" "op_uuid x = qo_uuid qop" "op_state x = Uncertain" "op_attempt x = 1"
    and "(qstep nfc sha256 uuid5)\<^sup>*\<^sup>*
      (require_operation_manual_reconciliation uuid5 now qop code ev db, Idle) (db', h')"
    and "y \<in> set (db_operations db')" "op_attempt y = 1" "op_lane y = op_lane x"
  shows "\<not> claim_candidate t db' y \<and> \<not> terminal_candidate t db' y"
proof
  let ?db1 = "require_operation_manual_reconciliation uuid5 now qop code ev db"
  let ?x1 = "manual_row now code ev (manual_result uuid5 now qop code ev) x"
  have ok: "queue_ok db" using reachable_queue_ok [OF assms(1)] by simp
  have "position_ok db x" using queue_okD(2) [OF ok assms(2)] assms(5) by (simp add: row_ok_def)
  then have pos: "op_lane_sequence x = lane_last db (op_lane x) + 1"
    using assms(4) by (auto simp: position_ok_def terminal_def split: if_splits)
  have r1: "queue_reachable nfc sha256 uuid5 (?db1, Idle)" by (rule reachable_step [OF assms(1)]) (rule qstep.manual)
  have "?x1 \<in> set (db_operations ?db1)" using assms(2-4) by (force simp: require_operation_manual_reconciliation_def Let_def)
  moreover have "lane_last ?db1 l = lane_last db l" for l
    by (simp add: lane_last_def require_operation_manual_reconciliation_def Let_def)
  then have "blocked ?db1 ?x1"
    using pos assms(5) by (simp add: blocked_def manual_row_def terminal_def op_lane_def)
  ultimately obtain z where z: "z \<in> set (db_operations db')" "same_row ?x1 z" "blocked db' z"
    using queue_mono.reachable_progress [OF r1 assms(6)] unfolding queue_progress_def by auto
  have lane: "op_lane z = op_lane x" using same_row_lane [OF z(2)] by (simp add: manual_row_def op_lane_def)
  have keys: "keys_ok (db_operations db')"
    using reachable_queue_ok [OF reachable_trans [OF r1 assms(6)]] queue_okD(1) by blast
  have "op_state y \<noteq> Pending \<or> \<not> lane_head db' y"
  proof (rule ccontr)
    assume "\<not> ?thesis"
    then have "op_lane_sequence y = op_lane_sequence z" "op_state y = Pending"
      using lane_head_position [of db' y] z(3) lane assms(9) by (auto simp: blocked_def)
    then have "y = z"
      using same_lane_row [OF keys assms(7) z(1)] lane assms(8,9) z(3) by (simp add: blocked_def)
    with z(3) \<open>op_state y = Pending\<close> show False by (simp add: blocked_def terminal_def)
  qed
  with assms(8) show "\<not> claim_candidate t db' y" "\<not> terminal_candidate t db' y"
    by (auto simp: claim_candidate_def terminal_candidate_def)
qed

definition sample_checked :: op_row where
  "sample_checked = lease_uncertain 10000000 ''w'' sample_lost"

lemma sample_uncertain_candidates:
  "filter (uncertain_candidate 10000000 sample_uncertain) [sample_lost, sample_row 1] = [sample_lost]"
  by code_simp

lemma sample_checking:
  "claim_uncertain 10000000 (\<lambda>_. False) ''w'' sample_uncertain =
     (Some (queued_operation sample_checked), sample_uncertain\<lparr>db_operations := [sample_checked, sample_row 1]\<rparr>)"
  using sample_uncertain_candidates
  by (simp add: claim_uncertain_def sample_uncertain_rows sample_checked_def update_operations_def
      sample_lost_simps sample_row_simps)

theorem manual_rejection_blocks_lane_witness:
  "\<not> claim_candidate 20000000 (require_operation_manual_reconciliation sample_uuid5 10000001 (queued_operation sample_checked)
      ''unsafe_provider_state'' VNone (sample_uncertain\<lparr>db_operations := [sample_checked, sample_row 1]\<rparr>)) (sample_row 1)"
proof -
  have r: "queue_reachable id sample_digest sample_uuid5
      (sample_uncertain\<lparr>db_operations := [sample_checked, sample_row 1]\<rparr>, Checking (queued_operation sample_checked))"
    by (rule reachable_step [OF sample_uncertain_reachable qstep.claim_uncertain [OF sample_checking]])
  have x: "op_state sample_checked = Uncertain" "op_uuid sample_checked = ''r0''" "op_attempt sample_checked = 1"
    "op_lane sample_checked = sample_lane" "qo_uuid (queued_operation sample_checked) = ''r0''"
    by (simp_all add: sample_checked_def lease_uncertain_def sample_lost_simps queued_operation_def op_lane_def)
      (use sample_lost_simps(10) in \<open>simp_all add: op_lane_def\<close>)
  from manual_rejection_blocks_lane [OF r _ _ _ _ rtranclp.rtrancl_refl, of sample_checked "sample_row 1"] x show ?thesis
    by (simp add: require_operation_manual_reconciliation_def Let_def sample_row_simps)
qed

end
