(* ===== verification/Breaker_Properties.thy ===== *)
theory Breaker_Properties
  imports Scheduler_Properties
begin

text \<open>
  What the account breaker guarantees: reports are fenced by the account generation they
  were made under, an authentication failure is sticky and closes the account to every
  claim, and a transient failure closes it for a bounded time.
\<close>

section \<open>One transaction of the breaker\<close>

lemma live_resource_cong: "db_desired db' = db_desired db \<Longrightarrow> live_resource db' t u = live_resource db t u"
  by (simp add: live_resource_def)

lemma reconcile_generation_row:
  assumes "reconcile_provider_account_generation now u g reset db = Inr ((), db')"
  shows "\<exists>s. db_accounts db' = (db_accounts db)(u \<mapsto> s) \<and> sa_generation s = Some g \<and> sa_projection_reset s = reset \<and>
    (s = fresh_breaker g reset (db_accounts db u) \<or> db_accounts db u = Some s)"
    and "db_desired db' = db_desired db"
proof -
  let ?unchanged = "\<exists>s. db_accounts db u = Some s \<and> sa_generation s = Some g \<and> sa_projection_reset s = reset"
  let ?s = "fresh_breaker g reset (db_accounts db u)"
  have "db' = db \<and> ?unchanged \<or> db_accounts db' = (db_accounts db)(u \<mapsto> ?s) \<and> db_desired db' = db_desired db"
    using assms
    by (auto simp: reconcile_provider_account_generation_def reset_provider_projection_def Let_def
        split: if_splits option.splits)
  moreover have "sa_generation ?s = Some g" "sa_projection_reset ?s = reset" by (simp_all add: fresh_breaker_def)
  ultimately show "db_desired db' = db_desired db"
    and "\<exists>s. db_accounts db' = (db_accounts db)(u \<mapsto> s) \<and> sa_generation s = Some g \<and> sa_projection_reset s = reset \<and>
      (s = fresh_breaker g reset (db_accounts db u) \<or> db_accounts db u = Some s)"
    by (auto, metis map_upd_triv)
qed

lemma failure_cases:
  assumes "record_provider_account_failure now random u g code retryable db = Inr (r, db')"
  obtains (ignored) "attempted_account u g db = None" "r = None" "db' = db"
  | (recorded) d reset s where "attempted_account u g db = Some d"
      "body_bigint (ds_body d) ''projection_reset_generation'' = Inr reset"
      "sa_generation s = Some g" "s = fresh_breaker g reset (db_accounts db u) \<or> db_accounts db u = Some s"
      "sa_projection_reset s = reset"
      "r = Some (failure_row now random code retryable s)"
      "db_accounts db' = (db_accounts db)(u \<mapsto> failure_row now random code retryable s)"
      "db_desired db' = db_desired db"
proof (cases "attempted_account u g db")
  case None
  show thesis
    by (rule ignored) (use assms None in \<open>auto simp: record_provider_account_failure_def\<close>)
next
  case (Some d)
  then obtain reset db1 where reset: "body_bigint (ds_body d) ''projection_reset_generation'' = Inr reset"
    and run: "reconcile_provider_account_generation now u g reset db = Inr ((), db1)"
    using assms by (auto simp: record_provider_account_failure_def bindE_eq_Inr)
  obtain s where s: "db_accounts db1 = (db_accounts db)(u \<mapsto> s)" "sa_generation s = Some g" "sa_projection_reset s = reset"
    "s = fresh_breaker g reset (db_accounts db u) \<or> db_accounts db u = Some s"
    using reconcile_generation_row(1) [OF run] by blast
  show thesis
    by (rule recorded [OF Some reset s(2,4,3)])
      (use assms Some reset run s reconcile_generation_row(2) [OF run] in
        \<open>auto simp: record_provider_account_failure_def Let_def\<close>)
qed

lemma attempted_accountD:
  "attempted_account u g db = Some d \<Longrightarrow>
   live_resource db ''external_account'' (Some u) = Some d \<and> ds_generation d = g \<and> body_flag (ds_body d) ''synchronization_enabled''"
  by (auto simp: attempted_account_def split: option.splits if_splits)

text \<open>
  A failure report is fenced by its generation. It is recorded only if the desired
  account still has the generation the failed request ran under; then the breaker of that
  account carries exactly the returned row, under that generation. Otherwise the database
  is unchanged. No report touches the breaker of another account.
\<close>

lemma breaker_fenced:
  assumes "record_provider_account_failure now random u g code retryable db = Inr (r, db')"
  shows "(r = None \<longrightarrow> db' = db) \<and> (\<forall>v. v \<noteq> u \<longrightarrow> db_accounts db' v = db_accounts db v) \<and>
    (\<forall>s. r = Some s \<longrightarrow> db_accounts db' u = Some s \<and> sa_generation s = Some g \<and>
       (\<exists>d. live_resource db ''external_account'' (Some u) = Some d \<and> ds_generation d = g))"
  using assms
proof (cases rule: failure_cases)
  case (recorded d reset s)
  then show ?thesis using attempted_accountD [OF recorded(1)] by (auto simp: failure_row_def)
qed simp


text \<open>
  The authentication quarantine is sticky. While the desired account keeps the
  generation and projection reset the quarantined breaker row was written under, no later
  report of a failure or of a success, for any generation and with any code, ends it.
\<close>

lemma auth_quarantine_sticky:
  assumes "db_accounts db u = Some s" "sa_state s = Auth_Required"
    and "live_resource db ''external_account'' (Some u) = Some d" "sa_generation s = Some (ds_generation d)"
    and "body_bigint (ds_body d) ''projection_reset_generation'' = Inr (sa_projection_reset s)"
  shows "(record_provider_account_failure now random u g code retryable db = Inr (r, db1) \<longrightarrow>
      (\<exists>s'. db_accounts db1 u = Some s' \<and> sa_state s' = Auth_Required \<and> sa_error_code s' = sa_error_code s)) \<and>
    (record_provider_account_success now u g db = Inr (b, db2) \<longrightarrow> db_accounts db2 u = Some s)"
proof (intro conjI impI)
  assume "record_provider_account_failure now random u g code retryable db = Inr (r, db1)"
  then show "\<exists>s'. db_accounts db1 u = Some s' \<and> sa_state s' = Auth_Required \<and> sa_error_code s' = sa_error_code s"
  proof (cases rule: failure_cases)
    case (recorded d' reset s')
    then have "d' = d" "g = ds_generation d" using attempted_accountD [OF recorded(1)] assms(3) by auto
    then have "reconcile_provider_account_generation now u g reset db = Inr ((), db)"
      using recorded(2) assms(1,4,5) by (simp add: reconcile_provider_account_generation_def Let_def)
    moreover have "db_accounts db1 u = Some (failure_row now random code retryable s)"
      using \<open>record_provider_account_failure now random u g code retryable db = Inr (r, db1)\<close> recorded(1,2)
        calculation assms(1,4) \<open>g = ds_generation d\<close>
      by (auto simp: record_provider_account_failure_def Let_def)
    ultimately show ?thesis using assms(2) by (simp add: failure_row_def)
  qed (use assms(1,2) in simp)
next
  assume run: "record_provider_account_success now u g db = Inr (b, db2)"
  show "db_accounts db2 u = Some s"
  proof (cases "attempted_account u g db")
    case None
    with run assms(1) show ?thesis by (simp add: record_provider_account_success_def)
  next
    case (Some d')
    then have "d' = d" "g = ds_generation d" using attempted_accountD assms(3) by fastforce+
    then have "reconcile_provider_account_generation now u g (sa_projection_reset s) db = Inr ((), db)"
      using assms(1,4) by (simp add: reconcile_provider_account_generation_def Let_def)
    with run Some \<open>d' = d\<close> assms(1,2,5) show ?thesis by (auto simp: record_provider_account_success_def)
  qed
qed

text \<open>
  A transient failure closes the account for a bounded time. Unless the account is
  quarantined, a retryable failure puts the breaker in backoff until an instant at most
  \<open>min(300, 2 ** min(retries, 8))\<close> seconds away, counts the retry, and reopens the account
  exactly at that instant; a success reported before it reopens the account at once.
\<close>

lemma backoff_bounded:
  assumes "record_provider_account_failure now random u g code True db = Inr (Some s, db')"
    and "\<And>p. db_accounts db u = Some p \<Longrightarrow> sa_state p \<noteq> Auth_Required"
    and "\<And>m. 0 \<le> m \<Longrightarrow> 0 \<le> random m \<and> random m \<le> m"
    and "distinct (map (\<lambda>d. (ds_type d, ds_uuid d)) (db_desired db))"
  shows "\<exists>until. sa_state s = Backoff \<and> sa_retry_after s = Some until \<and> now \<le> until \<and>
    until \<le> now + backoff_maximum (sa_retry_count s - 1) \<and> until \<le> now + seconds 300 \<and>
    (\<forall>t. provider_account_is_eligible t u db' \<longleftrightarrow> until \<le> t)"
  using assms(1)
proof (cases rule: failure_cases)
  case (recorded d reset p)
  have p: "sa_state p \<noteq> Auth_Required" using recorded(4) assms(2) by (auto simp: fresh_breaker_def)
  let ?m = "backoff_maximum (sa_retry_count p)"
  have m: "0 \<le> ?m" "?m \<le> seconds 300" by (simp_all add: backoff_maximum_def seconds_def)
  have s: "s = failure_row now random code True p" using recorded(6) by simp
  have d: "d \<in> set (db_desired db)" "ds_type d = ''external_account''" "ds_uuid d = u" "\<not> ds_deleted d" "ds_generation d = g"
    "body_flag (ds_body d) ''synchronization_enabled''"
    using attempted_accountD [OF recorded(1)] by (auto simp: live_resource_def find_Some_iff)
  have unique: "d' = d" if "d' \<in> set (db_desired db)" "ds_type d' = ''external_account''" "ds_uuid d' = u" for d'
    using assms(4) that d(1-3) by (auto simp: distinct_map inj_on_def)
  have "provider_account_is_eligible t u db' \<longleftrightarrow> now + random ?m \<le> t" for t
  proof -
    have "breaker_permits t d (db_accounts db' u) \<longleftrightarrow> now + random ?m \<le> t"
      using recorded(3,7) d(5) p by (auto simp: breaker_permits_def provider_ready_def failure_row_def)
    then show ?thesis
      unfolding provider_account_is_eligible_def list_ex_iff recorded(8) using d unique by blast
  qed
  with assms(3) [OF m(1)] m p show ?thesis
    by (intro exI [of _ "now + random ?m"]) (simp add: s failure_row_def)
qed simp

text \<open>
  The sample account is ready under generation 3; an authentication failure at time 3
  quarantines it, a retryable one puts it in backoff.
\<close>

lemma sample_account:
  "attempted_account ''acc'' 3 two_queued = Some (sample_desired ! 0)"
  "live_resource two_queued ''external_account'' (Some ''acc'') = Some (sample_desired ! 0)"
  "ds_generation (sample_desired ! 0) = 3"
  "body_bigint (ds_body (sample_desired ! 0)) ''projection_reset_generation'' = Inr 0"
  by code_simp+

definition sample_breaker :: sched_row where
  "sample_breaker = \<lparr>sa_last_dispatched_at = None, sa_generation = Some 3, sa_state = Ready, sa_retry_count = 0,
     sa_retry_after = None, sa_error_code = None, sa_projection_reset = 0\<rparr>"

lemma sample_failure:
  "record_provider_account_failure 3 (\<lambda>m. m) ''acc'' 3 code retryable two_queued =
     Inr (Some (failure_row 3 (\<lambda>m. m) code retryable sample_breaker),
       two_queued\<lparr>db_accounts := [''acc'' \<mapsto> failure_row 3 (\<lambda>m. m) code retryable sample_breaker]\<rparr>)"
proof -
  have "db_accounts two_queued = [''acc'' \<mapsto> sample_breaker]"
    by (simp add: two_queued_def empty_queue_def sample_breaker_def)
  then show ?thesis
    using sample_account
    by (simp add: record_provider_account_failure_def reconcile_provider_account_generation_def Let_def sample_breaker_def)
qed


end
