(* ===== verification/Workspace_Projection.thy ===== *)
theory Workspace_Projection
  imports Account_Breaker
begin

text \<open>
  How desired state changes the bridge's tables (\<open>storage.py\<close>): applying a page of changes
  (\<open>apply_desired_changes\<close>), installing a snapshot (\<open>install_snapshot\<close>), and the projection of
  an assignment onto the provider mappings and their aliases
  (\<open>_replace_projection_mapping\<close>, \<open>_materialize_workspace_projection\<close>,
  \<open>_tombstone_workspace_projection\<close> and the key sets that decide between them).
\<close>

section \<open>One projected mapping\<close>

text \<open>\<open>list(dict.fromkeys(xs))\<close> keeps the first occurrence; only membership matters below.\<close>

definition displaced :: "uuid \<Rightarrow> string \<Rightarrow> string \<Rightarrow> uuid list \<Rightarrow> mapping_row \<Rightarrow> bool" where
  "displaced account kind pid authoritative m =
     (provider_key m = (account, kind, pid) \<and> mp_workspace_uuid m \<notin> set authoritative)"

definition redirect_alias :: "uuid \<Rightarrow> string \<Rightarrow> string \<Rightarrow> dict \<Rightarrow> mapping_row \<Rightarrow> mapping_row list \<Rightarrow> mapping_row list" where
  "redirect_alias account kind pid meta m =
     upsert_alias (\<lambda>a. a\<lparr>mp_provider_id := pid, mp_metadata := meta, mp_deleted := False\<rparr>)
       (new_mapping account kind (mp_workspace_uuid m) pid None meta)"

definition redirect_aliases ::
  "uuid \<Rightarrow> string \<Rightarrow> uuid \<Rightarrow> string \<Rightarrow> dict \<Rightarrow> uuid list \<Rightarrow> mapping_row list \<Rightarrow> mapping_row list \<Rightarrow> mapping_row list" where
  "redirect_aliases account kind workspace pid meta authoritative ms als =
     (let own = (\<lambda>a. mapped account kind workspace a \<and> mp_provider_id a \<noteq> pid \<and> \<not> mp_deleted a);
          als1 = update_where own (\<lambda>a. a\<lparr>mp_deleted := True\<rparr>) als;
          als2 = update_where (displaced account kind pid authoritative)
            (\<lambda>a. a\<lparr>mp_metadata := meta, mp_deleted := False\<rparr>) als1
      in fold (redirect_alias account kind pid meta)
           (filter (displaced account kind pid authoritative) ms) als2)"

definition replace_projection_mapping ::
  "uuid \<Rightarrow> string \<Rightarrow> uuid \<Rightarrow> string \<Rightarrow> dict \<Rightarrow> uuid list \<Rightarrow> mapping_tables \<Rightarrow> mapping_tables result" where
  "replace_projection_mapping account kind workspace pid meta authoritative tables =
     (let ms = filter (\<lambda>m. \<not> (mapped account kind workspace m \<and> mp_provider_id m \<noteq> pid)) (fst tables);
          als = (if kind = ''topic''
                 then redirect_aliases account kind workspace pid meta (authoritative @ [workspace]) ms (snd tables)
                 else snd tables)
      in bindE (upsert_mapping
           (\<lambda>m. m\<lparr>mp_workspace_uuid := workspace, mp_metadata := dict_update (mp_metadata m) meta, mp_deleted := False\<rparr>)
           (new_mapping account kind workspace pid None meta) ms) (\<lambda>ms'. Inr (ms', als)))"

section \<open>The projection of an assignment\<close>

definition as_dict :: "pyval \<Rightarrow> pyerror \<Rightarrow> dict result" where
  "as_dict v err = (case v of VDict d \<Rightarrow> Inr d | _ \<Rightarrow> Inl err)"

text \<open>The provider's activity flag of each participant in the catalog; the last entry counts.\<close>

definition provider_activity :: "pyval \<Rightarrow> (string \<times> bool) list" where
  "provider_activity participants =
     (case participants of
        VList ps \<Rightarrow> fold (\<lambda>p acc. case p of
            VDict d \<Rightarrow> (case (get_val d ''provider_user_id'', get_val d ''_provider_active'') of
                (VNone, _) \<Rightarrow> acc
              | (v, VBool b) \<Rightarrow> dict_set (py_str v) b acc
              | _ \<Rightarrow> acc)
          | _ \<Rightarrow> acc) ps []
      | _ \<Rightarrow> [])"

definition project_participant ::
  "uuid \<Rightarrow> (string \<times> bool) list \<Rightarrow> uuid list \<times> mapping_tables \<Rightarrow> pyval \<Rightarrow> (uuid list \<times> mapping_tables) result" where
  "project_participant account activity acc raw =
     bindE (as_dict raw (ValueErr ''Invalid workspace projection participant'')) (\<lambda>p.
     bindE (item p ''identity_uuid'') (\<lambda>u.
     bindE (item p ''provider_user_id'') (\<lambda>pid.
     bindE (item p ''display_name'') (\<lambda>name.
     bindE (item p ''role'') (\<lambda>role.
     bindE (replace_projection_mapping account ''identity'' (py_str u) (py_str pid)
         [(''display_name'', name), (''email'', get_val p ''email''), (''avatar_urn'', get_val p ''avatar_urn''),
          (''active'', VBool (case map_of activity (py_str pid) of None \<Rightarrow> True | Some b \<Rightarrow> b)), (''role'', role)]
         [] (snd acc)) (\<lambda>tables. Inr (fst acc @ [py_str u], tables)))))))"

definition project_topic ::
  "uuid \<Rightarrow> uuid \<Rightarrow> string \<Rightarrow> uuid list \<Rightarrow> mapping_tables \<Rightarrow> pyval \<Rightarrow> mapping_tables result" where
  "project_topic account stream_uuid chat_key authoritative tables raw =
     bindE (as_dict raw (ValueErr ''Invalid workspace projection topic'')) (\<lambda>t.
     bindE (item t ''topic_uuid'') (\<lambda>u.
     bindE (item t ''provider_topic_id'') (\<lambda>pid.
     bindE (item t ''name'') (\<lambda>name.
     bindE (item t ''is_default'') (\<lambda>is_default.
     replace_projection_mapping account ''topic'' (py_str u) (py_str pid)
       [(''stream_uuid'', VStr stream_uuid), (''chat_key'', VStr chat_key), (''name'', name), (''is_default'', is_default)]
       authoritative tables)))))"

definition topic_uuids :: "pyval list \<Rightarrow> uuid list result" where
  "topic_uuids topics =
     mapE (\<lambda>t. case t of VDict d \<Rightarrow> bindE (item d ''topic_uuid'') (\<lambda>u. Inr (py_str u)) | _ \<Rightarrow> Inl TypeErr)
       (filter is_dict topics)"

definition project_stream ::
  "uuid \<Rightarrow> uuid \<Rightarrow> string \<Rightarrow> dict \<Rightarrow> dict \<Rightarrow> uuid list \<Rightarrow> mapping_tables \<Rightarrow> (uuid \<times> mapping_tables) result" where
  "project_stream account project chat_key provider_chat stream participants tables =
     bindE (item stream ''uuid'') (\<lambda>u.
     bindE (item provider_chat ''chat_type'') (\<lambda>chat_type.
     bindE (item stream ''name'') (\<lambda>name.
     bindE (item stream ''description'') (\<lambda>description.
     bindE (item stream ''private'') (\<lambda>private.
     bindE (replace_projection_mapping account ''stream'' (py_str u) chat_key
         [(''chat_type'', chat_type), (''project_uuid'', VStr project),
          (''participants'', VList (map VStr participants)), (''name'', name), (''description'', description),
          (''private'', private), (''default_topic_uuid'', get_val stream ''default_topic_uuid'')] [] tables)
       (\<lambda>tables'. Inr (py_str u, tables')))))))"

definition materialize_workspace_projection ::
  "(uuid \<times> string \<Rightarrow> pyval option) \<Rightarrow> dict \<Rightarrow> mapping_tables \<Rightarrow> mapping_tables result" where
  "materialize_workspace_projection catalog assignment tables =
     (case (get_val assignment ''workspace_projection'', get_val assignment ''provider_chat'') of
        (VDict projection, VDict provider_chat) \<Rightarrow>
          bindE (item assignment ''external_account_uuid'') (\<lambda>a.
          bindE (item assignment ''project_id'') (\<lambda>p.
          bindE (item provider_chat ''provider_chat_key'') (\<lambda>c.
          (case (get_val projection ''stream'', get_val projection ''participants'', get_val projection ''topics'') of
             (VDict stream, VList participants, VList topics) \<Rightarrow>
               let account = py_str a; chat_key = py_str c;
                   activity = provider_activity (case catalog (account, chat_key) of None \<Rightarrow> VList [] | Some v \<Rightarrow> v)
               in bindE (foldE (project_participant account activity) ([], tables) participants) (\<lambda>(users, tables1).
                  bindE (project_stream account (py_str p) chat_key provider_chat stream users tables1) (\<lambda>(stream_uuid, tables2).
                  bindE (topic_uuids topics) (\<lambda>authoritative.
                  foldE (project_topic account stream_uuid chat_key authoritative) tables2 topics)))
           | _ \<Rightarrow> Inl (ValueErr ''Invalid workspace projection mapping'')))))
      | _ \<Rightarrow> Inr tables)"

section \<open>Replacing a projection\<close>

text \<open>
  The elements of \<open>projection.get(k, [])\<close> that a loop over it can use: the members of a
  dictionary or of a string are strings, which every caller skips, and other values cannot
  be iterated.
\<close>

definition iterate :: "dict \<Rightarrow> string \<Rightarrow> dict list result" where
  "iterate projection k =
     (case map_of projection k of
        None \<Rightarrow> Inr []
      | Some (VList xs) \<Rightarrow> Inr (List.map_filter (\<lambda>x. case x of VDict d \<Rightarrow> Some d | _ \<Rightarrow> None) xs)
      | Some (VDict _) \<Rightarrow> Inr []
      | Some (VStr _) \<Rightarrow> Inr []
      | Some _ \<Rightarrow> Inl TypeErr)"

text \<open>Pairs of a workspace and a provider identifier read off the elements.\<close>

definition member_keys :: "string \<Rightarrow> string \<Rightarrow> dict list \<Rightarrow> (uuid \<times> string) list" where
  "member_keys ku kp ds =
     List.map_filter (\<lambda>d. case (get_val d ku, get_val d kp) of
         (VNone, _) \<Rightarrow> None | (_, VNone) \<Rightarrow> None | (u, p) \<Rightarrow> Some (py_str u, py_str p)) ds"

definition assignment_projection_keys ::
  "dict \<Rightarrow> ((uuid \<times> string) option \<times> (uuid \<times> string) list \<times> (uuid \<times> string) list) result" where
  "assignment_projection_keys assignment =
     (case (get_val assignment ''workspace_projection'', get_val assignment ''provider_chat'') of
        (VDict projection, VDict provider_chat) \<Rightarrow>
          bindE (iterate projection ''participants'') (\<lambda>users.
          bindE (iterate projection ''topics'') (\<lambda>topics.
          Inr ((case get_val projection ''stream'' of
                  VDict stream \<Rightarrow>
                    (case (get_val stream ''uuid'', get_val provider_chat ''provider_chat_key'') of
                       (VNone, _) \<Rightarrow> None | (_, VNone) \<Rightarrow> None | (u, k) \<Rightarrow> Some (py_str u, py_str k))
                | _ \<Rightarrow> None),
               member_keys ''identity_uuid'' ''provider_user_id'' users,
               member_keys ''topic_uuid'' ''provider_topic_id'' topics)))
      | _ \<Rightarrow> Inr (None, [], []))"

definition assignment_projection_is_additive :: "dict \<Rightarrow> dict \<Rightarrow> bool result" where
  "assignment_projection_is_additive previous current =
     bindE (assignment_projection_keys previous) (\<lambda>(ps, pp, pt).
     bindE (assignment_projection_keys current) (\<lambda>(cs, cp, ct).
     Inr (ps \<noteq> None \<and> ps = cs \<and> set pp \<subseteq> set cp \<and> set pt \<subseteq> set ct)))"

definition truthy_members :: "string \<Rightarrow> dict list \<Rightarrow> string list" where
  "truthy_members k ds = map (\<lambda>d. py_str (get_val d k)) (filter (\<lambda>d. truthy (get_val d k)) ds)"

text \<open>Another live assignment of the account still has the participant.\<close>

definition participates_elsewhere :: "desired_row list \<Rightarrow> uuid \<Rightarrow> uuid \<Rightarrow> bool" where
  "participates_elsewhere ds account identity =
     list_ex (\<lambda>d. ds_type d = ''external_chat_assignment'' \<and> \<not> ds_deleted d \<and>
        body_text d ''external_account_uuid'' = Some account \<and>
        (case json_field (json_field (ds_body d) ''workspace_projection'') ''participants'' of
           VList ps \<Rightarrow> list_ex (\<lambda>p. json_text (json_field p ''identity_uuid'') = Some identity) ps
         | _ \<Rightarrow> False)) ds"

definition tombstone_workspace_projection :: "desired_row list \<Rightarrow> dict \<Rightarrow> mapping_tables \<Rightarrow> mapping_tables result" where
  "tombstone_workspace_projection ds assignment tables =
     (case get_val assignment ''workspace_projection'' of
        VDict projection \<Rightarrow>
          (case get_val projection ''stream'' of
             VDict stream \<Rightarrow>
               bindE (iterate projection ''participants'') (\<lambda>ps.
               bindE (iterate projection ''topics'') (\<lambda>ts.
               bindE (item assignment ''external_account_uuid'') (\<lambda>a.
               bindE (item stream ''uuid'') (\<lambda>s.
               let account = py_str a; stream_uuid = py_str s;
                   users = truthy_members ''identity_uuid'' ps; topics = truthy_members ''topic_uuid'' ts
               in Inr
                 (update_where (\<lambda>m. mp_account_uuid m = account \<and>
                      (mp_kind m = ''stream'' \<and> mp_workspace_uuid m = stream_uuid \<or>
                       mp_kind m = ''topic'' \<and> mp_workspace_uuid m \<in> set topics \<or>
                       mp_kind m = ''identity'' \<and> mp_workspace_uuid m \<in> set users \<and>
                         \<not> participates_elsewhere ds account (mp_workspace_uuid m)))
                    (\<lambda>m. m\<lparr>mp_deleted := True\<rparr>) (fst tables),
                  update_where (\<lambda>m. mp_account_uuid m = account \<and> mp_kind m = ''topic'' \<and>
                      (mp_workspace_uuid m \<in> set topics \<or>
                       json_text (get_val (mp_metadata m) ''stream_uuid'') = Some stream_uuid))
                    (\<lambda>m. m\<lparr>mp_deleted := True\<rparr>) (snd tables))))))
           | _ \<Rightarrow> Inr tables)
      | _ \<Rightarrow> Inr tables)"

section \<open>Applying desired state\<close>

definition on_tables :: "(mapping_tables \<Rightarrow> mapping_tables result) \<Rightarrow> queue_db \<Rightarrow> queue_db result" where
  "on_tables f db =
     bindE (f (db_mappings db, db_aliases db)) (\<lambda>(ms, als). Inr (db\<lparr>db_mappings := ms, db_aliases := als\<rparr>))"

definition wake_assignment_pending_events :: "timestamp \<Rightarrow> uuid \<Rightarrow> queue_db \<Rightarrow> queue_db" where
  "wake_assignment_pending_events now account db =
     db\<lparr>db_events := update_where
       (\<lambda>ev. je_account_uuid ev = account \<and> je_state ev = ''pending'' \<and>
             je_reason ev = Some ''provider_chat_assignment_pending'')
       (\<lambda>ev. ev\<lparr>je_available_at := now\<rparr>) (db_events db)\<rparr>"

definition get_default :: "dict \<Rightarrow> string \<Rightarrow> pyval \<Rightarrow> pyval" where
  "get_default d k v = (case map_of d k of None \<Rightarrow> v | Some w \<Rightarrow> w)"

definition same_resource :: "string \<Rightarrow> uuid \<Rightarrow> desired_row \<Rightarrow> bool" where
  "same_resource t u d = (ds_type d = t \<and> ds_uuid d = u)"

text \<open>
  The upsert of one row: a newer generation replaces the row, any other leaves the table as
  it is and returns nothing.
\<close>

definition upsert_desired :: "desired_row \<Rightarrow> desired_row list \<Rightarrow> desired_row list option" where
  "upsert_desired row ds =
     (case find (same_resource (ds_type row) (ds_uuid row)) ds of
        None \<Rightarrow> Some (ds @ [row])
      | Some d \<Rightarrow>
          if ds_generation d < ds_generation row
          then Some (update_where (same_resource (ds_type row) (ds_uuid row)) (\<lambda>_. row) ds) else None)"

definition validate_change :: "dict \<Rightarrow> unit result" where
  "validate_change change =
     bindE (guardE (known_type (get_val change ''resource_type'')) (ValueErr ''Unsupported desired-state resource type'')) (\<lambda>_.
       if get_val change ''operation'' = VStr ''upsert''
       then validate_desired_upsert (get_val change ''resource_type'') (get_val change ''resource_uuid'')
              (get_val change ''generation'') (get_val change ''required_capabilities'') (get_val change ''resource'')
       else if get_val change ''operation'' = VStr ''delete''
       then validate_desired_delete (get_val change ''resource_type'') (get_val change ''resource_uuid'') (get_val change ''generation'')
       else Inl (ValueErr ''Unsupported desired-state operation''))"

definition apply_account :: "timestamp \<Rightarrow> uuid \<Rightarrow> int \<Rightarrow> dict option \<Rightarrow> queue_db \<Rightarrow> queue_db result" where
  "apply_account now u generation body db =
     (let db1 = db\<lparr>db_cursors := (db_cursors db)(u := None)\<rparr> in
      case body of
        None \<Rightarrow> Inr db1
      | Some b \<Rightarrow>
          bindE (int_of (get_default b ''projection_reset_generation'' (VInt 0))) (\<lambda>reset.
          bindE (reconcile_provider_account_generation now u generation reset db1) (\<lambda>(_, db2). Inr db2)))"

definition apply_assignment :: "timestamp \<Rightarrow> pyval option \<Rightarrow> dict option \<Rightarrow> queue_db \<Rightarrow> queue_db result" where
  "apply_assignment now previous body db =
     (case (previous, body) of
        (Some (VDict p), None) \<Rightarrow> on_tables (tombstone_workspace_projection (db_desired db) p) db
      | (_, None) \<Rightarrow> Inr db
      | (prev, Some b) \<Rightarrow>
          bindE (case prev of
                   Some (VDict p) \<Rightarrow>
                     bindE (assignment_projection_is_additive p b) (\<lambda>additive.
                       if additive then Inr db else on_tables (tombstone_workspace_projection (db_desired db) p) db)
                 | _ \<Rightarrow> Inr db) (\<lambda>db1.
          bindE (on_tables (materialize_workspace_projection (db_catalog db) b) db1) (\<lambda>db2.
          bindE (item b ''external_account_uuid'') (\<lambda>a.
          Inr (wake_assignment_pending_events now (py_str a) db2)))))"

text \<open>
  One validated change. \<open>resource_uuid\<close> is a \<open>uuid\<close> column, so the identifier is stored and
  compared in its canonical form.
\<close>

definition change_row :: "dict \<Rightarrow> desired_row result" where
  "change_row change =
     bindE (item change ''resource_type'') (\<lambda>t.
     bindE (item change ''resource_uuid'') (\<lambda>ru.
     bindE (parse_uuid (py_str ru)) (\<lambda>u.
     bindE (item change ''generation'') (\<lambda>g.
     bindE (int_of g) (\<lambda>generation.
     bindE (item change ''operation'') (\<lambda>operation.
       let upsert = (py_str operation = ''upsert'')
       in Inr \<lparr>ds_type = py_str t, ds_uuid = u, ds_generation = generation,
               ds_body = (if upsert then get_val change ''resource'' else VNone), ds_deleted = \<not> upsert\<rparr>))))))"

definition apply_change :: "timestamp \<Rightarrow> queue_db \<Rightarrow> dict \<Rightarrow> queue_db result" where
  "apply_change now db change =
     bindE (change_row change) (\<lambda>row.
       let content = (case ds_body row of VDict b \<Rightarrow> Some b | _ \<Rightarrow> None);
           previous = map_option ds_body (find (same_resource (ds_type row) (ds_uuid row)) (db_desired db))
       in case upsert_desired row (db_desired db) of
            None \<Rightarrow> Inr db
          | Some ds \<Rightarrow>
              let db1 = db\<lparr>db_desired := ds\<rparr> in
              if ds_type row = ''external_account'' then apply_account now (ds_uuid row) (ds_generation row) content db1
              else if ds_type row = ''external_chat_assignment'' then apply_assignment now previous content db1
              else Inr db1)"

definition apply_desired_changes :: "timestamp \<Rightarrow> dict list \<Rightarrow> string \<Rightarrow> unit transaction" where
  "apply_desired_changes now changes next_cursor db =
     bindE (mapE validate_change changes) (\<lambda>_.
     bindE (foldE (apply_change now) db changes) (\<lambda>db'.
     Inr ((), db'\<lparr>db_control_cursor := next_cursor\<rparr>)))"

section \<open>Snapshots\<close>

definition install_resource :: "timestamp \<Rightarrow> queue_db \<Rightarrow> dict \<Rightarrow> queue_db result" where
  "install_resource now db body =
     bindE (item body ''resource_type'') (\<lambda>t.
     bindE (item body ''uuid'') (\<lambda>ru.
     bindE (parse_uuid (py_str ru)) (\<lambda>u.
     bindE (item body ''generation'') (\<lambda>g.
     bindE (int_of g) (\<lambda>generation.
     bindE (guardE (find (same_resource (py_str t) u) (db_desired db) = None) (DatabaseErr ''unique_violation'')) (\<lambda>_.
       let db1 = db\<lparr>db_desired := db_desired db @
             [\<lparr>ds_type = py_str t, ds_uuid = u, ds_generation = generation, ds_body = VDict body, ds_deleted = False\<rparr>]\<rparr>
       in if t = VStr ''external_chat_assignment''
          then bindE (on_tables (materialize_workspace_projection (db_catalog db) body) db1) (\<lambda>db2.
               bindE (item body ''external_account_uuid'') (\<lambda>a.
               Inr (wake_assignment_pending_events now (py_str a) db2)))
          else if t = VStr ''external_account''
          then bindE (int_of (get_default body ''projection_reset_generation'' (VInt 0))) (\<lambda>reset.
               bindE (reconcile_provider_account_generation now u generation reset db1) (\<lambda>(_, db2). Inr db2))
          else Inr db1))))))"

definition cursor_current :: "queue_db \<Rightarrow> uuid \<Rightarrow> cursor_row \<Rightarrow> bool" where
  "cursor_current db u c =
     (case cu_account_generation c of
        None \<Rightarrow> False
      | Some g \<Rightarrow> (case live_resource db ''external_account'' (Some u) of None \<Rightarrow> False | Some d \<Rightarrow> ds_generation d = g))"

definition install_snapshot :: "timestamp \<Rightarrow> pyval list \<Rightarrow> string \<Rightarrow> unit transaction" where
  "install_snapshot now resources anchor_cursor db =
     bindE (mapE validated_snapshot_resource resources) (\<lambda>validated.
       let db0 = db\<lparr>db_mappings := update_where (\<lambda>m. mp_kind m \<in> {''identity'', ''stream'', ''topic''} \<and> \<not> mp_deleted m)
                      (\<lambda>m. m\<lparr>mp_deleted := True\<rparr>) (db_mappings db),
                    db_aliases := update_where (\<lambda>m. mp_kind m = ''topic'' \<and> \<not> mp_deleted m)
                      (\<lambda>m. m\<lparr>mp_deleted := True\<rparr>) (db_aliases db),
                    db_desired := []\<rparr>
       in bindE (foldE (install_resource now) db0 validated) (\<lambda>db1.
          Inr ((), db1\<lparr>db_cursors := (\<lambda>u. case db_cursors db1 u of
                          None \<Rightarrow> None | Some c \<Rightarrow> if cursor_current db1 u c then Some c else None),
                       db_control_cursor := anchor_cursor\<rparr>)))"

end
