(* ===== verification/Projection_Properties.thy ===== *)
theory Projection_Properties
  imports Workspace_Projection Queue_Properties
begin

text \<open>
  What the projection of an assignment guarantees about the provider mappings: it never
  violates the keys of the tables, every projected entity is routed to its provider
  identifier afterwards, and topics it displaces stay routable through an alias.
\<close>

section \<open>Rows after an update\<close>

lemma update_whereE:
  assumes "y \<in> set (update_where P f xs)"
  obtains (old) "y \<in> set xs" "\<not> P y" | (new) x where "x \<in> set xs" "P x" "y = f x"
  using assms by (auto simp: set_update_where split: if_splits)

lemma upsert_aliasE:
  assumes "y \<in> set (upsert_alias f row xs)"
  obtains (old) "y \<in> set xs" "mapping_key y \<noteq> mapping_key row" | (row) "y = row"
    | (new) x where "x \<in> set xs" "mapping_key x = mapping_key row" "y = f x"
  using assms by (auto simp: upsert_alias_def set_update_where split: if_splits)

lemma find_active: "x \<in> set xs \<Longrightarrow> P x \<Longrightarrow> \<exists>y \<in> set xs. find P xs = Some y \<and> P y"
  by (induction xs) auto

lemma find_SomeD: "find P xs = Some y \<Longrightarrow> y \<in> set xs \<and> P y"
  by (induction xs) (auto split: if_splits)

section \<open>Routing of a workspace identifier\<close>

definition active_at :: "uuid \<Rightarrow> string \<Rightarrow> uuid \<Rightarrow> mapping_row \<Rightarrow> bool" where
  "active_at account kind workspace m = (mapped account kind workspace m \<and> \<not> mp_deleted m)"

definition routed :: "uuid \<Rightarrow> string \<Rightarrow> uuid \<Rightarrow> string \<Rightarrow> mapping_tables \<Rightarrow> bool" where
  "routed account kind workspace pid tables =
     (map_option mp_provider_id (workspace_mapping account kind workspace tables) = Some pid)"

text \<open>
  A row that routes the identifier and no active alias that says otherwise: the form in
  which routing survives the changes of other rows.
\<close>

definition settled_at :: "uuid \<Rightarrow> string \<Rightarrow> uuid \<Rightarrow> string \<Rightarrow> mapping_tables \<Rightarrow> bool" where
  "settled_at account kind workspace pid tables =
     ((\<forall>a \<in> set (snd tables). active_at account kind workspace a \<longrightarrow> mp_provider_id a = pid) \<and>
      (\<exists>m \<in> set (fst tables). active_at account kind workspace m \<and> mp_provider_id m = pid))"

lemma mapping_key_unique:
  assumes "mappings_unique ms" "m \<in> set ms" "m' \<in> set ms" "mapping_key m = mapping_key m'"
  shows "m = m'"
  using assms by (auto simp: mappings_unique_def distinct_map inj_on_def)

lemma provider_key_unique:
  assumes "mappings_unique ms" "m \<in> set ms" "m' \<in> set ms" "provider_key m = provider_key m'"
  shows "m = m'"
  using assms by (auto simp: mappings_unique_def distinct_map inj_on_def)

lemma settled_routed:
  assumes "mappings_unique (fst tables)" "settled_at account kind workspace pid tables"
  shows "routed account kind workspace pid tables"
proof (cases "find (active_at account kind workspace) (snd tables)")
  case (Some a)
  with assms(2) have "mp_provider_id a = pid" by (auto simp: settled_at_def dest!: find_SomeD)
  with Some show ?thesis
    by (simp add: routed_def workspace_mapping_def alias_target_def active_at_def [abs_def])
next
  case None
  from assms(2) obtain m where m: "m \<in> set (fst tables)" "active_at account kind workspace m" "mp_provider_id m = pid"
    by (auto simp: settled_at_def)
  then obtain m' where m': "m' \<in> set (fst tables)" "find (active_at account kind workspace) (fst tables) = Some m'"
      "active_at account kind workspace m'"
    using find_active [of m "fst tables" "active_at account kind workspace"] by auto
  have "m' = m" using m m' by (intro mapping_key_unique [OF assms(1)]) (auto simp: active_at_def mapped_def)
  with None m m' show ?thesis by (simp add: routed_def workspace_mapping_def active_at_def [abs_def])
qed

lemma alias_routed:
  assumes "\<exists>a \<in> set (snd tables). active_at account kind workspace a"
    and "\<forall>a \<in> set (snd tables). active_at account kind workspace a \<longrightarrow> mp_provider_id a = pid"
  shows "routed account kind workspace pid tables"
proof -
  from assms(1) obtain a where "find (active_at account kind workspace) (snd tables) = Some a"
      "a \<in> set (snd tables)" "active_at account kind workspace a"
    using find_active [of _ "snd tables" "active_at account kind workspace"] by auto
  with assms(2) show ?thesis
    by (simp add: routed_def workspace_mapping_def alias_target_def active_at_def [abs_def])
qed

section \<open>The mapping rows\<close>

definition kept_mapping :: "uuid \<Rightarrow> string \<Rightarrow> uuid \<Rightarrow> string \<Rightarrow> mapping_row \<Rightarrow> bool" where
  "kept_mapping account kind workspace pid m =
     (mapping_key m \<noteq> (account, kind, workspace) \<and> provider_key m \<noteq> (account, kind, pid))"

lemma unique_filter: "mappings_unique ms \<Longrightarrow> mappings_unique (filter P ms)"
  by (auto simp: mappings_unique_def distinct_map_filter)

lemma distinct_update_one:
  assumes "distinct (map k xs)" and "\<And>x y. x \<in> set xs \<Longrightarrow> y \<in> set xs \<Longrightarrow> P x \<Longrightarrow> P y \<Longrightarrow> x = y"
    and "\<And>x y. x \<in> set xs \<Longrightarrow> y \<in> set xs \<Longrightarrow> P x \<Longrightarrow> \<not> P y \<Longrightarrow> k (f x) \<noteq> k y"
  shows "distinct (map k (update_where P f xs))"
proof -
  let ?g = "\<lambda>x. if P x then f x else x"
  have inj: "inj_on k (set xs)" and dist: "distinct xs" using assms(1) by (simp_all add: distinct_map)
  have "inj_on (k \<circ> ?g) (set xs)"
  proof (rule inj_onI)
    fix x y assume xy: "x \<in> set xs" "y \<in> set xs" and eq: "(k \<circ> ?g) x = (k \<circ> ?g) y"
    show "x = y"
    proof (cases "P x = P y")
      case True
      with xy eq inj assms(2) [OF xy] show ?thesis by (auto simp: inj_on_def split: if_splits)
    next
      case False
      with xy eq assms(3) [of x y] assms(3) [of y x] show ?thesis by (cases "P x") auto
    qed
  qed
  with dist show ?thesis by (simp add: update_where_def distinct_map inj_on_imageI inj_on_imageI2 comp_inj_on_iff)
qed

text \<open>An upsert that re-keys its row keeps both keys when no other row has the new one.\<close>

lemma upsert_mapping_rekey:
  assumes unique: "mappings_unique ms"
    and free: "\<And>m. m \<in> set ms \<Longrightarrow> mapping_key m = mapping_key row \<Longrightarrow> provider_key m = provider_key row"
    and f: "\<And>m. provider_key m = provider_key row \<Longrightarrow> provider_key (f m) = provider_key row"
      "\<And>m. provider_key m = provider_key row \<Longrightarrow> mapping_key (f m) = mapping_key row"
  shows "\<exists>ms'. upsert_mapping f row ms = Inr ms' \<and> mappings_unique ms'"
proof (cases "\<exists>m \<in> set ms. provider_key m = provider_key row")
  case True
  let ?u = "update_where (\<lambda>m. provider_key m = provider_key row) f ms"
  have "distinct (map mapping_key ?u)" "distinct (map provider_key ?u)"
    using unique f free provider_key_unique [OF unique]
    by (intro distinct_update_one; fastforce simp: mappings_unique_def)+
  with True show ?thesis by (simp add: upsert_mapping_def checked_def mappings_unique_def)
next
  case False
  then have "mapping_key row \<notin> mapping_key ` set ms" "provider_key row \<notin> provider_key ` set ms"
    using free by (force, force)
  with unique False show ?thesis by (auto simp: upsert_mapping_def checked_def mappings_unique_def)
qed

section \<open>One projected mapping\<close>

lemma replace_projection_mappingE:
  assumes "mappings_unique (fst tables)"
  obtains ms' where
    "replace_projection_mapping account kind workspace pid meta authoritative tables =
       Inr (ms', if kind = ''topic''
         then redirect_aliases account kind workspace pid meta (authoritative @ [workspace])
           (filter (\<lambda>m. \<not> (mapped account kind workspace m \<and> mp_provider_id m \<noteq> pid)) (fst tables)) (snd tables)
         else snd tables)"
    "mappings_unique ms'"
    "\<exists>m \<in> set ms'. active_at account kind workspace m \<and> mp_provider_id m = pid"
    "\<And>m. kept_mapping account kind workspace pid m \<Longrightarrow> m \<in> set ms' \<longleftrightarrow> m \<in> set (fst tables)"
proof -
  let ?ms = "filter (\<lambda>m. \<not> (mapped account kind workspace m \<and> mp_provider_id m \<noteq> pid)) (fst tables)"
  let ?row = "new_mapping account kind workspace pid None meta"
  let ?f = "\<lambda>m. m\<lparr>mp_workspace_uuid := workspace, mp_metadata := dict_update (mp_metadata m) meta, mp_deleted := False\<rparr>"
  have keys: "mapping_key ?row = (account, kind, workspace)" "provider_key ?row = (account, kind, pid)"
      "\<not> mp_deleted ?row" "mp_provider_id ?row = pid"
    by (simp_all add: mapping_key_def provider_key_def new_mapping_def)
  obtain ms' where ms': "upsert_mapping ?f ?row ?ms = Inr ms'" "mappings_unique ms'"
  proof -
    have "\<exists>ms'. upsert_mapping ?f ?row ?ms = Inr ms' \<and> mappings_unique ms'"
      by (rule upsert_mapping_rekey [OF unique_filter [OF assms]])
        (auto simp: mapped_def provider_key_def mapping_key_def new_mapping_def)
    then show thesis using that by blast
  qed
  have set_ms': "set ms' = (if \<exists>m \<in> set ?ms. provider_key m = (account, kind, pid)
      then (\<lambda>m. if provider_key m = (account, kind, pid) then ?f m else m) ` set ?ms else insert ?row (set ?ms))"
    using ms'(1) keys by (auto simp: upsert_mapping_def checked_def set_update_where split: if_splits)
  have routed: "\<exists>m \<in> set ms'. active_at account kind workspace m \<and> mp_provider_id m = pid"
  proof (cases "\<exists>m \<in> set ?ms. provider_key m = (account, kind, pid)")
    case True
    then obtain m where "m \<in> set ?ms" "provider_key m = (account, kind, pid)" by blast
    then have "?f m \<in> set ms'" "active_at account kind workspace (?f m)" "mp_provider_id (?f m) = pid"
      unfolding set_ms' by (auto simp: active_at_def mapped_def mapping_key_def provider_key_def)
    then show ?thesis by blast
  next
    case False
    have "?row \<in> set ms'" unfolding set_ms' if_not_P [OF False] by (rule insertI1)
    with keys show ?thesis by (auto simp: active_at_def mapped_def)
  qed
  have kept: "m \<in> set ms' \<longleftrightarrow> m \<in> set (fst tables)" if "kept_mapping account kind workspace pid m" for m
    unfolding set_ms' using that keys by (auto simp: kept_mapping_def mapped_def mapping_key_def provider_key_def image_iff)
  show thesis by (rule that [OF _ ms'(2) routed kept]) (simp only: replace_projection_mapping_def Let_def ms'(1) bindE_simps)
qed

section \<open>Aliases of displaced topics\<close>

lemma redirect_aliasE:
  assumes "a \<in> set (redirect_alias account kind pid meta m als)"
  obtains (old) "a \<in> set als" "mapping_key a \<noteq> (account, kind, mp_workspace_uuid m)"
    | (new) "active_at account kind (mp_workspace_uuid m) a" "mp_provider_id a = pid"
  using assms unfolding redirect_alias_def
  by (elim upsert_aliasE) (auto simp: new_mapping_def active_at_def mapped_def mapping_key_def)

lemma redirect_alias_present: "\<exists>a \<in> set (redirect_alias account kind pid meta m als). active_at account kind (mp_workspace_uuid m) a"
proof (cases "\<exists>a \<in> set als. mapping_key a = (account, kind, mp_workspace_uuid m)")
  case True
  then obtain a where a: "a \<in> set als" "mapping_key a = (account, kind, mp_workspace_uuid m)" by blast
  then have "a\<lparr>mp_provider_id := pid, mp_metadata := meta, mp_deleted := False\<rparr> \<in> set (redirect_alias account kind pid meta m als)"
    by (force simp: redirect_alias_def upsert_alias_def set_update_where new_mapping_def mapping_key_def)
  then show ?thesis by (rule bexI [rotated]) (use a in \<open>simp add: active_at_def mapped_def mapping_key_def\<close>)
next
  case False
  then have "new_mapping account kind (mp_workspace_uuid m) pid None meta \<in> set (redirect_alias account kind pid meta m als)"
    by (auto simp: redirect_alias_def upsert_alias_def new_mapping_def mapping_key_def)
  then show ?thesis by (rule bexI [rotated]) (simp add: new_mapping_def active_at_def mapped_def mapping_key_def)
qed

lemma redirect_alias_other:
  "mapping_key a \<noteq> (account, kind, mp_workspace_uuid m) \<Longrightarrow> a \<in> set als \<Longrightarrow> a \<in> set (redirect_alias account kind pid meta m als)"
  by (auto simp: redirect_alias_def upsert_alias_def set_update_where new_mapping_def mapping_key_def image_iff)

lemma redirect_fold_old:
  assumes "a \<in> set (fold (redirect_alias account kind pid meta) ms als)"
    and "\<forall>m \<in> set ms. mapping_key a \<noteq> (account, kind, mp_workspace_uuid m)"
  shows "a \<in> set als"
  using assms by (induction ms arbitrary: als) (fastforce elim: redirect_aliasE simp: active_at_def mapped_def)+

lemma redirect_fold_new:
  assumes "\<forall>a \<in> set als. active_at account kind w a \<longrightarrow> mp_provider_id a = pid"
    and "a \<in> set (fold (redirect_alias account kind pid meta) ms als)" "active_at account kind w a"
  shows "mp_provider_id a = pid"
  using assms by (induction ms arbitrary: als) (simp, fastforce elim: redirect_aliasE)

lemma redirect_fold_present:
  assumes "(\<exists>a \<in> set als. active_at account kind w a) \<or> w \<in> mp_workspace_uuid ` set ms"
  shows "\<exists>a \<in> set (fold (redirect_alias account kind pid meta) ms als). active_at account kind w a"
  using assms
proof (induction ms arbitrary: als)
  case (Cons m ms)
  have "(\<exists>a \<in> set (redirect_alias account kind pid meta m als). active_at account kind w a) \<or> w \<in> mp_workspace_uuid ` set ms"
    using Cons.prems redirect_alias_present [of account kind pid meta m als]
      redirect_alias_other [of _ account kind m als pid meta]
    by (cases "w = mp_workspace_uuid m") (auto simp: active_at_def mapped_def)
  then show ?case using Cons.IH by simp
qed simp

lemma redirect_fold_displaced:
  assumes "w \<in> mp_workspace_uuid ` set ms" "a \<in> set (fold (redirect_alias account kind pid meta) ms als)"
    "active_at account kind w a"
  shows "mp_provider_id a = pid"
  using assms
proof (induction ms arbitrary: als)
  case (Cons m ms)
  show ?case
  proof (cases "w = mp_workspace_uuid m")
    case True
    then have "\<forall>a \<in> set (redirect_alias account kind pid meta m als). active_at account kind w a \<longrightarrow> mp_provider_id a = pid"
      by (auto elim!: redirect_aliasE simp: active_at_def mapped_def)
    with Cons.prems redirect_fold_new show ?thesis by simp
  next
    case False
    with Cons show ?thesis by auto
  qed
qed simp

lemma redirect_aliases_old:
  assumes "a \<in> set (redirect_aliases account kind w pid meta auth ms als)" "mapped account' kind' w' a"
    and "(account', kind') \<noteq> (account, kind) \<or> w' \<in> set auth \<and> w' \<noteq> w"
  shows "a \<in> set als"
proof -
  have "\<forall>m \<in> set (filter (displaced account kind pid auth) ms). mapping_key a \<noteq> (account, kind, mp_workspace_uuid m)"
    using assms(2,3) by (auto simp: mapped_def displaced_def)
  from redirect_fold_old [OF _ this] assms(1) obtain
    "a \<in> set (update_where (displaced account kind pid auth) (\<lambda>a. a\<lparr>mp_metadata := meta, mp_deleted := False\<rparr>)
       (update_where (\<lambda>a. mapped account kind w a \<and> mp_provider_id a \<noteq> pid \<and> \<not> mp_deleted a) (\<lambda>a. a\<lparr>mp_deleted := True\<rparr>) als))"
    by (auto simp: redirect_aliases_def Let_def)
  then show ?thesis using assms(2,3)
    by (auto elim!: update_whereE simp: mapped_def mapping_key_def displaced_def provider_key_def)
qed

lemma redirect_aliases_own:
  assumes "a \<in> set (redirect_aliases account kind w pid meta auth ms als)" "active_at account kind w a" "w \<in> set auth"
  shows "mp_provider_id a = pid"
proof (rule redirect_fold_new)
  let ?als = "update_where (displaced account kind pid auth) (\<lambda>a. a\<lparr>mp_metadata := meta, mp_deleted := False\<rparr>)
     (update_where (\<lambda>a. mapped account kind w a \<and> mp_provider_id a \<noteq> pid \<and> \<not> mp_deleted a) (\<lambda>a. a\<lparr>mp_deleted := True\<rparr>) als)"
  show "\<forall>a \<in> set ?als. active_at account kind w a \<longrightarrow> mp_provider_id a = pid"
    by (auto elim!: update_whereE simp: active_at_def displaced_def provider_key_def)
  show "a \<in> set (fold (redirect_alias account kind pid meta) (filter (displaced account kind pid auth) ms) ?als)"
    using assms(1) by (simp add: redirect_aliases_def Let_def)
  show "active_at account kind w a" by (rule assms(2))
qed

lemma redirect_aliases_displaced:
  assumes "m \<in> set ms" "displaced account kind pid auth m"
  shows "\<exists>a \<in> set (redirect_aliases account kind w pid meta auth ms als). active_at account kind (mp_workspace_uuid m) a"
    and "\<forall>a \<in> set (redirect_aliases account kind w pid meta auth ms als).
      active_at account kind (mp_workspace_uuid m) a \<longrightarrow> mp_provider_id a = pid"
proof -
  have "mp_workspace_uuid m \<in> mp_workspace_uuid ` set (filter (displaced account kind pid auth) ms)"
    using assms by auto
  then show "\<exists>a \<in> set (redirect_aliases account kind w pid meta auth ms als). active_at account kind (mp_workspace_uuid m) a"
    and "\<forall>a \<in> set (redirect_aliases account kind w pid meta auth ms als).
      active_at account kind (mp_workspace_uuid m) a \<longrightarrow> mp_provider_id a = pid"
    using redirect_fold_present redirect_fold_displaced by (auto simp: redirect_aliases_def Let_def simp del: set_filter)
qed

section \<open>Settled identifiers\<close>

lemma replace_projection_mappingD:
  assumes "mappings_unique (fst t)" "replace_projection_mapping account kind w pid meta auth t = Inr t'"
  shows "mappings_unique (fst t')"
    and "\<exists>m \<in> set (fst t'). active_at account kind w m \<and> mp_provider_id m = pid"
    and "kept_mapping account kind w pid m \<Longrightarrow> m \<in> set (fst t') \<longleftrightarrow> m \<in> set (fst t)"
    and "snd t' = (if kind = ''topic''
      then redirect_aliases account kind w pid meta (auth @ [w])
        (filter (\<lambda>m. \<not> (mapped account kind w m \<and> mp_provider_id m \<noteq> pid)) (fst t)) (snd t)
      else snd t)"
  by (rule replace_projection_mappingE [OF assms(1), of account kind w pid meta auth],
      simp only: assms(2) sum.inject fst_conv snd_conv)+

lemma replace_settles:
  assumes "mappings_unique (fst t)" "replace_projection_mapping account kind w pid meta auth t = Inr t'"
    and "kind \<noteq> ''topic'' \<Longrightarrow> \<forall>a \<in> set (snd t). \<not> active_at account kind w a"
  shows "settled_at account kind w pid t'"
proof -
  have "mp_provider_id a = pid" if "a \<in> set (snd t')" "active_at account kind w a" for a
    using that replace_projection_mappingD(4) [OF assms(1,2)] assms(3)
    by (cases "kind = ''topic''") (auto intro: redirect_aliases_own)
  with replace_projection_mappingD(2) [OF assms(1,2)] show ?thesis unfolding settled_at_def by blast
qed

lemma replace_keeps:
  assumes "mappings_unique (fst t)" "replace_projection_mapping account kind w pid meta auth t = Inr t'"
    and "settled_at account' kind' w' pid' t"
    and apart: "(account', kind') \<noteq> (account, kind) \<or> w' \<noteq> w \<and> pid' \<noteq> pid \<and> (kind = ''topic'' \<longrightarrow> w' \<in> set auth)"
  shows "settled_at account' kind' w' pid' t'"
proof -
  from assms(3) obtain m where m: "m \<in> set (fst t)" "active_at account' kind' w' m" "mp_provider_id m = pid'"
    by (auto simp: settled_at_def)
  have "kept_mapping account kind w pid m"
    using apart m by (auto simp: kept_mapping_def active_at_def mapped_def mapping_key_def provider_key_def)
  then have "m \<in> set (fst t')" using replace_projection_mappingD(3) [OF assms(1,2)] m(1) by simp
  moreover have "a \<in> set (snd t)" if "a \<in> set (snd t')" "active_at account' kind' w' a" for a
  proof (cases "kind = ''topic''")
    case True
    with that replace_projection_mappingD(4) [OF assms(1,2)]
    have "a \<in> set (redirect_aliases account kind w pid meta (auth @ [w])
        (filter (\<lambda>m. \<not> (mapped account kind w m \<and> mp_provider_id m \<noteq> pid)) (fst t)) (snd t))" by simp
    moreover have "mapped account' kind' w' a" using that(2) by (simp add: active_at_def)
    ultimately show ?thesis by (rule redirect_aliases_old) (use apart True in auto)
  qed (use that replace_projection_mappingD(4) [OF assms(1,2)] in simp)
  ultimately show ?thesis using m assms(3) unfolding settled_at_def by blast
qed

section \<open>A loop of replacements\<close>

lemma foldE_settles:
  assumes step: "\<And>acc x acc'. x \<in> set xs \<Longrightarrow> f acc x = Inr acc' \<Longrightarrow>
      \<exists>meta. replace_projection_mapping account kind (w x) (pid x) meta auth (g acc) = Inr (g acc')"
    and "distinct (map w xs)" "distinct (map pid xs)" "kind = ''topic'' \<Longrightarrow> w ` set xs \<subseteq> set auth"
    and "kind \<noteq> ''topic'' \<Longrightarrow> \<forall>a \<in> set (snd (g acc)). mp_kind a \<noteq> kind"
    and "foldE f acc xs = Inr r" "mappings_unique (fst (g acc))"
  shows "mappings_unique (fst (g r)) \<and> (\<forall>x \<in> set xs. settled_at account kind (w x) (pid x) (g r)) \<and>
     (kind \<noteq> ''topic'' \<longrightarrow> snd (g r) = snd (g acc)) \<and>
     (\<forall>account' kind' w' pid'. settled_at account' kind' w' pid' (g acc) \<and>
        ((account', kind') \<noteq> (account, kind) \<or>
         w' \<notin> w ` set xs \<and> pid' \<notin> pid ` set xs \<and> (kind = ''topic'' \<longrightarrow> w' \<in> set auth)) \<longrightarrow>
        settled_at account' kind' w' pid' (g r))"
  using assms
proof (induction xs arbitrary: acc)
  case Nil
  then show ?case by simp
next
  case (Cons x xs)
  from Cons.prems(6) obtain acc' where acc': "f acc x = Inr acc'" "foldE f acc' xs = Inr r"
    by (auto simp: bindE_eq_Inr)
  from Cons.prems(1) [OF _ acc'(1)] obtain meta where
    rep: "replace_projection_mapping account kind (w x) (pid x) meta auth (g acc) = Inr (g acc')" by auto
  note D = replace_projection_mappingD [OF Cons.prems(7) rep]
  have settles: "settled_at account kind (w x) (pid x) (g acc')"
    by (rule replace_settles [OF Cons.prems(7) rep]) (use Cons.prems(5) in \<open>auto simp: active_at_def mapped_def mapping_key_def\<close>)
  have IH: "mappings_unique (fst (g r)) \<and> (\<forall>x \<in> set xs. settled_at account kind (w x) (pid x) (g r)) \<and>
     (kind \<noteq> ''topic'' \<longrightarrow> snd (g r) = snd (g acc')) \<and>
     (\<forall>account' kind' w' pid'. settled_at account' kind' w' pid' (g acc') \<and>
        ((account', kind') \<noteq> (account, kind) \<or>
         w' \<notin> w ` set xs \<and> pid' \<notin> pid ` set xs \<and> (kind = ''topic'' \<longrightarrow> w' \<in> set auth)) \<longrightarrow>
        settled_at account' kind' w' pid' (g r))"
    by (rule Cons.IH) (use Cons.prems acc'(2) D(1,4) in auto)
  moreover have "settled_at account kind (w x) (pid x) (g r)"
    using IH settles Cons.prems(2-4) by simp
  moreover have "kind \<noteq> ''topic'' \<longrightarrow> snd (g r) = snd (g acc)" using IH D(4) by simp
  ultimately show ?case using replace_keeps [OF Cons.prems(7) rep] by auto
qed

lemma foldE_steps: "foldE f acc xs = Inr r \<Longrightarrow> x \<in> set xs \<Longrightarrow> \<exists>a b. f a x = Inr b"
  by (induction xs arbitrary: acc) (auto simp: bindE_eq_Inr)

lemma as_dict_eq_Inr [simp, result_simps]: "as_dict v e = Inr d \<longleftrightarrow> v = VDict d"
  by (cases v) (simp_all add: as_dict_def)

lemma project_participant_step:
  assumes "project_participant account activity acc raw = Inr acc'"
  shows "\<exists>meta. replace_projection_mapping account ''identity'' (py_str (json_field raw ''identity_uuid''))
     (py_str (json_field raw ''provider_user_id'')) meta [] (snd acc) = Inr (snd acc')"
  using assms by (auto simp: project_participant_def bindE_eq_Inr json_field_def)

lemma project_topic_step:
  assumes "project_topic account stream chat auth t raw = Inr t'"
  shows "\<exists>meta. replace_projection_mapping account ''topic'' (py_str (json_field raw ''topic_uuid''))
     (py_str (json_field raw ''provider_topic_id'')) meta auth t = Inr t'"
  using assms by (auto simp: project_topic_def bindE_eq_Inr json_field_def)

lemma project_stream_step:
  assumes "project_stream account project chat provider_chat stream users t = Inr (u, t')"
  shows "u = py_str (get_val stream ''uuid'') \<and>
     (\<exists>meta. replace_projection_mapping account ''stream'' u chat meta [] t = Inr t')"
  using assms by (auto simp: project_stream_def bindE_eq_Inr)

lemma participants_settle:
  assumes "foldE (project_participant account activity) ([], tables) participants = Inr (users, tables')"
    and "distinct (map (\<lambda>p. py_str (json_field p ''identity_uuid'')) participants)"
      "distinct (map (\<lambda>p. py_str (json_field p ''provider_user_id'')) participants)"
    and "mappings_unique (fst tables)" "\<forall>a \<in> set (snd tables). mp_kind a \<noteq> ''identity''"
  shows "mappings_unique (fst tables')" "snd tables' = snd tables"
    "\<forall>p \<in> set participants. settled_at account ''identity'' (py_str (json_field p ''identity_uuid''))
        (py_str (json_field p ''provider_user_id'')) tables'"
proof -
  note F = foldE_settles [where g = snd and kind = "''identity''", OF project_participant_step assms(2,3) _ _ assms(1)]
  show "mappings_unique (fst tables')" "snd tables' = snd tables"
    "\<forall>p \<in> set participants. settled_at account ''identity'' (py_str (json_field p ''identity_uuid''))
        (py_str (json_field p ''provider_user_id'')) tables'"
    using F assms(4,5) by simp_all
qed

lemma topics_settle:
  assumes "foldE (project_topic account stream_uuid chat auth) tables topics = Inr tables'"
    and "distinct (map (\<lambda>t. py_str (json_field t ''topic_uuid'')) topics)"
      "distinct (map (\<lambda>t. py_str (json_field t ''provider_topic_id'')) topics)"
    and "(\<lambda>t. py_str (json_field t ''topic_uuid'')) ` set topics \<subseteq> set auth" "mappings_unique (fst tables)"
  shows "mappings_unique (fst tables')"
    "\<forall>t \<in> set topics. settled_at account ''topic'' (py_str (json_field t ''topic_uuid''))
        (py_str (json_field t ''provider_topic_id'')) tables'"
    "kind \<noteq> ''topic'' \<Longrightarrow> settled_at account kind w pid tables \<Longrightarrow> settled_at account kind w pid tables'"
proof -
  note F = foldE_settles [where g = "\<lambda>t. t" and kind = "''topic''", OF project_topic_step assms(2,3,4) _ assms(1,5)]
  show "mappings_unique (fst tables')"
    "\<forall>t \<in> set topics. settled_at account ''topic'' (py_str (json_field t ''topic_uuid''))
        (py_str (json_field t ''provider_topic_id'')) tables'"
    "kind \<noteq> ''topic'' \<Longrightarrow> settled_at account kind w pid tables \<Longrightarrow> settled_at account kind w pid tables'"
    using F by simp_all
qed

lemma mapE_covers: "mapE f xs = Inr ys \<Longrightarrow> x \<in> set xs \<Longrightarrow> \<exists>y \<in> set ys. f x = Inr y"
  by (induction xs arbitrary: ys) (auto simp: bindE_eq_Inr)

lemma topic_uuids_covers:
  assumes "topic_uuids topics = Inr auth" "VDict d \<in> set topics"
  shows "py_str (json_field (VDict d) ''topic_uuid'') \<in> set auth"
  using mapE_covers [OF assms(1) [unfolded topic_uuids_def], of "VDict d"] assms(2)
  by (auto simp: bindE_eq_Inr json_field_def)

lemma materialize_cases:
  assumes "materialize_workspace_projection catalog assignment tables = Inr tables'"
    and "get_val assignment ''workspace_projection'' = VDict projection"
    and "get_val assignment ''provider_chat'' = VDict provider_chat"
    and "get_val projection ''stream'' = VDict stream"
    and "get_val projection ''participants'' = VList participants"
    and "get_val projection ''topics'' = VList topics"
  obtains account project chat activity users tables1 stream_uuid tables2 auth where
    "account = py_str (get_val assignment ''external_account_uuid'')"
    "chat = py_str (get_val provider_chat ''provider_chat_key'')"
    "foldE (project_participant account activity) ([], tables) participants = Inr (users, tables1)"
    "project_stream account project chat provider_chat stream users tables1 = Inr (stream_uuid, tables2)"
    "topic_uuids topics = Inr auth"
    "foldE (project_topic account stream_uuid chat auth) tables2 topics = Inr tables'"
  using assms by (auto simp: materialize_workspace_projection_def bindE_eq_Inr Let_def)

section \<open>Properties\<close>

text \<open>
  Projecting one entity never violates a key of the mapping table, whatever the table
  holds: rows that stand in the way are re-keyed or removed and all others stay. A projected
  topic is routed to its provider identifier, and the workspace topic it displaces from that
  identifier, unless it is part of the projection itself, stays routable to it.
\<close>

lemma projection_replaces_mapping:
  assumes "mappings_unique ms"
  shows "\<exists>ms' als'. replace_projection_mapping account kind w pid meta auth (ms, als) = Inr (ms', als') \<and>
     mappings_unique ms' \<and>
     (\<forall>m. kept_mapping account kind w pid m \<longrightarrow> (m \<in> set ms' \<longleftrightarrow> m \<in> set ms)) \<and>
     (kind = ''topic'' \<longrightarrow> routed account kind w pid (ms', als') \<and>
       (\<forall>m \<in> set ms. provider_key m = (account, kind, pid) \<and> mp_workspace_uuid m \<notin> set (auth @ [w]) \<longrightarrow>
          routed account kind (mp_workspace_uuid m) pid (ms', als')))"
proof -
  have u: "mappings_unique (fst (ms, als))" using assms by simp
  obtain ms' als' where rep: "replace_projection_mapping account kind w pid meta auth (ms, als) = Inr (ms', als')"
  proof (rule replace_projection_mappingE [OF u, of account kind w pid meta auth])
  qed (rule that)
  note D = replace_projection_mappingD [OF u rep]
  have "routed account kind w pid (ms', als')" if "kind = ''topic''"
    using D(1) replace_settles [OF u rep] that by (intro settled_routed) auto
  moreover have "routed account kind (mp_workspace_uuid m) pid (ms', als')"
    if "kind = ''topic''" "m \<in> set ms" "provider_key m = (account, kind, pid)" "mp_workspace_uuid m \<notin> set (auth @ [w])" for m
  proof (rule alias_routed)
    let ?ms = "filter (\<lambda>m. \<not> (mapped account kind w m \<and> mp_provider_id m \<noteq> pid)) ms"
    have m: "m \<in> set ?ms" "displaced account kind pid (auth @ [w]) m"
      using that by (auto simp: displaced_def provider_key_def)
    have als': "als' = redirect_aliases account kind w pid meta (auth @ [w]) ?ms als"
      using D(4) that(1) by (simp only: fst_conv snd_conv refl if_True)
    show "\<exists>a \<in> set (snd (ms', als')). active_at account kind (mp_workspace_uuid m) a"
      unfolding snd_conv als' by (rule redirect_aliases_displaced(1) [OF m])
    show "\<forall>a \<in> set (snd (ms', als')). active_at account kind (mp_workspace_uuid m) a \<longrightarrow> mp_provider_id a = pid"
      unfolding snd_conv als' by (rule redirect_aliases_displaced(2) [OF m])
  qed
  ultimately show ?thesis using rep D(1,3) by (intro exI [of _ ms'] exI [of _ als']) simp
qed


section \<open>Instances\<close>

definition sample_topic :: mapping_row where
  "sample_topic = new_mapping ''acct'' ''topic'' ''t1'' ''7:general'' None []"

text \<open>Two topics of a channel whose provider identifiers the assignment swaps.\<close>

definition sample_projected_topic :: "string \<Rightarrow> string \<Rightarrow> pyval" where
  "sample_projected_topic u pid =
     VDict [(''topic_uuid'', VStr u), (''provider_topic_id'', VStr pid), (''name'', VStr u), (''is_default'', VBool False)]"

definition sample_stream :: dict where
  "sample_stream = [(''uuid'', VStr ''s1''), (''name'', VStr ''dev''), (''description'', VStr []), (''private'', VBool False)]"

definition sample_chat :: dict where
  "sample_chat = [(''provider_chat_key'', VStr ''channel:7''), (''chat_type'', VStr ''channel'')]"

definition sample_participant :: dict where
  "sample_participant =
     [(''identity_uuid'', VStr ''u1''), (''provider_user_id'', VInt 9), (''display_name'', VStr ''Ann''), (''role'', VStr ''member'')]"

definition sample_projection :: dict where
  "sample_projection =
     [(''stream'', VDict sample_stream), (''participants'', VList [VDict sample_participant]),
      (''topics'', VList [sample_projected_topic ''t1'' ''7:b'', sample_projected_topic ''t2'' ''7:a''])]"

definition sample_assignment :: dict where
  "sample_assignment =
     [(''external_account_uuid'', VStr ''acct''), (''project_id'', VStr ''p1''),
      (''provider_chat'', VDict sample_chat), (''workspace_projection'', VDict sample_projection)]"

definition sample_tables :: mapping_tables where
  "sample_tables =
     ([new_mapping ''acct'' ''topic'' ''t1'' ''7:a'' None [], new_mapping ''acct'' ''topic'' ''t2'' ''7:b'' None []],
      [new_mapping ''acct'' ''topic'' ''t0'' ''7:a'' None []])"

lemma sample_materializes:
  "case materialize_workspace_projection (\<lambda>_. None) sample_assignment sample_tables of Inl _ \<Rightarrow> False | Inr _ \<Rightarrow> True"
  by code_simp


section \<open>A reaction that changes its provider identifier\<close>

lemma two_rows_clash:
  assumes "m \<in> set ms" "m' \<in> set ms" "mapping_key m = mapping_key m'" "m \<noteq> m'"
  shows "\<not> mappings_unique ms"
  using mapping_key_unique [OF _ assms(1,2,3)] assms(4) by blast

text \<open>
  C37. Committing a reaction under a new provider identifier fails while the reaction is
  still mapped to another one: the statement that should drop the stale row inserts before
  it deletes, so the transaction ends with a violation of the primary key. The same change
  through the projection of an assignment, which deletes in a statement of its own, succeeds.
\<close>

theorem reaction_rekey_fails:
  assumes "m \<in> set ms" "mapped (rec_account_uuid r) ''reaction'' workspace m" "mp_provider_id m \<noteq> pid"
    and "reaction_metadata r payload provider = Inr meta" "mappings_unique ms"
  shows "persist_reaction r payload provider workspace (Some pid) revision (ms, als) = Inl (DatabaseErr ''unique_violation'') \<and>
    (\<exists>tables'. replace_projection_mapping (rec_account_uuid r) ''reaction'' workspace pid meta [] (ms, als) = Inr tables')"
proof -
  let ?row = "new_mapping (rec_account_uuid r) ''reaction'' workspace pid revision meta"
  let ?f = "\<lambda>m. m\<lparr>mp_workspace_uuid := workspace, mp_revision := revision,
      mp_metadata := dict_update (mp_metadata m) meta, mp_deleted := False\<rparr>"
  let ?hit = "\<lambda>m. provider_key m = provider_key ?row"
  let ?ms = "if \<exists>m \<in> set ms. ?hit m then update_where ?hit ?f ms else ms @ [?row]"
  have m: "m \<in> set ?ms"
    using assms(1,3) by (auto simp: set_update_where provider_key_def new_mapping_def image_iff)
  have "\<exists>m' \<in> set ?ms. mapping_key m' = mapping_key m \<and> mp_provider_id m' = pid"
  proof (cases "\<exists>m \<in> set ms. ?hit m")
    case True
    then obtain x where x: "x \<in> set ms" "?hit x" by blast
    then have "?f x \<in> set ?ms" by (auto simp: set_update_where)
    moreover have "mapping_key (?f x) = mapping_key m" "mp_provider_id (?f x) = pid"
      using x(2) assms(2) by (simp_all add: mapped_def mapping_key_def provider_key_def new_mapping_def)
    ultimately show ?thesis by blast
  next
    case False
    have "mapping_key ?row = mapping_key m" "mp_provider_id ?row = pid"
      using assms(2) by (simp_all add: mapped_def mapping_key_def new_mapping_def)
    moreover have "?row \<in> set ?ms" unfolding if_not_P [OF False] by simp
    ultimately show ?thesis by blast
  qed
  then obtain m' where m': "m' \<in> set ?ms" "mapping_key m' = mapping_key m" "mp_provider_id m' = pid" by blast
  have "m \<noteq> m'" using m'(3) assms(3) by blast
  then have "\<not> mappings_unique ?ms" by (rule two_rows_clash [OF m m'(1) m'(2) [symmetric]])
  then have "upsert_mapping ?f ?row ms = Inl (DatabaseErr ''unique_violation'')"
    unfolding upsert_mapping_def checked_def by (simp only: if_False)
  moreover have "\<exists>tables'. replace_projection_mapping (rec_account_uuid r) ''reaction'' workspace pid meta [] (ms, als) = Inr tables'"
  proof (rule replace_projection_mappingE)
    show "mappings_unique (fst (ms, als))" using assms(5) by simp
  qed (rule exI)
  ultimately show ?thesis using assms(4) by (simp add: persist_reaction_def)
qed

definition sample_reaction :: dict where
  "sample_reaction = [(''message_uuid'', VStr ''m''), (''user_uuid'', VStr ''u''), (''emoji_name'', VStr ''tada'')]"

theorem reaction_rekey_fails_witness:
  "persist_reaction (sample_op 0) sample_reaction [(''chat_id'', VStr ''7'')] ''re'' (Some ''5:2'') None
     ([new_mapping ''acc'' ''reaction'' ''re'' ''5:1'' None []], []) = Inl (DatabaseErr ''unique_violation'')"
proof -
  let ?meta = "reaction_metadata (sample_op 0) sample_reaction [(''chat_id'', VStr ''7'')]"
  let ?m = "new_mapping ''acc'' ''reaction'' ''re'' ''5:1'' None []"
  have "?meta = Inr (projr ?meta)"
    by (simp add: reaction_metadata_def item_def sample_reaction_def)
  moreover have "mapped (rec_account_uuid (sample_op 0)) ''reaction'' ''re'' ?m" "mp_provider_id ?m \<noteq> ''5:2''" "mappings_unique [?m]"
    by (simp_all add: mapped_def mapping_key_def new_mapping_def sample_op_def mappings_unique_def)
  ultimately show ?thesis
    using reaction_rekey_fails [of ?m "[?m]" "sample_op 0" "''re''" "''5:2''" sample_reaction "[(''chat_id'', VStr ''7'')]" "projr ?meta" None "[]"]
    by simp
qed

end
