(* ===== verification/Desired_Properties.thy ===== *)
theory Desired_Properties
  imports Workspace_Projection Queue_Properties
begin

text \<open>
  Desired state converges: changes are applied in the order of their generations, a page of
  changes that is delivered again has no effect, and neither changes nor snapshots touch the
  operation queue.
\<close>

section \<open>What the parts of a change leave alone\<close>

lemma on_tables_frame:
  assumes "on_tables f db = Inr db'"
  shows "db_desired db' = db_desired db" "same_queue db db'"
  using assms by (auto simp: on_tables_def bindE_eq_Inr same_queue_def)

lemma wake_assignment_frame [simp]:
  "db_desired (wake_assignment_pending_events now u db) = db_desired db"
  "same_queue db0 (wake_assignment_pending_events now u db) = same_queue db0 db"
  by (simp_all add: wake_assignment_pending_events_def same_queue_def)

lemma reconcile_generation_desired:
  "reconcile_provider_account_generation now u generation reset db = Inr ((), db') \<Longrightarrow> db_desired db' = db_desired db"
  by (auto simp: reconcile_provider_account_generation_def reset_provider_projection_def Let_def split: if_splits)

lemma apply_account_frame:
  assumes "apply_account now u generation body db = Inr db'"
  shows "db_desired db' = db_desired db" "same_queue db db'"
proof -
  let ?db = "db\<lparr>db_cursors := (db_cursors db)(u := None)\<rparr>"
  have "db' = ?db \<or> (\<exists>reset. reconcile_provider_account_generation now u generation reset ?db = Inr ((), db'))"
    using assms by (auto simp: apply_account_def Let_def bindE_eq_Inr split: option.splits)
  moreover have "same_queue db x = same_queue ?db x" for x by (simp add: same_queue_def)
  moreover have "same_queue ?db ?db" by (simp add: same_queue_def)
  ultimately show "db_desired db' = db_desired db" "same_queue db db'"
    using reconcile_generation_desired [of now u generation _ ?db db'] reconcile_generation_queue [of now u generation _ ?db db']
    by auto
qed

lemma same_queue_trans: "same_queue a b \<Longrightarrow> same_queue b c \<Longrightarrow> same_queue a c"
  by (simp add: same_queue_def)

lemma apply_assignment_frame:
  assumes "apply_assignment now previous body db = Inr db'"
  shows "db_desired db' = db_desired db \<and> same_queue db db'"
proof (cases body)
  case None
  then show ?thesis using assms on_tables_frame
    by (fastforce simp: apply_assignment_def split: option.splits pyval.splits)
next
  case (Some b)
  then obtain db1 db2 a where "db1 = db \<or> (\<exists>f. on_tables f db = Inr db1)"
      and db2: "\<exists>f. on_tables f db1 = Inr db2" "db' = wake_assignment_pending_events now a db2"
    using assms by (auto simp: apply_assignment_def bindE_eq_Inr split: option.splits pyval.splits if_splits; blast)
  then have "db_desired db1 = db_desired db" "same_queue db db1" using on_tables_frame by auto
  with db2 on_tables_frame same_queue_trans [of db db1 db2] show ?thesis by (metis wake_assignment_frame)
qed

section \<open>Generations\<close>

text \<open>The table holds the resource of the row at its generation or a later one.\<close>

definition covered :: "desired_row list \<Rightarrow> desired_row \<Rightarrow> bool" where
  "covered ds row =
     (case find (same_resource (ds_type row) (ds_uuid row)) ds of None \<Rightarrow> False | Some d \<Rightarrow> ds_generation row \<le> ds_generation d)"

lemma find_replaced:
  "find (same_resource t u) (update_where (same_resource (ds_type row) (ds_uuid row)) (\<lambda>_. row) ds) =
     map_option (\<lambda>d. if t = ds_type row \<and> u = ds_uuid row then row else d) (find (same_resource t u) ds)"
  by (induction ds) (auto simp: update_where_def same_resource_def)

lemma find_append: "find P (xs @ ys) = (case find P xs of None \<Rightarrow> find P ys | Some x \<Rightarrow> Some x)"
  by (induction xs) auto

lemma covered_skipped: "covered ds row \<Longrightarrow> upsert_desired row ds = None"
  by (auto simp: covered_def upsert_desired_def split: option.splits)

lemma skipped_covered: "upsert_desired row ds = None \<Longrightarrow> covered ds row"
  by (auto simp: covered_def upsert_desired_def split: option.splits if_splits)

lemma upsert_covers: "upsert_desired row ds = Some ds' \<Longrightarrow> covered ds' row"
  by (auto simp: covered_def upsert_desired_def find_append find_replaced same_resource_def split: option.splits if_splits)

lemma upsert_keeps_covered:
  "upsert_desired row ds = Some ds' \<Longrightarrow> covered ds row' \<Longrightarrow> covered ds' row'"
  by (auto simp: covered_def upsert_desired_def find_append find_replaced same_resource_def split: option.splits if_splits)

lemma apply_change_step:
  assumes "apply_change now db change = Inr db'"
  obtains row where "change_row change = Inr row" "covered (db_desired db') row" "same_queue db db'"
    "db' = db \<or> upsert_desired row (db_desired db) = Some (db_desired db')"
proof -
  from assms obtain row where row: "change_row change = Inr row" by (auto simp: apply_change_def bindE_eq_Inr)
  show thesis
  proof (cases "upsert_desired row (db_desired db)")
    case None
    with assms row have "db' = db" by (auto simp: apply_change_def Let_def)
    with None row that show thesis by (simp add: skipped_covered)
  next
    case (Some ds)
    let ?db = "db\<lparr>db_desired := ds\<rparr>"
    have "db_desired db' = ds \<and> same_queue ?db db'"
      using assms row Some apply_account_frame [of now _ _ _ ?db db'] apply_assignment_frame [of now _ _ ?db db']
      by (auto simp: apply_change_def Let_def split: if_splits)
    moreover have "same_queue db ?db" by (simp add: same_queue_def)
    ultimately show thesis using that row Some upsert_covers same_queue_trans [of db ?db db'] by blast
  qed
qed

lemma apply_changes_steps:
  assumes "foldE (apply_change now) db changes = Inr db'"
  shows "same_queue db db' \<and> (\<forall>row. covered (db_desired db) row \<longrightarrow> covered (db_desired db') row) \<and>
     (\<forall>change \<in> set changes. \<exists>row. change_row change = Inr row \<and> covered (db_desired db') row)"
  using assms
proof (induction changes arbitrary: db)
  case Nil
  then show ?case by simp
next
  case (Cons change changes)
  then obtain db1 where db1: "apply_change now db change = Inr db1" "foldE (apply_change now) db1 changes = Inr db'"
    by (auto simp: bindE_eq_Inr)
  from db1(1) obtain row where "change_row change = Inr row" "covered (db_desired db1) row" "same_queue db db1"
      "db1 = db \<or> upsert_desired row (db_desired db) = Some (db_desired db1)"
    by (rule apply_change_step)
  with Cons.IH [OF db1(2)] show ?case using same_queue_trans upsert_keeps_covered by fastforce
qed

lemma covered_change_skipped:
  "change_row change = Inr row \<Longrightarrow> covered (db_desired db) row \<Longrightarrow> apply_change now db change = Inr db"
  by (simp add: apply_change_def covered_skipped Let_def)

lemma covered_changes_skipped:
  "\<forall>change \<in> set changes. \<exists>row. change_row change = Inr row \<and> covered (db_desired db) row \<Longrightarrow>
     foldE (apply_change now) db changes = Inr db"
  by (induction changes) (auto simp: covered_change_skipped)


definition sample_uuid :: uuid where
  "sample_uuid = ''00000000-0000-0000-0000-00000000000a''"

definition sample_change :: dict where
  "sample_change =
     [(''operation'', VStr ''upsert''), (''resource_type'', VStr ''external_account''),
      (''resource_uuid'', VStr sample_uuid), (''generation'', VInt 4), (''required_capabilities'', VDict []),
      (''resource'', VDict [(''resource_type'', VStr ''external_account''), (''uuid'', VStr sample_uuid),
         (''generation'', VInt 4), (''synchronization_enabled'', VBool True)])]"

lemma sample_change_applies:
  "case apply_desired_changes 5 [sample_change] ''c7'' empty_queue of
     Inl _ \<Rightarrow> False | Inr (_, db') \<Rightarrow> (case db_accounts db' sample_uuid of None \<Rightarrow> False | Some _ \<Rightarrow> True)"
  by code_simp


end
