(* ===== verification/Provider_Protocol.thy ===== *)
theory Provider_Protocol
  imports Account_Breaker
begin

text \<open>
  The private HTTP data plane (\<open>provider_protocol.py\<close> and the two loops of \<open>service.py\<close> that
  use it): a leased operation becomes the record the scheduler stores
  (\<open>leased_operation_record\<close>), a stored result becomes the payload that is reported
  (\<open>result_payload\<close>), and provider chats get a key that all accounts of a realm share
  (\<open>direct_conversation_key\<close>).
\<close>

section \<open>Leased operations\<close>

definition OUTBOUND_KIND :: "(string \<times> string) list" where
  "OUTBOUND_KIND =
     [(''message.create'', ''message.create''), (''message.update'', ''message.update''),
      (''message.delete'', ''message.delete''), (''reaction.create'', ''reaction.create''),
      (''reaction.update'', ''reaction.update''), (''reaction.delete'', ''reaction.delete''),
      (''read_state.set'', ''read_state.set''), (''membership.add'', ''membership.add''),
      (''membership.remove'', ''membership.remove''),
      (''stream.notification.update'', ''stream.notification.update''),
      (''topic.notification.update'', ''topic.notification.update''), (''stream.delete'', ''stream.delete''),
      (''topic.create'', ''topic.create''), (''stream.update'', ''stream.upsert''),
      (''topic.update'', ''topic.upsert''), (''topic.delete'', ''topic.delete'')]"

definition db_tables :: "queue_db \<Rightarrow> mapping_tables" where
  "db_tables db = (db_mappings db, db_aliases db)"

definition provider_mapping :: "queue_db \<Rightarrow> uuid \<Rightarrow> string \<Rightarrow> pyval \<Rightarrow> mapping_row result" where
  "provider_mapping db account kind workspace =
     (case workspace_mapping account kind (py_str workspace) (db_tables db) of
        None \<Rightarrow> Inl (ValueErr (''Missing Zulip '' @ kind @ '' mapping''))
      | Some m \<Rightarrow> Inr m)"

definition chat_key :: "queue_db \<Rightarrow> uuid \<Rightarrow> string \<Rightarrow> dict \<Rightarrow> string result" where
  "chat_key db account kind payload =
     (let stream = (\<lambda>u. bindE (provider_mapping db account ''stream'' u) (\<lambda>m. Inr (mp_provider_id m))) in
      if starts_with ''stream.'' kind then bindE (item payload ''uuid'') stream
      else if starts_with ''topic.'' kind \<or> starts_with ''message.'' kind \<or> starts_with ''membership.'' kind \<or>
              kind = ''read_state.set''
      then bindE (item payload ''stream_uuid'') stream
      else if starts_with ''reaction.'' kind
      then bindE (item payload ''message_uuid'') (\<lambda>u.
           bindE (provider_mapping db account ''message'' u) (\<lambda>m.
           bindE (item (mp_metadata m) ''chat_key'') (\<lambda>c. Inr (py_str c))))
      else Inl (ValueErr ''Unsupported Provider operation kind''))"

text \<open>\<open>a or b\<close>\<close>

definition py_or :: "pyval \<Rightarrow> pyval \<Rightarrow> pyval" where
  "py_or v w = (if truthy v then v else w)"

definition lease_entity_uuid :: "string \<Rightarrow> dict \<Rightarrow> uuid result" where
  "lease_entity_uuid kind payload =
     (if kind = ''read_state.set''
      then (case get_val payload ''message_uuids'' of
              VList (u # us) \<Rightarrow> parse_uuid (py_str (last (u # us)))
            | _ \<Rightarrow> Inl (ValueErr ''Provider read state requires exact message UUIDs''))
      else bindE (item payload ''uuid'') (\<lambda>u. parse_uuid (py_str u)))"

text \<open>The provider identifier of the entity an operation is about, when it is known already.\<close>

definition lease_entity_id :: "queue_db \<Rightarrow> uuid \<Rightarrow> string \<Rightarrow> dict \<Rightarrow> uuid \<Rightarrow> string option result" where
  "lease_entity_id db account kind payload entity_uuid =
     (let entity_kind = fst (partition_on (CHR ''.'') kind);
          known = (\<lambda>m. Inr (Some (mp_provider_id m))) in
      if starts_with ''membership.'' kind
      then bindE (item payload ''user_uuid'') (\<lambda>u. bindE (provider_mapping db account ''identity'' u) known)
      else if starts_with ''reaction.'' kind
      then bindE (item payload ''message_uuid'') (\<lambda>u. bindE (provider_mapping db account ''message'' u) known)
      else if kind \<in> {''message.update'', ''message.delete'', ''topic.create'', ''topic.update'', ''topic.delete'',
                      ''topic.notification.update''}
      then Inr (map_option mp_provider_id (workspace_mapping account entity_kind entity_uuid (db_tables db)))
      else if kind \<notin> {''message.create'', ''read_state.set''}
      then bindE (provider_mapping db account entity_kind (VStr entity_uuid)) known
      else Inr None)"

definition lease_operation :: "string \<Rightarrow> uuid \<Rightarrow> string \<Rightarrow> string option \<Rightarrow> dict \<Rightarrow> dict" where
  "lease_operation bridge_kind entity_uuid chat entity_id payload =
     (let occurred = py_or (get_val payload ''notification_updated_at'')
            (py_or (get_val payload ''updated_at'') (get_val payload ''created_at''));
          actor = py_or (get_val payload ''reader_uuid'') (py_or (get_val payload ''who_uuid'')
            (py_or (get_val payload ''user_uuid'') (py_or (get_val payload ''author_uuid'') (VStr (uuid_text 0)))))
      in [(''kind'', VStr bridge_kind), (''entity_uuid'', VStr entity_uuid), (''actor_uuid'', VStr (py_str actor)),
          (''occurred_at'', VStr (if occurred = VNone then ''1970-01-01T00:00:00Z'' else py_str occurred)),
          (''provider'', VDict [(''kind'', VStr ''zulip''), (''chat_id'', VStr chat),
             (''entity_id'', opt_str entity_id), (''revision'', VNone)]),
          (''payload'', VDict payload), (''extensions'', VDict [])])"

definition lease_transport :: "dict \<Rightarrow> dict result" where
  "lease_transport leased =
     bindE (item leased ''provider_operation_uuid'') (\<lambda>o_uuid.
     bindE (item leased ''lease_uuid'') (\<lambda>l_uuid.
     bindE (item leased ''attempt'') (\<lambda>n.
     Inr [(''provider_operation_uuid'', VStr (py_str o_uuid)), (''lease_uuid'', VStr (py_str l_uuid)),
          (''required_capability'', get_val leased ''required_capability''), (''provider_attempt'', n)])))"

definition leased_uuid :: "dict \<Rightarrow> string \<Rightarrow> uuid result" where
  "leased_uuid leased k = bindE (item leased k) (\<lambda>v. parse_uuid (py_str v))"

text \<open>
  What a lease says about the operation itself, without the lease: account, project, the
  identifiers of the operation and of its record, chat and operation. A payload that is no
  object fails at its first use, a subscript or, for a read state, a method call.
\<close>

definition lease_identity :: "queue_db \<Rightarrow> dict \<Rightarrow> (uuid \<times> uuid \<times> uuid \<times> uuid \<times> string \<times> dict) result" where
  "lease_identity db leased =
     bindE (item leased ''operation_kind'') (\<lambda>k.
     let kind = py_str k in
     bindE (case map_of OUTBOUND_KIND kind of None \<Rightarrow> Inl (KeyErr kind) | Some b \<Rightarrow> Inr b) (\<lambda>bridge_kind.
     bindE (leased_uuid leased ''external_account_uuid'') (\<lambda>account.
     bindE (leased_uuid leased ''project_id'') (\<lambda>project.
     bindE (item leased ''payload'') (\<lambda>pl.
     bindE (case pl of VDict d \<Rightarrow> Inr d | _ \<Rightarrow> Inl (if kind = ''read_state.set'' then AttributeErr else TypeErr)) (\<lambda>payload.
     bindE (lease_entity_uuid kind payload) (\<lambda>entity_uuid.
     bindE (chat_key db account kind payload) (\<lambda>chat.
     bindE (lease_entity_id db account kind payload entity_uuid) (\<lambda>entity_id.
     bindE (leased_uuid leased
       (if kind = ''read_state.set'' then ''provider_operation_uuid'' else ''external_operation_uuid'')) (\<lambda>operation_uuid.
     bindE (leased_uuid leased ''provider_operation_uuid'') (\<lambda>record_uuid.
     Inr (account, project, operation_uuid, record_uuid, chat,
          lease_operation bridge_kind entity_uuid chat entity_id payload))))))))))))"

text \<open>The record before it is sealed by its digest; \<open>now\<close> is the printed reading of the clock.\<close>

definition lease_record ::
  "string \<Rightarrow> queue_db \<Rightarrow> uuid \<times> uuid \<times> uuid \<times> uuid \<times> string \<times> dict \<Rightarrow> string \<Rightarrow> dict \<Rightarrow> op_record" where
  "lease_record now db identity expires transport =
     (case identity of (account, project, operation_uuid, record_uuid, chat, operation) \<Rightarrow>
       let position = producer_lane_position operation_uuid db
       in \<lparr>rec_schema = ''workspace.provider'', rec_schema_version = 1, rec_uuid = record_uuid,
           rec_operation_uuid = operation_uuid, rec_attempt = 1, rec_sha256 = [], rec_account_uuid = account,
           rec_project_uuid = project, rec_origin = ''workspace'',
           rec_causal_lane = ''chat:'' @ account @ '':'' @ chat, rec_sequence = fst position,
           rec_predecessor = (if fst position \<noteq> 0 then snd position else None), rec_created_at = now,
           rec_expires_at = Some expires, rec_transport = Some transport,
           rec_operation = operation, rec_read_sha256 = None\<rparr>)"

definition leased_operation_record ::
  "(string \<Rightarrow> string) \<Rightarrow> (string \<Rightarrow> string) \<Rightarrow> string \<Rightarrow> queue_db \<Rightarrow> dict \<Rightarrow> op_record result" where
  "leased_operation_record nfc sha256 now db leased =
     bindE (lease_identity db leased) (\<lambda>identity.
     bindE (item leased ''lease_expires_at'') (\<lambda>expires.
     bindE (lease_transport leased) (\<lambda>transport.
     let r = lease_record now db identity (py_str expires) transport
     in bindE (record_digest nfc sha256 r) (\<lambda>h. Inr (r\<lparr>rec_sha256 := h\<rparr>)))))"

section \<open>Conversation keys\<close>

definition direct_prefix :: string where
  "direct_prefix = ''direct-conversation:v1:''"

text \<open>The identifiers a chat key lists, as text; a versioned key carries their number.\<close>

definition listed_values :: "string \<Rightarrow> string list result" where
  "listed_values key =
     (if starts_with direct_prefix key
      then (case partition_on (CHR '':'') (drop (length direct_prefix) key) of
              (count, separator, identifiers) \<Rightarrow>
                let values = (if separator then split_on (CHR '','') identifiers else []) in
                if show_nat (length values) \<noteq> count
                then Inl (ValueErr ''Provider direct-conversation key is invalid'') else Inr values)
      else if starts_with ''direct:'' key \<or> starts_with ''group_direct:'' key
      then Inr (split_on (CHR '','') (snd (snd (partition_on (CHR '':'') key))))
      else Inl (ValueErr ''Provider chat key is invalid''))"

definition int_literal :: "string \<Rightarrow> int result" where
  "int_literal s =
     (case py_int 10 s of None \<Rightarrow> Inl (ValueErr ''invalid literal for int() with base 10'') | Some i \<Rightarrow> Inr i)"

definition owner_user_id :: "queue_db \<Rightarrow> uuid \<Rightarrow> string option" where
  "owner_user_id db account = Option.bind (db_cursors db account) cu_owner_user_id"

text \<open>The participants of a chat, with the owner of the account, in ascending order.\<close>

definition conversation_members :: "queue_db \<Rightarrow> uuid \<Rightarrow> string \<Rightarrow> int list result" where
  "conversation_members db account key =
     bindE (listed_values key) (\<lambda>values.
     bindE (mapE int_literal (filter (\<lambda>v. v \<noteq> []) values)) (\<lambda>ids.
     bindE (case owner_user_id db account of
              None \<Rightarrow> Inr ids | Some w \<Rightarrow> bindE (int_literal w) (\<lambda>i. Inr (i # ids))) (\<lambda>ids'.
     Inr (sort (remdups ids')))))"

definition conversation_text :: "int list \<Rightarrow> string" where
  "conversation_text ids = direct_prefix @ show_nat (length ids) @ '':'' @ join '','' (map show_int ids)"

definition direct_conversation_key :: "queue_db \<Rightarrow> uuid \<Rightarrow> string \<Rightarrow> string result" where
  "direct_conversation_key db account key =
     (if starts_with ''channel:'' key \<or> key = ''account'' then Inr key
      else bindE (conversation_members db account key) (\<lambda>ids.
        if ids = [] then Inl (ValueErr ''Provider direct-conversation participants are missing'')
        else Inr (conversation_text ids)))"

section \<open>Results\<close>

definition result_status :: "string \<Rightarrow> string" where
  "result_status outcome =
     (if outcome = ''committed'' then ''succeeded''
      else if outcome = ''manual_reconciliation_required'' then outcome else ''failed'')"

definition result_payload :: "result_rec \<Rightarrow> dict result" where
  "result_payload res =
     bindE (case res_transport res of None \<Rightarrow> Inl (KeyErr ''transport'') | Some t \<Rightarrow> Inr t) (\<lambda>transport.
     bindE (item transport ''provider_operation_uuid'') (\<lambda>o_uuid.
     bindE (item transport ''lease_uuid'') (\<lambda>l_uuid.
     let status = result_status (res_outcome res) in
     bindE (if status = ''manual_reconciliation_required''
            then (case res_reconciliation res of
                    None \<Rightarrow> Inl (KeyErr ''reconciliation'')
                  | Some (reason, evidence) \<Rightarrow>
                      Inr [(''reconciliation'', VDict [(''reason'', VStr reason), (''evidence'', evidence)])])
            else Inr []) (\<lambda>reconciliation.
     Inr ([(''result_uuid'', VStr (res_uuid res)), (''provider_operation_uuid'', VStr (py_str o_uuid)),
           (''lease_uuid'', VStr (py_str l_uuid)), (''status'', VStr status), (''safe_error'', opt_str (res_error_code res))]
          @ reconciliation
          @ (case (status = ''succeeded'', res_entity_id res) of
               (True, Some e) \<Rightarrow> [(''provider_entity_id'', VStr e)] | _ \<Rightarrow> []))))))"

section \<open>The polling loop\<close>

definition rejection :: "(string \<Rightarrow> uuid) \<Rightarrow> pyval \<Rightarrow> dict result" where
  "rejection uuid5 leased =
     bindE (sub_item leased ''provider_operation_uuid'') (\<lambda>o_uuid.
     bindE (sub_item leased ''lease_uuid'') (\<lambda>l_uuid.
     Inr [(''result_uuid'', VStr (uuid5 (''provider-rejected:'' @ py_str o_uuid @ '':'' @ py_str l_uuid))),
          (''provider_operation_uuid'', VStr (py_str o_uuid)), (''lease_uuid'', VStr (py_str l_uuid)),
          (''status'', VStr ''failed''), (''safe_error'', VStr ''unsupported_operation'')]))"

text \<open>\<open>except (KeyError, TypeError, ValueError)\<close>; \<open>InvalidCanonicalValue\<close> is a \<open>ValueError\<close>.\<close>

fun rejects :: "pyerror \<Rightarrow> bool" where
  "rejects (KeyErr _) = True"
| "rejects (ValueErr _) = True"
| "rejects TypeErr = True"
| "rejects (InvalidCanonicalValue _) = True"
| "rejects _ = False"

text \<open>
  Storing one lease: renewing a known operation, else queueing it. Either call is a
  transaction of its own, and the record is built from the database before them.
\<close>

definition store_lease ::
  "(string \<Rightarrow> string) \<Rightarrow> (string \<Rightarrow> string) \<Rightarrow> timestamp \<Rightarrow> string \<Rightarrow> pyval \<Rightarrow> queue_db \<Rightarrow> bool result \<times> queue_db" where
  "store_lease nfc sha256 now clock leased db =
     (case bindE (case leased of VDict d \<Rightarrow> Inr d | _ \<Rightarrow> Inl TypeErr) (leased_operation_record nfc sha256 clock db) of
        Inl e \<Rightarrow> (Inl e, db)
      | Inr r \<Rightarrow>
          (case bind_provider_lease nfc sha256 now r db of
             Inl e \<Rightarrow> (Inl e, db)
           | Inr (True, db1) \<Rightarrow> (Inr True, db1)
           | Inr (False, db1) \<Rightarrow>
               (case enqueue nfc sha256 now r 0 db1 of
                  Inl e \<Rightarrow> (Inl e, db1) | Inr (b, db2) \<Rightarrow> (Inr b, db2))))"

fun store_leases ::
  "(string \<Rightarrow> string) \<Rightarrow> (string \<Rightarrow> string) \<Rightarrow> (string \<Rightarrow> uuid) \<Rightarrow> timestamp \<Rightarrow> string \<Rightarrow> pyval list \<Rightarrow>
     nat \<times> dict list \<Rightarrow> queue_db \<Rightarrow> (nat \<times> dict list) result \<times> queue_db" where
  "store_leases nfc sha256 uuid5 now clock [] acc db = (Inr acc, db)"
| "store_leases nfc sha256 uuid5 now clock (leased # rest) acc db =
     (case store_lease nfc sha256 now clock leased db of
        (Inr b, db1) \<Rightarrow> store_leases nfc sha256 uuid5 now clock rest (fst acc + of_bool b, snd acc) db1
      | (Inl e, db1) \<Rightarrow>
          if rejects e
          then (case rejection uuid5 leased of
                  Inl e' \<Rightarrow> (Inl e', db1)
                | Inr res \<Rightarrow> store_leases nfc sha256 uuid5 now clock rest (fst acc, snd acc @ [res]) db1)
          else (Inl e, db1))"

text \<open>
  What the loop reads from outside: a fresh request identifier, the two calls of the data
  plane, the clock of the database and of the process, and the digest functions.
\<close>

record plane_env =
  pe_uuid4 :: uuid
  pe_uuid5 :: "string \<Rightarrow> uuid"
  pe_lease :: "uuid \<Rightarrow> dict result"
  pe_report :: "dict list \<Rightarrow> dict result"
  pe_now :: timestamp
  pe_clock :: string
  pe_nfc :: "string \<Rightarrow> string"
  pe_sha256 :: "string \<Rightarrow> string"

text \<open>The state of the loop is the request that is still open, beside the database.\<close>

definition poll_provider_operations ::
  "plane_env \<Rightarrow> uuid option \<times> queue_db \<Rightarrow> nat result \<times> uuid option \<times> queue_db" where
  "poll_provider_operations e s =
     (let request = (case fst s of None \<Rightarrow> pe_uuid4 e | Some u \<Rightarrow> u) in
      case bindE (pe_lease e request) (\<lambda>response. bindE (item response ''operations'') (\<lambda>v.
             case v of VList xs \<Rightarrow> Inr xs | _ \<Rightarrow> Inl TypeErr)) of
        Inl err \<Rightarrow> (Inl err, Some request, snd s)
      | Inr operations \<Rightarrow>
          (case store_leases (pe_nfc e) (pe_sha256 e) (pe_uuid5 e) (pe_now e) (pe_clock e) operations (0, []) (snd s) of
             (Inl err, db) \<Rightarrow> (Inl err, Some request, db)
           | (Inr (processed, rejections), db) \<Rightarrow>
               (case if rejections = [] then Inr [] else pe_report e rejections of
                  Inl err \<Rightarrow> (Inl err, Some request, db)
                | Inr _ \<Rightarrow> (Inr (processed + length rejections), None, mark_health ''provider_api'' ''healthy'' None db))))"

section \<open>Reporting results\<close>

definition result_lease :: "result_rec \<Rightarrow> string option" where
  "result_lease res =
     (case res_transport res of
        None \<Rightarrow> None
      | Some t \<Rightarrow> if truthy (get_val t ''lease_uuid'') then Some (py_str (get_val t ''lease_uuid'')) else None)"

definition response_entries :: "dict \<Rightarrow> (string \<times> dict) list result" where
  "response_entries response =
     bindE (item response ''results'') (\<lambda>v.
     bindE (case v of VList xs \<Rightarrow> Inr xs | _ \<Rightarrow> Inl TypeErr) (\<lambda>xs.
     mapE (\<lambda>x. bindE (case x of VDict d \<Rightarrow> Inr d | _ \<Rightarrow> Inl TypeErr) (\<lambda>d.
             bindE (item d ''result_uuid'') (\<lambda>u. Inr (py_str u, d)))) xs))"

text \<open>One report: all pending results in one request, and the answers written back in one transaction.\<close>

definition flush_provider_results :: "plane_env \<Rightarrow> nat transaction" where
  "flush_provider_results e db =
     (let records = pending_results 100 db in
      if records = [] then Inr (0, db)
      else bindE (mapE result_payload records) (\<lambda>payloads.
           bindE (pe_report e payloads) (\<lambda>response.
           bindE (response_entries response) (\<lambda>entries.
           bindE (guardE (map fst entries = map res_uuid records)
             (ValueErr ''Provider result response does not match request order'')) (\<lambda>_.
           bindE (mapE (\<lambda>(res, entry). bindE (item (snd entry) ''status'') (\<lambda>st.
                    Inr (res_uuid res, py_str st, result_lease res))) (zip records entries)) (\<lambda>acknowledgements.
           bindE (finalize_provider_result_responses (pe_nfc e) (pe_sha256 e) (pe_now e) acknowledgements db) (\<lambda>(_, db').
           Inr (length (filter (\<lambda>a. fst (snd a) \<in> {''applied'', ''duplicate''}) acknowledgements), db'))))))))"

end
