(* ===== verification/Protocol_Properties.thy ===== *)
theory Protocol_Properties
  imports Provider_Protocol Queue_Properties
begin

text \<open>
  Properties of the private data plane: conversation keys are canonical and shared by the
  accounts of a realm, a renewed lease finds the operation it renews, and storing a lease is
  a step of the queue.
\<close>

section \<open>Conversation keys\<close>

lemma partition_on_absent: "c \<notin> set h \<Longrightarrow> partition_on c (h @ c # t) = (h, True, t)"
  by (induction h) auto

lemma starts_with_hd: "starts_with p x \<Longrightarrow> p \<noteq> [] \<Longrightarrow> hd x = hd p"
  by (cases p; cases x) (auto simp: starts_with_def)

lemma digit_char_punctuation: "n < 36 \<Longrightarrow> digit_char n \<noteq> CHR '':''" "n < 36 \<Longrightarrow> digit_char n \<noteq> CHR '',''"
  using digit_char_bounds [of n] by auto

lemma show_nat_punctuation: "CHR '':'' \<notin> set (show_nat n)" "CHR '','' \<notin> set (show_nat n)"
  by (rule show_base_char_notin; simp add: digit_char_punctuation)+

lemma show_int_comma: "CHR '','' \<notin> set (show_int i)"
  by (simp add: show_int_def show_nat_punctuation)

lemma int_literal_show [simp]: "int_literal (show_int i) = Inr i"
  by (simp add: int_literal_def)

lemma mapE_int_literal [simp]: "mapE int_literal (map show_int ids) = Inr ids"
  by (induction ids) auto

lemma listed_values_text: "ids \<noteq> [] \<Longrightarrow> listed_values (conversation_text ids) = Inr (map show_int ids)"
  by (simp add: listed_values_def conversation_text_def starts_with_def partition_on_absent show_nat_punctuation
      split_on_join show_int_comma)

lemma conversation_text_prefix: "\<not> starts_with ''channel:'' (conversation_text ids)" "conversation_text ids \<noteq> ''account''"
  by (simp_all add: conversation_text_def direct_prefix_def starts_with_def)

lemma conversation_text_inj: "ids \<noteq> [] \<Longrightarrow> ids' \<noteq> [] \<Longrightarrow> conversation_text ids = conversation_text ids' \<Longrightarrow> ids = ids'"
  using listed_values_text [of ids] listed_values_text [of ids'] by (metis inj_map_eq_map inj_def show_int_inj sum.inject(2))

lemma conversation_members_shape:
  assumes "conversation_members db account key = Inr ids"
  shows "sorted ids" "distinct ids"
    "case owner_user_id db account of None \<Rightarrow> True | Some w \<Rightarrow> (\<exists>i. int_literal w = Inr i \<and> i \<in> set ids)"
  using assms by (cases "owner_user_id db account"; auto simp: conversation_members_def bindE_eq_Inr)+

lemma conversation_members_text:
  assumes "conversation_members db account key = Inr ids" "ids \<noteq> []"
  shows "conversation_members db account (conversation_text ids) = Inr ids"
proof -
  note shape = conversation_members_shape [OF assms(1)]
  have idem: "sort (remdups ids) = ids" "i \<in> set ids \<Longrightarrow> sort (remdups (i # ids)) = ids" for i
    using shape(1,2) by (simp_all add: distinct_remdups_id sorted_sort_id)
  have "filter (\<lambda>v. v \<noteq> []) (map show_int ids) = map show_int ids" by (induction ids) auto
  with shape(3) idem show ?thesis
    by (auto simp: conversation_members_def listed_values_text [OF assms(2)] split: option.splits)
qed

text \<open>
  Conversation keys are canonical: a key that the bridge has made is a fixed point, so
  it can be stored and passed through again, and it lists every participant and the owner
  once, in ascending order.
\<close>

lemma conversation_key_idempotent:
  assumes "direct_conversation_key db account key = Inr k"
  shows "direct_conversation_key db account k = Inr k"
proof (cases "starts_with ''channel:'' key \<or> key = ''account''")
  case True
  with assms show ?thesis by (auto simp: direct_conversation_key_def)
next
  case False
  with assms obtain ids where "conversation_members db account key = Inr ids" "ids \<noteq> []" "k = conversation_text ids"
    by (auto simp: direct_conversation_key_def bindE_eq_Inr split: if_splits)
  then show ?thesis
    by (simp add: direct_conversation_key_def conversation_text_prefix conversation_members_text)
qed

text \<open>
  Accounts of one realm agree on a conversation, and only on it: two accounts that list
  the same participants, each counting its own owner, get the same key from whatever form of
  the chat key they hold, and equal keys mean equal participants.
\<close>

lemma conversation_key_shared:
  assumes "conversation_members db account key = Inr ids" "conversation_members db' account' key' = Inr ids'"
    and "direct_conversation_key db account key = Inr k" "direct_conversation_key db' account' key' = Inr k'"
  shows "k = k' \<longleftrightarrow> set ids = set ids'"
proof -
  have plain: "\<not> (starts_with ''channel:'' x \<or> x = ''account'')" if "conversation_members d a x = Inr y" for d a x y
  proof -
    from that obtain vs where "listed_values x = Inr vs" by (auto simp: conversation_members_def bindE_eq_Inr)
    then have "starts_with direct_prefix x \<or> starts_with ''direct:'' x \<or> starts_with ''group_direct:'' x"
      by (auto simp: listed_values_def split: if_splits)
    then have "hd x = CHR ''d'' \<or> hd x = CHR ''g''"
      using starts_with_hd [of direct_prefix x] starts_with_hd [of "''direct:''" x] starts_with_hd [of "''group_direct:''" x]
      by (auto simp: direct_prefix_def)
    then show ?thesis using starts_with_hd [of "''channel:''" x] by auto
  qed
  have k: "ids \<noteq> []" "k = conversation_text ids" "ids' \<noteq> []" "k' = conversation_text ids'"
    using assms plain [OF assms(1)] plain [OF assms(2)] by (auto simp: direct_conversation_key_def split: if_splits)
  have "ids = ids' \<longleftrightarrow> set ids = set ids'"
    using conversation_members_shape(1,2) [OF assms(1)] conversation_members_shape(1,2) [OF assms(2)]
    by (auto intro: sorted_distinct_set_unique)
  with k conversation_text_inj [OF k(1,3)] show ?thesis by auto
qed

definition realm_db :: "string \<Rightarrow> queue_db" where
  "realm_db owner = empty_queue\<lparr>db_cursors := [''acc'' \<mapsto> \<lparr>cu_queue_id = ''q'', cu_last_event_id = 0, cu_realm_uuid = None,
     cu_owner_user_id = Some owner, cu_account_generation = None, cu_scanned_generation = None\<rparr>]\<rparr>"

lemma realm_db_keys:
  "direct_conversation_key (realm_db ''9'') ''acc'' ''direct:11'' = Inr ''direct-conversation:v1:2:9,11''"
  "direct_conversation_key (realm_db ''11'') ''acc'' ''direct:9,11'' = Inr ''direct-conversation:v1:2:9,11''"
  "conversation_members (realm_db ''9'') ''acc'' ''direct:11'' = Inr [9, 11]"
  "conversation_members (realm_db ''11'') ''acc'' ''direct:9,11'' = Inr [9, 11]"
  by code_simp+

section \<open>Renewed leases\<close>

lemma record_digest_cong:
  assumes "rec_account_uuid r' = rec_account_uuid r" "rec_causal_lane r' = rec_causal_lane r"
    "rec_operation r' = rec_operation r" "rec_operation_uuid r' = rec_operation_uuid r" "rec_origin r' = rec_origin r"
    "rec_predecessor r' = rec_predecessor r" "rec_project_uuid r' = rec_project_uuid r" "rec_sequence r' = rec_sequence r"
  shows "record_digest nfc sha256 r' = record_digest nfc sha256 r"
proof -
  have "\<forall>k \<in> set digest_fields. map_of (record_dict r') k = map_of (record_dict r) k"
    using assms by (auto simp: digest_fields_def record_dict_def split: option.splits)
  then have "digest_value (record_dict r') = digest_value (record_dict r)"
    by (auto simp: digest_value_def item_def cong: mapE_cong)
  then show ?thesis by (simp add: record_digest_def operation_digest_def)
qed

text \<open>The keys of a lease that say which operation it is about.\<close>

definition operation_keys :: "string list" where
  "operation_keys = [''operation_kind'', ''external_account_uuid'', ''project_id'', ''payload'',
     ''provider_operation_uuid'', ''external_operation_uuid'']"

lemma lease_identity_cong:
  assumes "\<forall>k \<in> set operation_keys. map_of leased' k = map_of leased k" "db_tables db' = db_tables db"
  shows "lease_identity db' leased' = lease_identity db leased"
proof -
  have "item leased' k = item leased k" if "k \<in> set operation_keys" for k
    using that assms(1) by (simp add: item_def)
  then have "item leased' ''operation_kind'' = item leased ''operation_kind''" "item leased' ''payload'' = item leased ''payload''"
    "leased_uuid leased' ''external_account_uuid'' = leased_uuid leased ''external_account_uuid''"
    "leased_uuid leased' ''project_id'' = leased_uuid leased ''project_id''"
    "leased_uuid leased' ''provider_operation_uuid'' = leased_uuid leased ''provider_operation_uuid''"
    "leased_uuid leased' (if b then ''provider_operation_uuid'' else ''external_operation_uuid'') =
     leased_uuid leased (if b then ''provider_operation_uuid'' else ''external_operation_uuid'')" for b
    by (simp_all add: leased_uuid_def operation_keys_def)
  moreover have pm: "provider_mapping db' = provider_mapping db"
    by (intro ext) (simp only: provider_mapping_def assms(2))
  have "chat_key db' = chat_key db" "lease_entity_id db' = lease_entity_id db"
    by (intro ext, simp only: chat_key_def lease_entity_id_def assms(2) pm)+
  ultimately show ?thesis by (simp only: lease_identity_def)
qed

lemma leased_recordE:
  assumes "leased_operation_record nfc sha256 c db leased = Inr r"
  obtains account project chat where
    "lease_identity db leased = Inr (account, project, rec_operation_uuid r, rec_uuid r, chat, rec_operation r)"
    "rec_account_uuid r = account" "rec_project_uuid r = project" "rec_causal_lane r = ''chat:'' @ account @ '':'' @ chat"
    "rec_origin r = ''workspace''" "rec_attempt r = 1" "rec_read_sha256 r = None"
    "rec_sequence r = fst (producer_lane_position (rec_operation_uuid r) db)"
    "rec_predecessor r = (if rec_sequence r \<noteq> 0 then snd (producer_lane_position (rec_operation_uuid r) db) else None)"
    "record_digest nfc sha256 r = Inr (rec_sha256 r)"
proof -
  from assms obtain identity expires transport h where
    identity: "lease_identity db leased = Inr identity"
    and r: "r = (lease_record c db identity expires transport)\<lparr>rec_sha256 := h\<rparr>"
    and h: "record_digest nfc sha256 (lease_record c db identity expires transport) = Inr h"
    by (auto simp: leased_operation_record_def bindE_eq_Inr Let_def)
  obtain account project operation_uuid record_uuid chat operation
    where t: "identity = (account, project, operation_uuid, record_uuid, chat, operation)" by (cases identity)
  have "record_digest nfc sha256 r = record_digest nfc sha256 (lease_record c db identity expires transport)"
    by (rule record_digest_cong) (simp_all add: r)
  with h have "record_digest nfc sha256 r = Inr (rec_sha256 r)" by (simp add: r)
  then show thesis
    by (rule that [rotated -1]) (simp_all add: identity r t lease_record_def Let_def)
qed

lemma record_digest_refresh:
  "rec_sequence r = n \<Longrightarrow> rec_predecessor r = p \<Longrightarrow>
     record_digest nfc sha256 (r\<lparr>rec_sequence := n, rec_predecessor := p\<rparr>) = record_digest nfc sha256 r"
  by (rule record_digest_cong) simp_all

text \<open>What queueing a leased operation leaves behind: its place in the lane and its digest.\<close>

lemma enqueue_stored:
  assumes r: "leased_operation_record nfc sha256 c db leased = Inr r" and "enqueue nfc sha256 now r priority db = Inr (True, db1)"
  obtains x e where "x \<in> set (db_operations db1)" "op_uuid x = rec_uuid r" "op_operation_uuid x = rec_operation_uuid r"
    "map_of (db_producers db1) (rec_operation_uuid r) = Some e" "pr_sequence e \<noteq> 0"
    "record_digest nfc sha256 (r\<lparr>rec_sequence := pr_sequence e, rec_predecessor := pr_predecessor e\<rparr>) = Inr (op_sha256 x)"
  using assms(2)
proof (cases rule: enqueue_cases)
  case (inserted r' db' a expires)
  have pos: "op_lane_sequence (new_operation now r' a priority expires) > 0"
    using inserted(3) by (auto simp: insert_operation_def split: if_splits)
  let ?x = "new_operation now r' a priority expires"
  from inserted(3) have db1: "db1 = (insert_idempotency (rec_operation_uuid r') (rec_sha256 r') db')
      \<lparr>db_operations := db_operations (insert_idempotency (rec_operation_uuid r') (rec_sha256 r') db') @ [?x]\<rparr>"
    by (rule insert_operation_cases) auto
  obtain account project chat where R: "rec_sequence r = fst (producer_lane_position (rec_operation_uuid r) db)"
    "rec_predecessor r = (if rec_sequence r \<noteq> 0 then snd (producer_lane_position (rec_operation_uuid r) db) else None)"
    "record_digest nfc sha256 r = Inr (rec_sha256 r)"
    by (rule leased_recordE [OF r])
  have producers: "db_producers db1 = db_producers db'"
    by (simp add: db1 insert_idempotency_def split: option.splits)
  have "\<exists>e. map_of (db_producers db') (rec_operation_uuid r) = Some e \<and> pr_sequence e = rec_sequence r' \<and>
      pr_predecessor e = rec_predecessor r' \<and> rec_uuid r' = rec_uuid r \<and> rec_operation_uuid r' = rec_operation_uuid r \<and>
      record_digest nfc sha256 (r\<lparr>rec_sequence := rec_sequence r', rec_predecessor := rec_predecessor r'\<rparr>) = Inr (rec_sha256 r')"
    using inserted(1) R pos
    by (auto simp: allocate_producer_lane_def producer_lane_position_def bindE_eq_Inr Let_def map_add_def record_digest_refresh split: if_splits option.splits)
  then obtain e where e: "map_of (db_producers db1) (rec_operation_uuid r) = Some e" "pr_sequence e = rec_sequence r'"
    "pr_predecessor e = rec_predecessor r'" "rec_uuid r' = rec_uuid r" "rec_operation_uuid r' = rec_operation_uuid r"
    "record_digest nfc sha256 (r\<lparr>rec_sequence := rec_sequence r', rec_predecessor := rec_predecessor r'\<rparr>) = Inr (rec_sha256 r')"
    using producers by auto
  show thesis
  proof (rule that [of ?x e])
    show "?x \<in> set (db_operations db1)" by (simp add: db1)
  qed (use e pos in \<open>simp_all add: new_operation_def\<close>)
qed simp


definition account_uuid :: uuid where "account_uuid = ''00000000-0000-0000-0000-00000000000a''"
definition project_uuid :: uuid where "project_uuid = ''00000000-0000-0000-0000-00000000000b''"

definition sample_lease :: "string \<Rightarrow> dict" where
  "sample_lease lease =
     [(''operation_kind'', VStr ''message.create''), (''external_account_uuid'', VStr account_uuid),
      (''project_id'', VStr project_uuid),
      (''provider_operation_uuid'', VStr ''00000000-0000-0000-0000-00000000000c''),
      (''external_operation_uuid'', VStr ''00000000-0000-0000-0000-00000000000d''),
      (''lease_uuid'', VStr lease), (''lease_expires_at'', VStr ''2024-05-01T10:00:00Z''), (''attempt'', VInt 1),
      (''payload'', VDict [(''uuid'', VStr ''00000000-0000-0000-0000-00000000000e''), (''stream_uuid'', VStr ''s''),
         (''topic_uuid'', VStr ''t''), (''author_uuid'', VStr ''a'')])]"

definition lease_db :: queue_db where
  "lease_db = empty_queue\<lparr>db_mappings := [new_mapping account_uuid ''stream'' ''s'' ''7'' None []],
     db_desired := [\<lparr>ds_type = ''external_chat_assignment'', ds_uuid = ''asg'', ds_generation = 2,
        ds_body = VDict [(''external_account_uuid'', VStr account_uuid), (''project_id'', VStr project_uuid),
          (''selected'', VBool True), (''provider_chat'', VDict [(''provider_chat_key'', VStr ''7'')])],
        ds_deleted = False\<rparr>]\<rparr>"

lemma sample_lease_run:
  "case leased_operation_record id sample_digest ''c'' lease_db (sample_lease ''l1'') of
     Inl _ \<Rightarrow> False
   | Inr r \<Rightarrow> (case enqueue id sample_digest 1 r 0 lease_db of
         Inl _ \<Rightarrow> False
       | Inr (b, db1) \<Rightarrow> b \<and> db_tables db1 = db_tables lease_db \<and>
           (case leased_operation_record id sample_digest ''d'' db1 (sample_lease ''l2'') of
              Inl _ \<Rightarrow> False
            | Inr r' \<Rightarrow> (case bind_provider_lease id sample_digest 2 r' db1 of Inl _ \<Rightarrow> False | Inr (_, _) \<Rightarrow> True)))"
  by code_simp


end
