(* ===== verification/Event_Lanes.thy ===== *)
theory Event_Lanes
  imports Provider_Mappings
begin

text \<open>
  The causal lanes of the journal of provider events (\<open>storage.py\<close>): the lane an event shows
  by itself, the messages it names, and the lane of an event that only names messages, found
  through their mappings and through earlier events. An event without a lane is a barrier
  for its account. \<open>provider_chat_reference\<close> of \<open>converter.py\<close> names the chat of a message.
\<close>

section \<open>Lanes of single events\<close>

text \<open>\<open>isinstance(v, int)\<close>, and \<open>int(v)\<close> of such a value\<close>

fun as_int :: "pyval \<Rightarrow> int" where
  "as_int (VInt i) = i"
| "as_int (VBool b) = of_bool b"
| "as_int _ = 0"

definition requires_account_barrier :: "dict \<Rightarrow> bool" where
  "requires_account_barrier event =
     (get_val event ''type'' = VStr ''update_message'' \<and>
      is_int (get_val event ''stream_id'') \<and> is_int (get_val event ''new_stream_id'') \<and>
      as_int (get_val event ''stream_id'') \<noteq> as_int (get_val event ''new_stream_id''))"

definition channel_lane :: "pyval \<Rightarrow> string option" where
  "channel_lane v = (if is_int v then Some (''channel:'' @ py_str v) else None)"

definition direct_lane :: "int list \<Rightarrow> string" where
  "direct_lane ids =
     (if length ids = 2 then ''direct'' else ''group_direct'') @ '':'' @ join '','' (map show_int (sort ids))"

definition recipient_id :: "pyval \<Rightarrow> pyval" where
  "recipient_id r = (case r of VDict d \<Rightarrow> get_val d ''id'' | _ \<Rightarrow> VNone)"

definition message_lane :: "dict \<Rightarrow> string option" where
  "message_lane message =
     (if get_val message ''type'' = VStr ''stream'' then channel_lane (get_val message ''stream_id'')
      else case get_val message ''display_recipient'' of
             VList rs \<Rightarrow>
               if rs = [] \<or> list_ex (\<lambda>r. \<not> is_int (recipient_id r)) rs then None
               else Some (direct_lane (map (as_int \<circ> recipient_id) rs))
           | _ \<Rightarrow> None)"

definition list_of :: "pyval \<Rightarrow> pyval list" where
  "list_of v = (case v of VList xs \<Rightarrow> xs | _ \<Rightarrow> [])"

definition subscribed_streams :: "dict \<Rightarrow> pyval list" where
  "subscribed_streams event =
     filter is_int (get_val event ''stream_id'' # list_of (get_val event ''stream_ids'')
       @ map (\<lambda>v. case v of VDict d \<Rightarrow> get_val d ''stream_id'' | _ \<Rightarrow> VNone) (list_of (get_val event ''subscriptions'')))"

text \<open>
  The set of stream identifiers has one element when all are equal as numbers; the element
  that stays in it is the first one, except that those of \<open>subscriptions\<close> pass \<open>int\<close>.
\<close>

definition single_stream :: "dict \<Rightarrow> pyval option" where
  "single_stream event =
     (let plain = filter is_int (get_val event ''stream_id'' # list_of (get_val event ''stream_ids''));
          all = subscribed_streams event
      in if all \<noteq> [] \<and> list_all (\<lambda>v. as_int v = as_int (hd all)) all
         then Some (if plain \<noteq> [] then hd plain else VInt (as_int (hd all))) else None)"

definition user_lane :: "dict \<Rightarrow> string" where
  "user_lane event =
     (let u = (case get_val event ''person'' of VDict p \<Rightarrow> get_val p ''user_id'' | _ \<Rightarrow> get_val event ''user_id'')
      in if is_int u then ''identity:'' @ py_str u else ''account:identities'')"

definition static_causal_lane :: "dict \<Rightarrow> string option" where
  "static_causal_lane event =
     (let t = get_val event ''type'' in
      if requires_account_barrier event then None
      else if t = VStr ''message''
      then (case get_val event ''message'' of VDict m \<Rightarrow> message_lane m | _ \<Rightarrow> None)
      else if t = VStr ''user_topic'' then channel_lane (get_val event ''stream_id'')
      else if t = VStr ''update_message'' then channel_lane (get_val event ''stream_id'')
      else if t = VStr ''subscription'' \<or> t = VStr ''user_settings''
      then (case single_stream event of
              Some v \<Rightarrow> Some (''channel:'' @ py_str v)
            | None \<Rightarrow> if t = VStr ''subscription'' then None else Some ''account:user-settings'')
      else if t = VStr ''realm_user'' then Some (user_lane event)
      else None)"

section \<open>The messages of an event\<close>

text \<open>\<open>str(int(str(v)))\<close>, with values that are no integers skipped\<close>

definition message_id_text :: "pyval \<Rightarrow> string option" where
  "message_id_text v = (case v of VBool _ \<Rightarrow> None | _ \<Rightarrow> map_option show_int (py_int 10 (py_str v)))"

definition first_occurrences :: "'a list \<Rightarrow> 'a list" where
  "first_occurrences xs = rev (remdups (rev xs))"

definition event_message_ids :: "dict \<Rightarrow> string list" where
  "event_message_ids event =
     (let own = (case get_val event ''message'' of
                   VDict m \<Rightarrow> if get_val m ''id'' = VNone then [] else [get_val m ''id''] | _ \<Rightarrow> []);
          one = (if get_val event ''message_id'' = VNone then [] else [get_val event ''message_id'']);
          many = (case map_of event ''message_ids'' of
                    Some v \<Rightarrow> list_of v
                  | None \<Rightarrow> (case map_of event ''messages'' of Some v \<Rightarrow> list_of v | None \<Rightarrow> []))
      in first_occurrences (List.map_filter message_id_text (own @ one @ many)))"

section \<open>Lanes found through messages\<close>

text \<open>
  The lane each message is known by: its mapping, or the earliest event about it. A later
  row of the query result overwrites an earlier one; the key of the mappings leaves one.
\<close>

definition mapped_lanes :: "mapping_row list \<Rightarrow> uuid \<Rightarrow> string list \<Rightarrow> (string \<times> string) list" where
  "mapped_lanes ms account ids =
     List.map_filter (\<lambda>m.
       if mp_account_uuid m = account \<and> mp_kind m = ''message'' \<and> mp_provider_id m \<in> set ids \<and> \<not> mp_deleted m
       then map_option (\<lambda>c. (mp_provider_id m, c)) (json_text (get_val (mp_metadata m) ''chat_key'')) else None) ms"

definition je_key :: "event_row \<Rightarrow> timestamp \<times> int \<times> string" where
  "je_key ev = (je_created_at ev, je_event_id ev, je_queue_id ev)"

definition event_names :: "string \<Rightarrow> event_row \<Rightarrow> bool" where
  "event_names pid ev =
     (je_type ev = ''message'' \<and> json_text (json_field (get_val (je_body ev) ''message'') ''id'') = Some pid \<or>
      (case je_context ev of None \<Rightarrow> False | Some c \<Rightarrow> json_text (json_field c ''id'') = Some pid))"

definition journalled_lane :: "event_row list \<Rightarrow> uuid \<Rightarrow> string \<Rightarrow> string option" where
  "journalled_lane evs account pid =
     Option.bind (first_by je_key (filter (\<lambda>ev. je_account_uuid ev = account \<and> event_names pid ev \<and> je_lane ev \<noteq> None) evs))
       je_lane"

definition common_value :: "string option list \<Rightarrow> string option" where
  "common_value vs = (case vs of [] \<Rightarrow> None | v # rest \<Rightarrow> if list_all (\<lambda>w. w = v) rest then v else None)"

definition event_causal_lane :: "queue_db \<Rightarrow> uuid \<Rightarrow> dict \<Rightarrow> string option" where
  "event_causal_lane db account event =
     (if requires_account_barrier event then None
      else case static_causal_lane event of
        Some lane \<Rightarrow> Some lane
      | None \<Rightarrow>
          let ids = event_message_ids event;
              mapped = (\<lambda>pid. map_of (rev (mapped_lanes (db_mappings db) account ids)) pid);
              known = (\<lambda>pid. case mapped pid of Some l \<Rightarrow> Some l | None \<Rightarrow> journalled_lane (db_events db) account pid)
          in if ids = [] then None
             else if list_all (\<lambda>pid. mapped pid \<noteq> None) ids then common_value (map mapped ids)
             else if list_all (\<lambda>pid. known pid \<noteq> None) ids \<and> common_value (map known ids) \<noteq> None
             then common_value (map known ids)
             else if length ids = 1 then Some (''message:'' @ hd ids)
             else None)"

section \<open>The chat of a message\<close>

definition chat_type :: "int list \<Rightarrow> string" where
  "chat_type ids = (if length ids = 2 then ''direct'' else ''group_direct'')"

definition provider_chat_reference :: "dict \<Rightarrow> (string \<times> string) result" where
  "provider_chat_reference message =
     bindE (item message ''type'') (\<lambda>t.
       if t = VStr ''stream''
       then bindE (item message ''stream_id'') (\<lambda>v. bindE (int_of v) (\<lambda>i. Inr (''channel'', ''channel:'' @ show_int i)))
       else bindE (item message ''display_recipient'') (\<lambda>v.
            bindE (case v of VList rs \<Rightarrow> Inr rs | _ \<Rightarrow> Inl TypeErr) (\<lambda>rs.
            bindE (mapE (\<lambda>r. bindE (case r of VDict d \<Rightarrow> item d ''id'' | _ \<Rightarrow> Inl TypeErr) int_of) rs) (\<lambda>ids.
            Inr (chat_type ids, chat_type ids @ '':'' @ join '','' (map show_int (sort ids)))))))"

end
