(* ===== verification/Bridge_Tables.thy ===== *)
theory Bridge_Tables
  imports Account_Breaker History
begin

text \<open>
  The tables beside the operation queue: the configuration, scopes, batches and failure
  reports of history capture (migrations 0039 to 0047), the scheduling state of the event
  journal (0019, 0022), the catch-up jobs of lost event queues and the participant
  synchronisation (0001, 0004), the delivery outbox (0000, 0011) and the outbox of observed
  reports, each with the columns that the modelled transactions read or write. \<open>bd_queue\<close>
  holds the tables of \<^typ>\<open>queue_db\<close>; \<open>bd_idempotency_at\<close> is the column \<open>updated_at\<close> of
  \<open>operation_idempotency\<close>, which only deliveries read, and \<open>bd_topics\<close> the column \<open>topics\<close> of
  \<open>external_chat_catalog_state\<close>, whose column \<open>participants\<close> is \<open>db_catalog\<close>.
\<close>

section \<open>History capture\<close>

text \<open>One observed chat of a scope, as \<open>history_configuration.sources\<close> reads it.\<close>

record source_row =
  so_project :: "uuid option"
  so_realm :: uuid
  so_account :: uuid
  so_account_generation :: int
  so_chat :: uuid
  so_assignment_generation :: int
  so_chat_key :: "string option"
  so_depth :: "string option"
  so_owner :: "string option"

text \<open>A scope is a project together with a realm.\<close>

type_synonym scope_key = "uuid \<times> uuid"

record scope_row =
  sc_key :: scope_key
  sc_generation :: int
  sc_fingerprint :: string
  sc_sources :: "source_row list"
  sc_pending :: bool
  sc_account_cursor :: nat
  sc_cursor :: int
  sc_users :: "hist_user list"
  sc_retry_at :: timestamp
  sc_revision :: int
  sc_ack :: int
  sc_attempts :: int

record report_row =
  fr_key :: scope_key
  fr_generation :: int
  fr_code :: string
  fr_after :: "uuid option"
  fr_complete :: bool
  fr_retry_at :: timestamp

record batch_row =
  hb_key :: scope_key
  hb_from_id :: int
  hb_body :: batch
  hb_status :: string
  hb_import_uuid :: "uuid option"
  hb_mapping_cursor :: dict
  hb_sources_hash :: "string option"
  hb_lease :: "uuid option"
  hb_lease_until :: "timestamp option"
  hb_error :: "string option"
  hb_retry_at :: timestamp

section \<open>Journal, catch-up and outbox\<close>

record catchup_row =
  ct_account_uuid :: uuid
  ct_chat_key :: string
  ct_checkpoint :: "int option"
  ct_next_anchor :: "int option"
  ct_seen :: "int list"
  ct_page_count :: int
  ct_state :: string
  ct_error_code :: "string option"
  ct_updated_at :: timestamp

record participant_row =
  ps_account_uuid :: uuid
  ps_chat_key :: string
  ps_generation :: int
  ps_state :: string
  ps_lease_until :: "timestamp option"
  ps_user_ids :: "int list"
  ps_updated_at :: timestamp

text \<open>
  A record for Workspace that waits in the delivery outbox, with the account, the assignment
  and the journalled event that it was made for.
\<close>

record delivery_row =
  dv_record_uuid :: uuid
  dv_operation_uuid :: uuid
  dv_account_uuid :: uuid
  dv_account_generation :: "int option"
  dv_assignment_uuid :: "uuid option"
  dv_assignment_generation :: "int option"
  dv_assignment_project :: "uuid option"
  dv_queue_id :: "string option"
  dv_event_id :: "int option"
  dv_state :: string
  dv_attempts :: int
  dv_next_at :: timestamp
  dv_submitted_at :: "timestamp option"
  dv_error_code :: "string option"
  dv_priority :: int
  dv_record :: op_record
  dv_created_at :: timestamp
  dv_sent_at :: "timestamp option"

text \<open>A report about an observed resource, as it waits for the control plane.\<close>

record observed_row =
  ob_uuid :: uuid
  ob_body :: dict
  ob_attempts :: int
  ob_created_at :: timestamp
  ob_available_at :: timestamp
  ob_completed_at :: "timestamp option"
  ob_status :: "string option"

record bridge_db =
  bd_queue :: queue_db
  bd_generation :: int
  bd_fingerprint :: "string option"
  bd_scopes :: "scope_row list"
  bd_revisions :: "uuid \<rightharpoonup> int"
  bd_reports :: "report_row list"
  bd_batches :: "batch_row list"
  bd_dispatched :: "uuid \<rightharpoonup> timestamp"
  bd_lanes :: "(uuid \<times> string) \<rightharpoonup> timestamp option"
  bd_catchups :: "catchup_row list"
  bd_participants :: "participant_row list"
  bd_participant_sync_at :: "uuid \<rightharpoonup> timestamp"
  bd_backfill_at :: "uuid \<rightharpoonup> timestamp"
  bd_outbox :: "delivery_row list"
  bd_idempotency_at :: "uuid \<rightharpoonup> timestamp"
  bd_observed :: "observed_row list"
  bd_topics :: "uuid \<times> string \<rightharpoonup> pyval"

definition on_queue :: "(queue_db \<Rightarrow> queue_db) \<Rightarrow> bridge_db \<Rightarrow> bridge_db" where
  "on_queue f db = db\<lparr>bd_queue := f (bd_queue db)\<rparr>"

lemma on_queue_simps [simp]:
  "bd_queue (on_queue f db) = f (bd_queue db)"
  "bd_generation (on_queue f db) = bd_generation db"
  "bd_scopes (on_queue f db) = bd_scopes db"
  "bd_revisions (on_queue f db) = bd_revisions db"
  "bd_reports (on_queue f db) = bd_reports db"
  "bd_batches (on_queue f db) = bd_batches db"
  by (simp_all add: on_queue_def)

end
