(* ===== verification/History_Directory.thy ===== *)
theory History_Directory
  imports Bridge_Tables
begin

text \<open>
  The configuration of history capture (\<open>history_configuration.py\<close>): which chats a scope
  observes, how a change of them invalidates captured batches, and how the user directory
  of a realm is refreshed one bounded write at a time; and the durable failure reports that
  go with it (\<open>history_failure_reports.py\<close>). Every transaction is one definition; statement
  and lock timeouts, which roll a transaction back, are an argument of \<open>refresh_once\<close>. The
  singleton row of \<open>zulip_history_configuration\<close>, which a migration inserts, is the pair of
  \<open>bd_generation\<close> and \<open>bd_fingerprint\<close>.
\<close>

section \<open>Sources and fingerprints\<close>

text \<open>\<open>COALESCE((body->>'selected')::boolean, true)\<close>\<close>

definition selected_default :: "desired_row \<Rightarrow> bool" where
  "selected_default d = (Option.bind (body_text d ''selected'') pg_boolean \<noteq> Some False)"

definition body_chat_key :: "desired_row \<Rightarrow> string option" where
  "body_chat_key d = json_text (json_field (json_field (ds_body d) ''provider_chat'') ''provider_chat_key'')"

definition assignment_source :: "queue_db \<Rightarrow> desired_row \<Rightarrow> desired_row \<Rightarrow> source_row option" where
  "assignment_source db a d =
     (if ds_type d = ''external_account'' \<and> \<not> ds_deleted d \<and> body_flag (ds_body d) ''synchronization_enabled'' \<and>
         body_text a ''external_account_uuid'' = Some (ds_uuid d)
      then case db_cursors db (ds_uuid d) of
             None \<Rightarrow> None
           | Some c \<Rightarrow>
               if cu_account_generation c = Some (ds_generation d)
               then map_option (\<lambda>realm.
                 \<lparr>so_project = body_text a ''project_id'', so_realm = realm, so_account = ds_uuid d,
                  so_account_generation = ds_generation d, so_chat = ds_uuid a,
                  so_assignment_generation = ds_generation a, so_chat_key = body_chat_key a,
                  so_depth = body_text a ''history_depth'', so_owner = cu_owner_user_id c\<rparr>) (cu_realm_uuid c)
               else None
      else None)"

definition all_sources :: "queue_db \<Rightarrow> source_row list" where
  "all_sources db =
     concat (map (\<lambda>a. List.map_filter (assignment_source db a) (db_desired db))
       (sort_key ds_uuid (filter (\<lambda>a. ds_type a = ''external_chat_assignment'' \<and> \<not> ds_deleted a \<and> selected_default a)
         (db_desired db))))"

definition in_scope :: "scope_key \<Rightarrow> source_row \<Rightarrow> bool" where
  "in_scope k s = (so_project s = Some (fst k) \<and> so_realm s = snd k)"

definition scope_sources :: "scope_key \<Rightarrow> queue_db \<Rightarrow> source_row list" where
  "scope_sources k db = filter (in_scope k) (all_sources db)"

text \<open>The members of a source that the fingerprint covers: all but the assignment generation.\<close>

definition source_value :: "source_row \<Rightarrow> pyval" where
  "source_value s =
     VDict [(''project_uuid'', opt_str (so_project s)), (''provider_realm_uuid'', VStr (so_realm s)),
            (''account_uuid'', VStr (so_account s)), (''account_generation'', VInt (so_account_generation s)),
            (''chat_uuid'', VStr (so_chat s)), (''provider_chat_key'', opt_str (so_chat_key s)),
            (''history_depth'', opt_str (so_depth s)), (''provider_owner_user_id'', opt_str (so_owner s))]"

definition fingerprint :: "(string \<Rightarrow> string) \<Rightarrow> source_row list \<Rightarrow> string" where
  "fingerprint sha256 rows =
     digest sha256 (VDict [(''capture_version'', VInt 3), (''sources'', VList (map source_value rows))])"

text \<open>The fingerprint of the whole desired state that the singleton row keeps.\<close>

definition legacy_source :: "desired_row \<Rightarrow> pyval" where
  "legacy_source d =
     VDict [(''resource_type'', VStr (ds_type d)), (''uuid'', VStr (ds_uuid d)),
            (''configuration'',
             if ds_type d = ''external_account'' then VDict [(''generation'', VInt (ds_generation d))]
             else VDict [(''account_uuid'', opt_str (body_text d ''external_account_uuid'')),
                         (''project_id'', opt_str (body_text d ''project_id'')),
                         (''provider_chat'', json_field (ds_body d) ''provider_chat''),
                         (''selected'', json_field (ds_body d) ''selected''),
                         (''history_depth'', opt_str (body_text d ''history_depth''))])]"

definition history_configuration_fingerprint :: "(string \<Rightarrow> string) \<Rightarrow> queue_db \<Rightarrow> string" where
  "history_configuration_fingerprint sha256 db =
     digest sha256 (VDict [(''capture_version'', VInt 2),
       (''sources'', VList (map legacy_source (sort_key (\<lambda>d. (ds_type d, ds_uuid d))
          (filter (\<lambda>d. \<not> ds_deleted d \<and> ds_type d \<in> {''external_account'', ''external_chat_assignment''})
             (db_desired db)))))])"

section \<open>Failure reports\<close>

definition CAPTURE_TIMEOUT :: string where
  "CAPTURE_TIMEOUT = ''history_capture_write_timeout''"

definition DIRECTORY_TIMEOUT :: string where
  "DIRECTORY_TIMEOUT = ''history_directory_write_timeout''"

definition DIRECTORY_WRITE_MAX_ATTEMPTS :: int where
  "DIRECTORY_WRITE_MAX_ATTEMPTS = 8"

text \<open>\<open>INSERT ... ON CONFLICT (project_uuid, provider_realm_uuid) DO UPDATE SET f WHERE p\<close>\<close>

definition put_report ::
  "(report_row \<Rightarrow> bool) \<Rightarrow> (report_row \<Rightarrow> report_row) \<Rightarrow> report_row \<Rightarrow> report_row list \<Rightarrow> report_row list" where
  "put_report p f new rs =
     (if list_ex (\<lambda>r. fr_key r = fr_key new) rs
      then update_where (\<lambda>r. fr_key r = fr_key new \<and> p r) f rs
      else rs @ [new])"

definition new_report :: "timestamp \<Rightarrow> scope_key \<Rightarrow> int \<Rightarrow> string \<Rightarrow> report_row" where
  "new_report now k generation code =
     \<lparr>fr_key = k, fr_generation = generation, fr_code = code, fr_after = None, fr_complete = False, fr_retry_at = now\<rparr>"

definition record_failure :: "timestamp \<Rightarrow> scope_key \<Rightarrow> int \<Rightarrow> string \<Rightarrow> bool \<Rightarrow> report_row list \<Rightarrow> report_row list" where
  "record_failure now k generation code restart =
     put_report
       (\<lambda>r. (fr_generation r \<noteq> generation \<or> fr_code r \<noteq> code \<or> (restart \<and> fr_complete r)) \<and>
            (code \<noteq> CAPTURE_TIMEOUT \<or> fr_generation r \<noteq> generation \<or> fr_code r = code))
       (\<lambda>r. r\<lparr>fr_generation := generation, fr_code := code, fr_after := None, fr_complete := False, fr_retry_at := now\<rparr>)
       (new_report now k generation code)"

text \<open>A capture of one of the scope's chats timed out and was not repeated yet.\<close>

definition capture_timed_out :: "queue_db \<Rightarrow> scope_row \<Rightarrow> bool" where
  "capture_timed_out db sc =
     list_ex (\<lambda>s. list_ex (\<lambda>b. bf_account_uuid b = so_account s \<and> so_chat_key s = Some (bf_chat_key b) \<and>
        bf_capture_timeout b) (db_backfills db)) (sc_sources sc)"

definition carry_report :: "timestamp \<Rightarrow> int \<Rightarrow> scope_key \<Rightarrow> report_row list \<Rightarrow> report_row list" where
  "carry_report now generation k =
     put_report (\<lambda>r. fr_generation r \<noteq> generation)
       (\<lambda>r. let same = fr_code r = CAPTURE_TIMEOUT in
            r\<lparr>fr_generation := generation, fr_code := CAPTURE_TIMEOUT,
              fr_after := (if same then fr_after r else None),
              fr_complete := (if same then fr_complete r else False),
              fr_retry_at := (if same then fr_retry_at r else now)\<rparr>)
       (new_report now k generation CAPTURE_TIMEOUT)"

definition carry_capture :: "timestamp \<Rightarrow> int \<Rightarrow> bridge_db \<Rightarrow> bridge_db" where
  "carry_capture now generation db =
     db\<lparr>bd_reports := fold (carry_report now generation)
          (map sc_key (filter (\<lambda>sc. sc_generation sc = generation \<and> capture_timed_out (bd_queue db) sc) (bd_scopes db)))
          (bd_reports db)\<rparr>"

definition carry_directory :: "int \<Rightarrow> bridge_db \<Rightarrow> bridge_db" where
  "carry_directory generation db =
     db\<lparr>bd_reports := update_where
          (\<lambda>r. fr_code r = DIRECTORY_TIMEOUT \<and>
               list_ex (\<lambda>sc. sc_key sc = fr_key r \<and> sc_generation sc = generation \<and> sc_pending sc \<and>
                  DIRECTORY_WRITE_MAX_ATTEMPTS \<le> sc_attempts sc) (bd_scopes db))
          (\<lambda>r. r\<lparr>fr_generation := generation\<rparr>) (bd_reports db)\<rparr>"

section \<open>Invalidation of a directory\<close>

definition next_generation :: "bridge_db \<Rightarrow> bridge_db" where
  "next_generation db = db\<lparr>bd_generation := bd_generation db + 1\<rparr>"

definition health_component :: "scope_key \<Rightarrow> string" where
  "health_component k = ''history_publication:'' @ fst k @ '':'' @ snd k"

definition directory_health_component :: "scope_key \<Rightarrow> string" where
  "directory_health_component k = ''history_directory:'' @ fst k @ '':'' @ snd k"

definition clear_health :: "string \<Rightarrow> bridge_db \<Rightarrow> bridge_db" where
  "clear_health c = on_queue (\<lambda>q. q\<lparr>db_health := (db_health q)(c := None)\<rparr>)"

definition update_scopes :: "(scope_row \<Rightarrow> bool) \<Rightarrow> (scope_row \<Rightarrow> scope_row) \<Rightarrow> bridge_db \<Rightarrow> bridge_db" where
  "update_scopes p f db = db\<lparr>bd_scopes := update_where p f (bd_scopes db)\<rparr>"

text \<open>The realm of the account's cursor, NULL without one.\<close>

definition cursor_realm :: "queue_db \<Rightarrow> uuid \<Rightarrow> uuid option" where
  "cursor_realm db account = Option.bind (db_cursors db account) cu_realm_uuid"

definition reopen_scope :: "timestamp \<Rightarrow> int \<Rightarrow> scope_row \<Rightarrow> scope_row" where
  "reopen_scope now g sc =
     sc\<lparr>sc_generation := g, sc_revision := g, sc_pending := True, sc_account_cursor := 0, sc_cursor := 0,
        sc_users := [], sc_retry_at := now, sc_attempts := 0\<rparr>"

definition retire_directory_failures :: "int \<Rightarrow> bridge_db \<Rightarrow> bridge_db" where
  "retire_directory_failures g db =
     (let touched = map sc_key (filter (\<lambda>sc. sc_generation sc = g) (bd_scopes db)) in
      on_queue (\<lambda>q. q\<lparr>db_health := (\<lambda>c. if c \<in> set (map directory_health_component touched) then None else db_health q c)\<rparr>)
        (db\<lparr>bd_reports := filter (\<lambda>r. \<not> (fr_key r \<in> set touched \<and> fr_code r = DIRECTORY_TIMEOUT)) (bd_reports db)\<rparr>))"

definition invalidate_directory :: "timestamp \<Rightarrow> uuid \<Rightarrow> bridge_db \<Rightarrow> bridge_db" where
  "invalidate_directory now account db =
     (let db1 = next_generation db; g = bd_generation db1 in
      case cursor_realm (bd_queue db) account of
        None \<Rightarrow> carry_capture now g (retire_directory_failures g db1)
      | Some realm \<Rightarrow>
          carry_capture now g (retire_directory_failures g
            (update_scopes (\<lambda>sc. snd (sc_key sc) = realm) (reopen_scope now g)
              (db1\<lparr>bd_revisions := (bd_revisions db1)(realm \<mapsto> g)\<rparr>))))"

section \<open>Reconciliation of the scopes with desired state\<close>

definition reset_import :: "timestamp \<Rightarrow> batch_row \<Rightarrow> batch_row" where
  "reset_import now b =
     b\<lparr>hb_status := ''pending'', hb_import_uuid := None, hb_mapping_cursor := [], hb_lease := None,
       hb_lease_until := None, hb_error := None, hb_retry_at := now\<rparr>"

definition refresh_sources :: "timestamp \<Rightarrow> scope_key \<Rightarrow> source_row list \<Rightarrow> bridge_db \<Rightarrow> bridge_db" where
  "refresh_sources now k rows db =
     (let db1 = next_generation db; g = bd_generation db1;
          db2 = update_scopes (\<lambda>sc. sc_key sc = k) (\<lambda>sc. sc\<lparr>sc_sources := rows, sc_generation := g\<rparr>) db1;
          db3 = carry_capture now g (carry_directory g db2)
      in clear_health (health_component k)
           (db3\<lparr>bd_batches := update_where (\<lambda>b. hb_key b = k)
              (\<lambda>b. (reset_import now b)\<lparr>hb_sources_hash := None\<rparr>) (bd_batches db3)\<rparr>))"

text \<open>\<open>INSERT ... ON CONFLICT DO UPDATE\<close> of a scope: both write every column.\<close>

definition put_scope :: "scope_row \<Rightarrow> scope_row list \<Rightarrow> scope_row list" where
  "put_scope new scs =
     (if list_ex (\<lambda>sc. sc_key sc = sc_key new) scs
      then update_where (\<lambda>sc. sc_key sc = sc_key new) (\<lambda>_. new) scs else scs @ [new])"

definition rebuilt_scope ::
  "timestamp \<Rightarrow> scope_key \<Rightarrow> int \<Rightarrow> string \<Rightarrow> source_row list \<Rightarrow> int option \<Rightarrow> scope_row option \<Rightarrow> scope_row" where
  "rebuilt_scope now k generation value rows dirty old =
     (let revision = (case dirty of Some g \<Rightarrow> g | None \<Rightarrow> (case old of None \<Rightarrow> 0 | Some sc \<Rightarrow> sc_revision sc));
          acknowledged = (case old of None \<Rightarrow> 0 | Some sc \<Rightarrow> sc_ack sc)
      in \<lparr>sc_key = k, sc_generation = generation, sc_fingerprint = value, sc_sources = rows,
          sc_pending = (revision \<noteq> acknowledged \<or> (case old of None \<Rightarrow> False | Some sc \<Rightarrow> sc_pending sc)),
          sc_account_cursor = 0, sc_cursor = 0, sc_users = [], sc_retry_at = now, sc_revision = revision,
          sc_ack = acknowledged, sc_attempts = 0\<rparr>)"

definition cancel_job :: "timestamp \<Rightarrow> backfill_row \<Rightarrow> backfill_row" where
  "cancel_job now b =
     b\<lparr>bf_state := ''cancelled'', bf_next_anchor := None, bf_cutoff_at := None, bf_lease_until := None,
       bf_available_at := now, bf_retry_count := 0, bf_error_code := None, bf_capture_timeout := False,
       bf_updated_at := now\<rparr>"

definition discard_capture :: "timestamp \<Rightarrow> scope_key \<Rightarrow> source_row list \<Rightarrow> bridge_db \<Rightarrow> bridge_db" where
  "discard_capture now k affected db =
     clear_health (directory_health_component k) (clear_health (health_component k)
       (on_queue (\<lambda>q. q\<lparr>db_backfills := update_where
            (\<lambda>b. list_ex (\<lambda>s. so_account s = bf_account_uuid b \<and> so_chat_key s = Some (bf_chat_key b)) affected)
            (cancel_job now) (db_backfills q)\<rparr>)
         (db\<lparr>bd_reports := filter (\<lambda>r. fr_key r \<noteq> k) (bd_reports db),
             bd_batches := filter (\<lambda>b. hb_key b \<noteq> k) (bd_batches db)\<rparr>)))"

text \<open>
  One scope. \<open>start\<close> is the database as the queries before the loop read it: they answer the
  sources, the stored scopes, the dirty realms and the singleton row.
\<close>

definition find_scope :: "scope_key \<Rightarrow> bridge_db \<Rightarrow> scope_row option" where
  "find_scope k db = find (\<lambda>sc. sc_key sc = k) (bd_scopes db)"

definition reconcile_scope :: "(string \<Rightarrow> string) \<Rightarrow> timestamp \<Rightarrow> bridge_db \<Rightarrow> scope_key \<Rightarrow> bridge_db \<Rightarrow> bridge_db" where
  "reconcile_scope sha256 now start k db =
     (let rows = scope_sources k (bd_queue start); value = fingerprint sha256 rows; old = find_scope k start in
      if (case old of None \<Rightarrow> False | Some sc \<Rightarrow> sc_fingerprint sc = value)
      then (if sc_sources (the old) \<noteq> rows then refresh_sources now k rows db else db)
      else
        let preserve = (old = None \<and>
              bd_fingerprint start = Some (history_configuration_fingerprint sha256 (bd_queue start)));
            db1 = (if preserve then db else next_generation db);
            generation = (if preserve then bd_generation start else bd_generation db1);
            new = rebuilt_scope now k generation value rows (bd_revisions start (snd k)) old;
            db2 = db1\<lparr>bd_scopes := put_scope new (bd_scopes db1)\<rparr>
        in if preserve then db2
           else discard_capture now k ((case old of None \<Rightarrow> [] | Some sc \<Rightarrow> sc_sources sc) @ rows) db2)"

definition source_keys :: "queue_db \<Rightarrow> scope_key list" where
  "source_keys db = List.map_filter (\<lambda>s. map_option (\<lambda>p. (p, so_realm s)) (so_project s)) (all_sources db)"

definition known_scopes :: "bridge_db \<Rightarrow> scope_key list" where
  "known_scopes db = sort (remdups (source_keys (bd_queue db) @ map hb_key (bd_batches db) @ map sc_key (bd_scopes db)))"

text \<open>
  A source without a project makes the loop fail: \<open>sorted\<close> cannot order its \<open>None\<close> among
  texts, and the column of the scope is not nullable.
\<close>

definition reconcile :: "(string \<Rightarrow> string) \<Rightarrow> timestamp \<Rightarrow> bridge_db \<Rightarrow> bridge_db result" where
  "reconcile sha256 now db =
     (if list_ex (\<lambda>s. so_project s = None) (all_sources (bd_queue db))
      then Inl (if known_scopes db = [] then DatabaseErr ''not_null_violation'' else TypeErr)
      else Inr ((fold (reconcile_scope sha256 now db) (known_scopes db) db)
             \<lparr>bd_fingerprint := Some (history_configuration_fingerprint sha256 (bd_queue db))\<rparr>))"

end
