(* ===== verification/Event_Journal.thy ===== *)
theory Event_Journal
  imports Event_Lanes History_Directory
begin

text \<open>
  The journal of provider events (\<open>storage.py\<close>): which events may be processed now
  (\<open>pending_provider_events\<close>, \<open>pending_provider_event_lane_batch\<close>,
  \<open>has_pending_provider_events\<close>), and the recording of new events with the cursor of their
  queue. Events of one causal lane are processed in order; an event without a lane is a
  barrier between the events before and after it.
\<close>

section \<open>Candidates\<close>

definition active :: "event_row \<Rightarrow> bool" where
  "active ev = (je_state ev \<in> {''pending'', ''delivering''})"

definition due :: "timestamp \<Rightarrow> event_row \<Rightarrow> bool" where
  "due now ev = (je_state ev = ''pending'' \<and> je_available_at ev \<le> now)"

definition active_lanes :: "event_row list \<Rightarrow> uuid \<Rightarrow> string list" where
  "active_lanes evs account =
     remdups (List.map_filter (\<lambda>ev. if je_account_uuid ev = account \<and> active ev then je_lane ev else None) evs)"

text \<open>The first active event of a lane; the lane \<open>None\<close> holds the barriers.\<close>

definition lane_event :: "event_row list \<Rightarrow> uuid \<Rightarrow> string option \<Rightarrow> event_row option" where
  "lane_event evs account lane =
     first_by je_key (filter (\<lambda>ev. je_account_uuid ev = account \<and> je_lane ev = lane \<and> active ev) evs)"

definition behind_barrier :: "event_row list \<Rightarrow> event_row \<Rightarrow> bool" where
  "behind_barrier evs ev =
     list_ex (\<lambda>b. je_account_uuid b = je_account_uuid ev \<and> je_lane b = None \<and> active b \<and> je_key b < je_key ev) evs"

definition lane_choices :: "timestamp \<Rightarrow> event_row list \<Rightarrow> uuid \<Rightarrow> event_row list" where
  "lane_choices now evs account =
     filter (\<lambda>ev. due now ev \<and> \<not> behind_barrier evs ev)
       (List.map_filter (\<lambda>lane. lane_event evs account (Some lane)) (active_lanes evs account))"

definition body_field :: "event_row \<Rightarrow> string \<Rightarrow> string option" where
  "body_field ev k = json_text (get_val (je_body ev) k)"

definition has_field :: "event_row \<Rightarrow> string \<Rightarrow> bool" where
  "has_field ev k = (map_of (je_body ev) k \<noteq> None)"

text \<open>An edit that moves messages to another stream or topic.\<close>

definition moves_messages :: "event_row \<Rightarrow> bool" where
  "moves_messages ev =
     (je_type ev = ''update_message'' \<and>
      ((case body_field ev ''new_stream_id'' of None \<Rightarrow> body_field ev ''stream_id'' | Some s \<Rightarrow> Some s)
          \<noteq> body_field ev ''stream_id'' \<or>
       (has_field ev ''orig_subject'' \<and> has_field ev ''subject'' \<and>
        body_field ev ''orig_subject'' \<noteq> body_field ev ''subject'')))"

text \<open>
  A barrier waits for every earlier active event of the account, except that a change of
  message flags passes one that is being delivered and cannot move or delete a message.
\<close>

definition holds_barrier :: "event_row \<Rightarrow> event_row \<Rightarrow> bool" where
  "holds_barrier g p =
     (je_account_uuid p = je_account_uuid g \<and> active p \<and>
      (je_state p = ''pending'' \<or> je_type g \<noteq> ''update_message_flags'' \<or> je_type p = ''delete_message'' \<or>
       moves_messages p) \<and>
      je_key p < je_key g)"

definition barrier_choices :: "timestamp \<Rightarrow> event_row list \<Rightarrow> uuid \<Rightarrow> event_row list" where
  "barrier_choices now evs account =
     (case lane_event evs account None of
        None \<Rightarrow> []
      | Some g \<Rightarrow> if due now g \<and> \<not> list_ex (holds_barrier g) evs then [g] else [])"

section \<open>The selection\<close>

definition lane_dispatched :: "bridge_db \<Rightarrow> event_row \<Rightarrow> timestamp option" where
  "lane_dispatched db ev =
     (case je_lane ev of None \<Rightarrow> None | Some lane \<Rightarrow> Option.bind (bd_lanes db (je_account_uuid ev, lane)) id)"

text \<open>\<open>NULLS FIRST\<close> is the order of the option type.\<close>

definition account_choices :: "timestamp \<Rightarrow> bridge_db \<Rightarrow> uuid \<Rightarrow> event_row list" where
  "account_choices now db account =
     sort_key (\<lambda>ev. (lane_dispatched db ev, je_available_at ev, je_key ev))
       (lane_choices now (db_events (bd_queue db)) account @ barrier_choices now (db_events (bd_queue db)) account)"

definition synchronized_account :: "queue_db \<Rightarrow> uuid \<Rightarrow> desired_row list" where
  "synchronized_account db account =
     filter (\<lambda>d. ds_type d = ''external_account'' \<and> ds_uuid d = account \<and> \<not> ds_deleted d \<and>
        body_flag (ds_body d) ''synchronization_enabled'') (db_desired db)"

text \<open>
  The journal of an account is open when the account is gone or paused, so that its events
  can be dropped, or when its breaker permits provider work.
\<close>

definition journal_open :: "timestamp \<Rightarrow> queue_db \<Rightarrow> uuid \<Rightarrow> bool" where
  "journal_open now db account =
     (synchronized_account db account = [] \<or>
      list_ex (\<lambda>d. breaker_permits now d (db_accounts db account)) (synchronized_account db account))"

text \<open>The rows of \<open>scheduler_accounts\<close> that have events.\<close>

definition journal_accounts :: "queue_db \<Rightarrow> uuid list" where
  "journal_accounts db = filter (\<lambda>u. db_accounts db u \<noteq> None) (remdups (map je_account_uuid (db_events db)))"

definition per_account_limit :: "nat \<Rightarrow> nat" where
  "per_account_limit limit = max 1 (min limit 4)"

definition select_events :: "timestamp \<Rightarrow> uuid list \<Rightarrow> nat \<Rightarrow> bridge_db \<Rightarrow> event_row list" where
  "select_events now locked limit db =
     take limit (sort_key
       (\<lambda>ev. (bd_dispatched db (je_account_uuid ev), je_available_at ev, je_key ev, je_account_uuid ev))
       (concat (map (\<lambda>u. take (per_account_limit limit) (account_choices now db u))
         (filter (\<lambda>u. journal_open now (bd_queue db) u \<and> u \<notin> set locked) (journal_accounts (bd_queue db))))))"

definition note_dispatch :: "timestamp \<Rightarrow> event_row list \<Rightarrow> bridge_db \<Rightarrow> bridge_db" where
  "note_dispatch clock evs db =
     db\<lparr>bd_dispatched := (\<lambda>u. if u \<in> je_account_uuid ` set evs then Some clock else bd_dispatched db u),
        bd_lanes := (\<lambda>l. if l \<in> set (List.map_filter (\<lambda>ev. map_option (Pair (je_account_uuid ev)) (je_lane ev)) evs)
                         then Some (Some clock) else bd_lanes db l)\<rparr>"

definition pending_provider_events ::
  "timestamp \<Rightarrow> timestamp \<Rightarrow> uuid list \<Rightarrow> nat \<Rightarrow> bridge_db \<Rightarrow> event_row list \<times> bridge_db" where
  "pending_provider_events now clock locked limit db =
     (let evs = select_events now locked limit db in (sort_key je_key evs, note_dispatch clock evs db))"

definition outstanding_delivery :: "bridge_db \<Rightarrow> event_row \<Rightarrow> bool" where
  "outstanding_delivery db ev =
     list_ex (\<lambda>d. dv_account_uuid d = je_account_uuid ev \<and> dv_queue_id d = Some (je_queue_id ev) \<and>
        dv_event_id d = Some (je_event_id ev) \<and> dv_sent_at d = None \<and>
        dv_state d \<in> {''pending'', ''submitting'', ''ambiguous'', ''awaiting_result''}) (bd_outbox db)"

definition has_pending_provider_events :: "timestamp \<Rightarrow> bridge_db \<Rightarrow> bool" where
  "has_pending_provider_events now db =
     (let evs = db_events (bd_queue db) in
      list_ex (\<lambda>u. list_ex (\<lambda>ev. je_account_uuid ev = u \<and> je_state ev = ''delivering'' \<and> outstanding_delivery db ev) evs \<or>
                   (journal_open now (bd_queue db) u \<and> (lane_choices now evs u \<noteq> [] \<or> barrier_choices now evs u \<noteq> [])))
        (journal_accounts (bd_queue db)))"

section \<open>A batch of one lane\<close>

definition same_event :: "uuid \<Rightarrow> string \<Rightarrow> int \<Rightarrow> event_row \<Rightarrow> bool" where
  "same_event account queue_id event_id ev =
     (je_account_uuid ev = account \<and> je_queue_id ev = queue_id \<and> je_event_id ev = event_id)"

definition batch_anchor :: "event_row list \<Rightarrow> uuid \<Rightarrow> string \<Rightarrow> int \<Rightarrow> string \<Rightarrow> event_row option" where
  "batch_anchor evs account queue_id event_id lane =
     find (\<lambda>ev. same_event account queue_id event_id ev \<and> je_lane ev = Some lane \<and> je_state ev = ''pending'') evs"

definition batch_member :: "timestamp \<Rightarrow> event_row list \<Rightarrow> event_row \<Rightarrow> event_row \<Rightarrow> bool" where
  "batch_member now evs anchor ev =
     (je_account_uuid ev = je_account_uuid anchor \<and> je_lane ev = je_lane anchor \<and> due now ev \<and>
      je_key anchor \<le> je_key ev \<and>
      \<not> list_ex (\<lambda>p. je_account_uuid p = je_account_uuid ev \<and> je_lane p = je_lane ev \<and> je_state p = ''pending'' \<and>
          now < je_available_at p \<and> je_key anchor \<le> je_key p \<and> je_key p < je_key ev) evs \<and>
      \<not> list_ex (\<lambda>d. je_account_uuid d = je_account_uuid ev \<and> je_lane d = je_lane ev \<and> je_state d = ''delivering'') evs \<and>
      \<not> behind_barrier evs ev)"

definition pending_provider_event_lane_batch ::
  "timestamp \<Rightarrow> uuid \<Rightarrow> string \<Rightarrow> int \<Rightarrow> string \<Rightarrow> nat \<Rightarrow> bridge_db \<Rightarrow> event_row list" where
  "pending_provider_event_lane_batch now account queue_id event_id lane limit db =
     (let evs = db_events (bd_queue db) in
      case batch_anchor evs account queue_id event_id lane of
        None \<Rightarrow> []
      | Some anchor \<Rightarrow> take (max 1 limit) (sort_key je_key (filter (batch_member now evs anchor) evs)))"

section \<open>Recording events\<close>

definition register_lane :: "uuid \<Rightarrow> string option \<Rightarrow> bridge_db \<Rightarrow> bridge_db" where
  "register_lane account lane db =
     (case lane of
        None \<Rightarrow> db
      | Some l \<Rightarrow> if bd_lanes db (account, l) = None then db\<lparr>bd_lanes := (bd_lanes db)((account, l) \<mapsto> None)\<rparr> else db)"

text \<open>The row that \<open>INSERT INTO scheduler_accounts (account_uuid)\<close> makes.\<close>

definition new_account :: sched_row where
  "new_account = \<lparr>sa_last_dispatched_at = None, sa_generation = None, sa_state = Ready, sa_retry_count = 0,
     sa_retry_after = None, sa_error_code = None, sa_projection_reset = 0\<rparr>"

definition register_account :: "uuid \<Rightarrow> bridge_db \<Rightarrow> bridge_db" where
  "register_account account =
     on_queue (\<lambda>q. if db_accounts q account = None then q\<lparr>db_accounts := (db_accounts q)(account \<mapsto> new_account)\<rparr> else q)"

text \<open>\<open>event.get("op") in {"add", "remove"} or "full_name" in event.get("person", {})\<close>\<close>

fun unhashable :: "pyval \<Rightarrow> bool" where
  "unhashable (VList _) = True"
| "unhashable (VDict _) = True"
| "unhashable VBadKeys = True"
| "unhashable _ = False"

definition names_full_name :: "pyval option \<Rightarrow> bool result" where
  "names_full_name person =
     (case person of
        None \<Rightarrow> Inr False
      | Some (VDict d) \<Rightarrow> Inr (map_of d ''full_name'' \<noteq> None)
      | Some (VList xs) \<Rightarrow> Inr (VStr ''full_name'' \<in> set xs)
      | Some (VStr s) \<Rightarrow> Inr (sublist ''full_name'' s)
      | Some _ \<Rightarrow> Inl TypeErr)"

definition changes_directory :: "dict \<Rightarrow> bool result" where
  "changes_directory event =
     (if get_val event ''type'' \<noteq> VStr ''realm_user'' then Inr False
      else if unhashable (get_val event ''op'') then Inl TypeErr
      else if get_val event ''op'' \<in> {VStr ''add'', VStr ''remove''} then Inr True
      else names_full_name (map_of event ''person''))"

definition new_event :: "timestamp \<Rightarrow> uuid \<Rightarrow> string \<Rightarrow> int \<Rightarrow> string \<Rightarrow> dict \<Rightarrow> string option \<Rightarrow> event_row" where
  "new_event now account queue_id i type body lane =
     \<lparr>je_account_uuid = account, je_queue_id = queue_id, je_event_id = i, je_type = type, je_body = body, je_lane = lane,
      je_state = ''pending'', je_reason = None, je_available_at = now, je_created_at = now, je_retry_count = 0,
      je_pending_since = None, je_reported_at = None, je_context = None, je_prepared = None\<rparr>"

definition record_provider_event ::
  "timestamp \<Rightarrow> uuid \<Rightarrow> string \<Rightarrow> dict \<Rightarrow> bridge_db \<Rightarrow> (bool \<times> bridge_db) result" where
  "record_provider_event now account queue_id event db =
     (let lane = event_causal_lane (bd_queue db) account event in
      bindE (item event ''id'') (\<lambda>iv. bindE (int_of iv) (\<lambda>i. bindE (item event ''type'') (\<lambda>tv.
        let db1 = register_lane account lane (register_account account db);
            known = list_ex (same_event account queue_id i) (db_events (bd_queue db))
        in if known then Inr (False, db1)
           else
             let db2 = on_queue (\<lambda>q. q\<lparr>db_events := db_events q @ [new_event now account queue_id i (py_str tv) event lane]\<rparr>) db1
             in bindE (changes_directory event) (\<lambda>changed.
                  Inr (True, if changed then invalidate_directory now account db2 else db2))))))"

section \<open>Cursors\<close>

definition provider_event_cursor :: "uuid \<Rightarrow> bridge_db \<Rightarrow> cursor_row option" where
  "provider_event_cursor account db = db_cursors (bd_queue db) account"

definition coalesce :: "'a option \<Rightarrow> 'a option \<Rightarrow> 'a option" where
  "coalesce a b = (case a of None \<Rightarrow> b | Some x \<Rightarrow> Some x)"

definition merged_cursor :: "cursor_row option \<Rightarrow> string \<Rightarrow> int \<Rightarrow> uuid option \<Rightarrow> string option \<Rightarrow> int option \<Rightarrow> cursor_row" where
  "merged_cursor prior queue_id event_id realm owner generation =
     (case prior of
        None \<Rightarrow> \<lparr>cu_queue_id = queue_id, cu_last_event_id = event_id, cu_realm_uuid = realm, cu_owner_user_id = owner,
                 cu_account_generation = generation, cu_scanned_generation = None\<rparr>
      | Some c \<Rightarrow> c\<lparr>cu_queue_id := queue_id,
            cu_last_event_id := (if cu_queue_id c = queue_id then max (cu_last_event_id c) event_id else event_id),
            cu_realm_uuid := coalesce realm (cu_realm_uuid c), cu_owner_user_id := coalesce owner (cu_owner_user_id c),
            cu_account_generation := coalesce generation (cu_account_generation c)\<rparr>)"

definition update_provider_event_cursor ::
  "timestamp \<Rightarrow> uuid \<Rightarrow> string \<Rightarrow> int \<Rightarrow> uuid option \<Rightarrow> string option \<Rightarrow> int option \<Rightarrow> bridge_db \<Rightarrow> bridge_db" where
  "update_provider_event_cursor now account queue_id event_id realm owner generation db =
     (let prior = db_cursors (bd_queue db) account;
          db1 = on_queue (\<lambda>q. q\<lparr>db_cursors :=
            (db_cursors q)(account \<mapsto> merged_cursor prior queue_id event_id realm owner generation)\<rparr>) db
      in if (case prior of None \<Rightarrow> False | Some c \<Rightarrow> cu_queue_id c \<noteq> queue_id)
         then invalidate_directory now account db1 else db1)"

definition mark_private_catalog_scanned :: "uuid \<Rightarrow> int \<Rightarrow> bridge_db \<Rightarrow> bool \<times> bridge_db" where
  "mark_private_catalog_scanned account generation db =
     (case db_cursors (bd_queue db) account of
        Some c \<Rightarrow>
          if cu_account_generation c = Some generation
          then (True, on_queue (\<lambda>q. q\<lparr>db_cursors := (db_cursors q)(account \<mapsto> c\<lparr>cu_scanned_generation := Some generation\<rparr>)\<rparr>) db)
          else (False, db)
      | None \<Rightarrow> (False, db))"

definition invalidate_provider_event_cursor :: "timestamp \<Rightarrow> uuid \<Rightarrow> bridge_db \<Rightarrow> bridge_db" where
  "invalidate_provider_event_cursor now account db =
     on_queue (\<lambda>q. q\<lparr>db_cursors := (db_cursors q)(account := None)\<rparr>)
       (if cursor_realm (bd_queue db) account \<noteq> None then invalidate_directory now account db else db)"

end
