(* ===== verification/Event_Processing.thy ===== *)
theory Event_Processing
  imports Event_Journal
begin

text \<open>
  What happens to a selected event (\<open>storage.py\<close>): it is retried later, given a lane once its
  messages are known, narrowed when messages it marks as read disappeared, and finally
  processed, found redundant, invalid or no longer wanted. A statement that changes at most
  the row of one event is an update of the rows with its key.
\<close>

definition update_events :: "(event_row \<Rightarrow> bool) \<Rightarrow> (event_row \<Rightarrow> event_row) \<Rightarrow> bridge_db \<Rightarrow> bridge_db" where
  "update_events p f = on_queue (\<lambda>q. q\<lparr>db_events := update_where p f (db_events q)\<rparr>)"

definition pending_event :: "uuid \<Rightarrow> string \<Rightarrow> int \<Rightarrow> event_row \<Rightarrow> bool" where
  "pending_event account queue_id event_id ev = (same_event account queue_id event_id ev \<and> je_state ev = ''pending'')"

definition find_pending :: "uuid \<Rightarrow> string \<Rightarrow> int \<Rightarrow> bridge_db \<Rightarrow> event_row option" where
  "find_pending account queue_id event_id db = find (pending_event account queue_id event_id) (db_events (bd_queue db))"

section \<open>Grouped reads whose messages changed\<close>

text \<open>A message with its project, stream and topic, as \<open>str\<close> prints the columns.\<close>

type_synonym message_place = "string \<times> string \<times> string \<times> string"

definition column_text :: "string option \<Rightarrow> string" where
  "column_text v = (case v of None \<Rightarrow> ''None'' | Some s \<Rightarrow> s)"

definition meta_text :: "mapping_row \<Rightarrow> string \<Rightarrow> string option" where
  "meta_text m k = json_text (get_val (mp_metadata m) k)"

definition mapping_place :: "mapping_row \<Rightarrow> message_place" where
  "mapping_place m = (mp_workspace_uuid m, column_text (meta_text m ''project_uuid''),
     column_text (meta_text m ''stream_uuid''), column_text (meta_text m ''topic_uuid''))"

definition live_message :: "uuid \<Rightarrow> string list \<Rightarrow> mapping_row \<Rightarrow> bool" where
  "live_message account ids m =
     (mp_account_uuid m = account \<and> mp_kind m = ''message'' \<and> mp_provider_id m \<in> set ids \<and> \<not> mp_deleted m)"

definition active_places :: "uuid \<Rightarrow> string list \<Rightarrow> queue_db \<Rightarrow> message_place list" where
  "active_places account ids db = map mapping_place (filter (live_message account ids) (db_mappings db))"

definition assigned_place :: "uuid \<Rightarrow> queue_db \<Rightarrow> mapping_row \<Rightarrow> bool" where
  "assigned_place account db m =
     (case (meta_text m ''chat_key'', meta_text m ''project_uuid'', meta_text m ''stream_uuid'') of
        (Some chat, Some project, Some stream) \<Rightarrow>
          list_ex (\<lambda>d. ds_type d = ''external_chat_assignment'' \<and> \<not> ds_deleted d \<and>
             body_text d ''external_account_uuid'' = Some account \<and> body_chat_key d = Some chat \<and>
             body_text d ''project_id'' = Some project) (db_desired db) \<and>
          list_ex (\<lambda>s. mp_account_uuid s = account \<and> mp_kind s = ''stream'' \<and> mp_provider_id s = chat \<and>
             mp_workspace_uuid s = stream \<and> \<not> mp_deleted s) (db_mappings db)
      | _ \<Rightarrow> False)"

definition current_places :: "uuid \<Rightarrow> string list \<Rightarrow> queue_db \<Rightarrow> message_place list" where
  "current_places account ids db =
     map mapping_place (filter (\<lambda>m. live_message account ids m \<and> assigned_place account db m) (db_mappings db))"

text \<open>The payload of a prepared read and its list of messages, if the record is one.\<close>

definition read_payload :: "dict \<Rightarrow> (dict \<times> dict \<times> pyval list) option" where
  "read_payload record =
     (case get_val record ''operation'' of
        VDict operation \<Rightarrow>
          if get_val operation ''kind'' \<noteq> VStr ''read_state.set'' then None
          else (case get_val operation ''payload'' of
                  VDict payload \<Rightarrow>
                    (case get_val payload ''message_uuids'' of
                       VList ids \<Rightarrow> Some (operation, payload, ids) | _ \<Rightarrow> None)
                | _ \<Rightarrow> None)
      | _ \<Rightarrow> None)"

definition read_place :: "dict \<Rightarrow> dict \<Rightarrow> pyval \<Rightarrow> message_place result" where
  "read_place record payload message =
     bindE (item record ''project_uuid'') (\<lambda>p.
     bindE (item payload ''stream_uuid'') (\<lambda>s.
     bindE (item payload ''topic_uuid'') (\<lambda>t.
     Inr (py_str message, py_str p, py_str s, py_str t))))"

definition expected_places :: "dict list \<Rightarrow> message_place list result" where
  "expected_places prepared =
     bindE (mapE (\<lambda>record. case read_payload record of
               None \<Rightarrow> Inr []
             | Some (_, payload, ids) \<Rightarrow> mapE (read_place record payload) ids) prepared)
       (\<lambda>pss. Inr (concat pss))"

definition projection_changed :: "message_place list \<Rightarrow> message_place list \<Rightarrow> message_place list \<Rightarrow> bool" where
  "projection_changed known current expected =
     (list_ex (\<lambda>p. p \<notin> set expected) known \<or>
      list_ex (\<lambda>p. fst p \<in> fst ` set known \<and> p \<notin> set current) expected)"

definition narrow_confirmed_read_items :: "dict \<Rightarrow> string list \<Rightarrow> dict result" where
  "narrow_confirmed_read_items record remaining =
     (case get_val record ''transport'' of
        VDict transport \<Rightarrow>
          (case get_val transport ''confirmed_delivery_state'' of
             VDict confirmed \<Rightarrow>
               if get_val confirmed ''kind'' \<noteq> VStr ''read_state'' then Inr record
               else (case get_val confirmed ''items'' of
                       VList items \<Rightarrow>
                         let kept = filter (\<lambda>i. case i of
                               VDict d \<Rightarrow> py_str (get_val d ''message_uuid'') \<in> set remaining | _ \<Rightarrow> False) items
                         in if length kept \<noteq> card (set remaining) then Inl (ValueErr ''invalid_confirmed_read_state'')
                            else Inr (dict_set ''transport'' (VDict (dict_set ''confirmed_delivery_state''
                                   (VDict (dict_set ''items'' (VList kept) confirmed)) transport)) record)
                     | _ \<Rightarrow> Inl (ValueErr ''invalid_confirmed_read_state''))
           | _ \<Rightarrow> Inr record)
      | _ \<Rightarrow> Inr record)"

text \<open>A record as it stays, changed or dropped; \<open>None\<close> drops it.\<close>

definition narrow_record ::
  "(string \<Rightarrow> string) \<Rightarrow> (string \<Rightarrow> string) \<Rightarrow> message_place list \<Rightarrow> dict \<Rightarrow> (bool \<times> dict option) result" where
  "narrow_record nfc sha256 current record =
     (case read_payload record of
        None \<Rightarrow> Inr (False, Some record)
      | Some (operation, payload, ids) \<Rightarrow>
          bindE (mapE (read_place record payload) ids) (\<lambda>places.
            let remaining = map fst (filter (\<lambda>p. p \<in> set current) places) in
            if remaining = map py_str ids then Inr (False, Some record)
            else if remaining = [] then Inr (True, None)
            else
              let payload' = dict_set ''message_uuids'' (VList (map VStr remaining)) payload;
                  record' = dict_set ''operation'' (VDict (dict_set ''payload'' (VDict payload') operation)) record
              in bindE (narrow_confirmed_read_items record' remaining) (\<lambda>record''.
                 bindE (operation_digest nfc sha256 record'') (\<lambda>h.
                 Inr (True, Some (dict_set ''operation_sha256'' (VStr h) record''))))))"

definition prepared_dicts :: "pyval list \<Rightarrow> dict list result" where
  "prepared_dicts vs = mapE (\<lambda>v. case v of VDict d \<Rightarrow> Inr d | _ \<Rightarrow> Inl AttributeErr) vs"

definition delivered_already :: "bridge_db \<Rightarrow> event_row \<Rightarrow> bool" where
  "delivered_already db ev =
     list_ex (\<lambda>d. dv_account_uuid d = je_account_uuid ev \<and> dv_queue_id d = Some (je_queue_id ev) \<and>
        dv_event_id d = Some (je_event_id ev)) (bd_outbox db)"

definition narrow_prepared ::
  "(string \<Rightarrow> string) \<Rightarrow> (string \<Rightarrow> string) \<Rightarrow> bridge_db \<Rightarrow> event_row \<Rightarrow> string list \<Rightarrow> pyval list \<Rightarrow> (event_row \<Rightarrow> event_row) result" where
  "narrow_prepared nfc sha256 db ev ids records =
     (let account = je_account_uuid ev;
          known = active_places account ids (bd_queue db); current = current_places account ids (bd_queue db)
      in bindE (prepared_dicts records) (\<lambda>prepared.
         bindE (expected_places prepared) (\<lambda>expected.
           if projection_changed known current expected
           then Inr (\<lambda>e. e\<lparr>je_state := ''invalid'', je_reason := Some ''provider_message_projection_changed'', je_prepared := None\<rparr>)
           else bindE (mapE (narrow_record nfc sha256 current) prepared) (\<lambda>rs.
             Inr (if list_ex fst rs
                  then (\<lambda>e. e\<lparr>je_prepared := Some (VList (map VDict (List.map_filter snd rs)))\<rparr>) else id)))))"

definition narrow_pre_enqueue_grouped_read_snapshot ::
  "(string \<Rightarrow> string) \<Rightarrow> (string \<Rightarrow> string) \<Rightarrow> uuid \<Rightarrow> string \<Rightarrow> int \<Rightarrow> bridge_db \<Rightarrow> bridge_db result" where
  "narrow_pre_enqueue_grouped_read_snapshot nfc sha256 account queue_id event_id db =
     (case find_pending account queue_id event_id db of
        None \<Rightarrow> Inr db
      | Some ev \<Rightarrow>
          let ids = event_message_ids (je_body ev) in
          (case je_prepared ev of
             Some (VList records) \<Rightarrow>
               if ids = [] \<or> delivered_already db ev then Inr db
               else bindE (narrow_prepared nfc sha256 db ev ids records) (\<lambda>f.
                 Inr (update_events (pending_event account queue_id event_id) f db))
           | _ \<Rightarrow> Inr db))"

section \<open>Retries\<close>

definition retry_delay :: "string \<Rightarrow> event_row \<Rightarrow> int" where
  "retry_delay reason ev =
     (if reason = ''provider_chat_assignment_pending'' then seconds (min 60 (2 ^ nat (min (je_retry_count ev) 6)))
      else if reason \<in> {''provider_chat_participants_pending'', ''provider_event_replay_incomplete''} then 250000
      else if reason = ''provider_event_processing_failed'' \<and> je_reason ev \<noteq> Some reason then seconds 1
      else seconds (min 300 (2 ^ nat (min (je_retry_count ev) 8))))"

definition retry_event_row :: "timestamp \<Rightarrow> string \<Rightarrow> event_row \<Rightarrow> event_row" where
  "retry_event_row now reason ev =
     ev\<lparr>je_retry_count :=
          (if reason = ''provider_event_processing_failed'' \<and> je_reason ev \<noteq> Some reason then 1 else je_retry_count ev + 1),
        je_available_at := now + retry_delay reason ev,
        je_pending_since :=
          (if reason = ''provider_chat_assignment_pending'' then coalesce (je_pending_since ev) (Some now)
           else je_pending_since ev),
        je_reason := Some reason\<rparr>"

definition short_reason :: "string \<Rightarrow> string \<Rightarrow> string" where
  "short_reason reason fallback = (if take 128 reason = [] then fallback else take 128 reason)"

definition retry_provider_event ::
  "(string \<Rightarrow> string) \<Rightarrow> (string \<Rightarrow> string) \<Rightarrow> timestamp \<Rightarrow> uuid \<Rightarrow> string \<Rightarrow> int \<Rightarrow> string \<Rightarrow> bridge_db \<Rightarrow> bridge_db result" where
  "retry_provider_event nfc sha256 now account queue_id event_id reason db =
     (let normalized = short_reason reason ''provider_file_unavailable'' in
      bindE (if normalized = ''provider_message_mapping_changed''
             then narrow_pre_enqueue_grouped_read_snapshot nfc sha256 account queue_id event_id db else Inr db)
        (\<lambda>db1. Inr (update_events (pending_event account queue_id event_id) (retry_event_row now normalized) db1)))"

definition dependency_gated :: "timestamp \<Rightarrow> event_row \<Rightarrow> bool" where
  "dependency_gated now ev =
     (je_state ev = ''pending'' \<and> now < je_available_at ev \<and>
      je_reason ev \<in> {Some ''provider_chat_assignment_pending'', Some ''provider_chat_participants_pending'',
        Some ''provider_event_replay_incomplete''})"

definition release_dependency_gated_provider_events :: "timestamp \<Rightarrow> bridge_db \<Rightarrow> nat \<times> bridge_db" where
  "release_dependency_gated_provider_events now db =
     (length (filter (dependency_gated now) (db_events (bd_queue db))),
      update_events (dependency_gated now) (\<lambda>ev. ev\<lparr>je_available_at := now\<rparr>) db)"

section \<open>Lanes that become known\<close>

definition context_lane :: "dict \<Rightarrow> string option" where
  "context_lane context = static_causal_lane [(''type'', VStr ''message''), (''message'', VDict context)]"

definition provisional_lane :: "dict \<Rightarrow> string option" where
  "provisional_lane context =
     (case event_message_ids [(''message_id'', get_val context ''id'')] of [] \<Rightarrow> None | i # _ \<Rightarrow> Some (''message:'' @ i))"

text \<open>
  Both updates of the statement work on its snapshot. The check of the returned row follows
  the transaction, so that an error leaves the changes of other events in place.
\<close>

definition cache_provider_event_message_context ::
  "uuid \<Rightarrow> string \<Rightarrow> int \<Rightarrow> dict \<Rightarrow> bridge_db \<Rightarrow> dict result \<times> bridge_db" where
  "cache_provider_event_message_context account queue_id event_id context db =
     (let lane = context_lane context; provisional = provisional_lane context;
          own = pending_event account queue_id event_id;
          other = (\<lambda>ev. lane \<noteq> None \<and> provisional \<noteq> None \<and> je_account_uuid ev = account \<and> je_lane ev = provisional \<and>
            (je_queue_id ev, je_event_id ev) \<noteq> (queue_id, event_id) \<and> active ev);
          db1 = update_events own
            (\<lambda>ev. ev\<lparr>je_context := coalesce (je_context ev) (Some (VDict context)), je_lane := coalesce lane (je_lane ev)\<rparr>)
            (update_events other (\<lambda>ev. ev\<lparr>je_lane := lane\<rparr>) (register_lane account lane db))
      in (case map_option je_context (find_pending account queue_id event_id db1) of
            Some (Some (VDict d)) \<Rightarrow> Inr d
          | _ \<Rightarrow> Inl (ValueErr ''Provider event message context is unavailable''), db1))"

definition refresh_provider_event_causal_lane ::
  "uuid \<Rightarrow> string \<Rightarrow> int \<Rightarrow> dict \<Rightarrow> bridge_db \<Rightarrow> (bool \<times> string option) \<times> bridge_db" where
  "refresh_provider_event_causal_lane account queue_id event_id event db =
     (case find_pending account queue_id event_id db of
        None \<Rightarrow> ((False, None), db)
      | Some ev \<Rightarrow>
          if event_message_ids event = [] then ((True, je_lane ev), db)
          else
            let resolved = event_causal_lane (bd_queue db) account event in
            if resolved = je_lane ev then ((True, je_lane ev), db)
            else ((True, resolved),
                  update_events (pending_event account queue_id event_id) (\<lambda>ev. ev\<lparr>je_lane := resolved\<rparr>)
                    (register_lane account resolved db)))"

definition provider_event_lane_guard ::
  "uuid \<Rightarrow> string \<Rightarrow> int \<Rightarrow> dict \<Rightarrow> string option \<Rightarrow> bridge_db \<Rightarrow> bool \<times> bridge_db" where
  "provider_event_lane_guard account queue_id event_id event selected db =
     (case refresh_provider_event_causal_lane account queue_id event_id event db of
        ((present, lane), db1) \<Rightarrow> (present \<and> lane = selected, db1))"

definition mark_provider_event_catalog_reported :: "timestamp \<Rightarrow> uuid \<Rightarrow> string \<Rightarrow> int \<Rightarrow> bridge_db \<Rightarrow> bool \<times> bridge_db" where
  "mark_provider_event_catalog_reported now account queue_id event_id db =
     (find_pending account queue_id event_id db \<noteq> None,
      update_events (pending_event account queue_id event_id)
        (\<lambda>ev. ev\<lparr>je_reported_at := coalesce (je_reported_at ev) (Some now)\<rparr>) db)"

section \<open>The end of an event\<close>

definition settle :: "bool \<Rightarrow> string option \<Rightarrow> event_row \<Rightarrow> event_row" where
  "settle supported reason ev =
     ev\<lparr>je_state := (if supported then ''processed'' else ''unsupported''), je_reason := map_option (take 128) reason\<rparr>"

definition mark_provider_event_processed ::
  "uuid \<Rightarrow> string \<Rightarrow> int \<Rightarrow> bool \<Rightarrow> string option \<Rightarrow> bridge_db \<Rightarrow> bridge_db" where
  "mark_provider_event_processed account queue_id event_id supported reason =
     update_events (same_event account queue_id event_id) (settle supported reason)"

definition mark_provider_event_invalid :: "uuid \<Rightarrow> string \<Rightarrow> int \<Rightarrow> string \<Rightarrow> bridge_db \<Rightarrow> bridge_db" where
  "mark_provider_event_invalid account queue_id event_id reason =
     update_events (same_event account queue_id event_id)
       (\<lambda>ev. ev\<lparr>je_state := ''invalid'', je_reason := Some (short_reason reason ''invalid_provider_event'')\<rparr>)"

definition finalize_provider_event ::
  "uuid \<Rightarrow> string \<Rightarrow> int \<Rightarrow> bool \<Rightarrow> string list \<Rightarrow> string option \<Rightarrow> bridge_db \<Rightarrow> bridge_db" where
  "finalize_provider_event account queue_id event_id supported deleted reason db =
     update_events (pending_event account queue_id event_id) (settle supported reason)
       (on_queue (\<lambda>q. q\<lparr>db_mappings := update_where (live_message account deleted) (\<lambda>m. m\<lparr>mp_deleted := True\<rparr>) (db_mappings q)\<rparr>) db)"

definition finalize_provider_event_if_lane_current ::
  "uuid \<Rightarrow> string \<Rightarrow> int \<Rightarrow> dict \<Rightarrow> string option \<Rightarrow> bool \<Rightarrow> string list \<Rightarrow> bridge_db \<Rightarrow> bool \<times> bridge_db" where
  "finalize_provider_event_if_lane_current account queue_id event_id event selected supported deleted db =
     (case provider_event_lane_guard account queue_id event_id event selected db of
        (current, db1) \<Rightarrow>
          if current then (True, finalize_provider_event account queue_id event_id supported deleted None db1) else (False, db1))"

text \<open>\<open>value ? key\<close>\<close>

definition json_has :: "pyval \<Rightarrow> string \<Rightarrow> bool" where
  "json_has v k =
     (case v of VDict d \<Rightarrow> map_of d k \<noteq> None | VList xs \<Rightarrow> VStr k \<in> set xs | VStr s \<Rightarrow> s = k | _ \<Rightarrow> False)"

definition confirmed_unchanged :: "event_row \<Rightarrow> string \<Rightarrow> mapping_row \<Rightarrow> bool" where
  "confirmed_unchanged ev fp m =
     (mp_account_uuid m = je_account_uuid ev \<and> mp_kind m = ''message'' \<and>
      json_text (json_field (get_val (je_body ev) ''message'') ''id'') = Some (mp_provider_id m) \<and> \<not> mp_deleted m \<and>
      meta_text m ''workspace_delivery_state'' = Some ''committed'' \<and>
      map_of (mp_metadata m) ''confirmed_message_unresolved_reply_provider_id'' = None \<and>
      meta_text m ''confirmed_message_projection_pending'' \<noteq> Some ''true'' \<and>
      meta_text m ''confirmed_message_fingerprint'' = Some fp)"

definition lists_flags :: "event_row \<Rightarrow> bool" where
  "lists_flags ev =
     (let message = get_val (je_body ev) ''message'' in
      is_list (if json_has message ''flags'' then json_field message ''flags'' else get_val (je_body ev) ''flags''))"

definition redundant_message :: "queue_db \<Rightarrow> uuid \<Rightarrow> string \<Rightarrow> int \<Rightarrow> string \<Rightarrow> event_row \<Rightarrow> bool" where
  "redundant_message db account queue_id event_id fp ev =
     (pending_event account queue_id event_id ev \<and> je_type ev = ''message'' \<and> \<not> lists_flags ev \<and>
      list_ex (confirmed_unchanged ev fp) (db_mappings db))"

definition finalize_redundant_provider_message_event ::
  "uuid \<Rightarrow> string \<Rightarrow> int \<Rightarrow> string \<Rightarrow> bridge_db \<Rightarrow> bool \<times> bridge_db" where
  "finalize_redundant_provider_message_event account queue_id event_id fp db =
     (let hit = redundant_message (bd_queue db) account queue_id event_id fp in
      (list_ex hit (db_events (bd_queue db)), update_events hit (settle True None) db))"

section \<open>Events that are no longer wanted\<close>

definition ignore_as :: "string \<Rightarrow> event_row \<Rightarrow> event_row" where
  "ignore_as reason ev = ev\<lparr>je_state := ''ignored'', je_reason := Some reason, je_prepared := None\<rparr>"

definition cancel_deliveries :: "uuid \<Rightarrow> string \<Rightarrow> int \<Rightarrow> bridge_db \<Rightarrow> bridge_db" where
  "cancel_deliveries account queue_id event_id db =
     db\<lparr>bd_outbox := update_where
          (\<lambda>d. dv_account_uuid d = account \<and> dv_queue_id d = Some queue_id \<and> dv_event_id d = Some event_id \<and>
               dv_sent_at d = None \<and> dv_state d \<notin> {''cancelled'', ''rejected'', ''sent''})
          (\<lambda>d. d\<lparr>dv_state := ''cancelled'', dv_error_code := Some ''account_inactive''\<rparr>) (bd_outbox db)\<rparr>"

definition ignore_provider_event_for_inactive_account :: "uuid \<Rightarrow> string \<Rightarrow> int \<Rightarrow> bridge_db \<Rightarrow> bool \<times> bridge_db" where
  "ignore_provider_event_for_inactive_account account queue_id event_id db =
     (let hit = (\<lambda>ev. same_event account queue_id event_id ev \<and> active ev \<and> synchronized_account (bd_queue db) account = []) in
      if list_ex hit (db_events (bd_queue db))
      then (True, cancel_deliveries account queue_id event_id (update_events hit (ignore_as ''account_inactive'') db))
      else (False, db))"

text \<open>An own message whose send is still open and whose echo is in the journal.\<close>

definition open_echo :: "queue_db \<Rightarrow> uuid \<Rightarrow> string \<Rightarrow> bool" where
  "open_echo db account pid =
     list_ex (\<lambda>e. je_account_uuid e = account \<and> je_type e = ''message'' \<and> has_field e ''local_message_id'' \<and>
        json_text (json_field (get_val (je_body e) ''message'') ''id'') = Some pid \<and>
        list_ex (\<lambda>x. op_account_uuid x = account \<and> op_provider_queue_id x = Some (je_queue_id e) \<and>
          op_provider_local_id x \<noteq> None \<and> op_provider_local_id x = body_field e ''local_message_id'' \<and>
          op_state x \<in> {Pending, Running, Uncertain} \<and>
          json_text (rec_kind (op_record x)) = Some ''message.create'') (db_operations db)) (db_events db)"

definition outside_capture :: "queue_db \<Rightarrow> uuid \<Rightarrow> string \<Rightarrow> timestamp \<Rightarrow> bool" where
  "outside_capture db account chat time =
     list_ex (\<lambda>b. bf_account_uuid b = account \<and> bf_chat_key b = chat \<and> bf_state b = ''complete'' \<and>
        (case bf_cutoff_at b of None \<Rightarrow> False | Some c \<Rightarrow> time < c) \<and>
        list_ex (\<lambda>d. ds_type d = ''external_chat_assignment'' \<and> \<not> ds_deleted d \<and>
          body_text d ''external_account_uuid'' = Some account \<and> body_chat_key d = Some chat \<and> selected_default d \<and>
          body_text d ''history_depth'' = Some (bf_depth b)) (db_desired db)) (db_backfills db)"

definition unreachable_message :: "bridge_db \<Rightarrow> uuid \<Rightarrow> string \<Rightarrow> string \<Rightarrow> timestamp \<Rightarrow> bool" where
  "unreachable_message db account chat pid time =
     (let q = bd_queue db in
      \<not> list_ex (live_message account [pid]) (db_mappings q) \<and>
      \<not> list_ex (\<lambda>e. je_account_uuid e = account \<and> je_type e = ''message'' \<and> active e \<and>
          json_text (json_field (get_val (je_body e) ''message'') ''id'') = Some pid) (db_events q) \<and>
      \<not> open_echo q account pid \<and>
      \<not> list_ex (\<lambda>c. ct_account_uuid c = account \<and> ct_chat_key c = chat \<and> ct_state c \<noteq> ''complete'') (bd_catchups db) \<and>
      outside_capture q account chat time)"

definition ignore_provider_reaction_outside_history_window ::
  "uuid \<Rightarrow> string \<Rightarrow> string \<Rightarrow> timestamp \<Rightarrow> string \<Rightarrow> int \<Rightarrow> bridge_db \<Rightarrow> bool \<times> bridge_db" where
  "ignore_provider_reaction_outside_history_window account chat pid time queue_id event_id db =
     (let hit = (\<lambda>ev. pending_event account queue_id event_id ev \<and> unreachable_message db account chat pid time) in
      (list_ex hit (db_events (bd_queue db)), update_events hit (ignore_as ''provider_message_outside_history'') db))"

end
