(* ===== verification/Queue_Catchup.thy ===== *)
theory Queue_Catchup
  imports Event_Processing
begin

text \<open>
  Recovery of a lost event queue (\<open>storage.py\<close>): every chat that the account observes gets a
  catch-up job that reads messages page by page down to the newest one known before the loss.
\<close>

section \<open>Chats and checkpoints\<close>

definition assigned_chats :: "uuid \<Rightarrow> queue_db \<Rightarrow> string option list" where
  "assigned_chats account db =
     map body_chat_key (filter (\<lambda>d. ds_type d = ''external_chat_assignment'' \<and> \<not> ds_deleted d \<and>
       body_text d ''external_account_uuid'' = Some account \<and> selected_default d) (db_desired db))"

definition selects_all :: "uuid \<Rightarrow> queue_db \<Rightarrow> bool" where
  "selects_all account db =
     list_ex (\<lambda>d. ds_type d = ''external_account'' \<and> ds_uuid d = account \<and> \<not> ds_deleted d \<and>
        json_text (json_field (json_field (ds_body d) ''settings'') ''selection_mode'') = Some ''all'') (db_desired db)"

definition message_of :: "uuid \<Rightarrow> mapping_row \<Rightarrow> bool" where
  "message_of account m = (mp_account_uuid m = account \<and> mp_kind m = ''message'' \<and> \<not> mp_deleted m)"

definition mapped_chats :: "uuid \<Rightarrow> queue_db \<Rightarrow> string option list" where
  "mapped_chats account db =
     (if selects_all account db
      then filter (\<lambda>c. c \<noteq> None)
             (map (\<lambda>m. meta_text m ''chat_key'') (filter (message_of account) (db_mappings db)))
      else [])"

definition selected_chats :: "uuid \<Rightarrow> queue_db \<Rightarrow> string option list" where
  "selected_chats account db = remdups (assigned_chats account db @ mapped_chats account db)"

text \<open>
  \<open>CASE WHEN provider_id ~ '^[0-9]+$' THEN provider_id::bigint\<close>; a number beyond the range
  aborts the statement.
\<close>

definition numeric_id :: "string \<Rightarrow> int option" where
  "numeric_id s = fixed_digits (length s) s"

definition bigint_id :: "string \<Rightarrow> int option result" where
  "bigint_id s =
     (if s = [] then Inr None
      else case numeric_id s of
        None \<Rightarrow> Inr None
      | Some i \<Rightarrow> if i < 2 ^ 63 then Inr (Some i) else Inl (DatabaseErr ''numeric_value_out_of_range''))"

definition chat_messages :: "uuid \<Rightarrow> string \<Rightarrow> queue_db \<Rightarrow> mapping_row list" where
  "chat_messages account chat db =
     filter (\<lambda>m. message_of account m \<and> meta_text m ''chat_key'' = Some chat) (db_mappings db)"

definition checkpoint :: "int option list \<Rightarrow> int option" where
  "checkpoint ids = fold max ids None"

section \<open>Jobs\<close>

definition fresh_catchup :: "timestamp \<Rightarrow> uuid \<Rightarrow> string \<Rightarrow> int option \<Rightarrow> catchup_row" where
  "fresh_catchup now account chat point =
     \<lparr>ct_account_uuid = account, ct_chat_key = chat, ct_checkpoint = point, ct_next_anchor = None, ct_seen = [],
      ct_page_count = 0, ct_state = ''pending'', ct_error_code = None, ct_updated_at = now\<rparr>"

definition same_catchup :: "catchup_row \<Rightarrow> catchup_row \<Rightarrow> bool" where
  "same_catchup c c' = (ct_account_uuid c' = ct_account_uuid c \<and> ct_chat_key c' = ct_chat_key c)"

text \<open>\<open>INSERT ... ON CONFLICT DO UPDATE\<close>: both write every column.\<close>

definition put_catchup :: "catchup_row \<Rightarrow> catchup_row list \<Rightarrow> catchup_row list" where
  "put_catchup new cs =
     (if list_ex (same_catchup new) cs then update_where (same_catchup new) (\<lambda>_. new) cs else cs @ [new])"

definition begin_catchup :: "timestamp \<Rightarrow> uuid \<Rightarrow> queue_db \<Rightarrow> string option \<Rightarrow> catchup_row result" where
  "begin_catchup now account db chat =
     (case chat of
        None \<Rightarrow> Inl (DatabaseErr ''not_null_violation'')
      | Some c \<Rightarrow>
          bindE (mapE (bigint_id \<circ> mp_provider_id) (chat_messages account c db)) (\<lambda>ids.
          Inr (fresh_catchup now account c (checkpoint ids))))"

definition participant_selected :: "queue_db \<Rightarrow> participant_row \<Rightarrow> bool" where
  "participant_selected db p =
     list_ex (\<lambda>d. ds_type d = ''external_chat_assignment'' \<and> \<not> ds_deleted d \<and>
        body_text d ''external_account_uuid'' = Some (ps_account_uuid p) \<and> body_chat_key d = Some (ps_chat_key p) \<and>
        ds_generation d = ps_generation p \<and> selected_default d) (db_desired db)"

definition reset_participants :: "timestamp \<Rightarrow> uuid \<Rightarrow> bridge_db \<Rightarrow> bridge_db" where
  "reset_participants now account db =
     db\<lparr>bd_participants := update_where
          (\<lambda>p. ps_account_uuid p = account \<and> participant_selected (bd_queue db) p)
          (\<lambda>p. p\<lparr>ps_state := ''pending'', ps_lease_until := None, ps_user_ids := [], ps_updated_at := now\<rparr>)
          (bd_participants db)\<rparr>"

definition begin_provider_queue_catchup :: "timestamp \<Rightarrow> uuid \<Rightarrow> bridge_db \<Rightarrow> bridge_db result" where
  "begin_provider_queue_catchup now account db =
     (let db1 = invalidate_directory now account db; q = bd_queue db1 in
      bindE (mapE (begin_catchup now account q) (selected_chats account q)) (\<lambda>jobs.
      Inr (reset_participants now account (db1\<lparr>bd_catchups := fold put_catchup jobs (bd_catchups db1)\<rparr>))))"

definition pending_provider_catchup :: "uuid \<Rightarrow> bridge_db \<Rightarrow> catchup_row option" where
  "pending_provider_catchup account db =
     first_by (\<lambda>c. (ct_updated_at c, ct_chat_key c))
       (filter (\<lambda>c. ct_account_uuid c = account \<and> ct_state c = ''pending'') (bd_catchups db))"

definition provider_catchup_ready :: "uuid \<Rightarrow> bridge_db \<Rightarrow> bool" where
  "provider_catchup_ready account db =
     (\<not> list_ex (\<lambda>c. ct_account_uuid c = account \<and> ct_state c \<noteq> ''complete'') (bd_catchups db))"

definition mapped_provider_messages :: "uuid \<Rightarrow> string \<Rightarrow> int \<Rightarrow> queue_db \<Rightarrow> mapping_row list result" where
  "mapped_provider_messages account chat minimum db =
     bindE (mapE (\<lambda>m. bindE (bigint_id (mp_provider_id m)) (\<lambda>i. Inr (m, i))) (chat_messages account chat db)) (\<lambda>rows.
     Inr (map fst (sort_key (\<lambda>(m, i). - the i) (filter (\<lambda>(m, i). case i of None \<Rightarrow> False | Some n \<Rightarrow> minimum \<le> n) rows))))"

definition advance_row :: "timestamp \<Rightarrow> int list \<Rightarrow> int option \<Rightarrow> bool \<Rightarrow> string option \<Rightarrow> catchup_row \<Rightarrow> catchup_row" where
  "advance_row now seen_ids next_anchor finished code c =
     c\<lparr>ct_seen := sort (remdups (ct_seen c @ seen_ids)), ct_next_anchor := next_anchor,
       ct_page_count := ct_page_count c + 1,
       ct_state := (if code \<noteq> None then ''manual'' else if finished then ''complete'' else ''pending''),
       ct_error_code := code, ct_updated_at := now\<rparr>"

definition advance_provider_catchup ::
  "timestamp \<Rightarrow> uuid \<Rightarrow> string \<Rightarrow> int list \<Rightarrow> int option \<Rightarrow> bool \<Rightarrow> string option \<Rightarrow> bridge_db \<Rightarrow> bridge_db" where
  "advance_provider_catchup now account chat seen_ids next_anchor finished code db =
     db\<lparr>bd_catchups := update_where (\<lambda>c. ct_account_uuid c = account \<and> ct_chat_key c = chat)
          (advance_row now seen_ids next_anchor finished code) (bd_catchups db)\<rparr>"

section \<open>One page\<close>

definition MAX_QUEUE_CATCHUP_PAGES :: int where
  "MAX_QUEUE_CATCHUP_PAGES = 20"

definition HISTORY_PAGE_SIZE :: nat where
  "HISTORY_PAGE_SIZE = 100"

definition message_ids :: "dict list \<Rightarrow> int list result" where
  "message_ids messages = mapE (\<lambda>m. bindE (item m ''id'') int_of) messages"

text \<open>A page at or below the checkpoint, or a short one, is the last.\<close>

definition page_completes :: "int option \<Rightarrow> int list \<Rightarrow> bool" where
  "page_completes point ids =
     ((case point of None \<Rightarrow> True | Some c \<Rightarrow> list_ex (\<lambda>i. i \<le> c) ids) \<or> length ids < HISTORY_PAGE_SIZE)"

definition following_anchor :: "int list \<Rightarrow> int option" where
  "following_anchor ids = (if ids = [] then None else Some (Min (set ids) - 1))"

text \<open>The messages known before the loss that no page showed any more.\<close>

definition vanished :: "uuid \<Rightarrow> string \<Rightarrow> int option \<Rightarrow> int list \<Rightarrow> queue_db \<Rightarrow> int list result" where
  "vanished account chat point seen db =
     (case point of
        None \<Rightarrow> Inr []
      | Some c \<Rightarrow>
          bindE (mapped_provider_messages account chat c db) (\<lambda>known.
          bindE (mapE (int_of \<circ> VStr \<circ> mp_provider_id) known) (\<lambda>ids.
          Inr (filter (\<lambda>i. i \<notin> set seen) ids))))"

text \<open>
  The adapter's \<open>message_history\<close> answers a page (\<open>None\<close> stands for \<open>newest\<close>); the two
  deliveries convert and enqueue the messages of the page and the deletion of the vanished
  ones, or raise.
\<close>

record catchup_env =
  ce_page :: "string \<Rightarrow> int option \<Rightarrow> dict list result"
  ce_messages :: "string \<Rightarrow> dict list \<Rightarrow> bridge_db \<Rightarrow> unit result \<times> bridge_db"
  ce_deletion :: "string \<Rightarrow> int \<Rightarrow> bridge_db \<Rightarrow> unit result \<times> bridge_db"

definition CATCHUP_GATES :: "pyerror list" where
  "CATCHUP_GATES = [ValueErr ''provider_chat_assignment_pending'', ValueErr ''provider_chat_participants_pending'']"

fun deliver_deletions :: "catchup_env \<Rightarrow> string \<Rightarrow> int list \<Rightarrow> bridge_db \<Rightarrow> unit result \<times> bridge_db" where
  "deliver_deletions env chat [] db = (Inr (), db)"
| "deliver_deletions env chat (i # ids) db =
     (case ce_deletion env chat i db of
        (Inl e, db') \<Rightarrow> (Inl e, db')
      | (Inr _, db') \<Rightarrow> deliver_deletions env chat ids db')"

definition finish_page ::
  "catchup_env \<Rightarrow> timestamp \<Rightarrow> uuid \<Rightarrow> catchup_row \<Rightarrow> int list \<Rightarrow> bridge_db \<Rightarrow> bool result \<times> bridge_db" where
  "finish_page env now account job ids db =
     (let chat = ct_chat_key job; point = ct_checkpoint job; finished = page_completes point ids in
      case (if finished then vanished account chat point (ct_seen job @ ids) (bd_queue db) else Inr []) of
        Inl e \<Rightarrow> (Inl e, db)
      | Inr gone \<Rightarrow>
          (case deliver_deletions env chat gone db of
             (Inl e, db1) \<Rightarrow> (Inl e, db1)
           | (Inr _, db1) \<Rightarrow>
               let db2 = advance_provider_catchup now account chat (sort (remdups ids)) (following_anchor ids) finished None db1
               in (Inr (finished \<and> provider_catchup_ready account db2), db2)))"

definition catchup_page :: "catchup_env \<Rightarrow> timestamp \<Rightarrow> uuid \<Rightarrow> catchup_row \<Rightarrow> bridge_db \<Rightarrow> bool result \<times> bridge_db" where
  "catchup_page env now account job db =
     (if ct_page_count job \<ge> MAX_QUEUE_CATCHUP_PAGES
      then (Inr False, advance_provider_catchup now account (ct_chat_key job) [] None False
              (Some ''provider_queue_catchup_limit_exceeded'') db)
      else case bindE (ce_page env (ct_chat_key job) (ct_next_anchor job)) (\<lambda>ms. bindE (message_ids ms) (\<lambda>ids. Inr (ms, ids))) of
        Inl e \<Rightarrow> (Inl e, db)
      | Inr (messages, ids) \<Rightarrow>
          (case (if messages = [] then (Inr (), db) else ce_messages env (ct_chat_key job) messages db) of
             (Inl e, db1) \<Rightarrow> (if e \<in> set CATCHUP_GATES then Inr False else Inl e, db1)
           | (Inr _, db1) \<Rightarrow> finish_page env now account job ids db1))"

definition run_provider_queue_catchup :: "catchup_env \<Rightarrow> timestamp \<Rightarrow> uuid \<Rightarrow> bridge_db \<Rightarrow> bool result \<times> bridge_db" where
  "run_provider_queue_catchup env now account db =
     (case pending_provider_catchup account db of
        None \<Rightarrow> (Inr (provider_catchup_ready account db), db)
      | Some job \<Rightarrow> catchup_page env now account job db)"

end
