(* ===== verification/Directory_Refresh.thy ===== *)
theory Directory_Refresh
  imports History_Directory
begin

text \<open>
  The refresh of user directories (\<open>refresh_once\<close>, \<open>_apply_refresh\<close>, \<open>_defer_directory\<close> of
  \<open>history_configuration.py\<close>) and the reporting of history failures (\<open>flush_once\<close> of
  \<open>history_failure_reports.py\<close>). A refresh reads a scope in one transaction, asks the provider
  or rewrites a batch outside any transaction, and applies the result in another: \<open>mid\<close> stands
  for the transactions of others in between.
\<close>

section \<open>Preparing one quantum\<close>

definition referenced_users :: "batch \<Rightarrow> int list" where
  "referenced_users b =
     concat (map (\<lambda>m. sn_sender_id m
         # (case sn_location m of Private_Location ids \<Rightarrow> ids | Stream_Location _ _ _ \<Rightarrow> [])
         @ map ri_user_id (sn_reactions m) @ map ac_user_id (sn_access m)) (ba_messages b))"

definition with_directory :: "(string \<Rightarrow> string) \<Rightarrow> batch \<Rightarrow> hist_user list \<Rightarrow> batch" where
  "with_directory sha256 b users =
     hash_batch sha256 (b\<lparr>ba_users :=
       merge_users (filter (\<lambda>u. hu_id u \<in> set (referenced_users b)) (ba_users b)) users\<rparr>)"

definition select_refresh :: "timestamp \<Rightarrow> bridge_db \<Rightarrow> scope_row option" where
  "select_refresh now db =
     first_by (\<lambda>sc. (sc_retry_at sc, sc_key sc))
       (filter (\<lambda>sc. sc_pending sc \<and> sc_attempts sc < DIRECTORY_WRITE_MAX_ATTEMPTS \<and> sc_retry_at sc \<le> now) (bd_scopes db))"

definition scope_accounts :: "scope_row \<Rightarrow> uuid list" where
  "scope_accounts sc = sort (remdups (map so_account (sc_sources sc)))"

definition later_batches :: "scope_row \<Rightarrow> bridge_db \<Rightarrow> batch_row list" where
  "later_batches sc db = filter (\<lambda>b. hb_key b = sc_key sc \<and> sc_cursor sc < hb_from_id b) (bd_batches db)"

definition next_batch :: "scope_row \<Rightarrow> bridge_db \<Rightarrow> batch_row option" where
  "next_batch sc db = first_by hb_from_id (later_batches sc db)"

text \<open>What the second transaction writes: the users of one account, a batch, or the end.\<close>

datatype quantum =
    Users "hist_user list"
  | Rewrite batch_row batch
  | Finish

definition rewrite_quantum :: "(string \<Rightarrow> string) \<Rightarrow> scope_row \<Rightarrow> bridge_db \<Rightarrow> quantum" where
  "rewrite_quantum sha256 sc db =
     (case next_batch sc db of
        None \<Rightarrow> Finish
      | Some b \<Rightarrow> Rewrite b (with_directory sha256 (hb_body b) (sc_users sc)))"

section \<open>Applying it\<close>

definition refresh_current :: "(string \<Rightarrow> string) \<Rightarrow> scope_row \<Rightarrow> scope_row \<Rightarrow> bridge_db \<Rightarrow> bool" where
  "refresh_current sha256 row cur db =
     (sc_generation cur = sc_generation row \<and> sc_pending cur \<and> sc_attempts cur < DIRECTORY_WRITE_MAX_ATTEMPTS \<and>
      sc_cursor cur = sc_cursor row \<and> sc_account_cursor cur = sc_account_cursor row \<and>
      sc_fingerprint cur = fingerprint sha256 (scope_sources (sc_key row) (bd_queue db)))"

definition same_scope :: "scope_row \<Rightarrow> scope_row \<Rightarrow> bool" where
  "same_scope row sc = (sc_key sc = sc_key row)"

definition write_users :: "timestamp \<Rightarrow> scope_row \<Rightarrow> hist_user list \<Rightarrow> bridge_db \<Rightarrow> bridge_db" where
  "write_users now row users =
     update_scopes (same_scope row)
       (\<lambda>sc. sc\<lparr>sc_users := users, sc_account_cursor := sc_account_cursor sc + 1, sc_retry_at := now, sc_attempts := 0\<rparr>)"

definition unchanged_batch :: "scope_row \<Rightarrow> batch_row \<Rightarrow> batch_row \<Rightarrow> bool" where
  "unchanged_batch row b b' =
     (hb_key b' = sc_key row \<and> hb_from_id b' = hb_from_id b \<and> ba_hash (hb_body b') = ba_hash (hb_body b))"

definition write_batch :: "timestamp \<Rightarrow> scope_row \<Rightarrow> batch_row \<Rightarrow> batch \<Rightarrow> bridge_db \<Rightarrow> bridge_db" where
  "write_batch now row b body db =
     update_scopes (same_scope row) (\<lambda>sc. sc\<lparr>sc_cursor := hb_from_id b, sc_retry_at := now, sc_attempts := 0\<rparr>)
       (db\<lparr>bd_batches := update_where (unchanged_batch row b)
             (\<lambda>b'. (reset_import now b')\<lparr>hb_body := body\<rparr>) (bd_batches db)\<rparr>)"

definition acknowledge :: "scope_row \<Rightarrow> bridge_db \<Rightarrow> bridge_db" where
  "acknowledge row =
     update_scopes (same_scope row) (\<lambda>sc. sc\<lparr>sc_pending := False, sc_ack := sc_revision sc, sc_attempts := 0\<rparr>)"

text \<open>The revision of the realm is forgotten once every scope of the realm has acknowledged it.\<close>

definition forget_revision :: "uuid \<Rightarrow> int \<Rightarrow> bridge_db \<Rightarrow> bridge_db" where
  "forget_revision realm revision db =
     (if bd_revisions db realm = Some revision \<and>
         \<not> list_ex (\<lambda>sc. snd (sc_key sc) = realm \<and> (sc_pending sc \<or> sc_ack sc \<noteq> revision)) (bd_scopes db)
      then db\<lparr>bd_revisions := (bd_revisions db)(realm := None)\<rparr> else db)"

definition finish_refresh :: "scope_row \<Rightarrow> scope_row \<Rightarrow> bridge_db \<Rightarrow> bridge_db" where
  "finish_refresh row cur db =
     clear_health (health_component (sc_key row))
       (forget_revision (snd (sc_key row)) (sc_revision cur) (acknowledge row db))"

definition apply_quantum :: "timestamp \<Rightarrow> scope_row \<Rightarrow> scope_row \<Rightarrow> quantum \<Rightarrow> bridge_db \<Rightarrow> bool \<times> bridge_db" where
  "apply_quantum now row cur q db =
     (let done = (\<lambda>db'. (True, clear_health (directory_health_component (sc_key row)) db')) in
      case q of
        Users users \<Rightarrow> done (write_users now row users db)
      | Rewrite b body \<Rightarrow>
          if list_ex (unchanged_batch row b) (bd_batches db) then done (write_batch now row b body db) else (False, db)
      | Finish \<Rightarrow>
          if later_batches row db \<noteq> [] then (True, db) else done (finish_refresh row cur db))"

definition apply_refresh :: "(string \<Rightarrow> string) \<Rightarrow> timestamp \<Rightarrow> scope_row \<Rightarrow> quantum \<Rightarrow> bridge_db \<Rightarrow> bool \<times> bridge_db" where
  "apply_refresh sha256 now row q db =
     (case find_scope (sc_key row) db of
        None \<Rightarrow> (False, db)
      | Some cur \<Rightarrow> if refresh_current sha256 row cur db then apply_quantum now row cur q db else (False, db))"

section \<open>Deferring it\<close>

definition refresh_delay :: "string \<Rightarrow> int \<Rightarrow> int" where
  "refresh_delay code attempts =
     (if code = DIRECTORY_TIMEOUT then min 300 (5 * 2 ^ nat (attempts - 1))
      else if code = ''history_directory_unavailable'' then 30 else 1)"

definition defer_current :: "(string \<Rightarrow> string) \<Rightarrow> scope_row \<Rightarrow> scope_row \<Rightarrow> bridge_db \<Rightarrow> bool" where
  "defer_current sha256 row cur db =
     (refresh_current sha256 row cur db \<and> sc_revision cur = sc_revision row \<and> sc_fingerprint cur = sc_fingerprint row)"

definition defer_directory :: "(string \<Rightarrow> string) \<Rightarrow> timestamp \<Rightarrow> scope_row \<Rightarrow> string \<Rightarrow> bridge_db \<Rightarrow> bool \<times> bridge_db" where
  "defer_directory sha256 now row code db =
     (case find_scope (sc_key row) db of
        None \<Rightarrow> (False, db)
      | Some cur \<Rightarrow>
          if \<not> defer_current sha256 row cur db then (False, db)
          else
            let attempts = sc_attempts cur + (if code = DIRECTORY_TIMEOUT then 1 else 0);
                db1 = update_scopes (same_scope row)
                  (\<lambda>sc. sc\<lparr>sc_attempts := attempts, sc_retry_at := now + seconds (refresh_delay code attempts)\<rparr>) db;
                db2 = on_queue (mark_health (directory_health_component (sc_key row)) ''degraded'' (Some code)) db1
            in (True, if attempts \<ge> DIRECTORY_WRITE_MAX_ATTEMPTS
                      then db2\<lparr>bd_reports := record_failure now (sc_key row) (sc_generation cur) code False (bd_reports db2)\<rparr>
                      else db2))"

section \<open>One pass\<close>

text \<open>The second transaction commits or fails with an exception, given by its chain.\<close>

type_synonym tx_failure = "exc_node list \<times> nat"

definition retryable_database_error :: "tx_failure \<Rightarrow> bool" where
  "retryable_database_error e = chain_matches [''55P03'', ''57014'', ''40001'', ''40P01''] (fst e) [] (Some (snd e))"

definition refresh_failure_code :: "tx_failure \<Rightarrow> string" where
  "refresh_failure_code e =
     (if is_statement_timeout (fst e) (Some (snd e)) then DIRECTORY_TIMEOUT else ''history_directory_database_contention'')"

definition commit_refresh ::
  "(string \<Rightarrow> string) \<Rightarrow> timestamp \<Rightarrow> tx_failure option \<Rightarrow> scope_row \<Rightarrow> quantum \<Rightarrow> bridge_db \<Rightarrow> (bool \<times> bridge_db) result" where
  "commit_refresh sha256 now failure row q db =
     (case failure of
        None \<Rightarrow> Inr (apply_refresh sha256 now row q db)
      | Some e \<Rightarrow>
          if retryable_database_error e
          then Inr (False, snd (defer_directory sha256 now row (refresh_failure_code e) db))
          else Inl (DatabaseErr ''refresh''))"

definition unavailable_report :: "scope_row \<Rightarrow> uuid \<Rightarrow> account_report" where
  "unavailable_report row account =
     \<lparr>ar_account_uuid = account, ar_status = ''degraded'', ar_code = ''history_directory_unavailable'',
      ar_generation = map_option so_account_generation (find (\<lambda>s. so_account s = account) (sc_sources row))\<rparr>"

fun directory_error :: "pyerror \<Rightarrow> bool" where
  "directory_error (ZulipOperationErr _ _) = True"
| "directory_error (ValueErr _) = True"
| "directory_error (InvalidCanonicalValue _) = True"
| "directory_error _ = False"

definition refresh_users ::
  "(string \<Rightarrow> string) \<Rightarrow> timestamp \<Rightarrow> (uuid \<Rightarrow> dict list result) \<Rightarrow> tx_failure option \<Rightarrow> scope_row \<Rightarrow> uuid \<Rightarrow> bridge_db \<Rightarrow>
     (bool \<times> account_report option \<times> bridge_db) result" where
  "refresh_users sha256 now history_users failure row account db =
     (case bindE (history_users account) user_catalog of
        Inl e \<Rightarrow>
          if directory_error e
          then let (changed, db') = defer_directory sha256 now row ''history_directory_unavailable'' db
               in Inr (False, if changed then Some (unavailable_report row account) else None, db')
          else Inl e
      | Inr users \<Rightarrow>
          bindE (commit_refresh sha256 now failure row (Users (merge_users (sc_users row) users)) db)
            (\<lambda>(r, db'). Inr (r, None, db')))"

definition refresh_once ::
  "(string \<Rightarrow> string) \<Rightarrow> timestamp \<Rightarrow> (uuid \<Rightarrow> dict list result) \<Rightarrow> (bridge_db \<Rightarrow> bridge_db) \<Rightarrow> tx_failure option \<Rightarrow>
     bridge_db \<Rightarrow> (bool \<times> account_report option \<times> bridge_db) result" where
  "refresh_once sha256 now history_users mid failure db =
     (if \<not> provider_is_enabled ''zulip'' (bd_queue db) then Inr (False, None, db)
      else case select_refresh now db of
        None \<Rightarrow> Inr (False, None, db)
      | Some row \<Rightarrow>
          if sc_account_cursor row < length (scope_accounts row)
          then refresh_users sha256 now history_users failure row (scope_accounts row ! sc_account_cursor row) (mid db)
          else bindE (commit_refresh sha256 now failure row (rewrite_quantum sha256 row db) (mid db))
                 (\<lambda>(r, db'). Inr (r, None, db')))"

section \<open>Reporting failures\<close>

definition report_current :: "(string \<Rightarrow> string) \<Rightarrow> bridge_db \<Rightarrow> report_row \<Rightarrow> bool" where
  "report_current sha256 db r =
     (case find_scope (fr_key r) db of
        None \<Rightarrow> False
      | Some sc \<Rightarrow>
          (\<not> sc_pending sc \<or> fr_code r \<in> {CAPTURE_TIMEOUT, DIRECTORY_TIMEOUT}) \<and>
          (fr_code r \<noteq> DIRECTORY_TIMEOUT \<or> DIRECTORY_WRITE_MAX_ATTEMPTS \<le> sc_attempts sc) \<and>
          sc_generation sc = fr_generation r \<and>
          sc_fingerprint sc = fingerprint sha256 (scope_sources (fr_key r) (bd_queue db)))"

definition due_report :: "timestamp \<Rightarrow> bridge_db \<Rightarrow> report_row option" where
  "due_report now db =
     first_by (\<lambda>r. (fr_retry_at r, fr_key r)) (filter (\<lambda>r. \<not> fr_complete r \<and> fr_retry_at r \<le> now) (bd_reports db))"

definition drop_report :: "scope_key \<Rightarrow> bridge_db \<Rightarrow> bridge_db" where
  "drop_report k db = db\<lparr>bd_reports := filter (\<lambda>r. fr_key r \<noteq> k) (bd_reports db)\<rparr>"

definition set_report :: "scope_key \<Rightarrow> (report_row \<Rightarrow> report_row) \<Rightarrow> bridge_db \<Rightarrow> bridge_db" where
  "set_report k f db = db\<lparr>bd_reports := update_where (\<lambda>r. fr_key r = k) f (bd_reports db)\<rparr>"

text \<open>\<open>SELECT DISTINCT account_uuid, account_generation ... ORDER BY account_uuid LIMIT 1\<close>\<close>

definition next_reported :: "scope_row \<Rightarrow> uuid option \<Rightarrow> (uuid \<times> int) option" where
  "next_reported sc after =
     first_by fst (filter (\<lambda>p. case after of None \<Rightarrow> True | Some a \<Rightarrow> a < fst p)
       (map (\<lambda>s. (so_account s, so_account_generation s)) (sc_sources sc)))"

text \<open>
  The callback stores the report and answers whether it is retained; an exception rolls the
  transaction back, and a second transaction delays the attempt.
\<close>

definition send_report :: "timestamp \<Rightarrow> (account_report \<Rightarrow> bool option) \<Rightarrow> scope_row \<Rightarrow> report_row \<Rightarrow> bridge_db \<Rightarrow> bool \<times> bridge_db" where
  "send_report now callback sc r db =
     (let later = set_report (fr_key r) (\<lambda>r. r\<lparr>fr_retry_at := now + seconds 30\<rparr>) in
      case next_reported sc (fr_after r) of
        None \<Rightarrow> (True, set_report (fr_key r) (\<lambda>r. r\<lparr>fr_complete := True\<rparr>) db)
      | Some (account, generation) \<Rightarrow>
          (case callback \<lparr>ar_account_uuid = account, ar_status = ''degraded'', ar_code = fr_code r,
                           ar_generation = Some generation\<rparr> of
             Some True \<Rightarrow> (True, set_report (fr_key r) (\<lambda>r. r\<lparr>fr_after := Some account, fr_retry_at := now\<rparr>) db)
           | _ \<Rightarrow> (False, later db)))"

definition flush_once :: "(string \<Rightarrow> string) \<Rightarrow> timestamp \<Rightarrow> (account_report \<Rightarrow> bool option) \<Rightarrow> bridge_db \<Rightarrow> bool \<times> bridge_db" where
  "flush_once sha256 now callback db =
     (case due_report now db of
        None \<Rightarrow> (False, db)
      | Some r \<Rightarrow>
          if \<not> report_current sha256 db r then (True, drop_report (fr_key r) db)
          else
            let sc = the (find_scope (fr_key r) db) in
            if fr_code r = CAPTURE_TIMEOUT \<and> \<not> capture_timed_out (bd_queue db) sc then (True, drop_report (fr_key r) db)
            else if (sc_pending sc \<and> fr_code r \<noteq> DIRECTORY_TIMEOUT) \<or> \<not> provider_is_enabled ''zulip'' (bd_queue db)
            then (False, set_report (fr_key r) (\<lambda>r. r\<lparr>fr_retry_at := now + seconds 30\<rparr>) db)
            else send_report now callback sc r db)"

end
