(* ===== verification/Directory_Properties.thy ===== *)
theory Directory_Properties
  imports Directory_Refresh Transition_Systems
begin

text \<open>
  The acknowledgement protocol of user directories. Its state is the table of scopes, the
  revisions of realms that some scope has still to acknowledge, and the generation counter.
  The step relation has one rule per transaction; a refresh is applied or deferred with any
  row read at any time, and every other transaction of the bridge is a step that leaves the
  three alone.
\<close>

section \<open>What the transactions leave alone\<close>

definition directory_state :: "bridge_db \<Rightarrow> scope_row list \<times> (uuid \<rightharpoonup> int) \<times> int" where
  "directory_state db = (bd_scopes db, bd_revisions db, bd_generation db)"

named_theorems directory_simps \<open>transactions that keep the directory state\<close>

lemma keep_directory [simp, directory_simps]:
  "directory_state (carry_capture now g db) = directory_state db"
  "directory_state (carry_directory g db) = directory_state db"
  "directory_state (retire_directory_failures g db) = directory_state db"
  "directory_state (clear_health c db) = directory_state db"
  "directory_state (discard_capture now k rows db) = directory_state db"
  "directory_state (drop_report k db) = directory_state db"
  "directory_state (set_report k f db) = directory_state db"
  by (simp_all add: directory_state_def carry_capture_def carry_directory_def retire_directory_failures_def
      clear_health_def discard_capture_def drop_report_def set_report_def Let_def)

lemma directory_state_eqD:
  assumes "directory_state db = directory_state db'"
  shows "bd_scopes db = bd_scopes db'" and "bd_revisions db = bd_revisions db'" and "bd_generation db = bd_generation db'"
  using assms by (simp_all add: directory_state_def)

lemmas keep_tables [simp] =
  keep_directory [THEN directory_state_eqD(1)]
  keep_directory [THEN directory_state_eqD(2)]
  keep_directory [THEN directory_state_eqD(3)]

lemma flush_keeps: "directory_state (snd (flush_once sha256 now callback db)) = directory_state db"
  by (simp add: flush_once_def send_report_def Let_def split: option.split bool.split prod.split)

section \<open>Steps\<close>

inductive dstep :: "(string \<Rightarrow> string) \<Rightarrow> bridge_db \<Rightarrow> bridge_db \<Rightarrow> bool" for sha256 where
  Invalidate: "dstep sha256 db (invalidate_directory now account db)"
| Reconcile: "reconcile sha256 now db = Inr db' \<Longrightarrow> dstep sha256 db db'"
| Apply: "dstep sha256 db (snd (apply_refresh sha256 now row q db))"
| Defer: "dstep sha256 db (snd (defer_directory sha256 now row code db))"
| Flush: "dstep sha256 db (snd (flush_once sha256 now callback db))"
| Other: "directory_state db' = directory_state db \<Longrightarrow> dstep sha256 db db'"

definition directory_init :: "bridge_db \<Rightarrow> bool" where
  "directory_init db = (bd_scopes db = [] \<and> bd_revisions db = Map.empty \<and> 0 < bd_generation db)"

text \<open>
  Scopes have unique keys and generations that were handed out; a revision that is still to
  be acknowledged is that of every scope of its realm; a scope that is not pending has
  acknowledged its revision.
\<close>

definition scope_inv :: "(uuid \<rightharpoonup> int) \<Rightarrow> int \<Rightarrow> scope_row \<Rightarrow> bool" where
  "scope_inv revs g sc =
     (sc_generation sc \<le> g \<and> (\<not> sc_pending sc \<longrightarrow> sc_ack sc = sc_revision sc) \<and>
      (\<forall>r. revs (snd (sc_key sc)) = Some r \<longrightarrow> sc_revision sc = r))"

definition directory_inv :: "bridge_db \<Rightarrow> bool" where
  "directory_inv db =
     (distinct (map sc_key (bd_scopes db)) \<and>
      (\<forall>sc \<in> set (bd_scopes db). scope_inv (bd_revisions db) (bd_generation db) sc))"

definition directory_progress :: "bridge_db \<Rightarrow> bridge_db \<Rightarrow> bool" where
  "directory_progress s t =
     (bd_generation s \<le> bd_generation t \<and>
      (\<forall>sc \<in> set (bd_scopes s). \<exists>sc' \<in> set (bd_scopes t). sc_key sc' = sc_key sc \<and> sc_generation sc \<le> sc_generation sc'))"

lemma directory_progress_refl: "directory_progress s s"
  unfolding directory_progress_def by auto

lemma directory_progress_trans: "directory_progress s t \<Longrightarrow> directory_progress t u \<Longrightarrow> directory_progress s u"
  unfolding directory_progress_def by (fastforce intro: order_trans)

lemma directory_same:
  assumes "directory_state t = directory_state s"
  shows "directory_inv t = directory_inv s" and "directory_progress s t"
proof -
  note eqs = directory_state_eqD [OF assms]
  show "directory_inv t = directory_inv s" by (simp add: directory_inv_def eqs)
  show "directory_progress s t" by (auto simp: directory_progress_def eqs)
qed

section \<open>Updates of scopes\<close>

lemma bd_update_scopes [simp]:
  "bd_scopes (update_scopes p f db) = update_where p f (bd_scopes db)"
  "bd_revisions (update_scopes p f db) = bd_revisions db"
  "bd_generation (update_scopes p f db) = bd_generation db"
  "bd_batches (update_scopes p f db) = bd_batches db"
  "bd_queue (update_scopes p f db) = bd_queue db"
  by (simp_all add: update_scopes_def)

text \<open>An update that keeps keys, respects the invariant and does not lower a generation.\<close>

lemma update_scopes_inv:
  assumes inv: "directory_inv s"
    and scs: "bd_scopes t = update_where p f (bd_scopes s)"
    and key: "\<And>sc. p sc \<Longrightarrow> sc_key (f sc) = sc_key sc"
    and hit: "\<And>sc. sc \<in> set (bd_scopes s) \<Longrightarrow> p sc \<Longrightarrow> scope_inv (bd_revisions s) (bd_generation s) sc \<Longrightarrow>
      scope_inv (bd_revisions t) (bd_generation t) (f sc) \<and> sc_generation sc \<le> sc_generation (f sc)"
    and miss: "\<And>sc. sc \<in> set (bd_scopes s) \<Longrightarrow> \<not> p sc \<Longrightarrow> scope_inv (bd_revisions s) (bd_generation s) sc \<Longrightarrow>
      scope_inv (bd_revisions t) (bd_generation t) sc"
    and gen: "bd_generation s \<le> bd_generation t"
  shows "directory_inv t \<and> directory_progress s t"
proof -
  have keys: "map sc_key (bd_scopes t) = map sc_key (bd_scopes s)"
    unfolding scs by (rule map_update_where) (rule key)
  have one: "scope_inv (bd_revisions t) (bd_generation t) (if p sc then f sc else sc) \<and>
      sc_generation sc \<le> sc_generation (if p sc then f sc else sc)" if "sc \<in> set (bd_scopes s)" for sc
  proof -
    have "scope_inv (bd_revisions s) (bd_generation s) sc" using inv that unfolding directory_inv_def by blast
    then show ?thesis using hit [OF that] miss [OF that] by (cases "p sc") simp_all
  qed
  have "directory_inv t"
    using inv one unfolding directory_inv_def keys by (auto simp: scs set_update_where)
  moreover have "directory_progress s t"
    unfolding directory_progress_def scs
  proof (intro conjI ballI)
    fix sc assume "sc \<in> set (bd_scopes s)"
    then show "\<exists>sc' \<in> set (update_where p f (bd_scopes s)). sc_key sc' = sc_key sc \<and> sc_generation sc \<le> sc_generation sc'"
      using one [of sc] key [of sc] by (intro bexI [of _ "if p sc then f sc else sc"]) (auto simp: set_update_where)
  qed (rule gen)
  ultimately show ?thesis ..
qed

lemma invalidate_inv:
  assumes "directory_inv s"
  shows "directory_inv (invalidate_directory now account s) \<and> directory_progress s (invalidate_directory now account s)"
proof (cases "cursor_realm (bd_queue s) account")
  case None
  then have "bd_scopes (invalidate_directory now account s) = update_where (\<lambda>_. False) id (bd_scopes s)"
    by (simp add: invalidate_directory_def next_generation_def Let_def update_where_def)
  then show ?thesis
    by (rule update_scopes_inv [OF assms])
      (auto simp: None invalidate_directory_def next_generation_def Let_def scope_inv_def)
next
  case (Some realm)
  then have "bd_scopes (invalidate_directory now account s) =
      update_where (\<lambda>sc. snd (sc_key sc) = realm) (reopen_scope now (bd_generation s + 1)) (bd_scopes s)"
    by (simp add: invalidate_directory_def next_generation_def Let_def)
  then show ?thesis
    by (rule update_scopes_inv [OF assms])
      (auto simp: Some invalidate_directory_def next_generation_def Let_def scope_inv_def reopen_scope_def)
qed

section \<open>The refresh\<close>

lemma find_scope_Some: "find_scope k db = Some sc \<Longrightarrow> sc \<in> set (bd_scopes db) \<and> sc_key sc = k"
  unfolding find_scope_def by (auto simp: find_Some_iff)

lemma forget_revision_inv:
  assumes "directory_inv s"
  shows "directory_inv (forget_revision realm revision s) \<and> directory_progress s (forget_revision realm revision s)"
proof -
  have "bd_scopes (forget_revision realm revision s) = update_where (\<lambda>_. False) id (bd_scopes s)"
    by (simp add: forget_revision_def update_where_def)
  then show ?thesis
    by (rule update_scopes_inv [OF assms]) (auto simp: forget_revision_def scope_inv_def)
qed

lemma acknowledge_inv:
  assumes "directory_inv s"
  shows "directory_inv (acknowledge row s) \<and> directory_progress s (acknowledge row s)"
  unfolding acknowledge_def
  by (rule update_scopes_inv [OF assms bd_update_scopes(1)]) (auto simp: scope_inv_def)

lemma finish_inv:
  assumes "directory_inv s"
  shows "directory_inv (finish_refresh row cur s) \<and> directory_progress s (finish_refresh row cur s)"
proof -
  let ?u = "acknowledge row s" and ?t = "forget_revision (snd (sc_key row)) (sc_revision cur) (acknowledge row s)"
  have "directory_inv ?t \<and> directory_progress s ?t"
    using acknowledge_inv [OF assms, of row] forget_revision_inv [of ?u] directory_progress_trans [of s ?u ?t] by blast
  moreover have "directory_state (finish_refresh row cur s) = directory_state ?t"
    by (simp add: finish_refresh_def)
  ultimately show ?thesis
    using directory_same [of "finish_refresh row cur s" ?t] directory_progress_trans [of s ?t] by blast
qed

lemma write_users_inv:
  assumes "directory_inv s"
  shows "directory_inv (write_users now row users s) \<and> directory_progress s (write_users now row users s)"
  unfolding write_users_def
  by (rule update_scopes_inv [OF assms bd_update_scopes(1)]) (auto simp: scope_inv_def)

lemma write_batch_inv:
  assumes "directory_inv s"
  shows "directory_inv (write_batch now row b body s) \<and> directory_progress s (write_batch now row b body s)"
proof -
  have "bd_scopes (write_batch now row b body s) =
      update_where (same_scope row) (\<lambda>sc. sc\<lparr>sc_cursor := hb_from_id b, sc_retry_at := now, sc_attempts := 0\<rparr>) (bd_scopes s)"
    by (simp add: write_batch_def)
  then show ?thesis
    by (rule update_scopes_inv [OF assms]) (auto simp: scope_inv_def write_batch_def)
qed

lemma clear_health_inv:
  assumes "directory_inv t \<and> directory_progress s t"
  shows "directory_inv (clear_health c t) \<and> directory_progress s (clear_health c t)"
  using assms directory_same [of "clear_health c t" t] directory_progress_trans [of s t] by auto

lemma apply_inv:
  assumes "directory_inv s"
  shows "directory_inv (snd (apply_refresh sha256 now row q s)) \<and>
    directory_progress s (snd (apply_refresh sha256 now row q s))"
proof -
  have same: "directory_inv s \<and> directory_progress s s" using assms directory_progress_refl by blast
  have "directory_inv (snd (apply_quantum now row cur q s)) \<and> directory_progress s (snd (apply_quantum now row cur q s))" for cur
    using clear_health_inv [OF write_users_inv [OF assms]] clear_health_inv [OF write_batch_inv [OF assms]]
      clear_health_inv [OF finish_inv [OF assms]] same
    by (simp add: apply_quantum_def Let_def split: quantum.split)
  then show ?thesis using same by (simp add: apply_refresh_def split: option.split)
qed

lemma defer_inv:
  assumes "directory_inv s"
  shows "directory_inv (snd (defer_directory sha256 now row code s)) \<and>
    directory_progress s (snd (defer_directory sha256 now row code s))"
proof -
  let ?t = "snd (defer_directory sha256 now row code s)"
  obtain p a u where scs: "bd_scopes ?t = update_where p (\<lambda>sc. sc\<lparr>sc_attempts := a, sc_retry_at := u\<rparr>) (bd_scopes s)"
  proof (cases "\<exists>cur. find_scope (sc_key row) s = Some cur \<and> defer_current sha256 row cur s")
    case True
    then obtain cur where cur: "find_scope (sc_key row) s = Some cur" "defer_current sha256 row cur s" by blast
    let ?a = "sc_attempts cur + (if code = DIRECTORY_TIMEOUT then 1 else 0)"
    have "bd_scopes ?t = update_where (same_scope row)
        (\<lambda>sc. sc\<lparr>sc_attempts := ?a, sc_retry_at := now + seconds (refresh_delay code ?a)\<rparr>) (bd_scopes s)"
      using cur by (simp add: defer_directory_def Let_def)
    then show ?thesis by (rule that)
  next
    case False
    then have "?t = s" by (auto simp: defer_directory_def split: option.split)
    then show ?thesis using that [of "\<lambda>_. False"] by (simp add: update_where_def)
  qed
  moreover have "bd_revisions ?t = bd_revisions s" and "bd_generation ?t = bd_generation s"
    by (simp_all add: defer_directory_def Let_def split: option.split)
  ultimately show ?thesis
    by (intro update_scopes_inv [OF assms scs]) (auto simp: scope_inv_def)
qed

section \<open>Reconciliation\<close>

lemma refresh_sources_tables [simp]:
  "bd_scopes (refresh_sources now k rows db) = update_where (\<lambda>sc. sc_key sc = k)
     (\<lambda>sc. sc\<lparr>sc_sources := rows, sc_generation := bd_generation db + 1\<rparr>) (bd_scopes db)"
  "bd_revisions (refresh_sources now k rows db) = bd_revisions db"
  "bd_generation (refresh_sources now k rows db) = bd_generation db + 1"
  by (simp_all add: refresh_sources_def next_generation_def Let_def)

lemma refresh_sources_inv:
  assumes "directory_inv s"
  shows "directory_inv (refresh_sources now k rows s) \<and> directory_progress s (refresh_sources now k rows s)"
  by (rule update_scopes_inv [OF assms refresh_sources_tables(1)]) (auto simp: scope_inv_def)

lemma put_scope_inv:
  assumes inv: "directory_inv s"
    and scs: "bd_scopes t = put_scope new (bd_scopes s)"
    and revs: "bd_revisions t = bd_revisions s"
    and gen: "bd_generation s \<le> bd_generation t"
    and new: "scope_inv (bd_revisions s) (bd_generation t) new"
    and old: "\<And>sc. sc \<in> set (bd_scopes s) \<Longrightarrow> sc_key sc = sc_key new \<Longrightarrow> sc_generation sc \<le> sc_generation new"
  shows "directory_inv t \<and> directory_progress s t"
proof (cases "list_ex (\<lambda>sc. sc_key sc = sc_key new) (bd_scopes s)")
  case True
  then have t: "bd_scopes t = update_where (\<lambda>sc. sc_key sc = sc_key new) (\<lambda>_. new) (bd_scopes s)"
    by (simp add: scs put_scope_def)
  show ?thesis
    by (rule update_scopes_inv [OF inv t]) (use new old gen in \<open>auto simp: scope_inv_def revs\<close>)
next
  case False
  then have t: "bd_scopes t = bd_scopes s @ [new]" by (simp add: scs put_scope_def)
  have "sc_key new \<notin> sc_key ` set (bd_scopes s)" using False by (auto simp: list_ex_iff)
  moreover have "scope_inv (bd_revisions t) (bd_generation t) sc" if "sc \<in> set (bd_scopes s)" for sc
    using inv that gen by (force simp: directory_inv_def scope_inv_def revs)
  ultimately have "directory_inv t" using inv new by (auto simp: directory_inv_def t revs)
  moreover have "directory_progress s t" using gen by (auto simp: directory_progress_def t)
  ultimately show ?thesis ..
qed

lemma rebuilt_scope_inv:
  assumes "revs (snd k) = dirty" and "generation \<le> g"
  shows "scope_inv revs g (rebuilt_scope now k generation value rows dirty old)"
  using assms by (auto simp: scope_inv_def rebuilt_scope_def Let_def split: option.splits)

lemma rebuilt_scope_fields [simp]:
  "sc_key (rebuilt_scope now k generation value rows dirty old) = k"
  "sc_generation (rebuilt_scope now k generation value rows dirty old) = generation"
  "sc_fingerprint (rebuilt_scope now k generation value rows dirty old) = value"
  "sc_sources (rebuilt_scope now k generation value rows dirty old) = rows"
  by (simp_all add: rebuilt_scope_def Let_def)

lemma find_scope_None: "find_scope k db = None \<Longrightarrow> sc \<in> set (bd_scopes db) \<Longrightarrow> sc_key sc \<noteq> k"
  unfolding find_scope_def by (auto simp: find_None_iff)

text \<open>One scope of the loop: it only needs that the row of the scope is still the one first read.\<close>

lemma reconcile_scope_inv:
  assumes inv: "directory_inv db" and revs: "bd_revisions db = bd_revisions start"
    and gen: "bd_generation start \<le> bd_generation db" and same: "find_scope k db = find_scope k start"
  shows "directory_inv (reconcile_scope sha256 now start k db) \<and> directory_progress db (reconcile_scope sha256 now start k db)"
proof -
  let ?rows = "scope_sources k (bd_queue start)"
  let ?old = "find_scope k start"
  let ?fp = "fingerprint sha256 ?rows"
  let ?t = "reconcile_scope sha256 now start k db"
  let ?kept = "\<exists>sc. ?old = Some sc \<and> sc_fingerprint sc = ?fp"
  let ?fresh = "?old = None \<and> bd_fingerprint start = Some (history_configuration_fingerprint sha256 (bd_queue start))"
  consider (kept) ?kept | (fresh) "\<not> ?kept" ?fresh | (rebuilt) "\<not> ?kept" "\<not> ?fresh"
    by (cases ?kept; cases ?fresh)
  then show ?thesis
  proof cases
    case kept
    then have "?t = refresh_sources now k ?rows db \<or> ?t = db" by (auto simp: reconcile_scope_def Let_def)
    then show ?thesis
      using inv refresh_sources_inv [OF inv, of now k ?rows] directory_progress_refl by metis
  next
    case fresh
    let ?new = "rebuilt_scope now k (bd_generation start) ?fp ?rows (bd_revisions start (snd k)) None"
    have "directory_state ?t = directory_state (db\<lparr>bd_scopes := put_scope ?new (bd_scopes db)\<rparr>)"
      using fresh by (simp add: reconcile_scope_def Let_def)
    note t = directory_state_eqD [OF this, simplified]
    show ?thesis
      by (rule put_scope_inv [OF inv t(1) t(2)])
        (use gen fresh(2) find_scope_None [of k db] same in \<open>auto simp: t(3) revs intro: rebuilt_scope_inv\<close>)
  next
    case rebuilt
    let ?new = "rebuilt_scope now k (bd_generation db + 1) ?fp ?rows (bd_revisions start (snd k)) ?old"
    have "directory_state ?t = directory_state (db\<lparr>bd_generation := bd_generation db + 1, bd_scopes := put_scope ?new (bd_scopes db)\<rparr>)"
      using rebuilt by (auto simp: reconcile_scope_def Let_def next_generation_def directory_state_def split: option.split)
    note t = directory_state_eqD [OF this, simplified]
    have "sc_generation sc \<le> bd_generation db" if "sc \<in> set (bd_scopes db)" for sc
      using inv that by (auto simp: directory_inv_def scope_inv_def)
    then show ?thesis
      by (intro put_scope_inv [OF inv t(1) t(2)]) (force simp: t(3) revs intro: rebuilt_scope_inv)+
  qed
qed

lemma find_update_other:
  "(\<And>x. p x \<Longrightarrow> \<not> q x \<and> \<not> q (f x)) \<Longrightarrow> find q (update_where p f xs) = find q xs"
  by (induction xs) auto

lemma find_append_other: "\<not> q x \<Longrightarrow> find q (xs @ [x]) = find q xs"
  by (induction xs) auto

lemma find_put_scope_other: "sc_key new \<noteq> k \<Longrightarrow> find (\<lambda>sc. sc_key sc = k) (put_scope new scs) = find (\<lambda>sc. sc_key sc = k) scs"
  by (auto simp: put_scope_def intro!: find_update_other find_append_other)

lemma find_put_scope: "find (\<lambda>sc. sc_key sc = sc_key new) (put_scope new scs) = Some new"
proof (cases "list_ex (\<lambda>sc. sc_key sc = sc_key new) scs")
  case True
  then have "find (\<lambda>sc. sc_key sc = sc_key new) (update_where (\<lambda>sc. sc_key sc = sc_key new) (\<lambda>_. new) scs) = Some new"
    by (induction scs) auto
  with True show ?thesis by (simp add: put_scope_def)
next
  case False
  then have "find (\<lambda>sc. sc_key sc = sc_key new) (scs @ [new]) = Some new"
    by (induction scs) auto
  with False show ?thesis by (simp add: put_scope_def)
qed

lemma reconcile_scope_rebuilds:
  assumes "\<not> (case find_scope k start of None \<Rightarrow> False | Some sc \<Rightarrow>
    sc_fingerprint sc = fingerprint sha256 (scope_sources k (bd_queue start)))"
  shows "\<exists>g. bd_scopes (reconcile_scope sha256 now start k db) = put_scope (rebuilt_scope now k g
      (fingerprint sha256 (scope_sources k (bd_queue start))) (scope_sources k (bd_queue start))
      (bd_revisions start (snd k)) (find_scope k start)) (bd_scopes db)"
  using assms unfolding reconcile_scope_def Let_def next_generation_def by (simp only: if_False) auto

lemma reconcile_scope_shape:
  obtains "bd_scopes (reconcile_scope sha256 now start k db) = bd_scopes db"
  | f where "bd_scopes (reconcile_scope sha256 now start k db) = update_where (\<lambda>sc. sc_key sc = k) f (bd_scopes db)"
      "\<And>sc. sc_key (f sc) = sc_key sc"
  | new where "bd_scopes (reconcile_scope sha256 now start k db) = put_scope new (bd_scopes db)" "sc_key new = k"
proof (cases "case find_scope k start of None \<Rightarrow> False | Some sc \<Rightarrow>
    sc_fingerprint sc = fingerprint sha256 (scope_sources k (bd_queue start))")
  case True
  show ?thesis
  proof (cases "sc_sources (the (find_scope k start)) = scope_sources k (bd_queue start)")
    case same: True
    show ?thesis by (rule that(1)) (simp add: reconcile_scope_def True same)
  next
    case False
    show ?thesis
      by (rule that(2) [of "\<lambda>sc. sc\<lparr>sc_sources := scope_sources k (bd_queue start), sc_generation := bd_generation db + 1\<rparr>"])
        (simp_all add: reconcile_scope_def True False)
  qed
next
  case False
  then show ?thesis using that(3) reconcile_scope_rebuilds by fastforce
qed

lemma reconcile_scope_other:
  assumes "k' \<noteq> k"
  shows "find_scope k' (reconcile_scope sha256 now start k db) = find_scope k' db"
proof (cases rule: reconcile_scope_shape [of sha256 now start k db])
  case 1
  then show ?thesis by (simp add: find_scope_def)
next
  case (2 f)
  then show ?thesis using assms find_update_other [of "\<lambda>sc. sc_key sc = k" "\<lambda>sc. sc_key sc = k'" f] by (simp add: find_scope_def)
next
  case (3 new)
  then show ?thesis using assms find_put_scope_other [of new k'] by (simp add: find_scope_def)
qed

lemma reconcile_scope_revisions [simp]: "bd_revisions (reconcile_scope sha256 now start k db) = bd_revisions db"
  by (simp add: reconcile_scope_def Let_def next_generation_def)

lemma reconcile_fold_inv:
  assumes "distinct ks" and "directory_inv db" and "bd_revisions db = bd_revisions start"
    and "bd_generation start \<le> bd_generation db" and "\<And>k. k \<in> set ks \<Longrightarrow> find_scope k db = find_scope k start"
  shows "directory_inv (fold (reconcile_scope sha256 now start) ks db) \<and>
    directory_progress db (fold (reconcile_scope sha256 now start) ks db)"
  using assms
proof (induction ks arbitrary: db)
  case Nil
  then show ?case by (simp add: directory_progress_refl)
next
  case (Cons k ks)
  let ?t = "reconcile_scope sha256 now start k db"
  have t: "directory_inv ?t \<and> directory_progress db ?t"
    using Cons.prems by (intro reconcile_scope_inv) simp_all
  then have "bd_generation start \<le> bd_generation ?t"
    using Cons.prems(4) by (simp add: directory_progress_def)
  moreover have "find_scope k' ?t = find_scope k' start" if "k' \<in> set ks" for k'
    using Cons.prems(1,5) that by (subst reconcile_scope_other) auto
  ultimately have "directory_inv (fold (reconcile_scope sha256 now start) ks ?t) \<and>
      directory_progress ?t (fold (reconcile_scope sha256 now start) ks ?t)"
    using Cons.prems t by (intro Cons.IH) simp_all
  then show ?case using t directory_progress_trans by auto
qed

lemma reconcile_inv:
  assumes "directory_inv s" and "reconcile sha256 now s = Inr t"
  shows "directory_inv t \<and> directory_progress s t"
proof -
  let ?u = "fold (reconcile_scope sha256 now s) (known_scopes s) s"
  have "directory_inv ?u \<and> directory_progress s ?u"
    using assms(1) by (intro reconcile_fold_inv) (simp_all add: known_scopes_def)
  moreover have "directory_state t = directory_state ?u"
    using assms(2) by (auto simp: reconcile_def directory_state_def split: if_splits)
  ultimately show ?thesis
    using directory_same [of t ?u] directory_progress_trans [of s ?u t] by blast
qed

section \<open>Reachable states\<close>

lemma dstep_inv: "dstep sha256 s t \<Longrightarrow> directory_inv s \<Longrightarrow> directory_inv t \<and> directory_progress s t"
proof (induction rule: dstep.induct)
  case (Flush db now callback)
  then show ?case using directory_same [OF flush_keeps] by blast
next
  case (Other db' db)
  then show ?case using directory_same [of db' db] by blast
qed (use invalidate_inv reconcile_inv apply_inv defer_inv in blast)+

interpretation directory: monotone_system directory_init "dstep sha256" directory_inv directory_progress
proof
  show "directory_init s \<Longrightarrow> directory_inv s" for s by (simp add: directory_init_def directory_inv_def)
  show "directory_inv s \<Longrightarrow> dstep sha256 s t \<Longrightarrow> directory_inv t" for s t using dstep_inv by blast
  show "directory_inv s \<Longrightarrow> dstep sha256 s t \<Longrightarrow> directory_progress s t" for s t using dstep_inv by blast
  show "directory_progress s t \<Longrightarrow> directory_progress t u \<Longrightarrow> directory_progress s u" for s t u
    by (rule directory_progress_trans)
qed (rule directory_progress_refl)

text \<open>
  C10. In every reachable state a scope whose directory is not pending has acknowledged its
  latest revision, and that is the latest revision of its realm whenever the realm has one
  on record.
\<close>

theorem directory_acknowledged:
  assumes "reachable directory_init (dstep sha256) db" and "sc \<in> set (bd_scopes db)" and "\<not> sc_pending sc"
  shows "sc_ack sc = sc_revision sc \<and> (\<forall>r. bd_revisions db (snd (sc_key sc)) = Some r \<longrightarrow> sc_ack sc = r)"
  using directory.reachable_inv [OF assms(1)] assms(2,3) by (fastforce simp: directory_inv_def scope_inv_def)

lemma invalidated_generation:
  assumes "cursor_realm (bd_queue db) account = Some realm" and "sc \<in> set (bd_scopes db)" and "snd (sc_key sc) = realm"
  shows "\<exists>sc' \<in> set (bd_scopes (invalidate_directory now account db)).
    sc_key sc' = sc_key sc \<and> sc_generation sc' = bd_generation db + 1"
  using assms by (intro bexI [of _ "reopen_scope now (bd_generation db + 1) sc"])
    (auto simp: invalidate_directory_def next_generation_def Let_def set_update_where reopen_scope_def)

lemma find_scope_unique:
  assumes "directory_inv db" and "sc \<in> set (bd_scopes db)"
  shows "find_scope (sc_key sc) db = Some sc"
proof -
  have "find (\<lambda>s. sc_key s = sc_key sc) scs = Some sc" if "distinct (map sc_key scs)" and "sc \<in> set scs" for scs
    using that by (induction scs) auto
  then show ?thesis using assms unfolding directory_inv_def find_scope_def by blast
qed

lemma stale_generation:
  assumes reach: "reachable directory_init (dstep sha256) s" and row: "row \<in> set (bd_scopes s)"
    and before: "(dstep sha256)\<^sup>*\<^sup>* s u" and realm: "cursor_realm (bd_queue u) account = Some (snd (sc_key row))"
    and after: "(dstep sha256)\<^sup>*\<^sup>* (invalidate_directory now account u) t"
  shows "\<exists>cur. find_scope (sc_key row) t = Some cur \<and> sc_generation row < sc_generation cur"
proof -
  let ?v = "invalidate_directory now account u"
  have su: "directory_progress s u" by (rule directory.reachable_progress [OF reach before])
  then obtain sc where sc: "sc \<in> set (bd_scopes u)" "sc_key sc = sc_key row"
    using row unfolding directory_progress_def by blast
  have u: "reachable directory_init (dstep sha256) u" by (rule reachable_trans [OF reach before])
  have v: "reachable directory_init (dstep sha256) ?v" by (rule reachable_step [OF u dstep.Invalidate])
  have "sc_generation row \<le> bd_generation s"
    using directory.reachable_inv [OF reach] row by (auto simp: directory_inv_def scope_inv_def)
  then have low: "sc_generation row < bd_generation u + 1"
    using su by (auto simp: directory_progress_def)
  obtain sc' where sc': "sc' \<in> set (bd_scopes ?v)" "sc_key sc' = sc_key row" "sc_generation sc' = bd_generation u + 1"
    using invalidated_generation [OF realm sc(1)] sc(2) by auto
  have "directory_progress ?v t" by (rule directory.reachable_progress [OF v after])
  then obtain cur where cur: "cur \<in> set (bd_scopes t)" "sc_key cur = sc_key sc'" "sc_generation sc' \<le> sc_generation cur"
    using sc'(1) unfolding directory_progress_def by blast
  have "directory_inv t" by (rule directory.reachable_inv [OF reachable_trans [OF v after]])
  then have "find_scope (sc_key row) t = Some cur" using find_scope_unique [OF _ cur(1)] cur(2) sc'(2) by simp
  then show ?thesis using cur(3) sc'(3) low by auto
qed

text \<open>
  C9. An invalidation of a realm is never overtaken: a refresh that read a scope of the realm
  before the invalidation neither writes users or batches, nor acknowledges the directory, nor
  records a failure, however the transactions of others interleave with it.
\<close>

theorem stale_refresh_ignored:
  assumes "reachable directory_init (dstep sha256) s" and "row \<in> set (bd_scopes s)"
    and "(dstep sha256)\<^sup>*\<^sup>* s u" and "cursor_realm (bd_queue u) account = Some (snd (sc_key row))"
    and "(dstep sha256)\<^sup>*\<^sup>* (invalidate_directory now account u) t"
  shows "apply_refresh sha256 now' row q t = (False, t) \<and> defer_directory sha256 now' row code t = (False, t)"
proof -
  obtain cur where "find_scope (sc_key row) t = Some cur" and "sc_generation row < sc_generation cur"
    using stale_generation [OF assms] by blast
  then show ?thesis
    by (simp add: apply_refresh_def defer_directory_def defer_current_def refresh_current_def)
qed

section \<open>Reconciling twice\<close>

lemma all_sources_cong:
  assumes "db_desired q = db_desired q'" and "db_cursors q = db_cursors q'"
  shows "all_sources q = all_sources q'"
proof -
  have "assignment_source q = assignment_source q'" by (simp add: fun_eq_iff assignment_source_def assms(2))
  then show ?thesis by (simp add: all_sources_def assms(1))
qed

definition same_configuration :: "queue_db \<Rightarrow> queue_db \<Rightarrow> bool" where
  "same_configuration q q' = (db_desired q = db_desired q' \<and> db_cursors q = db_cursors q')"

lemma reconcile_scope_configuration:
  "same_configuration (bd_queue (reconcile_scope sha256 now start k db)) q = same_configuration (bd_queue db) q"
  by (simp add: reconcile_scope_def Let_def next_generation_def same_configuration_def refresh_sources_def
      discard_capture_def clear_health_def carry_capture_def carry_directory_def)

lemma reconcile_fold_configuration:
  "same_configuration (bd_queue (fold (reconcile_scope sha256 now start) ks db)) q = same_configuration (bd_queue db) q"
  by (induction ks arbitrary: db) (simp_all add: reconcile_scope_configuration)

text \<open>What a processed scope looks like.\<close>

definition settled_scope :: "(string \<Rightarrow> string) \<Rightarrow> queue_db \<Rightarrow> scope_key \<Rightarrow> bridge_db \<Rightarrow> bool" where
  "settled_scope sha256 q k db =
     (\<exists>sc. find_scope k db = Some sc \<and> sc_fingerprint sc = fingerprint sha256 (scope_sources k q) \<and>
        sc_sources sc = scope_sources k q)"

lemma find_update_hit:
  "find q xs = Some x \<Longrightarrow> (\<And>y. q (f y) = q y) \<Longrightarrow> find q (update_where q f xs) = Some (f x)"
  by (induction xs) (auto split: if_splits)

lemma reconcile_scope_settles:
  assumes "find_scope k db = find_scope k start"
  shows "settled_scope sha256 (bd_queue start) k (reconcile_scope sha256 now start k db)"
proof (cases "case find_scope k start of None \<Rightarrow> False | Some sc \<Rightarrow>
    sc_fingerprint sc = fingerprint sha256 (scope_sources k (bd_queue start))")
  case True
  then obtain sc where sc: "find_scope k start = Some sc"
    and fp: "sc_fingerprint sc = fingerprint sha256 (scope_sources k (bd_queue start))"
    by (auto split: option.splits)
  let ?f = "\<lambda>sc. sc\<lparr>sc_sources := scope_sources k (bd_queue start), sc_generation := bd_generation db + 1\<rparr>"
  have "find_scope k (refresh_sources now k (scope_sources k (bd_queue start)) db) = Some (?f sc)"
    using assms sc find_update_hit [of "\<lambda>sc. sc_key sc = k" "bd_scopes db" sc ?f] by (simp add: find_scope_def)
  then show ?thesis using assms sc fp
    by (auto simp: settled_scope_def reconcile_scope_def Let_def)
next
  case False
  let ?rows = "scope_sources k (bd_queue start)"
  obtain g where "bd_scopes (reconcile_scope sha256 now start k db) = put_scope (rebuilt_scope now k g
      (fingerprint sha256 ?rows) ?rows (bd_revisions start (snd k)) (find_scope k start)) (bd_scopes db)"
    using reconcile_scope_rebuilds [OF False] by blast
  then show ?thesis
    using find_put_scope [of "rebuilt_scope now k g (fingerprint sha256 ?rows) ?rows (bd_revisions start (snd k)) (find_scope k start)" "bd_scopes db"]
    by (simp add: settled_scope_def find_scope_def)
qed

lemma reconcile_fold_settles:
  assumes "distinct ks" and "\<And>k. k \<in> set ks \<Longrightarrow> find_scope k db = find_scope k start" and "k \<in> set ks"
  shows "settled_scope sha256 (bd_queue start) k (fold (reconcile_scope sha256 now start) ks db)"
  using assms
proof (induction ks arbitrary: db)
  case (Cons k0 ks)
  let ?t = "reconcile_scope sha256 now start k0 db"
  have later: "find_scope k' ?t = find_scope k' start" if "k' \<in> set ks" for k'
    using Cons.prems(1,2) that by (subst reconcile_scope_other) auto
  have rest: "find_scope k0 (fold (reconcile_scope sha256 now start) ks d) = find_scope k0 d" if "k0 \<notin> set ks" for d
    using that by (induction ks arbitrary: d) (simp_all add: reconcile_scope_other)
  show ?case
  proof (cases "k = k0")
    case True
    have "settled_scope sha256 (bd_queue start) k0 ?t" using Cons.prems(2) by (intro reconcile_scope_settles) simp
    then show ?thesis using Cons.prems(1) rest True by (simp add: settled_scope_def)
  next
    case False
    then show ?thesis using Cons.prems later Cons.IH [of ?t] by simp
  qed
qed simp

lemma keep_batches [simp]:
  "bd_batches (carry_capture now g db) = bd_batches db"
  "bd_batches (carry_directory g db) = bd_batches db"
  "bd_batches (clear_health c db) = bd_batches db"
  "bd_batches (next_generation db) = bd_batches db"
  by (simp_all add: carry_capture_def carry_directory_def clear_health_def next_generation_def)

lemma reset_import_key [simp]: "hb_key (reset_import now b) = hb_key b"
  by (simp add: reset_import_def)

definition batch_keys :: "bridge_db \<Rightarrow> scope_key set" where
  "batch_keys db = hb_key ` set (bd_batches db)"

definition stored_keys :: "bridge_db \<Rightarrow> scope_key set" where
  "stored_keys db = batch_keys db \<union> sc_key ` set (bd_scopes db)"

lemma refresh_sources_batches: "batch_keys (refresh_sources now k rows db) = batch_keys db"
proof -
  have "map hb_key (update_where p (\<lambda>b. (reset_import now b)\<lparr>hb_sources_hash := None\<rparr>) bs) = map hb_key bs" for p bs
    by (rule map_update_where) simp
  then show ?thesis
    by (simp add: batch_keys_def refresh_sources_def Let_def flip: set_map)
qed

lemma reconcile_scope_batches: "batch_keys (reconcile_scope sha256 now start k db) \<subseteq> batch_keys db"
proof -
  have discard: "batch_keys (discard_capture now k rows d) \<subseteq> batch_keys d" for rows d
    by (auto simp: batch_keys_def discard_capture_def)
  have keep: "batch_keys (d\<lparr>bd_scopes := scs\<rparr>) = batch_keys d" "batch_keys (next_generation d) = batch_keys d" for d scs
    by (simp_all add: batch_keys_def)
  show ?thesis
    unfolding reconcile_scope_def Let_def if_distrib [of batch_keys] keep refresh_sources_batches
    using discard [THEN order_trans] by (simp add: if_distrib [of batch_keys] keep)
qed

lemma put_scope_keys: "sc_key ` set (put_scope new scs) \<subseteq> insert (sc_key new) (sc_key ` set scs)"
  by (auto simp: put_scope_def set_update_where split: if_splits)

lemma reconcile_scope_keys: "stored_keys (reconcile_scope sha256 now start k db) \<subseteq> insert k (stored_keys db)"
proof -
  let ?t = "reconcile_scope sha256 now start k db"
  have "sc_key ` set (bd_scopes ?t) \<subseteq> insert k (sc_key ` set (bd_scopes db))"
  proof (cases rule: reconcile_scope_shape [of sha256 now start k db])
    case (2 f)
    then have "map sc_key (bd_scopes ?t) = map sc_key (bd_scopes db)" by (simp add: map_update_where)
    then show ?thesis by (metis order_refl set_map subset_insertI2)
  next
    case (3 new)
    then show ?thesis using put_scope_keys [of new "bd_scopes db"] by simp
  qed auto
  then show ?thesis
    using reconcile_scope_batches [of sha256 now start k db] by (auto simp: stored_keys_def)
qed

lemma reconcile_fold_keys: "stored_keys (fold (reconcile_scope sha256 now start) ks db) \<subseteq> set ks \<union> stored_keys db"
  by (induction ks arbitrary: db) (use reconcile_scope_keys in fastforce)+

lemma set_known_scopes: "set (known_scopes db) = set (source_keys (bd_queue db)) \<union> stored_keys db"
  by (simp add: known_scopes_def stored_keys_def batch_keys_def Un_assoc)

lemma reconcile_settled: "settled_scope sha256 (bd_queue start) k start \<Longrightarrow> reconcile_scope sha256 now start k db = db"
  by (auto simp: settled_scope_def reconcile_scope_def Let_def)

lemma reconcile_fold_settled:
  "(\<And>k. k \<in> set ks \<Longrightarrow> settled_scope sha256 (bd_queue start) k start) \<Longrightarrow>
    fold (reconcile_scope sha256 now start) ks db = db"
  by (induction ks) (simp_all add: reconcile_settled)

lemma same_configuration_reads:
  assumes "same_configuration q q'"
  shows "all_sources q = all_sources q'" and "source_keys q = source_keys q'" and "scope_sources k q = scope_sources k q'"
    and "history_configuration_fingerprint sha256 q = history_configuration_fingerprint sha256 q'"
proof -
  show all: "all_sources q = all_sources q'"
    by (rule all_sources_cong) (use assms in \<open>simp_all add: same_configuration_def\<close>)
  show "source_keys q = source_keys q'" by (simp add: source_keys_def all)
  show "scope_sources k q = scope_sources k q'" by (simp add: scope_sources_def all)
  show "history_configuration_fingerprint sha256 q = history_configuration_fingerprint sha256 q'"
    using assms by (simp add: history_configuration_fingerprint_def same_configuration_def)
qed

text \<open>
  C27. Reconciling the scopes a second time, without a change of the desired state or the
  cursors in between, changes nothing at all: no captured batch is discarded, no job cancelled
  and no generation spent.
\<close>

theorem reconcile_idempotent:
  assumes "reconcile sha256 now db = Inr db'"
  shows "reconcile sha256 now' db' = Inr db'"
proof -
  let ?ks = "known_scopes db" and ?q = "bd_queue db"
  define u where "u = fold (reconcile_scope sha256 now db) ?ks db"
  have ok: "\<not> list_ex (\<lambda>s. so_project s = None) (all_sources ?q)"
    and db': "db' = u\<lparr>bd_fingerprint := Some (history_configuration_fingerprint sha256 ?q)\<rparr>"
    using assms by (auto simp: reconcile_def u_def split: if_splits)
  have "same_configuration (bd_queue u) ?q"
    unfolding u_def reconcile_fold_configuration by (simp add: same_configuration_def)
  note q' = same_configuration_reads [OF this]
  have "stored_keys db' \<subseteq> set ?ks \<union> stored_keys db"
    using reconcile_fold_keys [of sha256 now db ?ks db] by (simp add: db' u_def stored_keys_def batch_keys_def)
  then have ks': "set (known_scopes db') \<subseteq> set ?ks"
    using q'(2) by (auto simp: set_known_scopes db')
  have "settled_scope sha256 (bd_queue db') k db'" if "k \<in> set ?ks" for k
  proof -
    have "settled_scope sha256 ?q k u"
      unfolding u_def using that by (intro reconcile_fold_settles) (simp_all add: known_scopes_def)
    then show ?thesis by (simp add: settled_scope_def q'(3) db' find_scope_def)
  qed
  then have "fold (reconcile_scope sha256 now' db') (known_scopes db') db' = db'"
    using ks' by (intro reconcile_fold_settled) blast
  then show ?thesis
    using ok by (simp add: reconcile_def q'(1,4) db')
qed

section \<open>A sample scope\<close>

text \<open>One account that observes one chat; its scope is created, invalidated and refreshed.\<close>

definition no_operations :: queue_db where
  "no_operations =
     \<lparr>db_operations = [], db_idempotency = Map.empty, db_lanes = Map.empty, db_counters = Map.empty, db_producers = [],
      db_desired = [], db_accounts = Map.empty, db_mappings = [], db_aliases = [], db_cursors = Map.empty,
      db_backfills = [], db_health = Map.empty, db_catalog = Map.empty, db_events = [], db_control_cursor = []\<rparr>"

definition sample_directory :: bridge_db where
  "sample_directory =
     \<lparr>bd_queue = no_operations\<lparr>
        db_desired :=
          [\<lparr>ds_type = ''external_account'', ds_uuid = ''a1'', ds_generation = 4,
            ds_body = VDict [(''synchronization_enabled'', VBool True)], ds_deleted = False\<rparr>,
           \<lparr>ds_type = ''external_chat_assignment'', ds_uuid = ''c1'', ds_generation = 2,
            ds_body = VDict [(''external_account_uuid'', VStr ''a1''), (''project_id'', VStr ''p1''),
              (''history_depth'', VStr ''all''), (''provider_chat'', VDict [(''provider_chat_key'', VStr ''channel:7'')])],
            ds_deleted = False\<rparr>],
        db_cursors := [''a1'' \<mapsto> \<lparr>cu_queue_id = ''q'', cu_last_event_id = 3, cu_realm_uuid = Some ''r1'',
          cu_owner_user_id = Some ''9'', cu_account_generation = Some 4, cu_scanned_generation = None\<rparr>]\<rparr>,
      bd_generation = 1, bd_fingerprint = None, bd_scopes = [], bd_revisions = Map.empty, bd_reports = [],
      bd_batches = [], bd_dispatched = Map.empty, bd_lanes = Map.empty, bd_catchups = [], bd_participants = [],
      bd_participant_sync_at = Map.empty, bd_backfill_at = Map.empty, bd_outbox = [],
      bd_idempotency_at = Map.empty, bd_observed = [], bd_topics = Map.empty\<rparr>"

definition sample_scoped :: bridge_db where
  "sample_scoped = projr (reconcile id 10 sample_directory)"

definition sample_scope :: scope_row where
  "sample_scope = hd (bd_scopes sample_scoped)"

definition sample_invalidated :: bridge_db where
  "sample_invalidated = invalidate_directory 20 ''a1'' sample_scoped"

definition sample_fetched :: bridge_db where
  "sample_fetched = snd (apply_refresh id 30 (hd (bd_scopes sample_invalidated)) (Users [\<lparr>hu_id = 9, hu_name = ''Ada''\<rparr>]) sample_invalidated)"

definition sample_acknowledged :: bridge_db where
  "sample_acknowledged = snd (apply_refresh id 40 (hd (bd_scopes sample_fetched)) Finish sample_fetched)"

lemma sample_reconcile: "reconcile id 10 sample_directory = Inr sample_scoped"
proof -
  have "\<not> isl (reconcile id 10 sample_directory)" by code_simp
  then show ?thesis by (simp add: sample_scoped_def)
qed

lemma sample_scoped_reachable: "reachable directory_init (dstep id) sample_scoped"
proof -
  have "directory_init sample_directory" by (simp add: directory_init_def sample_directory_def)
  then have "reachable directory_init (dstep id) sample_directory" by (rule reachable_init)
  then show ?thesis by (rule reachable_step) (rule dstep.Reconcile [OF sample_reconcile])
qed

lemma sample_acknowledged_reachable: "reachable directory_init (dstep id) sample_acknowledged"
proof -
  have "reachable directory_init (dstep id) sample_invalidated"
    unfolding sample_invalidated_def by (rule reachable_step [OF sample_scoped_reachable]) (rule dstep.Invalidate)
  then have "reachable directory_init (dstep id) sample_fetched"
    unfolding sample_fetched_def by (rule reachable_step) (rule dstep.Apply)
  then show ?thesis
    unfolding sample_acknowledged_def by (rule reachable_step) (rule dstep.Apply)
qed

lemma sample_ack: "map (\<lambda>sc. (sc_pending sc, sc_revision sc)) (bd_scopes sample_acknowledged) = [(False, 3)]"
  by code_simp

theorem directory_acknowledged_witness:
  "\<exists>sc \<in> set (bd_scopes sample_acknowledged). \<not> sc_pending sc \<and> sc_revision sc = 3 \<and> sc_ack sc = 3"
proof -
  obtain sc where sc: "sc \<in> set (bd_scopes sample_acknowledged)" "\<not> sc_pending sc" "sc_revision sc = 3"
    using sample_ack by (cases "bd_scopes sample_acknowledged") auto
  then show ?thesis using directory_acknowledged [OF sample_acknowledged_reachable sc(1,2)] by auto
qed

lemma sample_scope_in: "sample_scope \<in> set (bd_scopes sample_scoped) \<and>
    cursor_realm (bd_queue sample_scoped) ''a1'' = Some (snd (sc_key sample_scope))"
  by code_simp

theorem stale_refresh_ignored_witness:
  "apply_refresh id 30 sample_scope (Users []) sample_invalidated = (False, sample_invalidated) \<and>
   defer_directory id 30 sample_scope DIRECTORY_TIMEOUT sample_invalidated = (False, sample_invalidated)"
  using stale_refresh_ignored [OF sample_scoped_reachable _ rtranclp.rtrancl_refl,
      of sample_scope "''a1''" 20 sample_invalidated 30 "Users []" DIRECTORY_TIMEOUT] sample_scope_in
  by (simp add: sample_invalidated_def)

theorem reconcile_idempotent_witness:
  "bd_scopes sample_scoped = [sample_scope] \<and> reconcile id 50 sample_scoped = Inr sample_scoped"
proof
  show "bd_scopes sample_scoped = [sample_scope]" by code_simp
  show "reconcile id 50 sample_scoped = Inr sample_scoped" by (rule reconcile_idempotent [OF sample_reconcile])
qed

end
