(* ===== verification/Journal_Properties.thy ===== *)
theory Journal_Properties
  imports Queue_Catchup Directory_Properties
begin

text \<open>
  Properties of the event journal: the selector overtakes an earlier event only where the
  lanes allow it, it always offers the oldest event of an open account once that is due, and
  the readiness probe agrees with it.
\<close>

section \<open>The choices of one account\<close>

lemma set_map_filter: "y \<in> set (List.map_filter f xs) \<longleftrightarrow> (\<exists>x \<in> set xs. f x = Some y)"
  by (induction xs) (auto simp: List.map_filter_simps split: option.splits)

lemma lane_eventD:
  assumes "lane_event evs account lane = Some ev"
  shows "ev \<in> set evs" and "je_account_uuid ev = account" and "je_lane ev = lane" and "active ev"
  using first_by_filterD [OF assms [unfolded lane_event_def]] by auto

lemma lane_event_least:
  assumes "lane_event evs account lane = Some ev" and "p \<in> set evs" and "je_account_uuid p = account"
    and "je_lane p = lane" and "active p"
  shows "je_key ev \<le> je_key p"
  using first_by_least [OF assms(1) [unfolded lane_event_def]] assms(2-) by simp

lemma lane_event_found:
  assumes "p \<in> set evs" and "je_account_uuid p = account" and "je_lane p = lane" and "active p"
  shows "\<exists>ev. lane_event evs account lane = Some ev"
proof -
  have "filter (\<lambda>ev. je_account_uuid ev = account \<and> je_lane ev = lane \<and> active ev) evs \<noteq> []"
    using assms by (auto simp: filter_empty_conv)
  then show ?thesis unfolding lane_event_def by (cases "first_by je_key (filter (\<lambda>ev. je_account_uuid ev = account \<and> je_lane ev = lane \<and> active ev) evs)") simp_all
qed

lemma lane_choicesD:
  assumes "ev \<in> set (lane_choices now evs account)"
  shows "je_account_uuid ev = account" and "due now ev" and "\<not> behind_barrier evs ev"
    and "\<exists>lane. je_lane ev = Some lane \<and> lane_event evs account (Some lane) = Some ev"
proof -
  obtain lane where lane: "lane_event evs account (Some lane) = Some ev" and rest: "due now ev" "\<not> behind_barrier evs ev"
    using assms by (auto simp: lane_choices_def set_map_filter)
  show "je_account_uuid ev = account" by (rule lane_eventD(2) [OF lane])
  show "due now ev" "\<not> behind_barrier evs ev" by (rule rest)+
  show "\<exists>lane. je_lane ev = Some lane \<and> lane_event evs account (Some lane) = Some ev"
    using lane lane_eventD(3) [OF lane] by blast
qed

lemma barrier_choicesD:
  assumes "ev \<in> set (barrier_choices now evs account)"
  shows "lane_event evs account None = Some ev" and "due now ev" and "\<not> list_ex (holds_barrier ev) evs"
  using assms by (auto simp: barrier_choices_def split: option.splits if_splits)

lemma set_account_choices:
  "set (account_choices now db u) =
    set (lane_choices now (db_events (bd_queue db)) u) \<union> set (barrier_choices now (db_events (bd_queue db)) u)"
  by (simp add: account_choices_def)

lemma sort_key_empty [simp]: "sort_key f xs = [] \<longleftrightarrow> xs = []"
  by (metis length_0_conv length_sort)

lemma account_choices_empty:
  "account_choices now db u = [] \<longleftrightarrow>
    lane_choices now (db_events (bd_queue db)) u = [] \<and> barrier_choices now (db_events (bd_queue db)) u = []"
  by (simp add: account_choices_def)

lemma selectedD:
  assumes "ev \<in> set (fst (pending_provider_events now clock locked limit db))"
  obtains u where "u \<in> set (journal_accounts (bd_queue db))" and "journal_open now (bd_queue db) u"
    and "u \<notin> set locked" and "ev \<in> set (account_choices now db u)"
  using assms by (auto simp: pending_provider_events_def select_events_def Let_def dest!: in_set_takeD)

lemma barrier_kept:
  assumes "ev \<in> set (barrier_choices now evs u)" and "p \<in> set evs" and "je_account_uuid p = u" and "active p"
    and "je_key p < je_key ev"
  shows "je_lane ev = None \<and> je_lane p \<noteq> None \<and> je_state p = ''delivering'' \<and> je_type ev = ''update_message_flags'' \<and>
    je_type p \<noteq> ''delete_message'' \<and> \<not> moves_messages p"
proof -
  note e = barrier_choicesD [OF assms(1)]
  have "je_lane p \<noteq> None" using lane_event_least [OF e(1) assms(2,3) _ assms(4)] assms(5) by (meson leD)
  moreover have "\<not> holds_barrier ev p" using e(3) assms(2) by (auto simp: list_ex_iff)
  moreover have "je_state p = ''pending'' \<or> je_state p = ''delivering''" using assms(4) by (auto simp: active_def)
  ultimately show ?thesis
    using assms(3-5) lane_eventD [OF e(1)] by (auto simp: holds_barrier_def)
qed

lemma lane_kept:
  assumes "ev \<in> set (lane_choices now evs u)" and "p \<in> set evs" and "je_account_uuid p = u" and "active p"
    and "je_key p < je_key ev"
  shows "je_lane ev \<noteq> None \<and> je_lane p \<noteq> None \<and> je_lane p \<noteq> je_lane ev"
proof -
  note e = lane_choicesD [OF assms(1)]
  obtain lane where lane: "je_lane ev = Some lane" "lane_event evs u (Some lane) = Some ev" using e(4) by blast
  have "je_lane p \<noteq> Some lane" using lane_event_least [OF lane(2) assms(2,3) _ assms(4)] assms(5) by (meson leD)
  moreover have "je_lane p \<noteq> None" using e(1,3) assms(2-5) by (auto simp: behind_barrier_def list_ex_iff)
  ultimately show ?thesis using lane(1) by simp
qed

text \<open>
  C7. An event that the selector offers overtakes an earlier unfinished event of its account
  only in two cases: both belong to chat lanes, and to different ones; or the offered one
  changes message flags for several chats and the earlier one is already being delivered and
  neither deletes nor moves messages.
\<close>

theorem journal_order:
  assumes "ev \<in> set (fst (pending_provider_events now clock locked limit db))"
    and "p \<in> set (db_events (bd_queue db))" and "je_account_uuid p = je_account_uuid ev" and "active p"
    and "je_key p < je_key ev"
  shows "(je_lane ev \<noteq> None \<and> je_lane p \<noteq> None \<and> je_lane p \<noteq> je_lane ev) \<or>
    (je_lane ev = None \<and> je_lane p \<noteq> None \<and> je_state p = ''delivering'' \<and> je_type ev = ''update_message_flags'' \<and>
     je_type p \<noteq> ''delete_message'' \<and> \<not> moves_messages p)"
proof (rule selectedD [OF assms(1)])
  fix u assume u: "ev \<in> set (account_choices now db u)"
  then consider "ev \<in> set (lane_choices now (db_events (bd_queue db)) u)"
    | "ev \<in> set (barrier_choices now (db_events (bd_queue db)) u)"
    by (auto simp: set_account_choices)
  then show ?thesis
  proof cases
    case 1
    then show ?thesis using lane_kept [OF 1 assms(2) _ assms(4,5)] lane_choicesD(1) [OF 1] assms(3) by simp
  next
    case 2
    then show ?thesis
      using barrier_kept [OF 2 assms(2) _ assms(4,5)] lane_eventD(2) [OF barrier_choicesD(1) [OF 2]] assms(3) by simp
  qed
qed

section \<open>Progress\<close>

lemma oldest_chosen:
  assumes ev: "ev \<in> set evs" "je_account_uuid ev = u" "due now ev"
    and oldest: "\<And>p. p \<in> set evs \<Longrightarrow> je_account_uuid p = u \<Longrightarrow> active p \<Longrightarrow> p \<noteq> ev \<Longrightarrow> je_key ev < je_key p"
  shows "ev \<in> set (lane_choices now evs u) \<union> set (barrier_choices now evs u)"
proof -
  have act: "active ev" using ev(3) by (simp add: active_def due_def)
  obtain e where e: "lane_event evs u (je_lane ev) = Some e"
    using lane_event_found [OF ev(1,2) refl act] by blast
  have "je_key e \<le> je_key ev" by (rule lane_event_least [OF e ev(1,2) refl act])
  then have own: "lane_event evs u (je_lane ev) = Some ev"
    using e oldest [OF lane_eventD(1,2,4) [OF e]] by fastforce
  have none_before: "\<not> (p \<in> set evs \<and> je_account_uuid p = u \<and> active p \<and> je_key p < je_key ev)" for p
    using oldest [of p] by (metis less_imp_not_less order_less_irrefl)
  show ?thesis
  proof (cases "je_lane ev")
    case None
    have "\<not> list_ex (holds_barrier ev) evs"
      using none_before ev(2) by (auto simp: list_ex_iff holds_barrier_def)
    then show ?thesis using own None ev(3) by (simp add: barrier_choices_def)
  next
    case (Some lane)
    have "\<not> behind_barrier evs ev" using none_before ev(2) by (auto simp: list_ex_iff behind_barrier_def)
    moreover have "lane \<in> set (active_lanes evs u)"
      using ev(1,2) act Some by (auto simp: active_lanes_def set_map_filter intro!: bexI [of _ ev])
    ultimately show ?thesis using own Some ev(3) by (auto simp: lane_choices_def set_map_filter)
  qed
qed

lemma selected_nonempty:
  assumes "0 < limit"
  shows "fst (pending_provider_events now clock locked limit db) \<noteq> [] \<longleftrightarrow>
    (\<exists>u \<in> set (journal_accounts (bd_queue db)). journal_open now (bd_queue db) u \<and> u \<notin> set locked \<and>
      account_choices now db u \<noteq> [])"
proof -
  let ?us = "filter (\<lambda>u. journal_open now (bd_queue db) u \<and> u \<notin> set locked) (journal_accounts (bd_queue db))"
  have "fst (pending_provider_events now clock locked limit db) \<noteq> [] \<longleftrightarrow>
      (\<exists>u \<in> set ?us. take (per_account_limit limit) (account_choices now db u) \<noteq> [])"
    using assms by (auto simp: pending_provider_events_def select_events_def Let_def)
  then show ?thesis by (auto simp: per_account_limit_def)
qed

text \<open>
  C8. The journal cannot lock itself up: whenever the oldest unfinished event of an account
  is due, the journal of the account is open and no other worker holds it, the selector
  offers work and the readiness probe says so, whatever the lanes and barriers.
\<close>

theorem journal_progress:
  assumes "ev \<in> set (db_events (bd_queue db))" and "je_account_uuid ev = u" and "due now ev"
    and "\<And>p. p \<in> set (db_events (bd_queue db)) \<Longrightarrow> je_account_uuid p = u \<Longrightarrow> active p \<Longrightarrow> p \<noteq> ev \<Longrightarrow> je_key ev < je_key p"
    and "db_accounts (bd_queue db) u \<noteq> None" and "journal_open now (bd_queue db) u" and "u \<notin> set locked" and "0 < limit"
  shows "fst (pending_provider_events now clock locked limit db) \<noteq> [] \<and> has_pending_provider_events now db"
proof -
  have u: "u \<in> set (journal_accounts (bd_queue db))" using assms(1,2,5) by (auto simp: journal_accounts_def)
  have "ev \<in> set (account_choices now db u)"
    unfolding set_account_choices using oldest_chosen [OF assms(1-3) assms(4)] by blast
  then have choices: "account_choices now db u \<noteq> []" by auto
  have "fst (pending_provider_events now clock locked limit db) \<noteq> []"
    using u assms(6,7) choices by (subst selected_nonempty [OF assms(8)]) blast
  moreover have "has_pending_provider_events now db"
    using u assms(6) choices by (auto simp: has_pending_provider_events_def Let_def list_ex_iff account_choices_empty)
  ultimately show ?thesis ..
qed

text \<open>
  C26. The readiness probe is in lockstep with the selector: it answers true exactly when the
  selector, unhindered by other workers, would offer an event, or an event that is being
  delivered still has an unfinished delivery.
\<close>

theorem readiness_probe_lockstep:
  assumes "0 < limit"
  shows "has_pending_provider_events now db \<longleftrightarrow>
    fst (pending_provider_events now clock [] limit db) \<noteq> [] \<or>
    (\<exists>ev \<in> set (db_events (bd_queue db)). db_accounts (bd_queue db) (je_account_uuid ev) \<noteq> None \<and>
      je_state ev = ''delivering'' \<and> outstanding_delivery db ev)"
proof -
  let ?own = "\<lambda>u ev. je_account_uuid ev = u \<and> je_state ev = ''delivering'' \<and> outstanding_delivery db ev"
  have "has_pending_provider_events now db \<longleftrightarrow>
      (\<exists>u \<in> set (journal_accounts (bd_queue db)). journal_open now (bd_queue db) u \<and> account_choices now db u \<noteq> []) \<or>
      (\<exists>u \<in> set (journal_accounts (bd_queue db)). \<exists>ev \<in> set (db_events (bd_queue db)). ?own u ev)"
    by (auto simp: has_pending_provider_events_def Let_def list_ex_iff account_choices_empty)
  moreover have "(\<exists>u \<in> set (journal_accounts (bd_queue db)). \<exists>ev \<in> set (db_events (bd_queue db)). ?own u ev) \<longleftrightarrow>
      (\<exists>ev \<in> set (db_events (bd_queue db)). db_accounts (bd_queue db) (je_account_uuid ev) \<noteq> None \<and>
        je_state ev = ''delivering'' \<and> outstanding_delivery db ev)"
    by (fastforce simp: journal_accounts_def)
  moreover have "fst (pending_provider_events now clock [] limit db) \<noteq> [] \<longleftrightarrow>
      (\<exists>u \<in> set (journal_accounts (bd_queue db)). journal_open now (bd_queue db) u \<and> account_choices now db u \<noteq> [])"
    by (simp add: selected_nonempty [OF assms])
  ultimately show ?thesis by argo
qed

section \<open>A sample journal\<close>

text \<open>A message of one chat that waits for its retry, and a later message of another chat.\<close>

definition waiting_event :: event_row where
  "waiting_event = (new_event 5 ''a1'' ''q'' 1 ''message'' [] (Some ''channel:7''))\<lparr>je_available_at := 90\<rparr>"

definition ready_event :: event_row where
  "ready_event = new_event 6 ''a1'' ''q'' 2 ''message'' [] (Some ''channel:8'')"

definition sample_journal :: bridge_db where
  "sample_journal = on_queue (\<lambda>q. q\<lparr>db_events := [waiting_event, ready_event], db_accounts := [''a1'' \<mapsto> new_account]\<rparr>)
     sample_directory"

lemma sample_journal_simps:
  "db_events (bd_queue sample_journal) = [waiting_event, ready_event]"
  "db_accounts (bd_queue sample_journal) ''a1'' = Some new_account"
  by (simp_all add: sample_journal_def)

lemma sample_selected: "fst (pending_provider_events 20 21 [] 8 sample_journal) = [ready_event]"
  by code_simp

lemma sample_later: "je_account_uuid waiting_event = je_account_uuid ready_event \<and> active waiting_event \<and>
    je_key waiting_event < je_key ready_event"
  by code_simp

theorem journal_order_witness:
  "fst (pending_provider_events 20 21 [] 8 sample_journal) = [ready_event] \<and> je_key waiting_event < je_key ready_event \<and>
   je_lane waiting_event \<noteq> je_lane ready_event"
  using journal_order [of ready_event 20 21 "[]" 8 sample_journal waiting_event] sample_later
  by (auto simp: sample_selected sample_journal_simps)

theorem journal_progress_witness:
  "fst (pending_provider_events 95 96 [] 8 sample_journal) \<noteq> [] \<and> has_pending_provider_events 95 sample_journal"
proof (rule journal_progress [of waiting_event _ "''a1''"])
  show "due 95 waiting_event" by code_simp
  show "journal_open 95 (bd_queue sample_journal) ''a1''" by code_simp
  show "je_key waiting_event < je_key p" if "p \<in> set (db_events (bd_queue sample_journal))" "p \<noteq> waiting_event" for p
    using that sample_later by (auto simp: sample_journal_simps)
qed (simp_all add: sample_journal_simps waiting_event_def new_event_def)

theorem readiness_probe_lockstep_witness:
  "has_pending_provider_events 20 sample_journal \<and> fst (pending_provider_events 20 21 [] 8 sample_journal) \<noteq> []"
  using readiness_probe_lockstep [of 8 20 sample_journal 21] by (simp add: sample_selected)

end
