(* ===== verification/Catchup_Properties.thy ===== *)
theory Catchup_Properties
  imports Journal_Properties
begin

text \<open>
  The pages of a catch-up job cover the history down to the checkpoint, so that the deletions
  it sends are those of messages that the provider no longer has.
\<close>

section \<open>Numbers of messages\<close>

lemma decimal_char: "CHR ''0'' \<le> c \<Longrightarrow> c \<le> CHR ''9'' \<Longrightarrow> \<not> is_space c \<and> c \<noteq> CHR ''-'' \<and> c \<noteq> CHR ''+''"
  by (auto simp: is_space_def Let_def less_eq_char_def)

lemma numeric_int_of:
  assumes "s \<noteq> []" and "numeric_id s = Some i"
  shows "int_of (VStr s) = Inr i"
proof -
  have digits: "\<forall>c \<in> set s. CHR ''0'' \<le> c \<and> c \<le> CHR ''9''" and i: "map_option int (unsigned_int 10 s) = Some i"
    using assms(2) by (auto simp: numeric_id_def fixed_digits_def list_all_iff split: if_splits)
  obtain c cs where s: "s = c # cs" using assms(1) by (cases s) auto
  have c: "c \<noteq> CHR ''-''" "c \<noteq> CHR ''+''" using digits decimal_char [of c] s by auto
  have strip: "strip s = s"
    by (rule strip_by_id) (use digits decimal_char assms(1) in auto)
  have "py_int 10 s = Some i" unfolding py_int_def strip using s c i by simp
  then show ?thesis by (simp add: int_of_def Let_def)
qed

lemma mapE_VStr_ids:
  assumes "mapE (int_of \<circ> VStr \<circ> mp_provider_id) ms = Inr ids"
  shows "i \<in> set ids \<longleftrightarrow> (\<exists>m \<in> set ms. int_of (VStr (mp_provider_id m)) = Inr i)"
  using assms unfolding mapE_Inr_iff by (induction rule: list_all2_induct) auto

lemma mapped_messages_iff:
  assumes "mapped_provider_messages account chat c db = Inr known"
  shows "m \<in> set known \<longleftrightarrow>
    m \<in> set (chat_messages account chat db) \<and> (\<exists>i. bigint_id (mp_provider_id m) = Inr (Some i) \<and> c \<le> i)"
proof -
  obtain rows where rows: "mapE (\<lambda>m. bindE (bigint_id (mp_provider_id m)) (\<lambda>i. Inr (m, i))) (chat_messages account chat db) = Inr rows"
    and "Inr (map fst (sort_key (\<lambda>(m, i). - the i) (filter (\<lambda>(m, i). case i of None \<Rightarrow> False | Some n \<Rightarrow> c \<le> n) rows)))
      = (Inr known :: mapping_row list result)"
    using assms unfolding mapped_provider_messages_def bindE_eq_Inr by blast
  then have known: "m \<in> set known \<longleftrightarrow> (\<exists>n. (m, Some n) \<in> set rows \<and> c \<le> n)"
    by (force split: option.splits)
  have "(m, i) \<in> set rows \<longleftrightarrow> m \<in> set (chat_messages account chat db) \<and> bigint_id (mp_provider_id m) = Inr i" for m i
    using rows [unfolded mapE_Inr_iff] by (induction rule: list_all2_induct) (auto simp: bindE_eq_Inr)
  then show ?thesis unfolding known by blast
qed

lemma bigint_int_of: "bigint_id s = Inr (Some i) \<Longrightarrow> int_of (VStr s) = Inr i"
  by (auto simp: bigint_id_def numeric_int_of split: if_splits option.splits)

section \<open>Pages\<close>

text \<open>
  What the history endpoint promises: a page holds the newest messages at or below the anchor,
  and all of them unless it is full.
\<close>

definition at_most :: "int option \<Rightarrow> int \<Rightarrow> bool" where
  "at_most anchor i = (case anchor of None \<Rightarrow> True | Some a \<Rightarrow> i \<le> a)"

definition history_page :: "int set \<Rightarrow> int option \<Rightarrow> int list \<Rightarrow> bool" where
  "history_page H anchor ids =
     (set ids \<subseteq> {i \<in> H. at_most anchor i} \<and>
      (\<forall>i \<in> H. at_most anchor i \<and> i \<notin> set ids \<longrightarrow> HISTORY_PAGE_SIZE \<le> length ids \<and> (\<forall>j \<in> set ids. i < j)))"

text \<open>The rows of a job: it starts fresh, and every page that does not end it advances it.\<close>

inductive catchup_job :: "int set \<Rightarrow> timestamp \<Rightarrow> uuid \<Rightarrow> string \<Rightarrow> int option \<Rightarrow> catchup_row \<Rightarrow> bool"
  for H now account chat point where
  Fresh: "catchup_job H now account chat point (fresh_catchup now account chat point)"
| Page: "catchup_job H now account chat point job \<Longrightarrow> history_page H (ct_next_anchor job) ids \<Longrightarrow>
    \<not> page_completes point ids \<Longrightarrow>
    catchup_job H now account chat point (advance_row now' (sort (remdups ids)) (following_anchor ids) False None job)"

definition covers :: "int set \<Rightarrow> catchup_row \<Rightarrow> bool" where
  "covers H job = (set (ct_seen job) \<subseteq> H \<and> (\<forall>i \<in> H. \<not> at_most (ct_next_anchor job) i \<longrightarrow> i \<in> set (ct_seen job)))"

lemma page_covers:
  assumes "covers H job" and "history_page H (ct_next_anchor job) ids" and "\<not> page_completes point ids"
  shows "covers H (advance_row now' (sort (remdups ids)) (following_anchor ids) False None job)"
proof -
  have full: "ids \<noteq> []" using assms(3) by (auto simp: page_completes_def HISTORY_PAGE_SIZE_def)
  have "i \<in> set (ct_seen job) \<union> set ids" if "i \<in> H" "x \<in> set ids" "x \<le> i" for i x
  proof (rule ccontr)
    assume new: "i \<notin> set (ct_seen job) \<union> set ids"
    then have "at_most (ct_next_anchor job) i" using assms(1) that(1) by (auto simp: covers_def)
    then have "\<forall>j \<in> set ids. i < j" using assms(2) that(1) new by (auto simp: history_page_def)
    then show False using that(2,3) by fastforce
  qed
  moreover have "set (ct_seen job) \<union> set ids \<subseteq> H" using assms(1,2) by (auto simp: covers_def history_page_def)
  ultimately show ?thesis
    using full by (auto simp: covers_def advance_row_def following_anchor_def at_most_def not_less)
qed

lemma job_covers: "catchup_job H now account chat point job \<Longrightarrow> covers H job"
proof (induction rule: catchup_job.induct)
  case Fresh
  then show ?case by (simp add: covers_def fresh_catchup_def at_most_def)
next
  case (Page job ids now')
  then show ?case by (intro page_covers)
qed

lemma last_page_covers:
  assumes "covers H job" and "history_page H (ct_next_anchor job) ids" and "page_completes (Some c) ids"
    and "i \<in> H" and "c \<le> i"
  shows "i \<in> set (ct_seen job @ ids)"
proof (rule ccontr)
  assume new: "i \<notin> set (ct_seen job @ ids)"
  then have "at_most (ct_next_anchor job) i" using assms(1,4) by (auto simp: covers_def)
  then have "HISTORY_PAGE_SIZE \<le> length ids" and older: "\<forall>j \<in> set ids. i < j"
    using assms(2,4) new by (auto simp: history_page_def)
  then obtain j where "j \<in> set ids" "j \<le> c" using assms(3) by (auto simp: page_completes_def list_ex_iff)
  then show False using older assms(5) by fastforce
qed


section \<open>A sample job\<close>

definition sample_message_row :: "string \<Rightarrow> mapping_row" where
  "sample_message_row pid = new_mapping ''a1'' ''message'' (''w'' @ pid) pid None [(''chat_key'', VStr ''channel:7'')]"

definition sample_known :: queue_db where
  "sample_known = no_operations\<lparr>db_mappings := map sample_message_row [''10'', ''11'', ''12'']\<rparr>"

lemma sample_vanished:
  "vanished ''a1'' ''channel:7'' (Some 10) (ct_seen (fresh_catchup 1 ''a1'' ''channel:7'' (Some 10)) @ [13, 12, 10]) sample_known = Inr [11]"
  by code_simp


end
