(* ===== verification/Fair_Rotation.thy ===== *)
theory Fair_Rotation
  imports Queue_Tables
begin

text \<open>
  Fair selection of accounts. A claim serves the eligible account that was served least
  recently and notes the instant; an account that stays eligible is then served after every
  other account was served at most once. The claims of participant rows and of history jobs
  are both of this form.
\<close>

locale rotation =
  fixes eligible :: "('t::linorder) \<Rightarrow> 'l \<Rightarrow> 'db \<Rightarrow> uuid \<Rightarrow> bool"
    and served_at :: "'db \<Rightarrow> uuid \<Rightarrow> 't option"
    and pick :: "'t \<Rightarrow> 'l \<Rightarrow> 'db \<Rightarrow> uuid option"
  assumes pick_eligible: "pick now locked db = Some u \<Longrightarrow> eligible now locked db u"
    and pick_some: "eligible now locked db u \<Longrightarrow> pick now locked db \<noteq> None"
    and pick_oldest: "pick now locked db = Some u \<Longrightarrow> eligible now locked db v \<Longrightarrow> served_at db u \<le> served_at db v"
begin

text \<open>A run of \<open>n\<close> claims: each notes its instant, and nothing else touches the notes.\<close>

definition claims :: "nat \<Rightarrow> (nat \<Rightarrow> 't) \<Rightarrow> (nat \<Rightarrow> 'l) \<Rightarrow> (nat \<Rightarrow> 'db) \<Rightarrow> bool" where
  "claims n time locked dbs =
     ((\<forall>i j. i < j \<longrightarrow> j < n \<longrightarrow> time i < time j) \<and>
      (\<forall>i < n. served_at (dbs (Suc i)) =
         (case pick (time i) (locked i) (dbs i) of None \<Rightarrow> served_at (dbs i) | Some u \<Rightarrow> (served_at (dbs i))(u \<mapsto> time i))))"

lemma served_step:
  assumes "claims n time locked dbs" and "i < n"
  shows "served_at (dbs (Suc i)) v = (if pick (time i) (locked i) (dbs i) = Some v then Some (time i) else served_at (dbs i) v)"
  using assms by (auto simp: claims_def split: option.splits)

lemma served_unchanged:
  assumes "claims n time locked dbs" and "\<forall>i < n. pick (time i) (locked i) (dbs i) \<noteq> Some v" and "j \<le> n"
  shows "served_at (dbs j) v = served_at (dbs 0) v"
  using assms(3) by (induction j) (use served_step [OF assms(1)] assms(2) in auto)

lemma served_recently:
  assumes "claims n time locked dbs" and "pick (time i) (locked i) (dbs i) = Some u" and "i < j" and "j \<le> n"
  shows "Some (time i) \<le> served_at (dbs j) u"
  using assms(3,4)
proof (induction j)
  case 0
  then show ?case by simp
next
  case (Suc j)
  show ?case
  proof (cases "i = j")
    case True
    then show ?thesis using served_step [OF assms(1)] Suc.prems assms(2) by simp
  next
    case False
    then have "Some (time i) \<le> served_at (dbs j) u" "time i < time j"
      using Suc assms(1) by (auto simp: claims_def)
    then show ?thesis using served_step [OF assms(1), of j u] Suc.prems by auto
  qed
qed

lemma others_served_once:
  assumes "claims n time locked dbs" and "\<forall>i < n. eligible (time i) (locked i) (dbs i) v"
    and "\<forall>i < n. pick (time i) (locked i) (dbs i) \<noteq> Some v"
    and "served_at (dbs 0) v < Some (time 0)"
  shows "inj_on (\<lambda>i. pick (time i) (locked i) (dbs i)) {..<n}"
proof -
  have "False" if "i < j" "j < n" and same: "pick (time i) (locked i) (dbs i) = pick (time j) (locked j) (dbs j)" for i j
  proof -
    have "i < n" using that by simp
    then obtain u where u: "pick (time i) (locked i) (dbs i) = Some u"
      using pick_some [of "time i" "locked i" "dbs i" v] assms(2) by auto
    have "Some (time i) \<le> served_at (dbs j) u"
      using served_recently [OF assms(1) u] that by simp
    also have "\<dots> \<le> served_at (dbs j) v"
      using pick_oldest [of "time j" "locked j" "dbs j" u v] u same assms(2) that(2) by simp
    also have "\<dots> = served_at (dbs 0) v"
      by (rule served_unchanged [OF assms(1,3)]) (use that(2) in simp)
    also have "\<dots> < Some (time 0)" by (rule assms(4))
    finally have "time i < time 0" by simp
    moreover have "time 0 \<le> time i" using assms(1) \<open>i < n\<close> by (cases i) (auto simp: claims_def less_imp_le)
    ultimately show False by simp
  qed
  then show ?thesis
    by (intro inj_onI) (metis lessThan_iff nat_neq_iff)
qed

text \<open>With \<open>n\<close> accounts that can be eligible at all, each is served within \<open>n\<close> claims.\<close>

lemma served_within:
  assumes "claims n time locked dbs" and "\<forall>i < n. eligible (time i) (locked i) (dbs i) v"
    and "served_at (dbs 0) v < Some (time 0)"
    and "finite A" and "card A \<le> n" and "0 < n"
    and "\<forall>i < n. \<forall>u. eligible (time i) (locked i) (dbs i) u \<longrightarrow> u \<in> A"
  shows "\<exists>i < n. pick (time i) (locked i) (dbs i) = Some v"
proof (rule ccontr)
  let ?p = "\<lambda>i. pick (time i) (locked i) (dbs i)"
  assume "\<not> ?thesis"
  then have none: "\<forall>i < n. ?p i \<noteq> Some v" by simp
  have "?p i \<in> Some ` (A - {v})" if i: "i < n" for i
  proof -
    obtain u where u: "?p i = Some u"
      using pick_some [of "time i" "locked i" "dbs i" v] assms(2) i by auto
    then have "u \<in> A" "u \<noteq> v" using pick_eligible [OF u] none assms(7) i by auto
    with u show ?thesis by simp
  qed
  then have "?p ` {..<n} \<subseteq> Some ` (A - {v})" by auto
  then have "card (?p ` {..<n}) \<le> card (Some ` (A - {v}))"
    using assms(4) by (simp add: card_mono)
  also have "\<dots> = card (A - {v})" by (simp add: card_image)
  also have "\<dots> < card A"
    using assms(2,4,6,7) by (intro psubset_card_mono) auto
  finally show False
    using others_served_once [OF assms(1,2) none assms(3)] assms(5) by (simp add: card_image)
qed

end

text \<open>Least by a key that starts with the instant of the last service.\<close>

lemma first_by_rotation:
  assumes "first_by (\<lambda>u. (stamp u, rest u)) (filter p xs) = Some u" and "p v" and "v \<in> set xs"
  shows "stamp u \<le> stamp v"
  using first_by_least [OF assms(1), of v] assms(2,3) by (auto simp: less_eq_prod_def)

end
