(* ===== verification/Participant_Sync.thy ===== *)
theory Participant_Sync
  imports Queue_Catchup Fair_Rotation
begin

text \<open>
  The synchronisation of chat participants (\<open>storage.py\<close>, \<open>refresh_selected_participants_once\<close>
  of \<open>service.py\<close>): every selected chat has a row that a worker claims under a lease, reads the
  subscribers of the channel for, and completes when the projection shows the same users.
  Members of stored bodies that the code casts to \<open>uuid\<close> are canonical texts.
\<close>

section \<open>Rows follow the assignments\<close>

definition PARTICIPANT_RECHECK_INTERVAL_SECONDS :: int where
  "PARTICIPANT_RECHECK_INTERVAL_SECONDS = 3600"

definition selected_assignments :: "queue_db \<Rightarrow> desired_row list" where
  "selected_assignments db =
     filter (\<lambda>d. ds_type d = ''external_chat_assignment'' \<and> \<not> ds_deleted d \<and> selected_default d) (db_desired db)"

definition is_channel :: "desired_row \<Rightarrow> bool" where
  "is_channel d = (json_text (json_field (json_field (ds_body d) ''provider_chat'') ''chat_type'') = Some ''channel'')"

text \<open>\<open>ORDER BY account_uuid, provider_chat_key\<close>, where NULL comes last.\<close>

definition chat_order :: "desired_row \<Rightarrow> (bool \<times> string option) \<times> (bool \<times> string option)" where
  "chat_order d =
     (let account = body_text d ''external_account_uuid''; chat = body_chat_key d
      in ((account = None, account), (chat = None, chat)))"

definition expired_lease :: "timestamp \<Rightarrow> timestamp option \<Rightarrow> bool" where
  "expired_lease now lease = (case lease of None \<Rightarrow> False | Some t \<Rightarrow> t < now)"

definition reap_expired_history_leases :: "timestamp \<Rightarrow> bridge_db \<Rightarrow> nat \<times> bridge_db" where
  "reap_expired_history_leases now db =
     (let p = (\<lambda>r. ps_state r = ''running'' \<and> expired_lease now (ps_lease_until r));
          b = (\<lambda>r. bf_state r = ''running'' \<and> expired_lease now (bf_lease_until r)) in
      (length (filter p (bd_participants db)) + length (filter b (db_backfills (bd_queue db))),
       on_queue (\<lambda>q. q\<lparr>db_backfills := update_where b
           (\<lambda>r. r\<lparr>bf_state := ''pending'', bf_lease_until := None, bf_updated_at := now\<rparr>) (db_backfills q)\<rparr>)
         (db\<lparr>bd_participants := update_where p
            (\<lambda>r. r\<lparr>ps_state := ''pending'', ps_lease_until := None, ps_updated_at := now\<rparr>) (bd_participants db)\<rparr>)))"

text \<open>Every synchronised account gets a breaker of its current generation.\<close>

definition schedule_account :: "desired_row \<Rightarrow> queue_db \<Rightarrow> queue_db" where
  "schedule_account d db =
     (let s = db_accounts db (ds_uuid d) in
      if (case s of None \<Rightarrow> True | Some r \<Rightarrow> sa_generation r \<noteq> Some (ds_generation d))
      then db\<lparr>db_accounts := (db_accounts db)(ds_uuid d \<mapsto>
             fresh_breaker (ds_generation d) (case s of None \<Rightarrow> 0 | Some r \<Rightarrow> sa_projection_reset r) s)\<rparr>
      else db)"

definition schedule_accounts :: "queue_db \<Rightarrow> queue_db" where
  "schedule_accounts db =
     fold schedule_account (filter (\<lambda>d. ds_type d = ''external_account'' \<and> \<not> ds_deleted d \<and>
        body_flag (ds_body d) ''synchronization_enabled'') (db_desired db)) db"

definition new_participant :: "timestamp \<Rightarrow> desired_row \<Rightarrow> participant_row result" where
  "new_participant now d =
     (case (body_text d ''external_account_uuid'', body_chat_key d) of
        (Some account, Some chat) \<Rightarrow>
          Inr \<lparr>ps_account_uuid = account, ps_chat_key = chat, ps_generation = ds_generation d,
               ps_state = (if is_channel d then ''pending'' else ''ready''), ps_lease_until = None, ps_user_ids = [],
               ps_updated_at = now\<rparr>
      | _ \<Rightarrow> Inl (DatabaseErr ''not_null_violation''))"

definition same_participant :: "participant_row \<Rightarrow> participant_row \<Rightarrow> bool" where
  "same_participant p p' = (ps_account_uuid p' = ps_account_uuid p \<and> ps_chat_key p' = ps_chat_key p)"

text \<open>The assignments of \<open>ON CONFLICT DO UPDATE\<close>; each reads the row before the update.\<close>

definition renewed_participant :: "timestamp \<Rightarrow> participant_row \<Rightarrow> participant_row \<Rightarrow> participant_row" where
  "renewed_participant now new old =
     (let ready = ps_state new = ''ready''; kept = ps_generation old = ps_generation new in
      old\<lparr>ps_generation := ps_generation new,
          ps_state := (if ready then ''ready'' else if kept then ps_state old else ps_state new),
          ps_lease_until := (if ready then None else if kept then ps_lease_until old else None),
          ps_user_ids := (if ready then [] else if kept then ps_user_ids old else []),
          ps_updated_at := (if kept then ps_updated_at old else now)\<rparr>)"

definition participant_outdated :: "participant_row \<Rightarrow> participant_row \<Rightarrow> bool" where
  "participant_outdated new old =
     (ps_generation old \<noteq> ps_generation new \<or> ps_state new = ''ready'' \<and> ps_state old \<noteq> ''ready'')"

text \<open>
  One row of the command. A row that the command itself has written cannot be written a
  second time: PostgreSQL aborts the statement.
\<close>

definition put_participant ::
  "timestamp \<Rightarrow> participant_row list \<times> participant_row list \<Rightarrow> desired_row \<Rightarrow>
     (participant_row list \<times> participant_row list) result" where
  "put_participant now acc d =
     bindE (new_participant now d) (\<lambda>new.
       let (written, rows) = acc in
       case find (same_participant new) rows of
         None \<Rightarrow> Inr (new # written, rows @ [new])
       | Some old \<Rightarrow>
           if list_ex (same_participant new) written then Inl (DatabaseErr ''cardinality_violation'')
           else if participant_outdated new old
           then Inr (new # written, update_where (same_participant new) (renewed_participant now new) rows)
           else Inr acc)"

definition participant_assigned :: "queue_db \<Rightarrow> participant_row \<Rightarrow> bool" where
  "participant_assigned db p =
     list_ex (\<lambda>d. body_text d ''external_account_uuid'' = Some (ps_account_uuid p) \<and>
        body_chat_key d = Some (ps_chat_key p)) (selected_assignments db)"

definition reconcile_participant_sync :: "timestamp \<Rightarrow> bridge_db \<Rightarrow> bridge_db result" where
  "reconcile_participant_sync now db =
     (let db1 = on_queue schedule_accounts db; q = bd_queue db1 in
      bindE (foldE (put_participant now) ([], bd_participants db1) (sort_key chat_order (selected_assignments q)))
        (\<lambda>(_, rows). Inr (db1\<lparr>bd_participants := filter (participant_assigned q) rows\<rparr>)))"

definition invalidate_participant_sync :: "timestamp \<Rightarrow> uuid \<Rightarrow> string list \<Rightarrow> bridge_db \<Rightarrow> bridge_db" where
  "invalidate_participant_sync now account chats db =
     db\<lparr>bd_participants := update_where (\<lambda>p. ps_account_uuid p = account \<and> ps_chat_key p \<in> set chats)
          (\<lambda>p. p\<lparr>ps_state := ''pending'', ps_lease_until := None, ps_updated_at := now\<rparr>) (bd_participants db)\<rparr>"

section \<open>Claims\<close>

text \<open>
  An account that the scheduler may serve: it is synchronised, its breaker is of the current
  generation and permits provider work. Claims of history jobs ask for the same.
\<close>

definition scheduled_account :: "timestamp \<Rightarrow> queue_db \<Rightarrow> uuid \<Rightarrow> bool" where
  "scheduled_account now db u =
     (case db_accounts db u of
        None \<Rightarrow> False
      | Some s \<Rightarrow> provider_ready now s \<and>
          list_ex (\<lambda>d. sa_generation s = Some (ds_generation d)) (synchronized_account db u))"

definition participant_due :: "timestamp \<Rightarrow> participant_row \<Rightarrow> bool" where
  "participant_due now p =
     (ps_state p = ''pending'' \<or>
      ps_state p = ''running'' \<and> expired_lease now (ps_lease_until p) \<or>
      ps_state p = ''reported'' \<and> ps_updated_at p < now - seconds 30 \<or>
      ps_state p = ''ready'' \<and> ps_updated_at p < now - seconds PARTICIPANT_RECHECK_INTERVAL_SECONDS)"

definition participant_assignments :: "queue_db \<Rightarrow> participant_row \<Rightarrow> desired_row list" where
  "participant_assignments db p =
     filter (\<lambda>d. ds_type d = ''external_chat_assignment'' \<and> \<not> ds_deleted d \<and> ds_generation d = ps_generation p \<and>
        body_text d ''external_account_uuid'' = Some (ps_account_uuid p) \<and> body_chat_key d = Some (ps_chat_key p) \<and>
        is_channel d) (db_desired db)"

definition participant_order :: "participant_row \<Rightarrow> timestamp \<times> string" where
  "participant_order p = (ps_updated_at p, ps_chat_key p)"

definition due_participants :: "timestamp \<Rightarrow> bridge_db \<Rightarrow> uuid \<Rightarrow> participant_row list" where
  "due_participants now db u =
     filter (\<lambda>p. ps_account_uuid p = u \<and> participant_due now p \<and> participant_assignments (bd_queue db) p \<noteq> [])
       (bd_participants db)"

text \<open>The account served least recently, then the one with the oldest due row.\<close>

definition participant_account :: "timestamp \<Rightarrow> (uuid \<Rightarrow> bool) \<Rightarrow> bridge_db \<Rightarrow> uuid option" where
  "participant_account now locked db =
     first_by (\<lambda>u. (bd_participant_sync_at db u, map_option ps_updated_at (first_by participant_order (due_participants now db u)), u))
       (filter (\<lambda>u. scheduled_account now (bd_queue db) u \<and> \<not> locked u \<and> due_participants now db u \<noteq> [])
          (remdups (map ps_account_uuid (bd_participants db))))"

definition serves_participants :: "timestamp \<Rightarrow> (uuid \<Rightarrow> bool) \<Rightarrow> bridge_db \<Rightarrow> uuid \<Rightarrow> bool" where
  "serves_participants now locked db u =
     (scheduled_account now (bd_queue db) u \<and> \<not> locked u \<and> due_participants now db u \<noteq> [])"

interpretation participants: rotation serves_participants bd_participant_sync_at participant_account
proof unfold_locales
  fix now locked and db :: bridge_db and u v
  let ?key = "\<lambda>u. (bd_participant_sync_at db u,
    map_option ps_updated_at (first_by participant_order (due_participants now db u)), u)"
  have account: "participant_account now locked db =
      first_by ?key (filter (serves_participants now locked db) (remdups (map ps_account_uuid (bd_participants db))))"
    by (simp add: participant_account_def serves_participants_def [abs_def])
  have row: "u \<in> ps_account_uuid ` set (bd_participants db)" if "serves_participants now locked db u" for u
    using that by (auto simp: serves_participants_def due_participants_def filter_empty_conv)
  show "participant_account now locked db = Some u \<Longrightarrow> serves_participants now locked db u"
    unfolding account using first_by_filterD by fast
  show "serves_participants now locked db u \<Longrightarrow> participant_account now locked db \<noteq> None"
    unfolding account using row by (auto simp: filter_empty_conv)
  show "participant_account now locked db = Some u \<Longrightarrow> serves_participants now locked db v \<Longrightarrow>
      bd_participant_sync_at db u \<le> bd_participant_sync_at db v"
    unfolding account by (rule first_by_rotation) (auto dest: row)
qed

record participant_job =
  pj_account_uuid :: uuid
  pj_chat_key :: string
  pj_generation :: int
  pj_assignment :: pyval

text \<open>The rows joined with their assignments, in order; \<open>held\<close> are the rows others have locked.\<close>

definition participant_candidates ::
  "timestamp \<Rightarrow> (participant_row \<Rightarrow> bool) \<Rightarrow> nat \<Rightarrow> bridge_db \<Rightarrow> uuid \<Rightarrow> (participant_row \<times> desired_row) list" where
  "participant_candidates now held limit db u =
     take limit (concat (map (\<lambda>p. map (Pair p) (participant_assignments (bd_queue db) p))
       (sort_key participant_order (filter (\<lambda>p. \<not> held p) (due_participants now db u)))))"

definition claim_row :: "timestamp \<Rightarrow> participant_row \<Rightarrow> participant_row" where
  "claim_row now p = p\<lparr>ps_state := ''running'', ps_lease_until := Some (now + seconds 60), ps_updated_at := now\<rparr>"

definition claimed_job :: "(participant_row \<times> desired_row) list \<Rightarrow> participant_row \<Rightarrow> participant_job option" where
  "claimed_job cs p =
     map_option (\<lambda>(_, d). \<lparr>pj_account_uuid = ps_account_uuid p, pj_chat_key = ps_chat_key p,
        pj_generation = ps_generation p, pj_assignment = ds_body d\<rparr>)
       (find (\<lambda>(p', _). same_participant p' p) cs)"

definition claim_participant_sync_batch ::
  "timestamp \<Rightarrow> (uuid \<Rightarrow> bool) \<Rightarrow> (participant_row \<Rightarrow> bool) \<Rightarrow> int \<Rightarrow> bridge_db \<Rightarrow> (participant_job list \<times> bridge_db) result" where
  "claim_participant_sync_batch now locked held limit db =
     (if limit < 1 then Inl (ValueErr ''Participant sync claim limit must be positive'')
      else case participant_account now locked db of
        None \<Rightarrow> Inr ([], db)
      | Some u \<Rightarrow>
          let cs = participant_candidates now held (nat limit) db u in
          Inr (sort_key pj_chat_key (List.map_filter (claimed_job cs) (bd_participants db)),
            db\<lparr>bd_participants := update_where (\<lambda>p. claimed_job cs p \<noteq> None) (claim_row now) (bd_participants db),
               bd_participant_sync_at := (bd_participant_sync_at db)(u \<mapsto> now)\<rparr>))"

definition claim_participant_sync ::
  "timestamp \<Rightarrow> (uuid \<Rightarrow> bool) \<Rightarrow> (participant_row \<Rightarrow> bool) \<Rightarrow> bridge_db \<Rightarrow> (participant_job option \<times> bridge_db) result" where
  "claim_participant_sync now locked held db =
     bindE (claim_participant_sync_batch now locked held 1 db) (\<lambda>(rows, db').
       Inr (case rows of [] \<Rightarrow> None | r # _ \<Rightarrow> Some r, db'))"

section \<open>Completion\<close>

record participant_update =
  pu_account_uuid :: uuid
  pu_chat_key :: string
  pu_generation :: int
  pu_user_ids :: "int list"
  pu_ready :: bool

text \<open>An update applies to the running row of its chat and generation.\<close>

definition update_applies :: "participant_row \<Rightarrow> participant_update \<Rightarrow> bool" where
  "update_applies p u =
     (ps_account_uuid p = pu_account_uuid u \<and> ps_chat_key p = pu_chat_key u \<and> ps_generation p = pu_generation u \<and>
      ps_state p = ''running'')"

definition complete_participant_sync_batch :: "timestamp \<Rightarrow> participant_update list \<Rightarrow> bridge_db \<Rightarrow> bridge_db" where
  "complete_participant_sync_batch now updates db =
     db\<lparr>bd_participants := map (\<lambda>p.
          case find (update_applies p) updates of
            None \<Rightarrow> p
          | Some u \<Rightarrow> p\<lparr>ps_state := (if pu_ready u then ''ready'' else ''reported''), ps_lease_until := None,
              ps_user_ids := sort (remdups (pu_user_ids u)), ps_updated_at := now\<rparr>) (bd_participants db)\<rparr>"

definition complete_participant_sync ::
  "timestamp \<Rightarrow> uuid \<Rightarrow> string \<Rightarrow> int \<Rightarrow> int list \<Rightarrow> bool \<Rightarrow> bridge_db \<Rightarrow> bridge_db" where
  "complete_participant_sync now account chat generation ids ready =
     complete_participant_sync_batch now
       [\<lparr>pu_account_uuid = account, pu_chat_key = chat, pu_generation = generation, pu_user_ids = ids, pu_ready = ready\<rparr>]"

definition job_row :: "participant_job list \<Rightarrow> participant_row \<Rightarrow> bool" where
  "job_row jobs p =
     (ps_state p = ''running'' \<and>
      list_ex (\<lambda>j. ps_account_uuid p = pj_account_uuid j \<and> ps_chat_key p = pj_chat_key j \<and>
         ps_generation p = pj_generation j) jobs)"

definition release_participant_sync_batch :: "timestamp \<Rightarrow> participant_job list \<Rightarrow> bridge_db \<Rightarrow> bridge_db" where
  "release_participant_sync_batch now jobs db =
     db\<lparr>bd_participants := update_where (job_row jobs)
          (\<lambda>p. p\<lparr>ps_state := ''pending'', ps_lease_until := None, ps_updated_at := now\<rparr>) (bd_participants db)\<rparr>"

definition release_participant_sync :: "timestamp \<Rightarrow> uuid \<Rightarrow> string \<Rightarrow> int \<Rightarrow> bridge_db \<Rightarrow> bridge_db" where
  "release_participant_sync now account chat generation =
     release_participant_sync_batch now
       [\<lparr>pj_account_uuid = account, pj_chat_key = chat, pj_generation = generation, pj_assignment = VNone\<rparr>]"

definition assignment_participants_ready :: "uuid \<Rightarrow> string \<Rightarrow> int \<Rightarrow> bridge_db \<Rightarrow> bool" where
  "assignment_participants_ready account chat generation db =
     list_ex (\<lambda>p. ps_account_uuid p = account \<and> ps_chat_key p = chat \<and> ps_generation p = generation \<and>
        ps_state p = ''ready'') (bd_participants db)"

section \<open>One pass of the service\<close>

text \<open>
  What the pass reads from outside: the clock of its successive transactions, the locks of
  others, the adapter of an account, its \<open>channel_catalogs\<close>, the queueing of the catalogue
  reports that follow from them, and the random delay of the breaker.
\<close>

record participant_env =
  pe_clock :: "nat \<Rightarrow> timestamp"
  pe_locked :: "uuid \<Rightarrow> bool"
  pe_held :: "participant_row \<Rightarrow> bool"
  pe_adapters :: "uuid \<Rightarrow> adapter outcome"
  pe_catalogs :: "uuid \<Rightarrow> string list \<Rightarrow> dict outcome"
  pe_reports :: "uuid \<Rightarrow> dict \<Rightarrow> (string \<times> dict) list \<Rightarrow> bridge_db \<Rightarrow> unit outcome \<times> bridge_db"
  pe_uniform :: "int \<Rightarrow> int"

definition lift_queue :: "(queue_db \<Rightarrow> 'a \<times> queue_db) \<Rightarrow> bridge_db \<Rightarrow> 'a \<times> bridge_db" where
  "lift_queue f db = (case f (bd_queue db) of (r, q) \<Rightarrow> (r, db\<lparr>bd_queue := q\<rparr>))"

definition PARTICIPANT_SYNC_BATCH_SIZE :: int where
  "PARTICIPANT_SYNC_BATCH_SIZE = 50"

definition projected_id :: "pyval \<Rightarrow> int option" where
  "projected_id v =
     (case v of
        VDict d \<Rightarrow> (case bindE (item d ''provider_user_id'') (\<lambda>i. int_of (VStr (py_str i))) of Inl _ \<Rightarrow> None | Inr n \<Rightarrow> Some n)
      | _ \<Rightarrow> None)"

definition projection_participant_ids :: "dict \<Rightarrow> int set" where
  "projection_participant_ids assignment =
     set (List.map_filter projected_id (list_of (json_field (get_val assignment ''workspace_projection'') ''participants'')))"

text \<open>The assignment of a job: the one it carries, or the one desired state has for the chat.\<close>

definition job_assignment :: "queue_db \<Rightarrow> uuid \<Rightarrow> participant_job \<Rightarrow> pyval option" where
  "job_assignment db account j =
     (if is_dict (pj_assignment j) then Some (pj_assignment j)
      else assignment_for_provider_chat account (pj_chat_key j) db)"

definition usable_assignment :: "queue_db \<Rightarrow> uuid \<Rightarrow> participant_job \<Rightarrow> dict option result" where
  "usable_assignment db account j =
     (if pj_account_uuid j \<noteq> account then Inr None
      else case job_assignment db account j of
        None \<Rightarrow> Inr None
      | Some (VDict d) \<Rightarrow>
          bindE (item d ''generation'') (\<lambda>g. bindE (int_of g) (\<lambda>generation.
          Inr (if generation = pj_generation j \<and> truthy (case map_of d ''selected'' of None \<Rightarrow> VBool True | Some v \<Rightarrow> v)
               then Some d else None)))
      | Some _ \<Rightarrow> Inl TypeErr)"

definition channel_entry :: "pyval \<Rightarrow> (string \<times> dict) result" where
  "channel_entry v =
     (case v of
        VDict sub \<Rightarrow> bindE (item sub ''stream_id'') (\<lambda>i. bindE (int_of i) (\<lambda>n. Inr (''channel:'' @ show_int n, sub)))
      | _ \<Rightarrow> Inl TypeErr)"

definition ids_of :: "pyval \<Rightarrow> int list result" where
  "ids_of v = (case v of VList vs \<Rightarrow> mapE int_of vs | _ \<Rightarrow> Inl TypeErr)"

definition channel_entries :: "dict \<Rightarrow> (string \<times> dict) list result" where
  "channel_entries registration =
     bindE (item registration ''subscriptions'') (\<lambda>v.
     bindE (case v of VList vs \<Rightarrow> mapE channel_entry vs | _ \<Rightarrow> Inl TypeErr) (\<lambda>es. Inr (dict_update [] es)))"

definition participant_completion ::
  "uuid \<Rightarrow> dict \<Rightarrow> (string \<times> dict) list \<Rightarrow> (string \<times> dict) list \<Rightarrow> participant_job \<Rightarrow> participant_update result" where
  "participant_completion account registration subscriptions assignments j =
     (case (map_of subscriptions (pj_chat_key j), map_of assignments (pj_chat_key j)) of
        (Some sub, Some assignment) \<Rightarrow>
          bindE (bindE (item sub ''subscribers'') ids_of) (\<lambda>subscribers.
          bindE (bindE (item registration ''user_id'') int_of) (\<lambda>owner.
          let ids = sort (remdups (subscribers @ [owner])) in
          Inr \<lparr>pu_account_uuid = account, pu_chat_key = pj_chat_key j, pu_generation = pj_generation j,
               pu_user_ids = ids, pu_ready = (set ids = projection_participant_ids assignment)\<rparr>))
      | _ \<Rightarrow> Inl (KeyErr (pj_chat_key j)))"

definition refresh_failed ::
  "participant_env \<Rightarrow> uuid \<Rightarrow> participant_job list \<Rightarrow> zulip_error \<Rightarrow> adapter option \<Rightarrow> bridge_db \<Rightarrow>
     bool result \<times> account_report list \<times> bridge_db" where
  "refresh_failed e account jobs err ad db =
     (let db1 = release_participant_sync_batch (pe_clock e 2) jobs db in
      case lift_queue (handle_provider_account_error (pe_clock e 3) (pe_uniform e) account err (adapter_generation ad)) db1 of
        (Inl x, db2) \<Rightarrow> (Inl x, [], db2)
      | (Inr (authentication, report), db2) \<Rightarrow>
          let reports = (case report of None \<Rightarrow> [] | Some r \<Rightarrow> [r]) in
          if \<not> authentication \<and> \<not> ze_retryable err
          then (Inr False, reports @ [\<lparr>ar_account_uuid = account, ar_status = ''degraded'', ar_code = ze_code err,
                  ar_generation = None\<rparr>],
                on_queue (mark_health ''provider'' ''degraded'' (Some (ze_code err))) db2)
          else (Inr False, reports, db2))"

definition refresh_completed ::
  "participant_env \<Rightarrow> uuid \<Rightarrow> participant_job list \<Rightarrow> (string \<times> dict) list \<Rightarrow> dict \<Rightarrow> adapter \<Rightarrow> bridge_db \<Rightarrow>
     bool result \<times> account_report list \<times> bridge_db" where
  "refresh_completed e account jobs assignments registration ad db =
     (case bindE (channel_entries registration) (\<lambda>subscriptions.
             mapE (participant_completion account registration subscriptions assignments) jobs) of
        Inl x \<Rightarrow> (Inl x, [], db)
      | Inr completions \<Rightarrow>
          (case lift_queue (record_account_success_handler (pe_clock e 3) account (adapter_generation (Some ad)))
                  (complete_participant_sync_batch (pe_clock e 2) completions db) of
             (Inl x, db') \<Rightarrow> (Inl x, [], db')
           | (Inr _, db') \<Rightarrow> (Inr True, [], db')))"

definition refresh_jobs ::
  "participant_env \<Rightarrow> uuid \<Rightarrow> participant_job list \<Rightarrow> (string \<times> dict) list \<Rightarrow> bridge_db \<Rightarrow>
     bool result \<times> account_report list \<times> bridge_db" where
  "refresh_jobs e account jobs assignments db =
     (case pe_adapters e account of
        Raised x \<Rightarrow> (Inl x, [], db)
      | Ambiguous m \<Rightarrow> (Inl (ValueErr m), [], db)
      | Failed err \<Rightarrow> refresh_failed e account jobs err None db
      | Done ad \<Rightarrow>
          (case pe_catalogs e account (map pj_chat_key jobs) of
             Raised x \<Rightarrow> (Inl x, [], db)
           | Ambiguous m \<Rightarrow> (Inl (ValueErr m), [], db)
           | Failed err \<Rightarrow> refresh_failed e account jobs err (Some ad) db
           | Done registration \<Rightarrow>
               (case pe_reports e account registration assignments db of
                  (Raised x, db1) \<Rightarrow> (Inl x, [], db1)
                | (Ambiguous m, db1) \<Rightarrow> (Inl (ValueErr m), [], db1)
                | (Failed err, db1) \<Rightarrow> refresh_failed e account jobs err (Some ad) db1
                | (Done _, db1) \<Rightarrow> refresh_completed e account jobs assignments registration ad db1)))"

definition refresh_selected_participants_once ::
  "participant_env \<Rightarrow> bridge_db \<Rightarrow> bool result \<times> account_report list \<times> bridge_db" where
  "refresh_selected_participants_once e db =
     (case claim_participant_sync_batch (pe_clock e 0) (pe_locked e) (pe_held e) PARTICIPANT_SYNC_BATCH_SIZE db of
        Inl x \<Rightarrow> (Inl x, [], db)
      | Inr ([], db1) \<Rightarrow> (Inr False, [], db1)
      | Inr (j # js, db1) \<Rightarrow>
          let account = pj_account_uuid j in
          (case mapE (\<lambda>j. bindE (usable_assignment (bd_queue db1) account j) (\<lambda>a. Inr (j, a))) (j # js) of
             Inl x \<Rightarrow> (Inl x, [], db1)
           | Inr examined \<Rightarrow>
               let invalid = map fst (filter (\<lambda>(_, a). a = None) examined);
                   valid = List.map_filter (\<lambda>(j, a). map_option (Pair j) a) examined;
                   jobs = map fst valid;
                   assignments = dict_update [] (map (\<lambda>(j, a). (pj_chat_key j, a)) valid);
                   db2 = release_participant_sync_batch (pe_clock e 1) invalid db1
               in if jobs = [] then (Inr False, [], db2)
                  else if provider_event_cursor account db2 = None
                  then (Inr False, [], release_participant_sync_batch (pe_clock e 2) jobs db2)
                  else refresh_jobs e account jobs assignments db2))"

end
