(* ===== verification/History_Capture.thy ===== *)
theory History_Capture
  imports Participant_Sync Directory_Refresh
begin

text \<open>
  The capture of message history (\<open>storage.py\<close>, \<open>run_backfill_once\<close> of \<open>service.py\<close>): one job per
  selected chat, claimed under a lease, reads one range of message identifiers from the
  provider and merges it into the batch of that range. A save reads the batch in one
  transaction and writes it in a second one, which checks that the context, the scope, the
  lease and the batch are still those of the first. Batches come from \<open>make_batch\<close>, whose ranges
  satisfy the checks of the table. The column \<open>updated_at\<close> of desired state is
  the argument \<open>updated_at\<close>; statement timeouts are an argument of the save.
\<close>

section \<open>Jobs follow the assignments\<close>

definition synchronized_assignments :: "queue_db \<Rightarrow> desired_row list" where
  "synchronized_assignments db =
     filter (\<lambda>d. case body_text d ''external_account_uuid'' of
        None \<Rightarrow> False | Some account \<Rightarrow> synchronized_account db account \<noteq> []) (selected_assignments db)"

definition HISTORY_DEPTHS :: "string list" where
  "HISTORY_DEPTHS = [''new'', ''7_days'', ''30_days'', ''90_days'', ''all'']"

definition cutoff :: "timestamp \<Rightarrow> timestamp \<Rightarrow> string \<Rightarrow> timestamp option" where
  "cutoff now assigned depth =
     (if depth = ''new'' then Some assigned
      else if depth = ''7_days'' then Some (now - seconds (7 * 86400))
      else if depth = ''30_days'' then Some (now - seconds (30 * 86400))
      else if depth = ''90_days'' then Some (now - seconds (90 * 86400))
      else None)"

definition new_job :: "timestamp \<Rightarrow> (uuid \<Rightarrow> timestamp) \<Rightarrow> desired_row \<Rightarrow> backfill_row result" where
  "new_job now updated_at d =
     (case (body_text d ''external_account_uuid'', body_chat_key d, body_text d ''history_depth'') of
        (Some account, Some chat, Some depth) \<Rightarrow>
          if depth \<in> set HISTORY_DEPTHS
          then Inr \<lparr>bf_account_uuid = account, bf_chat_key = chat, bf_depth = depth, bf_next_anchor = None,
                 bf_cutoff_at = cutoff now (updated_at (ds_uuid d)) depth,
                 bf_state = (if depth = ''new'' then ''complete'' else ''pending''), bf_lease_until = None,
                 bf_available_at = now, bf_retry_count = 0, bf_error_code = None, bf_capture_timeout = False,
                 bf_updated_at = now\<rparr>
          else Inl (DatabaseErr ''check_violation'')
      | _ \<Rightarrow> Inl (DatabaseErr ''not_null_violation''))"

definition same_job :: "backfill_row \<Rightarrow> backfill_row \<Rightarrow> bool" where
  "same_job b b' = (bf_account_uuid b' = bf_account_uuid b \<and> bf_chat_key b' = bf_chat_key b)"

definition renewed_job :: "timestamp \<Rightarrow> backfill_row \<Rightarrow> backfill_row \<Rightarrow> backfill_row" where
  "renewed_job now new old =
     (let kept = bf_state old \<noteq> ''cancelled'' \<and> bf_depth old = bf_depth new in
      old\<lparr>bf_next_anchor := (if kept then bf_next_anchor old else None), bf_depth := bf_depth new,
          bf_cutoff_at := (if kept then coalesce (bf_cutoff_at old) (Some (bf_updated_at old)) else bf_cutoff_at new),
          bf_state := (if kept then bf_state old else bf_state new), bf_updated_at := now\<rparr>)"

definition job_outdated :: "backfill_row \<Rightarrow> backfill_row \<Rightarrow> bool" where
  "job_outdated new old =
     (bf_state old = ''cancelled'' \<or> bf_depth old \<noteq> bf_depth new \<or> bf_depth old = ''new'' \<and> bf_cutoff_at old = None)"

definition put_job ::
  "timestamp \<Rightarrow> (uuid \<Rightarrow> timestamp) \<Rightarrow> backfill_row list \<times> backfill_row list \<Rightarrow> desired_row \<Rightarrow>
     (backfill_row list \<times> backfill_row list) result" where
  "put_job now updated_at acc d =
     bindE (new_job now updated_at d) (\<lambda>new.
       let (written, rows) = acc in
       case find (same_job new) rows of
         None \<Rightarrow> Inr (new # written, rows @ [new])
       | Some old \<Rightarrow>
           if list_ex (same_job new) written then Inl (DatabaseErr ''cardinality_violation'')
           else if job_outdated new old then Inr (new # written, update_where (same_job new) (renewed_job now new) rows)
           else Inr acc)"

definition names_chat :: "uuid \<Rightarrow> string \<Rightarrow> desired_row \<Rightarrow> bool" where
  "names_chat account chat d =
     (body_text d ''external_account_uuid'' = Some account \<and> body_chat_key d = Some chat)"

definition job_wanted :: "queue_db \<Rightarrow> backfill_row \<Rightarrow> bool" where
  "job_wanted db b = list_ex (names_chat (bf_account_uuid b) (bf_chat_key b)) (synchronized_assignments db)"

definition reconcile_backfill_jobs ::
  "(string \<Rightarrow> string) \<Rightarrow> timestamp \<Rightarrow> (uuid \<Rightarrow> timestamp) \<Rightarrow> bridge_db \<Rightarrow> bridge_db result" where
  "reconcile_backfill_jobs sha256 now updated_at db =
     bindE (reconcile sha256 now db) (\<lambda>db1.
     let q = bd_queue db1 in
     bindE (foldE (put_job now updated_at) ([], db_backfills q) (sort_key chat_order (synchronized_assignments q)))
       (\<lambda>(_, rows).
         let jobs = update_where (\<lambda>b. bf_state b \<noteq> ''cancelled'' \<and> \<not> job_wanted q b)
               (\<lambda>b. b\<lparr>bf_state := ''cancelled'', bf_capture_timeout := False, bf_updated_at := now\<rparr>) rows;
             sound = map (\<lambda>b. backfill_health_component (bf_account_uuid b) (bf_chat_key b))
               (filter (\<lambda>b. bf_state b \<noteq> ''failed'') jobs)
         in Inr (db1\<lparr>bd_queue := q\<lparr>db_backfills := jobs,
                       db_health := (\<lambda>c. if c \<in> set sound then None else db_health q c)\<rparr>,
                     bd_catchups := filter (\<lambda>c. list_ex (names_chat (ct_account_uuid c) (ct_chat_key c))
                       (selected_assignments q)) (bd_catchups db1)\<rparr>)))"

section \<open>Claims and leases\<close>

definition job_due :: "timestamp \<Rightarrow> backfill_row \<Rightarrow> bool" where
  "job_due now b =
     (bf_state b = ''pending'' \<and> bf_available_at b \<le> now \<or>
      bf_state b = ''running'' \<and> expired_lease now (bf_lease_until b))"

definition job_assignments :: "queue_db \<Rightarrow> uuid \<Rightarrow> string \<Rightarrow> desired_row list" where
  "job_assignments db account chat = filter (names_chat account chat) (selected_assignments db)"

definition job_order :: "backfill_row \<Rightarrow> timestamp \<times> string" where
  "job_order b = (bf_updated_at b, bf_chat_key b)"

definition due_jobs :: "timestamp \<Rightarrow> queue_db \<Rightarrow> uuid \<Rightarrow> backfill_row list" where
  "due_jobs now db u =
     filter (\<lambda>b. bf_account_uuid b = u \<and> job_due now b \<and> job_assignments db u (bf_chat_key b) \<noteq> []) (db_backfills db)"

definition backfill_account :: "timestamp \<Rightarrow> (uuid \<Rightarrow> bool) \<Rightarrow> bridge_db \<Rightarrow> uuid option" where
  "backfill_account now locked db =
     first_by (\<lambda>u. (bd_backfill_at db u, map_option bf_updated_at (first_by job_order (due_jobs now (bd_queue db) u)), u))
       (filter (\<lambda>u. scheduled_account now (bd_queue db) u \<and> \<not> locked u \<and> due_jobs now (bd_queue db) u \<noteq> [])
          (remdups (map bf_account_uuid (db_backfills (bd_queue db)))))"

definition serves_backfill :: "timestamp \<Rightarrow> (uuid \<Rightarrow> bool) \<Rightarrow> bridge_db \<Rightarrow> uuid \<Rightarrow> bool" where
  "serves_backfill now locked db u =
     (scheduled_account now (bd_queue db) u \<and> \<not> locked u \<and> due_jobs now (bd_queue db) u \<noteq> [])"

interpretation backfills: rotation serves_backfill bd_backfill_at backfill_account
proof unfold_locales
  fix now locked and db :: bridge_db and u v
  let ?key = "\<lambda>u. (bd_backfill_at db u, map_option bf_updated_at (first_by job_order (due_jobs now (bd_queue db) u)), u)"
  have account: "backfill_account now locked db =
      first_by ?key (filter (serves_backfill now locked db) (remdups (map bf_account_uuid (db_backfills (bd_queue db)))))"
    by (simp add: backfill_account_def serves_backfill_def [abs_def])
  have row: "u \<in> bf_account_uuid ` set (db_backfills (bd_queue db))" if "serves_backfill now locked db u" for u
    using that by (auto simp: serves_backfill_def due_jobs_def filter_empty_conv)
  show "backfill_account now locked db = Some u \<Longrightarrow> serves_backfill now locked db u"
    unfolding account using first_by_filterD by fast
  show "serves_backfill now locked db u \<Longrightarrow> backfill_account now locked db \<noteq> None"
    unfolding account using row by (auto simp: filter_empty_conv)
  show "backfill_account now locked db = Some u \<Longrightarrow> serves_backfill now locked db v \<Longrightarrow>
      bd_backfill_at db u \<le> bd_backfill_at db v"
    unfolding account by (rule first_by_rotation) (auto dest: row)
qed

record capture_job =
  cj_account_uuid :: uuid
  cj_chat_key :: string
  cj_depth :: string
  cj_next_anchor :: "int option"
  cj_cutoff_at :: "timestamp option"
  cj_retry_count :: int
  cj_lease_until :: timestamp
  cj_account_generation :: int
  cj_assignment_generation :: int

definition update_job ::
  "(backfill_row \<Rightarrow> bool) \<Rightarrow> (backfill_row \<Rightarrow> backfill_row) \<Rightarrow> bridge_db \<Rightarrow> bridge_db" where
  "update_job p f = on_queue (\<lambda>q. q\<lparr>db_backfills := update_where p f (db_backfills q)\<rparr>)"

definition claimed_backfill :: "timestamp \<Rightarrow> backfill_row \<Rightarrow> desired_row \<Rightarrow> desired_row \<Rightarrow> capture_job" where
  "claimed_backfill now b account assignment =
     \<lparr>cj_account_uuid = bf_account_uuid b, cj_chat_key = bf_chat_key b, cj_depth = bf_depth b,
      cj_next_anchor = bf_next_anchor b, cj_cutoff_at = bf_cutoff_at b, cj_retry_count = bf_retry_count b,
      cj_lease_until = now + seconds 600, cj_account_generation = ds_generation account,
      cj_assignment_generation = ds_generation assignment\<rparr>"

definition claim_backfill_job ::
  "timestamp \<Rightarrow> (uuid \<Rightarrow> bool) \<Rightarrow> (backfill_row \<Rightarrow> bool) \<Rightarrow> bridge_db \<Rightarrow> capture_job option \<times> bridge_db" where
  "claim_backfill_job now locked held db =
     (case backfill_account now locked db of
        None \<Rightarrow> (None, db)
      | Some u \<Rightarrow>
          let db1 = db\<lparr>bd_backfill_at := (bd_backfill_at db)(u \<mapsto> now)\<rparr>; q = bd_queue db in
          case first_by job_order (filter (\<lambda>b. \<not> held b) (due_jobs now q u)) of
            None \<Rightarrow> (None, db1)
          | Some b \<Rightarrow>
              (case (find (\<lambda>d. ds_type d = ''external_account'' \<and> ds_uuid d = u) (db_desired q),
                     job_assignments q u (bf_chat_key b)) of
                 (Some account, assignment # _) \<Rightarrow> Some (claimed_backfill now b account assignment)
               | _ \<Rightarrow> None,
               update_job (same_job b)
                 (\<lambda>b. b\<lparr>bf_state := ''running'', bf_lease_until := Some (now + seconds 600), bf_updated_at := now\<rparr>) db1))"

text \<open>The row that the claim of \<open>job\<close> holds: running under its exact lease.\<close>

definition holds_lease :: "capture_job \<Rightarrow> backfill_row \<Rightarrow> bool" where
  "holds_lease job b =
     (bf_account_uuid b = cj_account_uuid job \<and> bf_chat_key b = cj_chat_key job \<and> bf_state b = ''running'' \<and>
      bf_lease_until b = Some (cj_lease_until job))"

definition lease_current :: "timestamp \<Rightarrow> capture_job \<Rightarrow> backfill_row \<Rightarrow> bool" where
  "lease_current now job b = (holds_lease job b \<and> now < cj_lease_until job)"

definition find_lease :: "timestamp \<Rightarrow> capture_job \<Rightarrow> bridge_db \<Rightarrow> backfill_row option" where
  "find_lease now job db = find (lease_current now job) (db_backfills (bd_queue db))"

definition renew_history_capture_lease :: "timestamp \<Rightarrow> capture_job \<Rightarrow> bridge_db \<Rightarrow> capture_job option \<times> bridge_db" where
  "renew_history_capture_lease now job db =
     (if find_lease now job db = None then (None, db)
      else (Some (job\<lparr>cj_lease_until := now + seconds 600\<rparr>),
            update_job (lease_current now job) (\<lambda>b. b\<lparr>bf_lease_until := Some (now + seconds 600)\<rparr>) db))"

section \<open>Transitions of a claimed job\<close>

text \<open>The project, realm and owner under which the job was claimed, as long as they are current.\<close>

definition capture_context :: "queue_db \<Rightarrow> capture_job \<Rightarrow> (string option \<times> uuid option \<times> string option) option" where
  "capture_context db job =
     (case (find (\<lambda>d. ds_generation d = cj_account_generation job) (synchronized_account db (cj_account_uuid job)),
            find (\<lambda>d. ds_generation d = cj_assignment_generation job)
              (job_assignments db (cj_account_uuid job) (cj_chat_key job)),
            db_cursors db (cj_account_uuid job)) of
        (Some account, Some assignment, Some cursor) \<Rightarrow>
          if cu_account_generation cursor = Some (ds_generation account)
          then Some (body_text assignment ''project_id'', cu_realm_uuid cursor, cu_owner_user_id cursor)
          else None
      | _ \<Rightarrow> None)"

definition release_capture :: "timestamp \<Rightarrow> capture_job \<Rightarrow> bridge_db \<Rightarrow> bridge_db" where
  "release_capture now job =
     update_job (holds_lease job)
       (\<lambda>b. b\<lparr>bf_state := ''pending'', bf_lease_until := None, bf_available_at := now + seconds 1, bf_updated_at := now\<rparr>)"

text \<open>
  \<open>_transition_history_capture\<close> with the three forms that its callers use: release, defer
  until an instant with an error code, fail with a code.
\<close>

datatype capture_transition = Release | Defer timestamp string | Fail string

fun transition_row :: "timestamp \<Rightarrow> capture_transition \<Rightarrow> backfill_row \<Rightarrow> backfill_row" where
  "transition_row now Release b =
     b\<lparr>bf_state := ''pending'', bf_lease_until := None, bf_available_at := now + seconds 1, bf_updated_at := now\<rparr>"
| "transition_row now (Defer t code) b =
     b\<lparr>bf_state := ''pending'', bf_lease_until := None, bf_available_at := t,
       bf_retry_count := bf_retry_count b + 1, bf_error_code := Some code, bf_updated_at := now\<rparr>"
| "transition_row now (Fail code) b =
     b\<lparr>bf_state := ''failed'', bf_lease_until := None, bf_error_code := Some code, bf_updated_at := now\<rparr>"

definition transition_history_capture :: "timestamp \<Rightarrow> capture_job \<Rightarrow> capture_transition \<Rightarrow> bridge_db \<Rightarrow> bool \<times> bridge_db" where
  "transition_history_capture now job t db =
     (if capture_context (bd_queue db) job = None \<or> find_lease now job db = None then (False, db)
      else let db1 = update_job (lease_current now job) (transition_row now t) db in
        (True, case t of
           Fail code \<Rightarrow> on_queue (mark_health (backfill_health_component (cj_account_uuid job) (cj_chat_key job))
             ''degraded'' (Some code)) db1
         | _ \<Rightarrow> db1))"

text \<open>The fence that a write timeout carries: the scope and generation of the rolled-back save.\<close>

record write_timeout =
  wt_scope :: scope_key
  wt_generation :: int

definition CAPTURE_WRITE_MAX_ATTEMPTS :: int where
  "CAPTURE_WRITE_MAX_ATTEMPTS = 8"

definition write_delay :: "int \<Rightarrow> int" where
  "write_delay attempts = min 300 (5 * 2 ^ nat (min (attempts - 1) 6))"

definition write_attempts :: "backfill_row \<Rightarrow> int" where
  "write_attempts b = (if bf_error_code b = Some CAPTURE_TIMEOUT then bf_retry_count b + 1 else 1)"

definition timeout_row :: "timestamp \<Rightarrow> int \<Rightarrow> backfill_row \<Rightarrow> backfill_row" where
  "timeout_row now attempts b =
     b\<lparr>bf_state := (if attempts \<ge> CAPTURE_WRITE_MAX_ATTEMPTS then ''failed'' else ''pending''), bf_lease_until := None,
       bf_available_at := now + seconds (write_delay attempts), bf_retry_count := attempts,
       bf_error_code := Some CAPTURE_TIMEOUT, bf_capture_timeout := True, bf_updated_at := now\<rparr>"

definition of_job :: "capture_job \<Rightarrow> backfill_row \<Rightarrow> bool" where
  "of_job job b = (bf_account_uuid b = cj_account_uuid job \<and> bf_chat_key b = cj_chat_key job)"

definition defer_history_capture_write :: "timestamp \<Rightarrow> capture_job \<Rightarrow> write_timeout \<Rightarrow> bridge_db \<Rightarrow> bool \<times> bridge_db" where
  "defer_history_capture_write now job timeout db =
     (let q = bd_queue db; k = wt_scope timeout in
      if (case capture_context q job of
            Some (Some project, Some realm, _) \<Rightarrow> (project, realm) \<noteq> k | _ \<Rightarrow> True) \<or>
         (case find_scope k db of None \<Rightarrow> True | Some sc \<Rightarrow> sc_generation sc \<noteq> wt_generation timeout) \<or>
         \<not> provider_is_enabled ''zulip'' q
      then (False, release_capture now job db)
      else case find_lease now job db of
        None \<Rightarrow> (False, db)
      | Some b \<Rightarrow>
          let db1 = on_queue (mark_health (backfill_health_component (cj_account_uuid job) (cj_chat_key job))
                      ''degraded'' (Some CAPTURE_TIMEOUT))
                      (update_job (of_job job) (timeout_row now (write_attempts b)) db)
          in (True, db1\<lparr>bd_reports :=
                record_failure now k (wt_generation timeout) CAPTURE_TIMEOUT True (bd_reports db1)\<rparr>))"

section \<open>Saving a captured range\<close>

text \<open>
  How a call of the store ends: it returns, the write of the body times out, the transaction
  fails with the chain of a database error, or Python raises.
\<close>

datatype 'a capture_step = Returned 'a | Timed_Out write_timeout | Broken tx_failure | Error pyerror

record save_plan =
  sp_context :: "string option \<times> uuid option \<times> string option"
  sp_scope :: scope_key
  sp_row :: scope_row
  sp_prior :: "batch option"
  sp_merged :: batch

definition find_batch :: "scope_key \<Rightarrow> int \<Rightarrow> bridge_db \<Rightarrow> batch_row option" where
  "find_batch k from_id db = find (\<lambda>b. hb_key b = k \<and> hb_from_id b = from_id) (bd_batches db)"

definition observed_by :: "int \<Rightarrow> snapshot \<Rightarrow> bool" where
  "observed_by observer s = (case sn_access s of [a] \<Rightarrow> ac_user_id a = observer | _ \<Rightarrow> False)"

text \<open>A scope whose directory is complete contributes its users to every batch.\<close>

definition directory_merged :: "(string \<Rightarrow> string) \<Rightarrow> scope_row \<Rightarrow> batch \<Rightarrow> batch" where
  "directory_merged sha256 sc b =
     (if sc_account_cursor sc \<noteq> 0 \<and> length (scope_accounts sc) \<le> sc_account_cursor sc
      then with_directory sha256 b (sc_users sc) else b)"

text \<open>The reading transaction and the preparation outside SQL; \<open>None\<close> gives the job back.\<close>

definition plan_merge ::
  "(string \<Rightarrow> string) \<Rightarrow> (string option \<times> uuid option \<times> string option) \<Rightarrow> scope_key \<Rightarrow> scope_row \<Rightarrow> string \<Rightarrow>
     batch option \<Rightarrow> batch \<Rightarrow> save_plan result" where
  "plan_merge sha256 context k sc owner prior incoming =
     bindE (int_of (VStr owner)) (\<lambda>observer.
     bindE (guardE (list_all (observed_by observer) (ba_messages incoming)) (ValueErr ''history_observer_mismatch'')) (\<lambda>_.
     bindE (merge_batch sha256 prior incoming) (\<lambda>merged.
     Inr \<lparr>sp_context = context, sp_scope = k, sp_row = sc, sp_prior = prior,
          sp_merged = directory_merged sha256 sc merged\<rparr>)))"

definition plan_save :: "(string \<Rightarrow> string) \<Rightarrow> capture_job \<Rightarrow> batch \<Rightarrow> bridge_db \<Rightarrow> save_plan option result" where
  "plan_save sha256 job incoming db =
     (case capture_context (bd_queue db) job of
        Some (project, Some realm, Some owner) \<Rightarrow>
          bindE (parse_uuid (case project of None \<Rightarrow> ''None'' | Some p \<Rightarrow> p)) (\<lambda>p.
          let k = (p, realm) in
          case find_scope k db of
            None \<Rightarrow> Inr None
          | Some sc \<Rightarrow>
              bindE (plan_merge sha256 (project, Some realm, Some owner) k sc owner
                       (map_option hb_body (find_batch k (ba_from_id incoming) db)) incoming) (\<lambda>plan. Inr (Some plan)))
      | _ \<Rightarrow> Inr None)"

definition new_batch :: "timestamp \<Rightarrow> scope_key \<Rightarrow> batch \<Rightarrow> batch_row" where
  "new_batch now k b =
     \<lparr>hb_key = k, hb_from_id = ba_from_id b, hb_body = b, hb_status = ''pending'', hb_import_uuid = None,
      hb_mapping_cursor = [], hb_sources_hash = None, hb_lease = None, hb_lease_until = None, hb_error = None,
      hb_retry_at = now\<rparr>"

text \<open>
  The compare-and-swap of the body: \<open>None\<close> when another capture was faster. A body whose hash
  does not change is not written.
\<close>

definition swap_body :: "timestamp \<Rightarrow> save_plan \<Rightarrow> bridge_db \<Rightarrow> bridge_db option" where
  "swap_body now plan db =
     (let k = sp_scope plan; merged = sp_merged plan in
      case (sp_prior plan, find_batch k (ba_from_id merged) db) of
        (None, None) \<Rightarrow> Some (db\<lparr>bd_batches := bd_batches db @ [new_batch now k merged]\<rparr>)
      | (Some prior, Some cur) \<Rightarrow>
          if ba_hash (hb_body cur) \<noteq> ba_hash prior then None
          else if ba_hash merged = ba_hash prior then Some db
          else Some (db\<lparr>bd_batches := update_where (\<lambda>b. hb_key b = k \<and> hb_from_id b = ba_from_id merged)
                 (\<lambda>b. b\<lparr>hb_body := merged\<rparr>) (bd_batches db)\<rparr>)
      | _ \<Rightarrow> None)"

definition writes_body :: "save_plan \<Rightarrow> bridge_db \<Rightarrow> bool" where
  "writes_body plan db =
     (case (sp_prior plan, find_batch (sp_scope plan) (ba_from_id (sp_merged plan)) db) of
        (None, _) \<Rightarrow> True
      | (Some prior, Some cur) \<Rightarrow> ba_hash (hb_body cur) = ba_hash prior \<and> ba_hash (sp_merged plan) \<noteq> ba_hash prior
      | (Some _, None) \<Rightarrow> False)"

definition advance_backfill_job :: "timestamp \<Rightarrow> uuid \<Rightarrow> string \<Rightarrow> int option \<Rightarrow> bool \<Rightarrow> bridge_db \<Rightarrow> bridge_db" where
  "advance_backfill_job now account chat next_anchor finished db =
     clear_health (backfill_health_component account chat)
       (update_job (\<lambda>b. bf_account_uuid b = account \<and> bf_chat_key b = chat)
         (\<lambda>b. b\<lparr>bf_next_anchor := next_anchor, bf_state := (if finished then ''complete'' else ''pending''),
                bf_lease_until := None, bf_available_at := now, bf_retry_count := 0, bf_error_code := None,
                bf_capture_timeout := False, bf_updated_at := now\<rparr>) db)"

definition plan_current :: "save_plan \<Rightarrow> capture_job \<Rightarrow> bridge_db \<Rightarrow> bool" where
  "plan_current plan job db =
     (capture_context (bd_queue db) job = Some (sp_context plan) \<and>
      (case find_scope (sp_scope plan) db of
         None \<Rightarrow> False
       | Some sc \<Rightarrow> sc_generation sc = sc_generation (sp_row plan) \<and>
           sc_account_cursor sc = sc_account_cursor (sp_row plan)))"

text \<open>The writing transaction; \<open>failure\<close> is the database error of the body write, if it has one.\<close>

definition commit_save ::
  "timestamp \<Rightarrow> tx_failure option \<Rightarrow> capture_job \<Rightarrow> save_plan \<Rightarrow> int option \<Rightarrow> bool \<Rightarrow> bridge_db \<Rightarrow>
     bool capture_step \<times> bridge_db" where
  "commit_save now failure job plan next_anchor finished db =
     (if \<not> plan_current plan job db then (Returned False, release_capture now job db)
      else if find_lease now job db = None then (Returned False, db)
      else if \<not> provider_is_enabled ''zulip'' (bd_queue db) then (Returned False, release_capture now job db)
      else case (if writes_body plan db then failure else None) of
        Some e \<Rightarrow>
          (if is_statement_timeout (fst e) (Some (snd e))
           then Timed_Out \<lparr>wt_scope = sp_scope plan, wt_generation = sc_generation (sp_row plan)\<rparr>
           else Broken e, db)
      | None \<Rightarrow>
          (case swap_body now plan db of
             None \<Rightarrow> (Returned False, release_capture now job db)
           | Some db1 \<Rightarrow>
               (Returned True, advance_backfill_job now (cj_account_uuid job) (cj_chat_key job) next_anchor finished db1)))"

text \<open>\<open>others\<close> is what other transactions commit between the two.\<close>

definition save_history_batch ::
  "(string \<Rightarrow> string) \<Rightarrow> timestamp \<Rightarrow> timestamp \<Rightarrow> (bridge_db \<Rightarrow> bridge_db) \<Rightarrow> tx_failure option \<Rightarrow> capture_job \<Rightarrow> batch \<Rightarrow>
     int option \<Rightarrow> bool \<Rightarrow> bridge_db \<Rightarrow> bool capture_step \<times> bridge_db" where
  "save_history_batch sha256 now later others failure job incoming next_anchor finished db =
     (case plan_save sha256 job incoming db of
        Inl x \<Rightarrow> (Error x, db)
      | Inr None \<Rightarrow> (Returned False, release_capture now job db)
      | Inr (Some plan) \<Rightarrow> commit_save later failure job plan next_anchor finished (others db))"

definition running_job :: "uuid \<Rightarrow> string \<Rightarrow> backfill_row \<Rightarrow> bool" where
  "running_job account chat b = (bf_account_uuid b = account \<and> bf_chat_key b = chat \<and> bf_state b = ''running'')"

definition release_backfill_job :: "timestamp \<Rightarrow> uuid \<Rightarrow> string \<Rightarrow> bridge_db \<Rightarrow> bridge_db" where
  "release_backfill_job now account chat = update_job (running_job account chat) (transition_row now Release)"

definition defer_backfill_job :: "timestamp \<Rightarrow> uuid \<Rightarrow> string \<Rightarrow> timestamp \<Rightarrow> string \<Rightarrow> bridge_db \<Rightarrow> bridge_db" where
  "defer_backfill_job now account chat t code = update_job (running_job account chat) (transition_row now (Defer t code))"

definition fail_backfill_job :: "timestamp \<Rightarrow> uuid \<Rightarrow> string \<Rightarrow> string \<Rightarrow> bridge_db \<Rightarrow> bridge_db" where
  "fail_backfill_job now account chat code = update_job (running_job account chat) (transition_row now (Fail code))"

end
