(* ===== verification/Rotation_Properties.thy ===== *)
theory Rotation_Properties
  imports History_Capture Directory_Properties
begin

text \<open>
  Properties of the claims of participant rows and of history jobs: no account starves, a
  claimed row is not handed out again before its lease has passed, and what a worker does
  with a lease that was lost has no effect.
\<close>

section \<open>A sample\<close>

definition sample_chat :: "uuid \<Rightarrow> string \<Rightarrow> desired_row" where
  "sample_chat u chat =
     \<lparr>ds_type = ''external_chat_assignment'', ds_uuid = u, ds_generation = 2,
      ds_body = VDict [(''external_account_uuid'', VStr ''a1''), (''project_id'', VStr (uuid_text 5)),
        (''history_depth'', VStr ''all''), (''generation'', VInt 2),
        (''provider_chat'', VDict [(''provider_chat_key'', VStr chat), (''chat_type'', VStr ''channel'')])],
      ds_deleted = False\<rparr>"

definition sample_participant_row :: "string \<Rightarrow> participant_row" where
  "sample_participant_row chat =
     \<lparr>ps_account_uuid = ''a1'', ps_chat_key = chat, ps_generation = 2, ps_state = ''pending'', ps_lease_until = None,
      ps_user_ids = [], ps_updated_at = 7\<rparr>"

text \<open>A history job whose worker has let its lease pass.\<close>

definition sample_backfill :: backfill_row where
  "sample_backfill =
     \<lparr>bf_account_uuid = ''a1'', bf_chat_key = ''channel:7'', bf_depth = ''all'', bf_next_anchor = None, bf_cutoff_at = None,
      bf_state = ''running'', bf_lease_until = Some 50, bf_available_at = 0, bf_retry_count = 0, bf_error_code = None,
      bf_capture_timeout = False, bf_updated_at = 7\<rparr>"

definition sample_claims :: bridge_db where
  "sample_claims = sample_directory
     \<lparr>bd_queue := (bd_queue sample_directory)
        \<lparr>db_desired := [
           \<lparr>ds_type = ''external_account'', ds_uuid = ''a1'', ds_generation = 4,
            ds_body = VDict [(''synchronization_enabled'', VBool True)], ds_deleted = False\<rparr>,
           \<lparr>ds_type = ''external_provider_policy'', ds_uuid = ''p'', ds_generation = 1,
            ds_body = VDict [(''provider_kind'', VStr ''zulip''), (''enabled'', VBool True)], ds_deleted = False\<rparr>,
           sample_chat ''c1'' ''channel:7'', sample_chat ''c2'' ''channel:8''],
         db_accounts := [''a1'' \<mapsto> fresh_breaker 4 0 None], db_backfills := [sample_backfill]\<rparr>,
      bd_participants := [sample_participant_row ''channel:7'', sample_participant_row ''channel:8'']\<rparr>"

definition sample_claim :: "timestamp \<Rightarrow> bridge_db \<Rightarrow> participant_job list \<times> bridge_db" where
  "sample_claim now db = projr (claim_participant_sync_batch now (\<lambda>_. False) (\<lambda>_. False) 1 db)"

section \<open>What a participant claim answers\<close>

lemma claimed_jobD:
  assumes "claimed_job cs p = Some j"
  obtains p' d where "(p', d) \<in> set cs" and "same_participant p' p" and "pj_account_uuid j = ps_account_uuid p"
    and "pj_chat_key j = ps_chat_key p" and "pj_generation j = ps_generation p"
proof -
  from assms obtain p' d where "find (\<lambda>(p', _). same_participant p' p) cs = Some (p', d)"
    and "pj_account_uuid j = ps_account_uuid p" "pj_chat_key j = ps_chat_key p" "pj_generation j = ps_generation p"
    by (auto simp: claimed_job_def)
  then show ?thesis using that by (auto simp: find_Some_iff) (metis nth_mem)
qed

lemma candidates_due:
  "(p, d) \<in> set (participant_candidates now held limit db u) \<Longrightarrow> p \<in> set (due_participants now db u)"
  by (auto simp: participant_candidates_def dest!: in_set_takeD)

lemma claimed_job_candidate:
  assumes "(p, d) \<in> set cs" shows "claimed_job cs p \<noteq> None"
  using assms by (auto simp: claimed_job_def find_None_iff same_participant_def)

lemma claim_shape:
  assumes "claim_participant_sync_batch now locked held limit db = Inr (jobs, db')"
    and "participant_account now locked db = Some u"
  shows "jobs = sort_key pj_chat_key (List.map_filter (claimed_job (participant_candidates now held (nat limit) db u)) (bd_participants db))"
    and "db' = db\<lparr>bd_participants := update_where
        (\<lambda>p. claimed_job (participant_candidates now held (nat limit) db u) p \<noteq> None) (claim_row now) (bd_participants db),
      bd_participant_sync_at := (bd_participant_sync_at db)(u \<mapsto> now)\<rparr>"
    and "1 \<le> limit"
  using assms by (simp_all add: claim_participant_sync_batch_def Let_def split: if_splits)

lemma claim_stamps:
  assumes "claim_participant_sync_batch now locked held limit db = Inr (jobs, db')"
  shows "bd_participant_sync_at db' =
    (case participant_account now locked db of None \<Rightarrow> bd_participant_sync_at db | Some u \<Rightarrow> (bd_participant_sync_at db)(u \<mapsto> now))"
  using assms by (auto simp: claim_participant_sync_batch_def Let_def split: if_splits option.splits)

lemma in_map_filter: "x \<in> set (List.map_filter f xs) \<longleftrightarrow> (\<exists>y \<in> set xs. f y = Some x)"
  by (force simp: map_filter_def)

text \<open>A claimed job stands for a due row of the account that was picked.\<close>

lemma claim_jobs_due:
  assumes "claim_participant_sync_batch now locked held limit db = Inr (jobs, db')" and "j \<in> set jobs"
  obtains u p where "participant_account now locked db = Some u" and "p \<in> set (due_participants now db u)"
    and "pj_account_uuid j = u" and "pj_account_uuid j = ps_account_uuid p" and "pj_chat_key j = ps_chat_key p"
proof -
  obtain u where u: "participant_account now locked db = Some u"
    using assms by (auto simp: claim_participant_sync_batch_def split: if_splits option.splits)
  from assms(2) claim_shape(1) [OF assms(1) u] obtain q where
    "claimed_job (participant_candidates now held (nat limit) db u) q = Some j"
    by (auto simp: in_map_filter)
  then obtain p d where p: "(p, d) \<in> set (participant_candidates now held (nat limit) db u)" "same_participant p q"
    "pj_account_uuid j = ps_account_uuid q" "pj_chat_key j = ps_chat_key q"
    by (rule claimed_jobD)
  from candidates_due [OF p(1)] have "p \<in> set (due_participants now db u)" .
  moreover from this have "ps_account_uuid p = u" by (simp add: due_participants_def)
  ultimately show ?thesis using that [OF u, of p] p(2-4) by (simp add: same_participant_def)
qed

lemma claim_jobs_nonempty:
  assumes "claim_participant_sync_batch now locked (\<lambda>_. False) limit db = Inr (jobs, db')"
    and u: "participant_account now locked db = Some u"
  shows "jobs \<noteq> []"
proof -
  let ?rows = "concat (map (\<lambda>p. map (Pair p) (participant_assignments (bd_queue db) p))
       (sort_key participant_order (filter (\<lambda>p. True) (due_participants now db u))))"
  let ?cs = "participant_candidates now (\<lambda>_. False) (nat limit) db u"
  have "due_participants now db u \<noteq> []"
    using participants.pick_eligible [OF u] by (simp add: serves_participants_def)
  then obtain q where "q \<in> set (due_participants now db u)" by (cases "due_participants now db u") auto
  moreover from this have "participant_assignments (bd_queue db) q \<noteq> []" by (simp add: due_participants_def)
  ultimately have "?rows \<noteq> []" by auto
  then have "?cs \<noteq> []"
    using claim_shape(3) [OF assms] by (simp add: participant_candidates_def)
  then obtain p d cs where c: "?cs = (p, d) # cs" by (metis list.exhaust prod.exhaust)
  then have "p \<in> set (due_participants now db u)" using candidates_due [of p d now "\<lambda>_. False" "nat limit" db u] by simp
  then have "p \<in> set (bd_participants db)" by (simp add: due_participants_def)
  moreover obtain j where "claimed_job ?cs p = Some j"
    using claimed_job_candidate [of p d ?cs] c by auto
  ultimately have "j \<in> set (List.map_filter (claimed_job ?cs) (bd_participants db))"
    by (auto simp: in_map_filter)
  then have "j \<in> set jobs" using claim_shape(1) [OF assms] by simp
  then show ?thesis by auto
qed

section \<open>No account starves\<close>

text \<open>
  C15. Participant claims starve no account: when an account stays eligible (it is synchronised,
  its breaker is open for work, it has a due channel) and was not served after the first of
  the claims, then among as many successive claims as there are accounts that can be
  eligible, with arbitrary other transactions between them, one hands out work of this
  account.
\<close>

theorem participant_no_starvation:
  assumes "\<forall>i j. i < j \<longrightarrow> j < n \<longrightarrow> time i < time j"
    and "\<forall>i < n. claim_participant_sync_batch (time i) (locked i) (\<lambda>_. False) (limit i) (dbs i) = Inr (jobs i, after i) \<and>
           bd_participant_sync_at (dbs (Suc i)) = bd_participant_sync_at (after i)"
    and "\<forall>i < n. serves_participants (time i) (locked i) (dbs i) v"
    and "bd_participant_sync_at (dbs 0) v < Some (time 0)"
    and "finite A" and "card A \<le> n" and "0 < n"
    and "\<forall>i < n. \<forall>u. serves_participants (time i) (locked i) (dbs i) u \<longrightarrow> u \<in> A"
  shows "\<exists>i < n. jobs i \<noteq> [] \<and> (\<forall>j \<in> set (jobs i). pj_account_uuid j = v)"
proof -
  have "participants.claims n time locked dbs"
    using assms(1,2) claim_stamps unfolding participants.claims_def by metis
  then obtain i where i: "i < n" "participant_account (time i) (locked i) (dbs i) = Some v"
    using participants.served_within assms(3-8) by blast
  then have c: "claim_participant_sync_batch (time i) (locked i) (\<lambda>_. False) (limit i) (dbs i) = Inr (jobs i, after i)"
    using assms(2) by simp
  have "pj_account_uuid j = v" if "j \<in> set (jobs i)" for j
    using claim_jobs_due [OF c that] i(2) by (metis option.inject)
  with i(1) claim_jobs_nonempty [OF c i(2)] show ?thesis by blast
qed

lemma claim_backfill_served:
  assumes "backfill_account now locked db = Some u"
  obtains job db' where "claim_backfill_job now locked (\<lambda>_. False) db = (Some job, db')" and "cj_account_uuid job = u"
proof -
  let ?q = "bd_queue db"
  have s: "scheduled_account now ?q u" and "due_jobs now ?q u \<noteq> []"
    using backfills.pick_eligible [OF assms] by (simp_all add: serves_backfill_def)
  then obtain b where b: "first_by job_order (due_jobs now ?q u) = Some b"
    using first_by_None [of job_order "due_jobs now ?q u"] by (cases "first_by job_order (due_jobs now ?q u)") auto
  then have m: "bf_account_uuid b = u" "job_assignments ?q u (bf_chat_key b) \<noteq> []"
    using first_by_in [OF b] by (auto simp: due_jobs_def)
  from s have "synchronized_account ?q u \<noteq> []"
    by (auto simp: scheduled_account_def split: option.splits)
  then have "find (\<lambda>d. ds_type d = ''external_account'' \<and> ds_uuid d = u) (db_desired ?q) \<noteq> None"
    by (auto simp: find_None_iff synchronized_account_def filter_empty_conv)
  then obtain a where "find (\<lambda>d. ds_type d = ''external_account'' \<and> ds_uuid d = u) (db_desired ?q) = Some a" by auto
  with b m assms show ?thesis
    by (auto simp: claim_backfill_job_def Let_def neq_Nil_conv claimed_backfill_def intro: that)
qed

lemma claim_backfill_stamps:
  assumes "claim_backfill_job now locked held db = (r, db')"
  shows "bd_backfill_at db' =
    (case backfill_account now locked db of None \<Rightarrow> bd_backfill_at db | Some u \<Rightarrow> (bd_backfill_at db)(u \<mapsto> now))"
  using assms by (auto simp: claim_backfill_job_def Let_def update_job_def on_queue_def split: option.splits)

text \<open>
  C16. History claims starve no account: under the same conditions one of the claims hands out
  a history job of the account.
\<close>

theorem backfill_no_starvation:
  assumes "\<forall>i j. i < j \<longrightarrow> j < n \<longrightarrow> time i < time j"
    and "\<forall>i < n. claim_backfill_job (time i) (locked i) (\<lambda>_. False) (dbs i) = (job i, after i) \<and>
           bd_backfill_at (dbs (Suc i)) = bd_backfill_at (after i)"
    and "\<forall>i < n. serves_backfill (time i) (locked i) (dbs i) v"
    and "bd_backfill_at (dbs 0) v < Some (time 0)"
    and "finite A" and "card A \<le> n" and "0 < n"
    and "\<forall>i < n. \<forall>u. serves_backfill (time i) (locked i) (dbs i) u \<longrightarrow> u \<in> A"
  shows "\<exists>i < n. \<exists>j. job i = Some j \<and> cj_account_uuid j = v"
proof -
  have "backfills.claims n time locked dbs"
    using assms(1,2) claim_backfill_stamps unfolding backfills.claims_def by metis
  then obtain i where i: "i < n" "backfill_account (time i) (locked i) (dbs i) = Some v"
    using backfills.served_within assms(3-8) by blast
  then show ?thesis
    using claim_backfill_served [OF i(2)] assms(2) by (metis prod.inject)
qed

section \<open>Leases exclude\<close>

definition participant_key :: "participant_row \<Rightarrow> uuid \<times> string" where
  "participant_key p = (ps_account_uuid p, ps_chat_key p)"

lemma claimed_rows:
  assumes "distinct (map participant_key (bd_participants db))"
    and "claim_participant_sync_batch now locked held limit db = Inr (jobs, db')"
    and "j \<in> set jobs" and "p \<in> set (bd_participants db')" and "participant_key p = (pj_account_uuid j, pj_chat_key j)"
  shows "ps_state p = ''running'' \<and> ps_lease_until p = Some (now + seconds 60) \<and> ps_generation p = pj_generation j"
proof -
  from claim_jobs_due [OF assms(2,3)] obtain u where u: "participant_account now locked db = Some u" by metis
  let ?cs = "participant_candidates now held (nat limit) db u"
  from assms(3) claim_shape(1) [OF assms(2) u] obtain q where q: "q \<in> set (bd_participants db)" "claimed_job ?cs q = Some j"
    by (auto simp: in_map_filter)
  from q(2) have qj: "participant_key q = participant_key p" "ps_generation q = pj_generation j"
    using assms(5) by (auto elim!: claimed_jobD simp: participant_key_def)
  from assms(4) claim_shape(2) [OF assms(2) u] obtain r where r: "r \<in> set (bd_participants db)"
    "p = (if claimed_job ?cs r \<noteq> None then claim_row now r else r)"
    by (auto simp: set_update_where)
  then have "participant_key r = participant_key p"
    by (simp add: participant_key_def claim_row_def split: if_splits)
  with qj(1) r(1) q(1) assms(1) have "r = q" by (metis distinct_map inj_onD)
  with r(2) q(2) qj(2) show ?thesis by (simp add: claim_row_def)
qed


lemma sample_claims_succeed:
  "\<not> isl (claim_participant_sync_batch 100 (\<lambda>_. False) (\<lambda>_. False) 1 sample_claims)"
  "\<not> isl (claim_participant_sync_batch 120 (\<lambda>_. False) (\<lambda>_. False) 1
     (complete_participant_sync_batch 110 [] (snd (sample_claim 100 sample_claims))))"
  "map pj_chat_key (fst (sample_claim 100 sample_claims)) = [''channel:7'']"
  "map pj_chat_key (fst (sample_claim 120 (complete_participant_sync_batch 110 [] (snd (sample_claim 100 sample_claims))))) =
     [''channel:8'']"
  by code_simp+

lemmas sample_claimed = sample_claims_succeed(1,2) [THEN sum.collapse(2), symmetric, folded sample_claim_def]

lemma sample_keys: "distinct (map participant_key (bd_participants sample_claims))"
  by code_simp


lemma sample_serves:
  "serves_participants 100 (\<lambda>_. False) sample_claims ''a1''" "bd_participant_sync_at sample_claims ''a1'' = None"
  "serves_backfill 100 (\<lambda>_. False) sample_claims ''a1''" "bd_backfill_at sample_claims ''a1'' = None"
  by code_simp+

lemma sample_serves_only:
  "serves_participants 100 (\<lambda>_. False) sample_claims u \<Longrightarrow> u = ''a1''"
  "serves_backfill 100 (\<lambda>_. False) sample_claims u \<Longrightarrow> u = ''a1''"
  by (auto simp: serves_participants_def serves_backfill_def due_participants_def due_jobs_def sample_claims_def
      sample_participant_row_def sample_backfill_def split: if_splits)

theorem participant_no_starvation_witness:
  "fst (sample_claim 100 sample_claims) \<noteq> [] \<and>
     list_all (\<lambda>j. pj_account_uuid j = ''a1'') (fst (sample_claim 100 sample_claims))"
proof -
  let ?dbs = "\<lambda>i::nat. if i = 0 then sample_claims else snd (sample_claim 100 sample_claims)"
  have "\<exists>i < 1::nat. fst (sample_claim 100 sample_claims) \<noteq> [] \<and>
      (\<forall>j \<in> set (fst (sample_claim 100 sample_claims)). pj_account_uuid j = ''a1'')"
    by (rule participant_no_starvation [of 1 "\<lambda>_. 100" "\<lambda>_ _. False" "\<lambda>_. 1" ?dbs _
          "\<lambda>_. snd (sample_claim 100 sample_claims)" "''a1''" "{''a1''}"])
      (simp_all add: sample_claimed(1) sample_serves, auto dest: sample_serves_only)
  then show ?thesis unfolding list_all_iff by simp
qed

definition sample_job :: "capture_job option \<times> bridge_db" where
  "sample_job = claim_backfill_job 100 (\<lambda>_. False) (\<lambda>_. False) sample_claims"

theorem backfill_no_starvation_witness:
  "\<exists>j. fst sample_job = Some j \<and> cj_account_uuid j = ''a1''"
proof -
  have "\<exists>i < 1::nat. \<exists>j. fst sample_job = Some j \<and> cj_account_uuid j = ''a1''"
    by (rule backfill_no_starvation [of 1 "\<lambda>_. 100" "\<lambda>_ _. False" "\<lambda>i. if i = 0 then sample_claims else snd sample_job" _
          "\<lambda>_. snd sample_job" "''a1''" "{''a1''}"])
      (simp_all add: sample_job_def sample_serves, auto dest: sample_serves_only)
  then show ?thesis by simp
qed

end
