(* ===== verification/Capture_Pass.thy ===== *)
theory Capture_Pass
  imports History_Capture
begin

text \<open>
  One pass of the history loop (\<open>run_backfill_once\<close> and \<open>_fail_history_capture\<close> of \<open>service.py\<close>,
  \<open>keep_capture_lease_alive\<close> of \<open>history.py\<close>): claim a job, read a range under a lease that a
  thread keeps renewing, build the batch and save it, with every exception branch. The steps
  of the pass are transactions of their own; what others commit between them is an argument.
\<close>

section \<open>Parameters\<close>

text \<open>
  \<open>xe_others n\<close> is what other transactions commit before step \<open>n\<close>, \<open>xe_failure n\<close> the database error
  that ends it; 3 is the save as a whole and 4 its body write. \<open>xe_renewals\<close> are the instants at which the renewing thread reached the database
  while the range was read, each with the changes others made before it; \<open>xe_joined\<close> tells
  that the thread ended in time.
\<close>

record capture_env =
  xe_clock :: "nat \<Rightarrow> timestamp"
  xe_locked :: "uuid \<Rightarrow> bool"
  xe_held :: "backfill_row \<Rightarrow> bool"
  xe_others :: "nat \<Rightarrow> bridge_db \<Rightarrow> bridge_db"
  xe_failure :: "nat \<Rightarrow> tx_failure option"
  xe_renewals :: "((bridge_db \<Rightarrow> bridge_db) \<times> timestamp) list"
  xe_joined :: bool
  xe_adapters :: "uuid \<Rightarrow> adapter outcome"
  xe_range :: "uuid \<Rightarrow> string \<Rightarrow> int option \<Rightarrow> history_range outcome"
  xe_users :: "uuid \<Rightarrow> dict list \<Rightarrow> dict list outcome"
  xe_uniform :: "int \<Rightarrow> int"
  xe_sha256 :: "string \<Rightarrow> string"

text \<open>The renewing thread ends at the first renewal that finds the lease gone.\<close>

fun keep_capture_lease_alive ::
  "((bridge_db \<Rightarrow> bridge_db) \<times> timestamp) list \<Rightarrow> capture_job \<Rightarrow> bridge_db \<Rightarrow> bool \<times> capture_job \<times> bridge_db" where
  "keep_capture_lease_alive [] job db = (True, job, db)"
| "keep_capture_lease_alive ((others, now) # ticks) job db =
     (case renew_history_capture_lease now job (others db) of
        (None, db') \<Rightarrow> (False, job, db')
      | (Some job', db') \<Rightarrow> keep_capture_lease_alive ticks job' db')"

section \<open>Errors\<close>

definition deferral_ceiling :: "int \<Rightarrow> int" where
  "deferral_ceiling attempts = min (seconds 300) (seconds (2 ^ nat (min (attempts - 1) 8)))"

definition failure_transition :: "capture_env \<Rightarrow> capture_job \<Rightarrow> zulip_error \<Rightarrow> capture_transition" where
  "failure_transition e job err =
     (if provider_auth_error (ze_code err) then Release
      else if ze_retryable err
      then Defer (xe_clock e 5 + xe_uniform e (deferral_ceiling (cj_retry_count job + 1))) (ze_code err)
      else Fail (ze_code err))"

text \<open>
  The transition is fenced by the exact lease and the generations of the claim; only when it
  happened, the breaker of the account hears of the error. For an error that is neither of
  authentication nor retryable the handler reports nothing, and the pass itself does.
\<close>

definition fail_history_capture ::
  "capture_env \<Rightarrow> bool \<Rightarrow> capture_job \<Rightarrow> adapter option \<Rightarrow> zulip_error \<Rightarrow> bridge_db \<Rightarrow>
     bool capture_step \<times> account_report option \<times> bridge_db" where
  "fail_history_capture e contain job ad err db =
     (case xe_failure e 6 of
        Some x \<Rightarrow> (if contain \<and> retryable_database_error x then Returned True else Broken x, None, db)
      | None \<Rightarrow>
          (case transition_history_capture (xe_clock e 6) job (failure_transition e job err) db of
             (False, db1) \<Rightarrow> (Returned True, None, db1)
           | (True, db1) \<Rightarrow>
               (case lift_queue (handle_provider_account_error (xe_clock e 7) (xe_uniform e) (cj_account_uuid job) err
                        (adapter_generation ad)) db1 of
                  (Inl x, db2) \<Rightarrow> (Error x, None, db2)
                | (Inr (_, report), db2) \<Rightarrow>
                    (Returned True,
                     if \<not> provider_auth_error (ze_code err) \<and> \<not> ze_retryable err
                     then Some \<lparr>ar_account_uuid = cj_account_uuid job, ar_status = ''degraded'', ar_code = ze_code err,
                            ar_generation = Some (cj_account_generation job)\<rparr>
                     else report, db2))))"

fun is_value_error :: "pyerror \<Rightarrow> bool" where
  "is_value_error (ValueErr _) = True"
| "is_value_error (InvalidCanonicalValue _) = True"
| "is_value_error _ = False"

definition invalid_snapshot :: zulip_error where
  "invalid_snapshot = \<lparr>ze_code = ''invalid_history_snapshot'', ze_retryable = False, ze_generation = None\<rparr>"

text \<open>The exception clauses after the claim, for each way a step inside the block can end.\<close>

definition capture_raised ::
  "capture_env \<Rightarrow> capture_job \<Rightarrow> adapter option \<Rightarrow> pyerror \<Rightarrow> bridge_db \<Rightarrow>
     bool capture_step \<times> account_report option \<times> bridge_db" where
  "capture_raised e job ad x db =
     (if is_value_error x then fail_history_capture e False job ad invalid_snapshot db else (Error x, None, db))"

definition capture_broken ::
  "capture_env \<Rightarrow> capture_job \<Rightarrow> tx_failure \<Rightarrow> bridge_db \<Rightarrow> bool capture_step \<times> account_report option \<times> bridge_db" where
  "capture_broken e job x db =
     (if \<not> retryable_database_error x then (Broken x, None, db)
      else case xe_failure e 6 of
        Some y \<Rightarrow> (if retryable_database_error y then Returned True else Broken y, None, db)
      | None \<Rightarrow> (Returned True, None, snd (transition_history_capture (xe_clock e 6) job Release db)))"

definition capture_timed_out_write ::
  "capture_env \<Rightarrow> capture_job \<Rightarrow> write_timeout \<Rightarrow> bridge_db \<Rightarrow> bool capture_step \<times> account_report option \<times> bridge_db" where
  "capture_timed_out_write e job t db =
     (case xe_failure e 6 of
        Some y \<Rightarrow> (if retryable_database_error y then Returned True else Broken y, None, db)
      | None \<Rightarrow> (Returned True, None, snd (defer_history_capture_write (xe_clock e 6) job t db)))"

definition capture_failed ::
  "capture_env \<Rightarrow> capture_job \<Rightarrow> adapter option \<Rightarrow> 'a outcome \<Rightarrow> bridge_db \<Rightarrow>
     bool capture_step \<times> account_report option \<times> bridge_db" where
  "capture_failed e job ad r db =
     (case r of
        Failed err \<Rightarrow> fail_history_capture e True job ad err db
      | Raised x \<Rightarrow> capture_raised e job ad x db
      | Ambiguous m \<Rightarrow> (Error (DatabaseErr m), None, db)
      | Done _ \<Rightarrow> (Returned True, None, db))"

section \<open>The pass\<close>

text \<open>
  The messages a depth admits; a range that has an older one is the last. Python's
  \<open>fromtimestamp\<close> ends with the year 9999.
\<close>

definition message_instant :: "dict \<Rightarrow> timestamp result" where
  "message_instant m =
     bindE (item m ''timestamp'') (\<lambda>v.
       case v of
         VInt s \<Rightarrow> if s < 253402300800 then Inr (seconds s) else Inl (ValueErr ''year is out of range'')
       | _ \<Rightarrow> Inl TypeErr)"

definition eligible_messages :: "timestamp \<Rightarrow> dict list \<Rightarrow> dict list result" where
  "eligible_messages limit messages =
     bindE (mapE (\<lambda>m. bindE (message_instant m) (\<lambda>t. Inr (m, t))) messages) (\<lambda>ms.
     Inr (map fst (filter (\<lambda>(_, t). limit \<le> t) ms)))"

definition depth_batch ::
  "(string \<Rightarrow> string) \<Rightarrow> timestamp option \<Rightarrow> history_range \<Rightarrow> dict list \<Rightarrow> int \<Rightarrow> (batch \<times> bool) result" where
  "depth_batch sha256 limit page users observer =
     bindE (make_batch sha256 page users observer) (\<lambda>b.
     case limit of
       None \<Rightarrow> Inr (b, False)
     | Some c \<Rightarrow>
         bindE (eligible_messages c (hr_messages page)) (\<lambda>ms.
         bindE (make_batch sha256 (page\<lparr>hr_messages := ms, hr_next_anchor := None\<rparr>) users observer) (\<lambda>b'.
         Inr (b', length ms \<noteq> length (hr_messages page)))))"

definition save_range ::
  "capture_env \<Rightarrow> capture_job \<Rightarrow> adapter \<Rightarrow> history_range \<Rightarrow> dict list \<Rightarrow> int \<Rightarrow> bridge_db \<Rightarrow>
     bool capture_step \<times> account_report option \<times> bridge_db" where
  "save_range e job ad page users observer db =
     (case depth_batch (xe_sha256 e) (cj_cutoff_at job) page users observer of
        Inl x \<Rightarrow> capture_raised e job (Some ad) x db
      | Inr (b, reached) \<Rightarrow>
          let finished = (hr_next_anchor page = None \<or> reached) in
          case xe_failure e 3 of
            Some x \<Rightarrow> capture_broken e job x (xe_others e 6 db)
          | None \<Rightarrow>
          (case save_history_batch (xe_sha256 e) (xe_clock e 3) (xe_clock e 4) (xe_others e 4) (xe_failure e 4) job b
                  (if finished then None else hr_next_anchor page) finished (xe_others e 3 db) of
             (Returned False, db1) \<Rightarrow> (Returned False, None, db1)
           | (Returned True, db1) \<Rightarrow>
               (case lift_queue (record_account_success_handler (xe_clock e 5) (cj_account_uuid job)
                        (adapter_generation (Some ad))) db1 of
                  (Inl x, db2) \<Rightarrow> (Error x, None, db2)
                | (Inr _, db2) \<Rightarrow> (Returned True, None, db2))
           | (Timed_Out t, db1) \<Rightarrow> capture_timed_out_write e job t (xe_others e 6 db1)
           | (Broken x, db1) \<Rightarrow> capture_broken e job x (xe_others e 6 db1)
           | (Error x, db1) \<Rightarrow> capture_raised e job (Some ad) x (xe_others e 6 db1)))"

definition read_range ::
  "capture_env \<Rightarrow> capture_job \<Rightarrow> adapter \<Rightarrow> bridge_db \<Rightarrow> bool capture_step \<times> account_report option \<times> bridge_db" where
  "read_range e job ad db =
     (case keep_capture_lease_alive (xe_renewals e) job db of
        (alive, job', db1) \<Rightarrow>
          (case xe_range e (cj_account_uuid job) (cj_chat_key job) (cj_next_anchor job) of
             Done page \<Rightarrow>
               (case xe_users e (cj_account_uuid job) (hr_messages page) of
                  Done users \<Rightarrow>
                    if \<not> (alive \<and> xe_joined e) then (Returned False, None, db1)
                    else (case Option.bind (provider_event_cursor (cj_account_uuid job) db1) cu_owner_user_id of
                            None \<Rightarrow> (Returned False, None,
                              release_backfill_job (xe_clock e 2) (cj_account_uuid job) (cj_chat_key job) db1)
                          | Some owner \<Rightarrow>
                              (case int_of (VStr owner) of
                                 Inl x \<Rightarrow> capture_raised e job' (Some ad) x db1
                               | Inr observer \<Rightarrow> save_range e job' ad page users observer db1))
                | r \<Rightarrow> capture_failed e job' (Some ad) r db1)
           | r \<Rightarrow> capture_failed e job' (Some ad) r db1))"

definition run_backfill_once :: "capture_env \<Rightarrow> bridge_db \<Rightarrow> bool capture_step \<times> account_report option \<times> bridge_db" where
  "run_backfill_once e db =
     (case claim_backfill_job (xe_clock e 0) (xe_locked e) (xe_held e) db of
        (None, db1) \<Rightarrow> (Returned False, None, db1)
      | (Some job, db1) \<Rightarrow>
          let account = cj_account_uuid job in
          if \<not> account_is_active account (bd_queue db1)
          then (Returned False, None, release_backfill_job (xe_clock e 1) account (cj_chat_key job) db1)
          else (case xe_adapters e account of
                  Done ad \<Rightarrow> read_range e job ad db1
                | r \<Rightarrow> capture_failed e job None r db1))"

end
