(* ===== verification/Batch_Digest.thy ===== *)
theory Batch_Digest
  imports History
begin

text \<open>
  The digest of a batch binds its content: the canonical encoding of batches is injective, so
  that two well-formed batches with the same hash are the same, unless SHA-256 collides on their encodings.
\<close>

section \<open>Members of encoded dictionaries\<close>

text \<open>Two texts collide when they differ and their digests do not. The lemmas below exclude it of the texts at hand only.\<close>

definition collide :: "(string \<Rightarrow> string) \<Rightarrow> string \<Rightarrow> string \<Rightarrow> bool" where
  "collide sha256 x y = (x \<noteq> y \<and> sha256 x = sha256 y)"

lemma not_collide_id [simp]: "\<not> collide id x y"
  by (simp add: collide_def)

lemma member_agrees:
  assumes "sort_keys (VDict d) = sort_keys (VDict e)" and "distinct (map fst d)" and "distinct (map fst e)"
    and "map_of d k = Some a" and "map_of e k = Some b"
  shows "sort_keys a = sort_keys b"
  using sorted_dicts_agree [OF assms] .

lemma sorted_list_inj:
  assumes "\<And>x y. sort_keys (f x) = sort_keys (f y) \<Longrightarrow> x = y"
  shows "sort_keys (VList (map f xs)) = sort_keys (VList (map f ys)) \<longleftrightarrow> xs = ys"
proof -
  have "inj (sort_keys \<circ> f)" using assms by (auto intro: injI)
  then have "map (sort_keys \<circ> f) xs = map (sort_keys \<circ> f) ys \<longleftrightarrow> xs = ys" by (rule inj_map_eq_map)
  then show ?thesis by simp
qed

lemma user_value_inj: "sort_keys (user_value u) = sort_keys (user_value w) \<Longrightarrow> u = w"
  unfolding user_value_def
  using member_agrees [of _ _ "''id''"] member_agrees [of _ _ "''name''"]
  by (intro hist_user.equality) (fastforce+)

lemma reaction_value_inj: "sort_keys (reaction_value u) = sort_keys (reaction_value w) \<Longrightarrow> u = w"
  unfolding reaction_value_def
  using member_agrees [of _ _ "''user_id''"] member_agrees [of _ _ "''reaction_type''"]
    member_agrees [of _ _ "''emoji_code''"] member_agrees [of _ _ "''emoji_name''"]
  by (intro reaction_item.equality) (fastforce+)

lemma access_value_inj: "sort_keys (access_value u) = sort_keys (access_value w) \<Longrightarrow> u = w"
  unfolding access_value_def
  using member_agrees [of _ _ "''user_id''"] member_agrees [of _ _ "''read''"] member_agrees [of _ _ "''starred''"]
  by (intro access_item.equality) (fastforce+)

lemma snapshot_keys: "distinct (map fst (snapshot_members s @ [(''hash'', VStr h)]))"
  by (cases "sn_location s") (simp_all add: snapshot_members_def)

lemma snapshot_lookup:
  "map_of (snapshot_members s @ [(''hash'', VStr h)]) ''id'' = Some (VInt (sn_id s))"
  "map_of (snapshot_members s @ [(''hash'', VStr h)]) ''sender_id'' = Some (VInt (sn_sender_id s))"
  "map_of (snapshot_members s @ [(''hash'', VStr h)]) ''sent_at'' = Some (VInt (sn_sent_at s))"
  "map_of (snapshot_members s @ [(''hash'', VStr h)]) ''content'' = Some (VStr (sn_content s))"
  "map_of (snapshot_members s @ [(''hash'', VStr h)]) ''reactions'' = Some (VList (map reaction_value (sn_reactions s)))"
  "map_of (snapshot_members s @ [(''hash'', VStr h)]) ''access'' = Some (VList (map access_value (sn_access s)))"
  "map_of (snapshot_members s @ [(''hash'', VStr h)]) ''hash'' = Some (VStr h)"
  by (cases "sn_location s"; simp add: snapshot_members_def)+

lemma snapshot_location_lookup:
  "map_of (snapshot_members s @ t) ''channel_id'' =
     Some (case sn_location s of Stream_Location c _ _ \<Rightarrow> VInt c | Private_Location _ \<Rightarrow> VNone)"
  "map_of (snapshot_members s @ t) ''channel_name'' =
     Some (case sn_location s of Stream_Location _ n _ \<Rightarrow> VStr n | Private_Location _ \<Rightarrow> VNone)"
  "map_of (snapshot_members s @ t) ''topic'' =
     Some (case sn_location s of Stream_Location _ _ n \<Rightarrow> VStr n | Private_Location _ \<Rightarrow> VNone)"
  "sn_location s = Private_Location ids \<Longrightarrow> map_of (snapshot_members s @ t) ''recipient_ids'' = Some (VList (map VInt ids))"
  by (cases "sn_location s"; simp add: snapshot_members_def)+

lemma snapshot_value_inj:
  assumes "sort_keys (snapshot_value s) = sort_keys (snapshot_value t)"
  shows "s = t"
proof -
  note agree = member_agrees [OF assms [unfolded snapshot_value_def] snapshot_keys snapshot_keys]
  have "sn_id s = sn_id t" "sn_sender_id s = sn_sender_id t" "sn_sent_at s = sn_sent_at t"
    "sn_content s = sn_content t" "sn_hash s = sn_hash t"
    using agree [OF snapshot_lookup(1) snapshot_lookup(1)] agree [OF snapshot_lookup(2) snapshot_lookup(2)]
      agree [OF snapshot_lookup(3) snapshot_lookup(3)] agree [OF snapshot_lookup(4) snapshot_lookup(4)]
      agree [OF snapshot_lookup(7) snapshot_lookup(7)] by simp_all
  moreover have "sn_reactions s = sn_reactions t"
    using agree [OF snapshot_lookup(5) snapshot_lookup(5)] sorted_list_inj [of reaction_value] reaction_value_inj by blast
  moreover have "sn_access s = sn_access t"
    using agree [OF snapshot_lookup(6) snapshot_lookup(6)] sorted_list_inj [of access_value] access_value_inj by blast
  moreover have "ids = ids'" if "sn_location s = Private_Location ids" "sn_location t = Private_Location ids'" for ids ids'
    using agree [OF snapshot_location_lookup(4) [OF that(1)] snapshot_location_lookup(4) [OF that(2)]]
      inj_map_eq_map [of VInt ids ids'] by (simp add: comp_def inj_def)
  then have "sn_location s = sn_location t"
    using agree [OF snapshot_location_lookup(1) snapshot_location_lookup(1)]
      agree [OF snapshot_location_lookup(2) snapshot_location_lookup(2)]
      agree [OF snapshot_location_lookup(3) snapshot_location_lookup(3)]
    by (cases "sn_location s"; cases "sn_location t") simp_all
  ultimately show ?thesis by (intro snapshot.equality) simp_all
qed

lemma batch_value_inj:
  assumes "sort_keys (batch_value b) = sort_keys (batch_value c)"
  shows "b\<lparr>ba_hash := h\<rparr> = c\<lparr>ba_hash := h\<rparr>"
proof -
  have d: "distinct (map fst [(''from_id'', VInt (ba_from_id x)), (''to_id'', VInt (ba_to_id x)),
      (''users'', VList (map user_value (ba_users x))), (''messages'', VList (map snapshot_value (ba_messages x)))])" for x
    by simp
  note agree = member_agrees [OF assms [unfolded batch_value_def] d d]
  have "ba_from_id b = ba_from_id c" "ba_to_id b = ba_to_id c"
    using agree [of "''from_id''" "VInt (ba_from_id b)" "VInt (ba_from_id c)"]
      agree [of "''to_id''" "VInt (ba_to_id b)" "VInt (ba_to_id c)"] by simp_all
  moreover have "ba_users b = ba_users c"
    using agree [of "''users''" "VList (map user_value (ba_users b))" "VList (map user_value (ba_users c))"]
      sorted_list_inj [of user_value] user_value_inj by simp
  moreover have "ba_messages b = ba_messages c"
    using agree [of "''messages''" "VList (map snapshot_value (ba_messages b))" "VList (map snapshot_value (ba_messages c))"]
      sorted_list_inj [of snapshot_value] snapshot_value_inj by simp
  ultimately show ?thesis by (intro batch.equality) simp_all
qed

section \<open>Encoded batches are plain\<close>

lemma plain_batch: "plain (batch_value b)"
proof -
  have "plain (user_value u)" for u by (simp add: user_value_def)
  moreover have "plain (snapshot_value s)" for s
    by (cases "sn_location s")
      (simp_all add: snapshot_value_def snapshot_members_def plain_items_iff plain_members_iff reaction_value_def access_value_def)
  ultimately show ?thesis by (auto simp: batch_value_def plain_items_iff)
qed

lemma batch_hash_binds:
  assumes "hash_batch sha256 b = b" and "hash_batch sha256 c = c" and "ba_hash b = ba_hash c"
    and "\<not> collide sha256 (json_dumps (batch_value b)) (json_dumps (batch_value c))"
  shows "b = c"
proof -
  have "sha256 (json_dumps (batch_value b)) = sha256 (json_dumps (batch_value c))"
    using assms(1-3) by (metis batch.select_convs(5) batch.update_convs(5) batch.surjective digest_def hash_batch_def)
  then have "json_dumps (batch_value b) = json_dumps (batch_value c)"
    using assms(4) by (auto simp: collide_def)
  then have "sort_keys (batch_value b) = sort_keys (batch_value c)"
    unfolding json_dumps_def by (rule encode_inj [OF plain_sort_keys [OF plain_batch] plain_sort_keys [OF plain_batch]])
  then have "b\<lparr>ba_hash := []\<rparr> = c\<lparr>ba_hash := []\<rparr>" by (rule batch_value_inj)
  then show ?thesis using assms(3) by (cases b; cases c) simp
qed

end
