(* ===== verification/Capture_Properties.thy ===== *)
theory Capture_Properties
  imports Rotation_Properties Capture_Pass Batch_Digest
begin

text \<open>
  Properties of history capture: a lease that was lost changes nothing any more, and no save
  loses what another capture has stored in the meantime.
\<close>

section \<open>Leases that were lost\<close>

lemma update_job_none:
  assumes "\<forall>b \<in> set (db_backfills (bd_queue db)). \<not> p b" shows "update_job p f db = db"
  using update_where_none [OF assms] by (simp add: update_job_def on_queue_def)

lemma lost_lease:
  assumes "\<forall>b \<in> set (db_backfills (bd_queue db)). \<not> holds_lease job b"
  shows "find_lease now job db = None" and "release_capture now job db = db"
  using assms update_job_none [OF assms] by (auto simp: find_lease_def find_None_iff lease_current_def release_capture_def)

lemma reclaimed_lost:
  assumes "claim_backfill_job now locked held db = (Some job', db')"
    and "cj_account_uuid job = cj_account_uuid job'" and "cj_chat_key job = cj_chat_key job'"
    and "cj_lease_until job \<noteq> cj_lease_until job'"
  shows "\<forall>b \<in> set (db_backfills (bd_queue db')). \<not> holds_lease job b"
proof -
  let ?taken = "\<lambda>b. b\<lparr>bf_state := ''running'', bf_lease_until := Some (now + seconds 600), bf_updated_at := now\<rparr>"
  from assms(1) obtain c where c: "cj_account_uuid job' = bf_account_uuid c" "cj_chat_key job' = bf_chat_key c"
    "cj_lease_until job' = now + seconds 600"
    and rows: "db_backfills (bd_queue db') = update_where (same_job c) ?taken (db_backfills (bd_queue db))"
    by (auto simp: claim_backfill_job_def Let_def claimed_backfill_def update_job_def on_queue_def
        split: option.splits list.splits)
  have free: "\<not> holds_lease job b" if "b = (if same_job c y then ?taken y else y)" for b y
  proof (cases "same_job c y")
    case True
    then have "bf_lease_until b = Some (cj_lease_until job')" using that c(3) by simp
    then show ?thesis using assms(4) by (simp add: holds_lease_def)
  next
    case False
    then have "\<not> (bf_account_uuid b = cj_account_uuid job' \<and> bf_chat_key b = cj_chat_key job')"
      unfolding c(1,2) using that by (simp add: same_job_def)
    then have "\<not> (bf_account_uuid b = cj_account_uuid job \<and> bf_chat_key b = cj_chat_key job)"
      unfolding assms(2,3) .
    then show ?thesis by (rule contrapos_nn) (simp add: holds_lease_def)
  qed
  show ?thesis unfolding rows by (intro ballI, unfold set_update_where, elim bexE) (rule free)
qed


section \<open>No lost update\<close>

definition batch_key :: "batch_row \<Rightarrow> scope_key \<times> int" where
  "batch_key b = (hb_key b, hb_from_id b)"

definition batches_ok :: "(string \<Rightarrow> string) \<Rightarrow> bridge_db \<Rightarrow> bool" where
  "batches_ok sha256 db = list_all (\<lambda>b. batch_ok sha256 (hb_body b) \<and> hb_from_id b = ba_from_id (hb_body b)) (bd_batches db)"

definition stored_body :: "scope_key \<Rightarrow> int \<Rightarrow> bridge_db \<Rightarrow> batch option" where
  "stored_body k i db = map_option hb_body (find_batch k i db)"

lemma stored_body_ok:
  assumes "batches_ok sha256 db" and "stored_body k i db = Some b"
  shows "hash_batch sha256 b = b"
  using assms by (auto simp: stored_body_def find_batch_def batches_ok_def list_all_iff batch_ok_def find_Some_iff)

lemma find_update_where:
  assumes "\<And>x. p x \<Longrightarrow> q (f x) = q x"
  shows "find q (update_where p f xs) = map_option (\<lambda>x. if p x then f x else x) (find q xs)"
  using assms by (induction xs) auto

lemma find_in_append: "find p (xs @ ys) = (case find p xs of None \<Rightarrow> find p ys | Some x \<Rightarrow> Some x)"
  by (induction xs) auto

lemma ba_from_id_merge:
  "merge_batch sha256 prior incoming = Inr m \<Longrightarrow> ba_from_id m = ba_from_id incoming"
  by (cases prior) (auto simp: merge_batch_def split: if_splits)

lemma ba_from_id_directory [simp]: "ba_from_id (directory_merged sha256 sc b) = ba_from_id b"
  by (simp add: directory_merged_def with_directory_def)

lemma hash_batch_directory:
  "hash_batch sha256 b = b \<Longrightarrow> hash_batch sha256 (directory_merged sha256 sc b) = directory_merged sha256 sc b"
  by (simp add: directory_merged_def with_directory_def)

lemma hash_batch_merge:
  "merge_batch sha256 (Some a) b = Inr m \<Longrightarrow> hash_batch sha256 m = m"
  by (auto simp: merge_batch_def split: if_splits)

lemma found_in: "find p xs = Some x \<Longrightarrow> x \<in> set xs \<and> p x"
  by (induction xs) (auto split: if_splits)

text \<open>What the plan was made of.\<close>

lemma plan_saveD:
  assumes "plan_save sha256 job incoming db = Inr (Some plan)"
  obtains k sc merged where "find_scope k db = Some sc" and "sp_scope plan = k" and "sp_row plan = sc"
    and "sp_prior plan = stored_body k (ba_from_id incoming) db"
    and "merge_batch sha256 (stored_body k (ba_from_id incoming) db) incoming = Inr merged"
    and "sp_merged plan = directory_merged sha256 sc merged"
  using assms
  by (auto simp: plan_save_def plan_merge_def bindE_eq_Inr Let_def stored_body_def split: option.splits prod.splits)

text \<open>A swap succeeds only on the body that the plan was made of.\<close>

lemma swap_bodyD:
  assumes "swap_body now plan db = Some db'" and "k = sp_scope plan" and "i = ba_from_id (sp_merged plan)"
  shows "case sp_prior plan of
      None \<Rightarrow> stored_body k i db = None \<and> stored_body k i db' = Some (sp_merged plan)
    | Some prior \<Rightarrow> (\<exists>cur. stored_body k i db = Some cur \<and> ba_hash cur = ba_hash prior \<and>
        stored_body k i db' = Some (if ba_hash (sp_merged plan) = ba_hash prior then cur else sp_merged plan))"
proof (cases "sp_prior plan")
  case None
  then show ?thesis using assms
    by (auto simp: swap_body_def Let_def stored_body_def find_batch_def find_in_append new_batch_def split: option.splits)
next
  case (Some prior)
  then obtain cur where cur: "find_batch k i db = Some cur" and h: "ba_hash (hb_body cur) = ba_hash prior"
    and db': "db' = (if ba_hash (sp_merged plan) = ba_hash prior then db
      else db\<lparr>bd_batches := update_where (\<lambda>b. hb_key b = k \<and> hb_from_id b = i) (\<lambda>b. b\<lparr>hb_body := sp_merged plan\<rparr>)
        (bd_batches db)\<rparr>)"
    using assms by (auto simp: swap_body_def Let_def split: option.splits if_splits)
  from cur have "hb_key cur = k \<and> hb_from_id cur = i" using found_in by (fastforce simp: find_batch_def)
  with cur h Some show ?thesis
    by (auto simp: db' stored_body_def find_batch_def find_update_where)
qed

lemma swap_body_others:
  assumes "swap_body now plan db = Some db'" and "(k, i) \<noteq> (sp_scope plan, ba_from_id (sp_merged plan))"
  shows "find_batch k i db' = find_batch k i db"
proof -
  let ?p = "\<lambda>b. hb_key b = sp_scope plan \<and> hb_from_id b = ba_from_id (sp_merged plan)"
  let ?q = "\<lambda>b. hb_key b = k \<and> hb_from_id b = i"
  have "find ?q (update_where ?p (\<lambda>b. b\<lparr>hb_body := sp_merged plan\<rparr>) xs) = find ?q xs" for xs
    using assms(2) by (induction xs) auto
  then show ?thesis using assms
    by (auto simp: swap_body_def Let_def find_batch_def find_in_append new_batch_def split: option.splits if_splits)
qed

lemma advance_keeps_batches [simp]:
  "find_batch k i (advance_backfill_job now a c n f db) = find_batch k i db"
  by (simp add: find_batch_def advance_backfill_job_def clear_health_def update_job_def on_queue_def)

lemma commit_saveD:
  assumes "commit_save now failure job plan next_anchor finished db = (Returned True, db')"
  obtains db1 where "swap_body now plan db = Some db1" and "\<And>k i. find_batch k i db' = find_batch k i db1"
    and "list_ex (lease_current now job) (db_backfills (bd_queue db))"
proof -
  from assms obtain db1 where "find_lease now job db \<noteq> None" and "swap_body now plan db = Some db1"
    and "db' = advance_backfill_job now (cj_account_uuid job) (cj_chat_key job) next_anchor finished db1"
    by (auto simp: commit_save_def split: if_splits option.splits)
  then show ?thesis by (intro that [of db1]) (auto simp: find_lease_def find_None_iff list_ex_iff)
qed

text \<open>
  The collisions that could deceive the comparison of hashes: the batch stored at the moment of
  writing against the one that was read, and against the one that is to be written.
\<close>

definition save_collides :: "(string \<Rightarrow> string) \<Rightarrow> batch \<Rightarrow> bridge_db \<Rightarrow> bridge_db \<Rightarrow> bool" where
  "save_collides sha256 incoming db at_write =
     (\<exists>k sc old cur merged. stored_body k (ba_from_id incoming) db = Some old \<and>
        stored_body k (ba_from_id incoming) at_write = Some cur \<and> find_scope k db = Some sc \<and>
        merge_batch sha256 (Some old) incoming = Inr merged \<and>
        (collide sha256 (json_dumps (batch_value cur)) (json_dumps (batch_value old)) \<or>
         collide sha256 (json_dumps (batch_value (directory_merged sha256 sc merged))) (json_dumps (batch_value cur))))"

text \<open>
  C12. No save loses an update: when a save succeeds, whatever other transactions did between
  its reading and its writing transaction, it held the exact unexpired lease, and it has
  replaced the batch that was stored at the moment of writing by the merge of that very
  batch with the captured messages (and the users of the scope's directory); every other
  batch is as it was. The only way out is a collision of SHA-256 on the encodings of these batches.
\<close>

theorem capture_no_lost_update:
  assumes "save_history_batch sha256 now later others failure job incoming next_anchor finished db = (Returned True, db')"
    and "batches_ok sha256 db" and "batches_ok sha256 (others db)" and "batch_ok sha256 incoming"
    and "\<not> save_collides sha256 incoming db (others db)"
  shows "list_ex (lease_current later job) (db_backfills (bd_queue (others db))) \<and>
    (\<exists>k sc merged. find_scope k db = Some sc \<and>
       merge_batch sha256 (stored_body k (ba_from_id incoming) (others db)) incoming = Inr merged \<and>
       stored_body k (ba_from_id incoming) db' = Some (directory_merged sha256 sc merged) \<and>
       (\<forall>k' i. (k', i) \<noteq> (k, ba_from_id incoming) \<longrightarrow> find_batch k' i db' = find_batch k' i (others db)))"
proof -
  let ?i = "ba_from_id incoming"
  from assms(1) obtain plan where plan: "plan_save sha256 job incoming db = Inr (Some plan)"
    and commit: "commit_save later failure job plan next_anchor finished (others db) = (Returned True, db')"
    by (auto simp: save_history_batch_def split: sum.splits option.splits)
  from plan_saveD [OF plan] obtain k sc merged where k: "find_scope k db = Some sc" "sp_scope plan = k"
    and prior: "sp_prior plan = stored_body k ?i db" "merge_batch sha256 (stored_body k ?i db) incoming = Inr merged"
    and merged: "sp_merged plan = directory_merged sha256 sc merged" by metis
  from commit_saveD [OF commit] obtain db1 where swap: "swap_body later plan (others db) = Some db1"
    and db': "\<And>k i. find_batch k i db' = find_batch k i db1"
    and lease: "list_ex (lease_current later job) (db_backfills (bd_queue (others db)))" by metis
  have i: "ba_from_id (sp_merged plan) = ?i" using ba_from_id_merge [OF prior(2)] merged by simp
  note S = swap_bodyD [OF swap k(2) [symmetric] i [symmetric]]
  have hashed: "hash_batch sha256 (sp_merged plan) = sp_merged plan"
  proof (cases "stored_body k ?i db")
    case None
    then have "hash_batch sha256 merged = merged" using prior(2) assms(4) by (simp add: merge_batch_def batch_ok_def)
    then show ?thesis unfolding merged by (rule hash_batch_directory)
  next
    case (Some old)
    then have "hash_batch sha256 merged = merged" using prior(2) by (intro hash_batch_merge [of sha256 old incoming]) simp
    then show ?thesis unfolding merged by (rule hash_batch_directory)
  qed
  have "stored_body k ?i (others db) = stored_body k ?i db \<and> stored_body k ?i db1 = Some (sp_merged plan)"
  proof (cases "stored_body k ?i db")
    case None
    with S prior show ?thesis by simp
  next
    case (Some old)
    with S prior(1) obtain cur where cur: "stored_body k ?i (others db) = Some cur" "ba_hash cur = ba_hash old"
      "stored_body k ?i db1 = Some (if ba_hash (sp_merged plan) = ba_hash old then cur else sp_merged plan)" by auto
    from assms(5) cur(1) Some k(1) prior(2)
    have "\<not> collide sha256 (json_dumps (batch_value cur)) (json_dumps (batch_value old))"
      "\<not> collide sha256 (json_dumps (batch_value (sp_merged plan))) (json_dumps (batch_value cur))"
      unfolding save_collides_def merged by metis+
    then have "cur = old" "ba_hash (sp_merged plan) = ba_hash cur \<Longrightarrow> sp_merged plan = cur"
      using batch_hash_binds hashed cur(1,2) Some stored_body_ok [OF assms(2)] stored_body_ok [OF assms(3)]
      by metis+
    with cur Some show ?thesis by (auto split: if_splits)
  qed
  then have "merge_batch sha256 (stored_body k ?i (others db)) incoming = Inr merged" and
    "stored_body k ?i db' = Some (directory_merged sha256 sc merged)"
    using prior(2) merged db' by (simp_all add: stored_body_def)
  moreover have "find_batch k' j db' = find_batch k' j (others db)" if "(k', j) \<noteq> (k, ?i)" for k' j
    using swap_body_others [OF swap, of k' j] that k(2) i db' by simp
  ultimately show ?thesis using lease k(1) prior(2) by blast
qed

section \<open>Witnesses\<close>

definition stale_job :: capture_job where
  "stale_job = (the (fst sample_job))\<lparr>cj_lease_until := 50\<rparr>"

lemma sample_job_claimed: "claim_backfill_job 100 (\<lambda>_. False) (\<lambda>_. False) sample_claims = (Some (the (fst sample_job)), snd sample_job)"
proof -
  have "\<not> Option.is_none (fst sample_job)" by code_simp
  then have "fst sample_job = Some (the (fst sample_job))" by (cases "fst sample_job") simp_all
  then show ?thesis unfolding sample_job_def [symmetric] by (simp add: prod_eq_iff)
qed


text \<open>Observer 9 saves the sample page over the batch that observer 4 has stored.\<close>

definition sample_stored :: bridge_db where
  "sample_stored = (snd sample_job)
     \<lparr>bd_scopes := [\<lparr>sc_key = (uuid_text 5, ''r1''), sc_generation = 1, sc_fingerprint = [], sc_sources = [],
        sc_pending = False, sc_account_cursor = 0, sc_cursor = 0, sc_users = [], sc_retry_at = 0, sc_revision = 0,
        sc_ack = 0, sc_attempts = 0\<rparr>],
      bd_batches := [new_batch 5 (uuid_text 5, ''r1'') (sample_batch 4)]\<rparr>"

definition sample_saved :: "bool capture_step \<times> bridge_db" where
  "sample_saved = save_history_batch id 110 120 id None (the (fst sample_job)) (sample_batch 9) None True sample_stored"

lemma sample_context:
  "capture_context (bd_queue (snd sample_job)) (the (fst sample_job)) = Some (Some (uuid_text 5), Some ''r1'', Some ''9'')"
  "list_ex (lease_current 120 (the (fst sample_job))) (db_backfills (bd_queue (snd sample_job)))"
  "provider_is_enabled ''zulip'' (bd_queue (snd sample_job))"
  "int_of (VStr ''9'') = Inr 9"
  by code_simp+

lemma sample_stored_queue: "bd_queue sample_stored = bd_queue (snd sample_job)"
  by (simp add: sample_stored_def)

lemma sample_plan:
  "\<exists>plan. plan_save id (the (fst sample_job)) (sample_batch 9) sample_stored = Inr (Some plan) \<and>
     sp_context plan = (Some (uuid_text 5), Some ''r1'', Some ''9'') \<and> sp_scope plan = (uuid_text 5, ''r1'') \<and>
     find_scope (uuid_text 5, ''r1'') sample_stored = Some (sp_row plan) \<and> sp_prior plan = Some (sample_batch 4) \<and>
     ba_from_id (sp_merged plan) = 1"
  using sample_batch_fields [of 9] sample_batch_fields [of 4]
  by (simp add: plan_save_def sample_stored_queue sample_context plan_merge_def parse_uuid_text Let_def guardE_def find_scope_def find_batch_def
      sample_stored_def new_batch_def merge_batch_def observed_by_def)

lemma sample_save_succeeds: "fst sample_saved = Returned True"
proof -
  obtain plan where p: "plan_save id (the (fst sample_job)) (sample_batch 9) sample_stored = Inr (Some plan)"
    "sp_context plan = (Some (uuid_text 5), Some ''r1'', Some ''9'')" "sp_scope plan = (uuid_text 5, ''r1'')"
    "find_scope (uuid_text 5, ''r1'') sample_stored = Some (sp_row plan)" "sp_prior plan = Some (sample_batch 4)"
    "ba_from_id (sp_merged plan) = 1"
    using sample_plan by blast
  have "find_batch (uuid_text 5, ''r1'') 1 sample_stored = Some (new_batch 5 (uuid_text 5, ''r1'') (sample_batch 4))"
    using sample_batch_fields [of 4] by (simp add: find_batch_def sample_stored_def new_batch_def)
  with p have "swap_body 120 plan sample_stored \<noteq> None"
    by (simp add: swap_body_def Let_def new_batch_def)
  moreover have "plan_current plan (the (fst sample_job)) sample_stored"
    using p(2-4) by (simp add: plan_current_def sample_stored_queue sample_context)
  moreover have "find_lease 120 (the (fst sample_job)) sample_stored \<noteq> None"
    using sample_context(2) by (auto simp: find_lease_def sample_stored_queue find_None_iff list_ex_iff)
  ultimately show ?thesis
    using p(1) by (auto simp: sample_saved_def save_history_batch_def commit_save_def sample_stored_queue sample_context)
qed

theorem capture_no_lost_update_witness:
  "\<exists>k merged. merge_batch id (stored_body k 1 sample_stored) (sample_batch 9) = Inr merged \<and>
     stored_body k 1 (snd sample_saved) \<noteq> None"
proof -
  have "save_history_batch id 110 120 id None (the (fst sample_job)) (sample_batch 9) None True sample_stored =
      (Returned True, snd sample_saved)"
    using sample_save_succeeds by (simp add: sample_saved_def prod_eq_iff)
  moreover have "batches_ok id sample_stored"
    using sample_batch_ok [of 4] sample_batch_fields(1) [of 4] by (simp add: batches_ok_def sample_stored_def new_batch_def)
  moreover have "\<not> save_collides id (sample_batch 9) sample_stored (id sample_stored)" by (simp add: save_collides_def)
  ultimately show ?thesis
    using capture_no_lost_update [of id 110 120 id None "the (fst sample_job)" "sample_batch 9" None True sample_stored "snd sample_saved"]
      sample_batch_ok [of 9] sample_batch_fields(1) [of 9] by auto
qed

end
