(* ===== verification/Provider_Commands.thy ===== *)
theory Provider_Commands
  imports Provider_Protocol Desired_State
begin

text \<open>
  Events for Workspace as the data plane takes them (\<open>provider_protocol.py\<close>): a record that the
  converter made of a Zulip event becomes an event of version 1 (\<open>event_payload\<close>) and a command of
  version 2 (\<open>command_payload\<close>), whose key names the provider state it asks for. \<open>uuid5\<close> is the
  name-based UUID in the bridge's namespace, an argument, as is SHA-256. Members that the code
  takes for objects raise \<open>TypeErr\<close> when they are not.
\<close>

section \<open>Instants as text\<close>

definition civil_from_days :: "int \<Rightarrow> int \<times> int \<times> int" where
  "civil_from_days z =
     (let z' = z + 719468;
          era = z' div 146097;
          doe = z' - era * 146097;
          yoe = (doe - doe div 1460 + doe div 36524 - doe div 146096) div 365;
          doy = doe - (365 * yoe + yoe div 4 - yoe div 100);
          mp = (5 * doy + 2) div 153;
          d = doy - (153 * mp + 2) div 5 + 1;
          m = (if mp < 10 then mp + 3 else mp - 9);
          y = yoe + era * 400
      in (if m \<le> 2 then y + 1 else y, m, d))"

text \<open>A number in at least \<open>n\<close> digits.\<close>

definition padded :: "nat \<Rightarrow> int \<Rightarrow> string" where
  "padded n i = (let s = show_nat (nat i) in replicate (n - length s) (CHR ''0'') @ s)"

definition in_calendar :: "timestamp \<Rightarrow> bool" where
  "in_calendar t = (- 62135596800 * 1000000 \<le> t \<and> t < 253402300800 * 1000000)"

text \<open>\<open>isoformat().replace("+00:00", "Z")\<close> of an instant in UTC.\<close>

definition iso_utc :: "timestamp \<Rightarrow> string" where
  "iso_utc t =
     (let us = t mod 1000000; s = t div 1000000; sod = s mod 86400 in
      case civil_from_days (s div 86400) of
        (y, m, d) \<Rightarrow>
          padded 4 y @ ''-'' @ padded 2 m @ ''-'' @ padded 2 d @ ''T'' @ padded 2 (sod div 3600) @ '':'' @
          padded 2 (sod mod 3600 div 60) @ '':'' @ padded 2 (sod mod 60) @
          (if us = 0 then [] else ''.'' @ padded 6 us) @ ''Z'')"

text \<open>
  A number of seconds as an instant. Of the texts that \<open>float\<close> reads those in decimal notation
  with at most six digits after the point are modelled.
\<close>

definition decimal_micros :: "string \<Rightarrow> timestamp option" where
  "decimal_micros text =
     (let s = strip text;
          neg = (take 1 s = ''-'');
          u = (if take 1 s \<in> {''-'', ''+''} then drop 1 s else s)
      in case partition_on (CHR ''.'') u of
           (whole, point, frac) \<Rightarrow>
             if whole @ frac = [] \<or> length frac > 6 then None
             else case (fixed_digits (length whole) whole, fixed_digits 6 (take 6 (frac @ ''000000''))) of
               (w, Some f) \<Rightarrow>
                 (if whole \<noteq> [] \<and> w = None then None
                  else Some ((if neg then -1 else 1) * ((case w of None \<Rightarrow> 0 | Some i \<Rightarrow> seconds i) + f)))
             | _ \<Rightarrow> None)"

definition provider_instant :: "pyval \<Rightarrow> timestamp option" where
  "provider_instant v =
     (let t = (case v of VInt i \<Rightarrow> Some (seconds i) | VFloat s \<Rightarrow> decimal_micros s | VStr s \<Rightarrow> decimal_micros s | _ \<Rightarrow> None)
      in case t of None \<Rightarrow> None | Some i \<Rightarrow> if in_calendar i then Some i else None)"

text \<open>
  \<open>datetime.fromisoformat\<close>, of texts with a date and a time, which count as UTC without an offset. An instant that
  leaves the calendar when its offset is removed raises, in the code an \<open>OverflowError\<close>.
\<close>

definition iso_instant :: "string \<Rightarrow> timestamp result" where
  "iso_instant s =
     (case (parse_iso s, parse_iso (s @ ''+00:00'')) of
        (Some t, _) \<Rightarrow> if in_calendar t then Inr t else Inl (ValueErr ''date value out of range'')
      | (None, Some t) \<Rightarrow> Inr t
      | (None, None) \<Rightarrow> Inl (ValueErr ''Invalid isoformat string''))"

section \<open>Lookups\<close>

definition alias_names :: "mapping_row \<Rightarrow> string \<Rightarrow> bool" where
  "alias_names m pid = (VStr pid \<in> set (case get_val (mp_metadata m) ''provider_aliases'' of VList vs \<Rightarrow> vs | _ \<Rightarrow> []))"

text \<open>
  The mapping of a provider identifier: the exact one, or for a topic the one, least in its
  Workspace identifier, that lists it as an alias.
\<close>

definition provider_entity_mapping :: "uuid \<Rightarrow> string \<Rightarrow> string \<Rightarrow> mapping_row list \<Rightarrow> mapping_row option" where
  "provider_entity_mapping account kind pid ms =
     (case find (\<lambda>m. provider_key m = (account, kind, pid) \<and> \<not> mp_deleted m) ms of
        Some m \<Rightarrow> Some m
      | None \<Rightarrow>
          if kind = ''topic''
          then map_option (\<lambda>m. m\<lparr>mp_provider_id := pid\<rparr>)
                 (first_by mp_workspace_uuid
                   (filter (\<lambda>m. mp_account_uuid m = account \<and> mp_kind m = ''topic'' \<and> \<not> mp_deleted m \<and> alias_names m pid) ms))
          else None)"

definition event_identity_mapping :: "queue_db \<Rightarrow> uuid \<Rightarrow> uuid \<Rightarrow> mapping_row option" where
  "event_identity_mapping db account workspace =
     (case workspace_mapping account ''identity'' workspace (db_tables db) of
        Some m \<Rightarrow> Some m
      | None \<Rightarrow> tombstoned_workspace_mapping account ''identity'' workspace (db_tables db))"

definition stable_entity_uuid :: "(string \<Rightarrow> uuid) \<Rightarrow> uuid \<Rightarrow> string \<Rightarrow> string \<Rightarrow> uuid result" where
  "stable_entity_uuid uuid5 account kind pid =
     bindE (parse_uuid account) (\<lambda>a. Inr (uuid5 (''zulip:'' @ a @ '':'' @ kind @ '':'' @ pid)))"

definition external_chat_uuid :: "(string \<Rightarrow> uuid) \<Rightarrow> queue_db \<Rightarrow> uuid \<Rightarrow> string \<Rightarrow> uuid result" where
  "external_chat_uuid uuid5 db account chat =
     (case assignment_for_provider_chat account chat db of
        Some assignment \<Rightarrow> bindE (sub_item assignment ''uuid'') (\<lambda>u. Inr (py_str u))
      | None \<Rightarrow> stable_entity_uuid uuid5 account ''external_chat'' chat)"

section \<open>Events\<close>

definition INBOUND_KIND :: "(string \<times> string) list" where
  "INBOUND_KIND =
     [(''identity.upsert'', ''identity.upsert''), (''stream.upsert'', ''stream.upsert''),
      (''stream.delete'', ''stream.delete''), (''topic.upsert'', ''topic.upsert''), (''topic.delete'', ''topic.delete''),
      (''message.create'', ''message.upsert''), (''message.update'', ''message.upsert''),
      (''message.delete'', ''message.delete''), (''reaction.upsert'', ''reaction.upsert''),
      (''reaction.delete'', ''reaction.delete''), (''read_state.set'', ''read_state.set''),
      (''stream.notification.update'', ''stream.notification.update''),
      (''topic.notification.update'', ''topic.notification.update'')]"

definition as_object :: "pyval \<Rightarrow> dict result" where
  "as_object v = (case v of VDict d \<Rightarrow> Inr d | _ \<Rightarrow> Inl TypeErr)"

definition object_item :: "dict \<Rightarrow> string \<Rightarrow> dict result" where
  "object_item d k = bindE (item d k) as_object"

text \<open>\<open>d.get(k, v)\<close>\<close>

definition get_default :: "dict \<Rightarrow> string \<Rightarrow> pyval \<Rightarrow> pyval" where
  "get_default d k v = (case map_of d k of None \<Rightarrow> v | Some w \<Rightarrow> w)"

definition identity_value :: "mapping_row \<Rightarrow> pyval" where
  "identity_value m =
     VDict [(''provider_external_id'', VStr (mp_provider_id m)),
            (''display_name'', VStr (py_str (get_default (mp_metadata m) ''display_name'' (VStr (mp_provider_id m))))),
            (''email'', get_val (mp_metadata m) ''email''), (''avatar_urn'', get_val (mp_metadata m) ''avatar_urn''),
            (''active'', VBool (truthy (get_default (mp_metadata m) ''active'' (VBool True))))]"

definition recorded_instant :: "dict \<Rightarrow> dict \<Rightarrow> string result" where
  "recorded_instant operation record =
     bindE (if truthy (get_val operation ''occurred_at'') then Inr (get_val operation ''occurred_at'')
            else item record ''created_at'') (\<lambda>v.
     case v of
       VStr s \<Rightarrow> bindE (iso_instant s) (\<lambda>t. Inr (iso_utc t))
     | _ \<Rightarrow> Inl (ValueErr ''Provider message creation time is invalid''))"

text \<open>The provider's own timestamp of the message, when its mapping has one, wins.\<close>

definition message_created_at :: "queue_db \<Rightarrow> uuid \<Rightarrow> dict \<Rightarrow> dict \<Rightarrow> dict \<Rightarrow> string result" where
  "message_created_at db account provider operation record =
     (case get_val provider ''entity_id'' of
        VNone \<Rightarrow> recorded_instant operation record
      | pid \<Rightarrow>
          (case provider_entity_mapping account ''message'' (py_str pid) (db_mappings db) of
             None \<Rightarrow> recorded_instant operation record
           | Some m \<Rightarrow>
               (case provider_instant (get_val (mp_metadata m) ''provider_timestamp'') of
                  Some t \<Rightarrow> Inr (iso_utc t)
                | None \<Rightarrow> recorded_instant operation record)))"

text \<open>\<open>resource["user_uuid"] = resource.pop("author_uuid")\<close>\<close>

definition rename_author :: "dict \<Rightarrow> dict" where
  "rename_author d =
     (case map_of d ''author_uuid'' of
        None \<Rightarrow> d
      | Some a \<Rightarrow> dict_set ''user_uuid'' a (dict_del ''author_uuid'' d))"

definition with_identity :: "queue_db \<Rightarrow> uuid \<Rightarrow> string \<Rightarrow> dict \<Rightarrow> dict" where
  "with_identity db account key d =
     (case map_of d ''user_uuid'' of
        None \<Rightarrow> d
      | Some u \<Rightarrow>
          (case event_identity_mapping db account (py_str u) of
             None \<Rightarrow> d | Some m \<Rightarrow> dict_set key (identity_value m) d))"

definition base_resource :: "dict \<Rightarrow> dict \<Rightarrow> string \<Rightarrow> dict result" where
  "base_resource operation provider chat =
     bindE (item operation ''entity_uuid'') (\<lambda>u.
     bindE (as_object (get_default operation ''extensions'' (VDict []))) (\<lambda>extensions.
     Inr [(''uuid'', VStr (py_str u)),
          (''provider_external_id'',
           VStr (py_str (py_or (get_val provider ''entity_id'') (py_or (get_val provider ''chat_id'') u)))),
          (''provider_metadata'', VDict (dict_update
             [(''chat_key'', VStr chat), (''provider_revision'', get_val provider ''revision'')] extensions))]))"

definition message_resource :: "queue_db \<Rightarrow> uuid \<Rightarrow> dict \<Rightarrow> dict \<Rightarrow> dict \<Rightarrow> dict \<Rightarrow> dict result" where
  "message_resource db account provider operation record resource =
     bindE (message_created_at db account provider operation record) (\<lambda>t.
     Inr (with_identity db account ''author_identity'' (dict_set ''created_at'' (VStr t) resource)))"

definition event_resource ::
  "queue_db \<Rightarrow> uuid \<Rightarrow> string \<Rightarrow> dict \<Rightarrow> dict \<Rightarrow> dict \<Rightarrow> dict \<Rightarrow> dict \<Rightarrow> dict result" where
  "event_resource db account kind provider operation record payload base =
     (if starts_with ''reaction.'' kind
      then Inr (with_identity db account ''user_identity'' (dict_update base payload))
      else if \<not> ends_with ''.delete'' kind
      then (let resource = rename_author (dict_update base payload) in
            if kind = ''message.upsert'' then message_resource db account provider operation record resource
            else Inr resource)
      else Inr (dict_update base
             (filter (\<lambda>p. fst p \<in> {''stream_uuid'', ''topic_uuid'', ''message_uuid''}) payload)))"

record provider_event =
  pv_event_uuid :: string
  pv_account :: uuid
  pv_chat_uuid :: uuid
  pv_project :: uuid
  pv_sequence :: string
  pv_kind :: string
  pv_resource :: dict

definition event_payload :: "(string \<Rightarrow> uuid) \<Rightarrow> queue_db \<Rightarrow> dict \<Rightarrow> provider_event result" where
  "event_payload uuid5 db record =
     bindE (object_item record ''operation'') (\<lambda>operation.
     bindE (item operation ''kind'') (\<lambda>k.
     bindE (case map_of INBOUND_KIND (py_str k) of
              None \<Rightarrow> Inl (ValueErr (''Unsupported Provider event operation kind: '' @ py_str k))
            | Some kind \<Rightarrow> Inr kind) (\<lambda>kind.
     bindE (item record ''account_uuid'') (\<lambda>a.
     bindE (item record ''project_uuid'') (\<lambda>p.
     bindE (object_item operation ''provider'') (\<lambda>provider.
     bindE (item provider ''chat_id'') (\<lambda>c.
     bindE (external_chat_uuid uuid5 db (py_str a) (py_str c)) (\<lambda>chat_uuid.
     bindE (object_item operation ''payload'') (\<lambda>payload.
     bindE (base_resource operation provider (py_str c)) (\<lambda>base.
     bindE (event_resource db (py_str a) kind provider operation record payload base) (\<lambda>resource.
     bindE (item record ''operation_uuid'') (\<lambda>o_uuid.
     bindE (item record ''sequence'') (\<lambda>s.
     Inr \<lparr>pv_event_uuid = py_str o_uuid, pv_account = py_str a, pv_chat_uuid = chat_uuid, pv_project = py_str p,
          pv_sequence = py_str s, pv_kind = kind, pv_resource = resource\<rparr>)))))))))))))"

section \<open>Commands\<close>

definition SERVER_OWNED_RESOURCE_FIELDS :: "string list" where
  "SERVER_OWNED_RESOURCE_FIELDS =
     [''external_account_uuid'', ''external_chat_uuid'', ''message_uuid'', ''message_uuids'', ''project_id'',
      ''provider_external_id'', ''provider_uuid'', ''reader_uuid'', ''stream_uuid'', ''topic_uuid'', ''user_uuid'',
      ''uuid'']"

definition ROUTING_METADATA :: "string list" where
  "ROUTING_METADATA = [''account_uuid'', ''chat_key'', ''delivery_class'', ''external_id'', ''provider_event_uuid'']"

definition workspace_provider_id :: "queue_db \<Rightarrow> uuid \<Rightarrow> string \<Rightarrow> pyval \<Rightarrow> pyval result" where
  "workspace_provider_id db account kind u =
     bindE (provider_mapping db account kind u) (\<lambda>m. Inr (VStr (mp_provider_id m)))"

text \<open>The state a command asks for, and its key, which is the same from every account.\<close>

definition event_state :: "string \<Rightarrow> string \<times> string \<Rightarrow> dict \<Rightarrow> dict \<Rightarrow> pyval" where
  "event_state chat obj references payload =
     VDict [(''provider_chat_key'', VStr chat),
       (''provider_object'', VDict [(''kind'', VStr (fst obj)), (''id'', VStr (snd obj))]),
       (''provider_references'', VDict references), (''payload'', VDict payload)]"

definition provider_event_key ::
  "(string \<Rightarrow> string) \<Rightarrow> string \<Rightarrow> string \<Rightarrow> string \<times> string \<Rightarrow> dict \<Rightarrow> dict \<Rightarrow> string" where
  "provider_event_key sha256 kind chat obj references payload =
     ''provider-event:v1:'' @ kind @ '':'' @ fst obj @ '':'' @ show_nat (length (snd obj)) @ '':'' @ snd obj @ '':'' @
     sha256 (json_dumps (event_state chat obj references payload))"

definition object_kind :: "string \<Rightarrow> string \<Rightarrow> string result" where
  "object_kind kind chat =
     (let entity = fst (partition_on (CHR ''.'') kind) in
      case map_of [(''identity'', ''user''),
                   (''stream'', if starts_with ''channel:'' chat then ''channel'' else ''conversation''),
                   (''topic'', ''topic''), (''message'', ''message''), (''reaction'', ''reaction''),
                   (''read_state'', ''read-state'')] entity of
        None \<Rightarrow> Inl (KeyErr entity) | Some v \<Rightarrow> Inr v)"

definition optional_reference ::
  "queue_db \<Rightarrow> uuid \<Rightarrow> string \<Rightarrow> string \<Rightarrow> pyval \<Rightarrow> dict \<Rightarrow> dict result" where
  "optional_reference db account name kind u refs =
     (if u = VNone then Inr refs else bindE (workspace_provider_id db account kind u) (\<lambda>v. Inr (dict_set name v refs)))"

definition required_reference ::
  "queue_db \<Rightarrow> uuid \<Rightarrow> string \<Rightarrow> string \<Rightarrow> dict \<Rightarrow> string \<Rightarrow> dict \<Rightarrow> dict result" where
  "required_reference db account name kind resource key refs =
     bindE (item resource key) (\<lambda>u. bindE (workspace_provider_id db account kind u) (\<lambda>v. Inr (dict_set name v refs)))"

definition read_references :: "queue_db \<Rightarrow> uuid \<Rightarrow> dict \<Rightarrow> dict result" where
  "read_references db account resource =
     bindE (item resource ''message_uuids'') (\<lambda>v.
     bindE (case v of VList us \<Rightarrow> mapE (workspace_provider_id db account ''message'') us | _ \<Rightarrow> Inl TypeErr) (\<lambda>messages.
     bindE (required_reference db account ''reader'' ''identity'' resource ''reader_uuid'' [(''messages'', VList messages)])
       (optional_reference db account ''topic'' ''topic'' (get_val resource ''topic_uuid''))))"

definition provider_references :: "queue_db \<Rightarrow> uuid \<Rightarrow> string \<Rightarrow> string \<Rightarrow> dict \<Rightarrow> dict result" where
  "provider_references db account kind object_id resource =
     (if starts_with ''topic.'' kind then Inr [(''topic'', VStr object_id)]
      else if starts_with ''message.'' kind
      then bindE (optional_reference db account ''topic'' ''topic'' (get_val resource ''topic_uuid'') [])
             (optional_reference db account ''user'' ''identity'' (get_val resource ''user_uuid''))
      else if starts_with ''reaction.'' kind
      then bindE (required_reference db account ''message'' ''message'' resource ''message_uuid'' [])
             (required_reference db account ''user'' ''identity'' resource ''user_uuid'')
      else if kind = ''read_state.set'' then read_references db account resource
      else Inr [])"

definition delivery_class :: "pyval \<Rightarrow> string result" where
  "delivery_class metadata =
     (let c = (case metadata of VDict d \<Rightarrow> get_val d ''delivery_class'' | _ \<Rightarrow> VStr ''live'') in
      if c = VNone \<or> c = VStr ''live'' then Inr ''live''
      else if c = VStr ''history'' \<or> c = VStr ''backfill'' then Inr ''backfill''
      else Inl (if is_list c \<or> is_dict c then TypeErr else ValueErr ''Provider command delivery class is invalid''))"

definition command_members :: "dict \<Rightarrow> dict" where
  "command_members resource =
     filter (\<lambda>p. fst p \<notin> set SERVER_OWNED_RESOURCE_FIELDS)
       (case get_val resource ''provider_metadata'' of
          VDict m \<Rightarrow> dict_set ''provider_metadata'' (VDict (filter (\<lambda>p. fst p \<notin> set ROUTING_METADATA) m)) resource
        | _ \<Rightarrow> resource)"

record provider_command =
  pc_key :: string
  pc_delivery_uuid :: uuid
  pc_account :: uuid
  pc_chat_key :: string
  pc_sequence :: pyval
  pc_class :: string
  pc_kind :: string
  pc_object :: "string \<times> string"
  pc_references :: dict
  pc_payload :: dict

definition command_payload :: "(string \<Rightarrow> uuid) \<Rightarrow> (string \<Rightarrow> string) \<Rightarrow> queue_db \<Rightarrow> dict \<Rightarrow> provider_command result" where
  "command_payload uuid5 sha256 db record =
     bindE (event_payload uuid5 db record) (\<lambda>event.
     bindE (bindE (object_item record ''operation'') (\<lambda>operation. object_item operation ''provider'')) (\<lambda>provider.
     bindE (bindE (item provider ''chat_id'') (\<lambda>c. direct_conversation_key db (pv_account event) (py_str c))) (\<lambda>chat.
     let resource = pv_resource event; kind = pv_kind event in
     bindE (object_kind kind chat) (\<lambda>obj.
     bindE (item resource ''provider_external_id'') (\<lambda>i.
     let object_id = py_str i in
     bindE (provider_references db (pv_account event) kind object_id resource) (\<lambda>refs.
     bindE (delivery_class (get_val resource ''provider_metadata'')) (\<lambda>dc.
     let command_chat = (if kind = ''identity.upsert'' then ''account'' else chat);
         members = command_members resource in
     bindE (bindE (item record ''operation_uuid'') (\<lambda>u. parse_uuid (py_str u))) (\<lambda>delivery.
     Inr \<lparr>pc_key = provider_event_key sha256 kind command_chat (obj, object_id) refs members,
          pc_delivery_uuid = delivery, pc_account = pv_account event, pc_chat_key = command_chat,
          pc_sequence = get_val provider ''revision'', pc_class = dc, pc_kind = kind, pc_object = (obj, object_id),
          pc_references = refs, pc_payload = members\<rparr>))))))))"

end
