(* ===== verification/Command_Properties.thy ===== *)
theory Command_Properties
  imports Provider_Commands Batch_Digest Protocol_Properties
begin

text \<open>
  The key of a provider command names the state the command asks for: whatever account sends
  it, equal keys mean the same kind, object, chat, references and payload.
\<close>

section \<open>Reading a key\<close>

lemma upto_colon:
  assumes "CHR '':'' \<notin> set xs" and "CHR '':'' \<notin> set ys" and "xs @ CHR '':'' # r = ys @ CHR '':'' # s"
  shows "xs = ys \<and> r = s"
  using assms by (induction xs arbitrary: ys) (auto simp: Cons_eq_append_conv append_eq_Cons_conv)

lemma show_nat_no_colon: "CHR '':'' \<notin> set (show_nat n)"
proof
  assume "CHR '':'' \<in> set (show_nat n)"
  then have "number_char (CHR '':'')" using show_int_chars [of "int n"] by (simp add: show_int_def)
  then show False by (simp add: number_char_def)
qed

lemma show_nat_eq: "show_nat m = show_nat n \<Longrightarrow> m = n"
  using show_int_inj [of "int m" "int n"] by (simp add: show_int_def)

lemma event_key_parts:
  assumes "CHR '':'' \<notin> set kind" "CHR '':'' \<notin> set kind'" "CHR '':'' \<notin> set (fst obj)" "CHR '':'' \<notin> set (fst obj')"
    and "provider_event_key sha256 kind chat obj refs payload = provider_event_key sha256 kind' chat' obj' refs' payload'"
  shows "kind = kind' \<and> obj = obj' \<and>
    sha256 (json_dumps (event_state chat obj refs payload)) = sha256 (json_dumps (event_state chat' obj' refs' payload'))"
proof -
  let ?d = "sha256 (json_dumps (event_state chat obj refs payload))"
  let ?d' = "sha256 (json_dumps (event_state chat' obj' refs' payload'))"
  have "kind @ CHR '':'' # fst obj @ CHR '':'' # show_nat (length (snd obj)) @ CHR '':'' # snd obj @ CHR '':'' # ?d =
      kind' @ CHR '':'' # fst obj' @ CHR '':'' # show_nat (length (snd obj')) @ CHR '':'' # snd obj' @ CHR '':'' # ?d'"
    using assms(5) unfolding provider_event_key_def by simp
  note k = upto_colon [OF assms(1,2) this]
  note o = upto_colon [OF assms(3,4) conjunct2 [OF k]]
  note n = upto_colon [OF show_nat_no_colon show_nat_no_colon conjunct2 [OF o]]
  from n have "length (snd obj) = length (snd obj')" by (intro show_nat_eq) (rule conjunct1)
  with conjunct2 [OF n] have "snd obj = snd obj' \<and> ?d = ?d'" by simp
  with k o show ?thesis by (simp add: prod_eq_iff)
qed

section \<open>What a state binds\<close>

lemma event_state_binds:
  assumes "json_dumps (event_state chat obj refs payload) = json_dumps (event_state chat' obj' refs' payload')"
    and "plain (VDict refs)" "plain (VDict refs')" "plain (VDict payload)" "plain (VDict payload')"
  shows "chat = chat' \<and> sort_keys (VDict refs) = sort_keys (VDict refs') \<and> sort_keys (VDict payload) = sort_keys (VDict payload')"
proof -
  have "plain (event_state chat obj refs payload)" "plain (event_state chat' obj' refs' payload')"
    using assms(2-5) by (simp_all add: event_state_def)
  then have "sort_keys (event_state chat obj refs payload) = sort_keys (event_state chat' obj' refs' payload')"
    using assms(1) encode_inj plain_sort_keys unfolding json_dumps_def by metis
  note agree = member_agrees [OF this [unfolded event_state_def]]
  show ?thesis
    using agree [of "''provider_chat_key''" "VStr chat" "VStr chat'"]
      agree [of "''provider_references''" "VDict refs" "VDict refs'"]
      agree [of "''payload''" "VDict payload" "VDict payload'"] by simp
qed

section \<open>Commands\<close>

lemma event_kind:
  assumes "event_payload uuid5 db record = Inr e" shows "pv_kind e \<in> snd ` set INBOUND_KIND"
proof -
  from assms obtain k where "map_of INBOUND_KIND k = Some (pv_kind e)"
    by (auto simp: event_payload_def bindE_eq_Inr split: option.splits)
  then show ?thesis using map_of_SomeD by force
qed

lemma command_payload_shape:
  assumes "command_payload uuid5 sha256 db record = Inr c"
  shows "\<exists>chat resource.
    pc_key c = provider_event_key sha256 (pc_kind c) (pc_chat_key c) (pc_object c) (pc_references c) (pc_payload c) \<and>
    object_kind (pc_kind c) chat = Inr (fst (pc_object c)) \<and> pc_kind c \<in> snd ` set INBOUND_KIND \<and>
    pc_payload c = command_members resource \<and>
    provider_references db (pc_account c) (pc_kind c) (snd (pc_object c)) resource = Inr (pc_references c)"
  using assms by (auto simp: command_payload_def bindE_eq_Inr Let_def dest: event_kind)

lemma kind_no_colon: "kind \<in> snd ` set INBOUND_KIND \<Longrightarrow> CHR '':'' \<notin> set kind"
  by (auto simp: INBOUND_KIND_def)

lemma some_or_raise: "(case m of None \<Rightarrow> Inl e | Some v \<Rightarrow> Inr v) = Inr w \<longleftrightarrow> m = Some w"
  by (cases m) simp_all

lemma object_kind_cases:
  assumes "object_kind kind chat = Inr v"
  shows "v \<in> {''user'', ''channel'', ''conversation'', ''topic'', ''message'', ''reaction'', ''read-state''}"
proof -
  let ?entity = "fst (partition_on (CHR ''.'') kind)"
  from assms have "(?entity, v) \<in> set [(''identity'', ''user''),
      (''stream'', if starts_with ''channel:'' chat then ''channel'' else ''conversation''), (''topic'', ''topic''),
      (''message'', ''message''), (''reaction'', ''reaction''), (''read_state'', ''read-state'')]"
    unfolding object_kind_def Let_def some_or_raise by (rule map_of_SomeD)
  then show ?thesis by (cases "starts_with ''channel:'' chat") auto
qed

lemma object_kind_no_colon: "object_kind kind chat = Inr v \<Longrightarrow> CHR '':'' \<notin> set v"
  using object_kind_cases [of kind chat v] by auto

lemma workspace_provider_id_text: "workspace_provider_id db account kind u = Inr v \<Longrightarrow> plain v"
  by (auto simp: workspace_provider_id_def bindE_eq_Inr)

lemma optional_reference_plain:
  "optional_reference db account name kind u refs = Inr refs' \<Longrightarrow> plain (VDict refs) \<Longrightarrow> plain (VDict refs')"
  by (auto simp: optional_reference_def bindE_eq_Inr plain_dict_set split: if_splits dest: workspace_provider_id_text)

lemma required_reference_plain:
  "required_reference db account name kind resource key refs = Inr refs' \<Longrightarrow> plain (VDict refs) \<Longrightarrow> plain (VDict refs')"
  by (auto simp: required_reference_def bindE_eq_Inr plain_dict_set dest: workspace_provider_id_text)

lemma workspace_provider_ids_text:
  "mapE (workspace_provider_id db account kind) us = Inr vs \<Longrightarrow> \<forall>v \<in> set vs. plain v"
  by (induction us arbitrary: vs) (auto simp: bindE_eq_Inr dest: workspace_provider_id_text)

lemma read_references_plain:
  assumes "read_references db account resource = Inr refs" shows "plain (VDict refs)"
proof -
  from assms obtain v messages refs1 where
    m: "(case v of VList us \<Rightarrow> mapE (workspace_provider_id db account ''message'') us | _ \<Rightarrow> Inl TypeErr) = Inr messages"
    and r: "required_reference db account ''reader'' ''identity'' resource ''reader_uuid'' [(''messages'', VList messages)] = Inr refs1"
    and o: "optional_reference db account ''topic'' ''topic'' (get_val resource ''topic_uuid'') refs1 = Inr refs"
    unfolding read_references_def bindE_eq_Inr by (elim exE conjE) rule
  from m have "\<forall>v \<in> set messages. plain v" by (cases v) (simp_all add: workspace_provider_ids_text)
  then have "plain (VDict [(''messages'', VList messages)])" by (simp add: plain_items_iff)
  from optional_reference_plain [OF o required_reference_plain [OF r this]] show ?thesis .
qed

lemma references_plain:
  assumes "provider_references db account kind object_id resource = Inr refs"
  shows "plain (VDict refs)"
proof -
  have nil: "plain (VDict [])" by simp
  show ?thesis
    using assms optional_reference_plain [OF _ optional_reference_plain [OF _ nil]]
      required_reference_plain [OF _ required_reference_plain [OF _ nil]] read_references_plain
    by (auto simp: provider_references_def bindE_eq_Inr split: if_splits)
qed


text \<open>The text that is digested into the key of a command.\<close>

definition command_state :: "provider_command \<Rightarrow> string" where
  "command_state c = json_dumps (event_state (pc_chat_key c) (pc_object c) (pc_references c) (pc_payload c))"

text \<open>
  C39. The key of a command names its state: when commands made of two records, for the same or
  for different accounts, have the same key, they have the same kind, object, chat,
  references and payload, unless SHA-256 collides on the encodings of their states; so Workspace may keep one of them.
\<close>

theorem command_key_binds:
  assumes "command_payload uuid5 sha256 db record = Inr c" and "command_payload uuid5 sha256 db record' = Inr c'"
    and "pc_key c = pc_key c'" and "plain (VDict (pc_payload c))" and "plain (VDict (pc_payload c'))"
    and "\<not> collide sha256 (command_state c) (command_state c')"
  shows "pc_kind c = pc_kind c' \<and> pc_object c = pc_object c' \<and> pc_chat_key c = pc_chat_key c' \<and>
    sort_keys (VDict (pc_references c)) = sort_keys (VDict (pc_references c')) \<and>
    sort_keys (VDict (pc_payload c)) = sort_keys (VDict (pc_payload c'))"
proof -
  note c = command_payload_shape [OF assms(1)] and c' = command_payload_shape [OF assms(2)]
  from c c' assms(3) have "provider_event_key sha256 (pc_kind c) (pc_chat_key c) (pc_object c) (pc_references c) (pc_payload c) =
      provider_event_key sha256 (pc_kind c') (pc_chat_key c') (pc_object c') (pc_references c') (pc_payload c')"
    by metis
  from event_key_parts [OF _ _ _ _ this] c c' kind_no_colon object_kind_no_colon
  have key: "pc_kind c = pc_kind c' \<and> pc_object c = pc_object c' \<and>
      sha256 (json_dumps (event_state (pc_chat_key c) (pc_object c) (pc_references c) (pc_payload c))) =
      sha256 (json_dumps (event_state (pc_chat_key c') (pc_object c') (pc_references c') (pc_payload c')))"
    by metis
  then have "json_dumps (event_state (pc_chat_key c) (pc_object c) (pc_references c) (pc_payload c)) =
      json_dumps (event_state (pc_chat_key c') (pc_object c') (pc_references c') (pc_payload c'))"
    using assms(6) unfolding collide_def command_state_def by metis
  from event_state_binds [OF this _ _ assms(4,5)] key c c' references_plain show ?thesis by metis
qed

section \<open>Witnesses\<close>

definition sample_command_record :: "nat \<Rightarrow> dict" where
  "sample_command_record n =
     [(''account_uuid'', VStr (uuid_text n)), (''project_uuid'', VStr (uuid_text 7)),
      (''operation_uuid'', VStr (uuid_text (10 + n))), (''sequence'', VInt (int n)),
      (''operation'', VDict [(''kind'', VStr ''topic.upsert''), (''entity_uuid'', VStr (uuid_text (20 + n))),
         (''provider'', VDict [(''chat_id'', VStr ''channel:5''), (''entity_id'', VStr ''5:news'')]),
         (''payload'', VDict [(''stream_uuid'', VStr (uuid_text 30)), (''name'', VStr ''news'')])])]"

definition sample_command :: "nat \<Rightarrow> provider_command result" where
  "sample_command n = command_payload (\<lambda>_. uuid_text 9) id empty_queue (sample_command_record n)"

lemma sample_commands:
  "case (sample_command 1, sample_command 2) of
     (Inr c, Inr c') \<Rightarrow> pc_key c = pc_key c' \<and> pc_account c \<noteq> pc_account c' \<and> pc_payload c = pc_payload c' \<and>
       plain (VDict (pc_payload c))
   | _ \<Rightarrow> False"
  by code_simp

theorem command_key_binds_witness:
  "\<exists>c c'. sample_command 1 = Inr c \<and> sample_command 2 = Inr c' \<and> pc_account c \<noteq> pc_account c' \<and> pc_object c = pc_object c'"
proof -
  from sample_commands obtain c c' where c: "sample_command 1 = Inr c" "sample_command 2 = Inr c'"
    "pc_key c = pc_key c'" "pc_account c \<noteq> pc_account c'" "plain (VDict (pc_payload c))" "plain (VDict (pc_payload c'))"
    by (auto split: sum.splits)
  from command_key_binds [OF c(1,2) [unfolded sample_command_def] c(3,5,6) not_collide_id] c show ?thesis by blast
qed

end
