(* ===== verification/Observed_Reports.thy ===== *)
theory Observed_Reports
  imports Participant_Sync Provider_Commands
begin

text \<open>
  The outbox of reports on observed resources (\<open>storage.py\<close>, \<open>flush_observed_reports\<close> and
  \<open>_queue_observed_report\<close> of \<open>service.py\<close>): a report is written once per state of a resource,
  only the newest report of a resource stays outstanding, batches put accounts first and
  alternate between the accounts, and the answers of the control plane complete, reject or
  delay reports. Bodies are those that \<open>queue_observed_report\<close> makes, whose members the
  casts to \<open>uuid\<close>, \<open>bigint\<close> and \<open>timestamptz\<close> accept; a time that cannot be read counts as absent.
\<close>

section \<open>The order of reports\<close>

definition ob_text :: "observed_row \<Rightarrow> string \<Rightarrow> string option" where
  "ob_text r k = json_text (get_val (ob_body r) k)"

definition resource_of :: "dict \<Rightarrow> string option \<times> string option" where
  "resource_of body = (json_text (get_val body ''resource_type''), json_text (get_val body ''resource_uuid''))"

definition body_generation :: "dict \<Rightarrow> int" where
  "body_generation body = (case Option.bind (json_text (get_val body ''observed_generation'')) (py_int 10) of Some i \<Rightarrow> i | None \<Rightarrow> 0)"

text \<open>\<open>ORDER BY observed_generation DESC, COALESCE(observed_at, created_at) DESC, created_at DESC, report_uuid DESC\<close>\<close>

definition report_order :: "observed_row \<Rightarrow> int \<times> timestamp \<times> timestamp \<times> uuid" where
  "report_order r =
     (body_generation (ob_body r),
      (case Option.bind (ob_text r ''observed_at'') parse_iso of Some t \<Rightarrow> t | None \<Rightarrow> ob_created_at r),
      ob_created_at r, ob_uuid r)"

fun last_by :: "('a \<Rightarrow> 'k::linorder) \<Rightarrow> 'a list \<Rightarrow> 'a option" where
  "last_by key [] = None"
| "last_by key (x # xs) =
     (case last_by key xs of None \<Rightarrow> Some x | Some y \<Rightarrow> if key x < key y then Some y else Some x)"

definition latest_report :: "string option \<times> string option \<Rightarrow> observed_row list \<Rightarrow> observed_row option" where
  "latest_report k rs = last_by report_order (filter (\<lambda>r. resource_of (ob_body r) = k) rs)"

definition outstanding_report :: "observed_row \<Rightarrow> bool" where
  "outstanding_report r = (ob_completed_at r = None)"

section \<open>Writing reports\<close>

text \<open>What a report says, apart from when it was made.\<close>

definition without_keys :: "string list \<Rightarrow> dict \<Rightarrow> dict" where
  "without_keys ks d = filter (\<lambda>p. fst p \<notin> set ks) d"

definition report_semantic :: "dict \<Rightarrow> dict" where
  "report_semantic body =
     (let d = without_keys [''report_uuid'', ''observed_at''] body in
      case get_val d ''progress'' of
        VDict p \<Rightarrow> dict_set ''progress'' (VDict (without_keys [''last_progress_at''] p)) d
      | _ \<Rightarrow> d)"

definition same_report :: "dict \<Rightarrow> dict \<Rightarrow> bool" where
  "same_report a b = py_eq (VDict (report_semantic a)) (VDict (report_semantic b))"

definition rejection_cooldown_elapsed :: "timestamp \<Rightarrow> observed_row \<Rightarrow> bool" where
  "rejection_cooldown_elapsed now r =
     (ob_status r = Some ''rejected'' \<and>
      (case ob_completed_at r of None \<Rightarrow> False | Some t \<Rightarrow> t \<le> now - 5 * 60 * 1000000))"

definition new_report_row :: "timestamp \<Rightarrow> dict \<Rightarrow> observed_row" where
  "new_report_row now report =
     \<lparr>ob_uuid = py_str (get_val report ''report_uuid''), ob_body = report, ob_attempts = 0, ob_created_at = now,
      ob_available_at = now, ob_completed_at = None, ob_status = None\<rparr>"

text \<open>\<open>INSERT ... ON CONFLICT (report_uuid) DO NOTHING\<close>\<close>

definition insert_report :: "timestamp \<Rightarrow> dict \<Rightarrow> bridge_db \<Rightarrow> bool \<times> bridge_db" where
  "insert_report now report db =
     (let row = new_report_row now report in
      if list_ex (\<lambda>r. ob_uuid r = ob_uuid row) (bd_observed db) then (False, db)
      else (True, db\<lparr>bd_observed := bd_observed db @ [row]\<rparr>))"

definition enqueue_report :: "timestamp \<Rightarrow> bool \<Rightarrow> dict \<Rightarrow> bridge_db \<Rightarrow> bool \<times> bridge_db" where
  "enqueue_report now confirm_existing report db =
     (case latest_report (resource_of report) (bd_observed db) of
        None \<Rightarrow> insert_report now report db
      | Some previous \<Rightarrow>
          if same_report (ob_body previous) report \<and> \<not> rejection_cooldown_elapsed now previous
          then (confirm_existing \<and> ob_status previous \<notin> {Some ''rejected'', Some ''stale''}, db)
          else insert_report now report db)"

definition enqueue_observed_report :: "timestamp \<Rightarrow> dict \<Rightarrow> bridge_db \<Rightarrow> bool \<times> bridge_db" where
  "enqueue_observed_report now = enqueue_report now False"

definition ensure_observed_report :: "timestamp \<Rightarrow> dict \<Rightarrow> bridge_db \<Rightarrow> bool \<times> bridge_db" where
  "ensure_observed_report now = enqueue_report now True"

text \<open>
  The catalog report for a journalled event marks the event, and with a message the other
  messages of the same conversation and topic, as reported. \<open>IS NOT DISTINCT FROM\<close> compares JSON
  values up to the order of members.
\<close>

definition same_json :: "pyval \<Rightarrow> pyval \<Rightarrow> bool" where
  "same_json v w = (sort_keys v = sort_keys w)"

definition message_member :: "event_row \<Rightarrow> string \<Rightarrow> pyval" where
  "message_member ev k = json_field (get_val (je_body ev) ''message'') k"

definition shares_report :: "event_row \<Rightarrow> event_row \<Rightarrow> bool" where
  "shares_report marker ev =
     (je_account_uuid ev = je_account_uuid marker \<and> je_state ev = ''pending'' \<and>
      (je_queue_id ev = je_queue_id marker \<and> je_event_id ev = je_event_id marker \<or>
       je_type marker = ''message'' \<and> je_type ev = ''message'' \<and>
       je_lane ev \<noteq> None \<and> je_lane ev = je_lane marker \<and>
       same_json (message_member ev ''display_recipient'') (message_member marker ''display_recipient'') \<and>
       (json_text (message_member marker ''type'') \<noteq> Some ''stream'' \<or>
        json_text (message_member ev ''subject'') = json_text (message_member marker ''subject''))))"

definition mark_reported :: "timestamp \<Rightarrow> event_row \<Rightarrow> event_row" where
  "mark_reported now ev = ev\<lparr>je_reported_at := coalesce (je_reported_at ev) (Some now)\<rparr>"

definition ensure_provider_event_catalog_report ::
  "timestamp \<Rightarrow> dict \<Rightarrow> uuid \<Rightarrow> string \<Rightarrow> int \<Rightarrow> bridge_db \<Rightarrow> bool \<times> bridge_db" where
  "ensure_provider_event_catalog_report now report account queue_id event_id db =
     (case enqueue_report now True report db of
        (False, db1) \<Rightarrow> (False, db1)
      | (True, db1) \<Rightarrow>
          (case find_pending account queue_id event_id db1 of
             None \<Rightarrow> (False, db1)
           | Some marker \<Rightarrow> (True, update_events (shares_report marker) (mark_reported now) db1)))"

definition delete_catalog_topology :: "timestamp \<Rightarrow> uuid \<Rightarrow> string \<Rightarrow> bridge_db \<Rightarrow> bridge_db" where
  "delete_catalog_topology now account chat db =
     update_events (\<lambda>ev. je_account_uuid ev = account \<and> je_lane ev = Some chat \<and> je_state ev = ''pending'' \<and>
         je_reason ev = Some ''provider_chat_assignment_pending'')
       (\<lambda>ev. ev\<lparr>je_available_at := now\<rparr>)
       (on_queue (\<lambda>q. q\<lparr>db_catalog := (db_catalog q)((account, chat) := None)\<rparr>)
         (db\<lparr>bd_topics := (bd_topics db)((account, chat) := None)\<rparr>))"

definition ensure_catalog_deletion ::
  "timestamp \<Rightarrow> dict \<Rightarrow> uuid \<Rightarrow> string \<Rightarrow> (uuid \<times> string \<times> int) option \<Rightarrow> bridge_db \<Rightarrow> bool \<times> bridge_db" where
  "ensure_catalog_deletion now report account chat marker db =
     (case enqueue_report now True report db of
        (False, db1) \<Rightarrow> (False, db1)
      | (True, db1) \<Rightarrow>
          (case marker of
             None \<Rightarrow> (True, delete_catalog_topology now account chat db1)
           | Some (a, queue_id, event_id) \<Rightarrow>
               (case mark_provider_event_catalog_reported now a queue_id event_id db1 of
                  (False, db2) \<Rightarrow> (False, db2)
                | (True, db2) \<Rightarrow> (True, delete_catalog_topology now account chat db2))))"

section \<open>The next batch\<close>

text \<open>An outstanding report gives way to a newer outstanding one of the same resource.\<close>

definition outdone :: "observed_row list \<Rightarrow> observed_row \<Rightarrow> bool" where
  "outdone rs r =
     (outstanding_report r \<and>
      list_ex (\<lambda>s. outstanding_report s \<and> resource_of (ob_body s) = resource_of (ob_body r) \<and>
          report_order r < report_order s) rs)"

definition supersede_reports :: "timestamp \<Rightarrow> observed_row list \<Rightarrow> observed_row list" where
  "supersede_reports now rs =
     update_where (outdone rs) (\<lambda>r. r\<lparr>ob_completed_at := Some now, ob_status := Some ''superseded''\<rparr>) rs"

text \<open>The chat a message belongs to: its channel, or the participants of the conversation in numeric order.\<close>

definition participant_ids :: "pyval list \<Rightarrow> string list" where
  "participant_ids vs =
     sort_key (\<lambda>s. the (numeric_id s))
       (List.map_filter (\<lambda>v. case json_text (json_field v ''id'') of
          Some s \<Rightarrow> if s \<noteq> [] \<and> numeric_id s \<noteq> None then Some s else None | None \<Rightarrow> None) vs)"

definition conversation_chat_key :: "pyval \<Rightarrow> string option" where
  "conversation_chat_key recipients =
     (case recipients of
        VList vs \<Rightarrow> Some ((if length vs = 2 then ''direct:'' else ''group_direct:'') @ join '','' (participant_ids vs))
      | _ \<Rightarrow> None)"

definition message_chat_key :: "pyval \<Rightarrow> string option" where
  "message_chat_key message =
     (case json_text (json_field message ''stream_id'') of
        Some s \<Rightarrow> Some (''channel:'' @ s)
      | None \<Rightarrow> conversation_chat_key (json_field message ''display_recipient''))"

text \<open>The chat that the oldest pending event of an account waits for.\<close>

definition dependency_chat :: "queue_db \<Rightarrow> uuid \<Rightarrow> string option" where
  "dependency_chat q account =
     (case db_accounts q account of
        None \<Rightarrow> None
      | Some _ \<Rightarrow>
          (case first_by je_key (filter (\<lambda>ev. je_account_uuid ev = account \<and> je_state ev = ''pending'') (db_events q)) of
             None \<Rightarrow> None
           | Some ev \<Rightarrow>
               if body_field ev ''type'' \<notin> {Some ''message'', Some ''user_topic''} then None
               else if body_field ev ''type'' = Some ''user_topic'' \<and> body_field ev ''stream_id'' \<noteq> None
               then map_option (\<lambda>s. ''channel:'' @ s) (body_field ev ''stream_id'')
               else message_chat_key (get_val (je_body ev) ''message'')))"

definition catalog_field :: "dict \<Rightarrow> string \<Rightarrow> pyval" where
  "catalog_field body k = json_field (get_val body ''catalog'') k"

definition catalog_chat :: "dict \<Rightarrow> string option" where
  "catalog_chat body = json_text (json_field (catalog_field body ''source'') ''provider_chat_key'')"

definition chat_materialization :: "dict \<Rightarrow> bool" where
  "chat_materialization body =
     (json_text (get_val body ''resource_type'') = Some ''external_chat_catalog'' \<and>
      json_text (get_val body ''status'') = Some ''ready'' \<and>
      coalesce (json_text (catalog_field body ''operation'')) (Some ''upsert'') = Some ''upsert'')"

definition live_dependency :: "queue_db \<Rightarrow> dict \<Rightarrow> bool" where
  "live_dependency q body =
     (case json_text (catalog_field body ''external_account_uuid'') of
        None \<Rightarrow> False
      | Some account \<Rightarrow> dependency_chat q account \<noteq> None \<and> dependency_chat q account = catalog_chat body)"

text \<open>Reports of one account take turns with those of the others.\<close>

definition report_account :: "dict \<Rightarrow> string option" where
  "report_account body =
     coalesce (json_text (catalog_field body ''external_account_uuid'')) (json_text (get_val body ''resource_uuid''))"

definition turn_order :: "queue_db \<Rightarrow> observed_row \<Rightarrow> bool \<times> bool \<times> timestamp \<times> uuid" where
  "turn_order q r =
     (\<not> chat_materialization (ob_body r), \<not> live_dependency q (ob_body r), ob_created_at r, ob_uuid r)"

definition account_position :: "queue_db \<Rightarrow> observed_row list \<Rightarrow> observed_row \<Rightarrow> nat" where
  "account_position q rs r =
     Suc (length (filter (\<lambda>s. report_account (ob_body s) = report_account (ob_body r) \<and> turn_order q s < turn_order q r) rs))"

definition batch_order :: "queue_db \<Rightarrow> observed_row list \<Rightarrow> observed_row \<Rightarrow> bool \<times> bool \<times> bool \<times> nat \<times> timestamp \<times> uuid" where
  "batch_order q rs r =
     (ob_text r ''resource_type'' \<noteq> Some ''external_account'', \<not> chat_materialization (ob_body r),
      \<not> live_dependency q (ob_body r), account_position q rs r, ob_created_at r, ob_uuid r)"

definition available_reports :: "timestamp \<Rightarrow> observed_row list \<Rightarrow> observed_row list" where
  "available_reports now rs = filter (\<lambda>r. outstanding_report r \<and> ob_available_at r \<le> now) rs"

definition pending_observed_reports :: "timestamp \<Rightarrow> int \<Rightarrow> bridge_db \<Rightarrow> dict list \<times> bridge_db" where
  "pending_observed_reports now limit db =
     (let rs = supersede_reports now (bd_observed db);
          available = available_reports now rs
      in (map ob_body (take (nat limit) (sort_key (batch_order (bd_queue db) available) available)), db\<lparr>bd_observed := rs\<rparr>))"

definition has_pending_chat_materializations :: "bridge_db \<Rightarrow> bool" where
  "has_pending_chat_materializations db =
     list_ex (\<lambda>r. outstanding_report r \<and> chat_materialization (ob_body r)) (bd_observed db)"

section \<open>Answers\<close>

text \<open>
  A report that control did not apply lets the events that waited for it be reported again:
  the pending events of the account whose message belongs to the chat of the report.
\<close>

definition event_message :: "event_row \<Rightarrow> pyval" where
  "event_message ev =
     (if body_field ev ''type'' = Some ''message'' then get_val (je_body ev) ''message''
      else if body_field ev ''type'' = Some ''reaction'' then (case je_context ev of Some v \<Rightarrow> v | None \<Rightarrow> VNone)
      else if body_field ev ''type'' = Some ''user_topic'' then VDict [(''stream_id'', get_val (je_body ev) ''stream_id'')]
      else VNone)"

definition waits_for_report :: "dict \<Rightarrow> event_row \<Rightarrow> bool" where
  "waits_for_report body ev =
     (json_text (get_val body ''resource_type'') = Some ''external_chat_catalog'' \<and>
      json_text (catalog_field body ''external_account_uuid'') = Some (je_account_uuid ev) \<and>
      je_state ev = ''pending'' \<and> je_reported_at ev \<noteq> None \<and>
      message_chat_key (event_message ev) \<noteq> None \<and> message_chat_key (event_message ev) = catalog_chat body)"

definition clear_unapplied_catalog_report_markers :: "uuid \<Rightarrow> bridge_db \<Rightarrow> bridge_db" where
  "clear_unapplied_catalog_report_markers report db =
     (case find (\<lambda>r. ob_uuid r = report) (bd_observed db) of
        None \<Rightarrow> db
      | Some r \<Rightarrow> update_events (waits_for_report (ob_body r)) (\<lambda>ev. ev\<lparr>je_reported_at := None\<rparr>) db)"

definition on_report :: "uuid \<Rightarrow> (observed_row \<Rightarrow> bool) \<Rightarrow> (observed_row \<Rightarrow> observed_row) \<Rightarrow> bridge_db \<Rightarrow> bridge_db" where
  "on_report report p f db = db\<lparr>bd_observed := update_where (\<lambda>r. ob_uuid r = report \<and> p r) f (bd_observed db)\<rparr>"

definition result_retryable :: "dict \<Rightarrow> bool" where
  "result_retryable result =
     (case get_val result ''safe_error'' of VDict e \<Rightarrow> get_val e ''retryable'' = VBool True | _ \<Rightarrow> False)"

definition report_retry_delay :: "int \<Rightarrow> int" where
  "report_retry_delay attempts = min 300 (2 ^ nat (min attempts 8))"

definition apply_report_result :: "timestamp \<Rightarrow> dict \<Rightarrow> bridge_db \<Rightarrow> bridge_db result" where
  "apply_report_result now result db =
     bindE (item result ''report_uuid'') (\<lambda>u.
     bindE (item result ''status'') (\<lambda>st.
     let report = py_str u; status = py_str st in
     if status \<in> {''applied'', ''duplicate'', ''stale''} \<or> status = ''rejected'' \<and> \<not> result_retryable result
     then
       (let db1 = on_report report (\<lambda>_. True) (\<lambda>r. r\<lparr>ob_completed_at := Some now, ob_status := Some status\<rparr>) db
        in Inr (if status \<in> {''rejected'', ''stale''} then clear_unapplied_catalog_report_markers report db1 else db1))
     else Inr (on_report report outstanding_report
            (\<lambda>r. r\<lparr>ob_attempts := ob_attempts r + 1, ob_available_at := now + seconds (report_retry_delay (ob_attempts r))\<rparr>) db)))"

text \<open>One transaction: an answer without its members rolls the others back.\<close>

definition apply_observed_report_results :: "timestamp \<Rightarrow> dict list \<Rightarrow> bridge_db \<Rightarrow> bridge_db result" where
  "apply_observed_report_results now results db = foldE (\<lambda>d result. apply_report_result now result d) db results"

section \<open>Catalog reports of an account\<close>

definition catalog_reports :: "uuid \<Rightarrow> int \<Rightarrow> bridge_db \<Rightarrow> observed_row list" where
  "catalog_reports account generation db =
     filter (\<lambda>r. ob_text r ''resource_type'' = Some ''external_chat_catalog'' \<and>
         json_text (catalog_field (ob_body r) ''external_account_uuid'') = Some account \<and>
         body_generation (ob_body r) = generation) (bd_observed db)"

text \<open>\<open>DISTINCT ON (resource_uuid)\<close>: the newest of the reports of each resource.\<close>

definition newest_per_resource :: "observed_row list \<Rightarrow> observed_row list" where
  "newest_per_resource rs =
     List.map_filter (\<lambda>u. last_by report_order (filter (\<lambda>r. ob_text r ''resource_uuid'' = u) rs))
       (remdups (map (\<lambda>r. ob_text r ''resource_uuid'') rs))"

definition report_accepted :: "observed_row \<Rightarrow> bool" where
  "report_accepted r = (ob_status r \<in> {Some ''applied'', Some ''duplicate''})"

definition catalog_reports_accepted :: "uuid \<Rightarrow> int \<Rightarrow> bridge_db \<Rightarrow> bool" where
  "catalog_reports_accepted account generation db =
     list_all report_accepted (newest_per_resource (catalog_reports account generation db))"

definition selected_chat_limit :: "queue_db \<Rightarrow> int" where
  "selected_chat_limit q =
     (let policy = (case provider_policy ''zulip'' q of Some b \<Rightarrow> b | None \<Rightarrow> VDict []) in
      case json_field policy ''limits'' of
        VDict limits \<Rightarrow>
          (case get_default limits ''max_selected_chats_per_account'' (VInt 0) of VInt i \<Rightarrow> i | _ \<Rightarrow> 0)
      | _ \<Rightarrow> 0)"

definition catalog_assignments_ready :: "uuid \<Rightarrow> int \<Rightarrow> bridge_db \<Rightarrow> bool result" where
  "catalog_assignments_ready account generation db =
     (case account_resource account (bd_queue db) of
        None \<Rightarrow> Inr False
      | Some body \<Rightarrow>
          bindE (sub_item body ''settings'') (\<lambda>settings.
          case settings of
            VDict s \<Rightarrow>
              if get_val s ''selection_mode'' \<noteq> VStr ''all'' then Inr True
              else
                let catalog = length (filter (\<lambda>r. json_text (catalog_field (ob_body r) ''operation'') = Some ''upsert'' \<and> report_accepted r)
                      (newest_per_resource (catalog_reports account generation db)));
                    assigned = length (filter (\<lambda>d. body_text d ''external_account_uuid'' = Some account)
                      (selected_assignments (bd_queue db)))
                in Inr (int assigned \<ge> min (int catalog) (selected_chat_limit (bd_queue db)))
          | _ \<Rightarrow> Inl TypeErr))"

section \<open>The participants and topics of a catalog\<close>

definition user_key :: "dict \<Rightarrow> string option" where
  "user_key d = (case get_val d ''provider_user_id'' of VNone \<Rightarrow> None | v \<Rightarrow> Some (py_str v))"

definition fill_missing :: "dict \<Rightarrow> string \<Rightarrow> dict \<Rightarrow> dict" where
  "fill_missing observed k merged =
     (if \<not> truthy (get_val merged k) \<and> truthy (get_val observed k) then dict_set k (get_val observed k) merged else merged)"

definition stripped_name :: "dict \<Rightarrow> string" where
  "stripped_name d = strip (py_str (get_default d ''display_name'' (VStr [])))"

definition merge_participant :: "bool \<Rightarrow> string \<Rightarrow> dict \<Rightarrow> dict \<Rightarrow> dict" where
  "merge_participant authoritative key prior observed =
     (let m1 = dict_set ''is_owner'' (VBool (truthy (get_val prior ''is_owner'') \<or> truthy (get_val observed ''is_owner''))) prior;
          m2 = (case get_val observed ''_provider_active'' of VBool b \<Rightarrow> dict_set ''_provider_active'' (VBool b) m1 | _ \<Rightarrow> m1);
          m3 = fill_missing observed ''avatar_urn'' (fill_missing observed ''email'' m2);
          old = stripped_name prior; new = stripped_name observed
      in if authoritative \<and> new \<noteq> [] \<and> new \<noteq> key \<or> (old = [] \<or> old = key) \<and> new \<noteq> []
         then dict_set ''display_name'' (VStr new) m3 else m3)"

definition add_participant :: "bool \<Rightarrow> dict \<Rightarrow> (string \<times> dict) list \<Rightarrow> (string \<times> dict) list" where
  "add_participant authoritative observed ps =
     (case user_key observed of
        None \<Rightarrow> ps
      | Some key \<Rightarrow>
          (case map_of ps key of
             None \<Rightarrow> dict_set key observed ps
           | Some prior \<Rightarrow> dict_set key (merge_participant authoritative key prior observed) ps))"

definition current_participants :: "bool \<Rightarrow> string list \<Rightarrow> pyval list \<Rightarrow> (string \<times> dict) list" where
  "current_participants authoritative observed_ids current =
     fold (\<lambda>v ps. case v of
         VDict d \<Rightarrow>
           (case user_key d of
              None \<Rightarrow> ps
            | Some key \<Rightarrow> if authoritative \<and> key \<notin> set observed_ids then ps else dict_set key d ps)
       | _ \<Rightarrow> ps) current []"

definition merge_catalog_participants :: "pyval list \<Rightarrow> dict list \<Rightarrow> bool \<Rightarrow> dict list" where
  "merge_catalog_participants current observed authoritative =
     map snd (sort_key fst (fold (add_participant authoritative) observed
       (current_participants authoritative (List.map_filter user_key observed) current)))"

definition listed :: "pyval option \<Rightarrow> pyval list" where
  "listed v = (case v of Some (VList vs) \<Rightarrow> vs | _ \<Rightarrow> [])"

definition merge_topics :: "pyval list \<Rightarrow> dict list \<Rightarrow> dict list" where
  "merge_topics old new =
     map snd (sort_key fst (fold (\<lambda>v ts. case v of
         VDict d \<Rightarrow> (case get_val d ''provider_topic_id'' of VNone \<Rightarrow> ts | i \<Rightarrow> dict_set (py_str i) d ts)
       | _ \<Rightarrow> ts) (old @ map VDict new) []))"

definition merge_catalog_topology ::
  "uuid \<Rightarrow> string \<Rightarrow> dict list \<Rightarrow> dict list \<Rightarrow> bool \<Rightarrow> bridge_db \<Rightarrow> (dict list \<times> dict list) \<times> bridge_db" where
  "merge_catalog_topology account chat participants topics authoritative db =
     (let ps = merge_catalog_participants (listed (db_catalog (bd_queue db) (account, chat))) participants authoritative;
          ts = merge_topics (listed (bd_topics db (account, chat))) topics
      in ((ps, ts),
          on_queue (\<lambda>q. q\<lparr>db_catalog := (db_catalog q)((account, chat) \<mapsto> VList (map VDict ps))\<rparr>)
            (db\<lparr>bd_topics := (bd_topics db)((account, chat) \<mapsto> VList (map VDict ts))\<rparr>)))"

end
