(* ===== verification/Report_Flush.thy ===== *)
theory Report_Flush
  imports Observed_Reports Account_Breaker
begin

text \<open>
  The reporter of the service (\<open>service.py\<close>): reports are built with an identifier that digests
  what they say, the states of accounts that are already reported are remembered in memory,
  and batches are sent to the control plane (the argument \<open>control\<close>, which raises or returns
  the list \<open>results\<close> of its response). \<open>uuid5\<close> is the name-based UUID of the bridge, \<open>now\<close> the
  clock of the database and the service, \<open>tick\<close> the monotonic clock.
\<close>

section \<open>Building a report\<close>

definition observed_report_uuid ::
  "(string \<Rightarrow> string) \<Rightarrow> (string \<Rightarrow> string) \<Rightarrow> (string \<Rightarrow> uuid) \<Rightarrow> dict \<Rightarrow> uuid result" where
  "observed_report_uuid nfc sha256 uuid5 report =
     bindE (canonical_json nfc (VDict (without_keys [''report_uuid''] report))) (\<lambda>s.
       Inr (uuid5 (''observed:'' @ sha256 s)))"

definition report_body ::
  "timestamp \<Rightarrow> string \<Rightarrow> uuid \<Rightarrow> int \<Rightarrow> string \<Rightarrow> string \<Rightarrow> dict option \<Rightarrow> string option \<Rightarrow> dict" where
  "report_body now resource_type resource generation status phase catalog code =
     [(''report_uuid'', VStr []), (''resource_type'', VStr resource_type), (''resource_uuid'', VStr resource),
      (''observed_generation'', VInt generation), (''status'', VStr status),
      (''progress'', VDict [(''phase'', VStr phase), (''completed'', VInt 1), (''total'', VInt 1),
          (''last_progress_at'', VStr (iso_utc now))]),
      (''safe_error'', case code of None \<Rightarrow> VNone | Some c \<Rightarrow>
          VDict [(''code'', VStr c), (''message'', VStr ''The provider history synchronization failed.'')]),
      (''observed_at'', VStr (iso_utc now))]
     @ (case catalog of None \<Rightarrow> [] | Some c \<Rightarrow> [(''catalog'', VDict c)])"

definition make_report ::
  "(string \<Rightarrow> string) \<Rightarrow> (string \<Rightarrow> string) \<Rightarrow> (string \<Rightarrow> uuid) \<Rightarrow> timestamp \<Rightarrow> string \<Rightarrow> uuid \<Rightarrow> int \<Rightarrow> string \<Rightarrow>
     string \<Rightarrow> dict option \<Rightarrow> string option \<Rightarrow> dict result" where
  "make_report nfc sha256 uuid5 now resource_type resource generation status phase catalog code =
     bindE (parse_uuid resource) (\<lambda>u.
     let body = report_body now resource_type u generation status phase catalog code in
     bindE (observed_report_uuid nfc sha256 uuid5 body) (\<lambda>r. Inr (dict_set ''report_uuid'' (VStr r) body)))"

text \<open>How durable the report has to be.\<close>

datatype report_mode =
    Enqueue
  | Ensure "(uuid \<times> string \<times> int) option" "(uuid \<times> string) option"

definition queue_report :: "timestamp \<Rightarrow> report_mode \<Rightarrow> dict \<Rightarrow> bridge_db \<Rightarrow> bool \<times> bridge_db" where
  "queue_report now mode report db =
     (case mode of
        Enqueue \<Rightarrow> enqueue_observed_report now report db
      | Ensure marker (Some (account, chat)) \<Rightarrow> ensure_catalog_deletion now report account chat marker db
      | Ensure (Some (account, queue_id, event_id)) None \<Rightarrow>
          ensure_provider_event_catalog_report now report account queue_id event_id db
      | Ensure None None \<Rightarrow> ensure_observed_report now report db)"

definition queue_observed_report ::
  "(string \<Rightarrow> string) \<Rightarrow> (string \<Rightarrow> string) \<Rightarrow> (string \<Rightarrow> uuid) \<Rightarrow> timestamp \<Rightarrow> string \<Rightarrow> uuid \<Rightarrow> int \<Rightarrow> string \<Rightarrow>
     string \<Rightarrow> dict option \<Rightarrow> string option \<Rightarrow> report_mode \<Rightarrow> bridge_db \<Rightarrow> bool result \<times> bridge_db" where
  "queue_observed_report nfc sha256 uuid5 now resource_type resource generation status phase catalog code mode db =
     (case make_report nfc sha256 uuid5 now resource_type resource generation status phase catalog code of
        Inl e \<Rightarrow> (Inl e, db)
      | Inr report \<Rightarrow> (case queue_report now mode report db of (queued, db1) \<Rightarrow> (Inr queued, db1)))"

section \<open>Reports of accounts\<close>

text \<open>The reported state of an account: its generation, status and error code.\<close>

type_synonym report_state = "int \<times> string \<times> string option"

record report_cache =
  rc_states :: "uuid \<rightharpoonup> report_state"
  rc_retry_after :: "uuid \<rightharpoonup> report_state \<times> timestamp"

definition OBSERVED_REPORT_RECHECK_INTERVAL_SECONDS :: int where
  "OBSERVED_REPORT_RECHECK_INTERVAL_SECONDS = 300"

definition OBSERVED_REPORT_BATCH_SIZE :: int where
  "OBSERVED_REPORT_BATCH_SIZE = 20"

definition report_phase :: "string \<Rightarrow> string" where
  "report_phase status =
     (if status = ''live_ready'' then ''live'' else if status = ''auth_required'' then ''auth_required''
      else if status = ''degraded'' then ''retry'' else ''backfill'')"

definition resource_generation :: "pyval \<Rightarrow> int result" where
  "resource_generation body = bindE (sub_item body ''generation'') int_of"

definition suppressed_report :: "timestamp \<Rightarrow> report_state \<Rightarrow> (report_state \<times> timestamp) option \<Rightarrow> bool" where
  "suppressed_report tick st s = (case s of None \<Rightarrow> False | Some (st', t) \<Rightarrow> st' = st \<and> tick < t)"

definition queue_account_report ::
  "(string \<Rightarrow> string) \<Rightarrow> (string \<Rightarrow> string) \<Rightarrow> (string \<Rightarrow> uuid) \<Rightarrow> timestamp \<Rightarrow> timestamp \<Rightarrow> uuid \<Rightarrow> string \<Rightarrow>
     string option \<Rightarrow> int option \<Rightarrow> report_cache \<Rightarrow> bridge_db \<Rightarrow> unit result \<times> report_cache \<times> bridge_db" where
  "queue_account_report nfc sha256 uuid5 now tick account status code expected cache db =
     (case account_resource account (bd_queue db) of
        None \<Rightarrow> (Inr (), cache, db)
      | Some body \<Rightarrow>
          (case resource_generation body of
             Inl e \<Rightarrow> (Inl e, cache, db)
           | Inr generation \<Rightarrow>
               let st = (generation, status, code) in
               if expected \<notin> {None, Some generation} \<or> rc_states cache account = Some st \<or>
                  suppressed_report tick st (rc_retry_after cache account)
               then (Inr (), cache, db)
               else
                 (case queue_observed_report nfc sha256 uuid5 now ''external_account'' account generation status
                         (report_phase status) None code Enqueue db of
                    (Inl e, db1) \<Rightarrow> (Inl e, cache, db1)
                  | (Inr True, db1) \<Rightarrow>
                      (Inr (), cache\<lparr>rc_states := (rc_states cache)(account \<mapsto> st),
                          rc_retry_after := (rc_retry_after cache)(account := None)\<rparr>, db1)
                  | (Inr False, db1) \<Rightarrow>
                      (Inr (), cache\<lparr>rc_retry_after := (rc_retry_after cache)(account \<mapsto>
                          (st, tick + seconds OBSERVED_REPORT_RECHECK_INTERVAL_SECONDS))\<rparr>, db1))))"

definition queue_history_failure_report ::
  "(string \<Rightarrow> string) \<Rightarrow> (string \<Rightarrow> string) \<Rightarrow> (string \<Rightarrow> uuid) \<Rightarrow> timestamp \<Rightarrow> uuid \<Rightarrow> string \<Rightarrow> string \<Rightarrow> int \<Rightarrow>
     bridge_db \<Rightarrow> bool result \<times> bridge_db" where
  "queue_history_failure_report nfc sha256 uuid5 now account status code expected db =
     (case account_resource account (bd_queue db) of
        None \<Rightarrow> (Inr False, db)
      | Some body \<Rightarrow>
          (case resource_generation body of
             Inl e \<Rightarrow> (Inl e, db)
           | Inr generation \<Rightarrow>
               if generation \<noteq> expected then (Inr False, db)
               else queue_observed_report nfc sha256 uuid5 now ''external_account'' account expected status ''retry'' None
                      (Some code) (Ensure None None) db))"

section \<open>Reports of assignments\<close>

definition reported_live :: "desired_row \<Rightarrow> observed_row \<Rightarrow> bool" where
  "reported_live d r =
     (ob_text r ''resource_type'' = Some ''external_chat_assignment'' \<and> ob_text r ''resource_uuid'' = Some (ds_uuid d) \<and>
      body_generation (ob_body r) = ds_generation d \<and> ob_text r ''status'' = Some ''live_ready'' \<and>
      ob_status r \<in> {None, Some ''applied'', Some ''duplicate''})"

definition history_complete :: "queue_db \<Rightarrow> uuid \<Rightarrow> desired_row \<Rightarrow> bool" where
  "history_complete q account d =
     list_ex (\<lambda>b. bf_account_uuid b = account \<and> Some (bf_chat_key b) = body_chat_key d \<and> bf_state b = ''complete'')
       (db_backfills q)"

definition assignments_needing_live_report :: "uuid \<Rightarrow> bridge_db \<Rightarrow> pyval list" where
  "assignments_needing_live_report account db =
     map ds_body (sort_key ds_uuid (filter (\<lambda>d. body_text d ''external_account_uuid'' = Some account \<and>
         history_complete (bd_queue db) account d \<and> \<not> list_ex (reported_live d) (bd_observed db))
       (selected_assignments (bd_queue db))))"

fun queue_assignment_reports ::
  "(string \<Rightarrow> string) \<Rightarrow> (string \<Rightarrow> string) \<Rightarrow> (string \<Rightarrow> uuid) \<Rightarrow> timestamp \<Rightarrow> pyval list \<Rightarrow> bridge_db \<Rightarrow>
     unit result \<times> bridge_db" where
  "queue_assignment_reports nfc sha256 uuid5 now [] db = (Inr (), db)"
| "queue_assignment_reports nfc sha256 uuid5 now (a # as) db =
     (case bindE (sub_item a ''uuid'') (\<lambda>u. bindE (resource_generation a) (\<lambda>g. Inr (py_str u, g))) of
        Inl e \<Rightarrow> (Inl e, db)
      | Inr (u, g) \<Rightarrow>
          (case queue_observed_report nfc sha256 uuid5 now ''external_chat_assignment'' u g ''live_ready'' ''live'' None None
                  Enqueue db of
             (Inl e, db1) \<Rightarrow> (Inl e, db1)
           | (Inr _, db1) \<Rightarrow> queue_assignment_reports nfc sha256 uuid5 now as db1))"

definition queue_ready_assignment_reports ::
  "(string \<Rightarrow> string) \<Rightarrow> (string \<Rightarrow> string) \<Rightarrow> (string \<Rightarrow> uuid) \<Rightarrow> timestamp \<Rightarrow> uuid \<Rightarrow> bridge_db \<Rightarrow> unit result \<times> bridge_db" where
  "queue_ready_assignment_reports nfc sha256 uuid5 now account db =
     queue_assignment_reports nfc sha256 uuid5 now (assignments_needing_live_report account db) db"

section \<open>Flushing\<close>

text \<open>A rejected account report is forgotten, so that the state is reported again.\<close>

definition forget_rejected :: "dict \<Rightarrow> dict \<Rightarrow> report_cache \<Rightarrow> report_cache" where
  "forget_rejected report result cache =
     (if get_val result ''status'' \<noteq> VStr ''rejected'' \<or> result_retryable result \<or>
         get_val report ''resource_type'' \<noteq> VStr ''external_account''
      then cache
      else
        let account = py_str (get_val report ''resource_uuid'');
            code = (case get_val report ''safe_error'' of VDict e \<Rightarrow> Some (py_str (get_val e ''code'')) | _ \<Rightarrow> None);
            st = (body_generation report, py_str (get_val report ''status''), code)
        in if rc_states cache account = Some st then cache\<lparr>rc_states := (rc_states cache)(account := None)\<rparr> else cache)"

definition flush_observed_reports ::
  "(dict list \<Rightarrow> dict list result) \<Rightarrow> timestamp \<Rightarrow> report_cache \<Rightarrow> bridge_db \<Rightarrow> nat result \<times> report_cache \<times> bridge_db" where
  "flush_observed_reports control now cache db =
     (case pending_observed_reports now OBSERVED_REPORT_BATCH_SIZE db of
        ([], db1) \<Rightarrow> (Inr 0, cache, db1)
      | (reports, db1) \<Rightarrow>
          (case bindE (control reports) (\<lambda>results.
                bindE (mapE (\<lambda>r. bindE (item r ''report_uuid'') (\<lambda>u. Inr (py_str u))) reports) (\<lambda>expected.
                bindE (mapE (\<lambda>r. bindE (item r ''report_uuid'') (\<lambda>u. Inr (py_str u))) results) (\<lambda>actual.
                bindE (guardE (actual = expected) (ValueErr ''Observed report results do not match request order'')) (\<lambda>_.
                bindE (apply_observed_report_results now results db1) (\<lambda>db2. Inr (results, db2)))))) of
             Inl e \<Rightarrow> (Inl e, cache, db1)
           | Inr (results, db2) \<Rightarrow>
               (Inr (length results), fold (\<lambda>(report, result). forget_rejected report result) (zip reports results) cache, db2)))"

end
