(* ===== verification/Report_Properties.thy ===== *)
theory Report_Properties
  imports Report_Flush Directory_Properties
begin

text \<open>
  Properties of the report outbox: only the newest report of a resource is ever offered, and a
  report that a caller was promised is in the outbox.
\<close>

section \<open>The newest report of a resource\<close>

lemma last_by_None [simp]: "last_by key xs = None \<longleftrightarrow> xs = []"
  by (cases xs) (auto split: option.splits)

lemma last_by_in: "last_by key xs = Some x \<Longrightarrow> x \<in> set xs"
  by (induction xs arbitrary: x) (auto split: option.splits if_splits)

lemma last_by_greatest: "last_by key xs = Some x \<Longrightarrow> y \<in> set xs \<Longrightarrow> key y \<le> key x"
  by (induction xs arbitrary: x) (fastforce split: option.splits if_splits)+

lemma latest_reportD:
  assumes "latest_report k rs = Some r"
  shows "r \<in> set rs" "resource_of (ob_body r) = k" "s \<in> set rs \<Longrightarrow> resource_of (ob_body s) = k \<Longrightarrow> report_order s \<le> report_order r"
  using assms last_by_in last_by_greatest [of report_order _ r s] by (fastforce simp: latest_report_def)+

lemma report_order_inj:
  assumes "distinct (map ob_uuid rs)" "r \<in> set rs" "s \<in> set rs" "report_order r = report_order s"
  shows "r = s"
proof -
  from assms(4) have "ob_uuid r = ob_uuid s" by (simp add: report_order_def)
  with assms(1-3) show ?thesis by (auto simp: distinct_map dest: inj_onD)
qed

lemma outstanding_superseded:
  "r \<in> set (supersede_reports now rs) \<and> outstanding_report r \<longleftrightarrow> r \<in> set rs \<and> outstanding_report r \<and> \<not> outdone rs r"
proof -
  have "r \<noteq> s\<lparr>ob_completed_at := Some now, ob_status := t\<rparr>" if "outstanding_report r" for s t
    using that by (metis observed_row.select_convs(6) observed_row.surjective observed_row.update_convs(6,7)
        option.distinct(1) outstanding_report_def)
  then show ?thesis by (auto simp: supersede_reports_def set_update_where)
qed

lemma not_outdone:
  assumes "outstanding_report r" "\<not> outdone rs r" "s \<in> set rs" "outstanding_report s"
    and "resource_of (ob_body s) = resource_of (ob_body r)"
  shows "report_order s \<le> report_order r"
  using assms by (auto simp: outdone_def list_ex_iff not_less)

text \<open>
  C17. Only the newest report of a resource is offered: every report of a batch was outstanding
  and available, no outstanding report of the same resource is newer, and afterwards the
  outbox holds at most one outstanding report of each resource.
\<close>

theorem reports_newest_once:
  assumes "pending_observed_reports now limit db = (bodies, db')" and "distinct (map ob_uuid (bd_observed db))"
  shows "(\<forall>b \<in> set bodies. \<exists>r \<in> set (bd_observed db). ob_body r = b \<and> outstanding_report r \<and> ob_available_at r \<le> now \<and>
      (\<forall>s \<in> set (bd_observed db). outstanding_report s \<longrightarrow> resource_of (ob_body s) = resource_of b \<longrightarrow>
        report_order s \<le> report_order r)) \<and>
    (\<forall>r \<in> set (bd_observed db'). \<forall>s \<in> set (bd_observed db'). outstanding_report r \<longrightarrow> outstanding_report s \<longrightarrow>
      resource_of (ob_body r) = resource_of (ob_body s) \<longrightarrow> r = s)"
proof (intro conjI ballI impI)
  let ?rs = "bd_observed db"
  let ?old = "supersede_reports now ?rs"
  have db': "bd_observed db' = ?old" using assms(1) by (auto simp: pending_observed_reports_def Let_def)
  fix b assume "b \<in> set bodies"
  with assms(1) obtain r where r: "r \<in> set ?old" "outstanding_report r" "ob_available_at r \<le> now" "ob_body r = b"
    by (auto simp: pending_observed_reports_def Let_def available_reports_def dest!: in_set_takeD)
  then have "r \<in> set ?rs" "\<not> outdone ?rs r" using outstanding_superseded [of r now ?rs] by auto
  then show "\<exists>r \<in> set ?rs. ob_body r = b \<and> outstanding_report r \<and> ob_available_at r \<le> now \<and>
      (\<forall>s \<in> set ?rs. outstanding_report s \<longrightarrow> resource_of (ob_body s) = resource_of b \<longrightarrow> report_order s \<le> report_order r)"
    using r not_outdone [of r ?rs] by metis
next
  let ?rs = "bd_observed db"
  fix r s assume *: "r \<in> set (bd_observed db')" "s \<in> set (bd_observed db')" "outstanding_report r" "outstanding_report s"
    "resource_of (ob_body r) = resource_of (ob_body s)"
  have "bd_observed db' = supersede_reports now ?rs" using assms(1) by (auto simp: pending_observed_reports_def Let_def)
  with * have m: "r \<in> set ?rs" "\<not> outdone ?rs r" "s \<in> set ?rs" "\<not> outdone ?rs s"
    using outstanding_superseded [of _ now ?rs] by metis+
  with * have "report_order r = report_order s"
    using not_outdone [of r ?rs s] not_outdone [of s ?rs r] by (simp add: order_antisym)
  with m assms(2) show "r = s" by (intro report_order_inj) simp_all
qed

section \<open>Durable reports\<close>

definition has_report :: "dict \<Rightarrow> bridge_db \<Rightarrow> bool" where
  "has_report report db =
     list_ex (\<lambda>r. resource_of (ob_body r) = resource_of report \<and> (ob_body r = report \<or> same_report (ob_body r) report) \<and>
        ob_status r \<notin> {Some ''rejected'', Some ''stale''}) (bd_observed db)"

lemma enqueue_report_confirmed: "enqueue_report now True report db = (True, db') \<Longrightarrow> has_report report db'"
  using latest_reportD(1,2) [of "resource_of report" "bd_observed db"]
  by (fastforce simp: enqueue_report_def insert_report_def Let_def has_report_def list_ex_iff new_report_row_def
      split: option.splits if_splits)

lemma has_report_update_events [simp]: "has_report report (update_events p f db) = has_report report db"
  by (simp add: has_report_def update_events_def on_queue_def)

lemma has_report_delete [simp]: "has_report report (delete_catalog_topology now account chat db) = has_report report db"
  unfolding delete_catalog_topology_def has_report_update_events by (simp add: has_report_def on_queue_def)

lemma has_report_marked:
  "mark_provider_event_catalog_reported now a q e db = (b, db') \<Longrightarrow> has_report report db' = has_report report db"
  by (auto simp: mark_provider_event_catalog_reported_def)

definition marked_event :: "uuid \<times> string \<times> int \<Rightarrow> bridge_db \<Rightarrow> bool" where
  "marked_event m db =
     (case m of (a, q, e) \<Rightarrow> list_ex (\<lambda>ev. pending_event a q e ev \<and> je_reported_at ev \<noteq> None) (db_events (bd_queue db)))"

lemma in_update_where: "x \<in> set xs \<Longrightarrow> (if p x then f x else x) \<in> set (update_where p f xs)"
  by (auto simp: set_update_where)

lemma marked_eventI:
  "ev \<in> set (db_events (bd_queue db)) \<Longrightarrow> pending_event a q e ev \<Longrightarrow> je_reported_at ev \<noteq> None \<Longrightarrow> marked_event (a, q, e) db"
  by (auto simp: marked_event_def list_ex_iff)

lemma marked_update_events:
  assumes "marked_event m db" and f: "\<And>ev. je_reported_at (f ev) = je_reported_at ev" "\<And>a q e ev. pending_event a q e (f ev) = pending_event a q e ev"
  shows "marked_event m (update_events p f db)"
proof -
  obtain a q e where m: "m = (a, q, e)" by (cases m)
  from assms(1) obtain ev where ev: "ev \<in> set (db_events (bd_queue db))" "pending_event a q e ev" "je_reported_at ev \<noteq> None"
    by (auto simp: m marked_event_def list_ex_iff)
  from in_update_where [OF ev(1), of p f] ev(2,3) f show ?thesis
    unfolding m by (intro marked_eventI [of "if p ev then f ev else ev"]) (simp_all add: update_events_def)
qed

lemma marked_delete: "marked_event m db \<Longrightarrow> marked_event m (delete_catalog_topology now account chat db)"
  unfolding delete_catalog_topology_def
  by (rule marked_update_events) (auto simp: marked_event_def on_queue_def pending_event_def same_event_def)

lemma marked_reported:
  assumes "find_pending a q e db = Some marker" and p: "p marker"
  shows "marked_event (a, q, e) (update_events p (mark_reported now) db)"
proof -
  from assms(1) have m: "marker \<in> set (db_events (bd_queue db))" "pending_event a q e marker"
    by (auto simp: find_pending_def find_Some_iff)
  from in_update_where [OF m(1), of p "mark_reported now"] p m(2) show ?thesis
    by (intro marked_eventI [of "mark_reported now marker"])
      (simp_all add: update_events_def mark_reported_def pending_event_def same_event_def coalesce_def split: option.splits)
qed

lemma find_pendingD: "find_pending a q e db = Some ev \<Longrightarrow> pending_event a q e ev"
  by (auto simp: find_pending_def find_Some_iff)

lemma marked_by_reporter:
  "mark_provider_event_catalog_reported now a q e db = (True, db') \<Longrightarrow> marked_event (a, q, e) db'"
  using marked_reported [of a q e db _ "pending_event a q e" now] find_pendingD
  by (fastforce simp: mark_provider_event_catalog_reported_def mark_reported_def [abs_def])

lemma marked_by_report:
  assumes "ensure_provider_event_catalog_report now report a q e db = (True, db')"
  shows "marked_event (a, q, e) db'" "has_report report db'"
proof -
  from assms obtain db1 ev where db1: "enqueue_report now True report db = (True, db1)" "find_pending a q e db1 = Some ev"
    "db' = update_events (shares_report ev) (mark_reported now) db1"
    by (auto simp: ensure_provider_event_catalog_report_def split: prod.splits bool.splits option.splits)
  have "shares_report ev ev" using find_pendingD [OF db1(2)] by (simp add: shares_report_def pending_event_def)
  with db1 show "marked_event (a, q, e) db'" "has_report report db'"
    by (simp_all add: marked_reported enqueue_report_confirmed)
qed

lemma catalog_deleted:
  "db_catalog (bd_queue (delete_catalog_topology now a c db)) (a, c) = None"
  "bd_topics (delete_catalog_topology now a c db) (a, c) = None"
  by (simp_all add: delete_catalog_topology_def update_events_def on_queue_def)

lemma deletion_durable:
  assumes "ensure_catalog_deletion now report a c marker db = (True, db')"
  shows "has_report report db' \<and> (case marker of None \<Rightarrow> True | Some m \<Rightarrow> marked_event m db') \<and>
    db_catalog (bd_queue db') (a, c) = None \<and> bd_topics db' (a, c) = None"
proof -
  from assms obtain db1 where db1: "enqueue_report now True report db = (True, db1)"
    by (auto simp: ensure_catalog_deletion_def split: prod.splits bool.splits)
  show ?thesis
  proof (cases marker)
    case None
    with assms db1 show ?thesis
      by (auto simp: ensure_catalog_deletion_def enqueue_report_confirmed catalog_deleted)
  next
    case (Some m)
    obtain x q e where m: "m = (x, q, e)" by (cases m)
    from assms db1 Some m obtain db2 where db2: "mark_provider_event_catalog_reported now x q e db1 = (True, db2)"
      and db': "db' = delete_catalog_topology now a c db2"
      by (auto simp: ensure_catalog_deletion_def split: prod.splits bool.splits)
    show ?thesis
      unfolding db' Some m
      using marked_by_reporter [OF db2] has_report_marked [OF db2] enqueue_report_confirmed [OF db1]
      by (simp add: marked_delete catalog_deleted)
  qed
qed

text \<open>
  C18. A promised report is durable: when a caller that needs the report gets \<open>True\<close>, the outbox
  holds a report that says the same about the resource and that control has not rejected
  or found stale; the journalled event it was made for is marked as reported; and the
  topology of a deleted chat is gone.
\<close>

theorem ensured_report_durable:
  assumes "queue_report now (Ensure marker deletion) report db = (True, db')"
  shows "has_report report db' \<and> (case marker of None \<Rightarrow> True | Some m \<Rightarrow> marked_event m db') \<and>
    (case deletion of None \<Rightarrow> True | Some chat \<Rightarrow> db_catalog (bd_queue db') chat = None \<and> bd_topics db' chat = None)"
proof (cases deletion)
  case (Some chat)
  obtain a c where chat: "chat = (a, c)" by (cases chat)
  from assms Some chat have "ensure_catalog_deletion now report a c marker db = (True, db')"
    by (cases marker) (auto simp: queue_report_def split: prod.splits)
  from deletion_durable [OF this] show ?thesis by (simp add: Some chat)
next
  case None
  with assms show ?thesis
    using marked_by_report enqueue_report_confirmed
    by (cases marker) (auto simp: queue_report_def ensure_observed_report_def)
qed

section \<open>Witnesses\<close>

definition sample_report :: "int \<Rightarrow> dict" where
  "sample_report g =
     dict_set ''report_uuid'' (VStr (''r'' @ show_int g)) (report_body 10 ''external_account'' ''a1'' g ''live_ready'' ''live'' None None)"

definition sample_reported :: bridge_db where
  "sample_reported =
     snd (enqueue_observed_report 20 (sample_report 4) (snd (enqueue_observed_report 10 (sample_report 5) sample_directory)))"

lemma sample_reported_distinct: "distinct (map ob_uuid (bd_observed sample_reported))"
  by code_simp

lemma sample_reports_offered: "map (\<lambda>b. get_val b ''report_uuid'') (fst (pending_observed_reports 30 20 sample_reported)) = [VStr ''r5'']"
  by code_simp

theorem reports_newest_once_witness:
  "\<exists>b r. map (\<lambda>b. get_val b ''report_uuid'') (fst (pending_observed_reports 30 20 sample_reported)) = [VStr ''r5''] \<and>
     b \<in> set (fst (pending_observed_reports 30 20 sample_reported)) \<and> r \<in> set (bd_observed sample_reported) \<and> ob_body r = b"
proof -
  obtain bodies db' where p: "pending_observed_reports 30 20 sample_reported = (bodies, db')" by fastforce
  from sample_reports_offered p obtain b where b: "b \<in> set bodies" by (cases bodies) auto
  from conjunct1 [OF reports_newest_once [OF p sample_reported_distinct]] b obtain r
    where "r \<in> set (bd_observed sample_reported)" "ob_body r = b" by blast
  with sample_reports_offered p b show ?thesis by auto
qed

lemma sample_ensured: "fst (queue_report 30 (Ensure None (Some (''a1'', ''channel:7''))) (sample_report 5) sample_reported)"
  by code_simp

theorem ensured_report_durable_witness:
  "has_report (sample_report 5) (snd (queue_report 30 (Ensure None (Some (''a1'', ''channel:7''))) (sample_report 5) sample_reported))"
proof -
  have "queue_report 30 (Ensure None (Some (''a1'', ''channel:7''))) (sample_report 5) sample_reported =
      (True, snd (queue_report 30 (Ensure None (Some (''a1'', ''channel:7''))) (sample_report 5) sample_reported))"
    using sample_ensured by (simp add: prod_eq_iff)
  from ensured_report_durable [OF this] show ?thesis by simp
qed

end
