(* ===== verification/Delivery_Selection.thy ===== *)
theory Delivery_Selection
  imports Observed_Reports
begin

text \<open>
  The choice of the next records for Workspace (\<open>pending_workspace_deliveries\<close> and
  \<open>has_pending_workspace_deliveries\<close> of \<open>storage.py\<close>): which records wait for which others, the
  priorities that awaited records inherit, and the records of an interval of priorities that are
  ready. Every record of the outbox is an operation of origin \<open>zulip\<close>. Where several rows give a
  priority, \<open>UPDATE ... FROM\<close> takes an unspecified one of them: the argument \<open>pick\<close>.
\<close>

section \<open>Members of a record\<close>

definition operation_member :: "delivery_row \<Rightarrow> string \<Rightarrow> pyval" where
  "operation_member d k = get_val (rec_operation (dv_record d)) k"

definition dv_kind :: "delivery_row \<Rightarrow> string option" where
  "dv_kind d = json_text (operation_member d ''kind'')"

definition dv_entity :: "delivery_row \<Rightarrow> string option" where
  "dv_entity d = json_text (operation_member d ''entity_uuid'')"

definition dv_payload :: "delivery_row \<Rightarrow> string \<Rightarrow> pyval" where
  "dv_payload d k = json_field (operation_member d ''payload'') k"

definition dv_provider :: "delivery_row \<Rightarrow> string \<Rightarrow> string option" where
  "dv_provider d k = json_text (json_field (operation_member d ''provider'') k)"

text \<open>\<open>jsonb_array_elements_text\<close>, which gives no row for NULL\<close>

definition element_texts :: "pyval \<Rightarrow> string option list" where
  "element_texts v = (case v of VList vs \<Rightarrow> map json_text vs | _ \<Rightarrow> [])"

definition read_messages :: "delivery_row \<Rightarrow> string option list" where
  "read_messages d = element_texts (dv_payload d ''message_uuids'')"

definition unfinished :: "delivery_row \<Rightarrow> bool" where
  "unfinished d =
     (dv_sent_at d = None \<and> dv_state d \<in> {''pending'', ''submitting'', ''ambiguous'', ''awaiting_result''})"

section \<open>What waits for what\<close>

definition same_target :: "delivery_row \<Rightarrow> delivery_row \<Rightarrow> bool" where
  "same_target a b =
     (dv_account_uuid a = dv_account_uuid b \<and> dv_assignment_uuid a = dv_assignment_uuid b \<and>
      dv_assignment_generation a = dv_assignment_generation b \<and> dv_assignment_project a = dv_assignment_project b)"

definition same_source :: "delivery_row \<Rightarrow> delivery_row \<Rightarrow> bool" where
  "same_source a b =
     (dv_queue_id a \<noteq> None \<and> dv_queue_id a = dv_queue_id b \<and> dv_event_id a \<noteq> None \<and> dv_event_id a = dv_event_id b)"

definition made_before :: "delivery_row \<Rightarrow> delivery_row \<Rightarrow> bool" where
  "made_before a b =
     (rec_origin (dv_record a) = rec_origin (dv_record b) \<and> rec_causal_lane (dv_record a) = rec_causal_lane (dv_record b) \<and>
      rec_sequence (dv_record a) < rec_sequence (dv_record b) \<or> same_source a b)"

text \<open>An equation between SQL values, which NULL does not satisfy.\<close>

definition sql_eq :: "'a option \<Rightarrow> 'a option \<Rightarrow> bool" where
  "sql_eq a b = (a \<noteq> None \<and> a = b)"

definition reaction_kind :: "string option \<Rightarrow> bool" where
  "reaction_kind k = (k \<in> {Some ''reaction.upsert'', Some ''reaction.delete''})"

definition content_kind :: "string option \<Rightarrow> bool" where
  "content_kind k = (k \<in> {Some ''message.create'', Some ''message.update''})"

text \<open>\<open>x IN (SELECT jsonb_array_elements_text(...))\<close>\<close>

definition listed_in :: "string option \<Rightarrow> string option list \<Rightarrow> bool" where
  "listed_in x xs = (x \<noteq> None \<and> x \<in> set xs)"

definition read_awaits :: "delivery_row \<Rightarrow> delivery_row \<Rightarrow> bool" where
  "read_awaits m r =
     (dv_kind r = Some ''read_state.set'' \<and> content_kind (dv_kind m) \<and> listed_in (dv_entity m) (read_messages r))"

definition on_message :: "delivery_row \<Rightarrow> delivery_row \<Rightarrow> bool" where
  "on_message m r = (reaction_kind (dv_kind r) \<and> sql_eq (dv_entity m) (json_text (dv_payload r ''message_uuid'')))"

definition reaction_awaits :: "delivery_row \<Rightarrow> delivery_row \<Rightarrow> bool" where
  "reaction_awaits m r = (dv_kind m = Some ''message.create'' \<and> on_message m r)"

definition uses_topic :: "string option \<Rightarrow> bool" where
  "uses_topic k = (content_kind k \<or> k = Some ''read_state.set'' \<or> reaction_kind k)"

definition topic_awaits :: "delivery_row \<Rightarrow> delivery_row \<Rightarrow> bool" where
  "topic_awaits t d =
     (dv_kind t = Some ''topic.upsert'' \<and> uses_topic (dv_kind d) \<and>
      sql_eq (dv_entity t) (json_text (dv_payload d ''topic_uuid'')))"

definition edit_awaits :: "delivery_row \<Rightarrow> delivery_row \<Rightarrow> bool" where
  "edit_awaits m d =
     (dv_kind m = Some ''message.create'' \<and> dv_kind d \<in> {Some ''message.update'', Some ''message.delete''} \<and>
      sql_eq (dv_entity m) (dv_entity d))"

text \<open>\<open>depends r a d\<close>: the record \<open>d\<close> may need the record \<open>a\<close>, made before it for the same target.\<close>

definition depends :: "(delivery_row \<Rightarrow> delivery_row \<Rightarrow> bool) \<Rightarrow> delivery_row \<Rightarrow> delivery_row \<Rightarrow> bool" where
  "depends r a d = (same_target a d \<and> made_before a d \<and> r a d)"

section \<open>Inherited priorities\<close>

definition lends :: "(delivery_row \<Rightarrow> delivery_row \<Rightarrow> bool) \<Rightarrow> int \<Rightarrow> int \<Rightarrow> delivery_row \<Rightarrow> delivery_row \<Rightarrow> bool" where
  "lends r lo hi a d =
     (unfinished d \<and> lo \<le> dv_priority d \<and> dv_priority d \<le> hi \<and> dv_priority d < dv_priority a \<and> depends r a d)"

definition promote ::
  "(delivery_row \<Rightarrow> delivery_row \<Rightarrow> bool) \<Rightarrow> int \<Rightarrow> int \<Rightarrow> (delivery_row list \<Rightarrow> delivery_row) \<Rightarrow>
     delivery_row list \<Rightarrow> delivery_row list" where
  "promote r lo hi pick ds =
     (if lo = 0
      then map (\<lambda>a. if unfinished a \<and> filter (lends r lo hi a) ds \<noteq> []
                then a\<lparr>dv_priority := dv_priority (pick (filter (lends r lo hi a) ds))\<rparr> else a) ds
      else ds)"

text \<open>Reads and reactions lend their priority to every change of the message.\<close>

definition reaction_lends :: "delivery_row \<Rightarrow> delivery_row \<Rightarrow> bool" where
  "reaction_lends m r = (content_kind (dv_kind m) \<and> on_message m r)"

definition inherit_priorities ::
  "int \<Rightarrow> int \<Rightarrow> (delivery_row list \<Rightarrow> delivery_row) \<Rightarrow> delivery_row list \<Rightarrow> delivery_row list" where
  "inherit_priorities lo hi pick ds =
     promote topic_awaits lo hi pick (promote reaction_lends lo hi pick (promote read_awaits lo hi pick ds))"

section \<open>Records that are ready\<close>

definition policy_open :: "queue_db \<Rightarrow> bool" where
  "policy_open q =
     (case provider_policy ''zulip'' q of
        None \<Rightarrow> False
      | Some body \<Rightarrow> body_flag body ''enabled'' \<and> \<not> body_flag body ''emergency_suspended'')"

definition current_account :: "queue_db \<Rightarrow> delivery_row \<Rightarrow> desired_row \<Rightarrow> bool" where
  "current_account q d a =
     (ds_type a = ''external_account'' \<and> ds_uuid a = dv_account_uuid d \<and>
      Some (ds_generation a) = dv_account_generation d \<and> \<not> ds_deleted a)"

definition current_assignment :: "delivery_row \<Rightarrow> desired_row \<Rightarrow> bool" where
  "current_assignment d a =
     (ds_type a = ''external_chat_assignment'' \<and> Some (ds_uuid a) = dv_assignment_uuid d \<and>
      Some (ds_generation a) = dv_assignment_generation d \<and> \<not> ds_deleted a \<and>
      sql_eq (body_text a ''project_id'') (dv_assignment_project d) \<and> selected_default a)"

definition assigned :: "queue_db \<Rightarrow> delivery_row \<Rightarrow> bool" where
  "assigned q d = (dv_assignment_uuid d = None \<or> list_ex (current_assignment d) (db_desired q))"

definition awaits_catalog :: "bridge_db \<Rightarrow> delivery_row \<Rightarrow> bool" where
  "awaits_catalog db d =
     list_ex (\<lambda>r. outstanding_report r \<and> sql_eq (ob_text r ''resource_uuid'') (dv_assignment_uuid d) \<and>
        chat_materialization (ob_body r)) (bd_observed db)"

definition submission_due :: "timestamp \<Rightarrow> delivery_row \<Rightarrow> bool" where
  "submission_due now d =
     (dv_state d \<in> {''pending'', ''ambiguous''} \<or> dv_state d = ''awaiting_result'' \<and> dv_next_at d \<le> now)"

text \<open>A record whose account and chat are in order and whose turn has come; the probe asks for no more.\<close>

definition deliverable :: "timestamp \<Rightarrow> int \<Rightarrow> int \<Rightarrow> bridge_db \<Rightarrow> delivery_row \<Rightarrow> bool" where
  "deliverable now lo hi db d =
     (list_ex (\<lambda>a. current_account (bd_queue db) d a \<and> body_flag (ds_body a) ''synchronization_enabled'')
        (db_desired (bd_queue db)) \<and>
      \<not> awaits_catalog db d \<and> dv_sent_at d = None \<and> submission_due now d \<and>
      lo \<le> dv_priority d \<and> dv_priority d \<le> hi \<and> assigned (bd_queue db) d)"

definition waits_for :: "(delivery_row \<Rightarrow> delivery_row \<Rightarrow> bool) \<Rightarrow> delivery_row list \<Rightarrow> delivery_row \<Rightarrow> bool" where
  "waits_for r ds d = list_ex (\<lambda>a. unfinished a \<and> depends r a d) ds"

definition blocked :: "delivery_row list \<Rightarrow> delivery_row \<Rightarrow> bool" where
  "blocked ds d =
     (waits_for topic_awaits ds d \<or> waits_for edit_awaits ds d \<or> waits_for read_awaits ds d \<or> waits_for reaction_awaits ds d)"

definition committed_message :: "queue_db \<Rightarrow> uuid \<Rightarrow> string option \<Rightarrow> bool" where
  "committed_message q account message =
     list_ex (\<lambda>m. mp_account_uuid m = account \<and> mp_kind m = ''message'' \<and> Some (mp_workspace_uuid m) = message \<and>
        \<not> mp_deleted m \<and> json_text (get_val (mp_metadata m) ''workspace_delivery_state'') = Some ''committed'') (db_mappings q)"

definition messages_committed :: "queue_db \<Rightarrow> delivery_row \<Rightarrow> bool" where
  "messages_committed q d =
     ((dv_kind d = Some ''read_state.set'' \<longrightarrow> list_all (committed_message q (dv_account_uuid d)) (read_messages d)) \<and>
      (reaction_kind (dv_kind d) \<longrightarrow> committed_message q (dv_account_uuid d) (json_text (dv_payload d ''message_uuid''))))"

text \<open>Every operation has a kind, so that the conditions on it are not NULL.\<close>

definition ready_deliveries :: "timestamp \<Rightarrow> int \<Rightarrow> int \<Rightarrow> bridge_db \<Rightarrow> delivery_row list" where
  "ready_deliveries now lo hi db =
     (if policy_open (bd_queue db)
      then filter (\<lambda>d. deliverable now lo hi db d \<and> \<not> blocked (bd_outbox db) d \<and>
             messages_committed (bd_queue db) d) (bd_outbox db)
      else [])"

definition priority_range :: "int \<Rightarrow> int \<Rightarrow> bool" where
  "priority_range lo hi = (0 \<le> lo \<and> lo \<le> hi \<and> hi \<le> 2)"

definition pending_workspace_deliveries ::
  "timestamp \<Rightarrow> (delivery_row list \<Rightarrow> delivery_row) \<Rightarrow> int \<Rightarrow> int \<Rightarrow> int \<Rightarrow> bridge_db \<Rightarrow> (op_record list \<times> bridge_db) result" where
  "pending_workspace_deliveries now pick lo hi limit db =
     bindE (guardE (priority_range lo hi) (ValueErr ''Invalid workspace delivery priority range'')) (\<lambda>_.
     let db1 = db\<lparr>bd_outbox := inherit_priorities lo hi pick (bd_outbox db)\<rparr> in
     Inr (map dv_record (take (nat limit)
            (sort_key (\<lambda>d. (dv_priority d, dv_created_at d)) (ready_deliveries now lo hi db1))), db1))"

definition has_pending_workspace_deliveries :: "timestamp \<Rightarrow> int \<Rightarrow> int \<Rightarrow> bridge_db \<Rightarrow> bool result" where
  "has_pending_workspace_deliveries now lo hi db =
     bindE (guardE (priority_range lo hi) (ValueErr ''Invalid workspace delivery priority range'')) (\<lambda>_.
     Inr (policy_open (bd_queue db) \<and> list_ex (deliverable now lo hi db) (bd_outbox db)))"

end
