(* ===== verification/Delivery_Submission.thy ===== *)
theory Delivery_Submission
  imports Delivery_Selection
begin

text \<open>
  The life of a record in the delivery outbox (\<open>storage.py\<close>): it is submitted, released,
  rejected or found interrupted; a rejection spreads to the records that were prepared on
  top of it; and an event ends when all its records have. Each store method is one
  transaction with the clock \<open>now\<close>; \<open>clock\<close> is \<open>clock_timestamp()\<close>.
\<close>

section \<open>Submission\<close>

definition on_outbox :: "(delivery_row \<Rightarrow> bool) \<Rightarrow> (delivery_row \<Rightarrow> delivery_row) \<Rightarrow> bridge_db \<Rightarrow> bridge_db" where
  "on_outbox p f db = db\<lparr>bd_outbox := update_where p f (bd_outbox db)\<rparr>"

definition has_source :: "delivery_row \<Rightarrow> bool" where
  "has_source d = (dv_queue_id d \<noteq> None \<and> dv_event_id d \<noteq> None)"

definition source_event :: "event_row \<Rightarrow> delivery_row \<Rightarrow> bool" where
  "source_event ev d =
     (dv_account_uuid d = je_account_uuid ev \<and> dv_queue_id d = Some (je_queue_id ev) \<and> dv_event_id d = Some (je_event_id ev))"

text \<open>The events in delivery that gave one of the records.\<close>

definition delivering_source :: "delivery_row list \<Rightarrow> event_row \<Rightarrow> bool" where
  "delivering_source ds ev = (je_state ev = ''delivering'' \<and> list_ex (source_event ev) ds)"

definition mark_interrupted_workspace_deliveries_ambiguous :: "timestamp \<Rightarrow> bridge_db \<Rightarrow> nat \<times> bridge_db" where
  "mark_interrupted_workspace_deliveries_ambiguous now db =
     (let p = (\<lambda>d. dv_sent_at d = None \<and> dv_state d = ''submitting''); ds = filter p (bd_outbox db) in
      (length ds,
       update_events (delivering_source ds) (\<lambda>ev. ev\<lparr>je_reason := Some ''workspace_delivery_ambiguous''\<rparr>)
         (on_outbox p (\<lambda>d. d\<lparr>dv_state := ''ambiguous'', dv_next_at := now\<rparr>) db)))"

definition may_submit :: "timestamp \<Rightarrow> queue_db \<Rightarrow> delivery_row \<Rightarrow> bool" where
  "may_submit now q d =
     (dv_sent_at d = None \<and> submission_due now d \<and> list_ex (current_account q d) (db_desired q) \<and> assigned q d)"

definition mark_workspace_delivery_submitting :: "timestamp \<Rightarrow> uuid \<Rightarrow> bridge_db \<Rightarrow> bool \<times> bridge_db" where
  "mark_workspace_delivery_submitting now u db =
     (let p = (\<lambda>d. dv_record_uuid d = u \<and> may_submit now (bd_queue db) d) in
      (list_ex p (bd_outbox db),
       on_outbox p (\<lambda>d. d\<lparr>dv_state := ''submitting'', dv_attempts := dv_attempts d + 1\<rparr>) db))"

definition mark_provider_event_delivering :: "uuid \<Rightarrow> string \<Rightarrow> int \<Rightarrow> bridge_db \<Rightarrow> bridge_db" where
  "mark_provider_event_delivering account queue_id event_id =
     update_events (pending_event account queue_id event_id) (\<lambda>ev. ev\<lparr>je_state := ''delivering'', je_reason := None\<rparr>)"

definition being_submitted :: "uuid \<Rightarrow> delivery_row \<Rightarrow> bool" where
  "being_submitted u d = (dv_record_uuid d = u \<and> dv_sent_at d = None \<and> dv_state d = ''submitting'')"

definition submission_delay :: "int \<Rightarrow> int" where
  "submission_delay attempts = min 300 (2 ^ nat (min attempts 8))"

definition mark_workspace_delivery_submitted :: "timestamp \<Rightarrow> uuid \<Rightarrow> bridge_db \<Rightarrow> bridge_db" where
  "mark_workspace_delivery_submitted now u =
     on_outbox (being_submitted u)
       (\<lambda>d. d\<lparr>dv_state := ''awaiting_result'', dv_submitted_at := Some now,
           dv_next_at := now + seconds (submission_delay (dv_attempts d))\<rparr>)"

definition release_provider_event_submissions :: "timestamp \<Rightarrow> uuid list \<Rightarrow> bridge_db \<Rightarrow> bridge_db" where
  "release_provider_event_submissions now us =
     on_outbox (\<lambda>d. dv_record_uuid d \<in> set us \<and> dv_state d = ''submitting'' \<and> dv_sent_at d = None)
       (\<lambda>d. d\<lparr>dv_state := ''pending'', dv_next_at := now\<rparr>)"

section \<open>Rejection\<close>

definition idem_outcome_of :: "bridge_db \<Rightarrow> delivery_row \<Rightarrow> string option" where
  "idem_outcome_of db d = Option.bind (db_idempotency (bd_queue db) (dv_operation_uuid d)) idem_outcome"

text \<open>\<open>UPDATE operation_idempotency SET terminal_outcome = 'rejected', updated_at = ... WHERE terminal_outcome IS NULL\<close>\<close>

definition open_operation :: "bridge_db \<Rightarrow> uuid \<Rightarrow> bool" where
  "open_operation db u = (case db_idempotency (bd_queue db) u of None \<Rightarrow> False | Some i \<Rightarrow> idem_outcome i = None)"

definition reject_operations :: "timestamp \<Rightarrow> uuid list \<Rightarrow> bridge_db \<Rightarrow> bridge_db" where
  "reject_operations t us db =
     (let hit = (\<lambda>u. u \<in> set us \<and> open_operation db u) in
      on_queue (\<lambda>q. q\<lparr>db_idempotency := (\<lambda>u. if hit u
            then map_option (\<lambda>i. i\<lparr>idem_outcome := Some ''rejected''\<rparr>) (db_idempotency q u) else db_idempotency q u)\<rparr>)
        (db\<lparr>bd_idempotency_at := (\<lambda>u. if hit u then Some t else bd_idempotency_at db u)\<rparr>))"

definition update_mappings :: "(mapping_row \<Rightarrow> bool) \<Rightarrow> (mapping_row \<Rightarrow> mapping_row) \<Rightarrow> bridge_db \<Rightarrow> bridge_db" where
  "update_mappings p f = on_queue (\<lambda>q. q\<lparr>db_mappings := update_where p f (db_mappings q)\<rparr>)"

definition pending_message :: "delivery_row \<Rightarrow> mapping_row \<Rightarrow> bool" where
  "pending_message d m =
     (dv_kind d = Some ''message.create'' \<and> mp_account_uuid m = dv_account_uuid d \<and> mp_kind m = ''message'' \<and>
      Some (mp_workspace_uuid m) = dv_entity d \<and> meta_text m ''workspace_delivery_state'' = Some ''pending'' \<and> \<not> mp_deleted m)"

definition topic_mapping :: "delivery_row \<Rightarrow> mapping_row \<Rightarrow> bool" where
  "topic_mapping d m =
     (dv_kind d = Some ''topic.upsert'' \<and> mp_account_uuid m = dv_account_uuid d \<and> mp_kind m = ''topic'' \<and>
      Some (mp_workspace_uuid m) = dv_entity d \<and> Some (mp_provider_id m) = dv_provider d ''entity_id'' \<and> \<not> mp_deleted m)"

definition set_delivery_state :: "string \<Rightarrow> mapping_row \<Rightarrow> mapping_row" where
  "set_delivery_state st m = m\<lparr>mp_metadata := dict_set ''workspace_delivery_state'' (VStr st) (mp_metadata m)\<rparr>"

definition settled_delivery :: "uuid \<Rightarrow> delivery_row \<Rightarrow> bool" where
  "settled_delivery u d = (dv_record_uuid d = u \<and> (dv_sent_at d \<noteq> None \<or> dv_state d = ''rejected''))"

definition reject_provider_event_submission :: "timestamp \<Rightarrow> uuid \<Rightarrow> string \<Rightarrow> bridge_db \<Rightarrow> bool \<times> bridge_db" where
  "reject_provider_event_submission clock u code db =
     (case find (being_submitted u) (bd_outbox db) of
        None \<Rightarrow> (list_ex (settled_delivery u) (bd_outbox db), db)
      | Some d \<Rightarrow>
          (True,
           update_events (delivering_source [d]) (\<lambda>ev. ev\<lparr>je_reason := Some ''workspace_delivery_rejected''\<rparr>)
             (update_mappings (topic_mapping d) (set_delivery_state ''pending'')
               (update_mappings (pending_message d) (\<lambda>m. m\<lparr>mp_deleted := True\<rparr>)
                 (reject_operations clock [dv_operation_uuid d]
                   (on_outbox (being_submitted u)
                     (\<lambda>d. d\<lparr>dv_state := ''rejected'', dv_error_code := Some (take 128 code)\<rparr>) db))))))"

section \<open>What a rejection spreads to\<close>

definition refused :: "bridge_db \<Rightarrow> delivery_row \<Rightarrow> bool" where
  "refused db a = (dv_sent_at a = None \<and> dv_state a = ''rejected'' \<and> idem_outcome_of db a = Some ''rejected'')"

text \<open>Only a record that was prepared before the rejection became final can depend on it.\<close>

definition refused_after :: "bridge_db \<Rightarrow> delivery_row \<Rightarrow> delivery_row \<Rightarrow> bool" where
  "refused_after db a d =
     (refused db a \<and> (case bd_idempotency_at db (dv_operation_uuid a) of None \<Rightarrow> False | Some t \<Rightarrow> dv_created_at d \<le> t))"

text \<open>The message is where the rejected change would have put it.\<close>

definition already_moved :: "queue_db \<Rightarrow> delivery_row \<Rightarrow> bool" where
  "already_moved q a =
     list_ex (\<lambda>m. mp_account_uuid m = dv_account_uuid a \<and> mp_kind m = ''message'' \<and> Some (mp_workspace_uuid m) = dv_entity a \<and>
        \<not> mp_deleted m \<and> meta_text m ''workspace_delivery_state'' = Some ''committed'' \<and>
        meta_text m ''project_uuid'' = Some (rec_project_uuid (dv_record a)) \<and>
        sql_eq (meta_text m ''stream_uuid'') (json_text (dv_payload a ''stream_uuid'')) \<and>
        sql_eq (meta_text m ''topic_uuid'') (json_text (dv_payload a ''topic_uuid''))) (db_mappings q)"

definition read_of_refused :: "queue_db \<Rightarrow> delivery_row \<Rightarrow> delivery_row \<Rightarrow> bool" where
  "read_of_refused q a d =
     (dv_kind d = Some ''read_state.set'' \<and> listed_in (dv_entity a) (read_messages d) \<and>
      (dv_kind a = Some ''message.create'' \<or> dv_kind a = Some ''message.update'' \<and> \<not> already_moved q a))"

definition needs_refused :: "queue_db \<Rightarrow> delivery_row \<Rightarrow> delivery_row \<Rightarrow> bool" where
  "needs_refused q a d = (topic_awaits a d \<or> edit_awaits a d \<or> read_of_refused q a d \<or> reaction_awaits a d)"

definition poisons :: "bridge_db \<Rightarrow> delivery_row \<Rightarrow> delivery_row \<Rightarrow> bool" where
  "poisons db a d = (refused_after db a d \<and> depends (needs_refused (bd_queue db)) a d)"

definition waiting_record :: "delivery_row \<Rightarrow> bool" where
  "waiting_record d = (dv_sent_at d = None \<and> dv_state d = ''pending'')"

definition poisoned :: "bridge_db \<Rightarrow> delivery_row \<Rightarrow> bool" where
  "poisoned db d = (waiting_record d \<and> list_ex (\<lambda>a. poisons db a d) (bd_outbox db))"

definition quarantine_once :: "timestamp \<Rightarrow> bridge_db \<Rightarrow> nat \<times> bridge_db" where
  "quarantine_once now db =
     (let ds = filter (poisoned db) (bd_outbox db) in
      (length ds,
       update_events (delivering_source ds) (\<lambda>ev. ev\<lparr>je_reason := Some ''workspace_delivery_rejected''\<rparr>)
         (reject_operations now (map dv_operation_uuid ds)
           (on_outbox (poisoned db)
             (\<lambda>d. d\<lparr>dv_state := ''rejected'', dv_error_code := Some ''workspace_delivery_dependency_rejected''\<rparr>) db))))"

definition waiting_count :: "bridge_db \<Rightarrow> nat" where
  "waiting_count db = length (filter waiting_record (bd_outbox db))"

lemma outbox_on_queue [simp]: "bd_outbox (on_queue f db) = bd_outbox db"
  by (simp add: on_queue_def)

lemma outbox_update_events [simp]: "bd_outbox (update_events p f db) = bd_outbox db"
  by (simp add: update_events_def)

lemma outbox_update_mappings [simp]: "bd_outbox (update_mappings p f db) = bd_outbox db"
  by (simp add: update_mappings_def)

lemma outbox_reject_operations [simp]: "bd_outbox (reject_operations t us db) = bd_outbox db"
  by (simp add: reject_operations_def Let_def)

lemma outbox_on_outbox [simp]: "bd_outbox (on_outbox p f db) = update_where p f (bd_outbox db)"
  by (simp add: on_outbox_def)

lemma filter_update_where_less:
  assumes "x \<in> set xs" and "p x" and "\<And>x. p x \<Longrightarrow> q x" and "\<And>x. p x \<Longrightarrow> \<not> q (f x)"
  shows "length (filter q (update_where p f xs)) < length (filter q xs)"
proof -
  have "filter q (update_where p f ys) = filter (\<lambda>x. q x \<and> \<not> p x) ys" for ys
    using assms(4) by (induction ys) auto
  moreover have "length (filter (\<lambda>x. q x \<and> \<not> p x) xs) < length (filter q xs)"
    using assms(1,2,3) by (induction xs) (auto simp: less_Suc_eq_le intro: length_filter_le order_trans
      [OF length_filter_le [of "\<lambda>x. \<not> p x" "filter q _", simplified filter_filter]])
  ultimately show ?thesis by simp
qed

text \<open>The loop repeats the statement until it rejects nothing; every turn leaves fewer records that wait.\<close>

function quarantine_loop :: "timestamp \<Rightarrow> bridge_db \<Rightarrow> nat \<times> bridge_db" where
  "quarantine_loop now db =
     (case quarantine_once now db of (n, db1) \<Rightarrow>
        if n = 0 then (0, db1) else (case quarantine_loop now db1 of (m, db2) \<Rightarrow> (n + m, db2)))"
  by pat_completeness auto

lemma quarantine_progress:
  assumes "quarantine_once now db = (n, db')" and "n \<noteq> 0" shows "waiting_count db' < waiting_count db"
proof -
  from assms obtain d where "d \<in> set (bd_outbox db)" "poisoned db d"
    by (auto simp: quarantine_once_def Let_def filter_empty_conv)
  then show ?thesis
    using assms(1) by (auto simp: quarantine_once_def Let_def waiting_count_def poisoned_def waiting_record_def
        intro!: filter_update_where_less [of d])
qed

termination quarantine_loop
  by (relation "measure (\<lambda>(now, db). waiting_count db)") (auto dest: quarantine_progress [OF sym])

declare quarantine_loop.simps [simp del]

section \<open>Grouped reads of rejected messages\<close>

definition never_submitted :: "delivery_row \<Rightarrow> bool" where
  "never_submitted d = (waiting_record d \<and> dv_attempts d = 0)"

text \<open>The messages of a read that a rejection has taken from under it.\<close>

definition refused_messages :: "bridge_db \<Rightarrow> delivery_row \<Rightarrow> string list" where
  "refused_messages db d =
     remdups (List.map_filter dv_entity
       (filter (\<lambda>a. refused_after db a d \<and> depends (read_of_refused (bd_queue db)) a d) (bd_outbox db)))"

definition with_messages :: "string list \<Rightarrow> op_record \<Rightarrow> op_record" where
  "with_messages us r =
     r\<lparr>rec_operation := (case get_val (rec_operation r) ''payload'' of
         VDict payload \<Rightarrow> dict_set ''payload'' (VDict (dict_set ''message_uuids'' (VList (map VStr us)) payload)) (rec_operation r)
       | _ \<Rightarrow> rec_operation r)\<rparr>"

definition narrow_transport :: "string list \<Rightarrow> op_record \<Rightarrow> op_record result" where
  "narrow_transport us r =
     (case rec_transport r of
        None \<Rightarrow> Inr r
      | Some t \<Rightarrow>
          bindE (narrow_confirmed_read_items [(''transport'', VDict t)] us) (\<lambda>d.
            Inr (case get_val d ''transport'' of VDict t' \<Rightarrow> r\<lparr>rec_transport := Some t'\<rparr> | _ \<Rightarrow> r)))"

definition narrowed_read ::
  "(string \<Rightarrow> string) \<Rightarrow> (string \<Rightarrow> string) \<Rightarrow> string list \<Rightarrow> op_record \<Rightarrow> op_record result" where
  "narrowed_read nfc sha256 us r =
     bindE (narrow_transport us (with_messages us r)) (\<lambda>r1.
     bindE (record_digest nfc sha256 r1) (\<lambda>h. Inr (r1\<lparr>rec_sha256 := h\<rparr>)))"

text \<open>The prepared records of the event follow the record in the outbox.\<close>

definition prepared_operation :: "pyval \<Rightarrow> string option" where
  "prepared_operation v = json_text (json_field v ''operation_uuid'')"

definition replace_prepared :: "uuid \<Rightarrow> op_record option \<Rightarrow> pyval \<Rightarrow> pyval" where
  "replace_prepared u r prepared =
     VList (case (prepared, r) of
         (VList vs, Some r') \<Rightarrow> map (\<lambda>v. if prepared_operation v = Some u then VDict (record_dict r') else v) vs
       | (VList vs, None) \<Rightarrow> filter (\<lambda>v. case prepared_operation v of None \<Rightarrow> False | Some w \<Rightarrow> w \<noteq> u) vs
       | _ \<Rightarrow> [])"

definition follow_read :: "delivery_row \<Rightarrow> op_record option \<Rightarrow> bridge_db \<Rightarrow> bridge_db" where
  "follow_read d r =
     update_events (\<lambda>ev. delivering_source [d] ev \<and> je_prepared ev \<noteq> None)
       (\<lambda>ev. ev\<lparr>je_prepared := map_option (replace_prepared (dv_operation_uuid d) r) (je_prepared ev)\<rparr>)"

definition same_record :: "delivery_row \<Rightarrow> delivery_row \<Rightarrow> bool" where
  "same_record d e = (dv_record_uuid e = dv_record_uuid d \<and> never_submitted e)"

definition keep_read :: "timestamp \<Rightarrow> delivery_row \<Rightarrow> op_record \<Rightarrow> bridge_db \<Rightarrow> bridge_db" where
  "keep_read now d r db =
     (let u = dv_operation_uuid d; open_u = open_operation db u in
      follow_read d (Some r)
        (on_queue (\<lambda>q. q\<lparr>db_idempotency := (if open_u
              then (db_idempotency q)(u := map_option (\<lambda>i. i\<lparr>idem_sha256 := rec_sha256 r\<rparr>) (db_idempotency q u))
              else db_idempotency q)\<rparr>)
          (on_outbox (same_record d) (\<lambda>e. e\<lparr>dv_record := r\<rparr>)
            (db\<lparr>bd_idempotency_at := (if open_u then (bd_idempotency_at db)(u \<mapsto> now) else bd_idempotency_at db)\<rparr>))))"

definition drop_read :: "delivery_row \<Rightarrow> bridge_db \<Rightarrow> bridge_db" where
  "drop_read d db =
     (let u = dv_operation_uuid d; open_u = open_operation db u in
      follow_read d None
        (on_queue (\<lambda>q. q\<lparr>db_idempotency := (if open_u then (db_idempotency q)(u := None) else db_idempotency q)\<rparr>)
          (db\<lparr>bd_outbox := filter (\<lambda>e. \<not> same_record d e) (bd_outbox db),
              bd_idempotency_at := (if open_u then (bd_idempotency_at db)(u := None) else bd_idempotency_at db)\<rparr>)))"

definition remaining_messages :: "string list \<Rightarrow> delivery_row \<Rightarrow> string list" where
  "remaining_messages gone d =
     filter (\<lambda>u. u \<notin> set gone) (case dv_payload d ''message_uuids'' of VList vs \<Rightarrow> map py_str vs | _ \<Rightarrow> [])"

definition filter_read ::
  "(string \<Rightarrow> string) \<Rightarrow> (string \<Rightarrow> string) \<Rightarrow> timestamp \<Rightarrow> bridge_db \<Rightarrow> delivery_row \<times> string list \<Rightarrow> bridge_db result" where
  "filter_read nfc sha256 now db p =
     (case p of (d, gone) \<Rightarrow>
        let rest = remaining_messages gone d in
        if rest = [] then Inr (drop_read d db)
        else bindE (narrowed_read nfc sha256 rest (dv_record d)) (\<lambda>r. Inr (keep_read now d r db)))"

text \<open>The rows are chosen and locked by one statement, so that the checks of the later ones hold.\<close>

definition filter_rejected_grouped_read_dependencies ::
  "(string \<Rightarrow> string) \<Rightarrow> (string \<Rightarrow> string) \<Rightarrow> timestamp \<Rightarrow> bridge_db \<Rightarrow> (nat \<times> bridge_db) result" where
  "filter_rejected_grouped_read_dependencies nfc sha256 now db =
     (let ps = filter (\<lambda>p. snd p \<noteq> []) (map (\<lambda>d. (d, refused_messages db d))
            (filter (\<lambda>d. never_submitted d \<and> dv_kind d = Some ''read_state.set'') (bd_outbox db)))
      in bindE (foldE (filter_read nfc sha256 now) db ps) (\<lambda>db1. Inr (length ps, db1)))"

definition quarantine_rejected_workspace_delivery_dependents ::
  "(string \<Rightarrow> string) \<Rightarrow> (string \<Rightarrow> string) \<Rightarrow> timestamp \<Rightarrow> bridge_db \<Rightarrow> (nat \<times> bridge_db) result" where
  "quarantine_rejected_workspace_delivery_dependents nfc sha256 now db =
     (let rejected = (\<lambda>d. dv_sent_at d = None \<and> dv_state d = ''rejected'');
          db1 = reject_operations now (map dv_operation_uuid (filter rejected (bd_outbox db))) db;
          gone = filter (refused db1) (bd_outbox db1);
          db2 = update_mappings (\<lambda>m. list_ex (\<lambda>d. pending_message d m) gone) (\<lambda>m. m\<lparr>mp_deleted := True\<rparr>) db1
      in bindE (filter_rejected_grouped_read_dependencies nfc sha256 now db2) (\<lambda>(_, db3).
         Inr (quarantine_loop now db3)))"

section \<open>The end of an event\<close>

definition has_delivery :: "(delivery_row \<Rightarrow> bool) \<Rightarrow> delivery_row list \<Rightarrow> event_row \<Rightarrow> bool" where
  "has_delivery p ds ev = list_ex (\<lambda>d. source_event ev d \<and> dv_sent_at d = None \<and> p d) ds"

definition ends_now :: "delivery_row list \<Rightarrow> event_row \<Rightarrow> bool" where
  "ends_now ds ev = (je_state ev = ''delivering'' \<and> \<not> has_delivery (\<lambda>d. dv_state d \<noteq> ''rejected'') ds ev)"

definition was_rejected :: "delivery_row list \<Rightarrow> event_row \<Rightarrow> bool" where
  "was_rejected ds ev = has_delivery (\<lambda>d. dv_state d = ''rejected'') ds ev"

definition deleted_message_ids :: "event_row \<Rightarrow> string list" where
  "deleted_message_ids ev =
     (if get_val (je_body ev) ''type'' \<noteq> VStr ''delete_message'' then []
      else case get_val (je_body ev) ''message_ids'' of
          VList vs \<Rightarrow> map py_str vs
        | VNone \<Rightarrow> (case get_val (je_body ev) ''message_id'' of VNone \<Rightarrow> [] | v \<Rightarrow> [py_str v])
        | _ \<Rightarrow> [])"

definition finish_event :: "delivery_row list \<Rightarrow> event_row \<Rightarrow> event_row" where
  "finish_event ds ev =
     (if was_rejected ds ev then ev\<lparr>je_state := ''invalid'', je_reason := Some ''workspace_delivery_rejected''\<rparr>
      else ev\<lparr>je_state := ''processed'', je_prepared := None\<rparr>)"

definition finalize_ready_provider_events ::
  "(string \<Rightarrow> string) \<Rightarrow> (string \<Rightarrow> string) \<Rightarrow> timestamp \<Rightarrow> bridge_db \<Rightarrow> (nat \<times> bridge_db) result" where
  "finalize_ready_provider_events nfc sha256 now db =
     bindE (quarantine_rejected_workspace_delivery_dependents nfc sha256 now db) (\<lambda>(_, db1).
     let ds = bd_outbox db1;
         evs = filter (ends_now ds) (db_events (bd_queue db1));
         gone = filter (\<lambda>ev. \<not> was_rejected ds ev) evs
     in Inr (length evs,
          update_events (ends_now ds) (finish_event ds)
            (update_mappings (\<lambda>m. mp_kind m = ''message'' \<and> \<not> mp_deleted m \<and>
                 list_ex (\<lambda>ev. mp_account_uuid m = je_account_uuid ev \<and> mp_provider_id m \<in> set (deleted_message_ids ev)) gone)
               (\<lambda>m. m\<lparr>mp_deleted := True\<rparr>) db1)))"

end
