(* ===== verification/Reaction_Mappings.thy ===== *)
theory Reaction_Mappings
  imports Delivery_Submission Emoji
begin

text \<open>
  Mappings of reactions (\<open>storage.py\<close>): an emoji has several codes, and a message may have got
  mappings for several of them. One of the mappings of a user's reaction survives, the
  others are displaced; a plan is made when the event is prepared, checked when it is
  enqueued and carried out when Workspace has accepted the change. The column \<open>updated_at\<close> of
  the mappings, which only this choice reads, and NFC normalisation of code points are the
  fields of the argument \<open>env\<close>. Provider identifiers of messages and
  users are numbers, so that the pattern of \<open>LIKE\<close> is a prefix.
\<close>

section \<open>The mapping that survives\<close>

record reaction_env =
  re_nfc :: "codepoint list \<Rightarrow> codepoint list"
  re_age :: "mapping_row \<Rightarrow> timestamp"

definition canonical_code :: "reaction_env \<Rightarrow> string \<Rightarrow> string \<Rightarrow> string result" where
  "canonical_code env reaction_type code =
     (if reaction_type = ''unicode_emoji'' then canonical_unicode_emoji_code (re_nfc env) code else Inr code)"

definition same_reaction :: "reaction_env \<Rightarrow> string set \<Rightarrow> string \<Rightarrow> string \<Rightarrow> mapping_row \<Rightarrow> bool" where
  "same_reaction env provider_ids reaction_type code m =
     (mp_provider_id m \<in> provider_ids \<or>
      py_str (get_val (mp_metadata m) ''reaction_type'') = reaction_type \<and>
      canonical_code env reaction_type (py_str (get_default (mp_metadata m) ''emoji_code'' (VStr []))) = Inr code)"

definition preferred :: "string \<Rightarrow> mapping_row list \<Rightarrow> mapping_row option" where
  "preferred pid ms =
     (case find (\<lambda>m. mp_provider_id m = pid) ms of
        Some m \<Rightarrow> Some m
      | None \<Rightarrow> (case ms of [] \<Rightarrow> None | m # _ \<Rightarrow> Some m))"

definition select_reaction_mappings ::
  "reaction_env \<Rightarrow> mapping_row list \<Rightarrow> string \<Rightarrow> string \<Rightarrow> dict \<Rightarrow> bool \<Rightarrow> (mapping_row option \<times> mapping_row list) result" where
  "select_reaction_mappings env rows pid legacy metadata create =
     bindE (item metadata ''reaction_type'') (\<lambda>rt.
     bindE (item metadata ''emoji_code'') (\<lambda>ec.
     bindE (canonical_code env (py_str rt) (py_str ec)) (\<lambda>code.
     let candidates = filter (same_reaction env {pid, legacy} (py_str rt) code) rows;
         active = filter (\<lambda>m. \<not> mp_deleted m) candidates;
         survivor = (case preferred pid active of
             Some m \<Rightarrow> Some m
           | None \<Rightarrow> if create then preferred pid candidates else None);
         displaced = (case survivor of
             None \<Rightarrow> []
           | Some s \<Rightarrow> filter (\<lambda>m. mp_workspace_uuid m \<noteq> mp_workspace_uuid s) active)
     in Inr (survivor, displaced))))"

text \<open>The reactions of a user to a message: \<open>ORDER BY deleted, updated_at, workspace_uuid\<close>.\<close>

definition user_reactions :: "reaction_env \<Rightarrow> uuid \<Rightarrow> string \<Rightarrow> string \<Rightarrow> mapping_row list \<Rightarrow> mapping_row list" where
  "user_reactions env account message user ms =
     sort_key (\<lambda>m. (mp_deleted m, re_age env m, mp_workspace_uuid m))
       (filter (\<lambda>m. mp_account_uuid m = account \<and> mp_kind m = ''reaction'' \<and>
          starts_with (message @ '':'' @ user @ '':'') (mp_provider_id m)) ms)"

definition plan_reaction_mapping ::
  "reaction_env \<Rightarrow> uuid \<Rightarrow> string \<Rightarrow> string \<Rightarrow> string \<Rightarrow> string \<Rightarrow> uuid \<Rightarrow> dict \<Rightarrow> bool \<Rightarrow>
     mapping_row list \<Rightarrow> (mapping_row option \<times> mapping_row list) result" where
  "plan_reaction_mapping env account message user pid legacy workspace metadata create ms =
     bindE (select_reaction_mappings env (user_reactions env account message user ms) pid legacy metadata create)
       (\<lambda>(survivor, displaced).
         Inr (if survivor = None \<and> create
              then Some (new_mapping account ''reaction'' workspace pid None metadata) else survivor, displaced))"

text \<open>
  A deleted row of the canonical identifier gives way before an active one takes it; the
  active rows that are displaced stay until their own clean-up is accepted.
\<close>

definition reaction_key :: "uuid \<Rightarrow> string \<Rightarrow> mapping_row \<Rightarrow> bool" where
  "reaction_key account pid m = (provider_key m = (account, ''reaction'', pid))"

definition revive_survivor :: "uuid \<Rightarrow> string \<Rightarrow> dict \<Rightarrow> mapping_row \<Rightarrow> mapping_row list \<Rightarrow> mapping_row list result" where
  "revive_survivor account pid metadata s ms =
     (let ms1 = (if mp_provider_id s \<noteq> pid then filter (\<lambda>m. \<not> (reaction_key account pid m \<and> mp_deleted m)) ms else ms)
      in checked mappings_unique
           (update_where (\<lambda>m. reaction_key account (mp_provider_id s) m \<and> mp_workspace_uuid m = mp_workspace_uuid s)
             (\<lambda>m. m\<lparr>mp_provider_id := pid, mp_metadata := metadata, mp_deleted := False\<rparr>) ms1))"

definition converge_reaction_mapping ::
  "reaction_env \<Rightarrow> uuid \<Rightarrow> string \<Rightarrow> string \<Rightarrow> string \<Rightarrow> string \<Rightarrow> uuid \<Rightarrow> dict \<Rightarrow> bool \<Rightarrow>
     mapping_row list \<Rightarrow> ((mapping_row option \<times> mapping_row list) \<times> mapping_row list) result" where
  "converge_reaction_mapping env account message user pid legacy workspace metadata create ms =
     bindE (select_reaction_mappings env (user_reactions env account message user ms) pid legacy metadata create)
       (\<lambda>(survivor, displaced).
         bindE (case survivor of
             Some s \<Rightarrow> revive_survivor account pid metadata s ms
           | None \<Rightarrow>
               if create
               then upsert_mapping (\<lambda>m. m\<lparr>mp_metadata := metadata, mp_deleted := False\<rparr>)
                      (new_mapping account ''reaction'' workspace pid None metadata) ms
               else Inr ms) (\<lambda>ms'.
         let mapping = (if survivor = None \<and> \<not> create then None else find (reaction_key account pid) ms') in
         if mapping = None \<and> create then Inl (ValueErr ''Reaction mapping convergence failed'')
         else Inr ((mapping, displaced), ms')))"

definition mark_provider_mapping_deleted :: "uuid \<Rightarrow> string \<Rightarrow> string \<Rightarrow> bridge_db \<Rightarrow> bridge_db" where
  "mark_provider_mapping_deleted account kind pid =
     update_mappings (\<lambda>m. provider_key m = (account, kind, pid)) (\<lambda>m. m\<lparr>mp_deleted := True\<rparr>)"

section \<open>Plans in records\<close>

definition transport_member :: "op_record \<Rightarrow> string \<Rightarrow> pyval" where
  "transport_member r k = (case rec_transport r of None \<Rightarrow> VNone | Some t \<Rightarrow> get_val t k)"

definition plan_error :: pyerror where
  "plan_error = ValueErr ''invalid_reaction_mapping_plan''"

record reaction_plan =
  rp_message :: string
  rp_user :: string
  rp_provider_id :: string
  rp_legacy_id :: string
  rp_workspace :: uuid
  rp_metadata :: dict
  rp_create :: bool
  rp_displaced :: pyval

definition plan_text :: "dict \<Rightarrow> string \<Rightarrow> string result" where
  "plan_text plan k = bindE (item plan k) (\<lambda>v. Inr (py_str v))"

definition reaction_operation :: "op_record \<Rightarrow> bool" where
  "reaction_operation r = (rec_kind r \<in> {VStr ''reaction.upsert'', VStr ''reaction.delete''})"

text \<open>The checks that come before the first statement; \<open>with_list\<close> requires the list of displaced mappings.\<close>

definition check_plan :: "bool \<Rightarrow> op_record \<Rightarrow> dict \<Rightarrow> (dict \<times> bool) result" where
  "check_plan with_list r plan =
     (case (get_val plan ''metadata'', get_val plan ''create_if_missing'') of
        (VDict metadata, VBool create) \<Rightarrow>
          bindE (guardE (\<not> with_list \<or> (case get_val plan ''displaced'' of VList _ \<Rightarrow> True | _ \<Rightarrow> False)) plan_error) (\<lambda>_.
          bindE (guardE (reaction_operation r) (ValueErr ''invalid_reaction_mapping_operation'')) (\<lambda>_.
          bindE (guardE (create = (rec_kind r = VStr ''reaction.upsert'')) plan_error) (\<lambda>_.
          Inr (metadata, create))))
      | _ \<Rightarrow> Inl plan_error)"

definition read_plan :: "dict \<Rightarrow> dict \<times> bool \<Rightarrow> reaction_plan result" where
  "read_plan plan mc =
     bindE (plan_text plan ''provider_message_id'') (\<lambda>message.
     bindE (plan_text plan ''provider_user_id'') (\<lambda>user.
     bindE (plan_text plan ''provider_id'') (\<lambda>pid.
     bindE (plan_text plan ''legacy_provider_id'') (\<lambda>legacy.
     bindE (plan_text plan ''workspace_uuid'') (\<lambda>workspace.
     Inr \<lparr>rp_message = message, rp_user = user, rp_provider_id = pid, rp_legacy_id = legacy, rp_workspace = workspace,
          rp_metadata = fst mc, rp_create = snd mc, rp_displaced = get_val plan ''displaced''\<rparr>)))))"

definition displaced_pair :: "pyval \<Rightarrow> (string \<times> string) option" where
  "displaced_pair v =
     (case (json_field v ''workspace_uuid'', json_field v ''provider_id'') of
        (VNone, _) \<Rightarrow> None | (_, VNone) \<Rightarrow> None | (w, p) \<Rightarrow> Some (py_str w, py_str p))"

definition expected_displaced :: "pyval \<Rightarrow> (string \<times> string) list result" where
  "expected_displaced v =
     (let vs = (case v of VList xs \<Rightarrow> xs | _ \<Rightarrow> []); pairs = remdups (List.map_filter displaced_pair vs)
      in if length pairs = length vs then Inr pairs else Inl plan_error)"

text \<open>The plan still holds: the same mapping survives, and no other one is displaced.\<close>

definition check_current_plan :: "reaction_env \<Rightarrow> uuid \<Rightarrow> mapping_row list \<Rightarrow> reaction_plan \<Rightarrow> (string \<times> string) list \<Rightarrow> unit result" where
  "check_current_plan env account ms p expected =
     bindE (select_reaction_mappings env (user_reactions env account (rp_message p) (rp_user p) ms) (rp_provider_id p)
              (rp_legacy_id p) (rp_metadata p) (rp_create p)) (\<lambda>(survivor, displaced).
     bindE (guardE (case survivor of None \<Rightarrow> rp_create p | Some s \<Rightarrow> mp_workspace_uuid s = rp_workspace p)
              (ValueErr ''reaction_mapping_plan_changed'')) (\<lambda>_.
     guardE (list_all (\<lambda>m. (mp_workspace_uuid m, mp_provider_id m) \<in> set expected) displaced)
       (ValueErr ''reaction_mapping_plan_changed'')))"

definition validate_reaction_plan :: "reaction_env \<Rightarrow> mapping_row list \<Rightarrow> op_record \<Rightarrow> unit result" where
  "validate_reaction_plan env ms r =
     (case transport_member r ''reaction_mapping'' of
        VNone \<Rightarrow> Inr ()
      | VDict plan \<Rightarrow>
          bindE (check_plan True r plan) (\<lambda>mc.
          bindE (expected_displaced (get_val plan ''displaced'')) (\<lambda>expected.
          bindE (read_plan plan mc) (\<lambda>p. check_current_plan env (rec_account_uuid r) ms p expected)))
      | _ \<Rightarrow> Inl plan_error)"

fun validate_reaction_mapping_plans :: "reaction_env \<Rightarrow> mapping_row list \<Rightarrow> op_record list \<Rightarrow> unit result" where
  "validate_reaction_mapping_plans env ms [] = Inr ()"
| "validate_reaction_mapping_plans env ms (r # rs) =
     bindE (validate_reaction_plan env ms r) (\<lambda>_. validate_reaction_mapping_plans env ms rs)"

section \<open>Carrying a plan out\<close>

definition delete_reaction :: "uuid \<Rightarrow> string \<Rightarrow> string \<Rightarrow> mapping_row list \<Rightarrow> mapping_row list" where
  "delete_reaction account workspace pid =
     update_where (\<lambda>m. reaction_key account pid m \<and> mp_workspace_uuid m = workspace) (\<lambda>m. m\<lparr>mp_deleted := True\<rparr>)"

definition delete_planned_target :: "op_record \<Rightarrow> mapping_row list \<Rightarrow> mapping_row list result" where
  "delete_planned_target r ms =
     (case transport_member r ''reaction_mapping_delete'' of
        VNone \<Rightarrow> Inr ms
      | VDict target \<Rightarrow>
          (case (get_val target ''workspace_uuid'', get_val target ''provider_id'') of
             (VNone, _) \<Rightarrow> Inl (ValueErr ''invalid_reaction_mapping_delete'')
           | (_, VNone) \<Rightarrow> Inl (ValueErr ''invalid_reaction_mapping_delete'')
           | (w, p) \<Rightarrow> Inr (delete_reaction (rec_account_uuid r) (py_str w) (py_str p) ms))
      | _ \<Rightarrow> Inl (ValueErr ''invalid_reaction_mapping_delete''))"

definition commit_reaction_mapping_transition ::
  "reaction_env \<Rightarrow> op_record \<Rightarrow> mapping_row list \<Rightarrow> mapping_row list result" where
  "commit_reaction_mapping_transition env r ms =
     bindE (delete_planned_target r ms) (\<lambda>ms1.
     case transport_member r ''reaction_mapping'' of
        VNone \<Rightarrow> Inr ms1
      | VDict plan \<Rightarrow>
          bindE (check_plan False r plan) (\<lambda>mc.
          bindE (read_plan plan mc) (\<lambda>p.
          bindE (converge_reaction_mapping env (rec_account_uuid r) (rp_message p) (rp_user p) (rp_provider_id p)
                   (rp_legacy_id p) (rp_workspace p) (rp_metadata p) True ms1) (\<lambda>((mapping, _), ms2).
          bindE (guardE (map_option mp_workspace_uuid mapping = Some (rp_workspace p))
                   (ValueErr ''reaction_mapping_plan_changed'')) (\<lambda>_.
          Inr (if rec_kind r = VStr ''reaction.delete''
               then delete_reaction (rec_account_uuid r) (rp_workspace p) (rp_provider_id p) ms2 else ms2)))))
      | _ \<Rightarrow> Inl plan_error)"

end
