(* ===== verification/Delivery_Enqueue.thy ===== *)
theory Delivery_Enqueue
  imports Reaction_Mappings
begin

text \<open>
  How the records of an event get into the delivery outbox (\<open>storage.py\<close>): they are prepared once
  and stored with the event, checked against the mappings they were made from, and written
  to the outbox together. A record without an \<open>operation\<close>, which the converter does not make,
  is outside the model. Of several assignments of a chat, \<open>LIMIT 1\<close> takes the first in table order.
\<close>

section \<open>Stored records\<close>

definition text_item :: "dict \<Rightarrow> string \<Rightarrow> string result" where
  "text_item d k = bindE (item d k) (\<lambda>v. case v of VStr s \<Rightarrow> Inr s | _ \<Rightarrow> Inl TypeErr)"

definition int_item :: "dict \<Rightarrow> string \<Rightarrow> int result" where
  "int_item d k = bindE (item d k) (\<lambda>v. case v of VInt i \<Rightarrow> Inr i | _ \<Rightarrow> Inl TypeErr)"

definition text_or_none :: "dict \<Rightarrow> string \<Rightarrow> string option result" where
  "text_or_none d k = bindE (item d k) (\<lambda>v. case v of VNone \<Rightarrow> Inr None | VStr s \<Rightarrow> Inr (Some s) | _ \<Rightarrow> Inl TypeErr)"

definition optional_text :: "dict \<Rightarrow> string \<Rightarrow> string option result" where
  "optional_text d k = (case map_of d k of None \<Rightarrow> Inr None | Some (VStr s) \<Rightarrow> Inr (Some s) | Some _ \<Rightarrow> Inl TypeErr)"

text \<open>The record of a stored JSON object, the inverse of \<^const>\<open>record_dict\<close>.\<close>

definition record_of_dict :: "dict \<Rightarrow> op_record result" where
  "record_of_dict d =
     bindE (text_item d ''schema'') (\<lambda>schema.
     bindE (int_item d ''schema_version'') (\<lambda>version.
     bindE (text_item d ''record_uuid'') (\<lambda>u.
     bindE (text_item d ''operation_uuid'') (\<lambda>op_u.
     bindE (int_item d ''attempt'') (\<lambda>attempt.
     bindE (text_item d ''operation_sha256'') (\<lambda>h.
     bindE (text_item d ''account_uuid'') (\<lambda>account.
     bindE (text_item d ''project_uuid'') (\<lambda>project.
     bindE (text_item d ''origin'') (\<lambda>origin.
     bindE (text_item d ''causal_lane'') (\<lambda>lane.
     bindE (int_item d ''sequence'') (\<lambda>sequence.
     bindE (text_or_none d ''predecessor_operation_uuid'') (\<lambda>predecessor.
     bindE (text_item d ''created_at'') (\<lambda>created.
     bindE (text_or_none d ''expires_at'') (\<lambda>expires.
     bindE (case map_of d ''transport'' of
              None \<Rightarrow> Inr None | Some (VDict t) \<Rightarrow> Inr (Some t) | Some _ \<Rightarrow> Inl TypeErr) (\<lambda>transport.
     bindE (object_item d ''operation'') (\<lambda>operation.
     bindE (optional_text d ''_workspace_read_semantic_sha256'') (\<lambda>read_sha256.
     Inr \<lparr>rec_schema = schema, rec_schema_version = version, rec_uuid = u, rec_operation_uuid = op_u, rec_attempt = attempt,
          rec_sha256 = h, rec_account_uuid = account, rec_project_uuid = project, rec_origin = origin, rec_causal_lane = lane,
          rec_sequence = sequence, rec_predecessor = predecessor, rec_created_at = created, rec_expires_at = expires,
          rec_transport = transport, rec_operation = operation, rec_read_sha256 = read_sha256\<rparr>)))))))))))))))))"

lemma record_of_record_dict: "record_of_dict (record_dict r) = Inr r"
  by (cases "rec_transport r"; cases "rec_predecessor r"; cases "rec_expires_at r"; cases "rec_read_sha256 r")
    (simp_all add: record_of_dict_def record_dict_def text_item_def int_item_def text_or_none_def optional_text_def
      object_item_def as_object_def item_def opt_str_def)

definition stored_records :: "op_record list \<Rightarrow> pyval" where
  "stored_records rs = VList (map (VDict \<circ> record_dict) rs)"

definition read_records :: "pyval \<Rightarrow> op_record list result" where
  "read_records v =
     (case v of
        VList vs \<Rightarrow> mapE (\<lambda>v. bindE (as_object v) record_of_dict) vs
      | _ \<Rightarrow> Inl (ValueErr ''invalid_prepared_provider_event''))"

lemma read_stored_records: "read_records (stored_records rs) = Inr rs"
  by (induction rs) (simp_all add: read_records_def stored_records_def as_object_def record_of_record_dict)

section \<open>Preparing the records of an event\<close>

definition is_read :: "op_record \<Rightarrow> bool" where
  "is_read r = (rec_kind r = VStr ''read_state.set'')"

definition sent_already :: "bridge_db \<Rightarrow> op_record \<Rightarrow> bool" where
  "sent_already db r =
     list_ex (\<lambda>d. dv_operation_uuid d = rec_operation_uuid r \<and> dv_sent_at d \<noteq> None) (bd_outbox db)"

definition expected_read_places :: "op_record \<Rightarrow> message_place list result" where
  "expected_read_places r =
     bindE (object_item (rec_operation r) ''payload'') (\<lambda>payload.
     bindE (item payload ''stream_uuid'') (\<lambda>s.
     bindE (item payload ''topic_uuid'') (\<lambda>t.
     bindE (case get_default payload ''message_uuids'' (VList []) of VList us \<Rightarrow> Inr us | _ \<Rightarrow> Inl TypeErr) (\<lambda>us.
     Inr (map (\<lambda>u. (py_str u, rec_project_uuid r, py_str s, py_str t)) us)))))"

text \<open>A grouped read is refused when one of its messages is no longer where the conversion saw it.\<close>

fun check_reads :: "message_place list \<Rightarrow> op_record list \<Rightarrow> unit result" where
  "check_reads current [] = Inr ()"
| "check_reads current (r # rs) =
     bindE (expected_read_places r) (\<lambda>expected.
     bindE (guardE (set expected \<subseteq> set current) (ValueErr ''provider_message_mapping_changed'')) (\<lambda>_.
     check_reads current rs))"

definition validate_provider_event_message_mappings :: "uuid \<Rightarrow> dict \<Rightarrow> op_record list \<Rightarrow> bridge_db \<Rightarrow> unit result" where
  "validate_provider_event_message_mappings account event rs db =
     (let ids = event_message_ids event; reads = filter (\<lambda>r. is_read r \<and> \<not> sent_already db r) rs in
      if ids = [] then Inr () else check_reads (current_places account ids (bd_queue db)) reads)"

fun allocate_lanes ::
  "(string \<Rightarrow> string) \<Rightarrow> (string \<Rightarrow> string) \<Rightarrow> op_record list \<Rightarrow> op_record list transaction" where
  "allocate_lanes nfc sha256 [] q = Inr ([], q)"
| "allocate_lanes nfc sha256 (r # rs) q =
     bindE (allocate_producer_lane nfc sha256 r q) (\<lambda>(r', q1).
     bindE (allocate_lanes nfc sha256 rs q1) (\<lambda>(rs', q2). Inr (r' # rs', q2)))"

definition prepare_provider_event_records ::
  "reaction_env \<Rightarrow> (string \<Rightarrow> string) \<Rightarrow> (string \<Rightarrow> string) \<Rightarrow> uuid \<Rightarrow> string \<Rightarrow> int \<Rightarrow> op_record list \<Rightarrow> bridge_db \<Rightarrow>
     (op_record list \<times> bridge_db) result" where
  "prepare_provider_event_records env nfc sha256 account queue_id event_id rs db =
     (case find (same_event account queue_id event_id) (db_events (bd_queue db)) of
        None \<Rightarrow> Inl (ValueErr ''unknown_provider_event'')
      | Some ev \<Rightarrow>
          (case je_prepared ev of
             Some stored \<Rightarrow>
               bindE (read_records stored) (\<lambda>prepared.
               bindE (validate_provider_event_message_mappings account (je_body ev) prepared db) (\<lambda>_. Inr (prepared, db)))
           | None \<Rightarrow>
               bindE (guardE (je_state ev = ''pending'') (ValueErr ''provider_event_not_pending'')) (\<lambda>_.
               bindE (validate_provider_event_message_mappings account (je_body ev) rs db) (\<lambda>_.
               bindE (allocate_lanes nfc sha256 rs (bd_queue db)) (\<lambda>(prepared, q).
               bindE (validate_reaction_mapping_plans env (db_mappings q) prepared) (\<lambda>_.
               Inr (prepared, update_events (pending_event account queue_id event_id)
                      (\<lambda>ev. ev\<lparr>je_prepared := Some (stored_records prepared)\<rparr>) (db\<lparr>bd_queue := q\<rparr>))))))))"

section \<open>Writing one record\<close>

definition identity_lane :: "uuid \<Rightarrow> string \<Rightarrow> string" where
  "identity_lane account entity = ''identity:'' @ account @ '':'' @ entity"

text \<open>The record of a provider identity without the identifier it was linked to.\<close>

definition normalized_identity :: "op_record \<Rightarrow> op_record option" where
  "normalized_identity r =
     (case (rec_kind r, get_val (rec_operation r) ''entity_uuid'') of
        (VStr k, VStr entity) \<Rightarrow>
          if k = ''identity.upsert'' \<and> rec_causal_lane r = identity_lane (rec_account_uuid r) entity
          then Some (r\<lparr>rec_sha256 := [], rec_causal_lane := identity_lane (rec_account_uuid r) ''<canonical-identity>'',
                 rec_operation := dict_set ''entity_uuid'' (VStr ''<canonical-identity>'') (rec_operation r)\<rparr>)
          else None
      | _ \<Rightarrow> None)"

definition same_provider_identity_replay :: "op_record \<Rightarrow> op_record \<Rightarrow> bool" where
  "same_provider_identity_replay accepted current =
     (case (normalized_identity accepted, normalized_identity current) of
        (Some a, Some b) \<Rightarrow> py_eq (VDict (record_dict a)) (VDict (record_dict b))
      | _ \<Rightarrow> False)"

definition cleanup_target :: "op_record \<Rightarrow> dict option" where
  "cleanup_target r =
     (if rec_kind r \<noteq> VStr ''reaction.delete'' then None
      else case transport_member r ''reaction_mapping_delete'' of VDict t \<Rightarrow> Some t | _ \<Rightarrow> None)"

text \<open>The rejected record of the same clean-up.\<close>

definition rejected_cleanup :: "op_record \<Rightarrow> dict \<Rightarrow> delivery_row \<Rightarrow> bool" where
  "rejected_cleanup r target d =
     (dv_operation_uuid d = rec_operation_uuid r \<and> dv_account_uuid d = rec_account_uuid r \<and> dv_sent_at d = None \<and>
      dv_state d = ''rejected'' \<and> dv_queue_id d = None \<and> dv_event_id d = None \<and>
      rec_sha256 (dv_record d) = rec_sha256 r \<and> dv_kind d = Some ''reaction.delete'' \<and>
      dv_entity d = Some (py_str (get_val (rec_operation r) ''entity_uuid'')) \<and>
      same_json (transport_member (dv_record d) ''reaction_mapping_delete'') (VDict target))"

definition reopen_operation :: "timestamp \<Rightarrow> uuid \<Rightarrow> bridge_db \<Rightarrow> bridge_db" where
  "reopen_operation now u db =
     (case db_idempotency (bd_queue db) u of
        None \<Rightarrow> db
      | Some i \<Rightarrow>
          if idem_outcome i \<notin> {None, Some ''rejected''} then db
          else on_queue (\<lambda>q. q\<lparr>db_idempotency := (db_idempotency q)(u \<mapsto> i\<lparr>idem_outcome := None\<rparr>)\<rparr>)
                 (db\<lparr>bd_idempotency_at := (bd_idempotency_at db)(u \<mapsto> now)\<rparr>))"

definition requeue_rejected_reaction_cleanup ::
  "timestamp \<Rightarrow> op_record \<Rightarrow> int \<Rightarrow> desired_row \<Rightarrow> bridge_db \<Rightarrow> bool \<times> bridge_db" where
  "requeue_rejected_reaction_cleanup now r priority assignment db =
     (case cleanup_target r of
        None \<Rightarrow> (False, db)
      | Some target \<Rightarrow>
          if \<not> (is_str (get_val target ''workspace_uuid'') \<and> is_str (get_val target ''provider_id'')) \<or>
             \<not> list_ex (rejected_cleanup r target) (bd_outbox db)
          then (False, db)
          else (True, reopen_operation now (rec_operation_uuid r)
                 (on_outbox (rejected_cleanup r target)
                   (\<lambda>d. d\<lparr>dv_state := ''pending'', dv_error_code := None, dv_next_at := now,
                      dv_priority := min (dv_priority d) priority, dv_assignment_uuid := Some (ds_uuid assignment),
                      dv_assignment_generation := Some (ds_generation assignment),
                      dv_assignment_project := body_text assignment ''project_id''\<rparr>) db)))"

definition delivery_assignment :: "queue_db \<Rightarrow> op_record \<Rightarrow> string \<Rightarrow> desired_row option" where
  "delivery_assignment q r chat =
     find (\<lambda>d. ds_type d = ''external_chat_assignment'' \<and> \<not> ds_deleted d \<and>
        body_text d ''external_account_uuid'' = Some (rec_account_uuid r) \<and> body_chat_key d = Some chat \<and>
        selected_default d \<and> body_text d ''project_id'' = Some (rec_project_uuid r)) (db_desired q)"

text \<open>An unfinished record that creates the same topic.\<close>

definition same_topic_creation :: "delivery_row \<Rightarrow> delivery_row \<Rightarrow> bool" where
  "same_topic_creation row d =
     (unfinished d \<and> same_target d row \<and> dv_assignment_uuid d \<noteq> None \<and> dv_kind d = Some ''topic.upsert'' \<and>
      sql_eq (dv_entity d) (dv_entity row) \<and>
      sql_eq (json_text (dv_payload d ''stream_uuid'')) (json_text (dv_payload row ''stream_uuid'')) \<and>
      sql_eq (json_text (dv_payload d ''name'')) (json_text (dv_payload row ''name'')) \<and>
      sql_eq (dv_provider d ''entity_id'') (dv_provider row ''entity_id''))"

definition new_delivery ::
  "timestamp \<Rightarrow> op_record \<Rightarrow> int \<Rightarrow> int \<Rightarrow> desired_row option \<Rightarrow> (string \<times> int) option \<Rightarrow> delivery_row" where
  "new_delivery now r generation priority assignment source =
     \<lparr>dv_record_uuid = rec_uuid r, dv_operation_uuid = rec_operation_uuid r, dv_account_uuid = rec_account_uuid r,
      dv_account_generation = Some generation, dv_assignment_uuid = map_option ds_uuid assignment,
      dv_assignment_generation = map_option ds_generation assignment,
      dv_assignment_project = Option.bind assignment (\<lambda>a. body_text a ''project_id''),
      dv_queue_id = map_option fst source, dv_event_id = map_option snd source, dv_state = ''pending'', dv_attempts = 0,
      dv_next_at = now, dv_submitted_at = None, dv_error_code = None, dv_priority = priority, dv_record = r,
      dv_created_at = now, dv_sent_at = None\<rparr>"

text \<open>\<open>INSERT ... ON CONFLICT (operation_uuid) DO NOTHING\<close>\<close>

definition insert_delivery :: "delivery_row \<Rightarrow> bridge_db \<Rightarrow> (bool \<times> bridge_db) result" where
  "insert_delivery row db =
     (if list_ex (\<lambda>d. dv_operation_uuid d = dv_operation_uuid row) (bd_outbox db) then Inr (False, db)
      else if list_ex (\<lambda>d. dv_record_uuid d = dv_record_uuid row) (bd_outbox db)
      then Inl (DatabaseErr ''unique_violation'')
      else Inr (True, db\<lparr>bd_outbox := bd_outbox db @ [row]\<rparr>))"

definition note_operation :: "timestamp \<Rightarrow> op_record \<Rightarrow> bridge_db \<Rightarrow> bridge_db" where
  "note_operation now r db =
     (let u = rec_operation_uuid r in
      if db_idempotency (bd_queue db) u \<noteq> None then db
      else on_queue (insert_idempotency u (rec_sha256 r)) (db\<lparr>bd_idempotency_at := (bd_idempotency_at db)(u \<mapsto> now)\<rparr>))"

definition write_delivery ::
  "reaction_env \<Rightarrow> timestamp \<Rightarrow> op_record \<Rightarrow> delivery_row \<Rightarrow> bool \<Rightarrow> bridge_db \<Rightarrow> (bool \<times> bridge_db) result" where
  "write_delivery env now r row source db =
     (if dv_kind row = Some ''topic.upsert'' \<and> list_ex (same_topic_creation row) (bd_outbox db)
      then Inr (False, on_outbox (same_topic_creation row) (\<lambda>d. d\<lparr>dv_priority := min (dv_priority d) (dv_priority row)\<rparr>) db)
      else
        bindE (insert_delivery row db) (\<lambda>(inserted, db1).
        bindE (if inserted \<and> \<not> source then validate_reaction_mapping_plans env (db_mappings (bd_queue db1)) [r] else Inr ())
          (\<lambda>_. Inr (inserted, db1))))"

text \<open>
  A digest that differs from the recorded one is a mistake, except that an event may give
  the record of an identity again after the identity was linked.
\<close>

definition replayed_identity :: "op_record \<Rightarrow> (string \<times> int) option \<Rightarrow> bridge_db \<Rightarrow> bool" where
  "replayed_identity r source db =
     (case (source, find (\<lambda>d. dv_operation_uuid d = rec_operation_uuid r) (bd_outbox db)) of
        (Some (q, e), Some d) \<Rightarrow>
          dv_queue_id d = Some q \<and> dv_event_id d = Some e \<and> same_provider_identity_replay (dv_record d) r
      | _ \<Rightarrow> False)"

definition may_requeue :: "op_record \<Rightarrow> (string \<times> int) option \<Rightarrow> idem_row \<Rightarrow> bool" where
  "may_requeue r source i = (idem_outcome i = Some ''rejected'' \<and> source = None \<and> cleanup_target r \<noteq> None)"

definition account_global :: "op_record \<Rightarrow> dict \<Rightarrow> bool" where
  "account_global r provider = (rec_kind r = VStr ''identity.upsert'' \<and> get_val provider ''chat_id'' = VStr ''account'')"

definition route_delivery ::
  "reaction_env \<Rightarrow> timestamp \<Rightarrow> op_record \<Rightarrow> int \<Rightarrow> int \<Rightarrow> (string \<times> int) option \<Rightarrow> bool \<Rightarrow> bridge_db \<Rightarrow> (bool \<times> bridge_db) result" where
  "route_delivery env now r generation priority source known db =
     bindE (object_item (rec_operation r) ''provider'') (\<lambda>provider.
     if account_global r provider
     then write_delivery env now r (new_delivery now r generation priority None source) (source \<noteq> None) db
     else
       bindE (item provider ''chat_id'') (\<lambda>chat.
       case delivery_assignment (bd_queue db) r (py_str chat) of
         None \<Rightarrow> Inl (ValueErr ''provider_chat_assignment_pending'')
       | Some assignment \<Rightarrow>
           (case (if known \<and> source = None then requeue_rejected_reaction_cleanup now r priority assignment db else (False, db)) of
              (True, db1) \<Rightarrow> Inr (True, db1)
            | (False, _) \<Rightarrow>
                write_delivery env now r (new_delivery now r generation priority (Some assignment) source) (source \<noteq> None) db)))"

definition enqueue_workspace_delivery ::
  "reaction_env \<Rightarrow> (string \<Rightarrow> string) \<Rightarrow> (string \<Rightarrow> string) \<Rightarrow> timestamp \<Rightarrow> op_record \<Rightarrow> int \<Rightarrow> (string \<times> int) option \<Rightarrow>
     bridge_db \<Rightarrow> (bool \<times> bridge_db) result" where
  "enqueue_workspace_delivery env nfc sha256 now record priority source db =
     bindE (allocate_producer_lane nfc sha256 record (bd_queue db)) (\<lambda>(r, q).
     let db1 = db\<lparr>bd_queue := q\<rparr> in
     case live_resource q ''external_account'' (Some (rec_account_uuid r)) of
       None \<Rightarrow> Inl (ValueErr ''Unknown external account'')
     | Some account \<Rightarrow>
         (case db_idempotency q (rec_operation_uuid r) of
            None \<Rightarrow> route_delivery env now r (ds_generation account) priority source False (note_operation now r db1)
          | Some i \<Rightarrow>
              if idem_sha256 i \<noteq> rec_sha256 r
              then (if replayed_identity r source db1 then Inr (False, db1)
                    else Inl (ValueErr ''Operation UUID reused with a different digest''))
              else if idem_outcome i \<noteq> None \<and> \<not> may_requeue r source i then Inr (False, db1)
              else route_delivery env now r (ds_generation account) priority source True db1))"

text \<open>All records of an event in one transaction, which also moves the event on.\<close>

fun enqueue_all ::
  "reaction_env \<Rightarrow> (string \<Rightarrow> string) \<Rightarrow> (string \<Rightarrow> string) \<Rightarrow> timestamp \<Rightarrow> int \<Rightarrow> (string \<times> int) option \<Rightarrow> op_record list \<Rightarrow>
     bridge_db \<Rightarrow> bridge_db result" where
  "enqueue_all env nfc sha256 now priority source [] db = Inr db"
| "enqueue_all env nfc sha256 now priority source (r # rs) db =
     bindE (enqueue_workspace_delivery env nfc sha256 now r priority source db) (\<lambda>(_, db1).
       enqueue_all env nfc sha256 now priority source rs db1)"

definition enqueue_provider_event_records ::
  "reaction_env \<Rightarrow> (string \<Rightarrow> string) \<Rightarrow> (string \<Rightarrow> string) \<Rightarrow> timestamp \<Rightarrow> op_record list \<Rightarrow> int \<Rightarrow> uuid \<Rightarrow> string \<Rightarrow> int \<Rightarrow>
     bridge_db \<Rightarrow> bridge_db result" where
  "enqueue_provider_event_records env nfc sha256 now rs priority account queue_id event_id db =
     bindE (enqueue_all env nfc sha256 now priority (Some (queue_id, event_id)) rs db) (\<lambda>db1.
       Inr (mark_provider_event_delivering account queue_id event_id db1))"

end
