(* ===== verification/Confirmed_Delivery.thy ===== *)
theory Confirmed_Delivery
  imports Delivery_Enqueue
begin

text \<open>
  What Workspace has confirmed (\<open>storage.py\<close>, readers in \<open>converter.py\<close>): the transaction that
  accepts a result writes the confirmed state of the message, of its readers or of a reaction
  into the metadata of the mapping, and then an index in memory follows. The converter asks
  the index and the metadata to leave out what Workspace already knows. Counters and times of
  the index are left out. The column \<open>updated_at\<close>, which orders equal keys of the index, is \<open>re_age env\<close>.
\<close>

section \<open>The index\<close>

record confirmed_message =
  cm_fingerprint :: "string option"
  cm_token :: string
  cm_components :: "dict option"
  cm_unresolved_reply :: "string option"
  cm_projection :: "string option"
  cm_projection_pending :: "bool option"

record confirmed_read =
  cr_read :: bool
  cr_token :: string
  cr_message_uuid :: string

record confirmed_reaction =
  cx_state :: string
  cx_token :: string

record confirmed_index =
  ci_messages :: "uuid \<times> string \<rightharpoonup> confirmed_message"
  ci_reads :: "uuid \<times> string \<times> string \<rightharpoonup> confirmed_read"
  ci_reactions :: "uuid \<times> string \<times> string \<times> string \<rightharpoonup> confirmed_reaction"

definition no_index :: confirmed_index where
  "no_index = \<lparr>ci_messages = Map.empty, ci_reads = Map.empty, ci_reactions = Map.empty\<rparr>"

text \<open>\<open>x is None or isinstance(x, str)\<close> and its like: the value, when the type is right.\<close>

definition optional_str :: "pyval \<Rightarrow> string option option" where
  "optional_str v = (case v of VNone \<Rightarrow> Some None | VStr s \<Rightarrow> Some (Some s) | _ \<Rightarrow> None)"

definition optional_bool :: "pyval \<Rightarrow> bool option option" where
  "optional_bool v = (case v of VNone \<Rightarrow> Some None | VBool b \<Rightarrow> Some (Some b) | _ \<Rightarrow> None)"

definition optional_dict :: "pyval \<Rightarrow> dict option" where
  "optional_dict v = (case v of VDict d \<Rightarrow> Some d | _ \<Rightarrow> None)"

definition stored_message :: "dict \<Rightarrow> confirmed_message option" where
  "stored_message meta =
     (case (optional_str (get_val meta ''confirmed_message_fingerprint''), get_val meta ''confirmed_message_token'',
            optional_str (get_val meta ''confirmed_message_unresolved_reply_provider_id''),
            optional_str (get_val meta ''confirmed_message_projection_fingerprint''),
            optional_bool (get_val meta ''confirmed_message_projection_pending'')) of
        (Some fp, VStr token, Some reply, Some projection, Some pending) \<Rightarrow>
          Some \<lparr>cm_fingerprint = fp, cm_token = token,
                cm_components = optional_dict (get_val meta ''confirmed_message_components''),
                cm_unresolved_reply = reply, cm_projection = projection, cm_projection_pending = pending\<rparr>
      | _ \<Rightarrow> None)"

definition stored_read :: "dict \<Rightarrow> string \<Rightarrow> confirmed_read option" where
  "stored_read meta reader =
     (case (json_field (get_val meta ''confirmed_read_states'') reader, json_field (get_val meta ''confirmed_read_tokens'') reader,
            json_field (get_val meta ''confirmed_read_message_uuids'') reader) of
        (VBool read, VStr token, VStr message) \<Rightarrow> Some \<lparr>cr_read = read, cr_token = token, cr_message_uuid = message\<rparr>
      | _ \<Rightarrow> None)"

definition delivered_mapping :: "dict \<Rightarrow> bool" where
  "delivered_mapping meta = (get_val meta ''workspace_delivery_state'' = VStr ''committed'')"

definition indexed_message :: "mapping_row \<Rightarrow> bool" where
  "indexed_message m = (mp_kind m = ''message'' \<and> \<not> mp_deleted m \<and> delivered_mapping (mp_metadata m))"

definition index_message :: "mapping_row \<Rightarrow> confirmed_index \<Rightarrow> confirmed_index" where
  "index_message m ix =
     (let account = mp_account_uuid m; pid = mp_provider_id m; meta = mp_metadata m in
      ix\<lparr>ci_messages := (case stored_message meta of None \<Rightarrow> ci_messages ix | Some v \<Rightarrow> (ci_messages ix)((account, pid) \<mapsto> v)),
         ci_reads := (\<lambda>(a, p, reader). if (a, p) = (account, pid) \<and> stored_read meta reader \<noteq> None
            then stored_read meta reader else ci_reads ix (a, p, reader))\<rparr>)"

text \<open>The user, message and emoji of a reaction, from the metadata or from the provider identifier.\<close>

definition reaction_part :: "mapping_row \<Rightarrow> string \<Rightarrow> nat \<Rightarrow> string option" where
  "reaction_part m k i =
     (case get_val (mp_metadata m) k of
        VNone \<Rightarrow> (let parts = split_on (CHR '':'') (mp_provider_id m) in if length parts \<ge> 4 then Some (parts ! i) else None)
      | v \<Rightarrow> Some (py_str v))"

definition reaction_code :: "reaction_env \<Rightarrow> (string \<Rightarrow> string) \<Rightarrow> dict \<Rightarrow> string option" where
  "reaction_code env nfc meta =
     (case get_val meta ''normalized_emoji_code'' of
        VStr code \<Rightarrow> Some code
      | VNone \<Rightarrow>
          (case (get_val meta ''reaction_type'', get_val meta ''emoji_code'') of
             (VNone, _) \<Rightarrow> None | (_, VNone) \<Rightarrow> None
           | (rt, ec) \<Rightarrow>
               (case normalized_reaction_code (re_nfc env) nfc (py_str rt) (py_str ec) of Inr c \<Rightarrow> Some c | Inl _ \<Rightarrow> None))
      | _ \<Rightarrow> None)"

definition stored_reaction :: "mapping_row \<Rightarrow> confirmed_reaction option" where
  "stored_reaction m =
     (case get_val (mp_metadata m) ''confirmed_reaction_token'' of
        VStr token \<Rightarrow>
          (let st = (if mp_deleted m then ''absent'' else ''present'') in
           if get_val (mp_metadata m) ''confirmed_reaction_state'' = VStr st then Some \<lparr>cx_state = st, cx_token = token\<rparr> else None)
      | _ \<Rightarrow> None)"

definition index_reaction :: "reaction_env \<Rightarrow> (string \<Rightarrow> string) \<Rightarrow> mapping_row \<Rightarrow> confirmed_index \<Rightarrow> confirmed_index" where
  "index_reaction env nfc m ix =
     (case (reaction_part m ''provider_message_id'' 0, reaction_part m ''provider_user_id'' 1,
            reaction_code env nfc (mp_metadata m), stored_reaction m) of
        (Some message, Some user, Some code, Some v) \<Rightarrow>
          (let key = (mp_account_uuid m, message, user, code) in
           if map_option cx_state (ci_reactions ix key) = Some ''present'' then ix
           else ix\<lparr>ci_reactions := (ci_reactions ix)(key \<mapsto> v)\<rparr>)
      | _ \<Rightarrow> ix)"

definition index_row :: "reaction_env \<Rightarrow> (string \<Rightarrow> string) \<Rightarrow> mapping_row \<Rightarrow> confirmed_index \<Rightarrow> confirmed_index" where
  "index_row env nfc m ix =
     (if mp_kind m = ''reaction'' then index_reaction env nfc m ix
      else if indexed_message m then index_message m ix else ix)"

text \<open>\<open>ORDER BY account_uuid, entity_kind, provider_id, updated_at, workspace_uuid\<close>\<close>

definition load_confirmed_delivery_state :: "reaction_env \<Rightarrow> (string \<Rightarrow> string) \<Rightarrow> mapping_row list \<Rightarrow> confirmed_index" where
  "load_confirmed_delivery_state env nfc ms =
     fold (index_row env nfc)
       (sort_key (\<lambda>m. (mp_account_uuid m, mp_kind m, mp_provider_id m, re_age env m, mp_workspace_uuid m))
         (filter (\<lambda>m. mp_kind m \<in> {''message'', ''reaction''}) ms)) no_index"

section \<open>Confirming\<close>

datatype index_update =
    Message_Confirmed uuid string confirmed_message
  | Read_Confirmed uuid string string confirmed_read
  | Reaction_Confirmed uuid string string string confirmed_reaction

fun apply_update :: "index_update \<Rightarrow> confirmed_index \<Rightarrow> confirmed_index" where
  "apply_update (Message_Confirmed a p v) ix = ix\<lparr>ci_messages := (ci_messages ix)((a, p) \<mapsto> v)\<rparr>"
| "apply_update (Read_Confirmed a p reader v) ix = ix\<lparr>ci_reads := (ci_reads ix)((a, p, reader) \<mapsto> v)\<rparr>"
| "apply_update (Reaction_Confirmed a p u c v) ix = ix\<lparr>ci_reactions := (ci_reactions ix)((a, p, u, c) \<mapsto> v)\<rparr>"

text \<open>\<open>jsonb_strip_nulls\<close>, which goes into nested objects.\<close>

fun strip_nulls :: "pyval \<Rightarrow> pyval" and strip_members :: "(string \<times> pyval) list \<Rightarrow> (string \<times> pyval) list"
  and strip_items :: "pyval list \<Rightarrow> pyval list" where
  "strip_nulls (VDict kvs) = VDict (strip_members kvs)"
| "strip_nulls (VList xs) = VList (strip_items xs)"
| "strip_nulls v = v"
| "strip_members [] = []"
| "strip_members ((k, v) # kvs) = (if v = VNone then strip_members kvs else (k, strip_nulls v) # strip_members kvs)"
| "strip_items [] = []"
| "strip_items (x # xs) = strip_nulls x # strip_items xs"

definition message_keys :: "string list" where
  "message_keys =
     [''confirmed_message_fingerprint'', ''confirmed_message_components'', ''confirmed_message_unresolved_reply_provider_id'',
      ''confirmed_message_projection_fingerprint'', ''confirmed_message_projection_pending'']"

definition opt_dict :: "dict option \<Rightarrow> pyval" where
  "opt_dict d = (case d of None \<Rightarrow> VNone | Some kvs \<Rightarrow> VDict kvs)"

definition opt_bool :: "bool option \<Rightarrow> pyval" where
  "opt_bool b = (case b of None \<Rightarrow> VNone | Some x \<Rightarrow> VBool x)"

definition confirm_message_metadata :: "confirmed_message \<Rightarrow> dict \<Rightarrow> dict" where
  "confirm_message_metadata v meta =
     dict_update (without_keys message_keys meta)
       (strip_members
         [(''confirmed_message_fingerprint'', opt_str (cm_fingerprint v)),
          (''confirmed_message_components'', opt_dict (cm_components v)),
          (''confirmed_message_unresolved_reply_provider_id'', opt_str (cm_unresolved_reply v)),
          (''confirmed_message_projection_fingerprint'', opt_str (cm_projection v)),
          (''confirmed_message_projection_pending'', opt_bool (cm_projection_pending v)),
          (''confirmed_message_token'', VStr (cm_token v))])"

definition on_metadata :: "(mapping_row \<Rightarrow> bool) \<Rightarrow> (mapping_row \<Rightarrow> dict) \<Rightarrow> mapping_row list \<Rightarrow> mapping_row list" where
  "on_metadata p f = update_where p (\<lambda>m. m\<lparr>mp_metadata := f m\<rparr>)"

definition live_messages :: "uuid \<Rightarrow> string list \<Rightarrow> mapping_row \<Rightarrow> bool" where
  "live_messages account pids m =
     (mp_account_uuid m = account \<and> mp_kind m = ''message'' \<and> mp_provider_id m \<in> set pids \<and> \<not> mp_deleted m)"

definition message_of :: "uuid \<Rightarrow> dict \<Rightarrow> (string \<times> confirmed_message) option" where
  "message_of token confirmed =
     (case (get_val confirmed ''provider_message_id'', optional_str (get_val confirmed ''fingerprint''),
            get_val confirmed ''components'', optional_str (get_val confirmed ''unresolved_reply_provider_id''),
            optional_str (get_val confirmed ''projection_fingerprint''), optional_bool (get_val confirmed ''projection_pending'')) of
        (VNone, _) \<Rightarrow> None
      | (pid, Some fp, components, Some reply, Some projection, Some pending) \<Rightarrow>
          if components \<noteq> VNone \<and> optional_dict components = None then None
          else Some (py_str pid, \<lparr>cm_fingerprint = fp, cm_token = token, cm_components = optional_dict components,
                 cm_unresolved_reply = reply, cm_projection = projection, cm_projection_pending = pending\<rparr>)
      | _ \<Rightarrow> None)"

definition confirm_message :: "uuid \<Rightarrow> uuid \<Rightarrow> dict \<Rightarrow> mapping_tables \<Rightarrow> (index_update list \<times> mapping_tables) result" where
  "confirm_message account token confirmed tables =
     (case message_of token confirmed of
        None \<Rightarrow> Inl (ValueErr ''invalid_confirmed_message_state'')
      | Some (pid, v) \<Rightarrow>
          if \<not> list_ex (live_messages account [pid]) (fst tables) then Inl (ValueErr ''confirmed_message_mapping_missing'')
          else Inr ([Message_Confirmed account pid v],
            (on_metadata (live_messages account [pid]) (\<lambda>m. confirm_message_metadata v (mp_metadata m)) (fst tables),
             on_metadata (live_messages account [pid]) (\<lambda>m. confirm_message_metadata v (mp_metadata m)) (snd tables))))"

text \<open>The items of a confirmed read: provider identifiers, in order and each once, with the message.\<close>

definition item_member :: "string \<Rightarrow> pyval \<Rightarrow> string option" where
  "item_member k v = (case json_field v k of VNone \<Rightarrow> None | w \<Rightarrow> Some (py_str w))"

definition read_items :: "pyval list \<Rightarrow> (string \<times> string) list option" where
  "read_items vs =
     (let pids = sort (remdups (List.map_filter (item_member ''provider_message_id'') vs));
          pairs = List.map_filter (\<lambda>v. case (item_member ''provider_message_id'' v, item_member ''message_uuid'' v) of
             (Some p, Some m) \<Rightarrow> Some (p, m) | _ \<Rightarrow> None) vs
      in if vs = [] \<or> length pids \<noteq> length vs \<or> length (remdups (map fst pairs)) \<noteq> length vs then None
         else Some (map (\<lambda>p. (p, the (map_of (rev pairs) p))) pids))"

definition extend_object :: "string \<Rightarrow> string \<Rightarrow> pyval \<Rightarrow> dict \<Rightarrow> dict" where
  "extend_object k name v meta =
     dict_set k (VDict (dict_set name v (case get_val meta k of VDict d \<Rightarrow> d | _ \<Rightarrow> []))) meta"

definition confirm_read_metadata :: "string \<Rightarrow> confirmed_read \<Rightarrow> dict \<Rightarrow> dict" where
  "confirm_read_metadata reader v meta =
     extend_object ''confirmed_read_message_uuids'' reader (VStr (cr_message_uuid v))
       (extend_object ''confirmed_read_tokens'' reader (VStr (cr_token v))
         (extend_object ''confirmed_read_states'' reader (VBool (cr_read v)) meta))"

definition confirm_reads :: "uuid \<Rightarrow> uuid \<Rightarrow> dict \<Rightarrow> mapping_tables \<Rightarrow> (index_update list \<times> mapping_tables) result" where
  "confirm_reads account token confirmed tables =
     (case (get_val confirmed ''reader_uuid'', get_val confirmed ''read'', get_val confirmed ''items'') of
        (VNone, _) \<Rightarrow> Inl (ValueErr ''invalid_confirmed_read_state'')
      | (reader, VBool read, VList vs) \<Rightarrow>
          (case read_items vs of
             None \<Rightarrow> Inl (ValueErr ''invalid_confirmed_read_state'')
           | Some items \<Rightarrow>
               let value = (\<lambda>p. \<lparr>cr_read = read, cr_token = token, cr_message_uuid = the (map_of items p)\<rparr>);
                   live = live_messages account (map fst items);
                   found = sort (map mp_provider_id (filter live (fst tables)))
               in if found \<noteq> map fst items then Inl (ValueErr ''confirmed_read_mapping_missing'')
                  else Inr (map (\<lambda>(p, _). Read_Confirmed account p (py_str reader) (value p)) items,
                    (on_metadata live (\<lambda>m. confirm_read_metadata (py_str reader) (value (mp_provider_id m)) (mp_metadata m))
                       (fst tables), snd tables)))
      | _ \<Rightarrow> Inl (ValueErr ''invalid_confirmed_read_state''))"

definition confirm_reaction :: "uuid \<Rightarrow> uuid \<Rightarrow> dict \<Rightarrow> mapping_tables \<Rightarrow> (index_update list \<times> mapping_tables) result" where
  "confirm_reaction account token confirmed tables =
     (let field = (\<lambda>k. get_val confirmed k); text = (\<lambda>k. py_str (get_val confirmed k)) in
      if VNone \<in> set (map field [''provider_message_id'', ''provider_user_id'', ''provider_id'', ''normalized_emoji_code'', ''state'']) \<or>
         field ''state'' \<notin> {VStr ''present'', VStr ''absent''}
      then Inl (ValueErr ''invalid_confirmed_reaction_state'')
      else if \<not> list_ex (reaction_key account (text ''provider_id'')) (fst tables)
      then Inl (ValueErr ''confirmed_reaction_mapping_missing'')
      else Inr ([Reaction_Confirmed account (text ''provider_message_id'') (text ''provider_user_id'')
                  (text ''normalized_emoji_code'') \<lparr>cx_state = text ''state'', cx_token = token\<rparr>],
        (on_metadata (reaction_key account (text ''provider_id''))
           (\<lambda>m. dict_update (mp_metadata m)
             [(''provider_message_id'', VStr (text ''provider_message_id'')), (''provider_user_id'', VStr (text ''provider_user_id'')),
              (''normalized_emoji_code'', VStr (text ''normalized_emoji_code'')), (''confirmed_reaction_state'', VStr (text ''state'')),
              (''confirmed_reaction_token'', VStr token)]) (fst tables), snd tables)))"

text \<open>A snapshot confirms a message and its read state, each of which is nested in it.\<close>

lemma size_dict_member: "map_of d k = Some v \<Longrightarrow> size v < Suc (size_list (size_prod (\<lambda>_. 0) size) d)"
  by (induction d) (auto split: if_splits)

lemma size_get_val: "get_val d k = VDict n \<Longrightarrow> size_list (size_prod (\<lambda>_. 0) size) n < size_list (size_prod (\<lambda>_. 0) size) d"
  using size_dict_member [of d k "VDict n"] by (auto simp: get_val_def split: option.splits)

function confirm_state :: "uuid \<Rightarrow> uuid \<Rightarrow> dict \<Rightarrow> mapping_tables \<Rightarrow> (index_update list \<times> mapping_tables) result" where
  "confirm_state account token confirmed tables =
     (if get_val confirmed ''kind'' = VStr ''message_snapshot'' then
        (case (get_val confirmed ''message'', get_val confirmed ''read_state'') of
           (VDict message, VDict read_state) \<Rightarrow>
             bindE (confirm_state account token message tables) (\<lambda>(us, tables1).
             bindE (confirm_state account token read_state tables1) (\<lambda>(vs, tables2). Inr (us @ vs, tables2)))
         | (VDict message, _) \<Rightarrow>
             bindE (confirm_state account token message tables) (\<lambda>_. Inl (ValueErr ''invalid_confirmed_message_snapshot_state''))
         | _ \<Rightarrow> Inl (ValueErr ''invalid_confirmed_message_snapshot_state''))
      else if get_val confirmed ''kind'' = VStr ''message'' then confirm_message account token confirmed tables
      else if get_val confirmed ''kind'' = VStr ''read_state'' then confirm_reads account token confirmed tables
      else if get_val confirmed ''kind'' = VStr ''reaction'' then confirm_reaction account token confirmed tables
      else Inl (ValueErr ''invalid_confirmed_delivery_state''))"
  by pat_completeness auto

termination confirm_state
  by (relation "measure (\<lambda>(_, _, confirmed, _). size_list (size_prod (\<lambda>_. 0) size) confirmed)") (auto dest!: size_get_val [OF sym])

declare confirm_state.simps [simp del]

definition persist_confirmed_delivery_state :: "op_record \<Rightarrow> mapping_tables \<Rightarrow> (index_update list \<times> mapping_tables) result" where
  "persist_confirmed_delivery_state r tables =
     (case transport_member r ''confirmed_delivery_state'' of
        VDict confirmed \<Rightarrow> confirm_state (rec_account_uuid r) (rec_operation_uuid r) confirmed tables
      | _ \<Rightarrow> Inr ([], tables))"

section \<open>Asking\<close>

definition agrees :: "confirmed_message \<Rightarrow> confirmed_message \<Rightarrow> bool" where
  "agrees a b = (a\<lparr>cm_components := None\<rparr> = b\<lparr>cm_components := None\<rparr>)"

definition confirmed_message_entry :: "confirmed_index \<Rightarrow> uuid \<Rightarrow> string \<Rightarrow> mapping_row option \<Rightarrow> confirmed_message option" where
  "confirmed_message_entry ix account pid mapping =
     (case mapping of
        None \<Rightarrow> None
      | Some m \<Rightarrow>
          if \<not> delivered_mapping (mp_metadata m) then None
          else (case stored_message (mp_metadata m) of
                  None \<Rightarrow> None
                | Some v \<Rightarrow> (case ci_messages ix (account, pid) of
                              Some c \<Rightarrow> if agrees c v then Some c else Some v
                            | None \<Rightarrow> Some v)))"

definition confirmed_read_entry :: "confirmed_index \<Rightarrow> uuid \<Rightarrow> string \<Rightarrow> string \<Rightarrow> mapping_row \<Rightarrow> confirmed_read option" where
  "confirmed_read_entry ix account pid reader m =
     (if \<not> delivered_mapping (mp_metadata m) then None
      else case stored_read (mp_metadata m) reader of
             None \<Rightarrow> None
           | Some v \<Rightarrow> (case ci_reads ix (account, pid, reader) of
                         Some c \<Rightarrow> if c = v then Some c else Some v
                       | None \<Rightarrow> Some v))"

definition confirmed_reaction_entry :: "confirmed_index \<Rightarrow> uuid \<Rightarrow> string \<Rightarrow> string \<Rightarrow> string \<Rightarrow> confirmed_reaction option" where
  "confirmed_reaction_entry ix account message user code = ci_reactions ix (account, message, user, code)"

end
