(* ===== verification/Delivery_Results.thy ===== *)
theory Delivery_Results
  imports Confirmed_Delivery
begin

text \<open>
  Workspace answers a submitted record (\<open>accept_result\<close> of \<open>storage.py\<close>): the outcome is bound to
  the exact record, the mappings follow a committed change, and when Workspace knows the
  object under another identifier, the mapping and the records that are not submitted yet
  move to that identifier.
\<close>

section \<open>Records that follow an identifier\<close>

text \<open>The members of a record that hold an identifier of the kind that moves.\<close>

record rekeying =
  rk_kinds :: "string list"
  rk_fields :: "string list"
  rk_lists :: "string list"

definition message_rekeying :: rekeying where
  "message_rekeying =
     \<lparr>rk_kinds = [''message.update'', ''message.delete''], rk_fields = [''message_uuid'', ''reply_to_message_uuid''],
      rk_lists = [''message_uuids'']\<rparr>"

definition topic_rekeying :: rekeying where
  "topic_rekeying =
     \<lparr>rk_kinds = [''topic.upsert'', ''topic.delete''], rk_fields = [''topic_uuid'', ''default_topic_uuid''], rk_lists = []\<rparr>"

definition names_entity :: "rekeying \<Rightarrow> uuid \<Rightarrow> op_record \<Rightarrow> bool" where
  "names_entity k source r =
     (rec_kind r \<in> VStr ` set (rk_kinds k) \<and> py_str (get_val (rec_operation r) ''entity_uuid'') = source)"

definition rekey_list :: "uuid \<Rightarrow> uuid \<Rightarrow> pyval list \<Rightarrow> pyval" where
  "rekey_list source target vs =
     VList (map VStr (first_occurrences (map (\<lambda>v. if py_str v = source then target else py_str v) vs)))"

definition rekey_member :: "rekeying \<Rightarrow> uuid \<Rightarrow> uuid \<Rightarrow> string \<times> pyval \<Rightarrow> string \<times> pyval" where
  "rekey_member k source target p =
     (case p of (name, v) \<Rightarrow>
        (name, if name \<in> set (rk_fields k) \<and> py_str v = source then VStr target
               else case v of
                   VList vs \<Rightarrow> if name \<in> set (rk_lists k) \<and> source \<in> set (map py_str vs) then rekey_list source target vs else v
                 | _ \<Rightarrow> v))"

definition record_payload :: "op_record \<Rightarrow> dict" where
  "record_payload r = (case get_val (rec_operation r) ''payload'' of VDict d \<Rightarrow> d | _ \<Rightarrow> [])"

definition mentions :: "rekeying \<Rightarrow> uuid \<Rightarrow> op_record \<Rightarrow> bool" where
  "mentions k source r =
     (names_entity k source r \<or>
      list_ex (\<lambda>p. snd (rekey_member k source (source @ ''*'') p) \<noteq> snd p) (record_payload r))"

definition rekey_record ::
  "(string \<Rightarrow> string) \<Rightarrow> (string \<Rightarrow> string) \<Rightarrow> rekeying \<Rightarrow> uuid \<Rightarrow> uuid \<Rightarrow> op_record \<Rightarrow> op_record result" where
  "rekey_record nfc sha256 k source target r =
     (let operation = (if names_entity k source r then dict_set ''entity_uuid'' (VStr target) (rec_operation r) else rec_operation r);
          r1 = r\<lparr>rec_operation := dict_set ''payload'' (VDict (map (rekey_member k source target) (record_payload r))) operation\<rparr>
      in bindE (record_digest nfc sha256 r1) (\<lambda>h. Inr (r1\<lparr>rec_sha256 := h\<rparr>)))"

definition follows :: "rekeying \<Rightarrow> uuid \<Rightarrow> uuid \<Rightarrow> bridge_db \<Rightarrow> delivery_row \<Rightarrow> bool" where
  "follows k account source db d =
     (dv_account_uuid d = account \<and> never_submitted d \<and> open_operation db (dv_operation_uuid d) \<and> mentions k source (dv_record d))"

definition store_rekeyed :: "timestamp \<Rightarrow> delivery_row \<Rightarrow> op_record \<Rightarrow> bridge_db \<Rightarrow> bridge_db" where
  "store_rekeyed now d r db =
     (let u = dv_operation_uuid d in
      update_events (\<lambda>ev. source_event ev d \<and> je_prepared ev \<noteq> None)
        (\<lambda>ev. ev\<lparr>je_prepared := map_option (replace_prepared u (Some r)) (je_prepared ev)\<rparr>)
        (on_queue (\<lambda>q. q\<lparr>db_idempotency :=
              (db_idempotency q)(u := map_option (\<lambda>i. i\<lparr>idem_sha256 := rec_sha256 r\<rparr>) (db_idempotency q u))\<rparr>)
          (on_outbox (\<lambda>e. dv_record_uuid e = dv_record_uuid d) (\<lambda>e. e\<lparr>dv_record := r\<rparr>)
            (db\<lparr>bd_idempotency_at := (bd_idempotency_at db)(u \<mapsto> now)\<rparr>))))"

definition rekey_pending_dependents ::
  "(string \<Rightarrow> string) \<Rightarrow> (string \<Rightarrow> string) \<Rightarrow> timestamp \<Rightarrow> rekeying \<Rightarrow> uuid \<Rightarrow> uuid \<Rightarrow> uuid \<Rightarrow> bridge_db \<Rightarrow> bridge_db result" where
  "rekey_pending_dependents nfc sha256 now k account source target db =
     foldE (\<lambda>db' d. bindE (rekey_record nfc sha256 k source target (dv_record d)) (\<lambda>r. Inr (store_rekeyed now d r db')))
       db (filter (follows k account source db) (bd_outbox db))"

section \<open>The identifier Workspace has chosen\<close>

definition operation_object :: "op_record \<Rightarrow> string \<Rightarrow> dict" where
  "operation_object r k = (case get_val (rec_operation r) k of VDict d \<Rightarrow> d | _ \<Rightarrow> [])"

definition entity_kind :: "op_record \<Rightarrow> string option" where
  "entity_kind r =
     (if rec_kind r \<in> {VStr ''message.create'', VStr ''message.update''} then Some ''message''
      else if rec_kind r = VStr ''topic.upsert'' then Some ''topic'' else None)"

definition confirm_target :: "uuid \<Rightarrow> mapping_row \<Rightarrow> mapping_row" where
  "confirm_target target m =
     m\<lparr>mp_workspace_uuid := target, mp_metadata := dict_set ''workspace_target_confirmed'' (VBool True) (mp_metadata m)\<rparr>"

definition keep_alias :: "uuid \<Rightarrow> string \<Rightarrow> uuid \<Rightarrow> string \<Rightarrow> dict \<Rightarrow> mapping_row list \<Rightarrow> mapping_row list" where
  "keep_alias account kind workspace pid meta =
     upsert_alias (\<lambda>m. m\<lparr>mp_provider_id := pid, mp_metadata := meta, mp_deleted := False\<rparr>)
       (new_mapping account kind workspace pid None meta)"

definition redirect_mapping :: "uuid \<Rightarrow> string \<Rightarrow> string \<Rightarrow> uuid \<Rightarrow> uuid \<Rightarrow> mapping_tables \<Rightarrow> mapping_tables result" where
  "redirect_mapping account kind pid workspace target tables =
     (case find (\<lambda>m. provider_key m = (account, kind, pid)) (fst tables) of
        None \<Rightarrow> Inl (ValueErr ''Committed provider event mapping is missing'')
      | Some m \<Rightarrow>
          bindE (guardE (mp_workspace_uuid m \<in> {workspace, target})
                   (ValueErr ''Provider event mapping points to another Workspace UUID'')) (\<lambda>_.
          bindE (guardE (case find (\<lambda>c. mapped account kind target c \<and> \<not> mp_deleted c) (fst tables) of
                     None \<Rightarrow> True | Some c \<Rightarrow> mp_provider_id c = pid)
                   (ValueErr ''Authoritative Workspace UUID belongs to another provider object'')) (\<lambda>_.
          bindE (checked mappings_unique
                   (update_where (\<lambda>m. provider_key m = (account, kind, pid)) (confirm_target target) (fst tables))) (\<lambda>ms.
          Inr (ms, if workspace \<noteq> target then keep_alias account kind workspace pid (mp_metadata m) (snd tables) else snd tables)))))"

definition db_table_pair :: "bridge_db \<Rightarrow> mapping_tables" where
  "db_table_pair db = (db_mappings (bd_queue db), db_aliases (bd_queue db))"

definition with_tables :: "mapping_tables \<Rightarrow> bridge_db \<Rightarrow> bridge_db" where
  "with_tables tables = on_queue (\<lambda>q. q\<lparr>db_mappings := fst tables, db_aliases := snd tables\<rparr>)"

definition reconcile_authoritative_workspace_target ::
  "(string \<Rightarrow> string) \<Rightarrow> (string \<Rightarrow> string) \<Rightarrow> timestamp \<Rightarrow> op_record \<Rightarrow> uuid option \<Rightarrow> bridge_db \<Rightarrow> bridge_db result" where
  "reconcile_authoritative_workspace_target nfc sha256 now r answer db =
     (case (answer, entity_kind r) of
        (Some t, Some kind) \<Rightarrow>
          if rec_origin r \<noteq> ''zulip'' then Inr db
          else
            (case get_val (operation_object r ''provider'') ''entity_id'' of
               VNone \<Rightarrow> Inl (ValueErr ''Provider event mapping has no provider identifier'')
             | pid \<Rightarrow>
                 bindE (parse_uuid t) (\<lambda>target.
                 bindE (item (rec_operation r) ''entity_uuid'') (\<lambda>e.
                 let workspace = py_str e; account = rec_account_uuid r in
                 bindE (redirect_mapping account kind (py_str pid) workspace target (db_table_pair db)) (\<lambda>tables.
                 if workspace = target then Inr (with_tables tables db)
                 else rekey_pending_dependents nfc sha256 now
                        (if kind = ''message'' then message_rekeying else topic_rekeying) account workspace target
                        (with_tables tables db)))))
      | _ \<Rightarrow> Inr db)"

section \<open>Accepting a result\<close>

definition binding :: "op_record \<Rightarrow> uuid \<times> int \<times> uuid \<times> uuid \<times> string \<times> string \<times> int \<times> uuid option" where
  "binding r =
     (rec_operation_uuid r, rec_attempt r, rec_account_uuid r, rec_project_uuid r, rec_origin r, rec_causal_lane r,
      rec_sequence r, rec_predecessor r)"

definition mark_sent :: "timestamp \<Rightarrow> uuid \<Rightarrow> bridge_db \<Rightarrow> bridge_db" where
  "mark_sent now u =
     on_outbox (\<lambda>d. dv_operation_uuid d = u) (\<lambda>d. d\<lparr>dv_sent_at := coalesce (dv_sent_at d) (Some now), dv_state := ''sent''\<rparr>)"

definition settle_operation :: "timestamp \<Rightarrow> result_rec \<Rightarrow> bridge_db \<Rightarrow> bridge_db" where
  "settle_operation now res db =
     (let u = rec_operation_uuid (res_in_reply_to res) in
      on_queue (\<lambda>q. q\<lparr>db_idempotency := (db_idempotency q)(u := map_option
            (\<lambda>i. i\<lparr>idem_outcome := Some (res_outcome res), idem_result_uuid := Some (res_uuid res),
               idem_entity_id := res_entity_id res, idem_revision := res_revision res,
               idem_manual_retry := res_manual_retry_allowed res\<rparr>) (db_idempotency q u))\<rparr>)
        (db\<lparr>bd_idempotency_at := (bd_idempotency_at db)(u \<mapsto> now)\<rparr>))"

text \<open>The same result again, or one that says the same about the target.\<close>

definition repeats :: "idem_row \<Rightarrow> result_rec \<Rightarrow> bool" where
  "repeats i res =
     (idem_outcome i = Some (res_outcome res) \<and>
      (idem_result_uuid i = Some (res_uuid res) \<or>
       idem_entity_id i = res_entity_id res \<and> idem_revision i = res_revision res \<and>
       idem_manual_retry i = res_manual_retry_allowed res))"

definition moved_metadata :: "op_record \<Rightarrow> dict \<Rightarrow> dict \<Rightarrow> dict result" where
  "moved_metadata r payload provider =
     bindE (plan_text payload ''stream_uuid'') (\<lambda>stream.
     bindE (plan_text payload ''topic_uuid'') (\<lambda>topic.
     bindE (plan_text provider ''chat_id'') (\<lambda>chat.
     Inr (text_members
            [(''project_uuid'', VStr (rec_project_uuid r)), (''stream_uuid'', VStr stream), (''topic_uuid'', VStr topic),
             (''chat_key'', VStr chat), (''causal_lane'', VStr (rec_causal_lane r)),
             (''subject'', get_val (operation_object r ''extensions'') ''subject'')]
          @ [(''workspace_delivery_state'', VStr ''committed'')]))))"

definition commit_update :: "op_record \<Rightarrow> string \<Rightarrow> mapping_tables \<Rightarrow> mapping_tables result" where
  "commit_update r pid tables =
     bindE (moved_metadata r (operation_object r ''payload'') (operation_object r ''provider'')) (\<lambda>moved.
     let live = live_messages (rec_account_uuid r) [pid]; f = (\<lambda>m. dict_update (mp_metadata m) moved) in
     Inr (on_metadata live f (fst tables), on_metadata live f (snd tables)))"

definition commit_delete :: "op_record \<Rightarrow> string \<Rightarrow> uuid \<Rightarrow> mapping_tables \<Rightarrow> mapping_tables" where
  "commit_delete r pid workspace tables =
     (update_where (\<lambda>m. mapped (rec_account_uuid r) ''message'' workspace m \<and> \<not> mp_deleted m) (\<lambda>m. m\<lparr>mp_deleted := True\<rparr>)
        (fst tables),
      update_where (\<lambda>m. provider_key m = (rec_account_uuid r, ''message'', pid) \<and> \<not> mp_deleted m)
        (\<lambda>m. m\<lparr>mp_deleted := True\<rparr>) (snd tables))"

definition commit_topic :: "op_record \<Rightarrow> string \<Rightarrow> uuid \<Rightarrow> mapping_tables \<Rightarrow> mapping_tables" where
  "commit_topic r pid workspace tables =
     (update_where (\<lambda>m. provider_key m = (rec_account_uuid r, ''topic'', pid) \<and> mp_workspace_uuid m = workspace \<and> \<not> mp_deleted m)
        (set_delivery_state ''committed'') (fst tables), snd tables)"

definition commit_change :: "reaction_env \<Rightarrow> op_record \<Rightarrow> string option \<Rightarrow> mapping_tables \<Rightarrow> mapping_tables result" where
  "commit_change env r revision tables =
     (if reaction_operation r
      then bindE (commit_reaction_mapping_transition env r (fst tables)) (\<lambda>ms. Inr (ms, snd tables))
      else if rec_kind r \<notin> VStr ` {''message.delete'', ''message.update'', ''message.create'', ''topic.upsert''} then Inr tables
      else
        bindE (plan_text (operation_object r ''provider'') ''entity_id'') (\<lambda>pid.
        bindE (plan_text (rec_operation r) ''entity_uuid'') (\<lambda>workspace.
        if rec_kind r = VStr ''message.delete'' then Inr (commit_delete r pid workspace tables)
        else if rec_kind r = VStr ''message.update'' then commit_update r pid tables
        else if rec_kind r = VStr ''message.create'' then persist_committed_mapping r (Some pid) revision tables
        else Inr (commit_topic r pid workspace tables))))"

definition commit_mappings ::
  "reaction_env \<Rightarrow> op_record \<Rightarrow> result_rec \<Rightarrow> bridge_db \<Rightarrow> (index_update list \<times> bridge_db) result" where
  "commit_mappings env r res db =
     (if res_outcome res \<noteq> ''committed'' \<or> rec_origin r \<noteq> ''zulip'' then Inr ([], db)
      else
        bindE (commit_change env r (res_revision res) (db_table_pair db)) (\<lambda>tables.
        bindE (persist_confirmed_delivery_state r tables) (\<lambda>(us, tables1). Inr (us, with_tables tables1 db))))"

text \<open>The transaction, and then the index: an error leaves both as they were.\<close>

definition accept_in_transaction ::
  "reaction_env \<Rightarrow> (string \<Rightarrow> string) \<Rightarrow> (string \<Rightarrow> string) \<Rightarrow> timestamp \<Rightarrow> result_rec \<Rightarrow> uuid option \<Rightarrow> bridge_db \<Rightarrow>
     (index_update list \<times> bridge_db) result" where
  "accept_in_transaction env nfc sha256 now res answer db =
     (let reply = res_in_reply_to res; u = rec_operation_uuid reply in
      case (find (\<lambda>d. dv_operation_uuid d = u) (bd_outbox db), db_idempotency (bd_queue db) u) of
        (Some d, Some i) \<Rightarrow>
          bindE (guardE (idem_sha256 i = rec_sha256 reply) (ValueErr ''Result operation digest mismatch'')) (\<lambda>_.
          bindE (guardE (binding reply = binding (dv_record d)) (ValueErr ''Result operation binding mismatch'')) (\<lambda>_.
          bindE (guardE (rec_uuid reply = rec_uuid (dv_record d)) (ValueErr ''Result record binding mismatch'')) (\<lambda>_.
          if idem_outcome i \<noteq> None
          then (if repeats i res
                then bindE (reconcile_authoritative_workspace_target nfc sha256 now (dv_record d) answer (mark_sent now u db))
                       (\<lambda>db1. Inr ([], db1))
                else Inl (ValueErr ''Stale result cannot replace terminal outcome''))
          else
            bindE (commit_mappings env (dv_record d) res (mark_sent now u (settle_operation now res db))) (\<lambda>(us, db1).
            bindE (reconcile_authoritative_workspace_target nfc sha256 now (dv_record d) answer db1) (\<lambda>db2. Inr (us, db2))))))
      | _ \<Rightarrow> Inl (ValueErr ''Result does not match a known operation''))"

definition accept_result ::
  "reaction_env \<Rightarrow> (string \<Rightarrow> string) \<Rightarrow> (string \<Rightarrow> string) \<Rightarrow> timestamp \<Rightarrow> result_rec \<Rightarrow> uuid option \<Rightarrow>
     confirmed_index \<times> bridge_db \<Rightarrow> unit result \<times> confirmed_index \<times> bridge_db" where
  "accept_result env nfc sha256 now res answer state =
     (case accept_in_transaction env nfc sha256 now res answer (snd state) of
        Inl e \<Rightarrow> (Inl e, state)
      | Inr (us, db) \<Rightarrow> (Inr (), fold apply_update us (fst state), db))"

end
