(* ===== verification/Delivery_Flush.thy ===== *)
theory Delivery_Flush
  imports Delivery_Results Event_Processing
begin

text \<open>
  The submitter of the service (\<open>service.py\<close>): ready records are marked, adapted to commands and
  sent in one request; a request that Workspace rejects is halved until the record at fault is
  alone; every answer is accepted; an error releases what was marked. The data plane is the
  argument \<open>de_api\<close>, a function of the commands and of a state \<open>'w\<close> of the outside world.
  A flush happens at one point in time: \<open>de_now\<close> is the clock of the database, \<open>de_tick\<close> the
  monotonic clock. \<open>command_payload\<close> never returns \<open>None\<close>, so the list of records that need no
  request stays empty.
\<close>

section \<open>The outside\<close>

text \<open>A response, a permanent rejection of the request, a transport error or a retryable status
  with the delay that the server asks for, and every other exception.\<close>

datatype api_reply =
    Applied "dict list"
  | Event_Rejected int
  | Retryable "timestamp option"
  | Failed pyerror

datatype flush_error =
    Retry_Later "timestamp option"
  | Raised pyerror
  | Not_Quarantined

record 'w delivery_env =
  de_now :: timestamp
  de_tick :: timestamp
  de_reactions :: reaction_env
  de_nfc :: "string \<Rightarrow> string"
  de_sha256 :: "string \<Rightarrow> string"
  de_uuid5 :: "string \<Rightarrow> uuid"
  de_uuid4 :: "op_record \<Rightarrow> uuid"
  de_pick :: "delivery_row list \<Rightarrow> delivery_row"
  de_uniform :: "timestamp \<Rightarrow> timestamp \<Rightarrow> timestamp"
  de_batch :: int
  de_api :: "provider_command list \<Rightarrow> 'w \<Rightarrow> api_reply \<times> 'w"

record 'w delivery_run =
  dr_index :: confirmed_index
  dr_db :: bridge_db
  dr_world :: 'w
  dr_attempts :: nat
  dr_retry_after :: timestamp
  dr_last_quantum :: timestamp
  dr_stalled_since :: "timestamp option"
  dr_stall_reported :: bool

text \<open>Every store method is a transaction of its own, so an exception keeps what was finished before it.\<close>

type_synonym ('a, 'w) action = "'w delivery_run \<Rightarrow> (flush_error + 'a) \<times> 'w delivery_run"

definition finished :: "'a \<Rightarrow> ('a, 'w) action" where
  "finished x run = (Inr x, run)"

definition andthen :: "('a, 'w) action \<Rightarrow> ('a \<Rightarrow> ('b, 'w) action) \<Rightarrow> ('b, 'w) action" where
  "andthen f g run = (case f run of (Inl e, run1) \<Rightarrow> (Inl e, run1) | (Inr x, run1) \<Rightarrow> g x run1)"

definition lift :: "'a result \<Rightarrow> ('a, 'w) action" where
  "lift m run = (case m of Inl e \<Rightarrow> Inl (Raised e) | Inr x \<Rightarrow> Inr x, run)"

definition on_db :: "(bridge_db \<Rightarrow> bridge_db) \<Rightarrow> 'w delivery_run \<Rightarrow> 'w delivery_run" where
  "on_db f run = run\<lparr>dr_db := f (dr_db run)\<rparr>"

section \<open>Requests\<close>

definition apply_commands :: "'w delivery_env \<Rightarrow> provider_command list \<Rightarrow> (api_reply, 'w) action" where
  "apply_commands env cs run =
     (if cs = [] \<or> length cs > 500 then (Inr (Failed (ValueErr ''Provider command batch size is invalid'')), run)
      else case de_api env cs (dr_world run) of (reply, w) \<Rightarrow> (Inr reply, run\<lparr>dr_world := w\<rparr>))"

definition accept_record :: "'w delivery_env \<Rightarrow> op_record \<Rightarrow> dict \<Rightarrow> (unit, 'w) action" where
  "accept_record env r answer run =
     (let target = (case get_val answer ''target_uuid'' of VNone \<Rightarrow> None | v \<Rightarrow> Some (py_str v));
          commit = Some \<lparr>tc_entity_id = None, tc_revision = None\<rparr>;
          res = result_record (de_now env) (de_uuid4 env r) r ''committed'' commit None
      in case accept_result (de_reactions env) (de_nfc env) (de_sha256 env) (de_now env) res target (dr_index run, dr_db run) of
           (m, index, db) \<Rightarrow> (fst (lift m run), run\<lparr>dr_index := index, dr_db := db\<rparr>))"

fun accept_records :: "'w delivery_env \<Rightarrow> (op_record \<times> dict) list \<Rightarrow> (unit, 'w) action" where
  "accept_records env [] = finished ()"
| "accept_records env ((r, answer) # rs) = andthen (accept_record env r answer) (\<lambda>_. accept_records env rs)"

text \<open>The response has to answer the commands in their order, all of them applied.\<close>

definition check_response :: "provider_command list \<Rightarrow> dict list \<Rightarrow> unit result" where
  "check_response cs results =
     bindE (mapE (\<lambda>r. bindE (item r ''provider_event_key'') (\<lambda>k. Inr (py_str k))) results) (\<lambda>actual.
     bindE (guardE (actual = map pc_key cs) (ValueErr ''Provider event response does not match request order'')) (\<lambda>_.
     foldE (\<lambda>_ r. bindE (item r ''status'') (\<lambda>s.
       guardE (s = VStr ''applied'') (ValueErr ''Provider event batch was not applied atomically''))) () results))"

definition reject_record :: "'w delivery_env \<Rightarrow> op_record \<Rightarrow> int \<Rightarrow> (nat, 'w) action" where
  "reject_record env r status run =
     (case reject_provider_event_submission (de_now env) (rec_uuid r) (''provider_api_http_'' @ py_str (VInt status)) (dr_db run) of
        (False, db) \<Rightarrow> (Inl Not_Quarantined, run\<lparr>dr_db := db\<rparr>)
      | (True, db) \<Rightarrow>
          (Inr 0, run\<lparr>dr_db := on_queue (mark_health ''provider_api'' ''degraded'' (Some ''provider_event_rejected'')) db\<rparr>))"

text \<open>\<open>between\<close> runs before each half of a rejected request.\<close>

function apply_records ::
  "'w delivery_env \<Rightarrow> (unit, 'w) action \<Rightarrow> (op_record \<times> provider_command) list \<Rightarrow> (nat, 'w) action" where
  "apply_records env between ers =
     andthen (apply_commands env (map snd ers)) (\<lambda>reply.
       case reply of
         Retryable delay \<Rightarrow> Pair (Inl (Retry_Later delay))
       | Failed e \<Rightarrow> lift (Inl e)
       | Applied results \<Rightarrow>
           andthen (lift (check_response (map snd ers) results)) (\<lambda>_.
           andthen (accept_records env (zip (map fst ers) results)) (\<lambda>_. finished (length ers)))
       | Event_Rejected status \<Rightarrow>
           (if length ers > 1 then
              let middle = length ers div 2 in
              andthen between (\<lambda>_.
              andthen (apply_records env between (take middle ers)) (\<lambda>m.
              andthen between (\<lambda>_.
              andthen (apply_records env between (drop middle ers)) (\<lambda>n. finished (m + n)))))
            else reject_record env (fst (hd ers)) status))"
  by pat_completeness auto

termination apply_records
  by (relation "measure (\<lambda>(env, between, ers). length ers)") auto

declare apply_records.simps [simp del]

section \<open>A flush\<close>

text \<open>The records and their commands, and the identifiers that were marked, also when an adaptation raises.\<close>

fun submit_records ::
  "'w delivery_env \<Rightarrow> op_record list \<Rightarrow> bridge_db \<Rightarrow>
     (op_record \<times> provider_command) list result \<times> uuid list \<times> bridge_db" where
  "submit_records env [] db = (Inr [], [], db)"
| "submit_records env (r # rs) db =
     (if \<not> account_is_active (rec_account_uuid r) (bd_queue db) then submit_records env rs db
      else case mark_workspace_delivery_submitting (de_now env) (rec_uuid r) db of
             (False, db1) \<Rightarrow> submit_records env rs db1
           | (True, db1) \<Rightarrow>
               (case command_payload (de_uuid5 env) (de_sha256 env) (bd_queue db1) (record_dict r) of
                  Inl e \<Rightarrow> (Inl e, [rec_uuid r], db1)
                | Inr c \<Rightarrow>
                    (case submit_records env rs db1 of
                       (m, us, db2) \<Rightarrow> (bindE m (\<lambda>ers. Inr ((r, c) # ers)), rec_uuid r # us, db2))))"

definition PROVIDER_DELIVERY_RETRY_BASE :: timestamp where
  "PROVIDER_DELIVERY_RETRY_BASE = seconds 1"

definition PROVIDER_DELIVERY_RETRY_CAP :: timestamp where
  "PROVIDER_DELIVERY_RETRY_CAP = seconds 30"

definition PROVIDER_DELIVERY_RETRY_AFTER_CAP :: timestamp where
  "PROVIDER_DELIVERY_RETRY_AFTER_CAP = seconds 300"

definition defer_provider_delivery :: "'w delivery_env \<Rightarrow> flush_error \<Rightarrow> 'w delivery_run \<Rightarrow> 'w delivery_run" where
  "defer_provider_delivery env e run =
     (case e of
        Retry_Later asked \<Rightarrow>
          (let attempts = dr_attempts run + 1;
               ceiling = min PROVIDER_DELIVERY_RETRY_CAP (PROVIDER_DELIVERY_RETRY_BASE * 2 ^ min (attempts - 1) 30);
               delay = de_uniform env (ceiling div 2) ceiling;
               delay' = (case asked of None \<Rightarrow> delay | Some t \<Rightarrow> max delay (min t PROVIDER_DELIVERY_RETRY_AFTER_CAP))
           in run\<lparr>dr_attempts := attempts, dr_retry_after := max (dr_retry_after run) (de_tick env + delay')\<rparr>)
      | _ \<Rightarrow> run)"

definition clear_provider_delivery_retry :: "'w delivery_run \<Rightarrow> 'w delivery_run" where
  "clear_provider_delivery_retry run = run\<lparr>dr_attempts := 0, dr_retry_after := 0\<rparr>"

definition flush_locked ::
  "'w delivery_env \<Rightarrow> (unit, 'w) action \<Rightarrow> bool \<Rightarrow> int \<Rightarrow> int \<Rightarrow> int \<Rightarrow> (nat, 'w) action" where
  "flush_locked env between defer_failure lo hi limit run =
     (case pending_workspace_deliveries (de_now env) (de_pick env) lo hi limit (dr_db run) of
        Inl e \<Rightarrow> (Inl (Raised e), run)
      | Inr (rs, db1) \<Rightarrow>
          (case submit_records env rs db1 of
             (m, us, db2) \<Rightarrow>
               let run2 = run\<lparr>dr_db := db2\<rparr>; release = on_db (release_provider_event_submissions (de_now env) us)
               in case andthen (lift m) (\<lambda>ers. if ers = [] then finished 0 else apply_records env between ers) run2 of
                    (Inl e, run3) \<Rightarrow>
                      (Inl e, if defer_failure then defer_provider_delivery env e (release run3) else release run3)
                  | (Inr n, run3) \<Rightarrow>
                      (case finalize_ready_provider_events (de_nfc env) (de_sha256 env) (de_now env) (dr_db run3) of
                         Inl e \<Rightarrow> (Inl (Raised e), run3)
                       | Inr (_, db4) \<Rightarrow> (Inr n, clear_provider_delivery_retry (run3\<lparr>dr_db := db4\<rparr>)))))"

section \<open>Live records before history\<close>

definition LIVE_DELIVERY_BATCH_SIZE :: int where
  "LIVE_DELIVERY_BATCH_SIZE = 20"

definition HISTORY_DELIVERY_BATCH_SIZE :: int where
  "HISTORY_DELIVERY_BATCH_SIZE = 20"

definition HISTORY_LIVE_DELIVERY_BATCH_SIZE :: int where
  "HISTORY_LIVE_DELIVERY_BATCH_SIZE = 10"

definition live_delivery_batch_size :: "'w delivery_env \<Rightarrow> int" where
  "live_delivery_batch_size env = min LIVE_DELIVERY_BATCH_SIZE (max 1 (de_batch env))"

definition history_delivery_batch_size :: "'w delivery_env \<Rightarrow> bool \<Rightarrow> int" where
  "history_delivery_batch_size env live_pending =
     min (if live_pending then HISTORY_LIVE_DELIVERY_BATCH_SIZE else HISTORY_DELIVERY_BATCH_SIZE) (max 1 (de_batch env))"

definition ready_live_workspace_delivery_pending :: "'w delivery_env \<Rightarrow> (bool, 'w) action" where
  "ready_live_workspace_delivery_pending env run =
     lift (has_pending_workspace_deliveries (de_now env) 0 0 (dr_db run)) run"

definition live_workspace_delivery_pending :: "'w delivery_env \<Rightarrow> (bool, 'w) action" where
  "live_workspace_delivery_pending env run =
     (if has_pending_provider_events (de_now env) (dr_db run) then (Inr True, run)
      else ready_live_workspace_delivery_pending env run)"

definition prioritize_live :: "'w delivery_env \<Rightarrow> (unit, 'w) action" where
  "prioritize_live env =
     andthen (ready_live_workspace_delivery_pending env) (\<lambda>ready.
       if ready
       then andthen (flush_locked env (finished ()) False 0 0 (live_delivery_batch_size env)) (\<lambda>_. finished ())
       else finished ())"

definition provider_delivery_delay :: "'w delivery_env \<Rightarrow> 'w delivery_run \<Rightarrow> timestamp" where
  "provider_delivery_delay env run = max 0 (dr_retry_after run - de_tick env)"

definition flush_provider_events :: "'w delivery_env \<Rightarrow> int \<Rightarrow> int \<Rightarrow> int \<Rightarrow> (nat, 'w) action" where
  "flush_provider_events env lo hi limit run =
     (if provider_delivery_delay env run > 0 then (Inr 0, run)
      else flush_locked env (finished ()) True lo hi limit run)"

definition HISTORY_QUANTUM_INTERVAL :: timestamp where
  "HISTORY_QUANTUM_INTERVAL = seconds 1"

definition claim_history_quantum :: "'w delivery_env \<Rightarrow> (bool, 'w) action" where
  "claim_history_quantum env run =
     (if de_tick env - dr_last_quantum run < HISTORY_QUANTUM_INTERVAL then (Inr False, run)
      else (Inr True, run\<lparr>dr_last_quantum := de_tick env\<rparr>))"

definition flush_history_events :: "'w delivery_env \<Rightarrow> (nat \<times> int \<times> bool, 'w) action" where
  "flush_history_events env =
     andthen (live_workspace_delivery_pending env) (\<lambda>live.
     let size = history_delivery_batch_size env live in
     andthen (if live then claim_history_quantum env else finished True) (\<lambda>permitted run.
       if \<not> permitted then (Inr (0, size, False), run)
       else if provider_delivery_delay env run > 0 then (Inr (0, size, True), run)
       else andthen (flush_locked env (prioritize_live env) True 2 2 size) (\<lambda>n. finished (n, size, True)) run))"

end
