(* ===== verification/Delivery_Recovery.thy ===== *)
theory Delivery_Recovery
  imports Delivery_Flush
begin

text \<open>
  Deliveries whose assignment has changed (\<open>reset_stale_workspace_deliveries\<close>,
  \<open>_recover_provider_event_assignment_change\<close> and \<open>finalize_provider_event_assignment_changed\<close> of
  \<open>storage.py\<close>): records that were never submitted are withdrawn and their event is converted
  again; a record that Workspace may already have is moved to the current assignment when the
  projection it was made for is still the same, and otherwise kept as ambiguous. A query that
  takes one of several assignments takes the first row of the table. The members of the
  projections that are compared are texts, booleans or null.
\<close>

section \<open>An event whose target is gone\<close>

definition event_failed :: "event_row \<Rightarrow> bool" where
  "event_failed ev = (je_state ev = ''invalid'' \<and> je_reason ev = Some ''workspace_delivery_rejected'')"

definition recoverable_event :: "event_row \<Rightarrow> bool" where
  "recoverable_event ev = (je_state ev \<in> {''pending'', ''delivering''} \<or> event_failed ev)"

definition prepared_list :: "event_row \<Rightarrow> dict list" where
  "prepared_list ev = (case je_prepared ev of Some (VList vs) \<Rightarrow> List.map_filter optional_dict vs | _ \<Rightarrow> [])"

definition prepared_provider :: "dict \<Rightarrow> dict option" where
  "prepared_provider r = Option.bind (optional_dict (get_val r ''operation'')) (\<lambda>oper. optional_dict (get_val oper ''provider''))"

definition str_or_none :: "pyval \<Rightarrow> string option" where
  "str_or_none v = (case v of VNone \<Rightarrow> None | _ \<Rightarrow> Some (py_str v))"

definition prepared_chat :: "dict \<Rightarrow> string option" where
  "prepared_chat r = Option.bind (prepared_provider r) (\<lambda>p. str_or_none (get_val p ''chat_id''))"

text \<open>The operation that creates a message.\<close>

definition prepared_create :: "dict \<Rightarrow> uuid option" where
  "prepared_create r =
     (case (get_val r ''operation'', get_val r ''operation_uuid'') of
        (VDict oper, VStr u) \<Rightarrow> if get_val oper ''kind'' = VStr ''message.create'' then Some u else None
      | _ \<Rightarrow> None)"

definition reserved_message :: "uuid \<Rightarrow> string \<Rightarrow> uuid \<Rightarrow> string \<Rightarrow> mapping_row \<Rightarrow> bool" where
  "reserved_message account pid workspace project m =
     (mp_account_uuid m = account \<and> mp_kind m = ''message'' \<and> mp_provider_id m = pid \<and> mp_workspace_uuid m = workspace \<and>
      meta_text m ''project_uuid'' = Some project \<and> meta_text m ''workspace_delivery_state'' = Some ''pending'')"

text \<open>The message that such an operation has reserved is given up, unless the operation is in the outbox.\<close>

definition abandon_create :: "uuid \<Rightarrow> bridge_db \<Rightarrow> dict \<Rightarrow> bridge_db result" where
  "abandon_create account db r =
     (case (prepared_create r, Option.bind (prepared_provider r) (\<lambda>p. str_or_none (get_val p ''entity_id''))) of
        (Some u, Some pid) \<Rightarrow>
          bindE (bindE (object_item r ''operation'') (\<lambda>oper. item oper ''entity_uuid'')) (\<lambda>workspace.
          bindE (item r ''project_uuid'') (\<lambda>project.
          Inr (if list_ex (\<lambda>d. dv_operation_uuid d = u) (bd_outbox db) then db
               else update_mappings (reserved_message account pid (py_str workspace) (py_str project))
                      (\<lambda>m. m\<lparr>mp_deleted := True\<rparr>) db)))
      | _ \<Rightarrow> Inr db)"

definition selected_chat :: "uuid \<Rightarrow> string set \<Rightarrow> desired_row \<Rightarrow> bool" where
  "selected_chat account chats a =
     (ds_type a = ''external_chat_assignment'' \<and> \<not> ds_deleted a \<and> body_text a ''external_account_uuid'' = Some account \<and>
      (case body_chat_key a of None \<Rightarrow> False | Some c \<Rightarrow> c \<in> chats) \<and> selected_default a)"

definition finish_changed :: "timestamp \<Rightarrow> bool \<Rightarrow> event_row \<Rightarrow> event_row" where
  "finish_changed now again ev =
     ev\<lparr>je_state := (if again then ''pending'' else ''processed''), je_available_at := (if again then now else je_available_at ev),
        je_reason := Some ''assignment_changed'', je_prepared := None\<rparr>"

definition recover_provider_event_assignment_change ::
  "timestamp \<Rightarrow> bool option \<Rightarrow> uuid \<Rightarrow> string \<Rightarrow> int \<Rightarrow> bridge_db \<Rightarrow> (bool \<times> bridge_db) result" where
  "recover_provider_event_assignment_change now selected account queue_id event_id db =
     (let own = same_event account queue_id event_id in
      case find own (db_events (bd_queue db)) of
        None \<Rightarrow> Inr (False, db)
      | Some ev \<Rightarrow>
          if \<not> recoverable_event ev then Inr (False, db)
          else
            let prepared = prepared_list ev;
                chats = set (List.map_filter prepared_chat prepared);
                creates = List.map_filter prepared_create prepared;
                chosen = (case selected of Some b \<Rightarrow> b | None \<Rightarrow> list_ex (selected_chat account chats) (db_desired (bd_queue db)));
                sent = list_ex (\<lambda>d. source_event ev d \<and> dv_operation_uuid d \<in> set creates) (bd_outbox db);
                again = (chosen \<and> creates \<noteq> [] \<and> \<not> sent)
            in bindE (foldE (abandon_create account) db prepared) (\<lambda>db1.
                 Inr (again, update_events (\<lambda>e. own e \<and> recoverable_event e) (finish_changed now again) db1)))"

text \<open>Operations whose records are withdrawn are forgotten when \<open>p\<close> holds of their outcome.\<close>

definition forget_operations :: "(string option \<Rightarrow> bool) \<Rightarrow> uuid list \<Rightarrow> bridge_db \<Rightarrow> bridge_db" where
  "forget_operations p us db =
     (let hit = (\<lambda>u. u \<in> set us \<and> (case db_idempotency (bd_queue db) u of None \<Rightarrow> False | Some i \<Rightarrow> p (idem_outcome i))) in
      on_queue (\<lambda>q. q\<lparr>db_idempotency := (\<lambda>u. if hit u then None else db_idempotency q u)\<rparr>)
        (db\<lparr>bd_idempotency_at := (\<lambda>u. if hit u then None else bd_idempotency_at db u)\<rparr>))"

definition finalize_provider_event_assignment_changed ::
  "timestamp \<Rightarrow> uuid \<Rightarrow> string \<Rightarrow> int \<Rightarrow> bridge_db \<Rightarrow> (bool \<times> bridge_db) result" where
  "finalize_provider_event_assignment_changed now account queue_id event_id db =
     (let gone = (\<lambda>d. dv_account_uuid d = account \<and> dv_queue_id d = Some queue_id \<and> dv_event_id d = Some event_id \<and> waiting_record d)
      in recover_provider_event_assignment_change now None account queue_id event_id
           (forget_operations (\<lambda>x. x = None) (map dv_operation_uuid (filter gone (bd_outbox db)))
             (db\<lparr>bd_outbox := filter (\<lambda>d. \<not> gone d) (bd_outbox db)\<rparr>)))"

section \<open>Stale records\<close>

definition stale_delivery :: "queue_db \<Rightarrow> delivery_row \<Rightarrow> bool" where
  "stale_delivery q d =
     (dv_sent_at d = None \<and>
      (if dv_assignment_uuid d \<noteq> None then \<not> list_ex (current_assignment d) (db_desired q)
       else \<not> list_ex (current_account q d) (db_desired q)))"

text \<open>Workspace may have the record.\<close>

definition maybe_submitted :: "delivery_row \<Rightarrow> bool" where
  "maybe_submitted d =
     (dv_state d \<in> {''submitting'', ''ambiguous'', ''awaiting_result''} \<or> dv_state d = ''pending'' \<and> dv_attempts d > 0)"

definition delivery_provider :: "delivery_row \<Rightarrow> dict result" where
  "delivery_provider d = object_item (rec_operation (dv_record d)) ''provider''"

definition provider_chat :: "dict \<Rightarrow> string" where
  "provider_chat p = py_str (get_default p ''chat_id'' (VStr []))"

definition chat_assignment :: "queue_db \<Rightarrow> uuid \<Rightarrow> string \<Rightarrow> desired_row option" where
  "chat_assignment q account chat = find (selected_chat account {chat}) (db_desired q)"

definition same_project_assignment :: "queue_db \<Rightarrow> delivery_row \<Rightarrow> string \<Rightarrow> desired_row option" where
  "same_project_assignment q d chat =
     find (\<lambda>a. selected_chat (dv_account_uuid d) {chat} a \<and> sql_eq (body_text a ''project_id'') (dv_assignment_project d))
       (db_desired q)"

definition kind_in :: "delivery_row \<Rightarrow> string list \<Rightarrow> bool" where
  "kind_in d ks = (rec_kind (dv_record d) \<in> VStr ` set ks)"

definition delivery_stream :: "delivery_row \<Rightarrow> pyval" where
  "delivery_stream d =
     (if kind_in d [''stream.upsert'', ''stream.delete''] then operation_member d ''entity_uuid'' else dv_payload d ''stream_uuid'')"

definition delivery_topic :: "delivery_row \<Rightarrow> pyval" where
  "delivery_topic d =
     (if kind_in d [''topic.upsert'', ''topic.delete''] then operation_member d ''entity_uuid'' else dv_payload d ''topic_uuid'')"

definition sorted_texts :: "pyval \<Rightarrow> string list option" where
  "sorted_texts v = (case v of VList vs \<Rightarrow> Some (sort (map py_str vs)) | _ \<Rightarrow> None)"

definition same_texts :: "pyval \<Rightarrow> pyval \<Rightarrow> bool" where
  "same_texts a b = (sorted_texts a \<noteq> None \<and> sorted_texts a = sorted_texts b)"

definition same_stream :: "delivery_row \<Rightarrow> dict \<Rightarrow> mapping_row \<Rightarrow> bool" where
  "same_stream d provider m =
     (let has = (\<lambda>k k'. dv_payload d k = get_val (mp_metadata m) k') in
      py_str (get_val provider ''entity_id'') = mp_provider_id m \<and> has ''name'' ''name'' \<and> has ''description'' ''description'' \<and>
      has ''private'' ''private'' \<and> has ''chat_kind'' ''chat_type'' \<and>
      same_texts (dv_payload d ''participant_uuids'') (get_val (mp_metadata m) ''participants'') \<and>
      str_or_none (dv_payload d ''default_topic_uuid'') = str_or_none (get_val (mp_metadata m) ''default_topic_uuid''))"

definition stream_compatible :: "queue_db \<Rightarrow> delivery_row \<Rightarrow> dict \<Rightarrow> desired_row \<Rightarrow> bool" where
  "stream_compatible q d provider a =
     (delivery_stream d = VNone \<or>
      (case find (\<lambda>m. provider_key m = (dv_account_uuid d, ''stream'', provider_chat provider) \<and>
              mp_workspace_uuid m = py_str (delivery_stream d) \<and>
              sql_eq (meta_text m ''project_uuid'') (body_text a ''project_id'') \<and> \<not> mp_deleted m) (db_mappings q) of
         None \<Rightarrow> False
       | Some m \<Rightarrow> rec_kind (dv_record d) = VStr ''stream.upsert'' \<longrightarrow> same_stream d provider m))"

definition topic_compatible :: "queue_db \<Rightarrow> delivery_row \<Rightarrow> dict \<Rightarrow> bool" where
  "topic_compatible q d provider =
     (delivery_topic d = VNone \<or>
      (case find (\<lambda>m. mapped (dv_account_uuid d) ''topic'' (py_str (delivery_topic d)) m \<and>
              meta_text m ''chat_key'' = Some (provider_chat provider) \<and>
              (delivery_stream d = VNone \<or> meta_text m ''stream_uuid'' = Some (py_str (delivery_stream d))) \<and>
              \<not> mp_deleted m) (db_mappings q) of
         None \<Rightarrow> False
       | Some m \<Rightarrow> rec_kind (dv_record d) = VStr ''topic.upsert'' \<longrightarrow>
           py_str (get_val provider ''entity_id'') = mp_provider_id m \<and> dv_payload d ''name'' = get_val (mp_metadata m) ''name''))"

datatype stale_fate =
    Withdrawn
  | Rebound int "desired_row option"
  | Event_Unsafe "uuid \<times> string \<times> int"
  | Left_Ambiguous

definition unsafe_fate :: "delivery_row \<Rightarrow> stale_fate" where
  "unsafe_fate d =
     (case (dv_queue_id d, dv_event_id d) of
        (Some queue_id, Some event_id) \<Rightarrow> Event_Unsafe (dv_account_uuid d, queue_id, event_id)
      | _ \<Rightarrow> Left_Ambiguous)"

definition stale_fate :: "queue_db \<Rightarrow> delivery_row \<Rightarrow> stale_fate result" where
  "stale_fate q d =
     (if \<not> maybe_submitted d then Inr Withdrawn
      else bindE (delivery_provider d) (\<lambda>provider.
        Inr (case live_resource q ''external_account'' (Some (dv_account_uuid d)) of
               None \<Rightarrow> unsafe_fate d
             | Some account \<Rightarrow>
                 if dv_assignment_uuid d = None then Rebound (ds_generation account) None
                 else (case same_project_assignment q d (provider_chat provider) of
                         None \<Rightarrow> unsafe_fate d
                       | Some a \<Rightarrow>
                           if stream_compatible q d provider a \<and> topic_compatible q d provider
                           then Rebound (ds_generation account) (Some a) else unsafe_fate d))))"

definition apply_fate :: "timestamp \<Rightarrow> uuid \<Rightarrow> stale_fate \<Rightarrow> bridge_db \<Rightarrow> bridge_db" where
  "apply_fate now u fate =
     (case fate of
        Rebound generation a \<Rightarrow>
          on_outbox (\<lambda>d. dv_record_uuid d = u \<and> dv_sent_at d = None)
            (\<lambda>d. d\<lparr>dv_account_generation := Some generation, dv_assignment_uuid := map_option ds_uuid a,
                dv_assignment_generation := map_option ds_generation a,
                dv_assignment_project := Option.bind a (\<lambda>r. body_text r ''project_id''), dv_next_at := now\<rparr>)
      | Left_Ambiguous \<Rightarrow>
          on_outbox (\<lambda>d. dv_record_uuid d = u \<and> dv_sent_at d = None)
            (\<lambda>d. d\<lparr>dv_state := (if dv_state d = ''submitting'' then ''submitting'' else ''ambiguous''),
                dv_error_code := Some ''workspace_delivery_assignment_ambiguous''\<rparr>)
      | _ \<Rightarrow> id)"

definition withdrawn :: "queue_db \<Rightarrow> delivery_row \<Rightarrow> bool" where
  "withdrawn q d = (stale_delivery q d \<and> (never_submitted d \<or> dv_state d = ''rejected''))"

text \<open>A sibling may already be in Workspace, so the event is not converted again.\<close>

definition quarantine_ambiguous_assignment :: "timestamp \<Rightarrow> uuid \<times> string \<times> int \<Rightarrow> bridge_db \<Rightarrow> bridge_db result" where
  "quarantine_ambiguous_assignment now k db =
     (case k of (account, queue_id, event_id) \<Rightarrow>
        bindE (recover_provider_event_assignment_change now (Some False) account queue_id event_id db) (\<lambda>(_, db1).
        Inr (update_events (same_event account queue_id event_id)
               (\<lambda>ev. ev\<lparr>je_state := ''invalid'', je_reason := Some ''workspace_delivery_assignment_ambiguous'', je_prepared := None\<rparr>)
               db1)))"

text \<open>The event of a withdrawn record: prepared records of the same project are enqueued again.\<close>

definition recover_event :: "timestamp \<Rightarrow> delivery_row \<Rightarrow> uuid \<times> string \<times> int \<Rightarrow> bridge_db \<Rightarrow> bridge_db result" where
  "recover_event now d k db =
     (case k of (account, queue_id, event_id) \<Rightarrow>
        bindE (delivery_provider d) (\<lambda>provider.
        let current = chat_assignment (bd_queue db) account (provider_chat provider) in
        if current \<noteq> None \<and> Option.bind current (\<lambda>a. body_text a ''project_id'') = dv_assignment_project d
        then Inr (update_events (\<lambda>ev. same_event account queue_id event_id ev \<and> (je_state ev = ''delivering'' \<or> event_failed ev))
               (\<lambda>ev. ev\<lparr>je_state := ''pending'', je_available_at := now, je_reason := Some ''assignment_changed''\<rparr>) db)
        else bindE (recover_provider_event_assignment_change now (Some (current \<noteq> None)) account queue_id event_id db) (\<lambda>(_, db1).
          Inr db1)))"

definition event_key :: "delivery_row \<Rightarrow> (uuid \<times> string \<times> int) option" where
  "event_key d =
     (case (dv_queue_id d, dv_event_id d) of
        (Some queue_id, Some event_id) \<Rightarrow> Some (dv_account_uuid d, queue_id, event_id) | _ \<Rightarrow> None)"

text \<open>Each event once, by its first withdrawn record.\<close>

fun recover_events ::
  "timestamp \<Rightarrow> (uuid \<times> string \<times> int) list \<Rightarrow> (uuid \<times> string \<times> int) list \<Rightarrow> delivery_row list \<Rightarrow> bridge_db \<Rightarrow>
     bridge_db result" where
  "recover_events now unsafe seen [] db = Inr db"
| "recover_events now unsafe seen (d # ds) db =
     (case event_key d of
        None \<Rightarrow> recover_events now unsafe seen ds db
      | Some k \<Rightarrow>
          if k \<in> set seen then recover_events now unsafe seen ds db
          else bindE (if k \<in> set unsafe then quarantine_ambiguous_assignment now k db else recover_event now d k db)
                 (recover_events now unsafe (k # seen) ds))"

definition unsafe_keys :: "stale_fate list \<Rightarrow> (uuid \<times> string \<times> int) list" where
  "unsafe_keys fates = remdups (List.map_filter (\<lambda>f. case f of Event_Unsafe k \<Rightarrow> Some k | _ \<Rightarrow> None) fates)"

text \<open>The set of unsafe events that are left is walked in an unspecified order; they are different rows.\<close>

definition reset_stale_workspace_deliveries :: "timestamp \<Rightarrow> bridge_db \<Rightarrow> (nat \<times> bridge_db) result" where
  "reset_stale_workspace_deliveries now db =
     (let locked = sort_key dv_record_uuid (filter (stale_delivery (bd_queue db)) (bd_outbox db)) in
      bindE (mapE (stale_fate (bd_queue db)) locked) (\<lambda>fates.
      let db1 = fold (\<lambda>(d, f). apply_fate now (dv_record_uuid d) f) (zip locked fates) db;
          gone = filter (withdrawn (bd_queue db1)) (bd_outbox db1);
          db2 = forget_operations (\<lambda>x. x \<in> {None, Some ''rejected''}) (map dv_operation_uuid gone)
                  (db1\<lparr>bd_outbox := filter (\<lambda>d. \<not> withdrawn (bd_queue db1) d) (bd_outbox db1)\<rparr>);
          unsafe = unsafe_keys fates;
          rest = filter (\<lambda>k. k \<notin> set (List.map_filter event_key gone)) unsafe
      in bindE (recover_events now unsafe [] gone db2) (\<lambda>db3.
         bindE (foldE (\<lambda>db' k. quarantine_ambiguous_assignment now k db') db3 rest) (\<lambda>db4.
         Inr (length gone, db4)))))"

text \<open>\<open>_recover_interrupted_workspace_deliveries_once\<close>, before any delivery starts\<close>

definition recover_interrupted_workspace_deliveries :: "'w delivery_env \<Rightarrow> bridge_db \<Rightarrow> bridge_db result" where
  "recover_interrupted_workspace_deliveries env db =
     (case mark_interrupted_workspace_deliveries_ambiguous (de_now env) db of
        (_, db1) \<Rightarrow>
          bindE (reset_stale_workspace_deliveries (de_now env) db1) (\<lambda>(_, db2).
          bindE (finalize_ready_provider_events (de_nfc env) (de_sha256 env) (de_now env) db2) (\<lambda>(_, db3). Inr db3)))"

end
