(* ===== verification/State_Pruning.thy ===== *)
theory State_Pruning
  imports Delivery_Recovery
begin

text \<open>
  The pruning of finished rows (\<open>prune_terminal_delivery_state\<close> of \<open>storage.py\<close>): sent deliveries,
  events that have no delivery left, committed read operations, old reports that are not the
  newest of their resource, and lanes without events. The five statements run in one
  transaction, each on the tables that the former have left. \<open>free\<close> tells which rows no other
  transaction has locked; the row \<open>observed_report_prune_state\<close> is the argument \<open>cursor\<close>.
\<close>

record prune_locks =
  pl_delivery :: "delivery_row \<Rightarrow> bool"
  pl_event :: "event_row \<Rightarrow> bool"
  pl_operation :: "op_row \<Rightarrow> bool"
  pl_report :: "observed_row \<Rightarrow> bool"

definition minutes :: "int \<Rightarrow> timestamp" where
  "minutes n = seconds (60 * n)"

section \<open>Deliveries and events\<close>

definition sent_long_ago :: "timestamp \<Rightarrow> delivery_row \<Rightarrow> bool" where
  "sent_long_ago now d =
     (dv_state d = ''sent'' \<and>
      (case dv_sent_at d of None \<Rightarrow> False | Some t \<Rightarrow> t < now - minutes (if dv_priority d = 2 then 1 else 10)))"

definition prunable_deliveries :: "timestamp \<Rightarrow> (delivery_row \<Rightarrow> bool) \<Rightarrow> nat \<Rightarrow> delivery_row list \<Rightarrow> delivery_row list" where
  "prunable_deliveries now free limit ds =
     take limit (sort_key (\<lambda>d. the (dv_sent_at d)) (filter (\<lambda>d. sent_long_ago now d \<and> free d) ds))"

definition prune_deliveries :: "timestamp \<Rightarrow> (delivery_row \<Rightarrow> bool) \<Rightarrow> nat \<Rightarrow> bridge_db \<Rightarrow> nat \<times> bridge_db" where
  "prune_deliveries now free limit db =
     (let gone = map dv_record_uuid (prunable_deliveries now free limit (bd_outbox db)) in
      (length gone, db\<lparr>bd_outbox := filter (\<lambda>d. dv_record_uuid d \<notin> set gone) (bd_outbox db)\<rparr>))"

definition over_long_ago :: "timestamp \<Rightarrow> delivery_row list \<Rightarrow> event_row \<Rightarrow> bool" where
  "over_long_ago now ds ev =
     (je_state ev \<in> {''processed'', ''unsupported'', ''invalid'', ''ignored''} \<and> je_created_at ev < now - minutes 10 \<and>
      \<not> list_ex (source_event ev) ds)"

definition event_id :: "event_row \<Rightarrow> uuid \<times> string \<times> int" where
  "event_id ev = (je_account_uuid ev, je_queue_id ev, je_event_id ev)"

definition prunable_events :: "timestamp \<Rightarrow> (event_row \<Rightarrow> bool) \<Rightarrow> nat \<Rightarrow> bridge_db \<Rightarrow> event_row list" where
  "prunable_events now free limit db =
     take limit (sort_key je_created_at
       (filter (\<lambda>ev. over_long_ago now (bd_outbox db) ev \<and> free ev) (db_events (bd_queue db))))"

definition prune_events :: "timestamp \<Rightarrow> (event_row \<Rightarrow> bool) \<Rightarrow> nat \<Rightarrow> bridge_db \<Rightarrow> nat \<times> bridge_db" where
  "prune_events now free limit db =
     (let gone = map event_id (prunable_events now free limit db) in
      (length gone, on_queue (\<lambda>q. q\<lparr>db_events := filter (\<lambda>ev. event_id ev \<notin> set gone) (db_events q)\<rparr>) db))"

section \<open>Read operations\<close>

text \<open>The outcome of an operation that has one.\<close>

definition settled_idem :: "queue_db \<Rightarrow> uuid \<Rightarrow> idem_row option" where
  "settled_idem q u = (case db_idempotency q u of None \<Rightarrow> None | Some i \<Rightarrow> if idem_outcome i = None then None else Some i)"

definition read_over_long_ago :: "timestamp \<Rightarrow> queue_db \<Rightarrow> op_row \<Rightarrow> bool" where
  "read_over_long_ago now q x =
     (settled_idem q (op_operation_uuid x) \<noteq> None \<and> op_state x = Committed \<and> op_result_sent_at x \<noteq> None \<and>
      \<not> op_manual_required x \<and> op_last_error_code x \<noteq> Some ''provider_result_stale_lease'' \<and>
      op_updated_at x < now - minutes 10 \<and> rec_kind (op_record x) = VStr ''read_state.set'')"

definition prunable_reads :: "timestamp \<Rightarrow> (op_row \<Rightarrow> bool) \<Rightarrow> nat \<Rightarrow> queue_db \<Rightarrow> op_row list" where
  "prunable_reads now free limit q =
     take limit (sort_key (\<lambda>x. (op_updated_at x, op_uuid x))
       (filter (\<lambda>x. read_over_long_ago now q x \<and> free x) (db_operations q)))"

text \<open>The record identifier takes over the outcome, unless it has another one.\<close>

definition outcome_kept :: "queue_db \<Rightarrow> op_row \<Rightarrow> bool" where
  "outcome_kept q x =
     (case (settled_idem q (op_operation_uuid x), db_idempotency q (op_uuid x)) of
        (Some i, Some p) \<Rightarrow> idem_outcome p = idem_outcome i \<and> idem_manual_retry p = idem_manual_retry i
      | (Some i, None) \<Rightarrow> True
      | _ \<Rightarrow> False)"

definition keep_outcome :: "op_row \<Rightarrow> bridge_db \<Rightarrow> bridge_db" where
  "keep_outcome x db =
     (let q = bd_queue db; u = op_uuid x in
      if db_idempotency q u \<noteq> None then db
      else on_queue (\<lambda>q. q\<lparr>db_idempotency := (db_idempotency q)(u := settled_idem q (op_operation_uuid x))\<rparr>)
             (db\<lparr>bd_idempotency_at := (bd_idempotency_at db)(u := bd_idempotency_at db (op_operation_uuid x))\<rparr>))"

definition prune_reads :: "timestamp \<Rightarrow> (op_row \<Rightarrow> bool) \<Rightarrow> nat \<Rightarrow> bridge_db \<Rightarrow> bridge_db" where
  "prune_reads now free limit db =
     (let q = bd_queue db; candidates = prunable_reads now free limit q;
          gone = map op_uuid (filter (outcome_kept q) candidates)
      in on_queue (\<lambda>q. q\<lparr>db_operations := filter (\<lambda>x. op_uuid x \<notin> set gone) (db_operations q)\<rparr>)
           (fold keep_outcome candidates db))"

section \<open>Reports\<close>

type_synonym prune_cursor = "(timestamp \<times> uuid) option"

definition report_place :: "observed_row \<Rightarrow> timestamp \<times> uuid" where
  "report_place r = (the (ob_completed_at r), ob_uuid r)"

definition after_cursor :: "timestamp \<Rightarrow> prune_cursor \<Rightarrow> observed_row \<Rightarrow> bool" where
  "after_cursor now cursor r =
     ((case ob_completed_at r of None \<Rightarrow> False | Some t \<Rightarrow> t < now - minutes 10) \<and>
      (case cursor of None \<Rightarrow> True | Some c \<Rightarrow> c < report_place r))"

definition probed_reports :: "timestamp \<Rightarrow> (observed_row \<Rightarrow> bool) \<Rightarrow> nat \<Rightarrow> prune_cursor \<Rightarrow> observed_row list \<Rightarrow> observed_row list" where
  "probed_reports now free limit cursor rs =
     take limit (sort_key report_place (filter (\<lambda>r. after_cursor now cursor r \<and> free r) rs))"

text \<open>A report that is not the head of its resource; one without a resource has no head.\<close>

definition surpassed :: "observed_row list \<Rightarrow> observed_row \<Rightarrow> bool" where
  "surpassed rs r =
     (case resource_of (ob_body r) of
        (Some t, Some u) \<Rightarrow>
          (case latest_report (Some t, Some u) rs of None \<Rightarrow> False | Some h \<Rightarrow> ob_uuid h \<noteq> ob_uuid r)
      | _ \<Rightarrow> False)"

text \<open>When nothing is left behind the cursor, it starts again.\<close>

definition prune_reports ::
  "timestamp \<Rightarrow> (observed_row \<Rightarrow> bool) \<Rightarrow> nat \<Rightarrow> prune_cursor \<Rightarrow> bridge_db \<Rightarrow> prune_cursor \<times> bridge_db" where
  "prune_reports now free limit cursor db =
     (let rs = bd_observed db; probe = probed_reports now free limit cursor rs;
          gone = map ob_uuid (filter (surpassed rs) probe)
      in (if probe = [] then None else Some (report_place (last probe)),
          db\<lparr>bd_observed := filter (\<lambda>r. ob_uuid r \<notin> set gone) rs\<rparr>))"

section \<open>Lanes\<close>

definition prune_lanes :: "bridge_db \<Rightarrow> bridge_db" where
  "prune_lanes db =
     db\<lparr>bd_lanes := (\<lambda>(account, lane).
         if list_ex (\<lambda>ev. je_account_uuid ev = account \<and> je_lane ev = Some lane \<and> active ev) (db_events (bd_queue db))
         then bd_lanes db (account, lane) else None)\<rparr>"

definition prune_terminal_delivery_state ::
  "timestamp \<Rightarrow> prune_locks \<Rightarrow> nat \<Rightarrow> prune_cursor \<Rightarrow> bridge_db \<Rightarrow> (nat \<times> nat) \<times> prune_cursor \<times> bridge_db" where
  "prune_terminal_delivery_state now free limit cursor db =
     (case prune_deliveries now (pl_delivery free) limit db of
        (deliveries, db1) \<Rightarrow>
          (case prune_events now (pl_event free) limit db1 of
             (events, db2) \<Rightarrow>
               (case prune_reports now (pl_report free) limit cursor (prune_reads now (pl_operation free) limit db2) of
                  (cursor', db3) \<Rightarrow> ((deliveries, events), cursor', prune_lanes db3))))"

end
