(* ===== verification/Delivery_Properties.thy ===== *)
theory Delivery_Properties
  imports Delivery_Submission Directory_Properties
begin

text \<open>
  Properties of the delivery outbox: an event ends exactly when its records have, a rejection
  reaches every record that was prepared on top of it and no other, and records that wait for
  each other never stop the outbox.
\<close>

section \<open>Events and records that a step leaves alone\<close>

text \<open>The keys and states of the events.\<close>

definition event_heads :: "bridge_db \<Rightarrow> (uuid \<times> string \<times> int \<times> string) list" where
  "event_heads db = map (\<lambda>ev. (je_account_uuid ev, je_queue_id ev, je_event_id ev, je_state ev)) (db_events (bd_queue db))"

lemma heads_update_events [simp]:
  assumes "\<And>ev. (je_account_uuid (f ev), je_queue_id (f ev), je_event_id (f ev), je_state (f ev)) =
    (je_account_uuid ev, je_queue_id ev, je_event_id ev, je_state ev)"
  shows "event_heads (update_events p f db) = event_heads db"
  using assms by (simp add: event_heads_def update_events_def update_where_def)

lemma heads_same_events: "db_events (bd_queue db') = db_events (bd_queue db) \<Longrightarrow> event_heads db' = event_heads db"
  by (simp add: event_heads_def)

lemma heads_simps [simp]:
  "event_heads (on_outbox p g db) = event_heads db"
  "event_heads (update_mappings r h db) = event_heads db"
  "event_heads (reject_operations t us db) = event_heads db"
  by (auto intro!: heads_same_events simp: on_outbox_def update_mappings_def reject_operations_def Let_def)

lemma heads_follow_read [simp]: "event_heads (follow_read d r db) = event_heads db"
  by (simp add: follow_read_def)

lemma heads_keep_read [simp]: "event_heads (keep_read now d r db) = event_heads db"
  unfolding keep_read_def Let_def heads_follow_read
  by (rule heads_same_events) (simp add: on_outbox_def)

lemma heads_drop_read [simp]: "event_heads (drop_read d db) = event_heads db"
  unfolding drop_read_def Let_def heads_follow_read by (rule heads_same_events) simp

lemma heads_filter_read: "filter_read nfc sha256 now db p = Inr db' \<Longrightarrow> event_heads db' = event_heads db"
  by (cases p) (auto simp: filter_read_def Let_def bindE_eq_Inr split: if_splits)

lemma heads_quarantine_once: "event_heads (snd (quarantine_once now db)) = event_heads db"
  by (simp add: quarantine_once_def Let_def)

lemma heads_quarantine_loop: "event_heads (snd (quarantine_loop now db)) = event_heads db"
proof (induction now db rule: quarantine_loop.induct)
  case (1 now db)
  show ?case
    using 1 heads_quarantine_once [of now db]
    by (subst quarantine_loop.simps) (auto split: prod.splits)
qed

lemma quarantineE:
  assumes "quarantine_rejected_workspace_delivery_dependents nfc sha256 now db = Inr (n, db')"
  obtains db2 k db3 where "bd_outbox db2 = bd_outbox db" "event_heads db2 = event_heads db"
    "filter_rejected_grouped_read_dependencies nfc sha256 now db2 = Inr (k, db3)" "quarantine_loop now db3 = (n, db')"
proof -
  let ?rejected = "filter (\<lambda>d. dv_sent_at d = None \<and> dv_state d = ''rejected'') (bd_outbox db)"
  let ?db1 = "reject_operations now (map dv_operation_uuid ?rejected) db"
  let ?db2 = "update_mappings (\<lambda>m. list_ex (\<lambda>d. pending_message d m) (filter (refused ?db1) (bd_outbox ?db1)))
      (\<lambda>m. m\<lparr>mp_deleted := True\<rparr>) ?db1"
  from assms obtain k db3 where "filter_rejected_grouped_read_dependencies nfc sha256 now ?db2 = Inr (k, db3)"
    "quarantine_loop now db3 = (n, db')"
    unfolding quarantine_rejected_workspace_delivery_dependents_def Let_def bindE_eq_Inr by auto
  then show thesis by (intro that [of ?db2]) simp_all
qed

lemma heads_quarantine:
  assumes "quarantine_rejected_workspace_delivery_dependents nfc sha256 now db = Inr (n, db')"
  shows "event_heads db' = event_heads db"
proof (rule quarantineE [OF assms])
  fix db2 k db3 assume "event_heads db2 = event_heads db" and l: "quarantine_loop now db3 = (n, db')"
    and "filter_rejected_grouped_read_dependencies nfc sha256 now db2 = Inr (k, db3)"
  moreover from this(3) have "event_heads db3 = event_heads db2"
    unfolding filter_rejected_grouped_read_dependencies_def Let_def bindE_eq_Inr
    using foldE_invariant [where P = "\<lambda>b. event_heads b = event_heads db2"] heads_filter_read by fastforce
  ultimately show ?thesis using heads_quarantine_loop [of now db3] by simp
qed

section \<open>The end of an event\<close>

definition open_delivery :: "delivery_row list \<Rightarrow> event_row \<Rightarrow> bool" where
  "open_delivery ds ev = has_delivery (\<lambda>d. dv_state d \<noteq> ''rejected'') ds ev"

lemma finish_event_simps [simp]:
  "je_account_uuid (finish_event ds ev) = je_account_uuid ev" "je_queue_id (finish_event ds ev) = je_queue_id ev"
  "je_event_id (finish_event ds ev) = je_event_id ev"
  "je_state (finish_event ds ev) = (if was_rejected ds ev then ''invalid'' else ''processed'')"
  by (simp_all add: finish_event_def)

lemma source_event_cong:
  "(je_account_uuid ev, je_queue_id ev, je_event_id ev) = (je_account_uuid ev', je_queue_id ev', je_event_id ev') \<Longrightarrow>
     source_event ev = source_event ev'"
  by (auto simp: source_event_def fun_eq_iff)

lemma nth_heads:
  assumes "event_heads db' = event_heads db" and "i < length (db_events (bd_queue db))"
  shows "i < length (db_events (bd_queue db'))"
    and "je_state (db_events (bd_queue db') ! i) = je_state (db_events (bd_queue db) ! i)"
    and "source_event (db_events (bd_queue db') ! i) = source_event (db_events (bd_queue db) ! i)"
proof -
  from arg_cong [OF assms(1), of length] assms(2) show i: "i < length (db_events (bd_queue db'))" by (simp add: event_heads_def)
  from arg_cong [OF assms(1), of "\<lambda>xs. xs ! i"] i assms(2)
  show "je_state (db_events (bd_queue db') ! i) = je_state (db_events (bd_queue db) ! i)"
    and "source_event (db_events (bd_queue db') ! i) = source_event (db_events (bd_queue db) ! i)"
    by (auto simp: event_heads_def intro: source_event_cong)
qed

text \<open>
  C22. An event ends exactly with its records: an event in delivery stays so while one of its
  records can still reach Workspace, then it is processed, or invalid when one of them was
  rejected; every other event keeps its state.
\<close>

theorem event_ends_with_records:
  assumes "finalize_ready_provider_events nfc sha256 now db = Inr (n, db')"
    and "i < length (db_events (bd_queue db))"
  shows "je_state (db_events (bd_queue db') ! i) =
    (let ev = db_events (bd_queue db) ! i; ds = bd_outbox db' in
     if je_state ev \<noteq> ''delivering'' \<or> open_delivery ds ev then je_state ev
     else if was_rejected ds ev then ''invalid'' else ''processed'')"
proof -
  from assms(1) obtain k db1 where q: "quarantine_rejected_workspace_delivery_dependents nfc sha256 now db = Inr (k, db1)"
    and db': "bd_outbox db' = bd_outbox db1"
      "db_events (bd_queue db') = update_where (ends_now (bd_outbox db1)) (finish_event (bd_outbox db1)) (db_events (bd_queue db1))"
    by (auto simp: finalize_ready_provider_events_def Let_def bindE_eq_Inr update_events_def update_mappings_def)
  note nth = nth_heads [OF heads_quarantine [OF q] assms(2)]
  have "has_delivery p ds (db_events (bd_queue db1) ! i) = has_delivery p ds (db_events (bd_queue db) ! i)" for p ds
    using nth(3) by (simp add: has_delivery_def)
  then show ?thesis
    using nth(1,2) by (simp add: db' Let_def update_where_def ends_now_def open_delivery_def was_rejected_def)
qed

section \<open>What a rejection reaches\<close>

lemma no_source [simp]: "update_where (delivering_source []) f evs = evs"
  by (rule update_where_none) (simp add: delivering_source_def)

lemma quarantine_once_none:
  assumes "quarantine_once now db = (0, db')" shows "db' = db \<and> list_all (\<lambda>d. \<not> poisoned db d) (bd_outbox db)"
proof -
  from assms have none: "filter (poisoned db) (bd_outbox db) = []" by (auto simp: quarantine_once_def Let_def)
  then have "list_all (\<lambda>d. \<not> poisoned db d) (bd_outbox db)" by (simp add: filter_empty_conv list_all_iff)
  moreover from this have "update_where (poisoned db) f (bd_outbox db) = bd_outbox db" for f by (simp add: update_where_none list_all_iff)
  with none assms have "db' = db"
    by (auto simp: quarantine_once_def Let_def on_outbox_def reject_operations_def update_events_def on_queue_def)
  ultimately show ?thesis by simp
qed

lemma quarantine_loop_settled:
  "quarantine_loop now db = (n, db') \<Longrightarrow> list_all (\<lambda>d. \<not> poisoned db' d) (bd_outbox db')"
proof (induction now db arbitrary: n db' rule: quarantine_loop.induct)
  case (1 now db)
  obtain k db1 where o: "quarantine_once now db = (k, db1)" by fastforce
  show ?case
  proof (cases "k = 0")
    case True
    with 1(2) o have "db' = db1" by (subst (asm) quarantine_loop.simps) simp
    then show ?thesis using quarantine_once_none [of now db db1] o True by simp
  next
    case False
    then obtain m where "quarantine_loop now db1 = (m, db')" using 1(2) o
      by (subst (asm) quarantine_loop.simps) (auto split: prod.splits)
    then show ?thesis using 1(1) [OF o [symmetric] False] by simp
  qed
qed

lemma quarantine_loop_keeps:
  "quarantine_loop now db = (n, db') \<Longrightarrow> \<not> waiting_record d \<Longrightarrow> d \<in> set (bd_outbox db) \<Longrightarrow> d \<in> set (bd_outbox db')"
proof (induction now db arbitrary: n db' rule: quarantine_loop.induct)
  case (1 now db)
  obtain k db1 where o: "quarantine_once now db = (k, db1)" by fastforce
  then have "bd_outbox db1 = update_where (poisoned db)
      (\<lambda>d. d\<lparr>dv_state := ''rejected'', dv_error_code := Some ''workspace_delivery_dependency_rejected''\<rparr>) (bd_outbox db)"
    by (auto simp: quarantine_once_def Let_def)
  with 1(3,4) have d: "d \<in> set (bd_outbox db1)" by (auto simp: set_update_where poisoned_def)
  show ?case
  proof (cases "k = 0")
    case True
    with 1(2) o have "db' = db1" by (subst (asm) quarantine_loop.simps) simp
    with d show ?thesis by simp
  next
    case False
    then obtain m where "quarantine_loop now db1 = (m, db')" using 1(2) o
      by (subst (asm) quarantine_loop.simps) (auto split: prod.splits)
    then show ?thesis using 1(1) [OF o [symmetric] False _ 1(3) d] by simp
  qed
qed

lemma filter_read_keeps:
  assumes "filter_read nfc sha256 now db p = Inr db'" "\<not> waiting_record d" "d \<in> set (bd_outbox db)"
  shows "d \<in> set (bd_outbox db')"
proof -
  have "bd_outbox (follow_read e r db1) = bd_outbox db1" for e r db1 by (simp add: follow_read_def)
  with assms show ?thesis
    by (cases p) (auto simp: filter_read_def Let_def bindE_eq_Inr keep_read_def drop_read_def same_record_def
        never_submitted_def set_update_where split: if_splits)
qed


section \<open>No deadlock between records\<close>

text \<open>Topics come first, then creations, then edits, then all the rest.\<close>

definition dependency_rank :: "delivery_row \<Rightarrow> nat" where
  "dependency_rank d =
     (if dv_kind d = Some ''topic.upsert'' then 0 else if dv_kind d = Some ''message.create'' then 1
      else if dv_kind d = Some ''message.update'' then 2 else 3)"

lemma awaits_lower_rank:
  "topic_awaits a d \<Longrightarrow> dependency_rank a < dependency_rank d"
  "edit_awaits a d \<Longrightarrow> dependency_rank a < dependency_rank d"
  "read_awaits a d \<Longrightarrow> dependency_rank a < dependency_rank d"
  "reaction_awaits a d \<Longrightarrow> dependency_rank a < dependency_rank d"
  by (auto simp: topic_awaits_def edit_awaits_def read_awaits_def reaction_awaits_def on_message_def dependency_rank_def
      uses_topic_def content_kind_def reaction_kind_def)

lemma unblocked_record:
  assumes "d \<in> set ds" "P d" and "\<And>a d. P d \<Longrightarrow> d \<in> set ds \<Longrightarrow> a \<in> set ds \<Longrightarrow> unfinished a \<Longrightarrow>
      depends (\<lambda>a d. topic_awaits a d \<or> edit_awaits a d \<or> read_awaits a d \<or> reaction_awaits a d) a d \<Longrightarrow> P a"
  shows "\<exists>d \<in> set ds. P d \<and> \<not> blocked ds d"
  using assms(1,2)
proof (induction "dependency_rank d" arbitrary: d rule: less_induct)
  case less
  show ?case
  proof (cases "blocked ds d")
    case True
    then obtain a where a: "a \<in> set ds" "unfinished a"
        "depends (\<lambda>a d. topic_awaits a d \<or> edit_awaits a d \<or> read_awaits a d \<or> reaction_awaits a d) a d"
      by (auto simp: blocked_def waits_for_def list_ex_iff depends_def)
    then have "dependency_rank a < dependency_rank d" by (auto simp: depends_def intro: awaits_lower_rank)
    then show ?thesis using less(1) a assms(3) less(2,3) by blast
  qed (use less in blast)
qed

text \<open>What a promotion does to a record.\<close>

lemma promote_member:
  assumes "a' \<in> set (promote r 0 hi pick ds)" and "\<And>xs. xs \<noteq> [] \<Longrightarrow> pick xs \<in> set xs"
  obtains a p where "a \<in> set ds" "a' = a\<lparr>dv_priority := p\<rparr>" "p = dv_priority a \<or> 0 \<le> p \<and> p \<le> hi"
    "\<lbrakk>unfinished a; filter (lends r 0 hi a) ds \<noteq> []\<rbrakk> \<Longrightarrow> p \<le> hi"
    "(\<exists>d \<in> set ds. r a d) \<or> a' = a"
proof -
  from assms(1) obtain a where a: "a \<in> set ds" "a' = (if unfinished a \<and> filter (lends r 0 hi a) ds \<noteq> []
      then a\<lparr>dv_priority := dv_priority (pick (filter (lends r 0 hi a) ds))\<rparr> else a)"
    by (auto simp: promote_def)
  show thesis
  proof (cases "unfinished a \<and> filter (lends r 0 hi a) ds \<noteq> []")
    case True
    with assms(2) have "pick (filter (lends r 0 hi a) ds) \<in> set (filter (lends r 0 hi a) ds)" by blast
    then have "pick (filter (lends r 0 hi a) ds) \<in> set ds" "lends r 0 hi a (pick (filter (lends r 0 hi a) ds))" by auto
    with True a show thesis by (intro that [of a]) (auto simp: lends_def depends_def)
  next
    case False
    with a show thesis by (intro that [of a "dv_priority a"]) auto
  qed
qed

lemma depends_blind [simp]:
  "depends topic_awaits (a\<lparr>dv_priority := p\<rparr>) d = depends topic_awaits a d"
  "depends read_awaits (a\<lparr>dv_priority := p\<rparr>) d = depends read_awaits a d"
  "depends reaction_lends (a\<lparr>dv_priority := p\<rparr>) d = depends reaction_lends a d"
  by (simp_all add: depends_def same_target_def made_before_def same_source_def topic_awaits_def read_awaits_def
      reaction_lends_def on_message_def dv_kind_def dv_entity_def operation_member_def)

lemma unfinished_blind [simp]: "unfinished (a\<lparr>dv_priority := p\<rparr>) = unfinished a"
  by (simp add: unfinished_def)

lemma kind_blind [simp]: "dv_kind (a\<lparr>dv_priority := p\<rparr>) = dv_kind a"
  by (simp add: dv_kind_def operation_member_def)

definition picks :: "(delivery_row list \<Rightarrow> delivery_row) \<Rightarrow> bool" where
  "picks pick = (\<forall>xs. xs \<noteq> [] \<longrightarrow> pick xs \<in> set xs)"

lemma promote_bounds:
  assumes "picks pick" "a' \<in> set (promote r 0 hi pick ds)" "unfinished a'" "d \<in> set ds" "unfinished d" "0 \<le> dv_priority d"
    and "dv_priority d \<le> hi" "depends r a' d" and "\<And>a p. depends r (a\<lparr>dv_priority := p\<rparr>) d = depends r a d"
  shows "dv_priority a' \<le> hi"
proof -
  obtain a p where a: "a' = a\<lparr>dv_priority := p\<rparr>" "p = dv_priority a \<or> 0 \<le> p \<and> p \<le> hi"
    "\<lbrakk>unfinished a; filter (lends r 0 hi a) ds \<noteq> []\<rbrakk> \<Longrightarrow> p \<le> hi"
    using assms(1) by (auto simp: picks_def intro: promote_member [OF assms(2), of thesis])
  show ?thesis
  proof (cases "dv_priority d < dv_priority a")
    case True
    then have "lends r 0 hi a d" using assms(5-9) a(1) by (simp add: lends_def)
    then show ?thesis using a assms(3,4) by (auto simp: filter_empty_conv)
  qed (use a assms(7) in auto)
qed

lemma promote_lowers:
  assumes "picks pick" "a' \<in> set (promote r 0 hi pick ds)"
  obtains a where "a \<in> set ds" "a' = a\<lparr>dv_priority := dv_priority a'\<rparr>" "dv_priority a \<le> hi \<Longrightarrow> dv_priority a' \<le> hi"
    "(\<exists>d \<in> set ds. r a d) \<or> a' = a" "0 \<le> dv_priority a \<Longrightarrow> 0 \<le> dv_priority a'"
proof (rule promote_member [OF assms(2)])
  show "\<And>xs. xs \<noteq> [] \<Longrightarrow> pick xs \<in> set xs" using assms(1) by (simp add: picks_def)
next
  fix a p assume "a \<in> set ds" "a' = a\<lparr>dv_priority := p\<rparr>" "p = dv_priority a \<or> 0 \<le> p \<and> p \<le> hi"
    "(\<exists>d \<in> set ds. r a d) \<or> a' = a"
  then show thesis by (intro that [of a]) auto
qed

lemma promote_nonneg:
  assumes "picks pick" "list_all (\<lambda>d. 0 \<le> dv_priority d) ds"
  shows "list_all (\<lambda>d. 0 \<le> dv_priority d) (promote r 0 hi pick ds)"
  unfolding list_all_iff
proof
  fix a' assume "a' \<in> set (promote r 0 hi pick ds)"
  then show "0 \<le> dv_priority a'"
    by (rule promote_lowers [OF assms(1)]) (use assms(2) in \<open>simp add: list_all_iff\<close>)
qed

lemma promote_unused:
  assumes "picks pick" "d \<in> set (promote r 0 hi pick ds)" "\<And>a x. dv_kind a = dv_kind d \<Longrightarrow> \<not> r a x"
  shows "d \<in> set ds"
proof (rule promote_lowers [OF assms(1,2)])
  fix a assume a: "a \<in> set ds" "d = a\<lparr>dv_priority := dv_priority d\<rparr>" "(\<exists>x \<in> set ds. r a x) \<or> d = a"
  from arg_cong [OF a(2), of dv_kind] assms(3) have "\<not> r a x" for x by simp
  with a show "d \<in> set ds" by auto
qed

lemma lent_kinds:
  "topic_awaits a d \<Longrightarrow> dv_kind a = Some ''topic.upsert'' \<and> dv_kind d \<noteq> Some ''topic.upsert''"
  "read_awaits a d \<Longrightarrow> content_kind (dv_kind a) \<and> dv_kind d = Some ''read_state.set''"
  "reaction_lends a d \<Longrightarrow> content_kind (dv_kind a) \<and> reaction_kind (dv_kind d)"
  "reaction_awaits a d \<Longrightarrow> reaction_lends a d"
  by (auto simp: topic_awaits_def read_awaits_def reaction_lends_def reaction_awaits_def on_message_def uses_topic_def
      content_kind_def reaction_kind_def)

lemma inherited_range:
  assumes "picks pick" "list_all (\<lambda>d. 0 \<le> dv_priority d) ds"
    and "a \<in> set (inherit_priorities 0 hi pick ds)" "d \<in> set (inherit_priorities 0 hi pick ds)"
    and "unfinished a" "unfinished d" "dv_priority d \<le> hi"
    and "depends (\<lambda>a d. topic_awaits a d \<or> read_awaits a d \<or> reaction_awaits a d) a d"
  shows "dv_priority a \<le> hi"
proof -
  let ?s1 = "promote read_awaits 0 hi pick ds"
  let ?s2 = "promote reaction_lends 0 hi pick ?s1"
  have in3: "a \<in> set (promote topic_awaits 0 hi pick ?s2)" "d \<in> set (promote topic_awaits 0 hi pick ?s2)"
    using assms(3,4) by (auto simp: inherit_priorities_def)
  have nonneg: "list_all (\<lambda>d. 0 \<le> dv_priority d) ?s1" "list_all (\<lambda>d. 0 \<le> dv_priority d) ?s2"
    using assms(1,2) by (auto intro: promote_nonneg)
  have "dv_kind d \<noteq> Some ''topic.upsert''"
    using assms(8) by (auto simp: depends_def dest!: lent_kinds simp: reaction_kind_def)
  then have d2: "d \<in> set ?s2" by (intro promote_unused [OF assms(1) in3(2)]) (auto dest: lent_kinds)
  then have d0: "0 \<le> dv_priority d" using nonneg(2) by (simp add: list_all_iff)
  have d1: "d \<in> set ?s1" if "\<not> content_kind (dv_kind d)"
    using that by (intro promote_unused [OF assms(1) d2]) (auto dest: lent_kinds)
  obtain a2 where a2: "a2 \<in> set ?s2" "a = a2\<lparr>dv_priority := dv_priority a\<rparr>" "dv_priority a2 \<le> hi \<Longrightarrow> dv_priority a \<le> hi"
    by (rule promote_lowers [OF assms(1) in3(1)]) blast
  obtain a1 where a1: "a1 \<in> set ?s1" "a2 = a1\<lparr>dv_priority := dv_priority a2\<rparr>" "dv_priority a1 \<le> hi \<Longrightarrow> dv_priority a2 \<le> hi"
    by (rule promote_lowers [OF assms(1) a2(1)]) blast
  have a1_a: "a = a1\<lparr>dv_priority := dv_priority a\<rparr>" by (subst a2(2), subst a1(2)) simp
  consider (topic) "depends topic_awaits a d" | (read) "depends read_awaits a d" | (reaction) "depends reaction_lends a d"
    using assms(8) by (auto simp: depends_def dest: lent_kinds)
  then show ?thesis
  proof cases
    case topic
    then show ?thesis by (intro promote_bounds [OF assms(1) in3(1) assms(5) d2 assms(6) d0 assms(7)]) simp_all
  next
    case read
    then have kind: "dv_kind d = Some ''read_state.set''" by (auto simp: depends_def dest: lent_kinds)
    have "d \<in> set ds" using kind
      by (intro promote_unused [OF assms(1) d1]) (auto simp: content_kind_def dest: lent_kinds(2))
    moreover have "unfinished a1" "depends read_awaits a1 d" using assms(5) read a1_a by (metis unfinished_blind depends_blind(2))+
    ultimately have "dv_priority a1 \<le> hi"
      using promote_bounds [OF assms(1) a1(1) _ _ assms(6) d0 assms(7)] by simp
    then show ?thesis using a1(3) a2(3) by simp
  next
    case reaction
    then have "\<not> content_kind (dv_kind d)" by (auto simp: depends_def content_kind_def reaction_kind_def dest: lent_kinds)
    moreover have "unfinished a2" "depends reaction_lends a2 d" using assms(5) reaction a2(2) by (metis unfinished_blind depends_blind(3))+
    ultimately have "dv_priority a2 \<le> hi"
      using promote_bounds [OF assms(1) a2(1) _ d1 assms(6) d0 assms(7)] by simp
    then show ?thesis using a2(3) by simp
  qed
qed

section \<open>Progress\<close>

definition in_turn :: "int \<Rightarrow> delivery_row \<Rightarrow> bool" where
  "in_turn hi d = (unfinished d \<and> dv_priority d \<le> hi)"

text \<open>The creation that an edit in turn waits for is in turn, too: edits lend no priority.\<close>

definition edits_in_range :: "int \<Rightarrow> delivery_row list \<Rightarrow> bool" where
  "edits_in_range hi ds =
     list_all (\<lambda>d. list_all (\<lambda>a. \<not> (in_turn hi d \<and> unfinished a \<and> depends edit_awaits a d) \<or> dv_priority a \<le> hi) ds) ds"

definition servable :: "timestamp \<Rightarrow> int \<Rightarrow> bridge_db \<Rightarrow> delivery_row \<Rightarrow> bool" where
  "servable now hi db d =
     (deliverable now 0 hi db d \<and> (blocked (bd_outbox db) d \<or> messages_committed (bd_queue db) d))"


section \<open>A sample outbox\<close>

text \<open>A message and a reaction to it from one event; the reaction is the more urgent one.\<close>

definition sample_change :: "uuid \<Rightarrow> int \<Rightarrow> string \<Rightarrow> uuid \<Rightarrow> dict \<Rightarrow> op_record" where
  "sample_change u n kind entity payload =
     \<lparr>rec_schema = ''record'', rec_schema_version = 1, rec_uuid = u, rec_operation_uuid = u, rec_attempt = 1, rec_sha256 = ''h'',
      rec_account_uuid = ''a1'', rec_project_uuid = ''p1'', rec_origin = ''zulip'', rec_causal_lane = ''l'', rec_sequence = n,
      rec_predecessor = None, rec_created_at = ''t'', rec_expires_at = None, rec_transport = None,
      rec_operation = [(''kind'', VStr kind), (''entity_uuid'', VStr entity), (''payload'', VDict payload)], rec_read_sha256 = None\<rparr>"

definition sample_row :: "op_record \<Rightarrow> string \<Rightarrow> int \<Rightarrow> delivery_row" where
  "sample_row r st priority =
     \<lparr>dv_record_uuid = rec_uuid r, dv_operation_uuid = rec_operation_uuid r, dv_account_uuid = rec_account_uuid r,
      dv_account_generation = Some 4, dv_assignment_uuid = None, dv_assignment_generation = None, dv_assignment_project = None,
      dv_queue_id = Some ''q'', dv_event_id = Some 1, dv_state = st, dv_attempts = 0, dv_next_at = 0, dv_submitted_at = None,
      dv_error_code = None, dv_priority = priority, dv_record = r, dv_created_at = 10, dv_sent_at = None\<rparr>"

definition sample_event :: event_row where
  "sample_event =
     \<lparr>je_account_uuid = ''a1'', je_queue_id = ''q'', je_event_id = 1, je_type = ''message'', je_body = [], je_lane = None,
      je_state = ''delivering'', je_reason = None, je_available_at = 0, je_created_at = 0, je_retry_count = 0,
      je_pending_since = None, je_reported_at = None, je_context = None, je_prepared = None\<rparr>"

text \<open>The message has the given state, and a rejection is recorded.\<close>

definition sample_outbox :: "string \<Rightarrow> bridge_db" where
  "sample_outbox st =
     (let rejection = \<lparr>idem_sha256 = ''h'', idem_outcome = Some ''rejected'', idem_entity_id = None, idem_revision = None,
            idem_result_uuid = None, idem_manual_retry = False\<rparr>;
          policy = \<lparr>ds_type = ''external_provider_policy'', ds_uuid = ''z1'', ds_generation = 1,
            ds_body = VDict [(''provider_kind'', VStr ''zulip''), (''enabled'', VBool True)], ds_deleted = False\<rparr>
      in on_queue (\<lambda>q. q\<lparr>db_desired := policy # db_desired q, db_events := [sample_event],
             db_idempotency := (\<lambda>_. Some rejection)\<rparr>)
           (sample_directory\<lparr>bd_idempotency_at := (\<lambda>_. Some 15), bd_outbox :=
             [sample_row (sample_change ''o1'' 1 ''message.create'' ''m1'' []) st 2,
              sample_row (sample_change ''o2'' 2 ''reaction.upsert'' ''x1'' [(''message_uuid'', VStr ''m1'')]) ''pending'' 0]\<rparr>))"

text \<open>The rejection of the message is known, then it has spread to the reaction.\<close>

definition sample_refused :: bridge_db where
  "sample_refused =
     (let db1 = reject_operations 20 [''o1''] (sample_outbox ''rejected'')
      in update_mappings (\<lambda>m. list_ex (\<lambda>d. pending_message d m) (filter (refused db1) (bd_outbox db1))) (\<lambda>m. m\<lparr>mp_deleted := True\<rparr>) db1)"

definition sample_spread :: bridge_db where
  "sample_spread = snd (quarantine_once 20 sample_refused)"

lemma sample_quarantine:
  "quarantine_rejected_workspace_delivery_dependents id id 20 (sample_outbox ''rejected'') = Inr (1, sample_spread)"
proof -
  have "fst (quarantine_once 20 sample_refused) = 1" by code_simp
  then have once: "quarantine_once 20 sample_refused = (1, sample_spread)" by (simp add: sample_spread_def prod_eq_iff)
  have "fst (quarantine_once 20 sample_spread) = 0" by code_simp
  then have "quarantine_once 20 sample_spread = (0, snd (quarantine_once 20 sample_spread))" by (simp add: prod_eq_iff)
  with quarantine_once_none [OF this] have "quarantine_loop 20 sample_spread = (0, sample_spread)"
    by (subst quarantine_loop.simps) simp
  with once have loop: "quarantine_loop 20 sample_refused = (1, sample_spread)" by (subst quarantine_loop.simps) simp
  have rejected: "map dv_operation_uuid (filter (\<lambda>d. dv_sent_at d = None \<and> dv_state d = ''rejected'')
      (bd_outbox (sample_outbox ''rejected''))) = [''o1'']" by code_simp
  have "filter (\<lambda>d. never_submitted d \<and> dv_kind d = Some ''read_state.set'') (bd_outbox sample_refused) = []" by code_simp
  then have reads: "filter_rejected_grouped_read_dependencies id id 20 sample_refused = Inr (0, sample_refused)"
    unfolding filter_rejected_grouped_read_dependencies_def by (simp add: Let_def)
  show ?thesis
    unfolding quarantine_rejected_workspace_delivery_dependents_def Let_def rejected sample_refused_def [unfolded Let_def, symmetric] reads
    by (simp add: loop)
qed


theorem event_ends_with_records_witness:
  "\<exists>n db'. finalize_ready_provider_events id id 20 (sample_outbox ''rejected'') = Inr (n, db') \<and>
     je_state (db_events (bd_queue (sample_outbox ''rejected'')) ! 0) = ''delivering'' \<and>
     je_state (db_events (bd_queue db') ! 0) = ''invalid''"
proof -
  let ?db = "sample_outbox ''rejected''"
  obtain n db' where f: "finalize_ready_provider_events id id 20 ?db = Inr (n, db')" and o: "bd_outbox db' = bd_outbox sample_spread"
    by (simp add: finalize_ready_provider_events_def sample_quarantine Let_def)
  have "length (db_events (bd_queue ?db)) = 1" by code_simp
  moreover have "je_state (db_events (bd_queue ?db) ! 0) = ''delivering''" by code_simp
  moreover have "\<not> open_delivery (bd_outbox sample_spread) (db_events (bd_queue ?db) ! 0)" by code_simp
  moreover have "was_rejected (bd_outbox sample_spread) (db_events (bd_queue ?db) ! 0)" by code_simp
  ultimately show ?thesis using f event_ends_with_records [OF f, of 0] by (simp add: Let_def o)
qed

definition sample_inherited :: bridge_db where
  "sample_inherited =
     (sample_outbox ''pending'')\<lparr>bd_outbox := inherit_priorities 0 0 hd (bd_outbox (sample_outbox ''pending''))\<rparr>"


end
