(* ===== verification/Records_In_Flight.thy ===== *)
theory Records_In_Flight
  imports Delivery_Properties Delivery_Results
begin

text \<open>
  The records that are marked as submitted and not yet answered. Every step of the outbox that
  follows a submission keeps the identifiers of the rows and marks no further record: the end
  of events with its quarantine, an accepted answer with the records that follow an identifier,
  and a rejected record.
\<close>

section \<open>Records in flight\<close>

text \<open>The identifiers of a row and of its record.\<close>

definition delivery_key :: "delivery_row \<Rightarrow> uuid \<times> uuid \<times> uuid \<times> uuid" where
  "delivery_key d = (dv_record_uuid d, dv_operation_uuid d, rec_uuid (dv_record d), rec_operation_uuid (dv_record d))"

definition record_key :: "op_record \<Rightarrow> uuid \<times> uuid \<times> uuid \<times> uuid" where
  "record_key r = (rec_uuid r, rec_operation_uuid r, rec_uuid r, rec_operation_uuid r)"

definition flying :: "delivery_row \<Rightarrow> bool" where
  "flying d = (dv_sent_at d = None \<and> dv_state d = ''submitting'')"

definition in_flight :: "bridge_db \<Rightarrow> uuid set" where
  "in_flight db = dv_record_uuid ` {d \<in> set (bd_outbox db). flying d}"

text \<open>The rows of a coherent outbox: each has the identifiers of its record, and no record is in two.\<close>

definition coherent_keys :: "(uuid \<times> uuid \<times> uuid \<times> uuid) set \<Rightarrow> bool" where
  "coherent_keys K = ((\<forall>(u, w, v, x) \<in> K. v = u \<and> x = w) \<and> inj_on fst K)"

text \<open>\<open>lands K U db db'\<close>: no new row, no new record in flight, and those of \<open>U\<close> have landed.\<close>

definition lands :: "(uuid \<times> uuid \<times> uuid \<times> uuid) set \<Rightarrow> uuid set \<Rightarrow> bridge_db \<Rightarrow> bridge_db \<Rightarrow> bool" where
  "lands K U db db' =
     (delivery_key ` set (bd_outbox db) \<subseteq> K \<longrightarrow>
      delivery_key ` set (bd_outbox db') \<subseteq> K \<and> in_flight db' \<subseteq> in_flight db - U)"

lemma lands_refl [simp]: "lands K {} db db"
  by (simp add: lands_def)

lemma lands_trans: "lands K U db db1 \<Longrightarrow> lands K V db1 db2 \<Longrightarrow> lands K (U \<union> V) db db2"
  by (auto simp: lands_def)

lemma lands_trans0: "lands K {} db db1 \<Longrightarrow> lands K {} db1 db2 \<Longrightarrow> lands K {} db db2"
  using lands_trans [of K "{}" db db1 "{}"] by simp

lemma lands_weaken: "lands K U db db' \<Longrightarrow> lands K {} db db'"
  by (auto simp: lands_def)

lemma lands_outbox: "bd_outbox db' = bd_outbox db \<Longrightarrow> lands K {} db db'"
  by (simp add: lands_def in_flight_def)

text \<open>Updates of rows that keep the identifiers.\<close>

lemma lands_update:
  assumes "\<And>d. d \<in> set (bd_outbox db) \<Longrightarrow> p d \<Longrightarrow> delivery_key (f d) = delivery_key d"
    and "\<And>d. d \<in> set (bd_outbox db) \<Longrightarrow> p d \<Longrightarrow> flying (f d) \<Longrightarrow> flying d \<and> dv_record_uuid d \<notin> U"
    and "\<And>d. d \<in> set (bd_outbox db) \<Longrightarrow> \<not> p d \<Longrightarrow> flying d \<Longrightarrow> dv_record_uuid d \<notin> U"
    and "bd_outbox db' = update_where p f (bd_outbox db)"
  shows "lands K U db db'"
proof -
  have row: "\<exists>d \<in> set (bd_outbox db). delivery_key d' = delivery_key d \<and> (flying d' \<longrightarrow> flying d \<and> dv_record_uuid d \<notin> U)"
    if "d' \<in> set (bd_outbox db')" for d'
  proof -
    from that assms(4) obtain d where d: "d \<in> set (bd_outbox db)" "d' = (if p d then f d else d)" by (auto simp: update_where_def)
    then show ?thesis using assms(1-3) [OF d(1)] by (intro bexI [of _ d]) simp_all
  qed
  have uuid: "dv_record_uuid d' = dv_record_uuid d" if "delivery_key d' = delivery_key d" for d d'
    using that by (simp add: delivery_key_def)
  have "delivery_key d' \<in> delivery_key ` set (bd_outbox db)" if "d' \<in> set (bd_outbox db')" for d'
  proof -
    from row [OF that] obtain d where "d \<in> set (bd_outbox db)" "delivery_key d' = delivery_key d" by blast
    then show ?thesis by (rule rev_image_eqI)
  qed
  then have "delivery_key ` set (bd_outbox db') \<subseteq> delivery_key ` set (bd_outbox db)" by (intro image_subsetI)
  moreover have "in_flight db' \<subseteq> in_flight db - U"
  proof
    fix u assume "u \<in> in_flight db'"
    then obtain d' where d': "d' \<in> set (bd_outbox db')" "flying d'" "u = dv_record_uuid d'" by (auto simp: in_flight_def)
    from row [OF d'(1)] d'(2) obtain d where d: "d \<in> set (bd_outbox db)" "delivery_key d' = delivery_key d" "flying d" "dv_record_uuid d \<notin> U"
      by blast
    with uuid [OF d(2)] d'(3) show "u \<in> in_flight db - U" by (simp add: in_flight_def)
  qed
  ultimately show ?thesis unfolding lands_def by (intro impI conjI) (rule subset_trans)
qed

lemma lands_filter: "bd_outbox db' = filter p (bd_outbox db) \<Longrightarrow> lands K {} db db'"
  by (auto simp: lands_def in_flight_def)

lemma same_key_rows:
  assumes "coherent_keys K" "k \<in> K" "l \<in> K" "fst k = fst l" shows "k = l"
  using assms by (auto simp: coherent_keys_def dest: inj_onD)

text \<open>A record that is written back under its own identifiers.\<close>

lemma lands_record:
  assumes "coherent_keys K" "delivery_key d \<in> K" "delivery_key d = delivery_key (d\<lparr>dv_record := r\<rparr>)"
    and "\<And>e. p e \<Longrightarrow> dv_record_uuid e = dv_record_uuid d"
    and "bd_outbox db' = update_where p (\<lambda>e. e\<lparr>dv_record := r\<rparr>) (bd_outbox db)"
  shows "lands K {} db db'"
proof (cases "delivery_key ` set (bd_outbox db) \<subseteq> K")
  case True
  have "delivery_key (e\<lparr>dv_record := r\<rparr>) = delivery_key e" if "e \<in> set (bd_outbox db)" "p e" for e
    using same_key_rows [OF assms(1,2), of "delivery_key e"] that True assms(3) assms(4) [OF that(2)]
    by (auto simp: delivery_key_def)
  then show ?thesis by (intro lands_update [OF _ _ _ assms(5)]) (auto simp: flying_def)
qed (simp add: lands_def)

lemma lands_foldE:
  assumes "foldE f db xs = Inr db'"
    and "\<And>a x b. x \<in> set xs \<Longrightarrow> f a x = Inr b \<Longrightarrow> lands K {} a b"
  shows "lands K {} db db'"
  by (rule foldE_invariant [OF assms(1), where P = "lands K {} db"]) (auto intro: lands_trans0 assms(2))

section \<open>The end of events\<close>

lemma outbox_follow_read [simp]: "bd_outbox (follow_read e r db) = bd_outbox db"
  by (simp add: follow_read_def)

lemma with_messages_ids [simp]: "rec_uuid (with_messages us r) = rec_uuid r" "rec_operation_uuid (with_messages us r) = rec_operation_uuid r"
  by (simp_all add: with_messages_def)

lemma narrow_transport_ids:
  assumes "narrow_transport us r = Inr r'" shows "rec_uuid r' = rec_uuid r \<and> rec_operation_uuid r' = rec_operation_uuid r"
proof (cases "rec_transport r")
  case (Some t)
  with assms obtain d where "r' = (case get_val d ''transport'' of VDict t' \<Rightarrow> r\<lparr>rec_transport := Some t'\<rparr> | _ \<Rightarrow> r)"
    by (auto simp: narrow_transport_def bindE_eq_Inr)
  then show ?thesis by (simp split: pyval.splits)
qed (use assms in \<open>simp add: narrow_transport_def\<close>)

lemma narrowed_ids:
  assumes "narrowed_read nfc sha256 us r = Inr r'" shows "rec_uuid r' = rec_uuid r \<and> rec_operation_uuid r' = rec_operation_uuid r"
proof -
  from assms obtain r1 h where "narrow_transport us (with_messages us r) = Inr r1" "r' = r1\<lparr>rec_sha256 := h\<rparr>"
    by (auto simp: narrowed_read_def bindE_eq_Inr)
  then show ?thesis using narrow_transport_ids [of us "with_messages us r" r1] by simp
qed

lemma lands_filter_read:
  assumes "coherent_keys K" "delivery_key (fst x) \<in> K" "filter_read nfc sha256 now db x = Inr db'"
  shows "lands K {} db db'"
proof -
  obtain d gone where x: "x = (d, gone)" by fastforce
  consider "db' = drop_read d db"
    | r where "narrowed_read nfc sha256 (remaining_messages gone d) (dv_record d) = Inr r" "db' = keep_read now d r db"
    using assms(3) by (auto simp: x filter_read_def Let_def bindE_eq_Inr split: if_splits)
  then show ?thesis
  proof cases
    case 1
    then show ?thesis by (intro lands_filter [where p = "\<lambda>e. \<not> same_record d e"]) (simp add: drop_read_def Let_def)
  next
    case (2 r)
    then show ?thesis
      using assms(2) narrowed_ids [OF 2(1)]
      by (intro lands_record [OF assms(1), of d r "same_record d"])
        (auto simp: x keep_read_def Let_def same_record_def delivery_key_def)
  qed
qed

lemma lands_quarantine_once: "lands K {} db (snd (quarantine_once now db))"
  by (rule lands_update [where p = "poisoned db"])
    (auto simp: quarantine_once_def Let_def delivery_key_def flying_def)

lemma lands_quarantine_loop: "lands K {} db (snd (quarantine_loop now db))"
proof (induction now db rule: quarantine_loop.induct)
  case (1 now db)
  show ?case
    using 1 lands_quarantine_once [of K db now]
    by (subst quarantine_loop.simps) (auto split: prod.splits intro: lands_trans0)
qed

lemma lands_grouped_reads:
  assumes "coherent_keys K" "filter_rejected_grouped_read_dependencies nfc sha256 now db = Inr (k, db')"
  shows "lands K {} db db'"
proof (cases "delivery_key ` set (bd_outbox db) \<subseteq> K")
  case True
  let ?ps = "filter (\<lambda>p. snd p \<noteq> []) (map (\<lambda>d. (d, refused_messages db d))
            (filter (\<lambda>d. never_submitted d \<and> dv_kind d = Some ''read_state.set'') (bd_outbox db)))"
  from assms(2) have "foldE (filter_read nfc sha256 now) db ?ps = Inr db'"
    by (simp add: filter_rejected_grouped_read_dependencies_def Let_def bindE_eq_Inr)
  then show ?thesis
  proof (rule lands_foldE)
    fix x a b assume "x \<in> set ?ps" "filter_read nfc sha256 now a x = Inr b"
    then show "lands K {} a b" using True by (intro lands_filter_read [OF assms(1)]) auto
  qed
qed (simp add: lands_def)

lemma lands_finalize:
  assumes "coherent_keys K" "finalize_ready_provider_events nfc sha256 now db = Inr (n, db')"
  shows "lands K {} db db'"
proof -
  from assms(2) obtain m db1 where q: "quarantine_rejected_workspace_delivery_dependents nfc sha256 now db = Inr (m, db1)"
    and "bd_outbox db' = bd_outbox db1"
    by (auto simp: finalize_ready_provider_events_def Let_def bindE_eq_Inr)
  moreover obtain db2 k db3 where "bd_outbox db2 = bd_outbox db" "quarantine_loop now db3 = (m, db1)"
    and f: "filter_rejected_grouped_read_dependencies nfc sha256 now db2 = Inr (k, db3)"
    using quarantineE [OF q] by metis
  ultimately have "lands K {} db db2" "lands K {} (snd (quarantine_loop now db3)) db'" by (simp_all add: lands_outbox)
  then show ?thesis using lands_grouped_reads [OF assms(1) f] lands_quarantine_loop [of K db3 now] by (blast intro: lands_trans0)
qed

section \<open>Answers\<close>

lemma rekeyed_ids:
  assumes "rekey_record nfc sha256 k source target r = Inr r'" shows "rec_uuid r' = rec_uuid r \<and> rec_operation_uuid r' = rec_operation_uuid r"
  using assms by (auto simp: rekey_record_def Let_def bindE_eq_Inr)

lemma lands_rekey:
  assumes "coherent_keys K" "rekey_pending_dependents nfc sha256 now k account source target db = Inr db'"
  shows "lands K {} db db'"
proof (cases "delivery_key ` set (bd_outbox db) \<subseteq> K")
  case True
  from assms(2) show ?thesis unfolding rekey_pending_dependents_def
  proof (rule lands_foldE)
    fix x a b assume "x \<in> set (filter (follows k account source db) (bd_outbox db))"
      and "bindE (rekey_record nfc sha256 k source target (dv_record x)) (\<lambda>r. Inr (store_rekeyed now x r a)) = Inr b"
    then obtain r where r: "rekey_record nfc sha256 k source target (dv_record x) = Inr r" "b = store_rekeyed now x r a"
      and x: "x \<in> set (bd_outbox db)" by (auto simp: bindE_eq_Inr)
    show "lands K {} a b"
      by (rule lands_record [OF assms(1), of x r "\<lambda>e. dv_record_uuid e = dv_record_uuid x"])
        (use True x rekeyed_ids [OF r(1)] in \<open>auto simp: r(2) store_rekeyed_def Let_def delivery_key_def\<close>)
  qed
qed (simp add: lands_def)

lemma lands_reconcile:
  assumes "coherent_keys K" "reconcile_authoritative_workspace_target nfc sha256 now r answer db = Inr db'"
  shows "lands K {} db db'"
proof -
  have tables: "lands K {} db (with_tables t db)" for t by (simp add: lands_outbox with_tables_def)
  have "lands K {} db db'" if "rekey_pending_dependents nfc sha256 now k account source target (with_tables t db) = Inr db'"
    for k account source target t
    using tables lands_rekey [OF assms(1) that] by (rule lands_trans0)
  with assms(2) tables show ?thesis
    by (auto simp: reconcile_authoritative_workspace_target_def Let_def bindE_eq_Inr
        split: option.splits pyval.splits if_splits)
qed

lemma lands_mark_sent:
  assumes "coherent_keys K" "record_key r \<in> K" "bd_outbox db = bd_outbox db0"
  shows "lands K {rec_uuid r} db0 (mark_sent now (rec_operation_uuid r) db)"
proof (cases "delivery_key ` set (bd_outbox db0) \<subseteq> K")
  case True
  have "dv_operation_uuid d = rec_operation_uuid r" if "d \<in> set (bd_outbox db0)" "dv_record_uuid d = rec_uuid r" for d
    using same_key_rows [OF assms(1,2), of "delivery_key d"] that True by (auto simp: delivery_key_def record_key_def)
  then show ?thesis
    by (intro lands_update [where p = "\<lambda>d. dv_operation_uuid d = rec_operation_uuid r"])
      (auto simp: mark_sent_def assms(3) delivery_key_def flying_def coalesce_def split: option.splits)
qed (simp add: lands_def)

lemma lands_accepted:
  assumes "coherent_keys K" "record_key (res_in_reply_to res) \<in> K"
    and "accept_in_transaction env nfc sha256 now res answer db = Inr (us, db')"
  shows "lands K {rec_uuid (res_in_reply_to res)} db db'"
proof -
  let ?r = "res_in_reply_to res"
  have "bd_outbox (settle_operation now res db) = bd_outbox db" by (simp add: settle_operation_def Let_def)
  note sent = lands_mark_sent [OF assms(1,2), of _ db now] and settled = lands_mark_sent [OF assms(1,2) this, of now]
  from assms(3) consider
      d where "reconcile_authoritative_workspace_target nfc sha256 now d answer (mark_sent now (rec_operation_uuid ?r) db) = Inr db'"
    | d db1 where "commit_mappings env d res (mark_sent now (rec_operation_uuid ?r) (settle_operation now res db)) = Inr (us, db1)"
        "reconcile_authoritative_workspace_target nfc sha256 now d answer db1 = Inr db'"
    by (auto simp: accept_in_transaction_def Let_def bindE_eq_Inr split: option.splits if_splits)
  then show ?thesis
  proof cases
    case (1 d)
    from lands_trans [OF sent [OF refl] lands_reconcile [OF assms(1) this]] show ?thesis by simp
  next
    case (2 d db1)
    from 2(1) have "lands K {} (mark_sent now (rec_operation_uuid ?r) (settle_operation now res db)) db1"
      by (intro lands_outbox) (auto simp: commit_mappings_def with_tables_def bindE_eq_Inr split: if_splits prod.splits)
    from lands_trans [OF settled lands_trans0 [OF this lands_reconcile [OF assms(1) 2(2)]]] show ?thesis by simp
  qed
qed

lemma lands_rejected:
  assumes "reject_provider_event_submission clock u code db = (b, db')"
  shows "lands K (if b then {u} else {}) db db'"
proof (cases "find (being_submitted u) (bd_outbox db)")
  case None
  then have "\<not> flying d \<or> dv_record_uuid d \<noteq> u" if "d \<in> set (bd_outbox db)" for d
    using that by (auto simp: find_None_iff being_submitted_def flying_def)
  moreover from None assms have "db' = db" by (simp add: reject_provider_event_submission_def)
  ultimately show ?thesis by (intro lands_update [where p = "\<lambda>_. False"]) (auto simp: update_where_none)
next
  case (Some d)
  with assms show ?thesis
    by (intro lands_update [where p = "being_submitted u" and f = "\<lambda>d. d\<lparr>dv_state := ''rejected'', dv_error_code := Some (take 128 code)\<rparr>"])
      (auto simp: reject_provider_event_submission_def being_submitted_def delivery_key_def flying_def)
qed

end
