(* ===== verification/Flush_Properties.thy ===== *)
theory Flush_Properties
  imports Records_In_Flight Delivery_Flush
begin

text \<open>
  Properties of a flush: a rejected request costs only the records at fault, and whatever the
  data plane answers, no record stays marked as submitted.
\<close>

section \<open>One by one\<close>

lemma andthen_assoc: "andthen (andthen f g) h = andthen f (\<lambda>x. andthen (g x) h)"
  by (rule ext) (auto simp: andthen_def split: sum.splits prod.splits)

lemma andthen_finished [simp]: "andthen (finished x) g = g x" "andthen f finished = f"
  by (rule ext, auto simp: andthen_def finished_def split: sum.splits prod.splits)+

definition applied :: "(provider_command \<Rightarrow> uuid option) \<Rightarrow> provider_command \<Rightarrow> dict" where
  "applied target c =
     [(''provider_event_key'', VStr (pc_key c)), (''status'', VStr ''applied''), (''target_uuid'', opt_str (target c))]"

text \<open>A data plane whose answers depend on the commands only, and which takes a request as a whole.\<close>

definition judges :: "'w delivery_env \<Rightarrow> (provider_command \<Rightarrow> int option) \<Rightarrow> (provider_command \<Rightarrow> uuid option) \<Rightarrow> bool" where
  "judges env judge target =
     (\<forall>cs w. de_api env cs w =
        (case List.map_filter judge cs of
           [] \<Rightarrow> Applied (map (applied target) cs)
         | status # _ \<Rightarrow> Event_Rejected status, w))"

text \<open>The same records, each in a request of its own.\<close>

fun apply_each ::
  "'w delivery_env \<Rightarrow> (provider_command \<Rightarrow> int option) \<Rightarrow> (provider_command \<Rightarrow> uuid option) \<Rightarrow>
     (op_record \<times> provider_command) list \<Rightarrow> (nat, 'w) action" where
  "apply_each env judge target [] = finished 0"
| "apply_each env judge target ((r, c) # ers) =
     (case judge c of
        None \<Rightarrow> andthen (accept_record env r (applied target c)) (\<lambda>_.
                  andthen (apply_each env judge target ers) (\<lambda>n. finished (Suc n)))
      | Some status \<Rightarrow> andthen (reject_record env r status) (\<lambda>_. apply_each env judge target ers))"

lemma apply_each_append:
  "apply_each env judge target (xs @ ys) =
     andthen (apply_each env judge target xs) (\<lambda>m. andthen (apply_each env judge target ys) (\<lambda>n. finished (m + n)))"
  by (induction xs rule: apply_each.induct) (auto simp: andthen_assoc split: option.splits)

lemma apply_each_accepted:
  assumes "List.map_filter judge (map snd ers) = []"
  shows "apply_each env judge target ers =
    andthen (accept_records env (zip (map fst ers) (map (applied target) (map snd ers)))) (\<lambda>_. finished (length ers))"
  using assms
proof (induction ers)
  case (Cons e ers)
  then show ?case by (cases e) (auto simp: andthen_assoc List.map_filter_simps split: option.splits)
qed simp

lemma reject_counts_none: "andthen (reject_record env r status) (\<lambda>_. finished 0) = reject_record env r status"
  by (rule ext) (auto simp: andthen_def finished_def reject_record_def split: prod.splits bool.splits)

lemma check_answers: "check_response cs (map (applied target) cs) = Inr ()"
proof -
  have "mapE (\<lambda>r. bindE (item r ''provider_event_key'') (\<lambda>k. Inr (py_str k))) (map (applied target) cs) = Inr (map pc_key cs)"
    by (induction cs) (simp_all add: applied_def item_def)
  moreover have "foldE (\<lambda>_ r. bindE (item r ''status'') (\<lambda>s. guardE (s = VStr ''applied'') e)) () (map (applied target) cs) = Inr ()" for e
    by (induction cs) (simp_all add: applied_def item_def guardE_def)
  ultimately show ?thesis by (simp add: check_response_def guardE_def)
qed

text \<open>
  C23. Records do not suffer from one another: against a data plane that judges every command
  by itself, the halving of a rejected request has the same effect as one request per record,
  in their order.
\<close>

theorem rejected_one_by_one:
  assumes "judges env judge target" and "ers \<noteq> []" and "length ers \<le> 500"
  shows "apply_records env (finished ()) ers = apply_each env judge target ers"
  using assms(2,3)
proof (induction ers rule: length_induct)
  case (1 ers)
  let ?rejected = "List.map_filter judge (map snd ers)"
  have api: "andthen (apply_commands env (map snd ers)) k = k (case ?rejected of
      [] \<Rightarrow> Applied (map (applied target) (map snd ers)) | status # _ \<Rightarrow> Event_Rejected status)" for k :: "_ \<Rightarrow> (nat, 'a) action"
    using assms(1) 1(2,3) by (auto simp: fun_eq_iff andthen_def apply_commands_def judges_def split: list.splits)
  show ?case
  proof (cases ?rejected)
    case Nil
    then show ?thesis
      by (subst apply_records.simps) (simp add: api apply_each_accepted lift_def andthen_def [where f = "lift _"] check_answers
          fun_eq_iff del: map_map)
  next
    case (Cons status rest)
    show ?thesis
    proof (cases "length ers > 1")
      case True
      let ?m = "length ers div 2"
      have "apply_records env (finished ()) (take ?m ers) = apply_each env judge target (take ?m ers)"
        "apply_records env (finished ()) (drop ?m ers) = apply_each env judge target (drop ?m ers)"
        using 1 True by (auto intro!: 1(1) [rule_format])
      then show ?thesis
        using True Cons apply_each_append [of env judge target "take ?m ers" "drop ?m ers"]
        by (subst apply_records.simps) (simp add: api Let_def)
    next
      case False
      with 1(2) obtain r c where ers: "ers = [(r, c)]" by (cases ers; cases "tl ers") auto
      with Cons have "judge c = Some status" by (auto simp: List.map_filter_simps split: option.splits)
      with api Cons show ?thesis
        by (subst apply_records.simps) (simp add: ers reject_counts_none)
    qed
  qed
qed

section \<open>Actions\<close>

text \<open>Whatever the action does, no new record is in flight, and if it succeeds, those of \<open>U\<close> have landed.\<close>

definition brings :: "(uuid \<times> uuid \<times> uuid \<times> uuid) set \<Rightarrow> uuid set \<Rightarrow> ('a, 'w) action \<Rightarrow> bool" where
  "brings K U act =
     (\<forall>run. lands K (case fst (act run) of Inl _ \<Rightarrow> {} | Inr _ \<Rightarrow> U) (dr_db run) (dr_db (snd (act run))))"

lemma brings_andthen:
  assumes "brings K U f" and "\<And>run x run1. f run = (Inr x, run1) \<Longrightarrow> brings K V (g x)"
  shows "brings K (U \<union> V) (andthen f g)"
  unfolding brings_def
proof
  fix run
  show "lands K (case fst (andthen f g run) of Inl _ \<Rightarrow> {} | Inr _ \<Rightarrow> U \<union> V) (dr_db run) (dr_db (snd (andthen f g run)))"
  proof (cases "f run")
    case (Pair m run1)
    from assms(1) have f: "lands K (case m of Inl _ \<Rightarrow> {} | Inr _ \<Rightarrow> U) (dr_db run) (dr_db run1)"
      by (auto simp: brings_def Pair dest: spec [of _ run])
    show ?thesis
    proof (cases m)
      case (Inr x)
      from assms(2) Pair Inr have "brings K V (g x)" by simp
      then have "lands K (case fst (g x run1) of Inl _ \<Rightarrow> {} | Inr _ \<Rightarrow> V) (dr_db run1) (dr_db (snd (g x run1)))"
        by (simp add: brings_def)
      then show ?thesis using f Pair Inr
        by (auto simp: andthen_def split: sum.splits intro: lands_trans lands_trans0 lands_weaken)
    qed (use f Pair in \<open>simp add: andthen_def\<close>)
  qed
qed

lemma brings_andthen0: "brings K {} f \<Longrightarrow> (\<And>x. brings K V (g x)) \<Longrightarrow> brings K V (andthen f g)"
  using brings_andthen [of K "{}" f V g] by simp

lemma brings_same: "(\<And>run. dr_db (snd (act run)) = dr_db run) \<Longrightarrow> brings K {} act"
  by (auto simp: brings_def split: sum.splits)

lemma brings_fails [simp]: "brings K U (lift (Inl e))" "brings K U (Pair (Inl e'))"
  by (simp_all add: brings_def lift_def)

lemma brings_finished [simp]: "brings K {} (finished x)" and brings_lift [simp]: "brings K {} (lift m)"
  by (auto simp: finished_def lift_def intro!: brings_same)

lemma brings_commands [simp]: "brings K {} (apply_commands env cs)"
  by (auto simp: apply_commands_def split: prod.splits intro!: brings_same)

section \<open>A request\<close>

lemma brings_accept:
  assumes "coherent_keys K" "record_key r \<in> K" shows "brings K {rec_uuid r} (accept_record env r reply)"
  unfolding brings_def
proof
  fix run :: "'a delivery_run"
  define res where "res = result_record (de_now env) (de_uuid4 env r) r ''committed'' (Some \<lparr>tc_entity_id = None, tc_revision = None\<rparr>) None"
  define target where "target = (case get_val reply ''target_uuid'' of VNone \<Rightarrow> None | v \<Rightarrow> Some (py_str v))"
  have r: "res_in_reply_to res = r" by (simp add: res_def result_record_def)
  have step: "accept_record env r reply run =
    (case accept_result (de_reactions env) (de_nfc env) (de_sha256 env) (de_now env) res target (dr_index run, dr_db run) of
      (m, index, db) \<Rightarrow> (fst (lift m run), run\<lparr>dr_index := index, dr_db := db\<rparr>))"
    unfolding accept_record_def Let_def res_def target_def ..
  show "lands K (case fst (accept_record env r reply run) of Inl _ \<Rightarrow> {} | Inr _ \<Rightarrow> {rec_uuid r}) (dr_db run)
     (dr_db (snd (accept_record env r reply run)))"
    using lands_accepted [OF assms(1), of res] assms(2)
    by (auto simp: step accept_result_def lift_def r split: sum.splits prod.splits)
qed

lemma brings_accept_records:
  assumes "coherent_keys K" "record_key ` fst ` set rs \<subseteq> K"
  shows "brings K (rec_uuid ` fst ` set rs) (accept_records env rs)"
  using assms(2)
proof (induction rs)
  case (Cons x rs)
  obtain r reply where "x = (r, reply)" by fastforce
  with Cons brings_andthen [OF brings_accept [OF assms(1), of r env reply], of "rec_uuid ` fst ` set rs" "\<lambda>_. accept_records env rs"]
  show ?case by simp
qed simp

lemma brings_reject: "brings K {rec_uuid r} (reject_record env r status)"
  unfolding brings_def
proof
  fix run :: "'a delivery_run"
  define code where "code = ''provider_api_http_'' @ py_str (VInt status)"
  obtain b db where r: "reject_provider_event_submission (de_now env) (rec_uuid r) code (dr_db run) = (b, db)" by fastforce
  have "lands K {} db (on_queue f db)" for f by (simp add: lands_outbox)
  with lands_rejected [OF r, of K] lands_trans [of K "{rec_uuid r}" _ db "{}"]
  show "lands K (case fst (reject_record env r status run) of Inl _ \<Rightarrow> {} | Inr _ \<Rightarrow> {rec_uuid r}) (dr_db run)
     (dr_db (snd (reject_record env r status run)))"
    unfolding reject_record_def code_def [symmetric] by (cases b) (simp_all add: r)
qed

lemma checked_length:
  assumes "check_response cs results = Inr ()" shows "length results = length cs"
proof -
  have "mapE f xs = Inr ys \<Longrightarrow> length ys = length xs" for f :: "dict \<Rightarrow> string result" and xs ys
    by (induction xs arbitrary: ys) (auto simp: bindE_eq_Inr)
  moreover from assms obtain f where "mapE f results = Inr (map pc_key cs)"
    by (auto simp: check_response_def bindE_eq_Inr guardE_def split: if_splits)
  ultimately show ?thesis by fastforce
qed

lemma brings_then_finished: "brings K U f \<Longrightarrow> brings K U (andthen f (\<lambda>x. finished (h x)))"
  using brings_andthen [of K U f "{}" "\<lambda>x. finished (h x)"] by simp

lemma brings_applied:
  assumes "coherent_keys K" "record_key ` fst ` set ers \<subseteq> K"
  shows "brings K (rec_uuid ` fst ` set ers) (andthen (lift (check_response (map snd ers) results)) (\<lambda>_.
           andthen (accept_records env (zip (map fst ers) results)) (\<lambda>_. finished n)))"
proof (subst Un_empty_left [symmetric], rule brings_andthen [OF brings_lift])
  fix run run1 :: "'a delivery_run" and x assume "lift (check_response (map snd ers) results) run = (Inr x, run1)"
  then have "length results = length ers" using checked_length [of "map snd ers" results] by (auto simp: lift_def split: sum.splits)
  then have "fst ` set (zip (map fst ers) results) = fst ` set ers" by (metis length_map map_fst_zip set_map)
  with brings_accept_records [OF assms(1), of "zip (map fst ers) results" env] assms(2)
  show "brings K (rec_uuid ` fst ` set ers) (andthen (accept_records env (zip (map fst ers) results)) (\<lambda>_. finished n))"
    by (intro brings_then_finished) simp
qed

lemma brings_both:
  assumes "brings K {} between" "brings K U f" "brings K V g"
  shows "brings K (U \<union> V) (andthen between (\<lambda>_. andthen f (\<lambda>m. andthen between (\<lambda>_. andthen g (\<lambda>n. finished (h m n))))))"
  using assms by (intro brings_andthen0 [OF assms(1)] brings_andthen [OF assms(2)] brings_then_finished)

lemma brings_apply:
  assumes "coherent_keys K" "brings K {} between"
  shows "ers \<noteq> [] \<Longrightarrow> record_key ` fst ` set ers \<subseteq> K \<Longrightarrow> brings K (rec_uuid ` fst ` set ers) (apply_records env between ers)"
proof (induction ers rule: length_induct)
  case (1 ers)
  let ?m = "length ers div 2"
  have halves: "rec_uuid ` fst ` set ers = rec_uuid ` fst ` set (take ?m ers) \<union> rec_uuid ` fst ` set (drop ?m ers)"
    by (metis append_take_drop_id image_Un set_append)
  have half: "brings K (rec_uuid ` fst ` set (f ?m ers)) (apply_records env between (f ?m ers))"
    if "length ers > 1" "f = take \<or> f = drop" for f
  proof -
    from that have "set (f ?m ers) \<subseteq> set ers" using set_take_subset [of ?m ers] set_drop_subset [of ?m ers] by auto
    with 1(3) have "record_key ` fst ` set (f ?m ers) \<subseteq> K" by blast
    with that show ?thesis by (intro 1(1) [rule_format]) auto
  qed
  have "brings K (rec_uuid ` fst ` set ers) (reject_record env (fst (hd ers)) status)" if "\<not> length ers > 1" for status
  proof -
    from that 1(2) obtain e where "ers = [e]" by (cases ers; cases "tl ers") auto
    then show ?thesis using brings_reject [of K "fst e" env status] by simp
  qed
  then show ?case
    using brings_applied [OF assms(1) 1(3)] brings_both [OF assms(2) half half, of take drop]
    by (subst apply_records.simps)
      (auto simp: Let_def halves [symmetric] split: api_reply.split intro!: brings_andthen0 [OF brings_commands])
qed

section \<open>A flush\<close>

definition in_outbox :: "(uuid \<times> uuid \<times> uuid \<times> uuid) set \<Rightarrow> bridge_db \<Rightarrow> bool" where
  "in_outbox K db = (delivery_key ` set (bd_outbox db) \<subseteq> K)"

lemma marked_flights:
  assumes "mark_workspace_delivery_submitting now u db = (b, db')" "in_outbox K db"
  shows "in_outbox K db' \<and> in_flight db' \<subseteq> in_flight db \<union> {u} \<and> (b \<or> in_flight db' \<subseteq> in_flight db)"
proof -
  let ?p = "\<lambda>d. dv_record_uuid d = u \<and> may_submit now (bd_queue db) d"
  from assms(1) have o: "bd_outbox db' = update_where ?p (\<lambda>d. d\<lparr>dv_state := ''submitting'', dv_attempts := dv_attempts d + 1\<rparr>) (bd_outbox db)"
    and b: "b = list_ex ?p (bd_outbox db)"
    by (auto simp: mark_workspace_delivery_submitting_def Let_def)
  have "delivery_key d' \<in> K" if "d' \<in> set (bd_outbox db')" for d'
    using that assms(2) by (force simp: o set_update_where in_outbox_def delivery_key_def split: if_splits)
  then have "in_outbox K db'" by (auto simp only: in_outbox_def image_subset_iff)
  moreover have "in_flight db' \<subseteq> in_flight db \<union> {u}"
    by (auto simp: in_flight_def o set_update_where split: if_splits)
  moreover have "in_flight db' \<subseteq> in_flight db" if "\<not> b"
    using that by (auto simp: in_flight_def o b set_update_where list_ex_iff split: if_splits)
  ultimately show ?thesis by blast
qed

lemma submitted_flights:
  assumes "submit_records env rs db = (m, us, db')" "in_outbox K db"
  shows "in_outbox K db' \<and> in_flight db' \<subseteq> in_flight db \<union> set us \<and>
     (\<forall>ers. m = Inr ers \<longrightarrow> us = map (rec_uuid \<circ> fst) ers \<and> fst ` set ers \<subseteq> set rs)"
  using assms
proof (induction rs arbitrary: m us db db')
  case (Cons r rs)
  obtain b db1 where mark: "mark_workspace_delivery_submitting (de_now env) (rec_uuid r) db = (b, db1)" by fastforce
  note marked = marked_flights [OF this Cons.prems(2)]
  obtain m2 us2 db2 where rest: "submit_records env rs db1 = (m2, us2, db2)" by (metis prod_cases3)
  note IH = Cons.IH [OF this conjunct1 [OF marked]]
  show ?case
  proof (cases "account_is_active (rec_account_uuid r) (bd_queue db)")
    case False
    with Cons.prems show ?thesis using Cons.IH [of db m us db'] by (auto simp: image_subset_iff)
  next
    case active: True
    show ?thesis
    proof (cases b)
      case False
      with active Cons.prems(1) rest mark have "m2 = m" "us2 = us" "db2 = db'" by auto
      with IH marked False show ?thesis by (auto simp: image_subset_iff)
    next
      case True
      show ?thesis
      proof (cases "command_payload (de_uuid5 env) (de_sha256 env) (bd_queue db1) (record_dict r)")
        case (Inl e)
        with active True Cons.prems(1) mark have "m = Inl e" "us = [rec_uuid r]" "db' = db1" by auto
        with marked show ?thesis by auto
      next
        case (Inr c)
        with active True Cons.prems(1) mark rest
        have "m = bindE m2 (\<lambda>ers. Inr ((r, c) # ers))" "us = rec_uuid r # us2" "db' = db2" by auto
        with marked IH show ?thesis by (auto simp: bindE_eq_Inr image_subset_iff) (metis fst_conv)+
      qed
    qed
  qed
qed auto

lemma promote_flights:
  "bd_outbox db' = promote r lo hi pick (bd_outbox db) \<Longrightarrow> lands K {} db db'"
  by (rule lands_update [where p = "\<lambda>a. lo = 0 \<and> unfinished a \<and> filter (lends r lo hi a) (bd_outbox db) \<noteq> []" and
        f = "\<lambda>a. a\<lparr>dv_priority := dv_priority (pick (filter (lends r lo hi a) (bd_outbox db)))\<rparr>"])
    (auto simp: promote_def update_where_def delivery_key_def flying_def)

lemma pending_flights:
  assumes "coherent_keys K" "pending_workspace_deliveries now pick lo hi limit db = Inr (rs, db')" "in_outbox K db"
  shows "lands K {} db db' \<and> record_key ` set rs \<subseteq> K"
proof -
  let ?s1 = "promote read_awaits lo hi pick (bd_outbox db)"
  let ?s2 = "promote reaction_lends lo hi pick ?s1"
  from assms(2) have o: "bd_outbox db' = promote topic_awaits lo hi pick ?s2" and rs: "set rs \<subseteq> dv_record ` set (bd_outbox db')"
    by (auto simp: pending_workspace_deliveries_def bindE_eq_Inr Let_def inherit_priorities_def ready_deliveries_def
        dest!: in_set_takeD split: if_splits)
  have "lands K {} db (db\<lparr>bd_outbox := ?s1\<rparr>)" by (rule promote_flights) simp
  moreover have "lands K {} (db\<lparr>bd_outbox := ?s1\<rparr>) (db\<lparr>bd_outbox := ?s2\<rparr>)" by (rule promote_flights) simp
  moreover have "lands K {} (db\<lparr>bd_outbox := ?s2\<rparr>) db'" by (rule promote_flights) (simp add: o)
  ultimately have l: "lands K {} db db'" by (blast intro: lands_trans0)
  have "record_key (dv_record d) \<in> K" if "d \<in> set (bd_outbox db')" for d
  proof -
    from l assms(3) that have k: "delivery_key d \<in> K" by (auto simp: lands_def in_outbox_def image_subset_iff simp del: split_paired_All)
    with assms(1) have "record_key (dv_record d) = delivery_key d" by (auto simp: coherent_keys_def delivery_key_def record_key_def)
    with k show ?thesis by simp
  qed
  with rs l show ?thesis by blast
qed

lemma lands_release: "lands K (set us) db (release_provider_event_submissions now us db)"
  by (rule lands_update [where p = "\<lambda>d. dv_record_uuid d \<in> set us \<and> dv_state d = ''submitting'' \<and> dv_sent_at d = None"])
    (auto simp: release_provider_event_submissions_def delivery_key_def flying_def)

lemma dr_db_retry [simp]:
  "dr_db (defer_provider_delivery env e run) = dr_db run" "dr_db (clear_provider_delivery_retry run) = dr_db run"
  "dr_db (on_db f run) = f (dr_db run)"
  by (auto simp: defer_provider_delivery_def clear_provider_delivery_retry_def on_db_def Let_def split: flush_error.splits)

lemma lands_submitted:
  assumes "submit_records env rs db = (m, us, db')" "lands K (set us) db' db''" shows "lands K {} db db''"
proof (cases "in_outbox K db")
  case True
  note submitted_flights [OF assms(1) this]
  with assms(2) have "in_outbox K db''" "in_flight db'' \<subseteq> in_flight db' - set us" "in_flight db' \<subseteq> in_flight db \<union> set us"
    by (simp_all add: lands_def in_outbox_def)
  then show ?thesis by (auto simp only: lands_def in_outbox_def)
qed (simp add: lands_def in_outbox_def)

lemma brings_requests:
  assumes "coherent_keys K" "brings K {} between" "submit_records env rs db = (m, us, db')" "in_outbox K db"
    and "record_key ` set rs \<subseteq> K"
  shows "brings K (set us) (andthen (lift m) (\<lambda>ers. if ers = [] then finished 0 else apply_records env between ers))"
proof (subst Un_empty_left [symmetric], rule brings_andthen [OF brings_lift])
  fix run run1 :: "'a delivery_run" and ers assume "lift m run = (Inr ers, run1)"
  then have "us = map (rec_uuid \<circ> fst) ers" "fst ` set ers \<subseteq> set rs"
    using submitted_flights [OF assms(3,4)] by (auto simp: lift_def split: sum.splits)
  moreover from this(2) assms(5) have "record_key ` fst ` set ers \<subseteq> K" by blast
  ultimately show "brings K (set us) (if ers = [] then finished 0 else apply_records env between ers)"
    using brings_apply [OF assms(1,2), of ers env] by (simp add: image_comp)
qed

text \<open>What was marked is released when the request fails, and has landed when it succeeds.\<close>

lemma brings_flush:
  assumes "coherent_keys K" "brings K {} between"
  shows "brings K {} (flush_locked env between defer_failure lo hi limit)"
proof -
  have "lands K {} (dr_db run) (dr_db (snd (flush_locked env between defer_failure lo hi limit run)))"
    if "in_outbox K (dr_db run)" and p: "pending_workspace_deliveries (de_now env) (de_pick env) lo hi limit (dr_db run) = Inr (rs, db1)"
    for run rs db1
  proof -
    obtain m us db2 where submit: "submit_records env rs db1 = (m, us, db2)" by (metis prod_cases3)
    let ?act = "andthen (lift m) (\<lambda>ers. if ers = [] then finished 0 else apply_records env between ers)"
    obtain m3 run3 where act: "?act (run\<lparr>dr_db := db2\<rparr>) = (m3, run3)" by fastforce
    note pending = pending_flights [OF assms(1) p that(1)]
    then have "in_outbox K db1" using that(1) by (simp add: lands_def in_outbox_def)
    from spec [OF brings_requests [OF assms submit this, unfolded brings_def], of "run\<lparr>dr_db := db2\<rparr>"] pending
    have l: "lands K (case m3 of Inl _ \<Rightarrow> {} | Inr _ \<Rightarrow> set us) db2 (dr_db run3)" by (simp add: act)
    have "lands K (set us) db2 (dr_db (snd (flush_locked env between defer_failure lo hi limit run)))"
    proof (cases m3)
      case (Inl e)
      with l lands_trans [OF _ lands_release, of K "{}" db2 "dr_db run3" us "de_now env"]
      show ?thesis by (simp add: flush_locked_def p submit Let_def act)
    next
      case (Inr n)
      with l lands_finalize [OF assms(1), of "de_nfc env" "de_sha256 env" "de_now env" "dr_db run3"]
        lands_trans [of K "set us" db2 "dr_db run3" "{}"]
      show ?thesis by (auto simp: flush_locked_def p submit Let_def act split: sum.split prod.split)
    qed
    from lands_submitted [OF submit this] pending show ?thesis by (blast intro: lands_trans0)
  qed
  moreover have "snd (flush_locked env between defer_failure lo hi limit run) = run"
    if "pending_workspace_deliveries (de_now env) (de_pick env) lo hi limit (dr_db run) = Inl e" for run e
    using that by (simp add: flush_locked_def)
  ultimately have "lands K {} (dr_db run) (dr_db (snd (flush_locked env between defer_failure lo hi limit run)))"
    if "in_outbox K (dr_db run)" for run
    using that by (cases "pending_workspace_deliveries (de_now env) (de_pick env) lo hi limit (dr_db run)") auto
  then show ?thesis by (auto simp: brings_def lands_def in_outbox_def split: sum.split simp del: image_subset_iff)
qed

section \<open>Nothing is left in flight\<close>

text \<open>An outbox as the program writes it, and the records that it has marked as submitted.\<close>

definition coherent_outbox :: "bridge_db \<Rightarrow> bool" where
  "coherent_outbox db =
     (list_all (\<lambda>d. delivery_key d = record_key (dv_record d)) (bd_outbox db) \<and> distinct (map dv_record_uuid (bd_outbox db)))"

definition flights :: "bridge_db \<Rightarrow> uuid list" where
  "flights db = map dv_record_uuid (filter flying (bd_outbox db))"

lemma coherent_outbox_keys:
  assumes "coherent_outbox db" shows "coherent_keys (delivery_key ` set (bd_outbox db))"
proof -
  from assms have keys: "delivery_key d = record_key (dv_record d)" if "d \<in> set (bd_outbox db)" for d
    using that by (simp add: coherent_outbox_def list_all_iff)
  from assms have "inj_on dv_record_uuid (set (bd_outbox db))" by (simp add: coherent_outbox_def distinct_map)
  then have "inj_on fst (delivery_key ` set (bd_outbox db))"
    by (intro inj_onI) (auto simp: delivery_key_def dest: inj_onD)
  then show ?thesis using keys by (auto simp: coherent_keys_def delivery_key_def record_key_def)
qed

lemma landed_flights: "lands (delivery_key ` set (bd_outbox db)) {} db db' \<Longrightarrow> set (flights db') \<subseteq> set (flights db)"
  by (auto simp: lands_def flights_def in_flight_def)

lemma brings_returns: "brings K {} (\<lambda>run. (m run, run))"
  by (rule brings_same) simp

lemma brings_if: "brings K {} f \<Longrightarrow> brings K {} g \<Longrightarrow> brings K {} (\<lambda>run. if p run then f run else g run)"
  by (simp add: brings_def)

lemma brings_looks [simp]:
  "brings K {} (ready_live_workspace_delivery_pending env)" "brings K {} (live_workspace_delivery_pending env)"
  "brings K {} (claim_history_quantum env)"
  by (auto simp: ready_live_workspace_delivery_pending_def live_workspace_delivery_pending_def claim_history_quantum_def
      lift_def intro!: brings_same)

lemma brings_provider_events: "coherent_keys K \<Longrightarrow> brings K {} (flush_provider_events env lo hi limit)"
  unfolding flush_provider_events_def [abs_def] by (intro brings_if brings_returns brings_flush) simp_all

lemma brings_prioritize: "coherent_keys K \<Longrightarrow> brings K {} (prioritize_live env)"
  by (auto simp: prioritize_live_def intro!: brings_andthen0 brings_flush)

lemma brings_history: "coherent_keys K \<Longrightarrow> brings K {} (flush_history_events env)"
  unfolding flush_history_events_def Let_def
  by (intro brings_andthen0 brings_if brings_returns brings_flush brings_prioritize) simp_all

lemma brings_flights:
  "brings (delivery_key ` set (bd_outbox (dr_db run))) {} act \<Longrightarrow> set (flights (dr_db (snd (act run)))) \<subseteq> set (flights (dr_db run))"
  by (rule landed_flights) (auto simp: brings_def split: sum.splits dest!: spec [of _ run])

text \<open>
  C19. No flush leaves a record marked as submitted: whatever the data plane answers, also when a
  request fails in the middle of its halves, a record that is in flight afterwards was so before.
\<close>

theorem flush_leaves_none_submitting:
  assumes "coherent_outbox (dr_db run)"
  shows "set (flights (dr_db (snd (flush_provider_events env lo hi limit run)))) \<subseteq> set (flights (dr_db run)) \<and>
    set (flights (dr_db (snd (flush_history_events env run)))) \<subseteq> set (flights (dr_db run))"
  using coherent_outbox_keys [OF assms] by (simp add: brings_flights brings_provider_events brings_history)

section \<open>A sample data plane\<close>

text \<open>It rejects commands of one kind and chooses the identifier of every object.\<close>

definition sample_judge :: "provider_command \<Rightarrow> int option" where
  "sample_judge c = (if pc_kind c = ''unknown'' then Some 422 else None)"

definition sample_target :: "provider_command \<Rightarrow> uuid option" where
  "sample_target c = Some (''w-'' @ pc_key c)"

definition sample_delivery :: "unit delivery_env" where
  "sample_delivery =
     \<lparr>de_now = 20, de_tick = 0, de_reactions = \<lparr>re_nfc = id, re_age = (\<lambda>_. 0)\<rparr>, de_nfc = id, de_sha256 = id, de_uuid5 = id,
      de_uuid4 = rec_uuid, de_pick = hd, de_uniform = (\<lambda>_ hi. hi), de_batch = 20,
      de_api = (\<lambda>cs w. (case List.map_filter sample_judge cs of
          [] \<Rightarrow> Applied (map (applied sample_target) cs) | status # _ \<Rightarrow> Event_Rejected status, w))\<rparr>"

definition sample_command :: "string \<Rightarrow> string \<Rightarrow> provider_command" where
  "sample_command key kind =
     \<lparr>pc_key = key, pc_delivery_uuid = key, pc_account = ''a1'', pc_chat_key = ''channel:7'', pc_sequence = VInt 1, pc_class = ''live'',
      pc_kind = kind, pc_object = (''message'', ''m1''), pc_references = [], pc_payload = []\<rparr>"

theorem rejected_one_by_one_witness:
  "apply_records sample_delivery (finished ())
     [(sample_change ''o1'' 1 ''message.create'' ''m1'' [], sample_command ''o1'' ''unknown''),
      (sample_change ''o2'' 2 ''message.create'' ''m2'' [], sample_command ''o2'' ''message'')] =
   apply_each sample_delivery sample_judge sample_target
     [(sample_change ''o1'' 1 ''message.create'' ''m1'' [], sample_command ''o1'' ''unknown''),
      (sample_change ''o2'' 2 ''message.create'' ''m2'' [], sample_command ''o2'' ''message'')]"
proof (rule rejected_one_by_one)
  show "judges sample_delivery sample_judge sample_target" by (simp add: judges_def sample_delivery_def)
qed simp_all

definition sample_run :: "unit delivery_run" where
  "sample_run =
     \<lparr>dr_index = no_index, dr_db = sample_outbox ''pending'', dr_world = (), dr_attempts = 0, dr_retry_after = 0, dr_last_quantum = 0,
      dr_stalled_since = None, dr_stall_reported = False\<rparr>"

theorem flush_leaves_none_submitting_witness:
  "flights (dr_db (snd (flush_provider_events sample_delivery 0 0 10 sample_run))) = []"
proof -
  have "coherent_outbox (dr_db sample_run)" by code_simp
  moreover have "flights (dr_db sample_run) = []" by code_simp
  ultimately show ?thesis using flush_leaves_none_submitting [of sample_run sample_delivery 0 0 10] by simp
qed

end
