(* ===== verification/Spec2Isabelle.thy ===== *)
theory Spec2Isabelle
  imports Canonical Emoji History Breaker_Properties Projection_Properties Desired_Properties Protocol_Properties
    Catchup_Properties Capture_Properties Command_Properties Report_Properties State_Pruning Flush_Properties
begin

text \<open>
  A verification development of the Workspace Zulip bridge.

  The bridge (\<open>src/workspace_zulip_bridge\<close>) connects Workspace accounts to Zulip. Operations
  that users make in Workspace are leased from a private data plane, stored in a PostgreSQL
  queue, sent to Zulip by a scheduler and reported back. Events of Zulip are journalled,
  converted and delivered to Workspace. A control plane says which accounts and chats are
  active. The development models the path of an operation from its lease to the report of
  its result, the control state that gates it, the journal of provider events with the recovery
  of a lost event queue, the way of a converted event from its prepared records through the
  delivery outbox to the result that Workspace accepts, the directory that configures history
  imports and the jobs that capture history, the reports to the control plane, and the pure
  modules both directions share. The conversion of an event into records is outside.

  \<^bold>\<open>Conventions\<close> (\<open>Bridge_Prelude\<close>, \<open>Python_Strings\<close>). A Python object is a
  \<^typ>\<open>pyval\<close>, a dictionary an insertion-ordered association list, a string its UTF-8 bytes, an
  exception a value \<^typ>\<open>pyerror\<close> of a sum type, a point in time an integer number of
  microseconds. A database is a record of tables (\<open>Queue_Tables\<close>); a transaction is a function
  that returns a value and the new database or raises, which leaves the database as it was.
  UUID columns hold the canonical text. NFC normalisation, SHA-256, \<open>uuid4\<close> and \<open>uuid5\<close>, the
  clocks, the random delay, row locks held by others, the Zulip adapter and the HTTP calls of
  the data plane are arguments of the definitions that use them.

  \<^bold>\<open>Theories.\<close>
  \<^item> \<open>Canonical\<close> (\<open>canonical.py\<close>): normalisation, canonical JSON and operation digests; the
    encoding is injective, and equal digests bind every digested field unless SHA-256 collides.
  \<^item> \<open>Emoji\<close> (\<open>emoji.py\<close>): emoji codes; they round-trip and are canonical.
  \<^item> \<open>Keyed_Merge\<close> and \<open>History\<close> (\<open>history.py\<close>): snapshots of messages and the merge of batches;
    merging is associative, idempotent, commutes for different observers and keeps batches
    well formed; the walk along exception causes ends.
  \<^item> \<open>Queue_Tables\<close>, \<open>Operation_Queue\<close>, \<open>Provider_Mappings\<close>, \<open>Queue_Completion\<close> (\<open>storage.py\<close>,
    migrations 0000, 0001 and 0017): the tables, lane allocation, \<open>enqueue\<close>,
    \<open>bind_provider_lease\<close>, both claims, the reaper, \<open>complete\<close> with the mappings it writes,
    retries, uncertain sends and their checks, manual reconciliation, results.
  \<^item> \<open>Transition_Systems\<close>, \<open>Queue_Invariants\<close>, \<open>Queue_Protocol\<close>, \<open>Queue_Properties\<close>: the queue as
    a step relation with one rule per transaction, crashes included, its invariant, and the
    properties of all reachable states: order inside a lane, no replay, no blind resend,
    terminal outcomes are final, a lane always has its next operation, and the two claims
    cover every due operation.
  \<^item> \<open>Scheduler\<close>, \<open>Scheduler_Properties\<close> (\<open>scheduler.py\<close>): one pass of the sender and of the
    reconciler with every exception branch. The locale \<open>account_handlers\<close> states what the
    scheduler needs of the account handlers; every pass refines the step relation.
  \<^item> \<open>Desired_State\<close>, \<open>Account_Breaker\<close>, \<open>Breaker_Properties\<close> (\<open>storage.py\<close>, \<open>service.py\<close>,
    \<open>control.py\<close>): validation and readers of desired state, the account circuit breaker and the
    service handlers, which interpret \<open>account_handlers\<close>; failures are fenced by generation,
    quarantine is sticky, backoff is bounded.
  \<^item> \<open>Workspace_Projection\<close>, \<open>Projection_Properties\<close>, \<open>Desired_Properties\<close> (\<open>storage.py\<close>):
    applying changes and snapshots, and the projection of assignments onto the mappings; the
    projection never violates a key, routes what it names and keeps displaced topics routable;
    a page of changes that is delivered twice has no further effect.
  \<^item> \<open>Provider_Protocol\<close>, \<open>Protocol_Properties\<close> (\<open>provider_protocol.py\<close>, \<open>service.py\<close>): leased
    operations, results, conversation keys, the polling and the reporting loop; a renewed
    lease finds the operation it renews, and conversation keys are canonical.
  \<^item> \<open>Bridge_Tables\<close>: the tables of the Zulip-to-Workspace direction, joined to those of desired
    state.
  \<^item> \<open>History_Directory\<close>, \<open>Directory_Refresh\<close>, \<open>Directory_Properties\<close>
    (\<open>history_configuration.py\<close>, \<open>history_failure_reports.py\<close>): the directory of chats that an
    account may import, its invalidation, claim, refresh and retry, and the reports of failed
    imports; a directory is acknowledged for the configuration it was read under, a stale
    refresh has no effect, and reconciliation is idempotent.
  \<^item> \<open>Event_Lanes\<close>, \<open>Event_Journal\<close>, \<open>Event_Processing\<close>, \<open>Journal_Properties\<close> (\<open>storage.py\<close>,
    \<open>service.py\<close>): ordering lanes of events, the recording of events and cursors, the selection of
    the next events, retries, narrowing and release; events of a lane are selected in order,
    a journal with a due head always offers an event, and the readiness probe agrees with the
    selection.
  \<^item> \<open>Queue_Catchup\<close>, \<open>Catchup_Properties\<close> (\<open>storage.py\<close>, \<open>service.py\<close>): the jobs that page
    through message history after an event queue was lost; a completed page turns exactly the
    mapped messages that vanished into deletions.

  \<^item> \<open>Participant_Sync\<close>, \<open>Fair_Rotation\<close>, \<open>History_Capture\<close>, \<open>Capture_Pass\<close>, \<open>Batch_Digest\<close>,
    \<open>Rotation_Properties\<close>, \<open>Capture_Properties\<close> (\<open>storage.py\<close>, \<open>service.py\<close>, \<open>history.py\<close>): jobs
    that read the participants and the history of a chat, their leases and rotation, and the
    compare-and-swap write of a batch; no account starves, a claim is exclusive, only the
    holder of a lease writes, and no update of a batch is lost.
  \<^item> \<open>Provider_Commands\<close>, \<open>Command_Properties\<close> (\<open>provider_protocol.py\<close>): records as events and
    commands of the data plane; equal keys bind the provider state.
  \<^item> \<open>Observed_Reports\<close>, \<open>Report_Flush\<close>, \<open>Report_Properties\<close> (\<open>storage.py\<close>, \<open>service.py\<close>): the outbox
    of reports and the reporter; only the newest report of a resource is offered, and a
    promised report is in the outbox.
  \<^item> \<open>Delivery_Enqueue\<close>, \<open>Delivery_Selection\<close>, \<open>Delivery_Submission\<close> (\<open>storage.py\<close>): records are
    prepared and enqueued, the ready ones are selected by priority and dependency, and they
    are marked, released, rejected or finished together with their event.
  \<^item> \<open>Reaction_Mappings\<close>, \<open>Confirmed_Delivery\<close>, \<open>Delivery_Results\<close> (\<open>storage.py\<close>, readers in
    \<open>converter.py\<close>): what an accepted result changes: mappings, confirmed state with its index in
    memory, and the records that move to the identifier Workspace has chosen.
  \<^item> \<open>Delivery_Flush\<close>, \<open>Delivery_Recovery\<close>, \<open>State_Pruning\<close> (\<open>service.py\<close>, \<open>storage.py\<close>): the
    submitter with the isolation of rejected records, recovery after a restart or a changed
    assignment, and the pruning of finished rows.
  \<^item> \<open>Delivery_Properties\<close>: events end exactly with their records, rejections reach all records
    that were prepared on top of them, and what a record waits for inherits its turn, so that
    records never lock each other out.
  \<^item> \<open>Records_In_Flight\<close>, \<open>Flush_Properties\<close>: no flush leaves a record marked as submitted, and the
    halving of a rejected request has the effect of one request per record.

  \<^bold>\<open>Bounds and loops.\<close> No definition uses fuel: every loop of the code that is modelled runs
  over a list or has a termination proof (the quarantine of dependent records by the number
  of waiting records, the confirmation of nested state by its size, the halving of a rejected
  request by its length).

  \<^bold>\<open>What the model leaves out.\<close> The queue tables hold the operations of origin \<open>workspace\<close>;
  rows of origin \<open>zulip\<close>, which the projection reset deletes, are outside. Reports that the
  account handlers put into the outbox are returned as values. Advisory locks serialise
  transactions and have no effect inside one. Counters of metrics are left out. Not modelled are
  HTTP transport, TLS and file access (\<open>provider_api.py\<close> apart from the checks of a request,
  \<open>file_api.py\<close>, \<open>control.py\<close> apart from its tables, \<open>mtls.py\<close>), the Zulip client calls
  (\<open>zulip_adapter.py\<close>), the conversion of events and Markdown (\<open>converter.py\<close> apart from stable
  identifiers and confirmed state, \<open>markdown_conversion.py\<close>), the publication of history batches
  (\<open>history_delivery.py\<close>), enrollment, credentials, configuration, and the threads and timers of
  \<open>service.py\<close>.
\<close>

end
